(* ===== verification/Prelude.thy ===== *)
theory Prelude
  imports
    Main
    "HOL-Library.List_Lexorder"
    "HOL-Library.Char_ord"
    "HOL-Library.Product_Lexorder"
    "HOL-Library.Multiset"
begin

text \<open>
  The vocabulary every other theory of the development shares:
  \<^item> the error monad \<open>'e + 'a\<close> with \<open>tryE\<close>, the model of Rust's \<open>?\<close> operator, and
    \<open>foldE\<close>, a \<open>for\<close> loop whose body may return early with an error;
  \<^item> the string functions of the Rust standard library the sources call (\<open>trim\<close>,
    \<open>to_ascii_lowercase\<close>, \<open>contains\<close>, \<open>starts_with\<close>, \<open>replace\<close>, \<open>format!\<close>);
  \<^item> \<open>sort_by\<close>, a stable sort for a comparator, and the facts on \<open>sort\<close> followed by \<open>dedup\<close>;
  \<^item> keyed rows of a table (\<open>find_row\<close>, \<open>update_where\<close>) and the locale \<open>row_table\<close>, the
    interface of one table of a store;
  \<^item> the locales \<open>string_enum\<close> (an enumeration and its text form) and
    \<open>invariant_system\<close> (a step relation with an invariant).

  Strings are lists of \<open>char\<close>, read as the bytes of the program's UTF-8 text; \<open>trim\<close> and the
  case functions act on the ASCII range, so texts are assumed to use ASCII white space only.
\<close>

section \<open>Proof collections\<close>

named_theorems frame_simps \<open>what an operation leaves unchanged in the store\<close>
named_theorems guard_dests \<open>what a successful guard tells about its arguments\<close>

section \<open>Results\<close>

fun tryE :: "'e + 'a \<Rightarrow> ('a \<Rightarrow> 'e + 'b) \<Rightarrow> 'e + 'b" where
  "tryE (Inl e) f = Inl e"
| "tryE (Inr x) f = f x"

lemma tryE_Inr_iff [simp]: "tryE m f = Inr y \<longleftrightarrow> (\<exists>x. m = Inr x \<and> f x = Inr y)"
  by (cases m) auto

lemma tryE_Inl_iff: "tryE m f = Inl e \<longleftrightarrow> m = Inl e \<or> (\<exists>x. m = Inr x \<and> f x = Inl e)"
  by (cases m) auto

lemma tryE_cong [fundef_cong]:
  "m = m' \<Longrightarrow> (\<And>x. m' = Inr x \<Longrightarrow> f x = g x) \<Longrightarrow> tryE m f = tryE m' g"
  by (cases m') auto

definition guardE :: "bool \<Rightarrow> 'e \<Rightarrow> 'e + unit" where
  "guardE b e = (if b then Inr () else Inl e)"

lemma guardE_Inr [simp]: "guardE b e = Inr u \<longleftrightarrow> b"
  by (simp add: guardE_def)

lemma guardE_Inl [simp]: "guardE b e = Inl e' \<longleftrightarrow> \<not> b \<and> e' = e"
  by (auto simp: guardE_def)

lemma guardE_True [simp]: "guardE True e = Inr ()"
  by (simp add: guardE_def)

lemma guardE_False [simp]: "guardE False e = Inl e"
  by (simp add: guardE_def)

definition is_ok :: "'e + 'a \<Rightarrow> bool" where
  "is_ok m = (case m of Inl _ \<Rightarrow> False | Inr _ \<Rightarrow> True)"

lemma is_ok_simps [simp]: "is_ok (Inr x)" "\<not> is_ok (Inl e)"
  by (simp_all add: is_ok_def)

lemma is_ok_iff: "is_ok m \<longleftrightarrow> (\<exists>x. m = Inr x)"
  by (cases m) simp_all

definition map_err :: "('e \<Rightarrow> 'f) \<Rightarrow> 'e + 'a \<Rightarrow> 'f + 'a" where
  "map_err h m = (case m of Inl e \<Rightarrow> Inl (h e) | Inr x \<Rightarrow> Inr x)"

lemma map_err_Inr [simp]: "map_err h m = Inr x \<longleftrightarrow> m = Inr x"
  by (cases m) (simp_all add: map_err_def)

lemma map_err_Inl_arg [simp]: "map_err h (Inl e) = Inl (h e)"
  by (simp add: map_err_def)

lemma map_err_Inr_arg [simp]: "map_err h (Inr x) = Inr x"
  by (simp add: map_err_def)

fun foldE :: "('s \<Rightarrow> 'x \<Rightarrow> 'e + 's) \<Rightarrow> 's \<Rightarrow> 'x list \<Rightarrow> 'e + 's" where
  "foldE f s [] = Inr s"
| "foldE f s (x # xs) = tryE (f s x) (\<lambda>s'. foldE f s' xs)"

lemma foldE_invariant:
  assumes "foldE f s xs = Inr t" and "P s"
    and "\<And>s x s'. P s \<Longrightarrow> x \<in> set xs \<Longrightarrow> f s x = Inr s' \<Longrightarrow> P s'"
  shows "P t"
  using assms
proof (induction xs arbitrary: s)
  case Nil
  then show ?case by simp
next
  case (Cons x xs)
  from Cons.prems(1) obtain s' where s': "f s x = Inr s'" and rest: "foldE f s' xs = Inr t"
    by auto
  have "P s'" using Cons.prems(3) [OF Cons.prems(2) _ s'] by simp
  moreover have "\<And>s y s'. P s \<Longrightarrow> y \<in> set xs \<Longrightarrow> f s y = Inr s' \<Longrightarrow> P s'"
    using Cons.prems(3) by (meson list.set_intros(2))
  ultimately show ?case by (rule Cons.IH [OF rest])
qed

fun mapE :: "('x \<Rightarrow> 'e + 'y) \<Rightarrow> 'x list \<Rightarrow> 'e + 'y list" where
  "mapE f [] = Inr []"
| "mapE f (x # xs) = tryE (f x) (\<lambda>y. tryE (mapE f xs) (\<lambda>ys. Inr (y # ys)))"

lemma mapE_Inr_set:
  "mapE f xs = Inr ys \<Longrightarrow> y \<in> set ys \<Longrightarrow> \<exists>x\<in>set xs. f x = Inr y"
  by (induction xs arbitrary: ys) auto

lemma mapE_Inr_all:
  "mapE f xs = Inr ys \<Longrightarrow> x \<in> set xs \<Longrightarrow> \<exists>y. f x = Inr y"
  by (induction xs arbitrary: ys) auto

section \<open>Strings\<close>

definition is_whitespace :: "char \<Rightarrow> bool" where
  "is_whitespace c \<longleftrightarrow> c \<in> set [CHR 0x09, CHR 0x0A, CHR 0x0B, CHR 0x0C, CHR 0x0D, CHR '' '']"

definition trim_start :: "string \<Rightarrow> string" where
  "trim_start s = dropWhile is_whitespace s"

definition trim_end :: "string \<Rightarrow> string" where
  "trim_end s = rev (dropWhile is_whitespace (rev s))"

definition trim :: "string \<Rightarrow> string" where
  "trim s = trim_end (trim_start s)"

definition is_ascii_lowercase :: "char \<Rightarrow> bool" where
  "is_ascii_lowercase c \<longleftrightarrow> CHR ''a'' \<le> c \<and> c \<le> CHR ''z''"

definition is_ascii_digit :: "char \<Rightarrow> bool" where
  "is_ascii_digit c \<longleftrightarrow> CHR ''0'' \<le> c \<and> c \<le> CHR ''9''"

definition to_ascii_lowercase :: "string \<Rightarrow> string" where
  "to_ascii_lowercase s =
     map (\<lambda>c. if CHR ''A'' \<le> c \<and> c \<le> CHR ''Z'' then char_of (of_char c + (32 :: nat)) else c) s"

fun starts_with :: "string \<Rightarrow> string \<Rightarrow> bool" where
  "starts_with s [] = True"
| "starts_with [] (p # ps) = False"
| "starts_with (c # cs) (p # ps) = (c = p \<and> starts_with cs ps)"

fun contains_str :: "string \<Rightarrow> string \<Rightarrow> bool" where
  "contains_str [] p = (p = [])"
| "contains_str (c # cs) p = (starts_with (c # cs) p \<or> contains_str cs p)"

definition ends_with_char :: "string \<Rightarrow> char \<Rightarrow> bool" where
  "ends_with_char s c = (case rev s of [] \<Rightarrow> False | d # _ \<Rightarrow> d = c)"

definition replace_char :: "char \<Rightarrow> char \<Rightarrow> string \<Rightarrow> string" where
  "replace_char a b s = map (\<lambda>c. if c = a then b else c) s"

definition format :: "string list \<Rightarrow> string" where
  "format parts = concat parts"

abbreviation sq :: string where
  "sq \<equiv> [CHR 0x27]"

fun join :: "string \<Rightarrow> string list \<Rightarrow> string" where
  "join sep [] = []"
| "join sep [x] = x"
| "join sep (x # y # ys) = x @ sep @ join sep (y # ys)"

fun show_nat :: "nat \<Rightarrow> string" where
  "show_nat n =
     (if n < 10 then [char_of (48 + n)] else show_nat (n div 10) @ [char_of (48 + n mod 10)])"

declare show_nat.simps [simp del]

definition show_int :: "int \<Rightarrow> string" where
  "show_int i = (if i < 0 then CHR ''-'' # show_nat (nat (- i)) else show_nat (nat i))"

lemma starts_with_append: "starts_with s p \<longleftrightarrow> (\<exists>t. s = p @ t)"
  by (induction s p rule: starts_with.induct) auto

lemma dropWhile_idem [simp]: "dropWhile P (dropWhile P xs) = dropWhile P xs"
  by (induction xs) auto

lemma trim_start_idem [simp]: "trim_start (trim_start s) = trim_start s"
  by (simp add: trim_start_def)

lemma trim_end_idem [simp]: "trim_end (trim_end s) = trim_end s"
  by (simp add: trim_end_def)

lemma trim_end_Cons:
  "trim_end (c # cs) = (if trim_end cs = [] \<and> is_whitespace c then [] else c # trim_end cs)"
  by (auto simp: trim_end_def dropWhile_append)

lemma trim_start_trim_end: "trim_start (trim_end s) = trim_end (trim_start s)"
proof (induction s)
  case Nil
  then show ?case by (simp add: trim_start_def trim_end_def)
next
  case (Cons c s)
  have "trim_end [] = []" by (simp add: trim_end_def)
  with Cons show ?case by (auto simp: trim_end_Cons trim_start_def)
qed

lemma trim_idem [simp]: "trim (trim s) = trim s"
  by (simp add: trim_def trim_start_trim_end)

lemma trim_Nil [simp]: "trim [] = []"
  by (simp add: trim_def trim_start_def trim_end_def)

section \<open>Stable sorting by a comparator\<close>

fun insert_by :: "('a \<Rightarrow> 'a \<Rightarrow> bool) \<Rightarrow> 'a \<Rightarrow> 'a list \<Rightarrow> 'a list" where
  "insert_by le x [] = [x]"
| "insert_by le x (y # ys) = (if le x y then x # y # ys else y # insert_by le x ys)"

definition sort_by :: "('a \<Rightarrow> 'a \<Rightarrow> bool) \<Rightarrow> 'a list \<Rightarrow> 'a list" where
  "sort_by le xs = foldr (insert_by le) xs []"

lemma sort_by_simps [simp]:
  "sort_by le [] = []"
  "sort_by le (x # xs) = insert_by le x (sort_by le xs)"
  by (simp_all add: sort_by_def)

lemma mset_insert_by [simp]: "mset (insert_by le x ys) = add_mset x (mset ys)"
  by (induction ys) auto

lemma mset_sort_by [simp]: "mset (sort_by le xs) = mset xs"
  by (induction xs) auto

lemma set_sort_by [simp]: "set (sort_by le xs) = set xs"
  by (metis mset_sort_by set_mset_mset)

lemma length_sort_by [simp]: "length (sort_by le xs) = length xs"
  by (metis mset_sort_by size_mset)

lemma distinct_sort_by [simp]: "distinct (sort_by le xs) = distinct xs"
  by (metis mset_sort_by mset_eq_imp_distinct_iff)

lemma set_insert_by [simp]: "set (insert_by le x ys) = insert x (set ys)"
  by (induction ys) auto

lemma sorted_wrt_insert_by:
  assumes total: "\<And>a b. le a b \<or> le b a" and trans: "\<And>a b c. le a b \<Longrightarrow> le b c \<Longrightarrow> le a c"
  shows "sorted_wrt le ys \<Longrightarrow> sorted_wrt le (insert_by le x ys)"
proof (induction ys)
  case Nil
  then show ?case by simp
next
  case (Cons y ys)
  then show ?case using total [of x y] by (auto dest: trans)
qed

lemma sorted_wrt_sort_by:
  assumes "\<And>a b. le a b \<or> le b a" and "\<And>a b c. le a b \<Longrightarrow> le b c \<Longrightarrow> le a c"
  shows "sorted_wrt le (sort_by le xs)"
  by (induction xs) (simp_all add: sorted_wrt_insert_by [OF assms])

text \<open>\<open>Vec::sort\<close> followed by \<open>Vec::dedup\<close>: strictly increasing, same elements.\<close>

lemma sorted_remdups_adj_strict:
  fixes xs :: "'a::linorder list"
  shows "sorted xs \<Longrightarrow> sorted_wrt (<) (remdups_adj xs)"
  by (induction xs rule: remdups_adj.induct) (auto simp: order_le_less)

lemma sort_dedup_strict:
  fixes xs :: "'a::linorder list"
  shows "sorted_wrt (<) (remdups_adj (sort xs))"
  by (rule sorted_remdups_adj_strict) simp

lemma strict_sorted_unique:
  fixes xs :: "'a::linorder list"
  assumes "sorted_wrt (<) xs" "sorted_wrt (<) ys" "set xs = set ys"
  shows "xs = ys"
  using assms by (metis strict_sorted_equal)

lemma strict_sorted_sort_dedup:
  fixes xs :: "'a::linorder list"
  assumes "sorted_wrt (<) xs"
  shows "remdups_adj (sort xs) = xs"
  using assms by (intro strict_sorted_unique sort_dedup_strict) simp_all

section \<open>Keyed rows\<close>

definition find_row :: "('r \<Rightarrow> 'k) \<Rightarrow> 'k \<Rightarrow> 'r list \<Rightarrow> 'r option" where
  "find_row key k rows = List.find (\<lambda>r. key r = k) rows"

definition update_where :: "('r \<Rightarrow> bool) \<Rightarrow> ('r \<Rightarrow> 'r) \<Rightarrow> 'r list \<Rightarrow> 'r list" where
  "update_where p f rows = map (\<lambda>r. if p r then f r else r) rows"

lemma find_row_SomeD [guard_dests]: "find_row key k rows = Some r \<Longrightarrow> r \<in> set rows \<and> key r = k"
  by (auto simp: find_row_def find_Some_iff in_set_conv_nth)

lemma find_row_None_iff: "find_row key k rows = None \<longleftrightarrow> k \<notin> key ` set rows"
  by (auto simp: find_row_def find_None_iff)

lemma find_row_Nil [simp]: "find_row key k [] = None"
  by (simp add: find_row_def)

lemma find_row_Cons [simp]:
  "find_row key k (r # rows) = (if key r = k then Some r else find_row key k rows)"
  by (simp add: find_row_def)

lemma find_row_append:
  "find_row key k (xs @ ys) = (case find_row key k xs of None \<Rightarrow> find_row key k ys | Some r \<Rightarrow> Some r)"
  by (induction xs) auto

lemma find_row_distinct:
  "distinct (map key rows) \<Longrightarrow> r \<in> set rows \<Longrightarrow> find_row key (key r) rows = Some r"
  by (induction rows) auto

lemma set_update_where: "set (update_where p f rows) = (\<lambda>r. if p r then f r else r) ` set rows"
  by (simp add: update_where_def)

lemma update_where_keys [simp]:
  "(\<And>r. key (f r) = key r) \<Longrightarrow> map key (update_where p f rows) = map key rows"
  by (simp add: update_where_def)

lemma find_row_update_where:
  assumes "\<And>r. key (f r) = key r"
  shows "find_row key k (update_where p f rows) =
    map_option (\<lambda>r. if p r then f r else r) (find_row key k rows)"
  using assms by (induction rows) (auto simp: update_where_def)

lemma in_update_whereE:
  assumes "x \<in> set (update_where p f rs)"
  obtains r where "r \<in> set rs" "x = (if p r then f r else r)"
  using assms unfolding set_update_where by (rule imageE) (rule that)

lemma map_filter_update_where:
  assumes "\<And>r. key (f r) = key r" "\<And>r. Q (f r) = Q r"
  shows "map key (filter Q (update_where p f rs)) = map key (filter Q rs)"
  by (induction rs) (simp_all add: update_where_def assms)

lemma image_update_where:
  assumes "\<And>r. key (f r) = key r"
  shows "key ` set (update_where p f rs) = key ` set rs"
  by (induction rs) (simp_all add: update_where_def assms)

text \<open>
  The interface of one table of a store record: the rows, the record's update function for them
  and the primary key. What a client gets: a row inserted under a fresh key is the row found,
  an update in place is seen by the lookup of its key and by no other, and both keep the keys
  of the table distinct.
\<close>

locale row_table =
  fixes rows :: "'s \<Rightarrow> 'r list"
    and rows_update :: "('r list \<Rightarrow> 'r list) \<Rightarrow> 's \<Rightarrow> 's"
    and key :: "'r \<Rightarrow> 'k"
  assumes rows_rows_update: "rows (rows_update f s) = f (rows s)"
begin

lemma lookup_insert:
  assumes "find_row key (key r) (rows s) = None"
  shows "find_row key k (rows (rows_update (\<lambda>rs. rs @ [r]) s)) =
    (if k = key r then Some r else find_row key k (rows s))"
  using assms by (auto simp: rows_rows_update find_row_append split: option.splits)

lemma lookup_update:
  assumes "\<And>r. key (f r) = key r"
  shows "find_row key k (rows (rows_update (update_where (\<lambda>r. key r = k') f) s)) =
    (if k = k' then map_option f (find_row key k (rows s)) else find_row key k (rows s))"
proof (cases "find_row key k (rows s)")
  case None
  then show ?thesis by (auto simp: rows_rows_update find_row_update_where assms)
next
  case (Some r)
  then have "key r = k" by (blast dest: find_row_SomeD)
  with Some show ?thesis by (auto simp: rows_rows_update find_row_update_where assms)
qed

lemma distinct_insert:
  assumes "distinct (map key (rows s))" "find_row key (key r) (rows s) = None"
  shows "distinct (map key (rows (rows_update (\<lambda>rs. rs @ [r]) s)))"
  using assms by (auto simp: rows_rows_update find_row_None_iff)

lemma distinct_update:
  assumes "distinct (map key (rows s))" "\<And>r. key (f r) = key r"
  shows "distinct (map key (rows (rows_update (update_where p f) s)))"
  using assms by (simp add: rows_rows_update)

end

section \<open>Enumerations with a text form\<close>

definition match_str :: "string \<Rightarrow> (string \<times> 'a) list \<Rightarrow> 'a option" where
  "match_str s arms = map_of arms s"

text \<open>
  An enumeration with \<open>as_str\<close> and \<open>from_str\<close>, as the macro \<open>string_enum!\<close> generates them: the
  parser accepts exactly the texts the printer produces.
\<close>

locale string_enum =
  fixes as_str :: "'v \<Rightarrow> string"
    and from_str :: "string \<Rightarrow> string + 'v"
  assumes from_as: "from_str (as_str v) = Inr v"
    and as_from: "from_str s = Inr v \<Longrightarrow> as_str v = s"
begin

lemma as_str_inject: "as_str v = as_str w \<longleftrightarrow> v = w"
  using from_as by (metis Inr_inject)

lemma from_str_Inr_iff: "from_str s = Inr v \<longleftrightarrow> s = as_str v"
  using from_as as_from by blast

lemma from_str_fails_iff: "\<not> is_ok (from_str s) \<longleftrightarrow> s \<notin> range as_str"
  by (auto simp: is_ok_iff from_str_Inr_iff)

end

section \<open>Invariants of step relations\<close>

inductive reachable_from :: "('s \<Rightarrow> 's \<Rightarrow> bool) \<Rightarrow> 's \<Rightarrow> 's \<Rightarrow> bool"
  for step :: "'s \<Rightarrow> 's \<Rightarrow> bool" and s\<^sub>0 :: 's where
  start: "reachable_from step s\<^sub>0 s\<^sub>0"
| step: "reachable_from step s\<^sub>0 s \<Longrightarrow> step s t \<Longrightarrow> reachable_from step s\<^sub>0 t"

text \<open>The interface of a component whose operations all keep an invariant.\<close>

locale invariant_system =
  fixes step :: "'s \<Rightarrow> 's \<Rightarrow> bool"
    and inv :: "'s \<Rightarrow> bool"
  assumes step_inv: "inv s \<Longrightarrow> step s t \<Longrightarrow> inv t"
begin

lemma reachable_inv: "reachable_from step s\<^sub>0 t \<Longrightarrow> inv s\<^sub>0 \<Longrightarrow> inv t"
  by (induction rule: reachable_from.induct) (auto intro: step_inv)

end

end
