(* ===== verification/PlanningEnums.thy ===== *)
theory PlanningEnums
  imports Prelude
begin

text \<open>
  The enumerations of \<open>src/plugins/planning/src/model.rs\<close>. Each \<open>string_enum!\<close> of the source is a
  datatype with the source's variants (prefixed by the enum's name), its \<open>as_str\<close> and its
  \<open>from_str\<close>; every one is an instance of the interface \<open>string_enum\<close>, so printing and parsing
  a status is a round trip and the stored text determines the value. The rows of the model's
  tables can therefore hold the values themselves.
\<close>

definition enum_from_str :: "string \<Rightarrow> (string \<times> 'v) list \<Rightarrow> string \<Rightarrow> string + 'v" where
  "enum_from_str name arms value =
     (case match_str value arms of
        Some v \<Rightarrow> Inr v
      | None \<Rightarrow> Inl (format [''invalid '', name, '': '', value]))"

lemma string_enumI:
  assumes arms: "list_all (\<lambda>(t, v). as_str v = t) arms"
    and total: "\<And>v. map_of arms (as_str v) = Some v"
  shows "string_enum as_str (enum_from_str name arms)"
proof
  fix v s
  show "enum_from_str name arms (as_str v) = Inr v"
    by (simp add: enum_from_str_def match_str_def total)
  assume "enum_from_str name arms s = Inr v"
  then have "(s, v) \<in> set arms"
    by (auto simp: enum_from_str_def match_str_def split: option.splits dest: map_of_SomeD)
  with arms show "as_str v = s" by (auto simp: list_all_iff)
qed

datatype entity_type =
    EntityType_Scope
  | EntityType_Goal
  | EntityType_Roadmap
  | EntityType_RoadmapSection
  | EntityType_WorkPoint
  | EntityType_Plan
  | EntityType_Todo
  | EntityType_Issue
  | EntityType_ReviewPoint
  | EntityType_Insight
  | EntityType_ProjectRun
  | EntityType_GraphNode
  | EntityType_GraphEdge
  | EntityType_DiscoveryNode
  | EntityType_DiscoveryRelationship
  | EntityType_DiscoveryCheckpoint

fun entity_type_as_str :: "entity_type \<Rightarrow> string" where
  "entity_type_as_str EntityType_Scope = ''scope''"
| "entity_type_as_str EntityType_Goal = ''goal''"
| "entity_type_as_str EntityType_Roadmap = ''roadmap''"
| "entity_type_as_str EntityType_RoadmapSection = ''roadmap-section''"
| "entity_type_as_str EntityType_WorkPoint = ''work-point''"
| "entity_type_as_str EntityType_Plan = ''plan''"
| "entity_type_as_str EntityType_Todo = ''todo''"
| "entity_type_as_str EntityType_Issue = ''issue''"
| "entity_type_as_str EntityType_ReviewPoint = ''review-point''"
| "entity_type_as_str EntityType_Insight = ''insight''"
| "entity_type_as_str EntityType_ProjectRun = ''project-run''"
| "entity_type_as_str EntityType_GraphNode = ''graph-node''"
| "entity_type_as_str EntityType_GraphEdge = ''graph-edge''"
| "entity_type_as_str EntityType_DiscoveryNode = ''discovery-node''"
| "entity_type_as_str EntityType_DiscoveryRelationship = ''discovery-relationship''"
| "entity_type_as_str EntityType_DiscoveryCheckpoint = ''discovery-checkpoint''"

definition entity_type_from_str :: "string \<Rightarrow> string + entity_type" where
  "entity_type_from_str = enum_from_str ''EntityType''
     [(''scope'', EntityType_Scope),
      (''goal'', EntityType_Goal),
      (''roadmap'', EntityType_Roadmap),
      (''roadmap-section'', EntityType_RoadmapSection),
      (''work-point'', EntityType_WorkPoint),
      (''plan'', EntityType_Plan),
      (''todo'', EntityType_Todo),
      (''issue'', EntityType_Issue),
      (''review-point'', EntityType_ReviewPoint),
      (''insight'', EntityType_Insight),
      (''project-run'', EntityType_ProjectRun),
      (''graph-node'', EntityType_GraphNode),
      (''graph-edge'', EntityType_GraphEdge),
      (''discovery-node'', EntityType_DiscoveryNode),
      (''discovery-relationship'', EntityType_DiscoveryRelationship),
      (''discovery-checkpoint'', EntityType_DiscoveryCheckpoint)]"

interpretation entity_type: string_enum entity_type_as_str entity_type_from_str
  unfolding entity_type_from_str_def
  apply (rule string_enumI)
  subgoal by simp
  subgoal for v by (cases v) simp_all
  done

datatype goal_status =
    GoalStatus_Draft
  | GoalStatus_Proposed
  | GoalStatus_Active
  | GoalStatus_Validated
  | GoalStatus_Invalidated
  | GoalStatus_Superseded
  | GoalStatus_Abandoned

fun goal_status_as_str :: "goal_status \<Rightarrow> string" where
  "goal_status_as_str GoalStatus_Draft = ''draft''"
| "goal_status_as_str GoalStatus_Proposed = ''proposed''"
| "goal_status_as_str GoalStatus_Active = ''active''"
| "goal_status_as_str GoalStatus_Validated = ''validated''"
| "goal_status_as_str GoalStatus_Invalidated = ''invalidated''"
| "goal_status_as_str GoalStatus_Superseded = ''superseded''"
| "goal_status_as_str GoalStatus_Abandoned = ''abandoned''"

definition goal_status_from_str :: "string \<Rightarrow> string + goal_status" where
  "goal_status_from_str = enum_from_str ''GoalStatus''
     [(''draft'', GoalStatus_Draft),
      (''proposed'', GoalStatus_Proposed),
      (''active'', GoalStatus_Active),
      (''validated'', GoalStatus_Validated),
      (''invalidated'', GoalStatus_Invalidated),
      (''superseded'', GoalStatus_Superseded),
      (''abandoned'', GoalStatus_Abandoned)]"

interpretation goal_status: string_enum goal_status_as_str goal_status_from_str
  unfolding goal_status_from_str_def
  apply (rule string_enumI)
  subgoal by simp
  subgoal for v by (cases v) simp_all
  done

datatype roadmap_status =
    RoadmapStatus_Draft
  | RoadmapStatus_Proposed
  | RoadmapStatus_Active
  | RoadmapStatus_Blocked
  | RoadmapStatus_Completed
  | RoadmapStatus_Cancelled
  | RoadmapStatus_Invalidated

fun roadmap_status_as_str :: "roadmap_status \<Rightarrow> string" where
  "roadmap_status_as_str RoadmapStatus_Draft = ''draft''"
| "roadmap_status_as_str RoadmapStatus_Proposed = ''proposed''"
| "roadmap_status_as_str RoadmapStatus_Active = ''active''"
| "roadmap_status_as_str RoadmapStatus_Blocked = ''blocked''"
| "roadmap_status_as_str RoadmapStatus_Completed = ''completed''"
| "roadmap_status_as_str RoadmapStatus_Cancelled = ''cancelled''"
| "roadmap_status_as_str RoadmapStatus_Invalidated = ''invalidated''"

definition roadmap_status_from_str :: "string \<Rightarrow> string + roadmap_status" where
  "roadmap_status_from_str = enum_from_str ''RoadmapStatus''
     [(''draft'', RoadmapStatus_Draft),
      (''proposed'', RoadmapStatus_Proposed),
      (''active'', RoadmapStatus_Active),
      (''blocked'', RoadmapStatus_Blocked),
      (''completed'', RoadmapStatus_Completed),
      (''cancelled'', RoadmapStatus_Cancelled),
      (''invalidated'', RoadmapStatus_Invalidated)]"

interpretation roadmap_status: string_enum roadmap_status_as_str roadmap_status_from_str
  unfolding roadmap_status_from_str_def
  apply (rule string_enumI)
  subgoal by simp
  subgoal for v by (cases v) simp_all
  done

datatype work_point_status =
    WorkPointStatus_Draft
  | WorkPointStatus_Proposed
  | WorkPointStatus_Active
  | WorkPointStatus_Blocked
  | WorkPointStatus_Completed
  | WorkPointStatus_Cancelled
  | WorkPointStatus_Invalidated

fun work_point_status_as_str :: "work_point_status \<Rightarrow> string" where
  "work_point_status_as_str WorkPointStatus_Draft = ''draft''"
| "work_point_status_as_str WorkPointStatus_Proposed = ''proposed''"
| "work_point_status_as_str WorkPointStatus_Active = ''active''"
| "work_point_status_as_str WorkPointStatus_Blocked = ''blocked''"
| "work_point_status_as_str WorkPointStatus_Completed = ''completed''"
| "work_point_status_as_str WorkPointStatus_Cancelled = ''cancelled''"
| "work_point_status_as_str WorkPointStatus_Invalidated = ''invalidated''"

definition work_point_status_from_str :: "string \<Rightarrow> string + work_point_status" where
  "work_point_status_from_str = enum_from_str ''WorkPointStatus''
     [(''draft'', WorkPointStatus_Draft),
      (''proposed'', WorkPointStatus_Proposed),
      (''active'', WorkPointStatus_Active),
      (''blocked'', WorkPointStatus_Blocked),
      (''completed'', WorkPointStatus_Completed),
      (''cancelled'', WorkPointStatus_Cancelled),
      (''invalidated'', WorkPointStatus_Invalidated)]"

interpretation work_point_status: string_enum work_point_status_as_str work_point_status_from_str
  unfolding work_point_status_from_str_def
  apply (rule string_enumI)
  subgoal by simp
  subgoal for v by (cases v) simp_all
  done

datatype plan_status =
    PlanStatus_Draft
  | PlanStatus_Proposed
  | PlanStatus_Active
  | PlanStatus_Blocked
  | PlanStatus_Completed
  | PlanStatus_Cancelled
  | PlanStatus_Invalidated

fun plan_status_as_str :: "plan_status \<Rightarrow> string" where
  "plan_status_as_str PlanStatus_Draft = ''draft''"
| "plan_status_as_str PlanStatus_Proposed = ''proposed''"
| "plan_status_as_str PlanStatus_Active = ''active''"
| "plan_status_as_str PlanStatus_Blocked = ''blocked''"
| "plan_status_as_str PlanStatus_Completed = ''completed''"
| "plan_status_as_str PlanStatus_Cancelled = ''cancelled''"
| "plan_status_as_str PlanStatus_Invalidated = ''invalidated''"

definition plan_status_from_str :: "string \<Rightarrow> string + plan_status" where
  "plan_status_from_str = enum_from_str ''PlanStatus''
     [(''draft'', PlanStatus_Draft),
      (''proposed'', PlanStatus_Proposed),
      (''active'', PlanStatus_Active),
      (''blocked'', PlanStatus_Blocked),
      (''completed'', PlanStatus_Completed),
      (''cancelled'', PlanStatus_Cancelled),
      (''invalidated'', PlanStatus_Invalidated)]"

interpretation plan_status: string_enum plan_status_as_str plan_status_from_str
  unfolding plan_status_from_str_def
  apply (rule string_enumI)
  subgoal by simp
  subgoal for v by (cases v) simp_all
  done

datatype todo_status =
    TodoStatus_Pending
  | TodoStatus_InProgress
  | TodoStatus_Blocked
  | TodoStatus_Completed
  | TodoStatus_Cancelled

fun todo_status_as_str :: "todo_status \<Rightarrow> string" where
  "todo_status_as_str TodoStatus_Pending = ''pending''"
| "todo_status_as_str TodoStatus_InProgress = ''in-progress''"
| "todo_status_as_str TodoStatus_Blocked = ''blocked''"
| "todo_status_as_str TodoStatus_Completed = ''completed''"
| "todo_status_as_str TodoStatus_Cancelled = ''cancelled''"

definition todo_status_from_str :: "string \<Rightarrow> string + todo_status" where
  "todo_status_from_str = enum_from_str ''TodoStatus''
     [(''pending'', TodoStatus_Pending),
      (''in-progress'', TodoStatus_InProgress),
      (''blocked'', TodoStatus_Blocked),
      (''completed'', TodoStatus_Completed),
      (''cancelled'', TodoStatus_Cancelled)]"

interpretation todo_status: string_enum todo_status_as_str todo_status_from_str
  unfolding todo_status_from_str_def
  apply (rule string_enumI)
  subgoal by simp
  subgoal for v by (cases v) simp_all
  done

datatype issue_status =
    IssueStatus_Open
  | IssueStatus_Blocked
  | IssueStatus_Resolved
  | IssueStatus_Reopened

fun issue_status_as_str :: "issue_status \<Rightarrow> string" where
  "issue_status_as_str IssueStatus_Open = ''open''"
| "issue_status_as_str IssueStatus_Blocked = ''blocked''"
| "issue_status_as_str IssueStatus_Resolved = ''resolved''"
| "issue_status_as_str IssueStatus_Reopened = ''reopened''"

definition issue_status_from_str :: "string \<Rightarrow> string + issue_status" where
  "issue_status_from_str = enum_from_str ''IssueStatus''
     [(''open'', IssueStatus_Open),
      (''blocked'', IssueStatus_Blocked),
      (''resolved'', IssueStatus_Resolved),
      (''reopened'', IssueStatus_Reopened)]"

interpretation issue_status: string_enum issue_status_as_str issue_status_from_str
  unfolding issue_status_from_str_def
  apply (rule string_enumI)
  subgoal by simp
  subgoal for v by (cases v) simp_all
  done

datatype review_point_status =
    ReviewPointStatus_Open
  | ReviewPointStatus_Resolved
  | ReviewPointStatus_AcceptedRisk

fun review_point_status_as_str :: "review_point_status \<Rightarrow> string" where
  "review_point_status_as_str ReviewPointStatus_Open = ''open''"
| "review_point_status_as_str ReviewPointStatus_Resolved = ''resolved''"
| "review_point_status_as_str ReviewPointStatus_AcceptedRisk = ''accepted-risk''"

definition review_point_status_from_str :: "string \<Rightarrow> string + review_point_status" where
  "review_point_status_from_str = enum_from_str ''ReviewPointStatus''
     [(''open'', ReviewPointStatus_Open),
      (''resolved'', ReviewPointStatus_Resolved),
      (''accepted-risk'', ReviewPointStatus_AcceptedRisk)]"

interpretation review_point_status: string_enum review_point_status_as_str review_point_status_from_str
  unfolding review_point_status_from_str_def
  apply (rule string_enumI)
  subgoal by simp
  subgoal for v by (cases v) simp_all
  done

datatype priority =
    Priority_Low
  | Priority_Medium
  | Priority_High
  | Priority_Urgent

fun priority_as_str :: "priority \<Rightarrow> string" where
  "priority_as_str Priority_Low = ''low''"
| "priority_as_str Priority_Medium = ''medium''"
| "priority_as_str Priority_High = ''high''"
| "priority_as_str Priority_Urgent = ''urgent''"

definition priority_from_str :: "string \<Rightarrow> string + priority" where
  "priority_from_str = enum_from_str ''Priority''
     [(''low'', Priority_Low),
      (''medium'', Priority_Medium),
      (''high'', Priority_High),
      (''urgent'', Priority_Urgent)]"

interpretation priority: string_enum priority_as_str priority_from_str
  unfolding priority_from_str_def
  apply (rule string_enumI)
  subgoal by simp
  subgoal for v by (cases v) simp_all
  done

datatype effort_tier =
    EffortTier_Fast
  | EffortTier_Balanced
  | EffortTier_Deep

fun effort_tier_as_str :: "effort_tier \<Rightarrow> string" where
  "effort_tier_as_str EffortTier_Fast = ''fast''"
| "effort_tier_as_str EffortTier_Balanced = ''balanced''"
| "effort_tier_as_str EffortTier_Deep = ''deep''"

definition effort_tier_from_str :: "string \<Rightarrow> string + effort_tier" where
  "effort_tier_from_str = enum_from_str ''EffortTier''
     [(''fast'', EffortTier_Fast),
      (''balanced'', EffortTier_Balanced),
      (''deep'', EffortTier_Deep)]"

interpretation effort_tier: string_enum effort_tier_as_str effort_tier_from_str
  unfolding effort_tier_from_str_def
  apply (rule string_enumI)
  subgoal by simp
  subgoal for v by (cases v) simp_all
  done

datatype file_scope_selector_type =
    FileScopeSelectorType_Exact
  | FileScopeSelectorType_Glob

fun file_scope_selector_type_as_str :: "file_scope_selector_type \<Rightarrow> string" where
  "file_scope_selector_type_as_str FileScopeSelectorType_Exact = ''exact''"
| "file_scope_selector_type_as_str FileScopeSelectorType_Glob = ''glob''"

definition file_scope_selector_type_from_str :: "string \<Rightarrow> string + file_scope_selector_type" where
  "file_scope_selector_type_from_str = enum_from_str ''FileScopeSelectorType''
     [(''exact'', FileScopeSelectorType_Exact),
      (''glob'', FileScopeSelectorType_Glob)]"

interpretation file_scope_selector_type: string_enum file_scope_selector_type_as_str file_scope_selector_type_from_str
  unfolding file_scope_selector_type_from_str_def
  apply (rule string_enumI)
  subgoal by simp
  subgoal for v by (cases v) simp_all
  done

datatype file_scope_intent =
    FileScopeIntent_Primary
  | FileScopeIntent_Review
  | FileScopeIntent_Affected

fun file_scope_intent_as_str :: "file_scope_intent \<Rightarrow> string" where
  "file_scope_intent_as_str FileScopeIntent_Primary = ''primary''"
| "file_scope_intent_as_str FileScopeIntent_Review = ''review''"
| "file_scope_intent_as_str FileScopeIntent_Affected = ''affected''"

definition file_scope_intent_from_str :: "string \<Rightarrow> string + file_scope_intent" where
  "file_scope_intent_from_str = enum_from_str ''FileScopeIntent''
     [(''primary'', FileScopeIntent_Primary),
      (''review'', FileScopeIntent_Review),
      (''affected'', FileScopeIntent_Affected)]"

interpretation file_scope_intent: string_enum file_scope_intent_as_str file_scope_intent_from_str
  unfolding file_scope_intent_from_str_def
  apply (rule string_enumI)
  subgoal by simp
  subgoal for v by (cases v) simp_all
  done

datatype severity =
    Severity_Low
  | Severity_Medium
  | Severity_High
  | Severity_Critical

fun severity_as_str :: "severity \<Rightarrow> string" where
  "severity_as_str Severity_Low = ''low''"
| "severity_as_str Severity_Medium = ''medium''"
| "severity_as_str Severity_High = ''high''"
| "severity_as_str Severity_Critical = ''critical''"

definition severity_from_str :: "string \<Rightarrow> string + severity" where
  "severity_from_str = enum_from_str ''Severity''
     [(''low'', Severity_Low),
      (''medium'', Severity_Medium),
      (''high'', Severity_High),
      (''critical'', Severity_Critical)]"

interpretation severity: string_enum severity_as_str severity_from_str
  unfolding severity_from_str_def
  apply (rule string_enumI)
  subgoal by simp
  subgoal for v by (cases v) simp_all
  done

datatype validation_severity =
    ValidationSeverity_Warning
  | ValidationSeverity_Error

fun validation_severity_as_str :: "validation_severity \<Rightarrow> string" where
  "validation_severity_as_str ValidationSeverity_Warning = ''warning''"
| "validation_severity_as_str ValidationSeverity_Error = ''error''"

definition validation_severity_from_str :: "string \<Rightarrow> string + validation_severity" where
  "validation_severity_from_str = enum_from_str ''ValidationSeverity''
     [(''warning'', ValidationSeverity_Warning),
      (''error'', ValidationSeverity_Error)]"

interpretation validation_severity: string_enum validation_severity_as_str validation_severity_from_str
  unfolding validation_severity_from_str_def
  apply (rule string_enumI)
  subgoal by simp
  subgoal for v by (cases v) simp_all
  done

datatype validation_status =
    ValidationStatus_Valid
  | ValidationStatus_Warning
  | ValidationStatus_Invalid

fun validation_status_as_str :: "validation_status \<Rightarrow> string" where
  "validation_status_as_str ValidationStatus_Valid = ''valid''"
| "validation_status_as_str ValidationStatus_Warning = ''warning''"
| "validation_status_as_str ValidationStatus_Invalid = ''invalid''"

definition validation_status_from_str :: "string \<Rightarrow> string + validation_status" where
  "validation_status_from_str = enum_from_str ''ValidationStatus''
     [(''valid'', ValidationStatus_Valid),
      (''warning'', ValidationStatus_Warning),
      (''invalid'', ValidationStatus_Invalid)]"

interpretation validation_status: string_enum validation_status_as_str validation_status_from_str
  unfolding validation_status_from_str_def
  apply (rule string_enumI)
  subgoal by simp
  subgoal for v by (cases v) simp_all
  done

datatype projection_format =
    ProjectionFormat_Markdown
  | ProjectionFormat_Json

fun projection_format_as_str :: "projection_format \<Rightarrow> string" where
  "projection_format_as_str ProjectionFormat_Markdown = ''markdown''"
| "projection_format_as_str ProjectionFormat_Json = ''json''"

definition projection_format_from_str :: "string \<Rightarrow> string + projection_format" where
  "projection_format_from_str = enum_from_str ''ProjectionFormat''
     [(''markdown'', ProjectionFormat_Markdown),
      (''json'', ProjectionFormat_Json)]"

interpretation projection_format: string_enum projection_format_as_str projection_format_from_str
  unfolding projection_format_from_str_def
  apply (rule string_enumI)
  subgoal by simp
  subgoal for v by (cases v) simp_all
  done

datatype insight_status =
    InsightStatus_Active
  | InsightStatus_Superseded
  | InsightStatus_Archived

fun insight_status_as_str :: "insight_status \<Rightarrow> string" where
  "insight_status_as_str InsightStatus_Active = ''active''"
| "insight_status_as_str InsightStatus_Superseded = ''superseded''"
| "insight_status_as_str InsightStatus_Archived = ''archived''"

definition insight_status_from_str :: "string \<Rightarrow> string + insight_status" where
  "insight_status_from_str = enum_from_str ''InsightStatus''
     [(''active'', InsightStatus_Active),
      (''superseded'', InsightStatus_Superseded),
      (''archived'', InsightStatus_Archived)]"

interpretation insight_status: string_enum insight_status_as_str insight_status_from_str
  unfolding insight_status_from_str_def
  apply (rule string_enumI)
  subgoal by simp
  subgoal for v by (cases v) simp_all
  done

datatype insight_type =
    InsightType_DesignDecision
  | InsightType_EdgeCase
  | InsightType_Optimization
  | InsightType_Constraint
  | InsightType_Assumption
  | InsightType_Risk
  | InsightType_Context

fun insight_type_as_str :: "insight_type \<Rightarrow> string" where
  "insight_type_as_str InsightType_DesignDecision = ''design-decision''"
| "insight_type_as_str InsightType_EdgeCase = ''edge-case''"
| "insight_type_as_str InsightType_Optimization = ''optimization''"
| "insight_type_as_str InsightType_Constraint = ''constraint''"
| "insight_type_as_str InsightType_Assumption = ''assumption''"
| "insight_type_as_str InsightType_Risk = ''risk''"
| "insight_type_as_str InsightType_Context = ''context''"

definition insight_type_from_str :: "string \<Rightarrow> string + insight_type" where
  "insight_type_from_str = enum_from_str ''InsightType''
     [(''design-decision'', InsightType_DesignDecision),
      (''edge-case'', InsightType_EdgeCase),
      (''optimization'', InsightType_Optimization),
      (''constraint'', InsightType_Constraint),
      (''assumption'', InsightType_Assumption),
      (''risk'', InsightType_Risk),
      (''context'', InsightType_Context)]"

interpretation insight_type: string_enum insight_type_as_str insight_type_from_str
  unfolding insight_type_from_str_def
  apply (rule string_enumI)
  subgoal by simp
  subgoal for v by (cases v) simp_all
  done

datatype project_run_status =
    ProjectRunStatus_Suggested
  | ProjectRunStatus_Claimed
  | ProjectRunStatus_Active
  | ProjectRunStatus_Interrupted
  | ProjectRunStatus_Completed
  | ProjectRunStatus_Failed
  | ProjectRunStatus_Cancelled
  | ProjectRunStatus_Released

fun project_run_status_as_str :: "project_run_status \<Rightarrow> string" where
  "project_run_status_as_str ProjectRunStatus_Suggested = ''suggested''"
| "project_run_status_as_str ProjectRunStatus_Claimed = ''claimed''"
| "project_run_status_as_str ProjectRunStatus_Active = ''active''"
| "project_run_status_as_str ProjectRunStatus_Interrupted = ''interrupted''"
| "project_run_status_as_str ProjectRunStatus_Completed = ''completed''"
| "project_run_status_as_str ProjectRunStatus_Failed = ''failed''"
| "project_run_status_as_str ProjectRunStatus_Cancelled = ''cancelled''"
| "project_run_status_as_str ProjectRunStatus_Released = ''released''"

definition project_run_status_from_str :: "string \<Rightarrow> string + project_run_status" where
  "project_run_status_from_str = enum_from_str ''ProjectRunStatus''
     [(''suggested'', ProjectRunStatus_Suggested),
      (''claimed'', ProjectRunStatus_Claimed),
      (''active'', ProjectRunStatus_Active),
      (''interrupted'', ProjectRunStatus_Interrupted),
      (''completed'', ProjectRunStatus_Completed),
      (''failed'', ProjectRunStatus_Failed),
      (''cancelled'', ProjectRunStatus_Cancelled),
      (''released'', ProjectRunStatus_Released)]"

interpretation project_run_status: string_enum project_run_status_as_str project_run_status_from_str
  unfolding project_run_status_from_str_def
  apply (rule string_enumI)
  subgoal by simp
  subgoal for v by (cases v) simp_all
  done

datatype workflow_result_status =
    WorkflowResultStatus_Completed
  | WorkflowResultStatus_Failed
  | WorkflowResultStatus_Cancelled
  | WorkflowResultStatus_TimedOut
  | WorkflowResultStatus_Malformed

fun workflow_result_status_as_str :: "workflow_result_status \<Rightarrow> string" where
  "workflow_result_status_as_str WorkflowResultStatus_Completed = ''completed''"
| "workflow_result_status_as_str WorkflowResultStatus_Failed = ''failed''"
| "workflow_result_status_as_str WorkflowResultStatus_Cancelled = ''cancelled''"
| "workflow_result_status_as_str WorkflowResultStatus_TimedOut = ''timed-out''"
| "workflow_result_status_as_str WorkflowResultStatus_Malformed = ''malformed''"

definition workflow_result_status_from_str :: "string \<Rightarrow> string + workflow_result_status" where
  "workflow_result_status_from_str = enum_from_str ''WorkflowResultStatus''
     [(''completed'', WorkflowResultStatus_Completed),
      (''failed'', WorkflowResultStatus_Failed),
      (''cancelled'', WorkflowResultStatus_Cancelled),
      (''timed-out'', WorkflowResultStatus_TimedOut),
      (''malformed'', WorkflowResultStatus_Malformed)]"

interpretation workflow_result_status: string_enum workflow_result_status_as_str workflow_result_status_from_str
  unfolding workflow_result_status_from_str_def
  apply (rule string_enumI)
  subgoal by simp
  subgoal for v by (cases v) simp_all
  done

datatype work_point_kind =
    WorkPointKind_Feature
  | WorkPointKind_Corrective
  | WorkPointKind_ReviewFix
  | WorkPointKind_ValidationFix
  | WorkPointKind_FollowUp

fun work_point_kind_as_str :: "work_point_kind \<Rightarrow> string" where
  "work_point_kind_as_str WorkPointKind_Feature = ''feature''"
| "work_point_kind_as_str WorkPointKind_Corrective = ''corrective''"
| "work_point_kind_as_str WorkPointKind_ReviewFix = ''review-fix''"
| "work_point_kind_as_str WorkPointKind_ValidationFix = ''validation-fix''"
| "work_point_kind_as_str WorkPointKind_FollowUp = ''follow-up''"

definition work_point_kind_from_str :: "string \<Rightarrow> string + work_point_kind" where
  "work_point_kind_from_str = enum_from_str ''WorkPointKind''
     [(''feature'', WorkPointKind_Feature),
      (''corrective'', WorkPointKind_Corrective),
      (''review-fix'', WorkPointKind_ReviewFix),
      (''validation-fix'', WorkPointKind_ValidationFix),
      (''follow-up'', WorkPointKind_FollowUp)]"

interpretation work_point_kind: string_enum work_point_kind_as_str work_point_kind_from_str
  unfolding work_point_kind_from_str_def
  apply (rule string_enumI)
  subgoal by simp
  subgoal for v by (cases v) simp_all
  done

datatype discovery_classification =
    DiscoveryClassification_Defect
  | DiscoveryClassification_DeferredWork
  | DiscoveryClassification_ReviewFinding
  | DiscoveryClassification_Insight
  | DiscoveryClassification_Observation

fun discovery_classification_as_str :: "discovery_classification \<Rightarrow> string" where
  "discovery_classification_as_str DiscoveryClassification_Defect = ''defect''"
| "discovery_classification_as_str DiscoveryClassification_DeferredWork = ''deferred-work''"
| "discovery_classification_as_str DiscoveryClassification_ReviewFinding = ''review-finding''"
| "discovery_classification_as_str DiscoveryClassification_Insight = ''insight''"
| "discovery_classification_as_str DiscoveryClassification_Observation = ''observation''"

definition discovery_classification_from_str :: "string \<Rightarrow> string + discovery_classification" where
  "discovery_classification_from_str = enum_from_str ''DiscoveryClassification''
     [(''defect'', DiscoveryClassification_Defect),
      (''deferred-work'', DiscoveryClassification_DeferredWork),
      (''review-finding'', DiscoveryClassification_ReviewFinding),
      (''insight'', DiscoveryClassification_Insight),
      (''observation'', DiscoveryClassification_Observation)]"

interpretation discovery_classification: string_enum discovery_classification_as_str discovery_classification_from_str
  unfolding discovery_classification_from_str_def
  apply (rule string_enumI)
  subgoal by simp
  subgoal for v by (cases v) simp_all
  done

datatype verification_state =
    VerificationState_Unverified
  | VerificationState_Verified
  | VerificationState_Rejected

fun verification_state_as_str :: "verification_state \<Rightarrow> string" where
  "verification_state_as_str VerificationState_Unverified = ''unverified''"
| "verification_state_as_str VerificationState_Verified = ''verified''"
| "verification_state_as_str VerificationState_Rejected = ''rejected''"

definition verification_state_from_str :: "string \<Rightarrow> string + verification_state" where
  "verification_state_from_str = enum_from_str ''VerificationState''
     [(''unverified'', VerificationState_Unverified),
      (''verified'', VerificationState_Verified),
      (''rejected'', VerificationState_Rejected)]"

interpretation verification_state: string_enum verification_state_as_str verification_state_from_str
  unfolding verification_state_from_str_def
  apply (rule string_enumI)
  subgoal by simp
  subgoal for v by (cases v) simp_all
  done

datatype discovery_status =
    DiscoveryStatus_Candidate
  | DiscoveryStatus_Triaged
  | DiscoveryStatus_Promoted
  | DiscoveryStatus_Resolved
  | DiscoveryStatus_Reopened

fun discovery_status_as_str :: "discovery_status \<Rightarrow> string" where
  "discovery_status_as_str DiscoveryStatus_Candidate = ''candidate''"
| "discovery_status_as_str DiscoveryStatus_Triaged = ''triaged''"
| "discovery_status_as_str DiscoveryStatus_Promoted = ''promoted''"
| "discovery_status_as_str DiscoveryStatus_Resolved = ''resolved''"
| "discovery_status_as_str DiscoveryStatus_Reopened = ''reopened''"

definition discovery_status_from_str :: "string \<Rightarrow> string + discovery_status" where
  "discovery_status_from_str = enum_from_str ''DiscoveryStatus''
     [(''candidate'', DiscoveryStatus_Candidate),
      (''triaged'', DiscoveryStatus_Triaged),
      (''promoted'', DiscoveryStatus_Promoted),
      (''resolved'', DiscoveryStatus_Resolved),
      (''reopened'', DiscoveryStatus_Reopened)]"

interpretation discovery_status: string_enum discovery_status_as_str discovery_status_from_str
  unfolding discovery_status_from_str_def
  apply (rule string_enumI)
  subgoal by simp
  subgoal for v by (cases v) simp_all
  done

datatype discovery_relationship_kind =
    DiscoveryRelationshipKind_AppliesTo
  | DiscoveryRelationshipKind_Found
  | DiscoveryRelationshipKind_EvidencedBy
  | DiscoveryRelationshipKind_Supersedes

fun discovery_relationship_kind_as_str :: "discovery_relationship_kind \<Rightarrow> string" where
  "discovery_relationship_kind_as_str DiscoveryRelationshipKind_AppliesTo = ''applies-to''"
| "discovery_relationship_kind_as_str DiscoveryRelationshipKind_Found = ''found''"
| "discovery_relationship_kind_as_str DiscoveryRelationshipKind_EvidencedBy = ''evidenced-by''"
| "discovery_relationship_kind_as_str DiscoveryRelationshipKind_Supersedes = ''supersedes''"

definition discovery_relationship_kind_from_str :: "string \<Rightarrow> string + discovery_relationship_kind" where
  "discovery_relationship_kind_from_str = enum_from_str ''DiscoveryRelationshipKind''
     [(''applies-to'', DiscoveryRelationshipKind_AppliesTo),
      (''found'', DiscoveryRelationshipKind_Found),
      (''evidenced-by'', DiscoveryRelationshipKind_EvidencedBy),
      (''supersedes'', DiscoveryRelationshipKind_Supersedes)]"

interpretation discovery_relationship_kind: string_enum discovery_relationship_kind_as_str discovery_relationship_kind_from_str
  unfolding discovery_relationship_kind_from_str_def
  apply (rule string_enumI)
  subgoal by simp
  subgoal for v by (cases v) simp_all
  done

datatype planning_node_kind =
    PlanningNodeKind_Goal
  | PlanningNodeKind_Roadmap
  | PlanningNodeKind_Milestone
  | PlanningNodeKind_Work
  | PlanningNodeKind_Plan
  | PlanningNodeKind_Task
  | PlanningNodeKind_Run
  | PlanningNodeKind_Acceptance
  | PlanningNodeKind_Evidence
  | PlanningNodeKind_Issue
  | PlanningNodeKind_Review
  | PlanningNodeKind_Insight

fun planning_node_kind_as_str :: "planning_node_kind \<Rightarrow> string" where
  "planning_node_kind_as_str PlanningNodeKind_Goal = ''goal''"
| "planning_node_kind_as_str PlanningNodeKind_Roadmap = ''roadmap''"
| "planning_node_kind_as_str PlanningNodeKind_Milestone = ''milestone''"
| "planning_node_kind_as_str PlanningNodeKind_Work = ''work''"
| "planning_node_kind_as_str PlanningNodeKind_Plan = ''plan''"
| "planning_node_kind_as_str PlanningNodeKind_Task = ''task''"
| "planning_node_kind_as_str PlanningNodeKind_Run = ''run''"
| "planning_node_kind_as_str PlanningNodeKind_Acceptance = ''acceptance''"
| "planning_node_kind_as_str PlanningNodeKind_Evidence = ''evidence''"
| "planning_node_kind_as_str PlanningNodeKind_Issue = ''issue''"
| "planning_node_kind_as_str PlanningNodeKind_Review = ''review''"
| "planning_node_kind_as_str PlanningNodeKind_Insight = ''insight''"

definition planning_node_kind_from_str :: "string \<Rightarrow> string + planning_node_kind" where
  "planning_node_kind_from_str = enum_from_str ''PlanningNodeKind''
     [(''goal'', PlanningNodeKind_Goal),
      (''roadmap'', PlanningNodeKind_Roadmap),
      (''milestone'', PlanningNodeKind_Milestone),
      (''work'', PlanningNodeKind_Work),
      (''plan'', PlanningNodeKind_Plan),
      (''task'', PlanningNodeKind_Task),
      (''run'', PlanningNodeKind_Run),
      (''acceptance'', PlanningNodeKind_Acceptance),
      (''evidence'', PlanningNodeKind_Evidence),
      (''issue'', PlanningNodeKind_Issue),
      (''review'', PlanningNodeKind_Review),
      (''insight'', PlanningNodeKind_Insight)]"

interpretation planning_node_kind: string_enum planning_node_kind_as_str planning_node_kind_from_str
  unfolding planning_node_kind_from_str_def
  apply (rule string_enumI)
  subgoal by simp
  subgoal for v by (cases v) simp_all
  done

datatype planning_edge_kind =
    PlanningEdgeKind_DecomposesTo
  | PlanningEdgeKind_DependsOn
  | PlanningEdgeKind_Blocks
  | PlanningEdgeKind_ParallelSafeWith
  | PlanningEdgeKind_PlannedBy
  | PlanningEdgeKind_ExecutedBy
  | PlanningEdgeKind_Contains
  | PlanningEdgeKind_Requires
  | PlanningEdgeKind_Satisfies
  | PlanningEdgeKind_EvidencedBy
  | PlanningEdgeKind_Found
  | PlanningEdgeKind_AddressedBy
  | PlanningEdgeKind_Repairs
  | PlanningEdgeKind_Supersedes

fun planning_edge_kind_as_str :: "planning_edge_kind \<Rightarrow> string" where
  "planning_edge_kind_as_str PlanningEdgeKind_DecomposesTo = ''decomposes-to''"
| "planning_edge_kind_as_str PlanningEdgeKind_DependsOn = ''depends-on''"
| "planning_edge_kind_as_str PlanningEdgeKind_Blocks = ''blocks''"
| "planning_edge_kind_as_str PlanningEdgeKind_ParallelSafeWith = ''parallel-safe-with''"
| "planning_edge_kind_as_str PlanningEdgeKind_PlannedBy = ''planned-by''"
| "planning_edge_kind_as_str PlanningEdgeKind_ExecutedBy = ''executed-by''"
| "planning_edge_kind_as_str PlanningEdgeKind_Contains = ''contains''"
| "planning_edge_kind_as_str PlanningEdgeKind_Requires = ''requires''"
| "planning_edge_kind_as_str PlanningEdgeKind_Satisfies = ''satisfies''"
| "planning_edge_kind_as_str PlanningEdgeKind_EvidencedBy = ''evidenced-by''"
| "planning_edge_kind_as_str PlanningEdgeKind_Found = ''found''"
| "planning_edge_kind_as_str PlanningEdgeKind_AddressedBy = ''addressed-by''"
| "planning_edge_kind_as_str PlanningEdgeKind_Repairs = ''repairs''"
| "planning_edge_kind_as_str PlanningEdgeKind_Supersedes = ''supersedes''"

definition planning_edge_kind_from_str :: "string \<Rightarrow> string + planning_edge_kind" where
  "planning_edge_kind_from_str = enum_from_str ''PlanningEdgeKind''
     [(''decomposes-to'', PlanningEdgeKind_DecomposesTo),
      (''depends-on'', PlanningEdgeKind_DependsOn),
      (''blocks'', PlanningEdgeKind_Blocks),
      (''parallel-safe-with'', PlanningEdgeKind_ParallelSafeWith),
      (''planned-by'', PlanningEdgeKind_PlannedBy),
      (''executed-by'', PlanningEdgeKind_ExecutedBy),
      (''contains'', PlanningEdgeKind_Contains),
      (''requires'', PlanningEdgeKind_Requires),
      (''satisfies'', PlanningEdgeKind_Satisfies),
      (''evidenced-by'', PlanningEdgeKind_EvidencedBy),
      (''found'', PlanningEdgeKind_Found),
      (''addressed-by'', PlanningEdgeKind_AddressedBy),
      (''repairs'', PlanningEdgeKind_Repairs),
      (''supersedes'', PlanningEdgeKind_Supersedes)]"

interpretation planning_edge_kind: string_enum planning_edge_kind_as_str planning_edge_kind_from_str
  unfolding planning_edge_kind_from_str_def
  apply (rule string_enumI)
  subgoal by simp
  subgoal for v by (cases v) simp_all
  done

datatype acceptance_kind =
    AcceptanceKind_Abstract
  | AcceptanceKind_Concrete

fun acceptance_kind_as_str :: "acceptance_kind \<Rightarrow> string" where
  "acceptance_kind_as_str AcceptanceKind_Abstract = ''abstract''"
| "acceptance_kind_as_str AcceptanceKind_Concrete = ''concrete''"

definition acceptance_kind_from_str :: "string \<Rightarrow> string + acceptance_kind" where
  "acceptance_kind_from_str = enum_from_str ''AcceptanceKind''
     [(''abstract'', AcceptanceKind_Abstract),
      (''concrete'', AcceptanceKind_Concrete)]"

interpretation acceptance_kind: string_enum acceptance_kind_as_str acceptance_kind_from_str
  unfolding acceptance_kind_from_str_def
  apply (rule string_enumI)
  subgoal by simp
  subgoal for v by (cases v) simp_all
  done

datatype evidence_kind =
    EvidenceKind_CommandResult
  | EvidenceKind_TestResult
  | EvidenceKind_ArtifactRef
  | EvidenceKind_CommitRef
  | EvidenceKind_PrRef
  | EvidenceKind_Review
  | EvidenceKind_TraceExcerpt
  | EvidenceKind_ExternalUrl

fun evidence_kind_as_str :: "evidence_kind \<Rightarrow> string" where
  "evidence_kind_as_str EvidenceKind_CommandResult = ''command-result''"
| "evidence_kind_as_str EvidenceKind_TestResult = ''test-result''"
| "evidence_kind_as_str EvidenceKind_ArtifactRef = ''artifact-ref''"
| "evidence_kind_as_str EvidenceKind_CommitRef = ''commit-ref''"
| "evidence_kind_as_str EvidenceKind_PrRef = ''pr-ref''"
| "evidence_kind_as_str EvidenceKind_Review = ''review''"
| "evidence_kind_as_str EvidenceKind_TraceExcerpt = ''trace-excerpt''"
| "evidence_kind_as_str EvidenceKind_ExternalUrl = ''external-url''"

definition evidence_kind_from_str :: "string \<Rightarrow> string + evidence_kind" where
  "evidence_kind_from_str = enum_from_str ''EvidenceKind''
     [(''command-result'', EvidenceKind_CommandResult),
      (''test-result'', EvidenceKind_TestResult),
      (''artifact-ref'', EvidenceKind_ArtifactRef),
      (''commit-ref'', EvidenceKind_CommitRef),
      (''pr-ref'', EvidenceKind_PrRef),
      (''review'', EvidenceKind_Review),
      (''trace-excerpt'', EvidenceKind_TraceExcerpt),
      (''external-url'', EvidenceKind_ExternalUrl)]"

interpretation evidence_kind: string_enum evidence_kind_as_str evidence_kind_from_str
  unfolding evidence_kind_from_str_def
  apply (rule string_enumI)
  subgoal by simp
  subgoal for v by (cases v) simp_all
  done

end
