(* ===== verification/Json.thy ===== *)
theory Json
  imports Prelude
begin

text \<open>JSON values as the plugins read and write them (\<open>serde_json::Value\<close>).\<close>

text \<open>
  Objects are association lists read with \<open>map_of\<close>; a non-integral number is
  kept as its text, no operation of the store reads it.
\<close>

datatype json =
    JNull
  | JBool bool
  | JInt int
  | JFloat string
  | JStr string
  | JArr "json list"
  | JObj "(string \<times> json) list"

fun json_get :: "string \<Rightarrow> json \<Rightarrow> json option" where
  "json_get k (JObj kvs) = map_of kvs k"
| "json_get k _ = None"

fun json_as_str :: "json \<Rightarrow> string option" where
  "json_as_str (JStr s) = Some s"
| "json_as_str _ = None"

fun json_as_array :: "json \<Rightarrow> json list option" where
  "json_as_array (JArr xs) = Some xs"
| "json_as_array _ = None"

fun json_as_object :: "json \<Rightarrow> (string \<times> json) list option" where
  "json_as_object (JObj kvs) = Some kvs"
| "json_as_object _ = None"

fun json_as_bool :: "json \<Rightarrow> bool option" where
  "json_as_bool (JBool b) = Some b"
| "json_as_bool _ = None"

text \<open>\<open>payload.get(k).and_then(|v| v.as_str()).unwrap_or("")\<close>, the access the sources use most.\<close>

definition json_str_or_empty :: "string \<Rightarrow> json \<Rightarrow> string" where
  "json_str_or_empty k j =
     (case Option.bind (json_get k j) json_as_str of None \<Rightarrow> [] | Some s \<Rightarrow> s)"

definition json_opt_str :: "string option \<Rightarrow> json" where
  "json_opt_str x = (case x of None \<Rightarrow> JNull | Some s \<Rightarrow> JStr s)"

definition json_strs :: "string list \<Rightarrow> json" where
  "json_strs xs = JArr (map JStr xs)"

text \<open>\<open>payload["key"] = value\<close> on the members of an object.\<close>

definition obj_set :: "string \<Rightarrow> json \<Rightarrow> (string \<times> json) list \<Rightarrow> (string \<times> json) list" where
  "obj_set k v kvs = filter (\<lambda>(k', _). k' \<noteq> k) kvs @ [(k, v)]"

lemma map_of_obj_set [simp]: "map_of (obj_set k v kvs) = (map_of kvs)(k \<mapsto> v)"
  by (rule ext, induction kvs) (auto simp: obj_set_def)

end
