(* ===== verification/PlanningModel.thy ===== *)
theory PlanningModel
  imports PlanningEnums Json
begin

text \<open>
  The data of the planning store: the error type (\<open>error.rs\<close>), the records of
  \<open>model.rs\<close> and the input structs of \<open>storage.rs\<close>. A record field carries the source's name
  behind a two-letter prefix of its struct. Signed 64-bit counters (\<open>revision\<close>, \<open>ordering\<close>,
  \<open>fencing_token\<close>, \<open>sequence\<close>) are \<open>int\<close>: each grows by one per write.
\<close>

section \<open>Errors\<close>

text \<open>
  The text of an \<open>InvalidInput\<close> error is either a formatted message or the rendering of a JSON
  object; the model keeps the object itself. \<open>Diverges\<close> is not an error of the program: it is the
  value of the model where the program would recurse without end.
\<close>

datatype error_message = Plain string | JsonText json

datatype sqlite_error =
    UniqueViolation string
  | ForeignKeyViolation string
  | ConversionFailure string

datatype planning_store_error =
    Sqlite sqlite_error
  | JsonError string
  | CreateDirectory string
  | NotFound string string
  | InvalidInput error_message
  | ProjectionParentMissing string
  | ProjectionWrite string
  | TimeFormat
  | ActiveLeaseConflict string
  | ProjectRunStatusMismatch string string
  | Diverges

fun is_invalid_input :: "planning_store_error \<Rightarrow> bool" where
  "is_invalid_input (InvalidInput _) = True"
| "is_invalid_input (NotFound _ _) = True"
| "is_invalid_input (ProjectionParentMissing _) = True"
| "is_invalid_input (ActiveLeaseConflict _) = True"
| "is_invalid_input (ProjectRunStatusMismatch _ _) = True"
| "is_invalid_input _ = False"

fun is_not_found :: "planning_store_error + 'a \<Rightarrow> bool" where
  "is_not_found (Inl (NotFound _ _)) = True"
| "is_not_found _ = False"

abbreviation invalid :: "string list \<Rightarrow> planning_store_error" where
  "invalid parts \<equiv> InvalidInput (Plain (format parts))"

abbreviation invalid_json :: "(string \<times> json) list \<Rightarrow> planning_store_error" where
  "invalid_json kvs \<equiv> InvalidInput (JsonText (JObj kvs))"

type_synonym 'a result = "planning_store_error + 'a"

section \<open>Records of model.rs\<close>

record warning_record =
  wr_level :: string
  wr_message :: string
  wr_source :: "string option"

record project_run_evidence =
  pe_implementation_run_refs :: "string list"
  pe_warning_records :: "warning_record list"
  pe_validation_finding_refs :: "string list"
  pe_commit_sha :: "string option"
  pe_pr_url :: "string option"
  pe_linked_spec_ids :: "string list"
  pe_workflow_result_keys :: "string list"

definition project_run_evidence_default :: project_run_evidence where
  "project_run_evidence_default = \<lparr>pe_implementation_run_refs = [], pe_warning_records = [],
     pe_validation_finding_refs = [], pe_commit_sha = None, pe_pr_url = None,
     pe_linked_spec_ids = [], pe_workflow_result_keys = []\<rparr>"

record project_run_record =
  pr_id :: string
  pr_scope_key :: string
  pr_goal_id :: string
  pr_roadmap_id :: string
  pr_work_point_id :: string
  pr_repo_id :: "string option"
  pr_branch :: "string option"
  pr_worktree_id :: "string option"
  pr_session_id :: "string option"
  pr_run_id :: "string option"
  pr_profile_id :: "string option"
  pr_owner_id :: string
  pr_idempotency_key :: "string option"
  pr_fencing_token :: int
  pr_lease_expires_at :: string
  pr_heartbeat_at :: string
  pr_status :: project_run_status
  pr_evidence :: project_run_evidence
  pr_revision :: int
  pr_claimed_at :: "string option"
  pr_completed_at :: "string option"
  pr_created_at :: string
  pr_updated_at :: string

record planning_graph_node =
  gn_id :: string
  gn_scope_key :: string
  gn_kind :: planning_node_kind
  gn_title :: string
  gn_summary :: string
  gn_status :: string
  gn_payload :: json
  gn_tags :: "string list"
  gn_revision :: int
  gn_created_at :: string
  gn_updated_at :: string

record planning_graph_edge =
  ge_id :: string
  ge_scope_key :: string
  ge_kind :: planning_edge_kind
  ge_source_node_id :: string
  ge_target_node_id :: string
  ge_status :: string
  ge_payload :: json
  ge_revision :: int
  ge_created_at :: string
  ge_updated_at :: string

record scope_record =
  sc_scope_key :: string
  sc_scope_type :: "string option"
  sc_parent_scope_key :: "string option"
  sc_metadata :: json
  sc_tags :: "string list"
  sc_revision :: int
  sc_created_at :: string
  sc_updated_at :: string

record goal_record =
  go_id :: string
  go_scope_key :: string
  go_correlation_id :: string
  go_title :: string
  go_description :: string
  go_acceptance_criteria :: "string list"
  go_rejection_criteria :: "string list"
  go_status :: goal_status
  go_tags :: "string list"
  go_revision :: int
  go_created_at :: string
  go_updated_at :: string

record roadmap_record =
  rm_id :: string
  rm_scope_key :: string
  rm_goal_id :: string
  rm_correlation_id :: string
  rm_title :: string
  rm_summary :: string
  rm_status :: roadmap_status
  rm_tags :: "string list"
  rm_revision :: int
  rm_created_at :: string
  rm_updated_at :: string

record roadmap_section_record =
  rs_id :: string
  rs_scope_key :: string
  rs_roadmap_id :: string
  rs_slug :: string
  rs_title :: string
  rs_summary :: string
  rs_ordering :: int
  rs_revision :: int
  rs_created_at :: string
  rs_updated_at :: string

record file_scope_record =
  fs_selector_type :: file_scope_selector_type
  fs_selector :: string
  fs_intent :: file_scope_intent

record work_point_record =
  wp_id :: string
  wp_scope_key :: string
  wp_roadmap_id :: string
  wp_section_id :: "string option"
  wp_title :: string
  wp_summary :: string
  wp_status :: work_point_status
  wp_ordering :: int
  wp_dependency_ids :: "string list"
  wp_validation_expectations :: "string list"
  wp_effort_tier :: effort_tier
  wp_kind :: work_point_kind
  wp_priority :: priority
  wp_repairs_work_point_ids :: "string list"
  wp_supersedes_work_point_ids :: "string list"
  wp_blocks_work_point_ids :: "string list"
  wp_file_scopes :: "file_scope_record list"
  wp_tags :: "string list"
  wp_revision :: int
  wp_created_at :: string
  wp_updated_at :: string

record plan_record =
  pl_id :: string
  pl_scope_key :: string
  pl_goal_id :: string
  pl_roadmap_id :: string
  pl_correlation_id :: string
  pl_title :: string
  pl_summary :: string
  pl_scope :: string
  pl_assumptions :: "string list"
  pl_stop_conditions :: "string list"
  pl_validation_steps :: "string list"
  pl_targeted_work_point_ids :: "string list"
  pl_effort_tier :: effort_tier
  pl_routing_hint :: "string option"
  pl_allow_parallel_overlap :: bool
  pl_file_scopes :: "file_scope_record list"
  pl_status :: plan_status
  pl_tags :: "string list"
  pl_revision :: int
  pl_created_at :: string
  pl_updated_at :: string

record todo_record =
  td_id :: string
  td_scope_key :: string
  td_plan_id :: "string option"
  td_work_point_id :: "string option"
  td_title :: string
  td_summary :: string
  td_status :: todo_status
  td_priority :: priority
  td_effort_tier :: effort_tier
  td_file_scopes :: "file_scope_record list"
  td_evidence_refs :: "string list"
  td_tags :: "string list"
  td_ordering :: int
  td_revision :: int
  td_created_at :: string
  td_updated_at :: string

record issue_record =
  is_id :: string
  is_scope_key :: string
  is_correlation_id :: string
  is_title :: string
  is_summary :: string
  is_status :: issue_status
  is_severity :: severity
  is_related_entity_type :: "entity_type option"
  is_related_entity_id :: "string option"
  is_tags :: "string list"
  is_revision :: int
  is_created_at :: string
  is_updated_at :: string

record review_point_record =
  rp_id :: string
  rp_scope_key :: string
  rp_attached_entity_type :: entity_type
  rp_attached_entity_id :: string
  rp_title :: string
  rp_summary :: string
  rp_status :: review_point_status
  rp_severity :: severity
  rp_revision :: int
  rp_created_at :: string
  rp_updated_at :: string

record insight_record =
  in_id :: string
  in_scope_key :: string
  in_correlation_id :: string
  in_title :: string
  in_content :: string
  in_insight_type :: insight_type
  in_parent_entity_type :: entity_type
  in_parent_entity_id :: string
  in_tags :: "string list"
  in_status :: insight_status
  in_revision :: int
  in_created_at :: string
  in_updated_at :: string

record discovery_source_entry =
  ds_source_type :: string
  ds_source_id :: string
  ds_observed_at :: string

record discovery_record =
  di_id :: string
  di_scope_key :: string
  di_correlation_id :: string
  di_classification :: discovery_classification
  di_verification_state :: verification_state
  di_severity :: severity
  di_status :: discovery_status
  di_claim :: string
  di_impact :: "string option"
  di_next_action :: "string option"
  di_verification_step :: "string option"
  di_recurrence_key :: "string option"
  di_fingerprint :: "string option"
  di_observed_at :: "string list"
  di_occurrence_count :: int
  di_source_lineage :: "discovery_source_entry list"
  di_review_date :: "string option"
  di_resolved_at :: "string option"
  di_resolution_rationale :: "string option"
  di_promoted_entity_type :: "entity_type option"
  di_promoted_entity_id :: "string option"
  di_tags :: "string list"
  di_revision :: int
  di_created_at :: string
  di_updated_at :: string

record discovery_relationship_record =
  dr_id :: string
  dr_scope_key :: string
  dr_source_id :: string
  dr_target_id :: string
  dr_relationship_kind :: discovery_relationship_kind
  dr_metadata :: "json option"
  dr_created_at :: string

record discovery_checkpoint_record =
  dc_id :: string
  dc_scope_key :: string
  dc_run_id :: string
  dc_event :: string
  dc_snapshot :: "json option"
  dc_created_at :: string

text \<open>
  Worktrees. The status is not a \<open>string_enum!\<close>: it has a \<open>Display\<close> text (stored in the table), a strict
  and a lenient parser, and the text serde writes into JSON.
\<close>

datatype worktree_status =
    WorktreeStatus_Active
  | WorktreeStatus_Archived
  | WorktreeStatus_CleanupIntent

fun worktree_status_to_string :: "worktree_status \<Rightarrow> string" where
  "worktree_status_to_string WorktreeStatus_Active = ''active''"
| "worktree_status_to_string WorktreeStatus_Archived = ''archived''"
| "worktree_status_to_string WorktreeStatus_CleanupIntent = ''cleanup-intent''"

fun worktree_status_serde :: "worktree_status \<Rightarrow> string" where
  "worktree_status_serde WorktreeStatus_Active = ''active''"
| "worktree_status_serde WorktreeStatus_Archived = ''archived''"
| "worktree_status_serde WorktreeStatus_CleanupIntent = ''cleanupintent''"

definition parse_worktree_status :: "string \<Rightarrow> worktree_status" where
  "parse_worktree_status s =
     (if s = ''archived'' then WorktreeStatus_Archived
      else if s = ''cleanup-intent'' then WorktreeStatus_CleanupIntent
      else WorktreeStatus_Active)"

definition parse_worktree_status_strict :: "string \<Rightarrow> string + worktree_status" where
  "parse_worktree_status_strict s =
     (if s = ''active'' then Inr WorktreeStatus_Active
      else if s = ''archived'' then Inr WorktreeStatus_Archived
      else if s = ''cleanup-intent'' then Inr WorktreeStatus_CleanupIntent
      else Inl (format [''invalid worktree status: '', s]))"

record worktree_record =
  wt_id :: string
  wt_scope_key :: string
  wt_repo_uri :: "string option"
  wt_branch :: "string option"
  wt_worktree_path :: "string option"
  wt_project_run_id :: "string option"
  wt_session_id :: "string option"
  wt_status :: worktree_status
  wt_revision :: int
  wt_created_at :: string
  wt_updated_at :: string

interpretation worktree_status: string_enum worktree_status_to_string parse_worktree_status_strict
proof
  fix v show "parse_worktree_status_strict (worktree_status_to_string v) = Inr v"
    by (cases v) (simp_all add: parse_worktree_status_strict_def)
  fix s assume "parse_worktree_status_strict s = Inr v"
  then show "worktree_status_to_string v = s"
    by (auto simp: parse_worktree_status_strict_def split: if_split_asm)
qed

record planning_event =
  ev_event_id :: string
  ev_entity_type :: entity_type
  ev_entity_id :: string
  ev_aggregate_type :: entity_type
  ev_aggregate_id :: string
  ev_correlation_id :: string
  ev_causation_id :: "string option"
  ev_run_id :: string
  ev_stream_id :: string
  ev_sequence :: int
  ev_parent_event_id :: "string option"
  ev_event_type :: string
  ev_timestamp :: string
  ev_payload :: json

record validation_finding =
  vf_finding_id :: string
  vf_entity_type :: entity_type
  vf_entity_id :: string
  vf_severity :: validation_severity
  vf_code :: string
  vf_message :: string
  vf_scope_key :: string
  vf_fingerprint :: string
  vf_created_at :: string

record validation_report =
  vr_status :: validation_status
  vr_findings :: "validation_finding list"

definition from_findings :: "validation_finding list \<Rightarrow> validation_report" where
  "from_findings fs =
     (let findings = sort_key (\<lambda>f. (validation_severity_as_str (vf_severity f), vf_code f, vf_message f)) fs
      in \<lparr>vr_status =
            (if \<exists>f\<in>set findings. vf_severity f = ValidationSeverity_Error then ValidationStatus_Invalid
             else if findings = [] then ValidationStatus_Valid
             else ValidationStatus_Warning),
          vr_findings = findings\<rparr>)"

record 'a mutation_result =
  mr_record :: 'a
  mr_validation :: validation_report

text \<open>
  A report keeps every finding, lists errors before warnings, and its status is a function of
  the findings alone.
\<close>

lemma from_findings_mset: "mset (vr_findings (from_findings fs)) = mset fs"
  by (simp add: from_findings_def Let_def)

lemma from_findings_status:
  "vr_status (from_findings fs) =
     (if \<exists>f\<in>set fs. vf_severity f = ValidationSeverity_Error then ValidationStatus_Invalid
      else if fs = [] then ValidationStatus_Valid else ValidationStatus_Warning)"
  by (simp add: from_findings_def Let_def flip: length_0_conv)

end
