(* ===== verification/PlanningStore.thy ===== *)
theory PlanningStore
  imports PlanningModel
begin

text \<open>
  The state of the planning store and the helpers every operation of \<open>storage.rs\<close> is built from:
  lookups, scope checks, the event log, the tag index, the validation findings and the file
  scopes.

  The store is one record with a list of rows per SQLite table, in insertion order. An operation
  is a function from the store to \<open>error + result \<times> store\<close>: an operation runs in one transaction
  that is rolled back when it returns an error, so an error carries no new store. Inserts and
  updates check the constraints of the schema (primary keys, foreign keys and the two unique
  partial indexes).

  What the code calls outside this repository is the parameter \<open>environment\<close>: the \<open>n\<close>-th UUID and
  the \<open>n\<close>-th reading of the clock (\<open>tick\<close> counts them), the parser and printer of RFC 3339
  times of the crate \<open>time\<close> (an instant is a number of nanoseconds), and SQLite's \<open>julianday\<close>.
\<close>

section \<open>State and environment\<close>

record entity_file_scope_row =
  ef_id :: string
  ef_scope_key :: string
  ef_owner_entity_type :: entity_type
  ef_owner_entity_id :: string
  ef_file_scope :: file_scope_record
  ef_ordering_index :: int
  ef_created_at :: string
  ef_updated_at :: string

record planning_store =
  scopes :: "scope_record list"
  goals :: "goal_record list"
  roadmaps :: "roadmap_record list"
  roadmap_sections :: "roadmap_section_record list"
  work_points :: "work_point_record list"
  plans :: "plan_record list"
  todos :: "todo_record list"
  issues :: "issue_record list"
  review_points :: "review_point_record list"
  insights :: "insight_record list"
  project_runs :: "project_run_record list"
  planning_nodes :: "planning_graph_node list"
  planning_edges :: "planning_graph_edge list"
  planning_events :: "(string \<times> planning_event) list"
  validation_findings :: "validation_finding list"
  tag_index :: "(string \<times> entity_type \<times> string \<times> string) list"
  entity_file_scopes :: "entity_file_scope_row list"
  discovery_nodes :: "discovery_record list"
  discovery_relationships :: "discovery_relationship_record list"
  discovery_checkpoints :: "discovery_checkpoint_record list"
  worktrees :: "worktree_record list"
  entities_fts :: "(string \<times> entity_type \<times> string \<times> string \<times> string) list"
  insights_fts :: "(string \<times> string \<times> string) list"
  tick :: nat

record environment =
  env_new_id :: "nat \<Rightarrow> string"
  env_now :: "nat \<Rightarrow> string option"
  env_parse_rfc3339 :: "string \<Rightarrow> int option"
  env_format_rfc3339 :: "int \<Rightarrow> string option"
  env_julianday :: "string \<Rightarrow> int option"

definition now_string :: "environment \<Rightarrow> planning_store \<Rightarrow> (string \<times> planning_store) result" where
  "now_string env st =
     (case env_now env (tick st) of
        None \<Rightarrow> Inl TimeFormat
      | Some t \<Rightarrow> Inr (t, st\<lparr>tick := Suc (tick st)\<rparr>))"

definition new_id :: "environment \<Rightarrow> planning_store \<Rightarrow> string \<times> planning_store" where
  "new_id env st = (env_new_id env (tick st), st\<lparr>tick := Suc (tick st)\<rparr>)"

definition id_or_new :: "environment \<Rightarrow> planning_store \<Rightarrow> string option \<Rightarrow> string \<times> planning_store" where
  "id_or_new env st given = (case given of Some i \<Rightarrow> (i, st) | None \<Rightarrow> new_id env st)"

lemma now_string_Inr_iff:
  "now_string env st = Inr (t, st') \<longleftrightarrow> env_now env (tick st) = Some t \<and> st' = st\<lparr>tick := Suc (tick st)\<rparr>"
  by (auto simp: now_string_def split: option.splits)

definition chosen_id :: "environment \<Rightarrow> nat \<Rightarrow> string option \<Rightarrow> string" where
  "chosen_id env n given = (case given of Some i \<Rightarrow> i | None \<Rightarrow> env_new_id env n)"

definition chosen_tick :: "nat \<Rightarrow> string option \<Rightarrow> nat" where
  "chosen_tick n given = (case given of Some i \<Rightarrow> n | None \<Rightarrow> Suc n)"

lemma id_or_new_eq:
  "id_or_new env st given = (chosen_id env (tick st) given, st\<lparr>tick := chosen_tick (tick st) given\<rparr>)"
  by (cases given) (simp_all add: id_or_new_def new_id_def chosen_id_def chosen_tick_def)

lemma chosen_id_Some [simp]: "chosen_id env n (Some i) = i"
  by (simp add: chosen_id_def)

lemmas readings = now_string_Inr_iff id_or_new_eq new_id_def

section \<open>Checks on arguments\<close>

definition require_non_empty :: "string \<Rightarrow> string \<Rightarrow> unit result" where
  "require_non_empty field val =
     (if trim val = [] then Inl (invalid [field, '' must not be empty'']) else Inr ())"

definition is_kebab :: "string \<Rightarrow> bool" where
  "is_kebab s \<longleftrightarrow>
     list_all (\<lambda>c. is_ascii_lowercase c \<or> is_ascii_digit c \<or> c = CHR ''-'') s
     \<and> (case s of [] \<Rightarrow> False | c # _ \<Rightarrow> is_ascii_lowercase c)
     \<and> \<not> ends_with_char s (CHR ''-'')
     \<and> \<not> contains_str s ''--''"

definition require_kebab_token :: "string \<Rightarrow> string \<Rightarrow> unit result" where
  "require_kebab_token field val =
     (let trimmed = trim val in
      if trimmed = [] then Inl (invalid [field, '' must not be empty''])
      else if \<not> is_kebab trimmed then
        Inl (invalid [field, '' must be a lowercase kebab-case token matching [a-z]([a-z0-9]*(-[a-z0-9]+)*)?, got: '',
                      [CHR 0x27], trimmed, [CHR 0x27]])
      else Inr ())"

definition normalize_string_list :: "string list \<Rightarrow> string list" where
  "normalize_string_list values =
     remdups_adj (sort (filter (\<lambda>v. v \<noteq> []) (map trim values)))"

definition DEFAULT_SCOPE_KEY :: string where
  "DEFAULT_SCOPE_KEY = ''default''"

definition normalize_scope_key_value :: "string \<Rightarrow> string" where
  "normalize_scope_key_value val = (let trimmed = trim val in
     if trimmed = [] then DEFAULT_SCOPE_KEY else trimmed)"

definition normalized_scope_key :: "string option \<Rightarrow> string" where
  "normalized_scope_key scope_key =
     (case scope_key of None \<Rightarrow> DEFAULT_SCOPE_KEY | Some s \<Rightarrow> normalize_scope_key_value s)"

lemma require_non_empty_Inr [simp]: "require_non_empty f v = Inr u \<longleftrightarrow> trim v \<noteq> []"
  by (simp add: require_non_empty_def)

lemma require_kebab_token_Inr [simp]: "require_kebab_token f v = Inr u \<longleftrightarrow> is_kebab (trim v)"
  by (auto simp: require_kebab_token_def Let_def is_kebab_def)

lemma is_kebab_not_Nil: "is_kebab s \<Longrightarrow> s \<noteq> []"
  by (auto simp: is_kebab_def)

section \<open>Lookups\<close>

definition not_found :: "entity_type \<Rightarrow> string \<Rightarrow> planning_store_error" where
  "not_found et i = NotFound (entity_type_as_str et) i"

definition row_or_not_found :: "entity_type \<Rightarrow> string \<Rightarrow> 'r option \<Rightarrow> 'r result" where
  "row_or_not_found et i r = (case r of None \<Rightarrow> Inl (not_found et i) | Some x \<Rightarrow> Inr x)"

lemma row_or_not_found_Inr [simp]: "row_or_not_found et i r = Inr x \<longleftrightarrow> r = Some x"
  by (simp add: row_or_not_found_def split: option.splits)

lemma row_or_not_found_Inl [simp]: "row_or_not_found et i r = Inl e \<longleftrightarrow> r = None \<and> e = not_found et i"
  by (auto simp: row_or_not_found_def split: option.splits)

definition load_file_scopes_for_entity ::
    "planning_store \<Rightarrow> entity_type \<Rightarrow> string \<Rightarrow> file_scope_record list" where
  "load_file_scopes_for_entity st et i =
     map ef_file_scope
       (sort_key (\<lambda>r. (ef_ordering_index r, ef_id r))
         (filter (\<lambda>r. ef_owner_entity_type r = et \<and> ef_owner_entity_id r = i) (entity_file_scopes st)))"

definition load_scope :: "planning_store \<Rightarrow> string \<Rightarrow> scope_record result" where
  "load_scope st k =
     row_or_not_found EntityType_Scope k (find_row sc_scope_key (normalize_scope_key_value k) (scopes st))"

definition load_goal :: "planning_store \<Rightarrow> string \<Rightarrow> goal_record result" where
  "load_goal st i = row_or_not_found EntityType_Goal i (find_row go_id i (goals st))"

definition load_roadmap :: "planning_store \<Rightarrow> string \<Rightarrow> roadmap_record result" where
  "load_roadmap st i = row_or_not_found EntityType_Roadmap i (find_row rm_id i (roadmaps st))"

definition load_plan :: "planning_store \<Rightarrow> string \<Rightarrow> plan_record result" where
  "load_plan st i =
     tryE (row_or_not_found EntityType_Plan i (find_row pl_id i (plans st)))
       (\<lambda>r. Inr (r\<lparr>pl_file_scopes := load_file_scopes_for_entity st EntityType_Plan i\<rparr>))"

definition load_issue :: "planning_store \<Rightarrow> string \<Rightarrow> issue_record result" where
  "load_issue st i = row_or_not_found EntityType_Issue i (find_row is_id i (issues st))"

definition load_work_point :: "planning_store \<Rightarrow> string \<Rightarrow> work_point_record result" where
  "load_work_point st i =
     tryE (row_or_not_found EntityType_WorkPoint i (find_row wp_id i (work_points st)))
       (\<lambda>r. Inr (r\<lparr>wp_file_scopes := load_file_scopes_for_entity st EntityType_WorkPoint i\<rparr>))"

definition load_todo :: "planning_store \<Rightarrow> string \<Rightarrow> todo_record result" where
  "load_todo st i =
     tryE (row_or_not_found EntityType_Todo i (find_row td_id i (todos st)))
       (\<lambda>r. Inr (r\<lparr>td_file_scopes := load_file_scopes_for_entity st EntityType_Todo i\<rparr>))"

definition load_review_point :: "planning_store \<Rightarrow> string \<Rightarrow> review_point_record result" where
  "load_review_point st i =
     row_or_not_found EntityType_ReviewPoint i (find_row rp_id i (review_points st))"

definition load_insight :: "planning_store \<Rightarrow> string \<Rightarrow> insight_record result" where
  "load_insight st i = row_or_not_found EntityType_Insight i (find_row in_id i (insights st))"

definition load_project_run :: "planning_store \<Rightarrow> string \<Rightarrow> project_run_record result" where
  "load_project_run st i =
     row_or_not_found EntityType_ProjectRun i (find_row pr_id i (project_runs st))"

definition load_graph_node :: "planning_store \<Rightarrow> string \<Rightarrow> planning_graph_node result" where
  "load_graph_node st i =
     row_or_not_found EntityType_GraphNode i (find_row gn_id i (planning_nodes st))"

definition load_graph_edge :: "planning_store \<Rightarrow> string \<Rightarrow> planning_graph_edge result" where
  "load_graph_edge st i =
     row_or_not_found EntityType_GraphEdge i (find_row ge_id i (planning_edges st))"

definition load_discovery :: "planning_store \<Rightarrow> string \<Rightarrow> discovery_record result" where
  "load_discovery st i =
     row_or_not_found EntityType_DiscoveryNode i (find_row di_id i (discovery_nodes st))"

definition list_work_points_for_roadmap :: "planning_store \<Rightarrow> string \<Rightarrow> work_point_record list" where
  "list_work_points_for_roadmap st i =
     map (\<lambda>r. r\<lparr>wp_file_scopes := load_file_scopes_for_entity st EntityType_WorkPoint (wp_id r)\<rparr>)
       (sort_key (\<lambda>r. (wp_ordering r, wp_id r))
         (filter (\<lambda>r. wp_roadmap_id r = i) (work_points st)))"

definition list_todos_for_plan :: "planning_store \<Rightarrow> string \<Rightarrow> todo_record list" where
  "list_todos_for_plan st i =
     map (\<lambda>r. r\<lparr>td_file_scopes := load_file_scopes_for_entity st EntityType_Todo (td_id r)\<rparr>)
       (sort_key (\<lambda>r. (td_ordering r, td_id r)) (filter (\<lambda>r. td_plan_id r = Some i) (todos st)))"

definition list_review_points_for_entity ::
    "planning_store \<Rightarrow> entity_type \<Rightarrow> string \<Rightarrow> review_point_record list" where
  "list_review_points_for_entity st et i =
     sort_key (\<lambda>r. (rp_created_at r, rp_id r))
       (filter (\<lambda>r. rp_attached_entity_type r = et \<and> rp_attached_entity_id r = i) (review_points st))"

definition list_issues_for_related_entity ::
    "planning_store \<Rightarrow> entity_type \<Rightarrow> string \<Rightarrow> issue_record list" where
  "list_issues_for_related_entity st et i =
     sort_key (\<lambda>r. (is_created_at r, is_id r))
       (filter (\<lambda>r. is_related_entity_type r = Some et \<and> is_related_entity_id r = Some i) (issues st))"

section \<open>Scopes\<close>

definition ensure_scope_exists :: "planning_store \<Rightarrow> string \<Rightarrow> unit result" where
  "ensure_scope_exists st k =
     (case find_row sc_scope_key k (scopes st) of
        None \<Rightarrow> Inl (invalid [''scopeKey references missing scope `'', k, ''`''])
      | Some _ \<Rightarrow> Inr ())"

lemma ensure_scope_exists_Inr [simp]:
  "ensure_scope_exists st k = Inr u \<longleftrightarrow> k \<in> sc_scope_key ` set (scopes st)"
  by (auto simp: ensure_scope_exists_def split: option.splits dest: find_row_SomeD)
     (metis find_row_None_iff image_eqI option.distinct(1))

fun scope_key_for_entity :: "planning_store \<Rightarrow> entity_type \<Rightarrow> string \<Rightarrow> string result" where
  "scope_key_for_entity st et i =
     row_or_not_found et i
       (case et of
          EntityType_Scope \<Rightarrow> map_option sc_scope_key (find_row sc_scope_key i (scopes st))
        | EntityType_Goal \<Rightarrow> map_option go_scope_key (find_row go_id i (goals st))
        | EntityType_Roadmap \<Rightarrow> map_option rm_scope_key (find_row rm_id i (roadmaps st))
        | EntityType_RoadmapSection \<Rightarrow> map_option rs_scope_key (find_row rs_id i (roadmap_sections st))
        | EntityType_WorkPoint \<Rightarrow> map_option wp_scope_key (find_row wp_id i (work_points st))
        | EntityType_Plan \<Rightarrow> map_option pl_scope_key (find_row pl_id i (plans st))
        | EntityType_Todo \<Rightarrow> map_option td_scope_key (find_row td_id i (todos st))
        | EntityType_Issue \<Rightarrow> map_option is_scope_key (find_row is_id i (issues st))
        | EntityType_ReviewPoint \<Rightarrow> map_option rp_scope_key (find_row rp_id i (review_points st))
        | EntityType_Insight \<Rightarrow> map_option in_scope_key (find_row in_id i (insights st))
        | EntityType_ProjectRun \<Rightarrow> map_option pr_scope_key (find_row pr_id i (project_runs st))
        | EntityType_GraphNode \<Rightarrow> map_option gn_scope_key (find_row gn_id i (planning_nodes st))
        | EntityType_GraphEdge \<Rightarrow> map_option ge_scope_key (find_row ge_id i (planning_edges st))
        | EntityType_DiscoveryNode \<Rightarrow> map_option di_scope_key (find_row di_id i (discovery_nodes st))
        | EntityType_DiscoveryRelationship \<Rightarrow> map_option dr_scope_key (find_row dr_id i (discovery_relationships st))
        | EntityType_DiscoveryCheckpoint \<Rightarrow> map_option dc_scope_key (find_row dc_id i (discovery_checkpoints st)))"

declare scope_key_for_entity.simps [simp del]

lemma scope_key_for_entity_tick [simp]:
  "scope_key_for_entity (st\<lparr>tick := n\<rparr>) et i = scope_key_for_entity st et i"
  by (cases et) (simp_all add: scope_key_for_entity.simps)

fun ensure_entity_exists :: "planning_store \<Rightarrow> entity_type \<Rightarrow> string \<Rightarrow> string \<Rightarrow> unit result" where
  "ensure_entity_exists st et i field_name =
     (let found = (case et of
          EntityType_Scope \<Rightarrow> is_ok (load_scope st i)
        | EntityType_Goal \<Rightarrow> is_ok (load_goal st i)
        | EntityType_Roadmap \<Rightarrow> is_ok (load_roadmap st i)
        | EntityType_RoadmapSection \<Rightarrow> find_row rs_id i (roadmap_sections st) \<noteq> None
        | EntityType_WorkPoint \<Rightarrow> is_ok (load_work_point st i)
        | EntityType_Plan \<Rightarrow> is_ok (load_plan st i)
        | EntityType_Todo \<Rightarrow> is_ok (load_todo st i)
        | EntityType_Issue \<Rightarrow> is_ok (load_issue st i)
        | EntityType_ReviewPoint \<Rightarrow> find_row rp_id i (review_points st) \<noteq> None
        | EntityType_Insight \<Rightarrow> is_ok (load_insight st i)
        | EntityType_ProjectRun \<Rightarrow> is_ok (load_project_run st i)
        | EntityType_GraphNode \<Rightarrow> is_ok (load_graph_node st i)
        | EntityType_GraphEdge \<Rightarrow> find_row ge_id i (planning_edges st) \<noteq> None
        | EntityType_DiscoveryNode \<Rightarrow> is_ok (load_discovery st i)
        | EntityType_DiscoveryRelationship \<Rightarrow> find_row dr_id i (discovery_relationships st) \<noteq> None
        | EntityType_DiscoveryCheckpoint \<Rightarrow> find_row dc_id i (discovery_checkpoints st) \<noteq> None)
      in if found then Inr ()
         else Inl (invalid [field_name, '' references missing '', entity_type_as_str et, '' `'', i, ''`'']))"

definition ensure_referenced_entity_in_scope ::
    "planning_store \<Rightarrow> entity_type \<Rightarrow> string \<Rightarrow> string \<Rightarrow> string \<Rightarrow> string result" where
  "ensure_referenced_entity_in_scope st et i field_name active_scope_key =
     tryE (ensure_entity_exists st et i field_name) (\<lambda>_.
     tryE (scope_key_for_entity st et i) (\<lambda>scope_key.
       if scope_key \<noteq> active_scope_key then
         Inl (invalid [field_name, '' references '', entity_type_as_str et, '' `'', i, ''` in scope `'',
                       scope_key, ''`, not active scope `'', active_scope_key, ''`''])
       else Inr scope_key))"

definition ensure_entity_in_scope ::
    "planning_store \<Rightarrow> entity_type \<Rightarrow> string \<Rightarrow> string \<Rightarrow> string result" where
  "ensure_entity_in_scope st et i active_scope_key =
     tryE (scope_key_for_entity st et i) (\<lambda>scope_key.
       if scope_key \<noteq> active_scope_key then
         Inl (invalid [entity_type_as_str et, '' `'', i, ''` is in scope `'', scope_key,
                       ''`, not active scope `'', active_scope_key, ''`''])
       else Inr scope_key)"

lemma ensure_entity_in_scope_Inr:
  "ensure_entity_in_scope st et i k = Inr k' \<longleftrightarrow> scope_key_for_entity st et i = Inr k \<and> k' = k"
  by (auto simp: ensure_entity_in_scope_def split: if_splits)

section \<open>The event log\<close>

definition max_or_zero :: "int list \<Rightarrow> int" where
  "max_or_zero xs = (case xs of [] \<Rightarrow> 0 | y # ys \<Rightarrow> fold max ys y)"

lemma max_or_zero_ge: "x \<in> set xs \<Longrightarrow> x \<le> max_or_zero xs"
  by (cases xs) (auto simp: max_or_zero_def Max.set_eq_fold [symmetric])

lemma max_or_zero_in: "xs \<noteq> [] \<Longrightarrow> max_or_zero xs \<in> set xs"
  using Max_in [of "set xs"]
  by (cases xs) (simp_all add: max_or_zero_def Max.set_eq_fold [symmetric] del: Max_insert)

definition resolve_event_scope_key ::
    "planning_store \<Rightarrow> entity_type \<Rightarrow> string \<Rightarrow> entity_type \<Rightarrow> string \<Rightarrow> string result" where
  "resolve_event_scope_key st et i agg_et agg_id =
     (case scope_key_for_entity st et i of
        Inr k \<Rightarrow> Inr k
      | Inl _ \<Rightarrow> scope_key_for_entity st agg_et agg_id)"

definition build_event ::
    "environment \<Rightarrow> planning_store \<Rightarrow> entity_type \<Rightarrow> string \<Rightarrow> entity_type \<Rightarrow> string \<Rightarrow> string
     \<Rightarrow> string option \<Rightarrow> string \<Rightarrow> json \<Rightarrow> (planning_event \<times> planning_store) result" where
  "build_event env st et i agg_et agg_id correlation_id run_id event_type payload =
     (let (event_id, st) = new_id env st in
      tryE (now_string env st) (\<lambda>(timestamp, st).
      let sequence = max_or_zero (map (\<lambda>(_, e). ev_sequence e)
            (filter (\<lambda>(_, e). ev_stream_id e = agg_id) (planning_events st))) + 1 in
      if sequence < 0 then Inl (invalid [''event sequence became negative'']) else
      Inr (\<lparr>ev_event_id = event_id, ev_entity_type = et, ev_entity_id = i,
            ev_aggregate_type = agg_et, ev_aggregate_id = agg_id,
            ev_correlation_id = correlation_id, ev_causation_id = None,
            ev_run_id = (case run_id of None \<Rightarrow> format [''run-'', event_id] | Some r \<Rightarrow> r),
            ev_stream_id = agg_id, ev_sequence = sequence, ev_parent_event_id = None,
            ev_event_type = event_type, ev_timestamp = timestamp, ev_payload = payload\<rparr>, st)))"

definition append_event :: "planning_store \<Rightarrow> planning_event \<Rightarrow> planning_store result" where
  "append_event st event =
     tryE (resolve_event_scope_key st (ev_entity_type event) (ev_entity_id event)
             (ev_aggregate_type event) (ev_aggregate_id event)) (\<lambda>scope_key.
       if ev_event_id event \<in> set (map (\<lambda>(_, e). ev_event_id e) (planning_events st))
       then Inl (Sqlite (UniqueViolation ''planning_events.event_id''))
       else Inr (st\<lparr>planning_events := planning_events st @ [(scope_key, event)]\<rparr>))"

text \<open>\<open>append_event(&transaction, build_event(...)?)?\<close>, the form in which every operation calls them.\<close>

definition log_event ::
    "environment \<Rightarrow> planning_store \<Rightarrow> entity_type \<Rightarrow> string \<Rightarrow> entity_type \<Rightarrow> string \<Rightarrow> string
     \<Rightarrow> string option \<Rightarrow> string \<Rightarrow> json \<Rightarrow> planning_store result" where
  "log_event env st et i agg_et agg_id correlation_id run_id event_type payload =
     tryE (build_event env st et i agg_et agg_id correlation_id run_id event_type payload)
       (\<lambda>(event, st). append_event st event)"

section \<open>Tag index and file scopes\<close>

definition rebuild_tag_index_for_entity ::
    "planning_store \<Rightarrow> entity_type \<Rightarrow> string \<Rightarrow> string list \<Rightarrow> planning_store result" where
  "rebuild_tag_index_for_entity st et i tags =
     (let st = st\<lparr>tag_index := filter (\<lambda>(_, t, e, _). \<not> (t = et \<and> e = i)) (tag_index st)\<rparr> in
      tryE (scope_key_for_entity st et i) (\<lambda>scope_key.
      Inr (fold (\<lambda>tag s. if (scope_key, et, i, tag) \<in> set (tag_index s) then s
                         else s\<lparr>tag_index := tag_index s @ [(scope_key, et, i, tag)]\<rparr>) tags st)))"

definition replace_entity_file_scopes ::
    "environment \<Rightarrow> planning_store \<Rightarrow> string \<Rightarrow> entity_type \<Rightarrow> string \<Rightarrow> file_scope_record list
     \<Rightarrow> string \<Rightarrow> planning_store result" where
  "replace_entity_file_scopes env st scope_key et i file_scopes now =
     foldE (\<lambda>st (index, fs).
       let (row_id, st) = new_id env st;
           row = \<lparr>ef_id = row_id, ef_scope_key = scope_key, ef_owner_entity_type = et,
                  ef_owner_entity_id = i, ef_file_scope = fs, ef_ordering_index = int index,
                  ef_created_at = now, ef_updated_at = now\<rparr> in
       if row_id \<in> ef_id ` set (entity_file_scopes st)
          \<or> (et, i, fs) \<in> (\<lambda>r. (ef_owner_entity_type r, ef_owner_entity_id r, ef_file_scope r))
                             ` set (entity_file_scopes st)
       then Inl (Sqlite (UniqueViolation ''entity_file_scopes''))
       else Inr (st\<lparr>entity_file_scopes := entity_file_scopes st @ [row]\<rparr>))
     (st\<lparr>entity_file_scopes :=
          filter (\<lambda>r. \<not> (ef_owner_entity_type r = et \<and> ef_owner_entity_id r = i)) (entity_file_scopes st)\<rparr>)
     (enumerate 0 file_scopes)"

text \<open>The rows of the full-text tables; their tokenizer is SQLite's and no operation here reads it.\<close>

definition upsert_fts_entry ::
    "planning_store \<Rightarrow> entity_type \<Rightarrow> string \<Rightarrow> string \<Rightarrow> string \<Rightarrow> string \<Rightarrow> planning_store" where
  "upsert_fts_entry st et scope_key row_id title content =
     st\<lparr>entities_fts := filter (\<lambda>(i, t, k, _). \<not> (i = row_id \<and> t = et \<and> k = scope_key)) (entities_fts st)
        @ [(row_id, et, scope_key, title, content)]\<rparr>"

definition upsert_insights_fts_entry :: "planning_store \<Rightarrow> string \<Rightarrow> string \<Rightarrow> string \<Rightarrow> planning_store" where
  "upsert_insights_fts_entry st row_id title content =
     st\<lparr>insights_fts := filter (\<lambda>(i, _). i \<noteq> row_id) (insights_fts st) @ [(row_id, title, content)]\<rparr>"

section \<open>Validation findings\<close>

definition persist_validation_findings ::
    "planning_store \<Rightarrow> entity_type \<Rightarrow> string \<Rightarrow> validation_finding list \<Rightarrow> planning_store result" where
  "persist_validation_findings st et i findings =
     foldE (\<lambda>st f.
       if vf_finding_id f \<in> vf_finding_id ` set (validation_findings st)
       then Inl (Sqlite (UniqueViolation ''validation_findings.finding_id''))
       else Inr (st\<lparr>validation_findings := validation_findings st @ [f]\<rparr>))
     (st\<lparr>validation_findings :=
          filter (\<lambda>f. \<not> (vf_entity_type f = et \<and> vf_entity_id f = i)) (validation_findings st)\<rparr>)
     findings"

definition load_validation_report :: "planning_store \<Rightarrow> entity_type \<Rightarrow> string \<Rightarrow> validation_report" where
  "load_validation_report st et i =
     from_findings
       (sort_key (\<lambda>f. (validation_severity_as_str (vf_severity f), vf_code f, vf_created_at f))
         (filter (\<lambda>f. vf_entity_type f = et \<and> vf_entity_id f = i) (validation_findings st)))"

section \<open>Correlation ids\<close>

definition roadmap_correlation_id :: "planning_store \<Rightarrow> string \<Rightarrow> string result" where
  "roadmap_correlation_id st i = tryE (load_roadmap st i) (\<lambda>r. Inr (rm_correlation_id r))"

definition plan_correlation_id :: "planning_store \<Rightarrow> string \<Rightarrow> string result" where
  "plan_correlation_id st i = tryE (load_plan st i) (\<lambda>p. Inr (pl_correlation_id p))"

definition work_point_correlation_id :: "planning_store \<Rightarrow> string \<Rightarrow> string result" where
  "work_point_correlation_id st i =
     tryE (load_work_point st i) (\<lambda>w. roadmap_correlation_id st (wp_roadmap_id w))"

text \<open>
  A review point may be attached to a review point; the recursion of the source then follows the
  chain. The fuel bounds the length of the chain: one more than the number of review points.
\<close>

fun attached_correlation_fuel :: "nat \<Rightarrow> planning_store \<Rightarrow> entity_type \<Rightarrow> string \<Rightarrow> string result" where
  "attached_correlation_fuel 0 st et i = Inl Diverges"
| "attached_correlation_fuel (Suc n) st et i =
     (case et of
        EntityType_Scope \<Rightarrow> Inr (format [''corr-scope-'', i])
      | EntityType_Goal \<Rightarrow> tryE (load_goal st i) (\<lambda>g. Inr (go_correlation_id g))
      | EntityType_Roadmap \<Rightarrow> tryE (load_roadmap st i) (\<lambda>r. Inr (rm_correlation_id r))
      | EntityType_WorkPoint \<Rightarrow> work_point_correlation_id st i
      | EntityType_Plan \<Rightarrow> plan_correlation_id st i
      | EntityType_Todo \<Rightarrow>
          tryE (load_todo st i) (\<lambda>t.
            case td_plan_id t of
              Some p \<Rightarrow> plan_correlation_id st p
            | None \<Rightarrow> (case td_work_point_id t of
                         Some w \<Rightarrow> work_point_correlation_id st w
                       | None \<Rightarrow> Inr (format [''corr-'', i])))
      | EntityType_Issue \<Rightarrow> tryE (load_issue st i) (\<lambda>x. Inr (is_correlation_id x))
      | EntityType_Insight \<Rightarrow> tryE (load_insight st i) (\<lambda>x. Inr (in_correlation_id x))
      | EntityType_ProjectRun \<Rightarrow>
          tryE (load_project_run st i) (\<lambda>r. roadmap_correlation_id st (pr_roadmap_id r))
      | EntityType_RoadmapSection \<Rightarrow>
          tryE (row_or_not_found EntityType_RoadmapSection i (find_row rs_id i (roadmap_sections st)))
            (\<lambda>s. roadmap_correlation_id st (rs_roadmap_id s))
      | EntityType_ReviewPoint \<Rightarrow>
          tryE (row_or_not_found EntityType_ReviewPoint i (find_row rp_id i (review_points st)))
            (\<lambda>r. attached_correlation_fuel n st (rp_attached_entity_type r) (rp_attached_entity_id r))
      | EntityType_GraphNode \<Rightarrow> Inr (format [''corr-graph-node-'', i])
      | EntityType_GraphEdge \<Rightarrow> Inr (format [''corr-graph-edge-'', i])
      | EntityType_DiscoveryNode \<Rightarrow> tryE (load_discovery st i) (\<lambda>d. Inr (di_correlation_id d))
      | EntityType_DiscoveryRelationship \<Rightarrow> Inr (format [''corr-discovery-rel-'', i])
      | EntityType_DiscoveryCheckpoint \<Rightarrow> Inr (format [''corr-discovery-cp-'', i]))"

definition attached_entity_correlation_id :: "planning_store \<Rightarrow> entity_type \<Rightarrow> string \<Rightarrow> string result" where
  "attached_entity_correlation_id st et i =
     attached_correlation_fuel (Suc (length (review_points st))) st et i"

section \<open>The tables the operations write\<close>

interpretation nodes_tab: row_table planning_nodes planning_nodes_update gn_id
  by unfold_locales simp

interpretation edges_tab: row_table planning_edges planning_edges_update ge_id
  by unfold_locales simp

interpretation runs_tab: row_table project_runs project_runs_update pr_id
  by unfold_locales simp

text \<open>
  Frame: the bookkeeping of an operation (clock and UUID readings, events, tags, findings) changes
  only its own tables. \<open>core st\<close> is the part of the store that the entities live in.
\<close>

definition core :: "planning_store \<Rightarrow> planning_store" where
  "core st = st\<lparr>planning_events := [], validation_findings := [], tag_index := [], entities_fts := [],
     insights_fts := [], tick := 0\<rparr>"

lemma core_fields:
  assumes "core st = core st'"
  shows "scopes st = scopes st'" "goals st = goals st'" "roadmaps st = roadmaps st'"
    "roadmap_sections st = roadmap_sections st'" "work_points st = work_points st'"
    "plans st = plans st'" "todos st = todos st'" "issues st = issues st'"
    "review_points st = review_points st'" "insights st = insights st'"
    "project_runs st = project_runs st'" "planning_nodes st = planning_nodes st'"
    "planning_edges st = planning_edges st'" "entity_file_scopes st = entity_file_scopes st'"
    "discovery_nodes st = discovery_nodes st'" "discovery_relationships st = discovery_relationships st'"
    "discovery_checkpoints st = discovery_checkpoints st'" "worktrees st = worktrees st'"
  using assms by (cases st; cases st'; simp add: core_def)+

lemma core_update_simps [simp]:
  "core (st\<lparr>planning_events := a\<rparr>) = core st"
  "core (st\<lparr>validation_findings := b\<rparr>) = core st"
  "core (st\<lparr>tag_index := c\<rparr>) = core st"
  "core (st\<lparr>tick := d\<rparr>) = core st"
  "core (st\<lparr>entities_fts := e\<rparr>) = core st"
  "core (st\<lparr>insights_fts := f\<rparr>) = core st"
  by (simp_all add: core_def)

lemma now_string_core [frame_simps]: "now_string env st = Inr (t, st') \<Longrightarrow> core st' = core st"
  by (auto simp: now_string_def split: option.splits)

lemma new_id_core [frame_simps]: "core (snd (new_id env st)) = core st"
  by (simp add: new_id_def)

lemma log_event_core [frame_simps]:
  "log_event env st et i aet ai c r ty p = Inr st' \<Longrightarrow> core st' = core st"
  by (auto simp: log_event_def build_event_def append_event_def Let_def new_id_def
      dest!: now_string_core split: if_splits)

lemma fold_tag_core:
  "core (fold (\<lambda>tag s. if P tag s then s else s\<lparr>tag_index := tag_index s @ [g tag]\<rparr>) tags st) = core st"
  by (induction tags arbitrary: st) auto

lemma rebuild_tag_index_core [frame_simps]:
  "rebuild_tag_index_for_entity st et i tags = Inr st' \<Longrightarrow> core st' = core st"
  by (auto simp: rebuild_tag_index_for_entity_def Let_def fold_tag_core)

lemma persist_validation_findings_core [frame_simps]:
  assumes "persist_validation_findings st et i fs = Inr st'"
  shows "core st' = core st"
  using assms unfolding persist_validation_findings_def
  by (rule foldE_invariant [where P = "\<lambda>s. core s = core st"]) (auto split: if_splits)

lemma upsert_fts_core [simp]:
  "core (upsert_fts_entry st et k i title content) = core st"
  "core (upsert_insights_fts_entry st i title content) = core st"
  by (simp_all add: upsert_fts_entry_def upsert_insights_fts_entry_def)

end
