(* ===== verification/GraphCycle.thy ===== *)
theory GraphCycle
  imports PlanningStore
begin

text \<open>
  The edges of the planning graph and the checks an edge has to pass: the allowed kinds of its end
  points (\<open>validate_edge_kind_pair\<close>), the queries for the edges at a node, and the two depth-first
  searches for cycles (\<open>walk_graph_edges\<close> over the edge table, \<open>would_create_cycle\<close> over the
  dependency lists of work points). Both searches are the function \<open>walk_nodes\<close> below: it carries
  the visited set through the loop and returns at once when the target is met. The locale
  \<open>cycle_guard\<close> states what the callers rely on: an edge the search lets through keeps the
  relation acyclic.
\<close>

section \<open>Depth-first search with a visited set\<close>

definition succs :: "('a \<times> 'a) list \<Rightarrow> 'a \<Rightarrow> 'a list" where
  "succs es x = map snd (filter (\<lambda>(s, _). s = x) es)"

lemma set_succs [simp]: "set (succs es x) = {y. (x, y) \<in> set es}"
  by (auto simp: succs_def image_iff)

text \<open>
  \<open>walk_nodes es target xs visited\<close> visits the nodes \<open>xs\<close> in order; the first component of the
  result says whether the target was met, the second is the visited set at that point.
\<close>

function walk_nodes :: "('a \<times> 'a) list \<Rightarrow> 'a \<Rightarrow> 'a list \<Rightarrow> 'a list \<Rightarrow> bool \<times> 'a list" where
  "walk_nodes es target [] visited = (False, visited)"
| "walk_nodes es target (current # rest) visited =
     (if current = target then (True, visited)
      else if current \<in> set visited then walk_nodes es target rest visited
      else (case walk_nodes es target (succs es current) (current # visited) of
              (found, visited') \<Rightarrow>
                if found then (True, visited') else walk_nodes es target rest visited'))"
  by pat_completeness auto

lemma walk_nodes_grows_dom:
  "walk_nodes_dom (es, target, xs, visited) \<Longrightarrow> set visited \<subseteq> set (snd (walk_nodes es target xs visited))"
proof (induction es target xs visited rule: walk_nodes.pinduct)
  case (1 es target visited)
  then show ?case by (simp add: walk_nodes.psimps)
next
  case (2 es target current rest visited)
  obtain found v where inner:
    "walk_nodes es target (succs es current) (current # visited) = (found, v)" by fastforce
  show ?case
  proof (cases "current = target \<or> current \<in> set visited")
    case True
    with 2 show ?thesis by (auto simp: walk_nodes.psimps)
  next
    case False
    with 2 inner have "set (current # visited) \<subseteq> set v"
      and "\<not> found \<Longrightarrow> set v \<subseteq> set (snd (walk_nodes es target rest v))" by auto
    with False 2 inner show ?thesis by (auto simp: walk_nodes.psimps)
  qed
qed

definition unvisited :: "('a \<times> 'a) list \<Rightarrow> 'a list \<Rightarrow> 'a set" where
  "unvisited es visited = (fst ` set es \<union> snd ` set es) - set visited"

lemma finite_unvisited [simp]: "finite (unvisited es visited)"
  by (simp add: unvisited_def)

lemma unvisited_antimono: "set v \<subseteq> set v' \<Longrightarrow> unvisited es v' \<subseteq> unvisited es v"
  by (auto simp: unvisited_def)

termination walk_nodes
proof (relation "inv_image (finite_psubset <*lex*> less_than)
    (\<lambda>(es, target, xs, visited). (unvisited es visited, length xs))", goal_cases)
  case 1
  show ?case by (intro wf_inv_image wf_lex_prod wf_finite_psubset wf_less_than)
next
  case (2 es target current rest visited)
  then show ?case by simp
next
  case (3 es target current rest visited)
  show ?case
  proof (cases "current \<in> fst ` set es \<union> snd ` set es")
    case True
    with 3 have "unvisited es (current # visited) \<subset> unvisited es visited"
      by (auto simp: unvisited_def)
    then show ?thesis by (simp add: finite_psubset_def)
  next
    case False
    then have "succs es current = []" and "unvisited es (current # visited) = unvisited es visited"
      by (force simp: succs_def filter_empty_conv, auto simp: unvisited_def)
    then show ?thesis by simp
  qed
next
  case (4 es target current rest visited found y)
  then have "y = snd (walk_nodes es target (succs es current) (current # visited))"
    by (metis snd_conv)
  with 4 have "set visited \<subseteq> set y"
    using walk_nodes_grows_dom [of es target "succs es current" "current # visited"] by simp
  then have "unvisited es y \<subseteq> unvisited es visited" by (rule unvisited_antimono)
  then show ?case by (auto simp: finite_psubset_def psubset_eq)
qed

lemma walk_nodes_grows: "set visited \<subseteq> set (snd (walk_nodes es target xs visited))"
proof (induction es target xs visited rule: walk_nodes.induct)
  case (1 es target visited)
  then show ?case by simp
next
  case (2 es target current rest visited)
  obtain found v where inner:
    "walk_nodes es target (succs es current) (current # visited) = (found, v)" by fastforce
  show ?case
  proof (cases "current = target \<or> current \<in> set visited")
    case True
    with 2 show ?thesis by auto
  next
    case False
    with 2 inner have "set (current # visited) \<subseteq> set v"
      and "\<not> found \<Longrightarrow> set v \<subseteq> set (snd (walk_nodes es target rest v))" by auto
    with False inner show ?thesis by auto
  qed
qed

lemma walk_nodes_sound:
  "fst (walk_nodes es target xs visited) \<Longrightarrow> \<exists>x\<in>set xs. (x, target) \<in> (set es)\<^sup>*"
proof (induction es target xs visited rule: walk_nodes.induct)
  case (1 es target visited)
  then show ?case by simp
next
  case (2 es target current rest visited)
  then show ?case
    by (auto split: if_splits prod.splits intro: converse_rtrancl_into_rtrancl)
qed

text \<open>
  When the target is not met, the visited set has become closed: it contains the nodes asked for,
  and the successors of every node it gained.
\<close>

lemma walk_nodes_closed:
  assumes "walk_nodes es target xs visited = (False, visited')"
  shows "set xs \<subseteq> set visited' \<and> (target \<in> set visited' \<longrightarrow> target \<in> set visited)
    \<and> (\<forall>x y. x \<in> set visited' - set visited \<longrightarrow> (x, y) \<in> set es \<longrightarrow> y \<in> set visited')"
  using assms
proof (induction es target xs visited arbitrary: visited' rule: walk_nodes.induct)
  case (1 es target visited)
  then show ?case by simp
next
  case (2 es target current rest visited)
  from "2.prems" have ne: "current \<noteq> target" by auto
  show ?case
  proof (cases "current \<in> set visited")
    case True
    with ne "2.prems" have w: "walk_nodes es target rest visited = (False, visited')" by simp
    have "set visited \<subseteq> set visited'" using walk_nodes_grows [of visited es target rest] w by simp
    with True "2.IH"(1) [OF ne True w] show ?thesis by auto
  next
    case False
    from ne False "2.prems" obtain v where
      inner: "walk_nodes es target (succs es current) (current # visited) = (False, v)" and
      outer: "walk_nodes es target rest v = (False, visited')"
      by (auto split: prod.splits if_splits)
    have grow: "set (current # visited) \<subseteq> set v" "set v \<subseteq> set visited'"
      using walk_nodes_grows [of "current # visited" es target "succs es current"]
        walk_nodes_grows [of v es target rest] inner outer by simp_all
    note IHi = "2.IH"(2) [OF ne False inner]
    note IHo = "2.IH"(3) [OF ne False inner [symmetric] _ outer, simplified]
    have "set (current # rest) \<subseteq> set visited'" using IHo grow by auto
    moreover have "target \<in> set visited' \<longrightarrow> target \<in> set visited" using IHi IHo ne by auto
    moreover have "y \<in> set visited'"
      if "x \<in> set visited' - set visited" "(x, y) \<in> set es" for x y
    proof (cases "x \<in> set v")
      case True
      with that IHi grow show ?thesis by (cases "x = current") auto
    next
      case False
      with that IHo show ?thesis by auto
    qed
    ultimately show ?thesis by blast
  qed
qed

lemma closed_rtrancl:
  assumes "(x, y) \<in> r\<^sup>*" "x \<in> S" "\<And>a b. a \<in> S \<Longrightarrow> (a, b) \<in> r \<Longrightarrow> b \<in> S"
  shows "y \<in> S"
  using assms by (induction rule: rtrancl_induct) auto

lemma walk_nodes_iff: "fst (walk_nodes es target [x] []) \<longleftrightarrow> (x, target) \<in> (set es)\<^sup>*"
proof
  assume "fst (walk_nodes es target [x] [])"
  then show "(x, target) \<in> (set es)\<^sup>*" using walk_nodes_sound by fastforce
next
  assume path: "(x, target) \<in> (set es)\<^sup>*"
  show "fst (walk_nodes es target [x] [])"
  proof (rule ccontr)
    assume "\<not> fst (walk_nodes es target [x] [])"
    then obtain v where "walk_nodes es target [x] [] = (False, v)"
      by (metis prod.collapse)
    from walk_nodes_closed [OF this] have "x \<in> set v" "target \<notin> set v"
      "\<And>a b. a \<in> set v \<Longrightarrow> (a, b) \<in> set es \<Longrightarrow> b \<in> set v"
      by auto
    with closed_rtrancl [OF path] show False by blast
  qed
qed

text \<open>
  The interface of a cycle check: \<open>check s t\<close> answers whether a path leads from \<open>t\<close> back to \<open>s\<close>
  in the relation \<open>rel\<close>. A client that inserts an edge only when the check answers no keeps the
  relation acyclic, and the check refuses no harmless edge.
\<close>

locale cycle_guard =
  fixes rel :: "('a \<times> 'a) set"
    and check :: "'a \<Rightarrow> 'a \<Rightarrow> bool"
  assumes check_iff: "check s t \<longleftrightarrow> (t, s) \<in> rel\<^sup>*"
begin

lemma insert_acyclic_iff: "acyclic (insert (s, t) rel) \<longleftrightarrow> acyclic rel \<and> \<not> check s t"
  by (simp add: check_iff acyclic_insert)

lemma insert_acyclic: "acyclic rel \<Longrightarrow> \<not> check s t \<Longrightarrow> acyclic (insert (s, t) rel)"
  using insert_acyclic_iff by blast

lemma self_edge_refused: "check s s"
  by (simp add: check_iff)

end

section \<open>The edges of the graph\<close>

definition edge_order :: "planning_graph_edge \<Rightarrow> planning_graph_edge \<Rightarrow> bool" where
  "edge_order a b \<longleftrightarrow> ge_updated_at b < ge_updated_at a
     \<or> (ge_updated_at a = ge_updated_at b \<and> ge_id a \<le> ge_id b)"

definition list_incoming_edges_for_node ::
    "planning_store \<Rightarrow> string \<Rightarrow> planning_edge_kind option \<Rightarrow> planning_graph_edge list" where
  "list_incoming_edges_for_node st node_id kind =
     sort_by edge_order (filter (\<lambda>e. ge_target_node_id e = node_id
       \<and> (case kind of None \<Rightarrow> True | Some k \<Rightarrow> ge_kind e = k)) (planning_edges st))"

definition list_outgoing_edges_for_node ::
    "planning_store \<Rightarrow> string \<Rightarrow> planning_edge_kind option \<Rightarrow> planning_graph_edge list" where
  "list_outgoing_edges_for_node st node_id kind =
     sort_by edge_order (filter (\<lambda>e. ge_source_node_id e = node_id
       \<and> (case kind of None \<Rightarrow> True | Some k \<Rightarrow> ge_kind e = k)) (planning_edges st))"

definition list_incoming_edges_in_scope ::
    "planning_store \<Rightarrow> string \<Rightarrow> string \<Rightarrow> planning_edge_kind option \<Rightarrow> planning_graph_edge list" where
  "list_incoming_edges_in_scope st node_id scope_key kind =
     filter (\<lambda>e. ge_scope_key e = scope_key) (list_incoming_edges_for_node st node_id kind)"

definition list_outgoing_edges_in_scope ::
    "planning_store \<Rightarrow> string \<Rightarrow> string \<Rightarrow> planning_edge_kind option \<Rightarrow> planning_graph_edge list" where
  "list_outgoing_edges_in_scope st node_id scope_key kind =
     filter (\<lambda>e. ge_scope_key e = scope_key) (list_outgoing_edges_for_node st node_id kind)"

lemma set_list_incoming [simp]:
  "set (list_incoming_edges_for_node st i k) =
     {e \<in> set (planning_edges st). ge_target_node_id e = i \<and> (case k of None \<Rightarrow> True | Some k \<Rightarrow> ge_kind e = k)}"
  by (simp add: list_incoming_edges_for_node_def)

lemma set_list_outgoing [simp]:
  "set (list_outgoing_edges_for_node st i k) =
     {e \<in> set (planning_edges st). ge_source_node_id e = i \<and> (case k of None \<Rightarrow> True | Some k \<Rightarrow> ge_kind e = k)}"
  by (simp add: list_outgoing_edges_for_node_def)

lemma edge_order_sorted: "sorted_wrt edge_order (sort_by edge_order es)"
  by (rule sorted_wrt_sort_by) (auto simp: edge_order_def)

subsection \<open>Which kinds an edge may join\<close>

definition edge_kind_sources :: "planning_edge_kind \<Rightarrow> planning_node_kind list" where
  "edge_kind_sources k = (case k of
       PlanningEdgeKind_DecomposesTo \<Rightarrow> [PlanningNodeKind_Goal, PlanningNodeKind_Roadmap,
         PlanningNodeKind_Milestone, PlanningNodeKind_Work, PlanningNodeKind_Plan, PlanningNodeKind_Run]
     | PlanningEdgeKind_DependsOn \<Rightarrow> [PlanningNodeKind_Work, PlanningNodeKind_Task]
     | PlanningEdgeKind_Blocks \<Rightarrow> [PlanningNodeKind_Work, PlanningNodeKind_Issue, PlanningNodeKind_Review]
     | PlanningEdgeKind_ParallelSafeWith \<Rightarrow> [PlanningNodeKind_Work]
     | PlanningEdgeKind_PlannedBy \<Rightarrow> [PlanningNodeKind_Work]
     | PlanningEdgeKind_ExecutedBy \<Rightarrow> [PlanningNodeKind_Work, PlanningNodeKind_Plan]
     | PlanningEdgeKind_Contains \<Rightarrow> [PlanningNodeKind_Run, PlanningNodeKind_Plan]
     | PlanningEdgeKind_Requires \<Rightarrow> [PlanningNodeKind_Goal, PlanningNodeKind_Roadmap,
         PlanningNodeKind_Milestone, PlanningNodeKind_Work, PlanningNodeKind_Plan]
     | PlanningEdgeKind_Satisfies \<Rightarrow> [PlanningNodeKind_Acceptance]
     | PlanningEdgeKind_EvidencedBy \<Rightarrow> [PlanningNodeKind_Acceptance, PlanningNodeKind_Work,
         PlanningNodeKind_Plan, PlanningNodeKind_Run, PlanningNodeKind_Issue, PlanningNodeKind_Review]
     | PlanningEdgeKind_Found \<Rightarrow> [PlanningNodeKind_Run, PlanningNodeKind_Work, PlanningNodeKind_Plan]
     | PlanningEdgeKind_AddressedBy \<Rightarrow> [PlanningNodeKind_Issue, PlanningNodeKind_Review]
     | PlanningEdgeKind_Repairs \<Rightarrow> [PlanningNodeKind_Work]
     | PlanningEdgeKind_Supersedes \<Rightarrow> [PlanningNodeKind_Work, PlanningNodeKind_Plan, PlanningNodeKind_Acceptance])"

definition edge_kind_targets :: "planning_edge_kind \<Rightarrow> planning_node_kind list" where
  "edge_kind_targets k = (case k of
       PlanningEdgeKind_DecomposesTo \<Rightarrow> [PlanningNodeKind_Roadmap, PlanningNodeKind_Milestone,
         PlanningNodeKind_Work, PlanningNodeKind_Task]
     | PlanningEdgeKind_DependsOn \<Rightarrow> [PlanningNodeKind_Work, PlanningNodeKind_Task]
     | PlanningEdgeKind_Blocks \<Rightarrow> [PlanningNodeKind_Work, PlanningNodeKind_Task, PlanningNodeKind_Acceptance]
     | PlanningEdgeKind_ParallelSafeWith \<Rightarrow> [PlanningNodeKind_Work]
     | PlanningEdgeKind_PlannedBy \<Rightarrow> [PlanningNodeKind_Plan]
     | PlanningEdgeKind_ExecutedBy \<Rightarrow> [PlanningNodeKind_Run]
     | PlanningEdgeKind_Contains \<Rightarrow> [PlanningNodeKind_Task, PlanningNodeKind_Evidence,
         PlanningNodeKind_Issue, PlanningNodeKind_Review, PlanningNodeKind_Insight]
     | PlanningEdgeKind_Requires \<Rightarrow> [PlanningNodeKind_Acceptance]
     | PlanningEdgeKind_Satisfies \<Rightarrow> [PlanningNodeKind_Acceptance]
     | PlanningEdgeKind_EvidencedBy \<Rightarrow> [PlanningNodeKind_Evidence]
     | PlanningEdgeKind_Found \<Rightarrow> [PlanningNodeKind_Issue, PlanningNodeKind_Review]
     | PlanningEdgeKind_AddressedBy \<Rightarrow> [PlanningNodeKind_Work, PlanningNodeKind_Plan]
     | PlanningEdgeKind_Repairs \<Rightarrow> [PlanningNodeKind_Work]
     | PlanningEdgeKind_Supersedes \<Rightarrow> [PlanningNodeKind_Work, PlanningNodeKind_Plan, PlanningNodeKind_Acceptance])"

definition kind_pair_error ::
    "planning_edge_kind \<Rightarrow> planning_node_kind \<Rightarrow> planning_node_kind \<Rightarrow> planning_store_error" where
  "kind_pair_error k s t =
     invalid [''invalid edge: '', planning_edge_kind_as_str k, '' edge cannot connect source kind `'',
              planning_node_kind_as_str s, ''` to target kind `'', planning_node_kind_as_str t, ''`'']"

definition validate_edge_kind_pair ::
    "planning_edge_kind \<Rightarrow> planning_node_kind \<Rightarrow> planning_node_kind \<Rightarrow> unit result" where
  "validate_edge_kind_pair k s t =
     (if s \<in> set (edge_kind_sources k) \<and> t \<in> set (edge_kind_targets k) then Inr ()
      else Inl (kind_pair_error k s t))"

lemma validate_edge_kind_pair_Inr [simp]:
  "validate_edge_kind_pair k s t = Inr u \<longleftrightarrow>
     s \<in> set (edge_kind_sources k) \<and> t \<in> set (edge_kind_targets k)"
  by (simp add: validate_edge_kind_pair_def)

text \<open>Goals, evidence and insights have no incoming structural edge; acceptance closes on itself.\<close>

lemma edge_kind_no_goal_target: "validate_edge_kind_pair k s PlanningNodeKind_Goal \<noteq> Inr u"
  by (cases k) (simp_all add: edge_kind_targets_def)

subsection \<open>The cycle check\<close>

definition edge_pairs :: "planning_store \<Rightarrow> planning_edge_kind \<Rightarrow> (string \<times> string) list" where
  "edge_pairs st k =
     map (\<lambda>e. (ge_source_node_id e, ge_target_node_id e))
       (filter (\<lambda>e. ge_kind e = k \<and> ge_status e = ''active'') (planning_edges st))"

definition walk_graph_edges ::
    "planning_store \<Rightarrow> string \<Rightarrow> string \<Rightarrow> planning_edge_kind \<Rightarrow> string list \<Rightarrow> bool \<times> string list" where
  "walk_graph_edges st current target edge_kind visited =
     walk_nodes (edge_pairs st edge_kind) target [current] visited"

definition would_create_graph_cycle ::
    "planning_store \<Rightarrow> string \<Rightarrow> string \<Rightarrow> planning_edge_kind \<Rightarrow> bool" where
  "would_create_graph_cycle st source_node_id target_node_id edge_kind =
     fst (walk_graph_edges st target_node_id source_node_id edge_kind [])"

interpretation graph_guard: cycle_guard
  "set (edge_pairs st k)" "\<lambda>s t. would_create_graph_cycle st s t k" for st k
  by unfold_locales (unfold would_create_graph_cycle_def walk_graph_edges_def, rule walk_nodes_iff)

text \<open>
  The search over the work points' \<open>blocks\<close> lists (\<open>PlanningStore::would_create_cycle\<close>). The map
  \<open>graph\<close> is an association list with one entry per work point.
\<close>

definition block_pairs :: "(string \<times> string list) list \<Rightarrow> (string \<times> string) list" where
  "block_pairs graph = concat (map (\<lambda>(i, blocked). map (Pair i) blocked) graph)"

definition would_create_cycle :: "string \<Rightarrow> string \<Rightarrow> (string \<times> string list) list \<Rightarrow> bool" where
  "would_create_cycle current target graph = fst (walk_nodes (block_pairs graph) target [current] [])"

interpretation block_guard: cycle_guard
  "set (block_pairs graph)" "\<lambda>s t. would_create_cycle t s graph" for graph
  by unfold_locales (unfold would_create_cycle_def, rule walk_nodes_iff)

section \<open>The invariant of the graph\<close>

text \<open>
  What \<open>create_graph_edge\<close> and its companions check before they write: the end points exist in the
  edge's scope, have kinds the edge may join and differ; no two active edges agree on scope, kind and
  end points; the active edges of an acyclic kind form no cycle.
\<close>

definition acyclic_kind :: "planning_edge_kind \<Rightarrow> bool" where
  "acyclic_kind k \<longleftrightarrow> k = PlanningEdgeKind_DecomposesTo \<or> k = PlanningEdgeKind_DependsOn"

definition edge_ok :: "planning_store \<Rightarrow> planning_graph_edge \<Rightarrow> bool" where
  "edge_ok st e =
     (case (find_row gn_id (ge_source_node_id e) (planning_nodes st),
            find_row gn_id (ge_target_node_id e) (planning_nodes st)) of
        (Some s, Some t) \<Rightarrow>
          gn_scope_key s = ge_scope_key e \<and> gn_scope_key t = ge_scope_key e
          \<and> ge_source_node_id e \<noteq> ge_target_node_id e
          \<and> is_ok (validate_edge_kind_pair (ge_kind e) (gn_kind s) (gn_kind t))
      | _ \<Rightarrow> False)"

definition edge_key :: "planning_graph_edge \<Rightarrow> string \<times> planning_edge_kind \<times> string \<times> string" where
  "edge_key e = (ge_scope_key e, ge_kind e, ge_source_node_id e, ge_target_node_id e)"

definition active_keys :: "planning_store \<Rightarrow> (string \<times> planning_edge_kind \<times> string \<times> string) list" where
  "active_keys st = map edge_key (filter (\<lambda>e. ge_status e = ''active'') (planning_edges st))"

definition graph_keys :: "planning_store \<Rightarrow> bool" where
  "graph_keys st \<longleftrightarrow> distinct (map gn_id (planning_nodes st)) \<and> distinct (map ge_id (planning_edges st))"

definition graph_inv :: "planning_store \<Rightarrow> bool" where
  "graph_inv st \<longleftrightarrow>
     graph_keys st
     \<and> list_all (edge_ok st) (planning_edges st)
     \<and> distinct (active_keys st)
     \<and> (\<forall>k. acyclic_kind k \<longrightarrow> acyclic (set (edge_pairs st k)))"

text \<open>Acyclicity by evaluation, for concrete stores.\<close>

lemma acyclic_iff_no_back_path: "acyclic r \<longleftrightarrow> (\<forall>(s, t)\<in>r. (t, s) \<notin> r\<^sup>*)"
proof -
  have "(x, x) \<in> r\<^sup>+ \<longleftrightarrow> (\<exists>y. (x, y) \<in> r \<and> (y, x) \<in> r\<^sup>*)" for x
    using tranclD [of x x r] rtrancl_into_trancl2 [of x _ r x] by metis
  then show ?thesis by (auto simp: acyclic_def)
qed

definition acyclic_pairs :: "('a \<times> 'a) list \<Rightarrow> bool" where
  "acyclic_pairs es = list_all (\<lambda>(s, t). \<not> fst (walk_nodes es s [t] [])) es"

lemma acyclic_pairs_iff: "acyclic_pairs es \<longleftrightarrow> acyclic (set es)"
  unfolding acyclic_pairs_def acyclic_iff_no_back_path list_all_iff walk_nodes_iff by simp

lemma all_acyclic_kind:
  "(\<forall>k. acyclic_kind k \<longrightarrow> P k) \<longleftrightarrow> P PlanningEdgeKind_DecomposesTo \<and> P PlanningEdgeKind_DependsOn"
  by (auto simp: acyclic_kind_def)

lemma graph_inv_code:
  "graph_inv st \<longleftrightarrow> graph_keys st \<and> list_all (edge_ok st) (planning_edges st) \<and> distinct (active_keys st)
     \<and> acyclic_pairs (edge_pairs st PlanningEdgeKind_DecomposesTo)
     \<and> acyclic_pairs (edge_pairs st PlanningEdgeKind_DependsOn)"
  unfolding graph_inv_def acyclic_pairs_iff all_acyclic_kind ..

lemma graph_inv_cong:
  assumes "planning_nodes st' = planning_nodes st" "planning_edges st' = planning_edges st"
  shows "graph_inv st' = graph_inv st"
proof -
  have "edge_ok st' = edge_ok st" by (rule ext) (simp add: edge_ok_def assms)
  then show ?thesis using assms by (simp add: graph_inv_def graph_keys_def active_keys_def edge_pairs_def)
qed

lemma graph_inv_core: "core st' = core st \<Longrightarrow> graph_inv st' = graph_inv st"
  by (intro graph_inv_cong core_fields)

end
