(* ===== verification/Validation.thy ===== *)
theory Validation
  imports GraphCycle
begin

text \<open>
  The validators of \<open>validation.rs\<close>. A validator reads the store and lists, in the order of the
  code, the findings it pushes; a step \<open>Fail e\<close> stands for a lookup that ends the validator with the
  error \<open>e\<close>. \<open>stamp_findings\<close> runs the list: each pushed finding takes a fresh id, its fingerprint
  and the time, as \<open>finding\<close> does. The lemmas tie the findings to what they report: the dependency
  search of \<open>validate_work_point\<close> terminates and finds exactly the cycles through the work point, and
  an edge without structural findings satisfies \<open>edge_ok\<close>, the property the writers check.
\<close>

section \<open>Findings\<close>

datatype validator_step =
    Push validation_severity string string
  | Fail planning_store_error

abbreviation warning :: "string \<Rightarrow> string list \<Rightarrow> validator_step" where
  "warning code message \<equiv> Push ValidationSeverity_Warning code (format message)"

abbreviation error :: "string \<Rightarrow> string list \<Rightarrow> validator_step" where
  "error code message \<equiv> Push ValidationSeverity_Error code (format message)"

definition push_when :: "bool \<Rightarrow> validator_step \<Rightarrow> validator_step list" where
  "push_when c d = (if c then [d] else [])"

definition after_load :: "'a result \<Rightarrow> ('a \<Rightarrow> validator_step list) \<Rightarrow> validator_step list" where
  "after_load r k = (case r of Inl e \<Rightarrow> [Fail e] | Inr x \<Rightarrow> k x)"

lemma set_push_when [simp]: "x \<in> set (push_when c d) \<longleftrightarrow> c \<and> x = d"
  by (auto simp: push_when_def)

definition finding ::
    "environment \<Rightarrow> planning_store \<Rightarrow> entity_type \<Rightarrow> string \<Rightarrow> string \<Rightarrow> validation_severity
     \<Rightarrow> string \<Rightarrow> string \<Rightarrow> (validation_finding \<times> planning_store) result" where
  "finding env st et i scope_key sev code message =
     (let (finding_id, st) = new_id env st in
      tryE (now_string env st) (\<lambda>(created_at, st).
      Inr (\<lparr>vf_finding_id = finding_id, vf_entity_type = et, vf_entity_id = i, vf_severity = sev,
            vf_code = code, vf_message = message, vf_scope_key = scope_key,
            vf_fingerprint = format [entity_type_as_str et, ''::'', i, ''::'', scope_key, ''::'', code],
            vf_created_at = created_at\<rparr>, st)))"

fun stamp_findings ::
    "environment \<Rightarrow> planning_store \<Rightarrow> entity_type \<Rightarrow> string \<Rightarrow> string \<Rightarrow> validator_step list
     \<Rightarrow> (validation_finding list \<times> planning_store) result" where
  "stamp_findings env st et i scope_key [] = Inr ([], st)"
| "stamp_findings env st et i scope_key (Push sev code message # steps) =
     tryE (finding env st et i scope_key sev code message) (\<lambda>(f, st).
     tryE (stamp_findings env st et i scope_key steps) (\<lambda>(fs, st). Inr (f # fs, st)))"
| "stamp_findings env st et i scope_key (Fail e # steps) = Inl e"

section \<open>Project runs, goals, roadmaps and sections\<close>

definition validate_project_run :: "planning_store \<Rightarrow> string \<Rightarrow> (string \<times> validator_step list) result" where
  "validate_project_run st i =
     tryE (load_project_run st i) (\<lambda>run.
     Inr (pr_scope_key run,
       after_load (load_goal st (pr_goal_id run)) (\<lambda>goal.
       push_when (go_status goal \<in> {GoalStatus_Invalidated, GoalStatus_Superseded, GoalStatus_Abandoned})
         (warning ''PROJECT-RUN-GOAL-NOT-ACTIVE'' [''project run references a goal that is no longer active''])
       @ after_load (load_work_point st (pr_work_point_id run)) (\<lambda>work_point.
       push_when (wp_status work_point \<in> {WorkPointStatus_Cancelled, WorkPointStatus_Invalidated})
         (error ''PROJECT-RUN-WORK-POINT-INVALID''
           [''project run references a work point that has been cancelled or invalidated''])
       @ push_when (pr_status run \<in> {ProjectRunStatus_Claimed, ProjectRunStatus_Active, ProjectRunStatus_Interrupted}
           \<and> wp_status work_point \<in> {WorkPointStatus_Completed, WorkPointStatus_Cancelled, WorkPointStatus_Invalidated})
         (error ''PROJECT-RUN-ON-COMPLETED-CANCELLED-WORK''
           [''active project run references a work point that has been completed, cancelled, or invalidated''])
       @ push_when (pr_status run = ProjectRunStatus_Completed
           \<and> \<not> (pe_implementation_run_refs (pr_evidence run) \<noteq> []
                \<or> pe_validation_finding_refs (pr_evidence run) \<noteq> []
                \<or> pe_linked_spec_ids (pr_evidence run) \<noteq> []
                \<or> pe_commit_sha (pr_evidence run) \<noteq> None
                \<or> pe_pr_url (pr_evidence run) \<noteq> None))
         (warning ''PROJECT-RUN-COMPLETED-WITHOUT-EVIDENCE''
           [''project run is completed but has no evidence refs''])
       @ push_when (go_scope_key goal \<noteq> pr_scope_key run)
         (error ''CROSS-SCOPE-REFERENCE''
           [''references goal `'', pr_goal_id run, ''` in scope `'', go_scope_key goal,
            ''` but project run is in scope `'', pr_scope_key run, ''`''])
       @ push_when (wp_scope_key work_point \<noteq> pr_scope_key run)
         (error ''CROSS-SCOPE-REFERENCE''
           [''references work point `'', pr_work_point_id run, ''` in scope `'', wp_scope_key work_point,
            ''` but project run is in scope `'', pr_scope_key run, ''`''])
       @ (case load_roadmap st (pr_roadmap_id run) of
            Inl _ \<Rightarrow> []
          | Inr roadmap \<Rightarrow> push_when (rm_goal_id roadmap \<noteq> pr_goal_id run)
              (error ''PROJECT-RUN-GOAL-ROADMAP-MISMATCH''
                [''roadmap '', sq, pr_roadmap_id run, sq, '' belongs to goal '', sq, rm_goal_id roadmap, sq,
                 '', but project run references goal '', sq, pr_goal_id run, sq]))
       @ push_when (wp_roadmap_id work_point \<noteq> pr_roadmap_id run)
         (error ''PROJECT-RUN-WORK-POINT-ROADMAP-MISMATCH''
           [''work point '', sq, pr_work_point_id run, sq, '' belongs to roadmap '', sq, wp_roadmap_id work_point,
            sq, '', but project run references roadmap '', sq, pr_roadmap_id run, sq])))))"

definition validate_goal :: "planning_store \<Rightarrow> string \<Rightarrow> (string \<times> validator_step list) result" where
  "validate_goal st i =
     tryE (load_goal st i) (\<lambda>goal.
     let closed_wp = {WorkPointStatus_Completed, WorkPointStatus_Cancelled, WorkPointStatus_Invalidated};
         closed_plan = {PlanStatus_Completed, PlanStatus_Cancelled, PlanStatus_Invalidated};
         active_wp_count = length (concat (map (\<lambda>wp.
           filter (\<lambda>r. rm_id r = wp_roadmap_id wp \<and> rm_goal_id r = i \<and> wp_status wp \<notin> closed_wp) (roadmaps st))
           (work_points st)));
         active_plan_count = length (filter (\<lambda>p. pl_goal_id p = i \<and> pl_status p \<notin> closed_plan) (plans st)) in
     Inr (go_scope_key goal,
       push_when (go_acceptance_criteria goal = [])
         (error ''GOAL-ACCEPTANCE-MISSING'' [''goal should define at least one acceptance criterion''])
       @ push_when (go_rejection_criteria goal = [])
         (error ''GOAL-REJECTION-MISSING'' [''goal should define at least one rejection criterion''])
       @ push_when (go_status goal = GoalStatus_Validated \<and> filter (\<lambda>r. rm_goal_id r = i) (roadmaps st) = [])
         (warning ''GOAL-VALIDATED-WITHOUT-ROADMAP'' [''validated goal has no linked roadmaps yet''])
       @ push_when (go_status goal \<in> {GoalStatus_Invalidated, GoalStatus_Abandoned}
           \<and> (active_wp_count > 0 \<or> active_plan_count > 0))
         (error ''GOAL-INVALIDATED-WITH-ACTIVE-WORK''
           [''goal has been invalidated or abandoned but has '', show_nat active_wp_count,
            '' active work point(s) and '', show_nat active_plan_count, '' active plan(s)''])
       @ concat (map (\<lambda>r. push_when (rm_scope_key r \<noteq> go_scope_key goal)
           (error ''CROSS-SCOPE-REFERENCE''
             [''linked roadmap is in scope `'', rm_scope_key r, ''` but goal is in scope `'', go_scope_key goal, ''`'']))
           (filter (\<lambda>r. rm_goal_id r = i) (roadmaps st)))))"

definition validate_roadmap :: "planning_store \<Rightarrow> string \<Rightarrow> (string \<times> validator_step list) result" where
  "validate_roadmap st i =
     tryE (load_roadmap st i) (\<lambda>roadmap.
     tryE (load_goal st (rm_goal_id roadmap)) (\<lambda>goal.
     let wps = list_work_points_for_roadmap st i in
     Inr (rm_scope_key roadmap,
       push_when (wps = []) (warning ''ROADMAP-NO-WORK-POINTS'' [''roadmap has no work points yet''])
       @ push_when (go_status goal \<in> {GoalStatus_Invalidated, GoalStatus_Superseded, GoalStatus_Abandoned})
         (error ''ROADMAP-GOAL-NOT-ACTIVE''
           [''roadmap links to a goal that is invalidated, superseded, or abandoned''])
       @ push_when (rm_status roadmap = RoadmapStatus_Completed
           \<and> list_ex (\<lambda>wp. wp_status wp \<noteq> WorkPointStatus_Completed) wps)
         (error ''ROADMAP-COMPLETED-WITH-OPEN-WORK''
           [''completed roadmap still has non-completed work points'']))))"

definition validate_roadmap_section :: "planning_store \<Rightarrow> string \<Rightarrow> (string \<times> validator_step list) result" where
  "validate_roadmap_section st i =
     tryE (row_or_not_found EntityType_RoadmapSection i (find_row rs_id i (roadmap_sections st))) (\<lambda>section.
     Inr (rs_scope_key section,
       push_when (filter (\<lambda>wp. wp_section_id wp = Some i) (work_points st) = [])
         (warning ''ROADMAP-SECTION-EMPTY''
           [''roadmap section `'', rs_slug section, ''` has no work points yet''])
       @ after_load (load_roadmap st (rs_roadmap_id section)) (\<lambda>_. [])))"

section \<open>Work points\<close>

text \<open>
  The loop of \<open>validate_work_point\<close> over the explicit stack. The head of the list is the top of
  the stack, so \<open>stack.extend(deps)\<close> puts the reversed list in front.
\<close>

function dependency_cycle_loop :: "planning_store \<Rightarrow> string \<Rightarrow> string list \<Rightarrow> string list \<Rightarrow> bool" where
  "dependency_cycle_loop st i [] visited = False"
| "dependency_cycle_loop st i (dep_id # stack) visited =
     (if dep_id = i then True
      else if dep_id \<in> set visited then dependency_cycle_loop st i stack visited
      else (case load_work_point st dep_id of
              Inr dep \<Rightarrow> dependency_cycle_loop st i (rev (wp_dependency_ids dep) @ stack) (dep_id # visited)
            | Inl _ \<Rightarrow> dependency_cycle_loop st i stack (dep_id # visited)))"
  by pat_completeness auto

lemma load_work_point_Inr_iff:
  "load_work_point st i = Inr w \<longleftrightarrow>
     (\<exists>r. find_row wp_id i (work_points st) = Some r
        \<and> w = r\<lparr>wp_file_scopes := load_file_scopes_for_entity st EntityType_WorkPoint i\<rparr>)"
  by (auto simp: load_work_point_def)

definition unvisited_rows :: "planning_store \<Rightarrow> string list \<Rightarrow> string set" where
  "unvisited_rows st visited = wp_id ` set (work_points st) - set visited"

termination dependency_cycle_loop
proof (relation "inv_image (finite_psubset <*lex*> less_than)
    (\<lambda>(st, i, stack, visited). (unvisited_rows st visited, length stack))", goal_cases)
  case 1
  show ?case by (intro wf_inv_image wf_lex_prod wf_finite_psubset wf_less_than)
next
  case (2 st i dep_id stack visited)
  then show ?case by simp
next
  case (3 st i dep_id stack visited e)
  have "unvisited_rows st (dep_id # visited) \<subseteq> unvisited_rows st visited"
    by (auto simp: unvisited_rows_def)
  then show ?case by (auto simp: finite_psubset_def unvisited_rows_def psubset_eq)
next
  case (4 st i dep_id stack visited dep)
  then have "dep_id \<in> wp_id ` set (work_points st)"
    by (auto simp: load_work_point_Inr_iff dest: find_row_SomeD)
  with 4 have "unvisited_rows st (dep_id # visited) \<subset> unvisited_rows st visited"
    by (auto simp: unvisited_rows_def)
  then show ?case by (simp add: finite_psubset_def unvisited_rows_def)
qed

definition cross_scope_targets ::
    "planning_store \<Rightarrow> work_point_record \<Rightarrow> string \<Rightarrow> string list \<Rightarrow> validator_step list" where
  "cross_scope_targets st work_point what ids =
     concat (map (\<lambda>target_id.
       case load_work_point st target_id of
         Inl _ \<Rightarrow> []
       | Inr other \<Rightarrow> push_when (wp_scope_key other \<noteq> wp_scope_key work_point)
           (error ''CROSS-SCOPE-REFERENCE''
             [what, '' `'', target_id, ''` is in scope `'', wp_scope_key other,
              ''` but work point is in scope `'', wp_scope_key work_point, ''`''])) ids)"

definition section_steps :: "planning_store \<Rightarrow> work_point_record \<Rightarrow> validator_step list" where
  "section_steps st work_point =
       (case wp_section_id work_point of
          None \<Rightarrow> []
        | Some section_id \<Rightarrow>
            (case find_row rs_id section_id (roadmap_sections st) of
               Some section \<Rightarrow> push_when (rs_roadmap_id section \<noteq> wp_roadmap_id work_point)
                 (error ''WORK-POINT-SECTION-MISMATCH'' [''work point section belongs to a different roadmap''])
             | None \<Rightarrow>
                 [error ''WORK-POINT-SECTION-MISSING'' [''work point references a missing roadmap section'']]))"

definition dependency_steps :: "planning_store \<Rightarrow> work_point_record \<Rightarrow> string \<Rightarrow> validator_step list" where
  "dependency_steps st work_point dependency_id =
     (case load_work_point st dependency_id of
             Inr dependency \<Rightarrow>
               push_when (wp_roadmap_id dependency \<noteq> wp_roadmap_id work_point)
                 (error ''WORK-POINT-DEPENDENCY-CROSS-ROADMAP''
                   [''dependency `'', dependency_id, ''` belongs to a different roadmap''])
               @ push_when (wp_status work_point = WorkPointStatus_Completed
                   \<and> wp_status dependency \<noteq> WorkPointStatus_Completed)
                 (error ''WORK-POINT-COMPLETED-WITH-OPEN-DEPENDENCY''
                   [''completed work point still depends on non-completed work point `'', dependency_id, ''`''])
           | Inl (NotFound _ _) \<Rightarrow>
               [error ''WORK-POINT-DEPENDENCY-MISSING'' [''dependency `'', dependency_id, ''` does not exist'']]
           | Inl e \<Rightarrow> [Fail e])"

definition validate_work_point :: "planning_store \<Rightarrow> string \<Rightarrow> (string \<times> validator_step list) result" where
  "validate_work_point st i =
     tryE (load_work_point st i) (\<lambda>work_point.
     tryE (load_roadmap st (wp_roadmap_id work_point)) (\<lambda>_.
     Inr (wp_scope_key work_point,
       section_steps st work_point
       @ push_when (wp_validation_expectations work_point = [])
         (warning ''WORK-POINT-NO-VALIDATION'' [''work point has no validation expectations yet''])
       @ concat (map (dependency_steps st work_point) (wp_dependency_ids work_point))
       @ push_when (wp_dependency_ids work_point \<noteq> []
           \<and> dependency_cycle_loop st i (rev (wp_dependency_ids work_point)) [])
         (error ''WORK-POINT-DEPENDENCY-CYCLE'' [''work point dependency graph contains a cycle''])
       @ push_when (wp_kind work_point \<noteq> WorkPointKind_Feature
           \<and> wp_repairs_work_point_ids work_point = [] \<and> wp_supersedes_work_point_ids work_point = []
           \<and> wp_blocks_work_point_ids work_point = [])
         (warning ''WORK-POINT-CORRECTIVE-NO-TARGET''
           [''corrective work point (non-feature) has no repairs, supersedes, or blocks targets''])
       @ concat (map (\<lambda>other.
           push_when (wp_id other \<noteq> i \<and> i \<in> set (wp_blocks_work_point_ids other))
             (error ''WORK-POINT-BLOCKED-DOWNSTREAM-ACTIVE''
               [''work point is blocked by active corrective work point `'', wp_title other, ''`'']))
           (filter (\<lambda>w. wp_scope_key w = wp_scope_key work_point \<and> wp_kind w \<noteq> WorkPointKind_Feature
              \<and> wp_status w \<notin> {WorkPointStatus_Completed, WorkPointStatus_Cancelled, WorkPointStatus_Invalidated})
              (work_points st)))
       @ cross_scope_targets st work_point ''dependency'' (wp_dependency_ids work_point)
       @ cross_scope_targets st work_point ''repairs target'' (wp_repairs_work_point_ids work_point)
       @ cross_scope_targets st work_point ''supersedes target'' (wp_supersedes_work_point_ids work_point)
       @ cross_scope_targets st work_point ''blocks target'' (wp_blocks_work_point_ids work_point))))"

section \<open>Plans, todos, issues, review points and insights\<close>

definition validate_plan :: "planning_store \<Rightarrow> string \<Rightarrow> (string \<times> validator_step list) result" where
  "validate_plan st i =
     tryE (load_plan st i) (\<lambda>plan.
     tryE (load_roadmap st (pl_roadmap_id plan)) (\<lambda>roadmap.
     let todos = list_todos_for_plan st i in
     Inr (pl_scope_key plan,
       push_when (rm_goal_id roadmap \<noteq> pl_goal_id plan)
         (error ''PLAN-GOAL-ROADMAP-MISMATCH'' [''plan goal does not match roadmap goal''])
       @ push_when (pl_targeted_work_point_ids plan = [])
         (warning ''PLAN-NO-TARGETED-WORK'' [''plan does not target any work points yet''])
       @ push_when (pl_validation_steps plan = [])
         (warning ''PLAN-NO-VALIDATION-STEPS'' [''plan does not define validation steps yet''])
       @ concat (map (\<lambda>work_point_id.
           case load_work_point st work_point_id of
             Inr wp \<Rightarrow> push_when (wp_roadmap_id wp \<noteq> pl_roadmap_id plan)
               (error ''PLAN-WORK-POINT-ROADMAP-MISMATCH''
                 [''targeted work point `'', work_point_id, ''` belongs to a different roadmap''])
           | Inl (NotFound _ _) \<Rightarrow>
               [error ''PLAN-WORK-POINT-MISSING'' [''targeted work point `'', work_point_id, ''` does not exist'']]
           | Inl e \<Rightarrow> [Fail e]) (pl_targeted_work_point_ids plan))
       @ push_when (todos = []) (warning ''PLAN-NO-TODOS'' [''plan has no todo records yet''])
       @ push_when (pl_status plan = PlanStatus_Completed
           \<and> list_ex (\<lambda>t. td_status t \<notin> {TodoStatus_Completed, TodoStatus_Cancelled}) todos)
         (error ''PLAN-COMPLETED-WITH-OPEN-TODOS'' [''completed plan still has incomplete todos''])
       @ concat (map (\<lambda>wp_id'.
           case load_work_point st wp_id' of
             Inl _ \<Rightarrow> []
           | Inr wp \<Rightarrow> push_when (wp_scope_key wp \<noteq> pl_scope_key plan)
               (error ''CROSS-SCOPE-REFERENCE''
                 [''targeted work point `'', wp_id', ''` is in scope `'', wp_scope_key wp,
                  ''` but plan is in scope `'', pl_scope_key plan, ''`''])) (pl_targeted_work_point_ids plan))
       @ push_when (rm_scope_key roadmap \<noteq> pl_scope_key plan)
         (error ''CROSS-SCOPE-REFERENCE''
           [''linked roadmap is in scope `'', rm_scope_key roadmap, ''` but plan is in scope `'',
            pl_scope_key plan, ''`''])
       @ push_when (filter (\<lambda>x. is_related_entity_type x = Some EntityType_Plan
             \<and> is_related_entity_id x = Some i
             \<and> is_status x \<in> {IssueStatus_Open, IssueStatus_Blocked, IssueStatus_Reopened}
             \<and> is_severity x \<in> {Severity_High, Severity_Critical}) (issues st) \<noteq> [])
         (error ''PLAN-BLOCKING-ISSUES''
           [''plan has unresolved high-severity or critical issues attached''])
       @ push_when (list_ex (\<lambda>r. rp_status r \<notin> {ReviewPointStatus_Resolved, ReviewPointStatus_AcceptedRisk}
             \<and> rp_severity r \<in> {Severity_High, Severity_Critical})
             (list_review_points_for_entity st EntityType_Plan i))
         (error ''PLAN-OPEN-REVIEW-POINTS''
           [''plan has unresolved high-severity or critical review points'']))))"

definition validate_todo :: "planning_store \<Rightarrow> string \<Rightarrow> (string \<times> validator_step list) result" where
  "validate_todo st i =
     tryE (load_todo st i) (\<lambda>todo.
     Inr (td_scope_key todo,
       push_when (td_plan_id todo = None \<and> td_work_point_id todo = None)
         (warning ''TODO-STANDALONE''
           [''todo is standalone and should be linked to a plan or work point when possible''])
       @ push_when (td_status todo = TodoStatus_Completed \<and> td_evidence_refs todo = [])
         (warning ''TODO-COMPLETED-WITHOUT-EVIDENCE'' [''completed todo has no evidence references''])
       @ (case (td_plan_id todo, td_work_point_id todo) of
            (Some plan_id, Some work_point_id) \<Rightarrow>
              after_load (load_plan st plan_id) (\<lambda>plan.
                push_when (work_point_id \<notin> set (pl_targeted_work_point_ids plan))
                  (warning ''TODO-PLAN-WORK-POINT-MISMATCH''
                    [''todo links to both a plan and work point, but the plan does not target that work point'']))
          | _ \<Rightarrow> [])))"

definition validate_issue :: "planning_store \<Rightarrow> string \<Rightarrow> (string \<times> validator_step list) result" where
  "validate_issue st i =
     tryE (load_issue st i) (\<lambda>issue.
     Inr (is_scope_key issue,
       (case (is_related_entity_type issue, is_related_entity_id issue) of
          (Some et, Some entity_id) \<Rightarrow>
            push_when (is_not_found (attached_entity_correlation_id st et entity_id))
              (error ''ISSUE-RELATED-ENTITY-MISSING'' [''issue references a missing related entity''])
        | (None, None) \<Rightarrow> []
        | _ \<Rightarrow> [warning ''ISSUE-PARTIAL-ENTITY-LINK''
            [''issue should declare both related entity type and related entity id when linking to another record'']])
       @ push_when (is_status issue = IssueStatus_Blocked
           \<and> is_severity issue \<notin> {Severity_High, Severity_Critical})
         (warning ''ISSUE-BLOCKED-LOW-SEVERITY''
           [''blocked issue should usually be medium severity or higher''])))"

definition validate_review_point :: "planning_store \<Rightarrow> string \<Rightarrow> (string \<times> validator_step list) result" where
  "validate_review_point st i =
     tryE (row_or_not_found EntityType_ReviewPoint i (find_row rp_id i (review_points st))) (\<lambda>point.
     Inr (rp_scope_key point,
       push_when (is_not_found (attached_entity_correlation_id st (rp_attached_entity_type point)
           (rp_attached_entity_id point)))
         (error ''REVIEW-POINT-ATTACHED-ENTITY-MISSING'' [''review point references a missing attached entity''])
       @ push_when (rp_status point = ReviewPointStatus_Open \<and> rp_severity point = Severity_Critical)
         (warning ''REVIEW-POINT-CRITICAL-OPEN''
           [''critical review point remains open and should be resolved or explicitly accepted''])))"

definition validate_insight :: "planning_store \<Rightarrow> string \<Rightarrow> (string \<times> validator_step list) result" where
  "validate_insight st i =
     tryE (load_insight st i) (\<lambda>insight.
     Inr (in_scope_key insight,
       push_when (trim (in_content insight) = [])
         (error ''INSIGHT-EMPTY-CONTENT'' [''insight content must not be empty''])
       @ push_when (in_tags insight = [])
         (warning ''INSIGHT-TAG-ORPHAN'' [''insight has no tags; add tags for discoverability''])
       @ push_when (is_not_found (attached_entity_correlation_id st (in_parent_entity_type insight)
           (in_parent_entity_id insight)))
         (error ''INSIGHT-NO-PARENT''
           [''insight references missing parent '', entity_type_as_str (in_parent_entity_type insight), '' `'',
            in_parent_entity_id insight, ''`''])))"

section \<open>Graph nodes and edges\<close>

definition is_valid_status :: "string \<Rightarrow> bool" where
  "is_valid_status s = is_kebab (trim s)"

definition payload_str_list :: "string \<Rightarrow> json \<Rightarrow> string list" where
  "payload_str_list k payload =
     (case Option.bind (json_get k payload) json_as_array of
        None \<Rightarrow> []
      | Some arr \<Rightarrow> List.map_filter json_as_str arr)"

definition has_active_coverage :: "planning_store \<Rightarrow> planning_graph_node \<Rightarrow> bool" where
  "has_active_coverage st node =
     list_ex (\<lambda>e. ge_kind e = PlanningEdgeKind_Satisfies \<and> ge_status e = ''active''
         \<and> ge_source_node_id e \<noteq> gn_id node
         \<and> (case load_graph_node st (ge_source_node_id e) of
              Inl _ \<Rightarrow> False
            | Inr source_node \<Rightarrow> gn_kind source_node = PlanningNodeKind_Acceptance
                \<and> json_str_or_empty ''acceptanceKind'' (gn_payload source_node) = ''concrete''))
       (list_incoming_edges_in_scope st (gn_id node) (gn_scope_key node) None)"

definition evidence_kind_covered :: "planning_store \<Rightarrow> planning_graph_node \<Rightarrow> string \<Rightarrow> bool" where
  "evidence_kind_covered st node required_kind =
     list_ex (\<lambda>e. case load_graph_node st (ge_target_node_id e) of
         Inl _ \<Rightarrow> False
       | Inr evidence_node \<Rightarrow> gn_kind evidence_node = PlanningNodeKind_Evidence
           \<and> json_str_or_empty ''evidenceKind'' (gn_payload evidence_node) = required_kind)
       (filter (\<lambda>e. ge_kind e = PlanningEdgeKind_EvidencedBy \<and> ge_status e = ''active'')
         (list_outgoing_edges_in_scope st (gn_id node) (gn_scope_key node) None))"

definition validate_graph_node :: "planning_store \<Rightarrow> string \<Rightarrow> (string \<times> validator_step list) result" where
  "validate_graph_node st i =
     (case load_graph_node st i of
        Inl _ \<Rightarrow> Inr ([], [])
      | Inr node \<Rightarrow>
          let acceptance_kind_str = json_str_or_empty ''acceptanceKind'' (gn_payload node);
              evidence_kind_str = json_str_or_empty ''evidenceKind'' (gn_payload node) in
          Inr (gn_scope_key node,
            push_when (\<not> is_valid_status (gn_status node))
              (warning ''GRAPH-STATUS-INVALID''
                [''graph node status '', sq, gn_status node, sq, '' is not a valid lowercase kebab-case token''])
            @ (if gn_kind node = PlanningNodeKind_Acceptance then
                 push_when (\<not> is_ok (acceptance_kind_from_str acceptance_kind_str))
                   (warning ''ACCEPTANCE-KIND-INVALID''
                     [''acceptance node '', sq, i, sq, '' has invalid or missing acceptanceKind: '', sq,
                      acceptance_kind_str, sq, '' (expected 'abstract' or 'concrete')''])
                 @ push_when (acceptance_kind_str = ''abstract'' \<and> \<not> has_active_coverage st node)
                   (warning ''ACCEPTANCE-COVERAGE-MISSING''
                     [''abstract acceptance '', sq, i, sq, '' has no active concrete acceptance satisfying it''])
                 @ (if acceptance_kind_str = ''concrete'' then
                      concat (map (\<lambda>required_kind.
                        push_when (\<not> evidence_kind_covered st node required_kind)
                          (warning ''ACCEPTANCE-EVIDENCE-MISSING''
                            [''concrete acceptance '', sq, i, sq, '' requires evidence of kind '', sq,
                             required_kind, sq, '' but none is attached'']))
                        (payload_str_list ''requiredEvidenceKinds'' (gn_payload node)))
                    else [])
               else [])
            @ push_when (gn_kind node = PlanningNodeKind_Evidence
                \<and> \<not> is_ok (evidence_kind_from_str evidence_kind_str))
              (warning ''EVIDENCE-KIND-INVALID''
                [''evidence node '', sq, i, sq, '' has invalid or missing evidenceKind: '', sq, evidence_kind_str, sq])))"

definition structural_steps ::
    "planning_store \<Rightarrow> planning_graph_edge \<Rightarrow> planning_graph_node \<Rightarrow> planning_graph_node \<Rightarrow> validator_step list" where
  "structural_steps st edge source_node target_node =
     (let scope_key = ge_scope_key edge; edge_id = ge_id edge;
          s = ge_source_node_id edge; t = ge_target_node_id edge in
      push_when (s = t)
        (warning ''GRAPH-EDGE-SELF-LOOP''
          [''edge '', sq, edge_id, sq, '' is a self-loop (source == target == '', sq, s, sq, '')''])
      @ push_when (gn_scope_key source_node \<noteq> scope_key)
        (warning ''GRAPH-EDGE-CROSS-SCOPE''
          [''source node '', sq, s, sq, '' is in scope '', sq, gn_scope_key source_node, sq, '' but edge '', sq,
           edge_id, sq, '' is in scope '', sq, scope_key, sq])
      @ push_when (gn_scope_key target_node \<noteq> scope_key)
        (warning ''GRAPH-EDGE-CROSS-SCOPE''
          [''target node '', sq, t, sq, '' is in scope '', sq, gn_scope_key target_node, sq, '' but edge '', sq,
           edge_id, sq, '' is in scope '', sq, scope_key, sq])
      @ push_when (\<not> is_ok (validate_edge_kind_pair (ge_kind edge) (gn_kind source_node) (gn_kind target_node)))
        (warning ''GRAPH-EDGE-KIND-MISMATCH''
          [''edge '', sq, edge_id, sq, '' has invalid kind pair: invalid input: invalid edge: '',
           planning_edge_kind_as_str (ge_kind edge), '' edge cannot connect source kind `'',
           planning_node_kind_as_str (gn_kind source_node), ''` to target kind `'',
           planning_node_kind_as_str (gn_kind target_node), ''`''])
      @ push_when (ge_status edge = ''active''
          \<and> filter (\<lambda>e. ge_id e \<noteq> ge_id edge \<and> ge_target_node_id e = t \<and> ge_status e = ''active''
                \<and> ge_scope_key e = scope_key) (list_outgoing_edges_for_node st s (Some (ge_kind edge))) \<noteq> [])
        (warning ''GRAPH-EDGE-DUPLICATE-ACTIVE''
          [''duplicate active '', planning_edge_kind_as_str (ge_kind edge), '' edge from '', sq, s, sq, '' to '',
           sq, t, sq, '' in scope '', sq, scope_key, sq])
      @ push_when (ge_status edge = ''active'' \<and> acyclic_kind (ge_kind edge)
          \<and> would_create_graph_cycle st s t (ge_kind edge))
        (warning ''GRAPH-EDGE-CYCLE''
          [planning_edge_kind_as_str (ge_kind edge), '' edge from '', sq, s, sq, '' to '', sq, t, sq,
           '' creates a cycle'']))"

definition validate_graph_edge :: "planning_store \<Rightarrow> string \<Rightarrow> (string \<times> validator_step list) result" where
  "validate_graph_edge st i =
     (case load_graph_edge st i of
        Inl _ \<Rightarrow> Inr ([], [])
      | Inr edge \<Rightarrow>
          let source = load_graph_node st (ge_source_node_id edge);
              target = load_graph_node st (ge_target_node_id edge) in
          Inr (ge_scope_key edge,
            push_when (\<not> is_valid_status (ge_status edge))
              (warning ''GRAPH-STATUS-INVALID''
                [''graph edge status '', sq, ge_status edge, sq, '' is not a valid lowercase kebab-case token''])
            @ push_when (\<not> is_ok source)
              (warning ''GRAPH-EDGE-MISSING-NODE''
                [''source node '', sq, ge_source_node_id edge, sq, '' referenced by edge '', sq, i, sq,
                 '' does not exist''])
            @ push_when (\<not> is_ok target)
              (warning ''GRAPH-EDGE-MISSING-NODE''
                [''target node '', sq, ge_target_node_id edge, sq, '' referenced by edge '', sq, i, sq,
                 '' does not exist''])
            @ (case (source, target) of
                 (Inr source_node, Inr target_node) \<Rightarrow> structural_steps st edge source_node target_node
               | _ \<Rightarrow> [])
            @ push_when (ge_kind edge = PlanningEdgeKind_Satisfies \<and> ge_status edge = ''active''
                \<and> trim (json_str_or_empty ''rationale'' (ge_payload edge)) = [])
              (warning ''ACCEPTANCE-RATIONALE-MISSING''
                [''active Satisfies edge '', sq, i, sq, '' has no non-empty rationale''])))"

section \<open>Dispatch\<close>

definition validator_steps ::
    "planning_store \<Rightarrow> entity_type \<Rightarrow> string \<Rightarrow> (string \<times> validator_step list) result" where
  "validator_steps st et i = (case et of
       EntityType_Scope \<Rightarrow> Inr ([], [])
     | EntityType_Goal \<Rightarrow> validate_goal st i
     | EntityType_Roadmap \<Rightarrow> validate_roadmap st i
     | EntityType_RoadmapSection \<Rightarrow> validate_roadmap_section st i
     | EntityType_WorkPoint \<Rightarrow> validate_work_point st i
     | EntityType_Plan \<Rightarrow> validate_plan st i
     | EntityType_Todo \<Rightarrow> validate_todo st i
     | EntityType_Issue \<Rightarrow> validate_issue st i
     | EntityType_ReviewPoint \<Rightarrow> validate_review_point st i
     | EntityType_Insight \<Rightarrow> validate_insight st i
     | EntityType_ProjectRun \<Rightarrow> validate_project_run st i
     | EntityType_GraphNode \<Rightarrow> validate_graph_node st i
     | EntityType_GraphEdge \<Rightarrow> validate_graph_edge st i
     | EntityType_DiscoveryNode \<Rightarrow> Inr ([], [])
     | EntityType_DiscoveryRelationship \<Rightarrow> Inr ([], [])
     | EntityType_DiscoveryCheckpoint \<Rightarrow> Inr ([], []))"

definition validate_entity ::
    "environment \<Rightarrow> planning_store \<Rightarrow> entity_type \<Rightarrow> string
     \<Rightarrow> (validation_finding list \<times> planning_store) result" where
  "validate_entity env st et i =
     tryE (validator_steps st et i) (\<lambda>(scope_key, steps). stamp_findings env st et i scope_key steps)"

definition refresh_validation_target ::
    "environment \<Rightarrow> planning_store \<Rightarrow> entity_type \<Rightarrow> string \<Rightarrow> (validation_report \<times> planning_store) result" where
  "refresh_validation_target env st et i =
     tryE (validate_entity env st et i) (\<lambda>(findings, st).
     tryE (persist_validation_findings st et i findings) (\<lambda>st.
     Inr (from_findings findings, st)))"

section \<open>What the findings mean\<close>

lemma finding_core: "finding env st et i k sev c m = Inr (f, st') \<Longrightarrow> core st' = core st"
  by (auto simp: finding_def Let_def new_id_def dest!: now_string_core)

lemma stamp_findings_core:
  "stamp_findings env st et i k steps = Inr (fs, st') \<Longrightarrow> core st' = core st"
proof (induction env st et i k steps arbitrary: fs rule: stamp_findings.induct)
  case (2 env st et i k sev code message steps)
  then obtain f st1 fs' where "finding env st et i k sev code message = Inr (f, st1)"
    and "stamp_findings env st1 et i k steps = Inr (fs', st')" by auto
  with 2 show ?case using finding_core by metis
qed simp_all

lemma validate_entity_core [frame_simps]:
  "validate_entity env st et i = Inr (fs, st') \<Longrightarrow> core st' = core st"
  by (auto simp: validate_entity_def dest: stamp_findings_core)

lemma refresh_validation_target_core [frame_simps]:
  "refresh_validation_target env st et i = Inr (r, st') \<Longrightarrow> core st' = core st"
  by (auto simp: refresh_validation_target_def dest!: validate_entity_core persist_validation_findings_core)

subsection \<open>Dependency cycles\<close>

definition dependency_rel :: "planning_store \<Rightarrow> (string \<times> string) set" where
  "dependency_rel st = {(a, b). \<exists>w. find_row wp_id a (work_points st) = Some w \<and> b \<in> set (wp_dependency_ids w)}"

lemma load_work_point_deps:
  "load_work_point st a = Inr w \<Longrightarrow> (a, b) \<in> dependency_rel st \<longleftrightarrow> b \<in> set (wp_dependency_ids w)"
  by (auto simp: load_work_point_Inr_iff dependency_rel_def)

lemma load_work_point_no_deps: "load_work_point st a = Inl e \<Longrightarrow> (a, b) \<notin> dependency_rel st"
  by (auto simp: load_work_point_def dependency_rel_def tryE_Inl_iff)

lemma dependency_cycle_loop_sound:
  "dependency_cycle_loop st i stack visited \<Longrightarrow> \<exists>d\<in>set stack. (d, i) \<in> (dependency_rel st)\<^sup>*"
proof (induction st i stack visited rule: dependency_cycle_loop.induct)
  case (1 st i visited)
  then show ?case by simp
next
  case (2 st i dep_id stack visited)
  show ?case
  proof (cases "dep_id = i \<or> dep_id \<in> set visited")
    case True
    with 2 show ?thesis by (auto split: if_splits)
  next
    case False
    show ?thesis
    proof (cases "load_work_point st dep_id")
      case (Inl e)
      with False 2 show ?thesis by auto
    next
      case (Inr w)
      with False 2 obtain d where d: "d \<in> set (wp_dependency_ids w) \<union> set stack"
        "(d, i) \<in> (dependency_rel st)\<^sup>*" by auto
      then show ?thesis using load_work_point_deps [OF Inr]
        by (auto intro: converse_rtrancl_into_rtrancl)
    qed
  qed
qed

definition deps_within :: "planning_store \<Rightarrow> string set \<Rightarrow> string set \<Rightarrow> bool" where
  "deps_within st V W \<longleftrightarrow> (\<forall>a b. a \<in> V \<longrightarrow> (a, b) \<in> dependency_rel st \<longrightarrow> b \<in> W)"

lemma dependency_cycle_loop_closed:
  assumes "\<not> dependency_cycle_loop st i stack visited" "i \<notin> set visited"
    and "deps_within st (set visited) (set visited \<union> set stack)"
  shows "\<exists>C. set stack \<union> set visited \<subseteq> C \<and> i \<notin> C \<and> deps_within st C C"
  using assms
proof (induction st i stack visited rule: dependency_cycle_loop.induct)
  case (1 st i visited)
  then show ?case by (intro exI [of _ "set visited"]) simp
next
  case (2 st i dep_id stack visited)
  from "2.prems"(1) have ne: "dep_id \<noteq> i" by auto
  show ?case
  proof (cases "dep_id \<in> set visited")
    case True
    then have "set visited \<union> set (dep_id # stack) = set visited \<union> set stack" by auto
    with "2.prems" ne True "2.IH"(1) show ?thesis by simp blast
  next
    case False
    show ?thesis
    proof (cases "load_work_point st dep_id")
      case (Inl e)
      have "deps_within st (set (dep_id # visited)) (set (dep_id # visited) \<union> set stack)"
        using "2.prems"(3) load_work_point_no_deps [OF Inl] by (auto simp: deps_within_def)
      with "2.prems" ne False Inl "2.IH"(2) [OF ne False Inl] show ?thesis by auto
    next
      case (Inr w)
      have "deps_within st (set (dep_id # visited))
          (set (dep_id # visited) \<union> set (rev (wp_dependency_ids w) @ stack))"
        using "2.prems"(3) load_work_point_deps [OF Inr] by (auto simp: deps_within_def)
      with "2.prems" ne False Inr "2.IH"(3) [OF ne False Inr] show ?thesis by auto
    qed
  qed
qed

lemma dependency_cycle_loop_iff:
  "dependency_cycle_loop st i stack [] \<longleftrightarrow> (\<exists>d\<in>set stack. (d, i) \<in> (dependency_rel st)\<^sup>*)"
proof
  assume "dependency_cycle_loop st i stack []"
  then show "\<exists>d\<in>set stack. (d, i) \<in> (dependency_rel st)\<^sup>*" by (rule dependency_cycle_loop_sound)
next
  assume path: "\<exists>d\<in>set stack. (d, i) \<in> (dependency_rel st)\<^sup>*"
  show "dependency_cycle_loop st i stack []"
  proof (rule ccontr)
    assume "\<not> dependency_cycle_loop st i stack []"
    from dependency_cycle_loop_closed [OF this] obtain C where
      C: "set stack \<subseteq> C" "i \<notin> C" "\<And>a b. a \<in> C \<Longrightarrow> (a, b) \<in> dependency_rel st \<Longrightarrow> b \<in> C"
      by (auto simp: deps_within_def)
    from path obtain d where "d \<in> set stack" and d: "(d, i) \<in> (dependency_rel st)\<^sup>*" by blast
    with C(1) have "d \<in> C" by blast
    have "i \<in> C" using closed_rtrancl [OF d \<open>d \<in> C\<close>] C(3) by blast
    with C(2) show False by blast
  qed
qed

subsection \<open>Structure of the graph\<close>

fun step_code :: "validator_step \<Rightarrow> string" where
  "step_code (Push sev code message) = code"
| "step_code (Fail e) = []"

definition structural_finding :: "validator_step \<Rightarrow> bool" where
  "structural_finding s \<longleftrightarrow> starts_with (step_code s) ''GRAPH-EDGE-''"

definition edge_clean :: "planning_store \<Rightarrow> string \<Rightarrow> bool" where
  "edge_clean st i =
     (case validate_graph_edge st i of
        Inl _ \<Rightarrow> False
      | Inr (_, steps) \<Rightarrow> list_all (\<lambda>s. \<not> structural_finding s) steps)"

lemma list_all_push_when [simp]: "list_all P (push_when c d) \<longleftrightarrow> (c \<longrightarrow> P d)"
  by (simp add: push_when_def)

lemma structural_steps_clean:
  "list_all (\<lambda>s. \<not> structural_finding s) (structural_steps st e sn tn) \<longleftrightarrow>
     ge_source_node_id e \<noteq> ge_target_node_id e \<and> gn_scope_key sn = ge_scope_key e
     \<and> gn_scope_key tn = ge_scope_key e
     \<and> is_ok (validate_edge_kind_pair (ge_kind e) (gn_kind sn) (gn_kind tn))
     \<and> (ge_status e = ''active'' \<longrightarrow>
          (\<forall>e'\<in>set (planning_edges st). ge_status e' = ''active'' \<and> edge_key e' = edge_key e \<longrightarrow> ge_id e' = ge_id e)
          \<and> (acyclic_kind (ge_kind e) \<longrightarrow>
               \<not> would_create_graph_cycle st (ge_source_node_id e) (ge_target_node_id e) (ge_kind e)))"
  unfolding structural_steps_def Let_def list_all_append list_all_push_when structural_finding_def
  by (simp add: filter_empty_conv edge_key_def) blast

lemma edge_clean_iff:
  assumes "find_row ge_id i (planning_edges st) = Some e"
  shows "edge_clean st i \<longleftrightarrow> edge_ok st e
     \<and> (ge_status e = ''active'' \<longrightarrow>
          (\<forall>e'\<in>set (planning_edges st). ge_status e' = ''active'' \<and> edge_key e' = edge_key e \<longrightarrow> ge_id e' = ge_id e)
          \<and> (acyclic_kind (ge_kind e) \<longrightarrow>
               \<not> would_create_graph_cycle st (ge_source_node_id e) (ge_target_node_id e) (ge_kind e)))"
proof (cases "load_graph_node st (ge_source_node_id e)"; cases "load_graph_node st (ge_target_node_id e)")
  fix sn tn
  assume nodes: "load_graph_node st (ge_source_node_id e) = Inr sn"
    "load_graph_node st (ge_target_node_id e) = Inr tn"
  have "edge_clean st i \<longleftrightarrow> list_all (\<lambda>s. \<not> structural_finding s) (structural_steps st e sn tn)"
    using nodes assms
    by (simp add: edge_clean_def validate_graph_edge_def load_graph_edge_def row_or_not_found_def
        Let_def structural_finding_def)
  moreover have "find_row gn_id (ge_source_node_id e) (planning_nodes st) = Some sn"
    "find_row gn_id (ge_target_node_id e) (planning_nodes st) = Some tn"
    using nodes by (simp_all add: load_graph_node_def)
  ultimately show ?thesis by (auto simp: structural_steps_clean edge_ok_def)
qed (use assms in \<open>simp_all add: edge_clean_def validate_graph_edge_def load_graph_edge_def
      row_or_not_found_def Let_def structural_finding_def edge_ok_def load_graph_node_def
      split: option.splits\<close>)

lemma inj_on_via:
  assumes "inj_on f A" "B \<subseteq> A"
  shows "inj_on g B \<longleftrightarrow> (\<forall>x\<in>B. \<forall>y\<in>B. g y = g x \<longrightarrow> f y = f x)"
  using inj_onD [OF inj_on_subset [OF assms]] by (auto simp: inj_on_def)

lemma distinct_active_keys_iff:
  assumes "graph_keys st"
  shows "distinct (active_keys st) \<longleftrightarrow>
    (\<forall>e\<in>set (planning_edges st). ge_status e = ''active'' \<longrightarrow>
      (\<forall>e'\<in>set (planning_edges st). ge_status e' = ''active'' \<and> edge_key e' = edge_key e \<longrightarrow> ge_id e' = ge_id e))"
proof -
  from assms have ids: "distinct (planning_edges st)" "inj_on ge_id (set (planning_edges st))"
    by (simp_all add: graph_keys_def distinct_map)
  then have "distinct (active_keys st) \<longleftrightarrow>
      inj_on edge_key {e \<in> set (planning_edges st). ge_status e = ''active''}"
    by (simp add: active_keys_def distinct_map)
  also have "\<dots> \<longleftrightarrow> (\<forall>e\<in>set (planning_edges st). ge_status e = ''active'' \<longrightarrow>
      (\<forall>e'\<in>set (planning_edges st). ge_status e' = ''active'' \<and> edge_key e' = edge_key e \<longrightarrow> ge_id e' = ge_id e))"
    by (subst inj_on_via [OF ids(2)]) auto
  finally show ?thesis .
qed

lemma set_edge_pairs:
  "(s, t) \<in> set (edge_pairs st k) \<longleftrightarrow>
     (\<exists>e\<in>set (planning_edges st). ge_kind e = k \<and> ge_status e = ''active''
        \<and> ge_source_node_id e = s \<and> ge_target_node_id e = t)"
  by (auto simp: edge_pairs_def)

lemma acyclic_edges_iff:
  "(\<forall>k. acyclic_kind k \<longrightarrow> acyclic (set (edge_pairs st k))) \<longleftrightarrow>
    (\<forall>e\<in>set (planning_edges st). ge_status e = ''active'' \<longrightarrow> acyclic_kind (ge_kind e) \<longrightarrow>
      \<not> would_create_graph_cycle st (ge_source_node_id e) (ge_target_node_id e) (ge_kind e))"
  unfolding acyclic_iff_no_back_path graph_guard.check_iff
  by (fastforce simp: set_edge_pairs)

text \<open>
  The validators report a structural finding for some edge exactly when the graph violates its
  invariant.
\<close>

lemma graph_inv_iff_clean:
  "graph_inv st \<longleftrightarrow> graph_keys st \<and> list_all (\<lambda>e. edge_clean st (ge_id e)) (planning_edges st)"
proof (cases "graph_keys st")
  case True
  then have "find_row ge_id (ge_id e) (planning_edges st) = Some e" if "e \<in> set (planning_edges st)" for e
    using that by (simp add: graph_keys_def find_row_distinct)
  then show ?thesis
    using True by (auto simp: graph_inv_def list_all_iff edge_clean_iff distinct_active_keys_iff acyclic_edges_iff)
next
  case False
  then show ?thesis by (simp add: graph_inv_def)
qed

text \<open>
  A work point gets the finding \<open>WORK-POINT-DEPENDENCY-CYCLE\<close> exactly when it lies on a cycle of
  the dependency relation.
\<close>

definition has_code :: "string \<Rightarrow> validator_step list \<Rightarrow> bool" where
  "has_code c steps = list_ex (\<lambda>s. step_code s = c) steps"

lemma has_code_simps [simp]:
  "has_code c [] = False"
  "has_code c (s # steps) = (step_code s = c \<or> has_code c steps)"
  "has_code c (xs @ ys) = (has_code c xs \<or> has_code c ys)"
  "has_code c (push_when b s) = (b \<and> step_code s = c)"
  by (simp_all add: has_code_def push_when_def)

lemma has_code_concat_map [simp]: "has_code c (concat (map f xs)) = list_ex (\<lambda>x. has_code c (f x)) xs"
  by (induction xs) auto

lemma list_ex_False [simp]: "list_ex (\<lambda>x. False) xs = False"
  by (induction xs) auto

lemma has_code_cross_scope [simp]:
  "c \<noteq> ''CROSS-SCOPE-REFERENCE'' \<Longrightarrow> has_code c (cross_scope_targets st w what ids) = False"
  unfolding cross_scope_targets_def has_code_concat_map
  by (induction ids) (simp_all split: sum.split)

lemma has_code_section [simp]: "has_code ''WORK-POINT-DEPENDENCY-CYCLE'' (section_steps st w) = False"
  by (simp add: section_steps_def split: option.split)

lemma has_code_dependency [simp]: "has_code ''WORK-POINT-DEPENDENCY-CYCLE'' (dependency_steps st w d) = False"
  by (simp add: dependency_steps_def split: sum.split planning_store_error.split)

lemma validate_work_point_cycle_code:
  assumes "validate_work_point st i = Inr (k, steps)" "load_work_point st i = Inr w"
  shows "has_code ''WORK-POINT-DEPENDENCY-CYCLE'' steps \<longleftrightarrow>
    wp_dependency_ids w \<noteq> [] \<and> dependency_cycle_loop st i (rev (wp_dependency_ids w)) []"
  using assms by (auto simp: validate_work_point_def)

lemma dependency_cycle_finding_iff:
  assumes "validate_work_point st i = Inr (k, steps)"
  shows "has_code ''WORK-POINT-DEPENDENCY-CYCLE'' steps \<longleftrightarrow> (i, i) \<in> (dependency_rel st)\<^sup>+"
proof -
  from assms obtain w where w: "load_work_point st i = Inr w"
    by (auto simp: validate_work_point_def)
  have "has_code ''WORK-POINT-DEPENDENCY-CYCLE'' steps \<longleftrightarrow>
      (\<exists>d. (i, d) \<in> dependency_rel st \<and> (d, i) \<in> (dependency_rel st)\<^sup>*)"
    using load_work_point_deps [OF w]
    by (auto simp: validate_work_point_cycle_code [OF assms w] dependency_cycle_loop_iff)
  also have "\<dots> \<longleftrightarrow> (i, i) \<in> (dependency_rel st)\<^sup>+"
    by (meson rtrancl_into_trancl2 tranclD)
  finally show ?thesis .
qed

end
