(* ===== verification/GraphStore.thy ===== *)
theory GraphStore
  imports Validation
begin

text \<open>
  The operations of the planning graph (\<open>storage.rs\<close>, graph node and graph edge methods): creation,
  revision, status changes, acceptance and evidence, finalization, upserts, bulk status changes and
  the application of a manifest. Each operation is the whole method, guards and early returns in the
  order of the code, over the statements \<open>insert_planning_node\<close>, \<open>insert_planning_edge\<close>,
  \<open>update_planning_node\<close> and \<open>update_planning_edge\<close>, which check the constraints of the schema.
\<close>

section \<open>Inputs\<close>

record create_graph_node_input =
  cn_id :: "string option"
  cn_scope_key :: "string option"
  cn_correlation_id :: string
  cn_kind :: planning_node_kind
  cn_title :: string
  cn_summary :: string
  cn_status :: string
  cn_payload :: json
  cn_tags :: "string list"
  cn_run_id :: "string option"

record create_graph_edge_input =
  ce_id :: "string option"
  ce_scope_key :: "string option"
  ce_correlation_id :: string
  ce_kind :: planning_edge_kind
  ce_source_node_id :: string
  ce_target_node_id :: string
  ce_status :: string
  ce_payload :: json
  ce_run_id :: "string option"

record update_graph_node_status_input =
  un_node_id :: string
  un_correlation_id :: string
  un_active_scope_key :: "string option"
  un_status :: string
  un_run_id :: "string option"

record update_graph_edge_status_input =
  ue_edge_id :: string
  ue_correlation_id :: string
  ue_active_scope_key :: "string option"
  ue_status :: string
  ue_run_id :: "string option"

record revise_graph_node_input =
  rn_node_id :: string
  rn_correlation_id :: string
  rn_active_scope_key :: "string option"
  rn_title :: "string option"
  rn_summary :: "string option"
  rn_status :: "string option"
  rn_payload :: "json option"
  rn_tags :: "string list option"
  rn_clear_tags :: bool
  rn_run_id :: "string option"

record revise_graph_edge_input =
  re_edge_id :: string
  re_correlation_id :: string
  re_active_scope_key :: "string option"
  re_status :: "string option"
  re_payload :: "json option"
  re_run_id :: "string option"

record create_acceptance_input =
  ca_id :: "string option"
  ca_scope_key :: "string option"
  ca_correlation_id :: string
  ca_title :: string
  ca_summary :: string
  ca_status :: string
  ca_acceptance_kind :: acceptance_kind
  ca_description :: string
  ca_verification_policy :: string
  ca_required_evidence_kinds :: "evidence_kind list"
  ca_waiver :: "string option"
  ca_tags :: "string list"
  ca_run_id :: "string option"

record create_evidence_input =
  cv_id :: "string option"
  cv_scope_key :: "string option"
  cv_correlation_id :: string
  cv_title :: string
  cv_summary :: string
  cv_status :: string
  cv_evidence_kind :: evidence_kind
  cv_reference :: string
  cv_content :: string
  cv_captured_at :: string
  cv_tags :: "string list"
  cv_run_id :: "string option"

record satisfy_acceptance_input =
  sa_id :: "string option"
  sa_scope_key :: "string option"
  sa_correlation_id :: string
  sa_concrete_node_id :: string
  sa_abstract_node_id :: string
  sa_rationale :: string
  sa_run_id :: "string option"

record attach_evidence_input =
  ae_id :: "string option"
  ae_scope_key :: "string option"
  ae_correlation_id :: string
  ae_evidence_node_id :: string
  ae_target_node_id :: string
  ae_rationale :: string
  ae_run_id :: "string option"

record finalize_graph_node_input =
  fz_node_id :: string
  fz_correlation_id :: string
  fz_active_scope_key :: "string option"
  fz_status :: string
  fz_accepted_risk :: "string option"
  fz_run_id :: "string option"

section \<open>Statements\<close>

definition graph_node_json :: "planning_graph_node \<Rightarrow> json" where
  "graph_node_json r = JObj
     [(''id'', JStr (gn_id r)), (''scopeKey'', JStr (gn_scope_key r)),
      (''kind'', JStr (planning_node_kind_as_str (gn_kind r))), (''title'', JStr (gn_title r)),
      (''summary'', JStr (gn_summary r)), (''status'', JStr (gn_status r)), (''payload'', gn_payload r),
      (''tags'', json_strs (gn_tags r)), (''revision'', JInt (gn_revision r)),
      (''createdAt'', JStr (gn_created_at r)), (''updatedAt'', JStr (gn_updated_at r))]"

definition graph_edge_json :: "planning_graph_edge \<Rightarrow> json" where
  "graph_edge_json r = JObj
     [(''id'', JStr (ge_id r)), (''scopeKey'', JStr (ge_scope_key r)),
      (''kind'', JStr (planning_edge_kind_as_str (ge_kind r))),
      (''sourceNodeId'', JStr (ge_source_node_id r)), (''targetNodeId'', JStr (ge_target_node_id r)),
      (''status'', JStr (ge_status r)), (''payload'', ge_payload r), (''revision'', JInt (ge_revision r)),
      (''createdAt'', JStr (ge_created_at r)), (''updatedAt'', JStr (ge_updated_at r))]"

definition insert_planning_node :: "planning_store \<Rightarrow> planning_graph_node \<Rightarrow> planning_store result" where
  "insert_planning_node st r =
     (if find_row gn_id (gn_id r) (planning_nodes st) \<noteq> None
      then Inl (Sqlite (UniqueViolation ''planning_nodes.id''))
      else if find_row sc_scope_key (gn_scope_key r) (scopes st) = None
      then Inl (Sqlite (ForeignKeyViolation ''planning_nodes.scope_key''))
      else Inr (st\<lparr>planning_nodes := planning_nodes st @ [r]\<rparr>))"

definition update_planning_node ::
    "planning_store \<Rightarrow> string \<Rightarrow> (planning_graph_node \<Rightarrow> planning_graph_node) \<Rightarrow> planning_store" where
  "update_planning_node st i f =
     st\<lparr>planning_nodes := update_where (\<lambda>r. gn_id r = i) f (planning_nodes st)\<rparr>"

definition active_duplicate :: "planning_store \<Rightarrow> string option \<Rightarrow> planning_graph_edge \<Rightarrow> bool" where
  "active_duplicate st except_id r =
     list_ex (\<lambda>e. edge_key e = edge_key r \<and> ge_status e = ''active'' \<and> except_id \<noteq> Some (ge_id e))
       (planning_edges st)"

definition edge_row_ok :: "planning_store \<Rightarrow> string option \<Rightarrow> planning_graph_edge \<Rightarrow> unit result" where
  "edge_row_ok st except_id r =
     (if ge_status r = ''active'' \<and> active_duplicate st except_id r
      then Inl (Sqlite (UniqueViolation ''idx_planning_edges_unique_active''))
      else if find_row sc_scope_key (ge_scope_key r) (scopes st) = None
         \<or> find_row gn_id (ge_source_node_id r) (planning_nodes st) = None
         \<or> find_row gn_id (ge_target_node_id r) (planning_nodes st) = None
      then Inl (Sqlite (ForeignKeyViolation ''planning_edges''))
      else Inr ())"

definition insert_planning_edge :: "planning_store \<Rightarrow> planning_graph_edge \<Rightarrow> planning_store result" where
  "insert_planning_edge st r =
     (if find_row ge_id (ge_id r) (planning_edges st) \<noteq> None
      then Inl (Sqlite (UniqueViolation ''planning_edges.id''))
      else tryE (edge_row_ok st None r) (\<lambda>_.
        Inr (st\<lparr>planning_edges := planning_edges st @ [r]\<rparr>)))"

definition update_planning_edge ::
    "planning_store \<Rightarrow> string \<Rightarrow> (planning_graph_edge \<Rightarrow> planning_graph_edge) \<Rightarrow> planning_store result" where
  "update_planning_edge st i f =
     (case find_row ge_id i (planning_edges st) of
        None \<Rightarrow> Inr st
      | Some r \<Rightarrow> tryE (edge_row_ok st (Some i) (f r)) (\<lambda>_.
          Inr (st\<lparr>planning_edges := update_where (\<lambda>e. ge_id e = i) f (planning_edges st)\<rparr>)))"

definition require_optional_id :: "string option \<Rightarrow> unit result" where
  "require_optional_id given = (case given of Some i \<Rightarrow> require_non_empty ''id'' i | None \<Rightarrow> Inr ())"

text \<open>The node an edge names, or the message of the preflight check.\<close>

definition end_node :: "planning_store \<Rightarrow> string \<Rightarrow> string \<Rightarrow> planning_graph_node result" where
  "end_node st field i =
     map_err (\<lambda>_. invalid [field, '' references missing node `'', i, ''`'']) (load_graph_node st i)"

definition node_of_input ::
    "create_graph_node_input \<Rightarrow> string \<Rightarrow> string \<Rightarrow> string \<Rightarrow> planning_graph_node" where
  "node_of_input input i scope_key now =
     \<lparr>gn_id = i, gn_scope_key = scope_key, gn_kind = cn_kind input, gn_title = trim (cn_title input),
      gn_summary = trim (cn_summary input), gn_status = trim (cn_status input), gn_payload = cn_payload input,
      gn_tags = normalize_string_list (cn_tags input), gn_revision = 1,
      gn_created_at = now, gn_updated_at = now\<rparr>"

definition edge_of_input ::
    "create_graph_edge_input \<Rightarrow> string \<Rightarrow> string \<Rightarrow> string \<Rightarrow> planning_graph_edge" where
  "edge_of_input input i scope_key now =
     \<lparr>ge_id = i, ge_scope_key = scope_key, ge_kind = ce_kind input,
      ge_source_node_id = ce_source_node_id input, ge_target_node_id = ce_target_node_id input,
      ge_status = trim (ce_status input), ge_payload = ce_payload input, ge_revision = 1,
      ge_created_at = now, ge_updated_at = now\<rparr>"

section \<open>Creation\<close>

definition create_graph_node ::
    "environment \<Rightarrow> planning_store \<Rightarrow> create_graph_node_input
     \<Rightarrow> (planning_graph_node mutation_result \<times> planning_store) result" where
  "create_graph_node env st input =
     tryE (require_non_empty ''correlationId'' (cn_correlation_id input)) (\<lambda>_.
     tryE (require_non_empty ''title'' (cn_title input)) (\<lambda>_.
     tryE (require_non_empty ''summary'' (cn_summary input)) (\<lambda>_.
     tryE (require_non_empty ''status'' (cn_status input)) (\<lambda>_.
     tryE (require_kebab_token ''status'' (cn_status input)) (\<lambda>_.
     tryE (require_optional_id (cn_id input)) (\<lambda>_.
     let scope_key = normalized_scope_key (cn_scope_key input) in
     tryE (ensure_scope_exists st scope_key) (\<lambda>_.
     tryE (now_string env st) (\<lambda>(now, st).
     let (i, st) = id_or_new env st (cn_id input);
         record = node_of_input input i scope_key now in
     tryE (insert_planning_node st record) (\<lambda>st.
     tryE (log_event env st EntityType_GraphNode i EntityType_GraphNode i (cn_correlation_id input)
             (cn_run_id input) ''graph-node.created'' (graph_node_json record)) (\<lambda>st.
     tryE (rebuild_tag_index_for_entity st EntityType_GraphNode i (gn_tags record)) (\<lambda>st.
     Inr (\<lparr>mr_record = record, mr_validation = from_findings []\<rparr>, st))))))))))))"

definition create_graph_edge ::
    "environment \<Rightarrow> planning_store \<Rightarrow> create_graph_edge_input
     \<Rightarrow> (planning_graph_edge mutation_result \<times> planning_store) result" where
  "create_graph_edge env st input =
     tryE (require_non_empty ''correlationId'' (ce_correlation_id input)) (\<lambda>_.
     tryE (require_non_empty ''source_node_id'' (ce_source_node_id input)) (\<lambda>_.
     tryE (require_non_empty ''target_node_id'' (ce_target_node_id input)) (\<lambda>_.
     tryE (require_non_empty ''status'' (ce_status input)) (\<lambda>_.
     tryE (require_kebab_token ''status'' (ce_status input)) (\<lambda>_.
     tryE (require_optional_id (ce_id input)) (\<lambda>_.
     let scope_key = normalized_scope_key (ce_scope_key input);
         s = ce_source_node_id input; t = ce_target_node_id input; kind = ce_kind input in
     tryE (ensure_scope_exists st scope_key) (\<lambda>_.
     tryE (end_node st ''sourceNodeId'' s) (\<lambda>source.
     tryE (end_node st ''targetNodeId'' t) (\<lambda>target.
     if gn_scope_key source \<noteq> scope_key \<or> gn_scope_key target \<noteq> scope_key then
       Inl (invalid [''source and target nodes must belong to the same scope as the edge''])
     else if s = t then
       Inl (invalid [''self-referential '', planning_edge_kind_as_str kind,
                     '' edge is not allowed: source and target must be different nodes''])
     else
     tryE (validate_edge_kind_pair kind (gn_kind source) (gn_kind target)) (\<lambda>_.
     let final_status = trim (ce_status input);
         dup_count = length (filter (\<lambda>e. edge_key e = (scope_key, kind, s, t) \<and> ge_status e = ''active'')
           (planning_edges st)) in
     if final_status = ''active'' \<and> dup_count > 0 then
       Inl (invalid [''duplicate active '', planning_edge_kind_as_str kind, '' edge from `'', s, ''` to `'', t,
                     ''` in scope `'', scope_key, ''`''])
     else if final_status = ''active'' \<and> acyclic_kind kind \<and> would_create_graph_cycle st s t kind then
       Inl (invalid [''adding this '', planning_edge_kind_as_str kind, '' edge from `'', s, ''` to `'', t,
                     ''` would create a cycle''])
     else
     tryE (now_string env st) (\<lambda>(now, st).
     let (i, st) = id_or_new env st (ce_id input);
         record = edge_of_input input i scope_key now in
     tryE (insert_planning_edge st record) (\<lambda>st.
     tryE (log_event env st EntityType_GraphEdge i EntityType_GraphNode s (ce_correlation_id input)
             (ce_run_id input) ''graph-edge.created'' (graph_edge_json record)) (\<lambda>st.
     Inr (\<lparr>mr_record = record, mr_validation = from_findings []\<rparr>, st))))))))))))))"

section \<open>Acceptance and evidence\<close>

definition create_acceptance ::
    "environment \<Rightarrow> planning_store \<Rightarrow> create_acceptance_input
     \<Rightarrow> (planning_graph_node mutation_result \<times> planning_store) result" where
  "create_acceptance env st input =
     tryE (require_non_empty ''correlationId'' (ca_correlation_id input)) (\<lambda>_.
     tryE (require_non_empty ''title'' (ca_title input)) (\<lambda>_.
     tryE (require_non_empty ''status'' (ca_status input)) (\<lambda>_.
     tryE (require_kebab_token ''status'' (ca_status input)) (\<lambda>_.
     let payload =
           [(''acceptanceKind'', JStr (acceptance_kind_as_str (ca_acceptance_kind input))),
            (''description'', JStr (ca_description input)),
            (''verificationPolicy'', JStr (ca_verification_policy input)),
            (''requiredEvidenceKinds'', json_strs (map evidence_kind_as_str (ca_required_evidence_kinds input)))];
         payload = (case ca_waiver input of
             Some waiver \<Rightarrow> obj_set ''waiver'' (JStr waiver) payload
           | None \<Rightarrow> payload) in
     create_graph_node env st \<lparr>cn_id = ca_id input, cn_scope_key = ca_scope_key input,
       cn_correlation_id = ca_correlation_id input, cn_kind = PlanningNodeKind_Acceptance,
       cn_title = ca_title input, cn_summary = ca_summary input, cn_status = ca_status input,
       cn_payload = JObj payload, cn_tags = ca_tags input, cn_run_id = ca_run_id input\<rparr>))))"

definition create_evidence ::
    "environment \<Rightarrow> planning_store \<Rightarrow> create_evidence_input
     \<Rightarrow> (planning_graph_node mutation_result \<times> planning_store) result" where
  "create_evidence env st input =
     tryE (require_non_empty ''correlationId'' (cv_correlation_id input)) (\<lambda>_.
     tryE (require_non_empty ''title'' (cv_title input)) (\<lambda>_.
     tryE (require_non_empty ''status'' (cv_status input)) (\<lambda>_.
     tryE (require_kebab_token ''status'' (cv_status input)) (\<lambda>_.
     create_graph_node env st \<lparr>cn_id = cv_id input, cn_scope_key = cv_scope_key input,
       cn_correlation_id = cv_correlation_id input, cn_kind = PlanningNodeKind_Evidence,
       cn_title = cv_title input, cn_summary = cv_summary input, cn_status = cv_status input,
       cn_payload = JObj
         [(''evidenceKind'', JStr (evidence_kind_as_str (cv_evidence_kind input))),
          (''summary'', JStr (cv_summary input)), (''reference'', JStr (cv_reference input)),
          (''content'', JStr (cv_content input)), (''capturedAt'', JStr (cv_captured_at input))],
       cn_tags = cv_tags input, cn_run_id = cv_run_id input\<rparr>))))"

definition acceptance_end ::
    "planning_store \<Rightarrow> string \<Rightarrow> string \<Rightarrow> string \<Rightarrow> planning_graph_node result" where
  "acceptance_end st field i expected =
     tryE (map_err (\<lambda>_. invalid [field, '' `'', i, ''` references a missing node'']) (load_graph_node st i)) (\<lambda>node.
     if gn_kind node \<noteq> PlanningNodeKind_Acceptance then
       Inl (invalid [field, '' `'', i, ''` is a `'', planning_node_kind_as_str (gn_kind node),
                     ''` node, not an acceptance node''])
     else let kind = json_str_or_empty ''acceptanceKind'' (gn_payload node) in
     if kind \<noteq> expected then
       Inl (invalid [field, '' `'', i, ''` has acceptanceKind `'', kind, ''`, expected `'', expected, ''`''])
     else Inr node)"

text \<open>
  The source loads the two nodes on a connection of its own before \<open>create_graph_edge\<close> opens its
  transaction; here both read the same store, which leaves out a writer between the two.
\<close>

definition satisfy_acceptance ::
    "environment \<Rightarrow> planning_store \<Rightarrow> satisfy_acceptance_input
     \<Rightarrow> (planning_graph_edge mutation_result \<times> planning_store) result" where
  "satisfy_acceptance env st input =
     tryE (require_non_empty ''correlationId'' (sa_correlation_id input)) (\<lambda>_.
     tryE (require_non_empty ''concrete_node_id'' (sa_concrete_node_id input)) (\<lambda>_.
     tryE (require_non_empty ''abstract_node_id'' (sa_abstract_node_id input)) (\<lambda>_.
     tryE (require_non_empty ''rationale'' (sa_rationale input)) (\<lambda>_.
     tryE (acceptance_end st ''concrete_node_id'' (sa_concrete_node_id input) ''concrete'') (\<lambda>_.
     tryE (acceptance_end st ''abstract_node_id'' (sa_abstract_node_id input) ''abstract'') (\<lambda>_.
     create_graph_edge env st \<lparr>ce_id = sa_id input, ce_scope_key = sa_scope_key input,
       ce_correlation_id = sa_correlation_id input, ce_kind = PlanningEdgeKind_Satisfies,
       ce_source_node_id = sa_concrete_node_id input, ce_target_node_id = sa_abstract_node_id input,
       ce_status = ''active'', ce_payload = JObj [(''rationale'', JStr (sa_rationale input))],
       ce_run_id = sa_run_id input\<rparr>))))))"

definition attach_evidence ::
    "environment \<Rightarrow> planning_store \<Rightarrow> attach_evidence_input
     \<Rightarrow> (planning_graph_edge mutation_result \<times> planning_store) result" where
  "attach_evidence env st input =
     tryE (require_non_empty ''correlationId'' (ae_correlation_id input)) (\<lambda>_.
     tryE (require_non_empty ''evidence_node_id'' (ae_evidence_node_id input)) (\<lambda>_.
     tryE (require_non_empty ''target_node_id'' (ae_target_node_id input)) (\<lambda>_.
     create_graph_edge env st \<lparr>ce_id = ae_id input, ce_scope_key = ae_scope_key input,
       ce_correlation_id = ae_correlation_id input, ce_kind = PlanningEdgeKind_EvidencedBy,
       ce_source_node_id = ae_target_node_id input, ce_target_node_id = ae_evidence_node_id input,
       ce_status = ''active'',
       ce_payload = JObj (if ae_rationale input = [] then [] else [(''rationale'', JStr (ae_rationale input))]),
       ce_run_id = ae_run_id input\<rparr>)))"

section \<open>Status changes and revisions\<close>

definition status_payload :: "string \<Rightarrow> string \<Rightarrow> int \<Rightarrow> (string \<times> json) list" where
  "status_payload status old_status revision =
     [(''status'', JStr status), (''previousStatus'', JStr old_status), (''revision'', JInt revision)]"

text \<open>
  The end of the four methods below: validate the entity, store the findings and report them.
  It is \<open>refresh_validation_target\<close>, inlined by the source.
\<close>

definition update_graph_node_status ::
    "environment \<Rightarrow> planning_store \<Rightarrow> update_graph_node_status_input
     \<Rightarrow> (planning_graph_node mutation_result \<times> planning_store) result" where
  "update_graph_node_status env st input =
     tryE (require_non_empty ''nodeId'' (un_node_id input)) (\<lambda>_.
     tryE (require_non_empty ''correlationId'' (un_correlation_id input)) (\<lambda>_.
     tryE (require_non_empty ''status'' (un_status input)) (\<lambda>_.
     tryE (require_kebab_token ''status'' (un_status input)) (\<lambda>_.
     tryE (ensure_entity_in_scope st EntityType_GraphNode (un_node_id input)
             (normalized_scope_key (un_active_scope_key input))) (\<lambda>_.
     tryE (load_graph_node st (un_node_id input)) (\<lambda>old_record.
     tryE (now_string env st) (\<lambda>(now, st).
     let st = update_planning_node st (un_node_id input) (\<lambda>r.
           r\<lparr>gn_status := trim (un_status input), gn_revision := gn_revision r + 1, gn_updated_at := now\<rparr>) in
     tryE (load_graph_node st (un_node_id input)) (\<lambda>record.
     tryE (log_event env st EntityType_GraphNode (gn_id record) EntityType_GraphNode (gn_id record)
             (un_correlation_id input) (un_run_id input) ''graph-node.status-updated''
             (JObj (status_payload (gn_status record) (gn_status old_record) (gn_revision record)))) (\<lambda>st.
     tryE (refresh_validation_target env st EntityType_GraphNode (gn_id record)) (\<lambda>(validation, st).
     Inr (\<lparr>mr_record = record, mr_validation = validation\<rparr>, st)))))))))))"

text \<open>The recheck of an edge that becomes (or stays) active; the message names the operation.\<close>

definition recheck_active ::
    "planning_store \<Rightarrow> string \<Rightarrow> planning_graph_edge \<Rightarrow> string \<Rightarrow> string \<Rightarrow> unit result" where
  "recheck_active st verb old edge_id status =
     (if status = ''active'' \<and>
         length (filter (\<lambda>e. edge_key e = edge_key old \<and> ge_status e = ''active'' \<and> ge_id e \<noteq> edge_id)
           (planning_edges st)) > 0 then
        Inl (invalid [''cannot '', verb, '' edge status to active: duplicate active '',
          planning_edge_kind_as_str (ge_kind old), '' edge from `'', ge_source_node_id old, ''` to `'',
          ge_target_node_id old, ''` in scope `'', ge_scope_key old, ''`''])
      else if status = ''active'' \<and> acyclic_kind (ge_kind old)
         \<and> would_create_graph_cycle st (ge_source_node_id old) (ge_target_node_id old) (ge_kind old) then
        Inl (invalid [''cannot '', verb, '' edge status to active: '', planning_edge_kind_as_str (ge_kind old),
          '' edge from `'', ge_source_node_id old, ''` to `'', ge_target_node_id old, ''` would create a cycle''])
      else Inr ())"

definition update_graph_edge_status ::
    "environment \<Rightarrow> planning_store \<Rightarrow> update_graph_edge_status_input
     \<Rightarrow> (planning_graph_edge mutation_result \<times> planning_store) result" where
  "update_graph_edge_status env st input =
     tryE (require_non_empty ''edgeId'' (ue_edge_id input)) (\<lambda>_.
     tryE (require_non_empty ''correlationId'' (ue_correlation_id input)) (\<lambda>_.
     tryE (require_non_empty ''status'' (ue_status input)) (\<lambda>_.
     tryE (require_kebab_token ''status'' (ue_status input)) (\<lambda>_.
     tryE (ensure_entity_in_scope st EntityType_GraphEdge (ue_edge_id input)
             (normalized_scope_key (ue_active_scope_key input))) (\<lambda>_.
     tryE (load_graph_edge st (ue_edge_id input)) (\<lambda>old_record.
     let new_status = trim (ue_status input) in
     tryE (recheck_active st ''set'' old_record (ue_edge_id input) new_status) (\<lambda>_.
     tryE (now_string env st) (\<lambda>(now, st).
     tryE (update_planning_edge st (ue_edge_id input) (\<lambda>r.
             r\<lparr>ge_status := new_status, ge_revision := ge_revision r + 1, ge_updated_at := now\<rparr>)) (\<lambda>st.
     tryE (load_graph_edge st (ue_edge_id input)) (\<lambda>record.
     tryE (log_event env st EntityType_GraphEdge (ge_id record) EntityType_GraphNode (ge_source_node_id record)
             (ue_correlation_id input) (ue_run_id input) ''graph-edge.status-updated''
             (JObj (status_payload (ge_status record) (ge_status old_record) (ge_revision record)))) (\<lambda>st.
     tryE (refresh_validation_target env st EntityType_GraphEdge (ge_id record)) (\<lambda>(validation, st).
     Inr (\<lparr>mr_record = record, mr_validation = validation\<rparr>, st)))))))))))))"

definition non_blank_or :: "string option \<Rightarrow> string \<Rightarrow> string" where
  "non_blank_or given old =
     (case given of None \<Rightarrow> old | Some s \<Rightarrow> if trim s = [] then old else trim s)"

definition revised_status :: "string option \<Rightarrow> string \<Rightarrow> string result" where
  "revised_status given old =
     (case given of None \<Rightarrow> Inr old
      | Some s \<Rightarrow> tryE (require_kebab_token ''status'' s) (\<lambda>_. Inr (trim s)))"

definition revise_graph_node ::
    "environment \<Rightarrow> planning_store \<Rightarrow> revise_graph_node_input
     \<Rightarrow> (planning_graph_node mutation_result \<times> planning_store) result" where
  "revise_graph_node env st input =
     tryE (require_non_empty ''nodeId'' (rn_node_id input)) (\<lambda>_.
     tryE (require_non_empty ''correlationId'' (rn_correlation_id input)) (\<lambda>_.
     tryE (ensure_entity_in_scope st EntityType_GraphNode (rn_node_id input)
             (normalized_scope_key (rn_active_scope_key input))) (\<lambda>_.
     tryE (load_graph_node st (rn_node_id input)) (\<lambda>existing.
     tryE (now_string env st) (\<lambda>(now, st).
     let title = non_blank_or (rn_title input) (gn_title existing);
         summary = non_blank_or (rn_summary input) (gn_summary existing) in
     tryE (revised_status (rn_status input) (gn_status existing)) (\<lambda>status.
     let payload = (case rn_payload input of None \<Rightarrow> gn_payload existing | Some p \<Rightarrow> p);
         tags = (if rn_clear_tags input then []
                 else (case rn_tags input of None \<Rightarrow> gn_tags existing | Some ts \<Rightarrow> normalize_string_list ts));
         st = update_planning_node st (rn_node_id input) (\<lambda>r.
           r\<lparr>gn_title := title, gn_summary := summary, gn_status := status, gn_payload := payload,
             gn_tags := tags, gn_revision := gn_revision r + 1, gn_updated_at := now\<rparr>) in
     tryE (load_graph_node st (rn_node_id input)) (\<lambda>record.
     tryE (log_event env st EntityType_GraphNode (gn_id record) EntityType_GraphNode (gn_id record)
             (rn_correlation_id input) (rn_run_id input) ''graph-node.revised''
             (JObj [(''title'', JStr (gn_title record)), (''summary'', JStr (gn_summary record)),
                    (''status'', JStr (gn_status record)), (''tags'', json_strs (gn_tags record)),
                    (''revision'', JInt (gn_revision record))])) (\<lambda>st.
     tryE (refresh_validation_target env st EntityType_GraphNode (gn_id record)) (\<lambda>(validation, st).
     tryE (rebuild_tag_index_for_entity st EntityType_GraphNode (gn_id record) (gn_tags record)) (\<lambda>st.
     Inr (\<lparr>mr_record = record, mr_validation = validation\<rparr>, st)))))))))))"

definition revise_graph_edge ::
    "environment \<Rightarrow> planning_store \<Rightarrow> revise_graph_edge_input
     \<Rightarrow> (planning_graph_edge mutation_result \<times> planning_store) result" where
  "revise_graph_edge env st input =
     tryE (require_non_empty ''edgeId'' (re_edge_id input)) (\<lambda>_.
     tryE (require_non_empty ''correlationId'' (re_correlation_id input)) (\<lambda>_.
     tryE (ensure_entity_in_scope st EntityType_GraphEdge (re_edge_id input)
             (normalized_scope_key (re_active_scope_key input))) (\<lambda>_.
     tryE (load_graph_edge st (re_edge_id input)) (\<lambda>existing.
     tryE (now_string env st) (\<lambda>(now, st).
     tryE (revised_status (re_status input) (ge_status existing)) (\<lambda>status.
     let payload = (case re_payload input of None \<Rightarrow> ge_payload existing | Some p \<Rightarrow> p) in
     tryE (recheck_active st ''revise'' existing (re_edge_id input) status) (\<lambda>_.
     tryE (update_planning_edge st (re_edge_id input) (\<lambda>r.
             r\<lparr>ge_status := status, ge_payload := payload, ge_revision := ge_revision r + 1,
               ge_updated_at := now\<rparr>)) (\<lambda>st.
     tryE (load_graph_edge st (re_edge_id input)) (\<lambda>record.
     tryE (log_event env st EntityType_GraphEdge (ge_id record) EntityType_GraphNode (ge_source_node_id record)
             (re_correlation_id input) (re_run_id input) ''graph-edge.revised''
             (JObj (status_payload (ge_status record) (ge_status existing) (ge_revision record)))) (\<lambda>st.
     tryE (refresh_validation_target env st EntityType_GraphEdge (ge_id record)) (\<lambda>(validation, st).
     Inr (\<lparr>mr_record = record, mr_validation = validation\<rparr>, st))))))))))))"

section \<open>Finalization\<close>

definition structural_codes :: "string list" where
  "structural_codes = [''GRAPH-EDGE-CYCLE'', ''GRAPH-EDGE-DUPLICATE-ACTIVE'', ''GRAPH-EDGE-MISSING-NODE'',
     ''GRAPH-EDGE-CROSS-SCOPE'', ''GRAPH-EDGE-KIND-MISMATCH'']"

definition type_integrity_codes :: "string list" where
  "type_integrity_codes = [''ACCEPTANCE-KIND-INVALID'', ''EVIDENCE-KIND-INVALID'']"

definition waivable_gap_codes :: "string list" where
  "waivable_gap_codes = [''ACCEPTANCE-COVERAGE-MISSING'', ''ACCEPTANCE-EVIDENCE-MISSING'']"

fun collect_edge_findings ::
    "environment \<Rightarrow> planning_store \<Rightarrow> planning_graph_edge list \<Rightarrow> validation_finding list \<times> planning_store" where
  "collect_edge_findings env st [] = ([], st)"
| "collect_edge_findings env st (edge # edges) =
     (case validate_entity env st EntityType_GraphEdge (ge_id edge) of
        Inl _ \<Rightarrow> collect_edge_findings env st edges
      | Inr (ef, st) \<Rightarrow> (case collect_edge_findings env st edges of (fs, st) \<Rightarrow> (ef @ fs, st)))"

definition codes_among :: "string list \<Rightarrow> validation_finding list \<Rightarrow> string list" where
  "codes_among codes fs = filter (\<lambda>c. c \<in> set codes) (map vf_code fs)"

definition debug_strings :: "string list \<Rightarrow> string" where
  "debug_strings cs = ''['' @ join '', '' (map (\<lambda>c. [CHR 0x22] @ c @ [CHR 0x22]) cs) @ '']''"

definition risk_accepted :: "finalize_graph_node_input \<Rightarrow> bool" where
  "risk_accepted input = (case fz_accepted_risk input of None \<Rightarrow> False | Some r \<Rightarrow> trim r \<noteq> [])"

text \<open>
  The first half of \<open>finalize_graph_node\<close>: the findings of the node and of its edges, and the three
  groups of codes that block.
\<close>

definition finalize_gate ::
    "environment \<Rightarrow> planning_store \<Rightarrow> planning_graph_node \<Rightarrow> finalize_graph_node_input \<Rightarrow> planning_store result" where
  "finalize_gate env st node input =
     tryE (validate_entity env st EntityType_GraphNode (gn_id node)) (\<lambda>(node_findings, st).
     case collect_edge_findings env st
            (list_incoming_edges_in_scope st (gn_id node) (gn_scope_key node) None
             @ list_outgoing_edges_in_scope st (gn_id node) (gn_scope_key node) None) of
       (all_edge_findings, st) \<Rightarrow>
         let all_findings = node_findings @ all_edge_findings;
             blocked = (\<lambda>codes. codes_among codes all_findings \<noteq> []) in
         if blocked structural_codes then
           Inl (invalid [''cannot finalize graph node `'', fz_node_id input, ''`: blocking structural findings: '',
                         debug_strings (codes_among structural_codes all_findings)])
         else if blocked type_integrity_codes then
           Inl (invalid [''cannot finalize graph node `'', fz_node_id input, ''`: invalid typed payloads: '',
                         debug_strings (codes_among type_integrity_codes all_findings),
                         ''. Fix the payload before finalizing''])
         else if blocked waivable_gap_codes \<and> \<not> risk_accepted input then
           Inl (invalid [''cannot finalize graph node `'', fz_node_id input, ''`: acceptance/evidence gaps: '',
                         debug_strings (codes_among waivable_gap_codes all_findings),
                         ''. Use --accepted-risk to waive''])
         else Inr st)"

definition finalize_event :: "finalize_graph_node_input \<Rightarrow> (string \<times> json) list \<Rightarrow> string \<times> (string \<times> json) list" where
  "finalize_event input payload =
     (if risk_accepted input
      then (''graph-node.finalized-with-accepted-risk'',
            obj_set ''acceptedRisk'' (JStr (case fz_accepted_risk input of None \<Rightarrow> [] | Some r \<Rightarrow> r)) payload)
      else (''graph-node.finalized'', payload))"

definition finalize_graph_node ::
    "environment \<Rightarrow> planning_store \<Rightarrow> finalize_graph_node_input
     \<Rightarrow> (planning_graph_node mutation_result \<times> planning_store) result" where
  "finalize_graph_node env st input =
     tryE (require_non_empty ''nodeId'' (fz_node_id input)) (\<lambda>_.
     tryE (require_non_empty ''correlationId'' (fz_correlation_id input)) (\<lambda>_.
     tryE (require_non_empty ''status'' (fz_status input)) (\<lambda>_.
     tryE (require_kebab_token ''status'' (fz_status input)) (\<lambda>_.
     tryE (ensure_entity_in_scope st EntityType_GraphNode (fz_node_id input)
             (normalized_scope_key (fz_active_scope_key input))) (\<lambda>_.
     tryE (load_graph_node st (fz_node_id input)) (\<lambda>node.
     tryE (finalize_gate env st node input) (\<lambda>st.
     tryE (now_string env st) (\<lambda>(now, st).
     let st = update_planning_node st (fz_node_id input) (\<lambda>r.
           r\<lparr>gn_status := trim (fz_status input), gn_revision := gn_revision r + 1, gn_updated_at := now\<rparr>) in
     tryE (load_graph_node st (fz_node_id input)) (\<lambda>record.
     let event = finalize_event input (status_payload (gn_status record) (gn_status node) (gn_revision record)) in
     tryE (log_event env st EntityType_GraphNode (gn_id record) EntityType_GraphNode (gn_id record)
             (fz_correlation_id input) (fz_run_id input) (fst event) (JObj (snd event))) (\<lambda>st.
     tryE (refresh_validation_target env st EntityType_GraphNode (gn_id record)) (\<lambda>(validation, st).
     Inr (\<lparr>mr_record = record, mr_validation = validation\<rparr>, st))))))))))))"

section \<open>Upserts\<close>

definition overwrite_node ::
    "create_graph_node_input \<Rightarrow> string \<Rightarrow> planning_graph_node \<Rightarrow> planning_graph_node" where
  "overwrite_node input now r =
     r\<lparr>gn_title := trim (cn_title input), gn_summary := trim (cn_summary input),
       gn_status := trim (cn_status input), gn_payload := cn_payload input,
       gn_tags := normalize_string_list (cn_tags input), gn_revision := gn_revision r + 1,
       gn_updated_at := now\<rparr>"

definition cross_scope_conflict :: "string \<Rightarrow> string \<Rightarrow> string \<Rightarrow> string \<Rightarrow> planning_store_error" where
  "cross_scope_conflict what i actual scope_key =
     invalid [''CROSS_SCOPE_CONFLICT: '', what, '' `'', i, ''` exists in scope `'', actual, ''`, not `'', scope_key, ''`'']"

text \<open>The three branches of \<open>upsert_graph_node\<close> that yield the id and whether the node is new.\<close>

definition upsert_node_row ::
    "environment \<Rightarrow> planning_store \<Rightarrow> create_graph_node_input \<Rightarrow> string \<Rightarrow> string
     \<Rightarrow> ((string \<times> bool) \<times> planning_store) result" where
  "upsert_node_row env st input scope_key now =
     (case Option.bind (cn_id input) (\<lambda>i. find_row gn_id i (planning_nodes st)) of
        Some node \<Rightarrow>
          if gn_scope_key node \<noteq> scope_key
          then Inl (cross_scope_conflict ''node'' (gn_id node) (gn_scope_key node) scope_key)
          else Inr ((gn_id node, False), update_planning_node st (gn_id node) (overwrite_node input now))
      | None \<Rightarrow>
          let (i, st) = id_or_new env st (cn_id input); record = node_of_input input i scope_key now in
          tryE (insert_planning_node st record) (\<lambda>st.
          tryE (log_event env st EntityType_GraphNode i EntityType_GraphNode i (cn_correlation_id input)
                  (cn_run_id input) ''graph-node.created'' (graph_node_json record)) (\<lambda>st.
          Inr ((i, True), st))))"

definition upsert_graph_node ::
    "environment \<Rightarrow> planning_store \<Rightarrow> create_graph_node_input
     \<Rightarrow> ((string \<times> bool) \<times> planning_store) result" where
  "upsert_graph_node env st input =
     tryE (require_non_empty ''correlationId'' (cn_correlation_id input)) (\<lambda>_.
     tryE (require_non_empty ''title'' (cn_title input)) (\<lambda>_.
     tryE (require_non_empty ''summary'' (cn_summary input)) (\<lambda>_.
     tryE (require_non_empty ''status'' (cn_status input)) (\<lambda>_.
     tryE (require_kebab_token ''status'' (cn_status input)) (\<lambda>_.
     let scope_key = normalized_scope_key (cn_scope_key input) in
     tryE (ensure_scope_exists st scope_key) (\<lambda>_.
     tryE (now_string env st) (\<lambda>(now, st).
     tryE (require_optional_id (cn_id input)) (\<lambda>_.
     tryE (upsert_node_row env st input scope_key now) (\<lambda>((i, created), st).
     let tags = (case find_row gn_id i (planning_nodes st) of None \<Rightarrow> [] | Some r \<Rightarrow> gn_tags r) in
     tryE (rebuild_tag_index_for_entity st EntityType_GraphNode i tags) (\<lambda>st.
     Inr ((i, created), st)))))))))))"

definition overwrite_edge ::
    "create_graph_edge_input \<Rightarrow> string \<Rightarrow> planning_graph_edge \<Rightarrow> planning_graph_edge" where
  "overwrite_edge input now r =
     r\<lparr>ge_kind := ce_kind input, ge_source_node_id := ce_source_node_id input,
       ge_target_node_id := ce_target_node_id input, ge_status := trim (ce_status input),
       ge_payload := ce_payload input, ge_revision := ge_revision r + 1, ge_updated_at := now\<rparr>"

definition matching_active_edge ::
    "planning_store \<Rightarrow> string \<Rightarrow> create_graph_edge_input \<Rightarrow> planning_graph_edge option" where
  "matching_active_edge st scope_key input =
     List.find (\<lambda>e. edge_key e = (scope_key, ce_kind input, ce_source_node_id input, ce_target_node_id input)
       \<and> ge_status e = ''active'') (planning_edges st)"

definition upsert_graph_edge ::
    "environment \<Rightarrow> planning_store \<Rightarrow> create_graph_edge_input
     \<Rightarrow> ((string \<times> bool) \<times> planning_store) result" where
  "upsert_graph_edge env st input =
     tryE (require_non_empty ''correlationId'' (ce_correlation_id input)) (\<lambda>_.
     tryE (require_non_empty ''source_node_id'' (ce_source_node_id input)) (\<lambda>_.
     tryE (require_non_empty ''target_node_id'' (ce_target_node_id input)) (\<lambda>_.
     tryE (require_non_empty ''status'' (ce_status input)) (\<lambda>_.
     tryE (require_kebab_token ''status'' (ce_status input)) (\<lambda>_.
     let scope_key = normalized_scope_key (ce_scope_key input) in
     tryE (ensure_scope_exists st scope_key) (\<lambda>_.
     tryE (end_node st ''sourceNodeId'' (ce_source_node_id input)) (\<lambda>_.
     tryE (end_node st ''targetNodeId'' (ce_target_node_id input)) (\<lambda>_.
     tryE (now_string env st) (\<lambda>(now, st).
     case ce_id input of
       Some explicit_id \<Rightarrow>
         tryE (require_non_empty ''id'' explicit_id) (\<lambda>_.
         case find_row ge_id explicit_id (planning_edges st) of
           Some edge \<Rightarrow>
             if ge_scope_key edge \<noteq> scope_key
             then Inl (cross_scope_conflict ''edge'' explicit_id (ge_scope_key edge) scope_key)
             else tryE (update_planning_edge st explicit_id (overwrite_edge input now)) (\<lambda>st.
               Inr ((explicit_id, False), st))
         | None \<Rightarrow>
             tryE (insert_planning_edge st (edge_of_input input explicit_id scope_key now)) (\<lambda>st.
               Inr ((explicit_id, True), st)))
     | None \<Rightarrow>
         (case matching_active_edge st scope_key input of
            Some edge \<Rightarrow> Inr ((ge_id edge, False), st)
          | None \<Rightarrow>
              let (i, st) = new_id env st in
              tryE (insert_planning_edge st (edge_of_input input i scope_key now)) (\<lambda>st.
                Inr ((i, True), st))))))))))))"

section \<open>Manifests\<close>

definition upsert_graph_node_in_tx ::
    "environment \<Rightarrow> planning_store \<Rightarrow> create_graph_node_input \<Rightarrow> string
     \<Rightarrow> ((string \<times> bool) \<times> planning_store) result" where
  "upsert_graph_node_in_tx env st input scope_key =
     tryE (now_string env st) (\<lambda>(now, st).
     case Option.bind (cn_id input) (\<lambda>i. find_row gn_id i (planning_nodes st)) of
       Some node \<Rightarrow>
         if gn_scope_key node \<noteq> scope_key
         then Inl (cross_scope_conflict ''node'' (gn_id node) (gn_scope_key node) scope_key)
         else Inr ((gn_id node, False), update_planning_node st (gn_id node) (overwrite_node input now))
     | None \<Rightarrow>
         let (i, st) = id_or_new env st (cn_id input) in
         tryE (insert_planning_node st (node_of_input input i scope_key now)) (\<lambda>st. Inr ((i, True), st)))"

definition upsert_graph_edge_in_tx ::
    "environment \<Rightarrow> planning_store \<Rightarrow> create_graph_edge_input \<Rightarrow> string
     \<Rightarrow> ((string \<times> bool) \<times> planning_store) result" where
  "upsert_graph_edge_in_tx env st input scope_key =
     (let s = ce_source_node_id input; t = ce_target_node_id input; kind = ce_kind input in
     tryE (require_non_empty ''source_node_id'' s) (\<lambda>_.
     tryE (require_non_empty ''target_node_id'' t) (\<lambda>_.
     tryE (require_kebab_token ''status'' (ce_status input)) (\<lambda>_.
     if s = t then
       Inl (invalid [''self-referential '', planning_edge_kind_as_str kind,
                     '' edge is not allowed: source and target must be different nodes''])
     else
     tryE (end_node st ''sourceNodeId'' s) (\<lambda>source.
     tryE (end_node st ''targetNodeId'' t) (\<lambda>target.
     if gn_scope_key source \<noteq> scope_key \<or> gn_scope_key target \<noteq> scope_key then
       Inl (invalid [''source and target nodes must belong to the same scope as the edge''])
     else
     tryE (validate_edge_kind_pair kind (gn_kind source) (gn_kind target)) (\<lambda>_.
     case Option.bind (ce_id input) (\<lambda>i. find_row ge_id i (planning_edges st)) of
       Some edge \<Rightarrow>
         if ge_scope_key edge \<noteq> scope_key
         then Inl (cross_scope_conflict ''edge'' (ge_id edge) (ge_scope_key edge) scope_key)
         else tryE (now_string env st) (\<lambda>(now, st).
           tryE (update_planning_edge st (ge_id edge) (overwrite_edge input now)) (\<lambda>st.
           Inr ((ge_id edge, False), st)))
     | None \<Rightarrow>
         (case matching_active_edge st scope_key input of
            Some edge \<Rightarrow> Inr ((ge_id edge, False), st)
          | None \<Rightarrow>
              let dup_count = length (filter (\<lambda>e. edge_key e = (scope_key, kind, s, t) \<and> ge_status e = ''active'')
                    (planning_edges st)) in
              if trim (ce_status input) = ''active'' \<and> dup_count > 0 then
                Inl (invalid [''duplicate active '', planning_edge_kind_as_str kind, '' edge from `'', s, ''` to `'', t,
                              ''` in scope `'', scope_key, ''`''])
              else if trim (ce_status input) = ''active'' \<and> acyclic_kind kind
                \<and> would_create_graph_cycle st s t kind then
                Inl (invalid [''adding this '', planning_edge_kind_as_str kind, '' edge from `'', s, ''` to `'', t,
                              ''` would create a cycle''])
              else
              let (i, st) = id_or_new env st (ce_id input) in
              tryE (now_string env st) (\<lambda>(now, st).
              tryE (insert_planning_edge st (edge_of_input input i scope_key now)) (\<lambda>st.
              Inr ((i, True), st)))))))))))"

record parsed_manifest =
  pm_scope :: string
  pm_nodes :: "create_graph_node_input list"
  pm_edges :: "create_graph_edge_input list"

text \<open>A conflict keeps the error itself; the source stores its text.\<close>

record manifest_conflict =
  mc_entity_type :: string
  mc_entity_id :: string
  mc_reason :: planning_store_error

record manifest_apply_result =
  ma_created_nodes :: "string list"
  ma_revised_nodes :: "string list"
  ma_unchanged_nodes :: "string list"
  ma_created_edges :: "string list"
  ma_revised_edges :: "string list"
  ma_unchanged_edges :: "string list"
  ma_conflicts :: "manifest_conflict list"
  ma_validation :: "validation_report option"
  ma_total_nodes :: nat
  ma_total_edges :: nat

definition empty_apply_result :: "parsed_manifest \<Rightarrow> manifest_apply_result" where
  "empty_apply_result parsed =
     \<lparr>ma_created_nodes = [], ma_revised_nodes = [], ma_unchanged_nodes = [], ma_created_edges = [],
      ma_revised_edges = [], ma_unchanged_edges = [], ma_conflicts = [], ma_validation = None,
      ma_total_nodes = length (pm_nodes parsed), ma_total_edges = length (pm_edges parsed)\<rparr>"

definition auto_id :: "string option \<Rightarrow> string" where
  "auto_id given = (case given of None \<Rightarrow> ''auto'' | Some i \<Rightarrow> i)"

text \<open>
  A failed statement leaves the tables as they were; the readings of the clock and of the UUID
  source it made (two at most) are skipped.
\<close>

definition after_conflict :: "planning_store \<Rightarrow> planning_store" where
  "after_conflict st = st\<lparr>tick := tick st + 2\<rparr>"

definition apply_manifest_node ::
    "environment \<Rightarrow> string \<Rightarrow> manifest_apply_result \<times> planning_store \<Rightarrow> create_graph_node_input
     \<Rightarrow> (manifest_apply_result \<times> planning_store) result" where
  "apply_manifest_node env scope_key acc input = (case acc of (res, st) \<Rightarrow>
     (case upsert_graph_node_in_tx env st input scope_key of
        Inr ((i, True), st) \<Rightarrow> Inr (res\<lparr>ma_created_nodes := ma_created_nodes res @ [i]\<rparr>, st)
      | Inr ((i, False), st) \<Rightarrow>
          tryE (load_graph_node st i) (\<lambda>existing.
          if gn_title existing = trim (cn_title input) \<and> gn_summary existing = trim (cn_summary input)
             \<and> gn_status existing = trim (cn_status input)
          then Inr (res\<lparr>ma_unchanged_nodes := ma_unchanged_nodes res @ [i]\<rparr>, st)
          else Inr (res\<lparr>ma_revised_nodes := ma_revised_nodes res @ [i]\<rparr>, st))
      | Inl e \<Rightarrow> Inr (res\<lparr>ma_conflicts := ma_conflicts res @
          [\<lparr>mc_entity_type = ''node'', mc_entity_id = auto_id (cn_id input), mc_reason = e\<rparr>]\<rparr>, after_conflict st)))"

definition apply_manifest_edge ::
    "environment \<Rightarrow> string \<Rightarrow> manifest_apply_result \<times> planning_store \<Rightarrow> create_graph_edge_input
     \<Rightarrow> (manifest_apply_result \<times> planning_store) result" where
  "apply_manifest_edge env scope_key acc input = (case acc of (res, st) \<Rightarrow>
     (case upsert_graph_edge_in_tx env st input scope_key of
        Inr ((i, True), st) \<Rightarrow> Inr (res\<lparr>ma_created_edges := ma_created_edges res @ [i]\<rparr>, st)
      | Inr ((i, False), st) \<Rightarrow> Inr (res\<lparr>ma_unchanged_edges := ma_unchanged_edges res @ [i]\<rparr>, st)
      | Inl e \<Rightarrow> Inr (res\<lparr>ma_conflicts := ma_conflicts res @
          [\<lparr>mc_entity_type = ''edge'', mc_entity_id = auto_id (ce_id input), mc_reason = e\<rparr>]\<rparr>, after_conflict st)))"

definition apply_manifest ::
    "environment \<Rightarrow> planning_store \<Rightarrow> parsed_manifest \<Rightarrow> bool
     \<Rightarrow> (manifest_apply_result \<times> planning_store) result" where
  "apply_manifest env st\<^sub>0 parsed dry_run =
     (let scope_key = normalize_scope_key_value (pm_scope parsed) in
      tryE (ensure_scope_exists st\<^sub>0 scope_key) (\<lambda>_.
      tryE (foldE (apply_manifest_node env scope_key) (empty_apply_result parsed, st\<^sub>0) (pm_nodes parsed)) (\<lambda>acc.
      tryE (foldE (apply_manifest_edge env scope_key) acc (pm_edges parsed)) (\<lambda>(res, st).
      Inr (res, if dry_run then st\<^sub>0\<lparr>tick := tick st\<rparr> else st)))))"

section \<open>Bulk status changes\<close>

fun split_str_acc :: "string \<Rightarrow> string \<Rightarrow> string \<Rightarrow> string list" where
  "split_str_acc sep acc [] = [rev acc]"
| "split_str_acc sep acc (c # cs) =
     (if starts_with (c # cs) sep then rev acc # split_str_acc sep [] (drop (length sep - 1) cs)
      else split_str_acc sep (c # acc) cs)"

definition split_once :: "char \<Rightarrow> string \<Rightarrow> (string \<times> string) option" where
  "split_once c s =
     (case dropWhile (\<lambda>d. d \<noteq> c) s of
        [] \<Rightarrow> None
      | _ # rest \<Rightarrow> Some (takeWhile (\<lambda>d. d \<noteq> c) s, rest))"

text \<open>The conditions of \<open>parse_graph_node_filter\<close>: a column and the bound parameter.\<close>

definition parse_graph_node_filter :: "string \<Rightarrow> (string \<times> string) list" where
  "parse_graph_node_filter flt =
     List.map_filter (\<lambda>part.
       case split_once (CHR ''='') part of
         None \<Rightarrow> None
       | Some (k, v) \<Rightarrow>
           let key = trim k; val = trim v in
           if key \<in> {''kind'', ''status'', ''title''} then Some (key, val)
           else if key = ''tag'' then Some (''tag'', ''%'' @ [CHR 0x22] @ val @ [CHR 0x22] @ ''%'')
           else None)
       (map trim (split_str_acc ''AND'' [] flt))"

fun sql_like :: "string \<Rightarrow> string \<Rightarrow> bool" where
  "sql_like [] text = (text = [])"
| "sql_like (p # ps) [] = (p = CHR ''%'' \<and> sql_like ps [])"
| "sql_like (p # ps) (c # cs) =
     (if p = CHR ''%'' then sql_like ps (c # cs) \<or> sql_like (p # ps) cs
      else (p = CHR ''_'' \<or> to_ascii_lowercase [p] = to_ascii_lowercase [c]) \<and> sql_like ps cs)"

definition json_escape_char :: "char \<Rightarrow> string" where
  "json_escape_char c =
     (let n = of_char c :: nat; bs = CHR 0x5C; hex = (\<lambda>d. if d < 10 then char_of (48 + d) else char_of (87 + d :: nat)) in
      if c = CHR 0x22 \<or> c = bs then [bs, c]
      else if n = 8 then bs # ''b'' else if n = 9 then bs # ''t'' else if n = 10 then bs # ''n''
      else if n = 12 then bs # ''f'' else if n = 13 then bs # ''r''
      else if n < 32 then bs # ''u00'' @ [hex (n div 16), hex (n mod 16)]
      else [c])"

definition tags_json_text :: "string list \<Rightarrow> string" where
  "tags_json_text tags =
     ''['' @ join '','' (map (\<lambda>t. [CHR 0x22] @ concat (map json_escape_char t) @ [CHR 0x22]) tags) @ '']''"

fun condition_holds :: "planning_graph_node \<Rightarrow> string \<times> string \<Rightarrow> bool" where
  "condition_holds r (key, val) =
     (if key = ''kind'' then planning_node_kind_as_str (gn_kind r) = val
      else if key = ''status'' then gn_status r = val
      else if key = ''title'' then gn_title r = val
      else sql_like val (tags_json_text (gn_tags r)))"

record bulk_transition_input =
  bt_scope_key :: string
  bt_node_ids :: "string list option"
  bt_filter :: "string option"
  bt_status :: string
  bt_correlation_id :: string
  bt_run_id :: "string option"

record bulk_transition_result =
  br_transitioned :: "string list"
  br_rejected :: "(string \<times> string) list"
  br_total_matched :: nat
  br_total_transitioned :: nat

definition bulk_node_ids :: "planning_store \<Rightarrow> bulk_transition_input \<Rightarrow> string list result" where
  "bulk_node_ids st input =
     (case bt_node_ids input of
        Some ids \<Rightarrow> Inr ids
      | None \<Rightarrow>
          (case bt_filter input of
             Some flt \<Rightarrow>
               let normalized = normalize_scope_key_value (bt_scope_key input) in
               Inr (sort (map gn_id (filter (\<lambda>r. gn_scope_key r = normalized
                 \<and> list_all (condition_holds r) (parse_graph_node_filter flt)) (planning_nodes st))))
           | None \<Rightarrow> Inl (invalid [''either --node-ids or --filter is required''])))"

definition bulk_rejection :: "planning_store \<Rightarrow> string \<Rightarrow> string \<Rightarrow> (string \<times> string) option" where
  "bulk_rejection st normalized i =
     (case load_graph_node st i of
        Inl _ \<Rightarrow> Some (i, ''node not found'')
      | Inr node \<Rightarrow>
          if gn_scope_key node \<noteq> normalized
          then Some (i, format [''node in scope `'', gn_scope_key node, ''`, not `'', normalized, ''`''])
          else None)"

definition bulk_update_graph_node_status ::
    "environment \<Rightarrow> planning_store \<Rightarrow> bulk_transition_input
     \<Rightarrow> (bulk_transition_result \<times> planning_store) result" where
  "bulk_update_graph_node_status env st input =
     (let normalized = normalize_scope_key_value (bt_scope_key input) in
      tryE (now_string env st) (\<lambda>(now, st).
      tryE (bulk_node_ids st input) (\<lambda>node_ids.
      if node_ids = [] then
        Inr (\<lparr>br_transitioned = [], br_rejected = [], br_total_matched = 0, br_total_transitioned = 0\<rparr>, st)
      else
      let rejected = List.map_filter (bulk_rejection st normalized) node_ids;
          transitioned = filter (\<lambda>i. i \<notin> fst ` set rejected) node_ids;
          st = fold (\<lambda>i st. update_planning_node st i (\<lambda>r.
             r\<lparr>gn_status := bt_status input, gn_revision := gn_revision r + 1, gn_updated_at := now\<rparr>))
             transitioned st in
      Inr (\<lparr>br_transitioned = transitioned, br_rejected = rejected, br_total_matched = length node_ids,
            br_total_transitioned = length transitioned\<rparr>, st))))"

end
