(* ===== verification/GraphInvariant.thy ===== *)
theory GraphInvariant
  imports GraphStore
begin

text \<open>
  The checked operations of the graph keep \<open>graph_inv\<close>. The lemmas on the four statements carry the
  proofs: what an insert or an update may assume and what it keeps. \<open>graph_step\<close> is the step relation
  of the graph under its checked operations; its reachable states satisfy the invariant, so by
  \<open>graph_inv_iff_clean\<close> their validators never report a structural finding. The manifest path
  keeps everything but acyclicity.
\<close>

lemma edge_ok_cong:
  "planning_nodes st' = planning_nodes st \<Longrightarrow> edge_ok st' e = edge_ok st e"
  by (simp add: edge_ok_def)

lemma edge_ok_iff:
  "edge_ok st e \<longleftrightarrow> (\<exists>s t. find_row gn_id (ge_source_node_id e) (planning_nodes st) = Some s
     \<and> find_row gn_id (ge_target_node_id e) (planning_nodes st) = Some t
     \<and> gn_scope_key s = ge_scope_key e \<and> gn_scope_key t = ge_scope_key e
     \<and> ge_source_node_id e \<noteq> ge_target_node_id e
     \<and> is_ok (validate_edge_kind_pair (ge_kind e) (gn_kind s) (gn_kind t)))"
  unfolding edge_ok_def
  by (cases "find_row gn_id (ge_source_node_id e) (planning_nodes st)";
      cases "find_row gn_id (ge_target_node_id e) (planning_nodes st)") simp_all

text \<open>A node table in which every row is found again with its scope and kind keeps the edges good.\<close>

lemma edge_ok_mono:
  assumes "edge_ok st e"
    and "\<And>i n. find_row gn_id i (planning_nodes st) = Some n \<Longrightarrow>
      \<exists>n'. find_row gn_id i (planning_nodes st') = Some n' \<and> gn_scope_key n' = gn_scope_key n \<and> gn_kind n' = gn_kind n"
  shows "edge_ok st' e"
proof -
  from assms(1) obtain s t where ends: "find_row gn_id (ge_source_node_id e) (planning_nodes st) = Some s"
    "find_row gn_id (ge_target_node_id e) (planning_nodes st) = Some t"
    and ok: "gn_scope_key s = ge_scope_key e" "gn_scope_key t = ge_scope_key e"
      "ge_source_node_id e \<noteq> ge_target_node_id e"
      "is_ok (validate_edge_kind_pair (ge_kind e) (gn_kind s) (gn_kind t))"
    unfolding edge_ok_iff by blast
  from assms(2) [OF ends(1)] assms(2) [OF ends(2)] ok show ?thesis unfolding edge_ok_iff by force
qed

lemma edge_pairs_cong: "planning_edges st' = planning_edges st \<Longrightarrow> edge_pairs st' = edge_pairs st"
  by (rule ext) (simp add: edge_pairs_def)

lemma cycle_cong:
  "planning_edges st' = planning_edges st \<Longrightarrow> would_create_graph_cycle st' = would_create_graph_cycle st"
  unfolding would_create_graph_cycle_def [abs_def] walk_graph_edges_def [abs_def]
  by (drule edge_pairs_cong) simp

lemma graph_tick [simp]:
  "graph_inv (st\<lparr>tick := n\<rparr>) = graph_inv st"
  "edge_ok (st\<lparr>tick := n\<rparr>) e = edge_ok st e"
  "would_create_graph_cycle (st\<lparr>tick := n\<rparr>) = would_create_graph_cycle st"
  "load_graph_node (st\<lparr>tick := n\<rparr>) i = load_graph_node st i"
  "load_graph_edge (st\<lparr>tick := n\<rparr>) i = load_graph_edge st i"
  subgoal by (rule graph_inv_cong) simp_all
  subgoal by (rule edge_ok_cong) simp
  subgoal by (rule cycle_cong) simp
  by (simp_all add: load_graph_node_def load_graph_edge_def)

lemma end_node_Inr [simp]: "end_node st f i = Inr n \<longleftrightarrow> find_row gn_id i (planning_nodes st) = Some n"
  by (simp add: end_node_def load_graph_node_def)

lemma load_graph_node_Inr [simp]: "load_graph_node st i = Inr n \<longleftrightarrow> find_row gn_id i (planning_nodes st) = Some n"
  by (simp add: load_graph_node_def)

lemma load_graph_edge_Inr [simp]: "load_graph_edge st i = Inr e \<longleftrightarrow> find_row ge_id i (planning_edges st) = Some e"
  by (simp add: load_graph_edge_def)

section \<open>Statements\<close>

lemma insert_planning_node_Inr:
  "insert_planning_node st r = Inr st' \<longleftrightarrow>
     find_row gn_id (gn_id r) (planning_nodes st) = None
     \<and> find_row sc_scope_key (gn_scope_key r) (scopes st) \<noteq> None
     \<and> st' = st\<lparr>planning_nodes := planning_nodes st @ [r]\<rparr>"
  by (auto simp: insert_planning_node_def)

lemma edge_row_ok_Inr:
  "edge_row_ok st x r = Inr u \<longleftrightarrow>
     \<not> (ge_status r = ''active'' \<and> active_duplicate st x r)
     \<and> find_row sc_scope_key (ge_scope_key r) (scopes st) \<noteq> None
     \<and> find_row gn_id (ge_source_node_id r) (planning_nodes st) \<noteq> None
     \<and> find_row gn_id (ge_target_node_id r) (planning_nodes st) \<noteq> None"
  by (auto simp: edge_row_ok_def)

text \<open>A change of the node table alone: no edge loses its end points, keys stay distinct.\<close>

definition nodes_extend :: "planning_store \<Rightarrow> planning_store \<Rightarrow> bool" where
  "nodes_extend st st' \<longleftrightarrow> planning_edges st' = planning_edges st
     \<and> (distinct (map gn_id (planning_nodes st)) \<longrightarrow> distinct (map gn_id (planning_nodes st')))
     \<and> (\<forall>e. edge_ok st e \<longrightarrow> edge_ok st' e)"

lemma nodes_extend_inv: "nodes_extend st st' \<Longrightarrow> graph_inv st \<Longrightarrow> graph_inv st'"
  by (simp add: nodes_extend_def graph_inv_def graph_keys_def list_all_iff active_keys_def edge_pairs_def)

lemma insert_node_extend:
  assumes "insert_planning_node st r = Inr st'"
  shows "nodes_extend st st'"
proof -
  from assms have fresh: "find_row gn_id (gn_id r) (planning_nodes st) = None"
    and st': "st' = st\<lparr>planning_nodes := planning_nodes st @ [r]\<rparr>"
    by (simp_all add: insert_planning_node_Inr)
  have "edge_ok st' e" if "edge_ok st e" for e
    using that by (rule edge_ok_mono) (simp add: st' find_row_append)
  with fresh show ?thesis by (auto simp: nodes_extend_def st' find_row_None_iff)
qed

lemmas insert_node_inv = nodes_extend_inv [OF insert_node_extend]

definition keeps_identity :: "(planning_graph_node \<Rightarrow> planning_graph_node) \<Rightarrow> bool" where
  "keeps_identity f \<longleftrightarrow> (\<forall>r. gn_id (f r) = gn_id r \<and> gn_scope_key (f r) = gn_scope_key r \<and> gn_kind (f r) = gn_kind r)"

lemma update_node_extend:
  assumes f: "keeps_identity f"
  shows "nodes_extend st (update_planning_node st i f)"
proof -
  from f have id: "\<And>r. gn_id (f r) = gn_id r" by (simp add: keeps_identity_def)
  have "edge_ok (update_planning_node st i f) e" if "edge_ok st e" for e
    using that
    by (rule edge_ok_mono)
      (use f in \<open>simp add: update_planning_node_def find_row_update_where [where key = gn_id and f = f, OF id] keeps_identity_def\<close>)
  then show ?thesis using id by (simp add: nodes_extend_def update_planning_node_def)
qed

lemmas update_node_inv = nodes_extend_inv [OF update_node_extend]

definition no_new_cycle :: "planning_store \<Rightarrow> planning_graph_edge \<Rightarrow> bool" where
  "no_new_cycle st r \<longleftrightarrow>
     (ge_status r = ''active'' \<longrightarrow> acyclic_kind (ge_kind r) \<longrightarrow>
        \<not> would_create_graph_cycle st (ge_source_node_id r) (ge_target_node_id r) (ge_kind r))"

text \<open>An edge table that grew by one checked row keeps its acyclic kinds acyclic.\<close>

lemma acyclic_grow:
  assumes "acyclic (set (edge_pairs st k))" "no_new_cycle st r" "acyclic_kind k"
    and "set (edge_pairs st' k) \<subseteq> set (edge_pairs st k) \<union>
           (if ge_kind r = k \<and> ge_status r = ''active'' then {(ge_source_node_id r, ge_target_node_id r)} else {})"
  shows "acyclic (set (edge_pairs st' k))"
proof (cases "ge_kind r = k \<and> ge_status r = ''active''")
  case True
  with assms have "acyclic (insert (ge_source_node_id r, ge_target_node_id r) (set (edge_pairs st k)))"
    by (intro graph_guard.insert_acyclic) (auto simp: no_new_cycle_def)
  moreover have "set (edge_pairs st' k) \<subseteq> insert (ge_source_node_id r, ge_target_node_id r) (set (edge_pairs st k))"
    using assms(4) True by simp
  ultimately show ?thesis by (rule acyclic_subset)
next
  case False
  then have "set (edge_pairs st' k) \<subseteq> set (edge_pairs st k)" using assms(4) by auto
  with assms(1) show ?thesis by (rule acyclic_subset)
qed

text \<open>The invariant without acyclicity.\<close>

definition graph_shape :: "planning_store \<Rightarrow> bool" where
  "graph_shape st \<longleftrightarrow> graph_keys st \<and> list_all (edge_ok st) (planning_edges st) \<and> distinct (active_keys st)"

lemma graph_inv_shape:
  "graph_inv st \<longleftrightarrow> graph_shape st \<and> (\<forall>k. acyclic_kind k \<longrightarrow> acyclic (set (edge_pairs st k)))"
  by (auto simp: graph_inv_def graph_shape_def)

lemma graph_shape_cong:
  assumes "planning_nodes st' = planning_nodes st" "planning_edges st' = planning_edges st"
  shows "graph_shape st' = graph_shape st"
proof -
  have "edge_ok st' = edge_ok st" by (rule ext) (simp add: edge_ok_def assms)
  then show ?thesis using assms by (simp add: graph_shape_def graph_keys_def active_keys_def)
qed

lemma nodes_extend_shape: "nodes_extend st st' \<Longrightarrow> graph_shape st \<Longrightarrow> graph_shape st'"
  by (simp add: nodes_extend_def graph_shape_def graph_keys_def list_all_iff active_keys_def)

lemma insert_planning_edge_Inr:
  "insert_planning_edge st r = Inr st' \<longleftrightarrow>
     find_row ge_id (ge_id r) (planning_edges st) = None \<and> edge_row_ok st None r = Inr ()
     \<and> st' = st\<lparr>planning_edges := planning_edges st @ [r]\<rparr>"
  by (auto simp: insert_planning_edge_def)

lemma insert_edge_shape:
  assumes ins: "insert_planning_edge st r = Inr st'" and inv: "graph_shape st" and ok: "edge_ok st r"
  shows "graph_shape st'"
proof -
  from ins have fresh: "find_row ge_id (ge_id r) (planning_edges st) = None"
    and dup: "ge_status r = ''active'' \<longrightarrow> \<not> active_duplicate st None r"
    and st': "st' = st\<lparr>planning_edges := planning_edges st @ [r]\<rparr>"
    by (auto simp: insert_planning_edge_Inr edge_row_ok_Inr)
  have "edge_ok st' e = edge_ok st e" for e by (rule edge_ok_cong) (simp add: st')
  with inv ok have "list_all (edge_ok st') (planning_edges st')" by (simp add: graph_shape_def st' list_all_iff)
  moreover have "graph_keys st'"
    using inv fresh by (auto simp: graph_shape_def graph_keys_def st' find_row_None_iff)
  moreover have "distinct (active_keys st')"
    using inv dup by (auto simp: graph_shape_def st' active_keys_def active_duplicate_def list_ex_iff)
  ultimately show ?thesis by (simp add: graph_shape_def)
qed

lemma insert_edge_inv:
  assumes ins: "insert_planning_edge st r = Inr st'" and inv: "graph_inv st"
    and ok: "edge_ok st r" and cyc: "no_new_cycle st r"
  shows "graph_inv st'"
proof -
  from inv have acy: "\<And>k. acyclic_kind k \<Longrightarrow> acyclic (set (edge_pairs st k))" by (auto simp: graph_inv_def)
  have "graph_shape st'" using insert_edge_shape [OF ins _ ok] inv by (simp add: graph_inv_shape)
  moreover have "acyclic (set (edge_pairs st' k))" if "acyclic_kind k" for k
    by (rule acyclic_grow [OF acy [OF that] cyc that]) (use ins in \<open>auto simp: insert_planning_edge_Inr edge_pairs_def\<close>)
  ultimately show ?thesis by (simp add: graph_inv_shape)
qed

definition keeps_edge_key :: "(planning_graph_edge \<Rightarrow> planning_graph_edge) \<Rightarrow> bool" where
  "keeps_edge_key f \<longleftrightarrow> (\<forall>r. ge_id (f r) = ge_id r \<and> edge_key (f r) = edge_key r)"

text \<open>
  An update that keeps the key of the edge: the row stays good, uniqueness follows from the index,
  and a row that becomes active has passed the cycle check.
\<close>

lemma keeps_edge_key_fields:
  assumes "keeps_edge_key f"
  shows "ge_id (f r) = ge_id r" "ge_scope_key (f r) = ge_scope_key r" "ge_kind (f r) = ge_kind r"
    "ge_source_node_id (f r) = ge_source_node_id r" "ge_target_node_id (f r) = ge_target_node_id r"
    "edge_key (f r) = edge_key r"
  using assms by (simp_all add: keeps_edge_key_def edge_key_def)

lemma keeps_edge_key_ok: "keeps_edge_key f \<Longrightarrow> edge_ok st (f r) = edge_ok st r"
  by (simp add: edge_ok_iff keeps_edge_key_fields)

lemma update_edge_unique:
  assumes keys: "graph_keys st" and dist: "distinct (active_keys st)" and f: "\<And>r. ge_id (f r) = ge_id r"
    and old: "find_row ge_id i (planning_edges st) = Some old"
    and dup: "ge_status (f old) = ''active'' \<longrightarrow> \<not> active_duplicate st (Some i) (f old)"
    and st': "st' = st\<lparr>planning_edges := update_where (\<lambda>e. ge_id e = i) f (planning_edges st)\<rparr>"
  shows "graph_keys st' \<and> distinct (active_keys st')"
proof -
  have keys': "graph_keys st'" using keys f by (simp add: graph_keys_def st')
  have only: "e = old" if "e \<in> set (planning_edges st)" "ge_id e = i" for e
    using find_row_distinct [of ge_id "planning_edges st" e] keys old that by (simp add: graph_keys_def)
  have other: "edge_key e \<noteq> edge_key (f old)"
    if "e \<in> set (planning_edges st)" "ge_id e \<noteq> i" "ge_status e = ''active''" "ge_status (f old) = ''active''" for e
    using dup that by (auto simp: active_duplicate_def list_ex_iff)
  have row: "e' \<in> set (planning_edges st) \<and> ge_id e' \<noteq> i \<or> e' = f old" if "e' \<in> set (planning_edges st')" for e'
    using that only by (auto simp: st' set_update_where)
  have "ge_id e2 = ge_id e1"
    if "e1 \<in> set (planning_edges st')" "e2 \<in> set (planning_edges st')"
      "ge_status e1 = ''active''" "ge_status e2 = ''active''" "edge_key e2 = edge_key e1" for e1 e2
  proof (cases "e1 = f old"; cases "e2 = f old")
    assume "e1 \<noteq> f old" "e2 \<noteq> f old"
    with row that have "e1 \<in> set (planning_edges st)" "e2 \<in> set (planning_edges st)" by blast+
    with that dist show ?thesis unfolding distinct_active_keys_iff [OF keys] by blast
  qed (use row [OF that(1)] row [OF that(2)] other that(3,4,5) in auto)
  then have "distinct (active_keys st')" 
    unfolding distinct_active_keys_iff [OF keys'] by blast
  with keys' show ?thesis by simp
qed

lemma update_edge_shape:
  assumes upd: "update_planning_edge st i f = Inr st'" and inv: "graph_shape st" and f: "\<And>r. ge_id (f r) = ge_id r"
    and old: "find_row ge_id i (planning_edges st) = Some old" and ok: "edge_ok st (f old)"
  shows "graph_shape st'"
proof -
  from upd old have dup: "ge_status (f old) = ''active'' \<longrightarrow> \<not> active_duplicate st (Some i) (f old)"
    and st': "st' = st\<lparr>planning_edges := update_where (\<lambda>e. ge_id e = i) f (planning_edges st)\<rparr>"
    by (auto simp: update_planning_edge_def edge_row_ok_Inr)
  from inv have parts: "graph_keys st" "distinct (active_keys st)" by (auto simp: graph_shape_def)
  have only: "e = old" if "e \<in> set (planning_edges st)" "ge_id e = i" for e
    using find_row_distinct [of ge_id "planning_edges st" e] parts(1) old that by (simp add: graph_keys_def)
  have eq: "edge_ok st' e = edge_ok st e" for e by (rule edge_ok_cong) (simp add: st')
  have "edge_ok st e" if "e \<in> set (planning_edges st')" for e
    using that only ok inv by (auto simp: st' set_update_where graph_shape_def list_all_iff)
  then have "list_all (edge_ok st') (planning_edges st')" unfolding list_all_iff eq by blast
  with update_edge_unique [OF parts f old dup st'] show ?thesis by (simp add: graph_shape_def)
qed

lemma update_edge_inv:
  assumes upd: "update_planning_edge st i f = Inr st'" and inv: "graph_inv st" and f: "keeps_edge_key f"
    and old: "find_row ge_id i (planning_edges st) = Some old" and cyc: "no_new_cycle st (f old)"
  shows "graph_inv st'"
proof -
  from upd old have
    st': "st' = st\<lparr>planning_edges := update_where (\<lambda>e. ge_id e = i) f (planning_edges st)\<rparr>"
    by (auto simp: update_planning_edge_def)
  from inv have parts: "graph_keys st"
    and acy: "\<And>k. acyclic_kind k \<Longrightarrow> acyclic (set (edge_pairs st k))" by (auto simp: graph_inv_def)
  have only: "e = old" if "e \<in> set (planning_edges st)" "ge_id e = i" for e
    using find_row_distinct [of ge_id "planning_edges st" e] parts old that by (simp add: graph_keys_def)
  have "edge_ok st (f old)"
    using inv find_row_SomeD [OF old] by (simp add: graph_inv_def list_all_iff keeps_edge_key_ok [OF f])
  with inv have "graph_shape st'"
    by (intro update_edge_shape [OF upd _ keeps_edge_key_fields(1) [OF f] old]) (simp_all add: graph_inv_shape)
  moreover have "acyclic (set (edge_pairs st' k))" if "acyclic_kind k" for k
  proof (rule acyclic_grow [OF acy [OF that] cyc that], rule subrelI)
    fix s t assume "(s, t) \<in> set (edge_pairs st' k)"
    then obtain e where e: "e \<in> set (planning_edges st)"
      and st: "ge_kind (if ge_id e = i then f e else e) = k" "ge_status (if ge_id e = i then f e else e) = ''active''"
        "ge_source_node_id e = s" "ge_target_node_id e = t"
      by (auto simp: set_edge_pairs st' set_update_where keeps_edge_key_fields [OF f] split: if_splits)
    show "(s, t) \<in> set (edge_pairs st k) \<union>
        (if ge_kind (f old) = k \<and> ge_status (f old) = ''active'' then {(ge_source_node_id (f old), ge_target_node_id (f old))} else {})"
    proof (cases "ge_id e = i")
      case True
      with only [OF e] st show ?thesis by (auto simp: keeps_edge_key_fields [OF f])
    next
      case False
      with e st show ?thesis by (auto simp: set_edge_pairs)
    qed
  qed
  ultimately show ?thesis by (simp add: graph_inv_shape)
qed

section \<open>Operations\<close>

lemma create_graph_node_effect:
  assumes "create_graph_node env st input = Inr (res, st')"
  obtains now n m st1 where
    "mr_record res = node_of_input input (chosen_id env m (cn_id input)) (normalized_scope_key (cn_scope_key input)) now"
    "insert_planning_node (st\<lparr>tick := n\<rparr>) (mr_record res) = Inr st1" "core st' = core st1"
  using assms unfolding create_graph_node_def Let_def
  by (auto simp: readings dest!: log_event_core rebuild_tag_index_core)

lemma create_graph_edge_effect:
  assumes "create_graph_edge env st input = Inr (res, st')"
  obtains now n m st1 where
    "mr_record res = edge_of_input input (chosen_id env m (ce_id input)) (normalized_scope_key (ce_scope_key input)) now"
    "insert_planning_edge (st\<lparr>tick := n\<rparr>) (mr_record res) = Inr st1" "core st' = core st1"
    "edge_ok st (mr_record res)" "no_new_cycle st (mr_record res)"
proof -
  obtain now n m st1 src tgt where
    r: "mr_record res = edge_of_input input (chosen_id env m (ce_id input)) (normalized_scope_key (ce_scope_key input)) now"
    and ins: "insert_planning_edge (st\<lparr>tick := n\<rparr>) (mr_record res) = Inr st1" and core: "core st' = core st1"
    and ends: "find_row gn_id (ce_source_node_id input) (planning_nodes st) = Some src"
      "find_row gn_id (ce_target_node_id input) (planning_nodes st) = Some tgt"
      "gn_scope_key src = normalized_scope_key (ce_scope_key input)"
      "gn_scope_key tgt = normalized_scope_key (ce_scope_key input)"
      "ce_source_node_id input \<noteq> ce_target_node_id input"
      "validate_edge_kind_pair (ce_kind input) (gn_kind src) (gn_kind tgt) = Inr ()"
    and cyc: "\<not> (trim (ce_status input) = ''active'' \<and> acyclic_kind (ce_kind input)
      \<and> would_create_graph_cycle st (ce_source_node_id input) (ce_target_node_id input) (ce_kind input))"
    using assms unfolding create_graph_edge_def Let_def
    by (auto simp: readings dest!: log_event_core split: if_splits)
  have "edge_ok st (mr_record res)" unfolding edge_ok_iff r using ends by (simp add: edge_of_input_def is_ok_iff)
  moreover have "no_new_cycle st (mr_record res)" using cyc by (simp add: no_new_cycle_def r edge_of_input_def)
  ultimately show thesis using that r ins core by blast
qed

lemma create_graph_node_inv:
  assumes "create_graph_node env st input = Inr (res, st')" "graph_inv st"
  shows "graph_inv st'"
proof -
  from assms(1) obtain n st1 where
    ins: "insert_planning_node (st\<lparr>tick := n\<rparr>) (mr_record res) = Inr st1" and core: "core st' = core st1"
    by (rule create_graph_node_effect) (rule that)
  from insert_node_inv [OF ins] assms(2) have "graph_inv st1" by simp
  with graph_inv_core [OF core] show ?thesis by simp
qed

lemma create_graph_edge_inv:
  assumes "create_graph_edge env st input = Inr (res, st')" "graph_inv st"
  shows "graph_inv st'"
proof -
  from assms(1) obtain n st1 where
    "insert_planning_edge (st\<lparr>tick := n\<rparr>) (mr_record res) = Inr st1" "core st' = core st1"
    "edge_ok st (mr_record res)" "no_new_cycle st (mr_record res)"
    by (rule create_graph_edge_effect) (rule that)
  with assms(2) have "graph_inv st1" by - (rule insert_edge_inv [of "st\<lparr>tick := n\<rparr>"], simp_all add: no_new_cycle_def)
  with graph_inv_core [OF \<open>core st' = core st1\<close>] show ?thesis by simp
qed

lemma create_acceptance_inv:
  "create_acceptance env st input = Inr (res, st') \<Longrightarrow> graph_inv st \<Longrightarrow> graph_inv st'"
  unfolding create_acceptance_def Let_def by (auto intro: create_graph_node_inv)

lemma create_evidence_inv:
  "create_evidence env st input = Inr (res, st') \<Longrightarrow> graph_inv st \<Longrightarrow> graph_inv st'"
  unfolding create_evidence_def Let_def by (auto intro: create_graph_node_inv)

lemma satisfy_acceptance_inv:
  "satisfy_acceptance env st input = Inr (res, st') \<Longrightarrow> graph_inv st \<Longrightarrow> graph_inv st'"
  unfolding satisfy_acceptance_def by (auto intro: create_graph_edge_inv)

lemma attach_evidence_inv:
  "attach_evidence env st input = Inr (res, st') \<Longrightarrow> graph_inv st \<Longrightarrow> graph_inv st'"
  unfolding attach_evidence_def by (auto intro: create_graph_edge_inv)

text \<open>The four operations that rewrite one row in place.\<close>

lemma node_rewrite_inv:
  assumes "core st' = core (update_planning_node (st\<lparr>tick := n\<rparr>) i f)" "keeps_identity f" "graph_inv st"
  shows "graph_inv st'"
  using update_node_inv [OF assms(2), of "st\<lparr>tick := n\<rparr>" i] graph_inv_core [OF assms(1)] assms(3) by simp

lemma update_graph_node_status_effect:
  assumes "update_graph_node_status env st input = Inr (res, st')"
  obtains now n where "core st' = core (update_planning_node (st\<lparr>tick := n\<rparr>) (un_node_id input)
    (\<lambda>r. r\<lparr>gn_status := trim (un_status input), gn_revision := gn_revision r + 1, gn_updated_at := now\<rparr>))"
  using assms unfolding update_graph_node_status_def Let_def
  by (auto simp: readings dest!: log_event_core refresh_validation_target_core)

lemma update_graph_node_status_inv:
  assumes "update_graph_node_status env st input = Inr (res, st')" "graph_inv st"
  shows "graph_inv st'"
  using assms(1) by (rule update_graph_node_status_effect)
    (rule node_rewrite_inv, assumption, simp_all add: keeps_identity_def assms(2))

lemma revise_graph_node_effect:
  assumes "revise_graph_node env st input = Inr (res, st')"
  obtains now n title summary status payload tags where
    "core st' = core (update_planning_node (st\<lparr>tick := n\<rparr>) (rn_node_id input) (\<lambda>r.
       r\<lparr>gn_title := title, gn_summary := summary, gn_status := status, gn_payload := payload,
         gn_tags := tags, gn_revision := gn_revision r + 1, gn_updated_at := now\<rparr>))"
  using assms unfolding revise_graph_node_def Let_def
  by (auto simp: readings dest!: log_event_core refresh_validation_target_core rebuild_tag_index_core)

lemma revise_graph_node_inv:
  assumes "revise_graph_node env st input = Inr (res, st')" "graph_inv st"
  shows "graph_inv st'"
  using assms(1) by (rule revise_graph_node_effect)
    (rule node_rewrite_inv, assumption, simp_all add: keeps_identity_def assms(2))

lemma collect_edge_findings_core:
  "collect_edge_findings env st es = (fs, st') \<Longrightarrow> core st' = core st"
proof (induction es arbitrary: st fs)
  case Nil
  then show ?case by simp
next
  case (Cons e es)
  show ?case
  proof (cases "validate_entity env st EntityType_GraphEdge (ge_id e)")
    case (Inl x)
    with Cons show ?thesis by auto
  next
    case (Inr p)
    obtain ef st1 where p: "p = (ef, st1)" by (cases p)
    obtain fs2 st2 where rec: "collect_edge_findings env st1 es = (fs2, st2)"
      by (cases "collect_edge_findings env st1 es")
    have "st' = st2" using Cons.prems Inr p rec by simp
    with Cons.IH rec validate_entity_core [OF Inr [unfolded p]] show ?thesis by simp
  qed
qed

lemma core_update_node:
  "core st1 = core st \<Longrightarrow> core (update_planning_node st1 i f) = core (update_planning_node st i f)"
  by (cases st; cases st1) (simp add: core_def update_planning_node_def)

lemma recheck_active_Inr:
  "recheck_active st verb old i status = Inr u \<longleftrightarrow>
     (status = ''active'' \<longrightarrow>
        filter (\<lambda>e. edge_key e = edge_key old \<and> ge_status e = ''active'' \<and> ge_id e \<noteq> i) (planning_edges st) = []
        \<and> (acyclic_kind (ge_kind old) \<longrightarrow>
             \<not> would_create_graph_cycle st (ge_source_node_id old) (ge_target_node_id old) (ge_kind old)))"
  by (auto simp: recheck_active_def)

lemma edge_rewrite_inv:
  assumes "update_planning_edge (st\<lparr>tick := n\<rparr>) i f = Inr st1" "core st' = core st1" "keeps_edge_key f"
    and "find_row ge_id i (planning_edges st) = Some old"
    and "recheck_active st verb old i (ge_status (f old)) = Inr ()" "graph_inv st"
  shows "graph_inv st'"
proof -
  have "no_new_cycle st (f old)"
    using assms(5) by (simp add: no_new_cycle_def recheck_active_Inr keeps_edge_key_fields [OF assms(3)])
  then have "graph_inv st1"
    using assms by - (rule update_edge_inv [of "st\<lparr>tick := n\<rparr>" i f st1 old], simp_all add: no_new_cycle_def)
  with graph_inv_core [OF assms(2)] show ?thesis by simp
qed

lemma recheck_active_tick [simp]: "recheck_active (st\<lparr>tick := n\<rparr>) = recheck_active st"
  by (intro ext) (simp add: recheck_active_def)

lemma update_graph_edge_status_effect:
  assumes "update_graph_edge_status env st input = Inr (res, st')"
  obtains now n old st1 where
    "update_planning_edge (st\<lparr>tick := n\<rparr>) (ue_edge_id input) (\<lambda>r.
       r\<lparr>ge_status := trim (ue_status input), ge_revision := ge_revision r + 1, ge_updated_at := now\<rparr>) = Inr st1"
    "core st' = core st1" "find_row ge_id (ue_edge_id input) (planning_edges st) = Some old"
    "recheck_active st ''set'' old (ue_edge_id input) (trim (ue_status input)) = Inr ()"
  using assms unfolding update_graph_edge_status_def Let_def
  by (auto simp: readings dest!: log_event_core refresh_validation_target_core)

lemma update_graph_edge_status_inv:
  assumes "update_graph_edge_status env st input = Inr (res, st')" "graph_inv st"
  shows "graph_inv st'"
  using assms(1) by (rule update_graph_edge_status_effect)
    (rule edge_rewrite_inv, assumption, assumption, simp_all add: keeps_edge_key_def edge_key_def assms(2))

lemma revise_graph_edge_effect:
  assumes "revise_graph_edge env st input = Inr (res, st')"
  obtains now n old st1 status payload where
    "update_planning_edge (st\<lparr>tick := n\<rparr>) (re_edge_id input) (\<lambda>r.
       r\<lparr>ge_status := status, ge_payload := payload, ge_revision := ge_revision r + 1, ge_updated_at := now\<rparr>) = Inr st1"
    "core st' = core st1" "find_row ge_id (re_edge_id input) (planning_edges st) = Some old"
    "recheck_active st ''revise'' old (re_edge_id input) status = Inr ()"
  using assms unfolding revise_graph_edge_def Let_def
  by (auto simp: readings dest!: log_event_core refresh_validation_target_core)

lemma revise_graph_edge_inv:
  assumes "revise_graph_edge env st input = Inr (res, st')" "graph_inv st"
  shows "graph_inv st'"
  using assms(1) by (rule revise_graph_edge_effect)
    (rule edge_rewrite_inv, assumption, assumption, simp_all add: keeps_edge_key_def edge_key_def assms(2))

lemma finalize_gate_Inr:
  assumes "finalize_gate env st node input = Inr st'"
  obtains nf st1 ef where "validate_entity env st EntityType_GraphNode (gn_id node) = Inr (nf, st1)"
    "collect_edge_findings env st1
       (list_incoming_edges_in_scope st1 (gn_id node) (gn_scope_key node) None
        @ list_outgoing_edges_in_scope st1 (gn_id node) (gn_scope_key node) None) = (ef, st')"
    "codes_among structural_codes (nf @ ef) = []" "codes_among type_integrity_codes (nf @ ef) = []"
    "codes_among waivable_gap_codes (nf @ ef) = [] \<or> risk_accepted input"
proof -
  from assms obtain nf st1 where v: "validate_entity env st EntityType_GraphNode (gn_id node) = Inr (nf, st1)"
    by (auto simp: finalize_gate_def)
  obtain ef st2 where c: "collect_edge_findings env st1
       (list_incoming_edges_in_scope st1 (gn_id node) (gn_scope_key node) None
        @ list_outgoing_edges_in_scope st1 (gn_id node) (gn_scope_key node) None) = (ef, st2)"
    by fastforce
  from assms show thesis
    using that [of nf st1 ef] v c by (simp add: finalize_gate_def Let_def split: if_split_asm)
qed

lemma finalize_gate_core: "finalize_gate env st node input = Inr st' \<Longrightarrow> core st' = core st"
  by (elim finalize_gate_Inr) (simp add: collect_edge_findings_core validate_entity_core)

lemma finalize_graph_node_effect:
  assumes "finalize_graph_node env st input = Inr (res, st')"
  obtains now st1 n node where "find_row gn_id (fz_node_id input) (planning_nodes st) = Some node"
    "finalize_gate env st node input = Inr st1"
    "core st' = core (update_planning_node (st1\<lparr>tick := n\<rparr>) (fz_node_id input)
       (\<lambda>r. r\<lparr>gn_status := trim (fz_status input), gn_revision := gn_revision r + 1, gn_updated_at := now\<rparr>))"
  using assms unfolding finalize_graph_node_def Let_def
  by (auto simp: readings dest!: log_event_core refresh_validation_target_core)

lemma finalize_graph_node_inv:
  assumes "finalize_graph_node env st input = Inr (res, st')" "graph_inv st"
  shows "graph_inv st'"
proof -
  from assms(1) obtain now st1 n node where
    gate: "finalize_gate env st node input = Inr st1" and
    core: "core st' = core (update_planning_node (st1\<lparr>tick := n\<rparr>) (fz_node_id input)
       (\<lambda>r. r\<lparr>gn_status := trim (fz_status input), gn_revision := gn_revision r + 1, gn_updated_at := now\<rparr>))"
    by (rule finalize_graph_node_effect) (rule that)
  have "graph_inv st1" using graph_inv_core [OF finalize_gate_core [OF gate]] assms(2) by simp
  with core show ?thesis by - (rule node_rewrite_inv, assumption, simp_all add: keeps_identity_def)
qed

lemma keeps_identity_overwrite [simp]: "keeps_identity (overwrite_node input now)"
  by (simp add: keeps_identity_def overwrite_node_def)

lemma upsert_node_row_inv:
  assumes "upsert_node_row env st input scope_key now = Inr (p, st')" "graph_inv st"
  shows "graph_inv st'"
proof (cases "Option.bind (cn_id input) (\<lambda>i. find_row gn_id i (planning_nodes st))")
  case None
  with assms(1) obtain n r st1 where ins: "insert_planning_node (st\<lparr>tick := n\<rparr>) r = Inr st1"
    and core: "core st' = core st1"
    by (auto simp: upsert_node_row_def id_or_new_eq Let_def dest!: log_event_core)
  from insert_node_inv [OF ins] assms(2) graph_inv_core [OF core] show ?thesis by simp
next
  case (Some node)
  with assms show ?thesis
    by (auto simp: upsert_node_row_def intro: update_node_inv split: if_split_asm)
qed

lemma upsert_graph_node_inv:
  assumes "upsert_graph_node env st input = Inr (p, st')" "graph_inv st"
  shows "graph_inv st'"
proof -
  from assms(1) obtain scope_key now n p1 st1 where
    row: "upsert_node_row env (st\<lparr>tick := n\<rparr>) input scope_key now = Inr (p1, st1)" and core: "core st' = core st1"
    unfolding upsert_graph_node_def Let_def by (auto simp: readings dest!: rebuild_tag_index_core)
  from upsert_node_row_inv [OF row] assms(2) graph_inv_core [OF core] show ?thesis by simp
qed

lemma bulk_update_inv:
  assumes "bulk_update_graph_node_status env st input = Inr (res, st')" "graph_inv st"
  shows "graph_inv st'"
proof -
  have fold: "graph_inv (fold (\<lambda>i st. update_planning_node st i (\<lambda>r.
      r\<lparr>gn_status := x, gn_revision := gn_revision r + 1, gn_updated_at := now\<rparr>)) ids s)"
    if "graph_inv s" for x now ids s
  using that
  proof (induction ids arbitrary: s)
    case (Cons i ids)
    show ?case unfolding fold_Cons comp_def
      by (rule Cons.IH, rule update_node_inv [OF _ Cons.prems]) (simp add: keeps_identity_def)
  qed simp
  show ?thesis using assms unfolding bulk_update_graph_node_status_def Let_def
    by (auto simp: readings fold split: if_splits)
qed

section \<open>The step relation of the graph\<close>

inductive graph_step :: "environment \<Rightarrow> planning_store \<Rightarrow> planning_store \<Rightarrow> bool" for env where
  step_create_node: "create_graph_node env st a = Inr (r, st') \<Longrightarrow> graph_step env st st'"
| step_create_edge: "create_graph_edge env st b = Inr (s, st') \<Longrightarrow> graph_step env st st'"
| step_acceptance: "create_acceptance env st c = Inr (r, st') \<Longrightarrow> graph_step env st st'"
| step_evidence: "create_evidence env st d = Inr (r, st') \<Longrightarrow> graph_step env st st'"
| step_satisfy: "satisfy_acceptance env st e = Inr (s, st') \<Longrightarrow> graph_step env st st'"
| step_attach: "attach_evidence env st f = Inr (s, st') \<Longrightarrow> graph_step env st st'"
| step_node_status: "update_graph_node_status env st g = Inr (r, st') \<Longrightarrow> graph_step env st st'"
| step_edge_status: "update_graph_edge_status env st h = Inr (s, st') \<Longrightarrow> graph_step env st st'"
| step_revise_node: "revise_graph_node env st i = Inr (r, st') \<Longrightarrow> graph_step env st st'"
| step_revise_edge: "revise_graph_edge env st j = Inr (s, st') \<Longrightarrow> graph_step env st st'"
| step_finalize: "finalize_graph_node env st k = Inr (r, st') \<Longrightarrow> graph_step env st st'"
| step_upsert_node: "upsert_graph_node env st l = Inr (p, st') \<Longrightarrow> graph_step env st st'"
| step_bulk: "bulk_update_graph_node_status env st m = Inr (q, st') \<Longrightarrow> graph_step env st st'"

inductive_cases graph_stepE: "graph_step env st st'"

lemmas graph_op_invs = create_graph_node_inv create_graph_edge_inv create_acceptance_inv create_evidence_inv
  satisfy_acceptance_inv attach_evidence_inv update_graph_node_status_inv update_graph_edge_status_inv
  revise_graph_node_inv revise_graph_edge_inv finalize_graph_node_inv upsert_graph_node_inv bulk_update_inv

interpretation graph_sys: invariant_system "graph_step env" graph_inv for env
  by unfold_locales (elim graph_stepE; erule (1) graph_op_invs)

end
