(* ===== verification/Samples.thy ===== *)
theory Samples
  imports GraphCycle
begin

text \<open>
  A concrete environment and small stores, on which the witnesses of the development run the
  operations. Times are written as three characters, most significant first, so their order as
  strings is their order in time.
\<close>

definition encode_time :: "nat \<Rightarrow> string" where
  "encode_time n = [char_of (n div 65536 mod 256), char_of (n div 256 mod 256), char_of (n mod 256)]"

definition decode_time :: "string \<Rightarrow> int option" where
  "decode_time s = (case s of [a, b, c] \<Rightarrow> Some (int (of_char a * 65536 + of_char b * 256 + of_char c)) | _ \<Rightarrow> None)"

text \<open>The clock advances by one second per reading, starting at \<open>start\<close>.\<close>

definition sample_env_at :: "nat \<Rightarrow> environment" where
  "sample_env_at start =
     \<lparr>env_new_id = (\<lambda>n. ''uuid-'' @ replicate n (CHR ''x'')),
      env_now = (\<lambda>n. Some (encode_time (start + n))),
      env_parse_rfc3339 = (\<lambda>s. map_option (\<lambda>i. i * 1000000000) (decode_time s)),
      env_format_rfc3339 = (\<lambda>i. Some (encode_time (nat (i div 1000000000)))),
      env_julianday = decode_time\<rparr>"

definition sample_env :: environment where
  "sample_env = sample_env_at 0"

definition sample_scope :: scope_record where
  "sample_scope = \<lparr>sc_scope_key = ''default'', sc_scope_type = None, sc_parent_scope_key = None,
     sc_metadata = JObj [], sc_tags = [], sc_revision = 1, sc_created_at = encode_time 0,
     sc_updated_at = encode_time 0\<rparr>"

definition empty_store :: planning_store where
  "empty_store = \<lparr>scopes = [sample_scope], goals = [], roadmaps = [], roadmap_sections = [], work_points = [],
     plans = [], todos = [], issues = [], review_points = [], insights = [], project_runs = [],
     planning_nodes = [], planning_edges = [], planning_events = [], validation_findings = [], tag_index = [],
     entity_file_scopes = [], discovery_nodes = [], discovery_relationships = [], discovery_checkpoints = [],
     worktrees = [], entities_fts = [], insights_fts = [],
     tick = 0\<rparr>"

definition sample_node :: "string \<Rightarrow> planning_node_kind \<Rightarrow> planning_graph_node" where
  "sample_node i kind = \<lparr>gn_id = i, gn_scope_key = ''default'', gn_kind = kind, gn_title = i, gn_summary = i,
     gn_status = ''draft'', gn_payload = JObj [], gn_tags = [], gn_revision = 1,
     gn_created_at = encode_time 0, gn_updated_at = encode_time 0\<rparr>"

definition sample_edge :: "string \<Rightarrow> planning_edge_kind \<Rightarrow> string \<Rightarrow> string \<Rightarrow> planning_graph_edge" where
  "sample_edge i kind s t = \<lparr>ge_id = i, ge_scope_key = ''default'', ge_kind = kind, ge_source_node_id = s,
     ge_target_node_id = t, ge_status = ''active'', ge_payload = JObj [], ge_revision = 1,
     ge_created_at = encode_time 0, ge_updated_at = encode_time 0\<rparr>"

text \<open>Three work nodes; \<open>w1\<close> depends on \<open>w2\<close> and on \<open>w3\<close>.\<close>

definition graph_store :: planning_store where
  "graph_store = empty_store
     \<lparr>planning_nodes := map (\<lambda>i. sample_node i PlanningNodeKind_Work) [''w1'', ''w2'', ''w3''],
      planning_edges := [sample_edge ''e1'' PlanningEdgeKind_DependsOn ''w1'' ''w2'',
                         sample_edge ''e2'' PlanningEdgeKind_DependsOn ''w1'' ''w3'']\<rparr>"

text \<open>One goal, one roadmap and three work points; \<open>p1\<close> and \<open>p2\<close> depend on each other.\<close>

definition sample_goal :: goal_record where
  "sample_goal = \<lparr>go_id = ''g'', go_scope_key = ''default'', go_correlation_id = ''corr'', go_title = ''goal'',
     go_description = ''goal'', go_acceptance_criteria = [''a''], go_rejection_criteria = [''r''],
     go_status = GoalStatus_Active, go_tags = [], go_revision = 1, go_created_at = encode_time 0,
     go_updated_at = encode_time 0\<rparr>"

definition sample_roadmap :: roadmap_record where
  "sample_roadmap = \<lparr>rm_id = ''rm'', rm_scope_key = ''default'', rm_goal_id = ''g'', rm_correlation_id = ''corr'',
     rm_title = ''roadmap'', rm_summary = ''roadmap'', rm_status = RoadmapStatus_Active, rm_tags = [],
     rm_revision = 1, rm_created_at = encode_time 0, rm_updated_at = encode_time 0\<rparr>"

definition sample_work_point :: "string \<Rightarrow> string list \<Rightarrow> work_point_status \<Rightarrow> work_point_record" where
  "sample_work_point i deps status = \<lparr>wp_id = i, wp_scope_key = ''default'', wp_roadmap_id = ''rm'',
     wp_section_id = None, wp_title = i, wp_summary = i, wp_status = status, wp_ordering = 0,
     wp_dependency_ids = deps, wp_validation_expectations = [''v''], wp_effort_tier = EffortTier_Balanced,
     wp_kind = WorkPointKind_Feature, wp_priority = Priority_Medium, wp_repairs_work_point_ids = [],
     wp_supersedes_work_point_ids = [], wp_blocks_work_point_ids = [], wp_file_scopes = [], wp_tags = [],
     wp_revision = 1, wp_created_at = encode_time 0, wp_updated_at = encode_time 0\<rparr>"

definition work_store :: planning_store where
  "work_store = empty_store\<lparr>goals := [sample_goal], roadmaps := [sample_roadmap],
     work_points := [sample_work_point ''p1'' [''p2''] WorkPointStatus_Active,
                     sample_work_point ''p2'' [''p1''] WorkPointStatus_Active,
                     sample_work_point ''p3'' [] WorkPointStatus_Active]\<rparr>"

section \<open>Evaluation by simplification\<close>

lemmas string_eval = trim_def trim_start_def trim_end_def is_whitespace_def is_kebab_def is_ascii_lowercase_def
  is_ascii_digit_def ends_with_char_def require_non_empty_def require_kebab_token_def
  normalize_scope_key_value_def normalized_scope_key_def DEFAULT_SCOPE_KEY_def normalize_string_list_def

lemmas lookup_eval = row_or_not_found_def scope_key_for_entity.simps resolve_event_scope_key_def
  load_graph_node_def load_graph_edge_def ensure_scope_exists_def ensure_entity_in_scope_def

lemmas log_eval = log_event_def build_event_def append_event_def new_id_def now_string_def max_or_zero_def

lemmas sample_eval = sample_env_def sample_env_at_def empty_store_def sample_scope_def sample_node_def
  sample_edge_def graph_store_def sample_goal_def sample_roadmap_def sample_work_point_def work_store_def

lemmas edge_check_eval = validate_edge_kind_pair_def edge_kind_sources_def edge_kind_targets_def
  would_create_graph_cycle_def walk_graph_edges_def edge_pairs_def succs_def acyclic_kind_def edge_key_def

lemmas graph_inv_eval = graph_inv_code graph_keys_def edge_ok_def active_keys_def acyclic_pairs_def
  edge_check_eval

lemma graph_store_inv: "graph_inv graph_store"
  by (simp add: graph_inv_eval sample_eval)

lemma default_key: "normalize_scope_key_value ''default'' = ''default''"
  by (simp add: string_eval)

end
