(* ===== verification/EventLog.thy ===== *)
theory EventLog
  imports Samples
begin

text \<open>
  The event log. Every operation appends its events through \<open>build_event\<close> and \<open>append_event\<close>; the
  sequence number of an event is one more than the largest of its stream. The log therefore numbers
  the events of each stream 1, 2, 3, ... without gaps, in the order they were appended, and it only grows.
\<close>

definition stream_sequences :: "planning_store \<Rightarrow> string \<Rightarrow> int list" where
  "stream_sequences st stream =
     map (\<lambda>(_, e). ev_sequence e) (filter (\<lambda>(_, e). ev_stream_id e = stream) (planning_events st))"

definition event_ids :: "planning_store \<Rightarrow> string list" where
  "event_ids st = map (\<lambda>(_, e). ev_event_id e) (planning_events st)"

definition events_ok :: "planning_store \<Rightarrow> bool" where
  "events_ok st \<longleftrightarrow> distinct (event_ids st)
     \<and> (\<forall>stream. stream_sequences st stream = map int [1..<Suc (length (stream_sequences st stream))])"

lemma max_or_zero_upto: "max_or_zero (map int [1..<Suc n]) = int n"
proof (cases n)
  case 0
  then show ?thesis by (simp add: max_or_zero_def)
next
  case (Suc m)
  let ?xs = "map int [1..<Suc n]"
  have "int n \<in> set ?xs" using Suc by simp
  then have "int n \<le> max_or_zero ?xs" by (rule max_or_zero_ge)
  moreover have "max_or_zero ?xs \<in> set ?xs" using Suc by (intro max_or_zero_in) simp
  then have "max_or_zero ?xs \<le> int n" by auto
  ultimately show ?thesis by simp
qed

text \<open>What one logged event adds.\<close>

lemma log_event_effect:
  assumes "log_event env st et i aet ai c r ty p = Inr st'"
  obtains k e where "planning_events st' = planning_events st @ [(k, e)]" "ev_stream_id e = ai"
    "ev_sequence e = max_or_zero (stream_sequences st ai) + 1" "ev_event_id e = env_new_id env (tick st)"
    "ev_event_id e \<notin> set (event_ids st)" "ev_entity_id e = i" "ev_event_type e = ty" "ev_payload e = p"
  using assms
  by (auto simp: log_event_def build_event_def append_event_def Let_def new_id_def now_string_def
      stream_sequences_def event_ids_def split: if_split_asm option.split_asm)

lemma log_event_events_ok:
  assumes "log_event env st et i aet ai c r ty p = Inr st'" "events_ok st"
  shows "events_ok st'"
proof -
  from assms(1) obtain k e where e: "planning_events st' = planning_events st @ [(k, e)]" "ev_stream_id e = ai"
    "ev_sequence e = max_or_zero (stream_sequences st ai) + 1" "ev_event_id e \<notin> set (event_ids st)"
    by (rule log_event_effect) (rule that)
  let ?n = "\<lambda>stream. length (stream_sequences st stream)"
  have seqs: "stream_sequences st s = map int [1..<Suc (?n s)]" for s
    using assms(2) unfolding events_ok_def by blast
  have next_seq: "ev_sequence e = int (Suc (?n ai))"
    using e(3) max_or_zero_upto [of "?n ai"] seqs [of ai] by simp
  have grown: "stream_sequences st' s = (if s = ai then stream_sequences st s @ [int (Suc (?n ai))] else stream_sequences st s)" for s
    using e(1,2) next_seq by (simp add: stream_sequences_def)
  have "stream_sequences st' s = map int [1..<Suc (length (stream_sequences st' s))]" for s
    using seqs [of s] by (cases "s = ai") (simp_all add: grown)
  moreover have "distinct (event_ids st')" using assms(2) e(1,4) by (simp add: events_ok_def event_ids_def)
  ultimately show ?thesis by (simp add: events_ok_def)
qed

lemma log_event_ok:
  assumes "is_ok (resolve_event_scope_key st et i aet ai)" "\<And>n. env_now env n \<noteq> None"
    and "env_new_id env (tick st) \<notin> set (event_ids st)" "events_ok st"
  shows "is_ok (log_event env st et i aet ai c r ty p)"
proof -
  have "0 \<le> max_or_zero (stream_sequences st ai)"
    using assms(4) max_or_zero_upto unfolding events_ok_def by (metis of_nat_0_le_iff)
  moreover obtain t where "env_now env (Suc (tick st)) = Some t" using assms(2) by blast
  moreover have tick: "resolve_event_scope_key (st\<lparr>tick := n\<rparr>) et i aet ai = resolve_event_scope_key st et i aet ai" for n
    by (simp add: resolve_event_scope_key_def split: sum.split)
  moreover obtain k where "resolve_event_scope_key st et i aet ai = Inr k" using assms(1) by (auto simp: is_ok_iff)
  ultimately show ?thesis using assms(3)
    by (simp add: log_event_def build_event_def append_event_def Let_def new_id_def now_string_def
        stream_sequences_def event_ids_def)
qed

text \<open>
  Claim C6. Logging an event keeps the log well numbered: event ids stay distinct and the sequence
  numbers of every stream stay 1, 2, ..., n in the order of appending.
\<close>

theorem event_log_gap_free:
  assumes "events_ok st" "log_event env st et i aet ai c r ty p = Inr st'"
  shows "events_ok st' \<and> length (stream_sequences st' ai) = Suc (length (stream_sequences st ai))
    \<and> last (stream_sequences st' ai) = int (length (stream_sequences st' ai))
    \<and> (\<forall>s. s \<noteq> ai \<longrightarrow> stream_sequences st' s = stream_sequences st s)"
proof -
  note ok = log_event_events_ok [OF assms(2,1)]
  from assms(2) obtain k e where "planning_events st' = planning_events st @ [(k, e)]" "ev_stream_id e = ai"
    by (rule log_event_effect) (rule that)
  then have grow: "length (stream_sequences st' ai) = Suc (length (stream_sequences st ai))"
    "\<forall>s. s \<noteq> ai \<longrightarrow> stream_sequences st' s = stream_sequences st s"
    by (simp_all add: stream_sequences_def)
  have "stream_sequences st' ai = map int [1..<Suc (length (stream_sequences st' ai))]"
    using ok unfolding events_ok_def by blast
  then have "last (stream_sequences st' ai) = last (map int [1..<Suc (length (stream_sequences st' ai))])" by simp
  also have "\<dots> = int (length (stream_sequences st' ai))" using grow(1) by (simp add: last_map)
  finally have "last (stream_sequences st' ai) = int (length (stream_sequences st' ai))" .
  with ok grow show ?thesis by blast
qed

lemma empty_store_events_ok: "events_ok empty_store"
  by (simp add: events_ok_def event_ids_def stream_sequences_def empty_store_def)

definition sample_logged :: planning_store where
  "sample_logged = (case log_event sample_env empty_store EntityType_Scope ''default'' EntityType_Scope ''default''
      ''corr'' None ''scope.created'' JNull of Inr st \<Rightarrow> st | Inl _ \<Rightarrow> empty_store)"

lemma sample_logged_eq:
  "log_event sample_env empty_store EntityType_Scope ''default'' EntityType_Scope ''default''
     ''corr'' None ''scope.created'' JNull = Inr sample_logged"
  by (simp add: sample_logged_def log_eval lookup_eval sample_eval Let_def)

theorem event_log_gap_free_witness:
  "events_ok sample_logged \<and> length (stream_sequences sample_logged ''default'') = 1"
  using event_log_gap_free [OF empty_store_events_ok sample_logged_eq]
  by (simp add: empty_store_def stream_sequences_def)

end
