(* ===== verification/GraphProperties.thy ===== *)
theory GraphProperties
  imports GraphInvariant EventLog
begin

text \<open>
  The properties of the planning graph: its invariant under any sequence of checked operations, the
  exactness of the validators and of the cycle check, the gate of finalization, the bulk change and
  the application of a manifest. Witnesses run the operations on a small store.
\<close>

section \<open>Applying a manifest\<close>

lemma graph_shape_tick [simp]: "graph_shape (st\<lparr>tick := n\<rparr>) = graph_shape st"
  by (rule graph_shape_cong) simp_all

lemma nodes_extend_tick [simp]: "nodes_extend (st\<lparr>tick := n\<rparr>) st' = nodes_extend st st'"
  by (simp add: nodes_extend_def)

lemma upsert_node_in_tx_extend:
  assumes "upsert_graph_node_in_tx env st input scope_key = Inr (p, st')"
  shows "nodes_extend st st'"
proof (cases "Option.bind (cn_id input) (\<lambda>i. find_row gn_id i (planning_nodes st))")
  case None
  with assms obtain n r where "insert_planning_node (st\<lparr>tick := n\<rparr>) r = Inr st'"
    by (auto simp: upsert_graph_node_in_tx_def readings Let_def)
  then show ?thesis using insert_node_extend by fastforce
next
  case (Some node)
  with assms obtain now where "st' = update_planning_node (st\<lparr>tick := Suc (tick st)\<rparr>) (gn_id node) (overwrite_node input now)"
    by (auto simp: upsert_graph_node_in_tx_def readings split: if_split_asm)
  then show ?thesis
    using update_node_extend [of "overwrite_node input now" "st\<lparr>tick := Suc (tick st)\<rparr>" "gn_id node"] by simp
qed

text \<open>One edge of a manifest: rewritten in place, already present, or inserted after the full check.\<close>

lemma upsert_edge_in_tx_cases:
  assumes "upsert_graph_edge_in_tx env st input scope_key = Inr (p, st')"
  obtains (rewritten) n now old where "ce_id input = Some (ge_id old)"
      "find_row ge_id (ge_id old) (planning_edges st) = Some old"
      "update_planning_edge (st\<lparr>tick := n\<rparr>) (ge_id old) (overwrite_edge input now) = Inr st'"
      "edge_ok st (overwrite_edge input now old)"
    | (present) "st' = st"
    | (inserted) n m now where
      "insert_planning_edge (st\<lparr>tick := n\<rparr>) (edge_of_input input (chosen_id env m (ce_id input)) scope_key now) = Inr st'"
      "edge_ok st (edge_of_input input (chosen_id env m (ce_id input)) scope_key now)"
      "no_new_cycle st (edge_of_input input (chosen_id env m (ce_id input)) scope_key now)"
proof -
  let ?s = "ce_source_node_id input" and ?t = "ce_target_node_id input"
  from assms obtain src tgt where
    ends: "?s \<noteq> ?t" "find_row gn_id ?s (planning_nodes st) = Some src" "find_row gn_id ?t (planning_nodes st) = Some tgt"
      "gn_scope_key src = scope_key" "gn_scope_key tgt = scope_key"
      "validate_edge_kind_pair (ce_kind input) (gn_kind src) (gn_kind tgt) = Inr ()"
    by (auto simp: upsert_graph_edge_in_tx_def Let_def split: if_split_asm)
  have ok: "edge_ok st r"
    if "ge_source_node_id r = ?s" "ge_target_node_id r = ?t" "ge_kind r = ce_kind input" "ge_scope_key r = scope_key" for r
    unfolding edge_ok_iff using ends that by (simp add: is_ok_iff)
  show thesis
  proof (cases "Option.bind (ce_id input) (\<lambda>i. find_row ge_id i (planning_edges st))")
    case (Some old)
    then have i: "ce_id input = Some (ge_id old)" "find_row ge_id (ge_id old) (planning_edges st) = Some old"
      by (auto simp: bind_eq_Some_conv dest: find_row_SomeD)
    from assms Some obtain now where sc: "ge_scope_key old = scope_key"
      and upd: "update_planning_edge (st\<lparr>tick := Suc (tick st)\<rparr>) (ge_id old) (overwrite_edge input now) = Inr st'"
      by (auto simp: upsert_graph_edge_in_tx_def Let_def readings split: if_split_asm)
    from upd sc show thesis by (intro rewritten [OF i] ok) (simp_all add: overwrite_edge_def)
  next
    case None
    show thesis
    proof (cases "matching_active_edge st scope_key input")
      case (Some e)
      with None assms show thesis
        by (intro present) (auto simp: upsert_graph_edge_in_tx_def Let_def split: if_split_asm)
    next
      case match: None
      with None assms obtain n m now where
        ins: "insert_planning_edge (st\<lparr>tick := n\<rparr>) (edge_of_input input (chosen_id env m (ce_id input)) scope_key now) = Inr st'"
        and cyc: "\<not> (trim (ce_status input) = ''active'' \<and> acyclic_kind (ce_kind input)
          \<and> would_create_graph_cycle st ?s ?t (ce_kind input))"
        by (auto simp: upsert_graph_edge_in_tx_def Let_def readings split: if_split_asm)
      from ins cyc show thesis
        by (intro inserted ok) (simp_all add: edge_of_input_def no_new_cycle_def)
    qed
  qed
qed

lemma upsert_edge_in_tx_shape:
  assumes "upsert_graph_edge_in_tx env st input scope_key = Inr (p, st')" "graph_shape st"
  shows "graph_shape st'"
  using assms(1)
proof (cases rule: upsert_edge_in_tx_cases)
  case (rewritten n now old)
  show ?thesis
    by (rule update_edge_shape [OF rewritten(3), where old = old])
      (use rewritten assms(2) in \<open>simp_all add: overwrite_edge_def\<close>)
next
  case (inserted n m now)
  show ?thesis by (rule insert_edge_shape [OF inserted(1)]) (use inserted assms(2) in simp_all)
qed (use assms(2) in simp)

lemma upsert_edge_in_tx_inv:
  assumes "upsert_graph_edge_in_tx env st input scope_key = Inr (p, st')" "graph_inv st"
    and fresh: "\<And>i. ce_id input = Some i \<Longrightarrow> i \<notin> ge_id ` set (planning_edges st)"
  shows "graph_inv st'"
  using assms(1)
proof (cases rule: upsert_edge_in_tx_cases)
  case (rewritten n now old)
  with fresh [of "ge_id old"] show ?thesis by (auto dest: find_row_SomeD)
next
  case (inserted n m now)
  show ?thesis
    by (rule insert_edge_inv [OF inserted(1)]) (use inserted assms(2) in \<open>simp_all add: no_new_cycle_def\<close>)
qed (use assms(2) in simp)

lemma after_conflict_simps [simp]:
  "graph_inv (after_conflict st) = graph_inv st" "graph_shape (after_conflict st) = graph_shape st"
  "planning_edges (after_conflict st) = planning_edges st" "planning_nodes (after_conflict st) = planning_nodes st"
  by (simp_all add: after_conflict_def)

text \<open>What one node or one edge of the manifest does to the running result.\<close>

lemma apply_manifest_node_cases:
  assumes "apply_manifest_node env k (res, st) input = Inr (res', st')"
  obtains (ok) p where "upsert_graph_node_in_tx env st input k = Inr (p, st')"
    | (conflict) "st' = after_conflict st"
  using assms by (auto simp: apply_manifest_node_def split: sum.split_asm prod.split_asm bool.split_asm if_split_asm)

lemma apply_manifest_edge_cases:
  assumes "apply_manifest_edge env k (res, st) input = Inr (res', st')"
  obtains (ok) p where "upsert_graph_edge_in_tx env st input k = Inr (p, st')"
    | (conflict) "st' = after_conflict st"
  using assms by (auto simp: apply_manifest_edge_def split: sum.split_asm prod.split_asm bool.split_asm)

lemma apply_manifest_Inr:
  assumes "apply_manifest env st parsed dry_run = Inr (res, st')"
  obtains k res1 st1 st2 where
    "foldE (apply_manifest_node env k) (empty_apply_result parsed, st) (pm_nodes parsed) = Inr (res1, st1)"
    "foldE (apply_manifest_edge env k) (res1, st1) (pm_edges parsed) = Inr (res, st2)"
    "st' = (if dry_run then st\<lparr>tick := tick st2\<rparr> else st2)"
  using assms by (auto simp: apply_manifest_def Let_def)

lemma apply_nodes_keep:
  assumes "foldE (apply_manifest_node env k) (res, st) inputs = Inr (res', st')"
  shows "(graph_inv st \<longrightarrow> graph_inv st') \<and> (graph_shape st \<longrightarrow> graph_shape st')
    \<and> planning_edges st' = planning_edges st"
proof -
  let ?P = "\<lambda>(r, s). (graph_inv st \<longrightarrow> graph_inv s) \<and> (graph_shape st \<longrightarrow> graph_shape s)
    \<and> planning_edges s = planning_edges st"
  have "?P (res', st')"
    using assms
  proof (rule foldE_invariant)
    fix acc input acc'
    assume P: "?P acc" and step: "apply_manifest_node env k acc input = Inr acc'"
    obtain r s r' s' where acc: "acc = (r, s)" "acc' = (r', s')" by (cases acc; cases acc')
    from step [unfolded acc] show "?P acc'"
    proof (cases rule: apply_manifest_node_cases)
      case (ok p)
      note ext = upsert_node_in_tx_extend [OF ok]
      then have "planning_edges s' = planning_edges s" by (simp add: nodes_extend_def)
      with P nodes_extend_inv [OF ext] nodes_extend_shape [OF ext] show ?thesis by (simp add: acc)
    qed (use P in \<open>simp add: acc\<close>)
  qed simp
  then show ?thesis by simp
qed

lemma apply_edges_shape:
  assumes "foldE (apply_manifest_edge env k) (res, st) inputs = Inr (res', st')" "graph_shape st"
  shows "graph_shape st'"
proof -
  have "(\<lambda>(r, s). graph_shape s) (res', st')"
    using assms(1)
  proof (rule foldE_invariant)
    fix acc input acc'
    assume P: "(\<lambda>(r, s). graph_shape s) acc" and step: "apply_manifest_edge env k acc input = Inr acc'"
    obtain r s r' s' where acc: "acc = (r, s)" "acc' = (r', s')" by (cases acc; cases acc')
    from step [unfolded acc] show "(\<lambda>(r, s). graph_shape s) acc'"
    proof (cases rule: apply_manifest_edge_cases)
      case (ok p)
      from upsert_edge_in_tx_shape [OF ok] P show ?thesis by (simp add: acc)
    qed (use P in \<open>simp add: acc\<close>)
  qed (use assms(2) in simp)
  then show ?thesis by simp
qed

text \<open>
  With edge ids that are in use nowhere, no edge of the manifest is rewritten, so every edge passes
  the full check. The ids the UUID source yields must be different from the explicit ones.
\<close>

definition explicit_ids :: "create_graph_edge_input list \<Rightarrow> string list" where
  "explicit_ids inputs = List.map_filter ce_id inputs"

lemma explicit_ids_Cons:
  "explicit_ids (x # xs) = (case ce_id x of None \<Rightarrow> explicit_ids xs | Some i \<Rightarrow> i # explicit_ids xs)"
  by (simp add: explicit_ids_def split: option.split)

lemma upsert_edge_in_tx_ids:
  assumes "upsert_graph_edge_in_tx env st input k = Inr (p, st')"
  shows "ge_id ` set (planning_edges st') \<subseteq> ge_id ` set (planning_edges st) \<union> set_option (ce_id input) \<union> range (env_new_id env)"
  using assms
proof (cases rule: upsert_edge_in_tx_cases)
  case (rewritten n now old)
  then have "map ge_id (planning_edges st') = map ge_id (planning_edges st)"
    by (auto simp: update_planning_edge_def overwrite_edge_def)
  then have "ge_id ` set (planning_edges st') = ge_id ` set (planning_edges st)" by (metis set_map)
  then show ?thesis by blast
next
  case (inserted n m now)
  then show ?thesis
    by (auto simp: insert_planning_edge_Inr edge_of_input_def chosen_id_def split: option.split)
qed auto

lemma disjoint_Un3:
  assumes "A \<subseteq> B \<union> C \<union> D" "E \<inter> B = {}" "E \<inter> C = {}" "E \<inter> D = {}"
  shows "E \<inter> A = {}"
  using assms by blast

lemma apply_edges_inv_fresh:
  assumes "foldE (apply_manifest_edge env k) (res, st) inputs = Inr (res', st')" "graph_inv st"
    and "distinct (explicit_ids inputs)" "set (explicit_ids inputs) \<inter> ge_id ` set (planning_edges st) = {}"
    and "set (explicit_ids inputs) \<inter> range (env_new_id env) = {}"
  shows "graph_inv st'"
  using assms
proof (induction inputs arbitrary: res st)
  case Nil
  then show ?case by simp
next
  case (Cons input inputs)
  from Cons.prems(1) obtain r1 st1 where
    step: "apply_manifest_edge env k (res, st) input = Inr (r1, st1)" and
    rest: "foldE (apply_manifest_edge env k) (r1, st1) inputs = Inr (res', st')" by auto
  from step have "graph_inv st1 \<and> set (explicit_ids inputs) \<inter> ge_id ` set (planning_edges st1) = {}"
  proof (cases rule: apply_manifest_edge_cases)
    case (ok p)
    have "graph_inv st1" using Cons.prems(4)
      by (intro upsert_edge_in_tx_inv [OF ok Cons.prems(2)]) (auto simp: explicit_ids_Cons)
    moreover have "set (explicit_ids inputs) \<inter> ge_id ` set (planning_edges st1) = {}"
      by (rule disjoint_Un3 [OF upsert_edge_in_tx_ids [OF ok]])
        (use Cons.prems(3-5) in \<open>auto simp: explicit_ids_Cons split: option.split_asm\<close>)
    ultimately show ?thesis by blast
  next
    case conflict
    then show ?thesis using Cons.prems(2,4) by (auto simp: explicit_ids_Cons split: option.split_asm)
  qed
  then show ?case using Cons.prems(3,5)
    by (intro Cons.IH [OF rest]) (auto simp: explicit_ids_Cons split: option.split_asm)
qed

text \<open>A node that exists is compared with the input after it was overwritten by it.\<close>

lemma overwritten_node_found:
  assumes "upsert_graph_node_in_tx env st input k = Inr ((i, False), st')" "load_graph_node st' i = Inr n"
  shows "gn_title n = trim (cn_title input) \<and> gn_summary n = trim (cn_summary input)
    \<and> gn_status n = trim (cn_status input)"
proof -
  have id: "\<And>r now. gn_id (overwrite_node input now r) = gn_id r" by (simp add: overwrite_node_def)
  obtain now where st': "st' = update_planning_node (st\<lparr>tick := Suc (tick st)\<rparr>) i (overwrite_node input now)"
    using assms(1)
    by (cases "Option.bind (cn_id input) (\<lambda>i. find_row gn_id i (planning_nodes st))")
      (auto simp: upsert_graph_node_in_tx_def readings Let_def split: if_split_asm)
  from assms(2) obtain r where r: "find_row gn_id i (planning_nodes st) = Some r" "n = overwrite_node input now r"
    using find_row_SomeD [of gn_id i "planning_nodes st"]
    by (auto simp: st' update_planning_node_def find_row_update_where [where key = gn_id, OF id])
  then show ?thesis by (simp add: overwrite_node_def)
qed

lemma apply_node_revised:
  assumes "apply_manifest_node env k (res, st) input = Inr (res', st')"
  shows "ma_revised_nodes res' = ma_revised_nodes res"
proof (cases "upsert_graph_node_in_tx env st input k")
  case (Inl e)
  with assms show ?thesis by (auto simp: apply_manifest_node_def)
next
  case (Inr p)
  obtain i created st1 where p: "p = ((i, created), st1)" by (metis prod.collapse)
  show ?thesis
  proof (cases created)
    case True
    with assms Inr p show ?thesis by (auto simp: apply_manifest_node_def)
  next
    case False
    with assms Inr p obtain n where "load_graph_node st1 i = Inr n"
      by (auto simp: apply_manifest_node_def simp del: load_graph_node_Inr)
    with overwritten_node_found [of env st input k i st1 n] assms Inr p False show ?thesis
      by (auto simp: apply_manifest_node_def)
  qed
qed

lemma apply_node_revised_edges:
  "apply_manifest_node env k (res, st) input = Inr (res', st') \<Longrightarrow> ma_revised_edges res' = ma_revised_edges res"
  by (auto simp: apply_manifest_node_def split: sum.split_asm prod.split_asm bool.split_asm if_split_asm)

lemma apply_edge_revised_edges:
  "apply_manifest_edge env k (res, st) input = Inr (res', st') \<Longrightarrow> ma_revised_edges res' = ma_revised_edges res"
  by (auto simp: apply_manifest_edge_def split: sum.split_asm prod.split_asm bool.split_asm)

lemma apply_edge_revised:
  "apply_manifest_edge env k (res, st) input = Inr (res', st') \<Longrightarrow> ma_revised_nodes res' = ma_revised_nodes res"
  by (auto simp: apply_manifest_edge_def split: sum.split_asm prod.split_asm bool.split_asm)

section \<open>Findings and codes\<close>

lemma finding_step:
  assumes "finding env st et i k sev c m = Inr (f, st')"
  shows "vf_code f = c" "\<exists>n. st' = st\<lparr>tick := n\<rparr>"
  using assms by (auto simp: finding_def Let_def new_id_def now_string_Inr_iff)

lemma stamp_findings_codes:
  "stamp_findings env st et i k steps = Inr (fs, st') \<Longrightarrow>
     map vf_code fs = map step_code steps \<and> (\<exists>n. st' = st\<lparr>tick := n\<rparr>)"
proof (induction env st et i k steps arbitrary: fs rule: stamp_findings.induct)
  case (1 env st et i k)
  then show ?case by (auto intro: exI [of _ "tick st"])
next
  case (2 env st et i k sev code message steps)
  then obtain f st1 fs1 where f: "finding env st et i k sev code message = Inr (f, st1)"
    and rest: "stamp_findings env st1 et i k steps = Inr (fs1, st')" and fs: "fs = f # fs1" by auto
  from "2.IH" [OF f _ rest] obtain n where "map vf_code fs1 = map step_code steps" "st' = st1\<lparr>tick := n\<rparr>" by auto
  with finding_step [OF f] fs show ?case by auto
qed simp_all

lemma stamp_findings_ok:
  assumes "\<And>n. env_now env n \<noteq> None" "\<And>e. Fail e \<notin> set steps"
  shows "is_ok (stamp_findings env st et i k steps)"
  using assms(2)
proof (induction steps arbitrary: st)
  case Nil
  then show ?case by simp
next
  case (Cons s steps)
  then obtain sev code message where s: "s = Push sev code message" by (cases s) auto
  obtain t where "env_now env (Suc (tick st)) = Some t" using assms(1) by blast
  then obtain f st1 where f: "finding env st et i k sev code message = Inr (f, st1)"
    by (auto simp: finding_def Let_def new_id_def now_string_def)
  have "\<And>e. Fail e \<notin> set steps" using Cons.prems by auto
  from Cons.IH [OF this, of st1] obtain p where "stamp_findings env st1 et i k steps = Inr p"
    by (auto simp: is_ok_iff)
  with f s show ?case by (cases p) (simp add: is_ok_iff)
qed

definition edge_codes :: "planning_store \<Rightarrow> string \<Rightarrow> string list" where
  "edge_codes st i = (case validate_graph_edge st i of Inl _ \<Rightarrow> [] | Inr (_, steps) \<Rightarrow> map step_code steps)"

definition node_codes :: "planning_store \<Rightarrow> string \<Rightarrow> string list" where
  "node_codes st i = (case validate_graph_node st i of Inl _ \<Rightarrow> [] | Inr (_, steps) \<Rightarrow> map step_code steps)"

lemma structural_steps_tick [simp]: "structural_steps (st\<lparr>tick := n\<rparr>) = structural_steps st"
  by (intro ext) (simp add: structural_steps_def list_outgoing_edges_for_node_def)

lemma validate_graph_edge_tick [simp]: "validate_graph_edge (st\<lparr>tick := n\<rparr>) i = validate_graph_edge st i"
  unfolding validate_graph_edge_def graph_tick structural_steps_tick ..

lemma no_fail_push_when [simp]: "Fail e \<notin> set (push_when c (Push s d m))"
  by (simp add: push_when_def)

lemma structural_steps_no_fail [simp]: "Fail e \<notin> set (structural_steps st edge sn tn)"
  by (simp add: structural_steps_def Let_def)

lemma validate_graph_edge_Inr: "\<exists>k steps. validate_graph_edge st i = Inr (k, steps) \<and> (\<forall>e. Fail e \<notin> set steps)"
  by (auto simp: validate_graph_edge_def Let_def split: sum.split)

text \<open>With a working clock, collecting the findings of a list of edges loses none of their codes.\<close>

lemma validate_edge_entity:
  assumes "\<And>n. env_now env n \<noteq> None"
  obtains fs n where "validate_entity env st EntityType_GraphEdge i = Inr (fs, st\<lparr>tick := n\<rparr>)"
    "map vf_code fs = edge_codes st i"
proof -
  obtain k steps where v: "validate_graph_edge st i = Inr (k, steps)" "\<And>e. Fail e \<notin> set steps"
    using validate_graph_edge_Inr by blast
  from stamp_findings_ok [OF assms v(2), of st EntityType_GraphEdge i k] obtain fs st' where
    s: "stamp_findings env st EntityType_GraphEdge i k steps = Inr (fs, st')" by (auto simp: is_ok_iff)
  with stamp_findings_codes [OF s] v(1) that show thesis
    by (auto simp: validate_entity_def validator_steps_def edge_codes_def)
qed

lemma edge_codes_tick [simp]: "edge_codes (st\<lparr>tick := n\<rparr>) i = edge_codes st i"
  by (simp add: edge_codes_def)

lemma collect_edge_findings_codes:
  assumes "\<And>n. env_now env n \<noteq> None"
  shows "map vf_code (fst (collect_edge_findings env st es)) = concat (map (\<lambda>e. edge_codes st (ge_id e)) es)"
proof (induction es arbitrary: st)
  case Nil
  then show ?case by simp
next
  case (Cons e es)
  obtain fs n where v: "validate_entity env st EntityType_GraphEdge (ge_id e) = Inr (fs, st\<lparr>tick := n\<rparr>)"
    "map vf_code fs = edge_codes st (ge_id e)" by (rule validate_edge_entity [OF assms])
  show ?case using Cons.IH [of "st\<lparr>tick := n\<rparr>"] v by (simp add: split_def)
qed

definition touching_edges :: "planning_store \<Rightarrow> planning_graph_node \<Rightarrow> planning_graph_edge list" where
  "touching_edges st node = list_incoming_edges_in_scope st (gn_id node) (gn_scope_key node) None
     @ list_outgoing_edges_in_scope st (gn_id node) (gn_scope_key node) None"

lemma list_edges_tick [simp]:
  "list_incoming_edges_in_scope (st\<lparr>tick := n\<rparr>) = list_incoming_edges_in_scope st"
  "list_outgoing_edges_in_scope (st\<lparr>tick := n\<rparr>) = list_outgoing_edges_in_scope st"
  by (intro ext, simp add: list_incoming_edges_in_scope_def list_outgoing_edges_in_scope_def
      list_incoming_edges_for_node_def list_outgoing_edges_for_node_def)+

definition blocking_codes :: "planning_store \<Rightarrow> planning_graph_node \<Rightarrow> string list" where
  "blocking_codes st node =
     node_codes st (gn_id node) @ concat (map (\<lambda>e. edge_codes st (ge_id e)) (touching_edges st node))"

lemma codes_among_iff: "codes_among codes fs = [] \<longleftrightarrow> set (map vf_code fs) \<inter> set codes = {}"
  by (auto simp: codes_among_def filter_empty_conv)

lemma finalize_gate_codes:
  assumes "finalize_gate env st node input = Inr st'" "\<And>n. env_now env n \<noteq> None"
  shows "set (blocking_codes st node) \<inter> set (structural_codes @ type_integrity_codes) = {}
    \<and> (set (blocking_codes st node) \<inter> set waivable_gap_codes = {} \<or> risk_accepted input)"
  using assms(1)
proof (cases rule: finalize_gate_Inr)
  case (1 nf st1 ef)
  from 1(1) obtain k steps where v: "validate_graph_node st (gn_id node) = Inr (k, steps)"
    and s: "stamp_findings env st EntityType_GraphNode (gn_id node) k steps = Inr (nf, st1)"
    by (auto simp: validate_entity_def validator_steps_def)
  from stamp_findings_codes [OF s] v obtain n where
    nf: "map vf_code nf = node_codes st (gn_id node)" and st1: "st1 = st\<lparr>tick := n\<rparr>"
    by (auto simp: node_codes_def)
  have "map vf_code ef = concat (map (\<lambda>e. edge_codes st (ge_id e)) (touching_edges st node))"
    using collect_edge_findings_codes [OF assms(2), of st1 "touching_edges st node"] 1(2)
    by (simp add: touching_edges_def st1)
  with nf have codes: "map vf_code (nf @ ef) = blocking_codes st node" by (simp add: blocking_codes_def)
  show ?thesis using 1(3-5) unfolding codes_among_iff codes by auto
qed

section \<open>Sample runs\<close>

definition link_input :: "string \<Rightarrow> string \<Rightarrow> string \<Rightarrow> create_graph_edge_input" where
  "link_input i s t = \<lparr>ce_id = Some i, ce_scope_key = None, ce_correlation_id = ''corr'',
     ce_kind = PlanningEdgeKind_DependsOn, ce_source_node_id = s, ce_target_node_id = t,
     ce_status = ''active'', ce_payload = JObj [], ce_run_id = None\<rparr>"

definition linked_store :: planning_store where
  "linked_store = (case create_graph_edge sample_env graph_store (link_input ''e3'' ''w2'' ''w3'') of
     Inr (_, st) \<Rightarrow> st | Inl _ \<Rightarrow> graph_store)"

lemmas edge_write_eval = create_graph_edge_def require_optional_id_def end_node_def id_or_new_def
  insert_planning_edge_def edge_row_ok_def active_duplicate_def edge_of_input_def

lemma linked_store_eq:
  "\<exists>r. create_graph_edge sample_env graph_store (link_input ''e3'' ''w2'' ''w3'') = Inr (r, linked_store)"
  by (simp add: linked_store_def link_input_def edge_write_eval edge_check_eval string_eval lookup_eval log_eval
      sample_eval Let_def)

section \<open>The invariant\<close>

text \<open>
  Claim C1. Every state the checked graph operations reach from a store that satisfies the graph
  invariant satisfies it: node and edge ids are distinct, the end points of every edge exist in its
  scope, differ and have kinds the edge may join, active edges are unique and the depends-on and
  decomposes-to edges are acyclic.
\<close>

theorem graph_reachable_inv:
  assumes "graph_inv st\<^sub>0" "reachable_from (graph_step env) st\<^sub>0 st"
  shows "graph_inv st"
  using graph_sys.reachable_inv [OF assms(2,1)] .

theorem graph_reachable_inv_witness:
  "reachable_from (graph_step sample_env) graph_store linked_store \<and> graph_inv linked_store"
proof -
  obtain r where "create_graph_edge sample_env graph_store (link_input ''e3'' ''w2'' ''w3'') = Inr (r, linked_store)"
    using linked_store_eq by blast
  then have "reachable_from (graph_step sample_env) graph_store linked_store"
    by (blast intro: reachable_from.intros step_create_edge)
  with graph_reachable_inv [OF graph_store_inv this] show ?thesis by blast
qed

text \<open>
  Claim C2. The validators of \<open>validation.rs\<close> are exact for the structure of the graph: the store
  satisfies the graph invariant if and only if its keys are distinct and no edge has a finding whose
  code starts with GRAPH-EDGE.
\<close>

theorem graph_validators_exact:
  "graph_inv st \<longleftrightarrow> graph_keys st \<and> list_all (\<lambda>e. edge_clean st (ge_id e)) (planning_edges st)"
  by (rule graph_inv_iff_clean)

text \<open>
  Claim C4. The depth-first search \<open>would_create_graph_cycle\<close> decides exactly whether an edge may be
  added: over an acyclic set of active edges it answers no if and only if the edges with the new one
  are still acyclic.
\<close>

theorem graph_cycle_check_exact:
  "acyclic (insert (s, t) (set (edge_pairs st k))) \<longleftrightarrow>
     acyclic (set (edge_pairs st k)) \<and> \<not> would_create_graph_cycle st s t k"
  by (rule graph_guard.insert_acyclic_iff)

section \<open>Accepting an edge\<close>

definition id_source_fresh :: "environment \<Rightarrow> planning_store \<Rightarrow> bool" where
  "id_source_fresh env st \<longleftrightarrow> (\<forall>n. env_new_id env n \<notin> set (event_ids st))"

lemma active_duplicate_filter:
  "active_duplicate st None r \<longleftrightarrow>
     filter (\<lambda>e. edge_key e = edge_key r \<and> ge_status e = ''active'') (planning_edges st) \<noteq> []"
  by (auto simp: active_duplicate_def list_ex_iff filter_empty_conv)

lemma edge_of_input_fields [simp]:
  "ge_id (edge_of_input input i k now) = i" "ge_scope_key (edge_of_input input i k now) = k"
  "ge_kind (edge_of_input input i k now) = ce_kind input"
  "ge_source_node_id (edge_of_input input i k now) = ce_source_node_id input"
  "ge_target_node_id (edge_of_input input i k now) = ce_target_node_id input"
  "ge_status (edge_of_input input i k now) = trim (ce_status input)"
  "edge_key (edge_of_input input i k now) = (k, ce_kind input, ce_source_node_id input, ce_target_node_id input)"
  by (simp_all add: edge_of_input_def edge_key_def)

lemma events_ok_cong: "planning_events st' = planning_events st \<Longrightarrow> events_ok st' = events_ok st"
  by (simp add: events_ok_def event_ids_def stream_sequences_def)

lemma edge_event_ok:
  assumes "insert_planning_edge (st\<lparr>tick := n\<rparr>) r = Inr st1" "\<And>n. env_now env n \<noteq> None"
    and "id_source_fresh env st" "events_ok st"
  shows "\<exists>st2. log_event env st1 EntityType_GraphEdge (ge_id r) EntityType_GraphNode x c run ty p = Inr st2"
proof -
  from assms(1) have st1: "st1 = st\<lparr>tick := n, planning_edges := planning_edges st @ [r]\<rparr>"
    and fresh: "find_row ge_id (ge_id r) (planning_edges st) = None"
    by (simp_all add: insert_planning_edge_Inr)
  have "find_row ge_id (ge_id r) (planning_edges st1) = Some r" using fresh by (simp add: st1 find_row_append)
  then have "is_ok (resolve_event_scope_key st1 EntityType_GraphEdge (ge_id r) EntityType_GraphNode x)"
    by (simp add: resolve_event_scope_key_def scope_key_for_entity.simps row_or_not_found_def)
  moreover have "events_ok st1" using assms(4) events_ok_cong [of st1 st] by (simp add: st1)
  moreover have "env_new_id env (tick st1) \<notin> set (event_ids st1)"
    using assms(3) by (simp add: id_source_fresh_def event_ids_def st1)
  ultimately show ?thesis using log_event_ok [OF _ assms(2)] by (auto simp: is_ok_iff)
qed

definition well_formed_edge_input :: "planning_store \<Rightarrow> create_graph_edge_input \<Rightarrow> string \<Rightarrow> bool" where
  "well_formed_edge_input st input i \<longleftrightarrow>
     ce_id input = Some i \<and> trim i \<noteq> [] \<and> find_row ge_id i (planning_edges st) = None
     \<and> trim (ce_correlation_id input) \<noteq> [] \<and> trim (ce_source_node_id input) \<noteq> []
     \<and> trim (ce_target_node_id input) \<noteq> [] \<and> is_kebab (trim (ce_status input))
     \<and> find_row sc_scope_key (normalized_scope_key (ce_scope_key input)) (scopes st) \<noteq> None"

lemma create_graph_edge_accepts:
  assumes env: "\<And>n. env_now env n \<noteq> None" "id_source_fresh env st" "events_ok st"
    and wf: "well_formed_edge_input st input i"
    and r: "\<And>now. edge_ok st (edge_of_input input i (normalized_scope_key (ce_scope_key input)) now)"
    and act: "\<And>now. trim (ce_status input) = ''active'' \<Longrightarrow>
      \<not> active_duplicate st None (edge_of_input input i (normalized_scope_key (ce_scope_key input)) now)
      \<and> no_new_cycle st (edge_of_input input i (normalized_scope_key (ce_scope_key input)) now)"
  shows "is_ok (create_graph_edge env st input)"
proof -
  let ?k = "normalized_scope_key (ce_scope_key input)" and ?s = "ce_source_node_id input" and ?t = "ce_target_node_id input"
  obtain t0 where t0: "env_now env (tick st) = Some t0" using env(1) by blast
  let ?r = "edge_of_input input i ?k t0"
  obtain src tgt where ends: "find_row gn_id ?s (planning_nodes st) = Some src" "find_row gn_id ?t (planning_nodes st) = Some tgt"
    "gn_scope_key src = ?k" "gn_scope_key tgt = ?k" "?s \<noteq> ?t"
    "validate_edge_kind_pair (ce_kind input) (gn_kind src) (gn_kind tgt) = Inr ()"
    using r [of t0] by (auto simp: edge_ok_iff is_ok_iff)
  have dup: "trim (ce_status input) = ''active'' \<Longrightarrow>
      filter (\<lambda>e. edge_key e = (?k, ce_kind input, ?s, ?t) \<and> ge_status e = ''active'') (planning_edges st) = []"
    and cyc: "trim (ce_status input) = ''active'' \<Longrightarrow> acyclic_kind (ce_kind input) \<Longrightarrow>
      \<not> would_create_graph_cycle st ?s ?t (ce_kind input)"
    using act [of t0] by (simp_all add: active_duplicate_filter no_new_cycle_def)
  have "edge_row_ok (st\<lparr>tick := Suc (tick st)\<rparr>) None ?r = Inr ()"
    using ends dup wf unfolding edge_row_ok_Inr active_duplicate_filter by (simp add: well_formed_edge_input_def)
  then obtain st1 where ins: "insert_planning_edge (st\<lparr>tick := Suc (tick st)\<rparr>) ?r = Inr st1"
    using wf by (auto simp: insert_planning_edge_def well_formed_edge_input_def)
  from edge_event_ok [OF ins env] obtain st2 where
    "log_event env st1 EntityType_GraphEdge i EntityType_GraphNode ?s (ce_correlation_id input) (ce_run_id input)
       ''graph-edge.created'' (graph_edge_json ?r) = Inr st2"
    by (metis edge_of_input_fields(1))
  moreover have "ensure_scope_exists st ?k = Inr ()"
    using wf by (auto simp: well_formed_edge_input_def ensure_scope_exists_def)
  moreover have "require_optional_id (ce_id input) = Inr ()"
    using wf by (simp add: require_optional_id_def well_formed_edge_input_def)
  ultimately have "create_graph_edge env st input = Inr (\<lparr>mr_record = ?r, mr_validation = from_findings []\<rparr>, st2)"
    using wf ends dup cyc ins t0 is_kebab_not_Nil [of "trim (ce_status input)"]
    by (auto simp: create_graph_edge_def Let_def id_or_new_def now_string_def well_formed_edge_input_def)
  then show ?thesis by simp
qed

text \<open>What the invariant asks of one more edge.\<close>

lemma edge_pairs_append:
  "edge_pairs (st\<lparr>planning_edges := planning_edges st @ [r]\<rparr>) k =
     edge_pairs st k @ (if ge_kind r = k \<and> ge_status r = ''active''
       then [(ge_source_node_id r, ge_target_node_id r)] else [])"
  by (simp add: edge_pairs_def)

lemma append_edge_acyclic_iff:
  assumes "\<And>k. acyclic_kind k \<Longrightarrow> acyclic (set (edge_pairs st k))"
  shows "(\<forall>k. acyclic_kind k \<longrightarrow> acyclic (set (edge_pairs (st\<lparr>planning_edges := planning_edges st @ [r]\<rparr>) k)))
    \<longleftrightarrow> no_new_cycle st r"
proof -
  have "acyclic (set (edge_pairs (st\<lparr>planning_edges := planning_edges st @ [r]\<rparr>) k)) \<longleftrightarrow>
      (ge_kind r = k \<and> ge_status r = ''active'' \<longrightarrow>
        \<not> would_create_graph_cycle st (ge_source_node_id r) (ge_target_node_id r) k)" if "acyclic_kind k" for k
  proof (cases "ge_kind r = k \<and> ge_status r = ''active''")
    case True
    with assms [OF that] show ?thesis
      by (simp add: edge_pairs_append acyclic_insert graph_guard.check_iff)
  next
    case False
    then have "edge_pairs (st\<lparr>planning_edges := planning_edges st @ [r]\<rparr>) k = edge_pairs st k"
      unfolding edge_pairs_append by (simp only: if_not_P append_Nil2 if_False)
    with assms [OF that] False show ?thesis by auto
  qed
  then show ?thesis by (auto simp: no_new_cycle_def)
qed

lemma active_keys_append:
  "active_keys (st\<lparr>planning_edges := planning_edges st @ [r]\<rparr>) =
     active_keys st @ (if ge_status r = ''active'' then [edge_key r] else [])"
  by (simp add: active_keys_def)

lemma active_duplicate_key: "active_duplicate st None r \<longleftrightarrow> edge_key r \<in> set (active_keys st)"
  by (auto simp: active_duplicate_def active_keys_def list_ex_iff image_iff)

lemma append_edge_inv_iff:
  assumes inv: "graph_inv st" and fresh: "find_row ge_id (ge_id r) (planning_edges st) = None"
  shows "graph_inv (st\<lparr>planning_edges := planning_edges st @ [r]\<rparr>) \<longleftrightarrow>
    edge_ok st r \<and> (ge_status r = ''active'' \<longrightarrow> \<not> active_duplicate st None r) \<and> no_new_cycle st r"
proof -
  let ?st = "st\<lparr>planning_edges := planning_edges st @ [r]\<rparr>"
  have "edge_ok ?st e = edge_ok st e" for e by (rule edge_ok_cong) simp
  then have "list_all (edge_ok ?st) (planning_edges ?st) \<longleftrightarrow> edge_ok st r"
    using inv by (auto simp: graph_inv_def list_all_iff)
  moreover have "graph_keys ?st" using inv fresh by (auto simp: graph_inv_def graph_keys_def find_row_None_iff)
  moreover have "distinct (active_keys ?st) \<longleftrightarrow> (ge_status r = ''active'' \<longrightarrow> \<not> active_duplicate st None r)"
    using inv active_duplicate_key [of st r] by (auto simp: graph_inv_def active_keys_append)
  moreover have "(\<forall>k. acyclic_kind k \<longrightarrow> acyclic (set (edge_pairs ?st k))) \<longleftrightarrow> no_new_cycle st r"
    by (rule append_edge_acyclic_iff) (use inv in \<open>simp add: graph_inv_def\<close>)
  ultimately show ?thesis by (simp add: graph_inv_def)
qed

text \<open>
  Claim C3. On a store that satisfies the graph invariant, and for an input whose fields are well formed and
  whose id is new, \<open>create_graph_edge\<close> accepts the edge if and only if the store with the edge added to it
  satisfies the graph invariant: no other edge is refused, and none that breaks the invariant is
  accepted. The clock has to work and the UUID source to be fresh.
\<close>

theorem create_graph_edge_decides:
  assumes "graph_inv st" "\<And>n. env_now env n \<noteq> None" "id_source_fresh env st" "events_ok st"
    and "well_formed_edge_input st input i"
    and "r = edge_of_input input i (normalized_scope_key (ce_scope_key input)) now"
  shows "is_ok (create_graph_edge env st input) \<longleftrightarrow>
    graph_inv (st\<lparr>planning_edges := planning_edges st @ [r]\<rparr>)"
proof -
  have "find_row ge_id (ge_id r) (planning_edges st) = None"
    using assms(5) by (simp add: assms(6) well_formed_edge_input_def)
  note inv_iff = append_edge_inv_iff [OF assms(1) this]
  show ?thesis unfolding inv_iff
  proof
    assume "is_ok (create_graph_edge env st input)"
    then obtain res st' where ok: "create_graph_edge env st input = Inr (res, st')" by (auto simp: is_ok_iff)
    from ok obtain now' n m st1 where
      res: "mr_record res = edge_of_input input (chosen_id env m (ce_id input)) (normalized_scope_key (ce_scope_key input)) now'"
      and ins: "insert_planning_edge (st\<lparr>tick := n\<rparr>) (mr_record res) = Inr st1"
      and good: "edge_ok st (mr_record res)" "no_new_cycle st (mr_record res)"
      by (rule create_graph_edge_effect) (rule that)
    then show "edge_ok st r \<and> (ge_status r = ''active'' \<longrightarrow> \<not> active_duplicate st None r) \<and> no_new_cycle st r"
      by (auto simp: insert_planning_edge_Inr edge_row_ok_Inr active_duplicate_def no_new_cycle_def edge_ok_iff assms(6))
  next
    assume "edge_ok st r \<and> (ge_status r = ''active'' \<longrightarrow> \<not> active_duplicate st None r) \<and> no_new_cycle st r"
    then show "is_ok (create_graph_edge env st input)"
      by (intro create_graph_edge_accepts [OF assms(2-5)])
        (simp_all add: assms(6) edge_ok_iff no_new_cycle_def active_duplicate_filter)
  qed
qed

lemma sample_env_fresh: "id_source_fresh sample_env graph_store"
  by (simp add: id_source_fresh_def event_ids_def sample_eval)

lemma graph_store_events_ok: "events_ok graph_store"
  by (simp add: events_ok_def event_ids_def stream_sequences_def sample_eval)

theorem create_graph_edge_decides_witness:
  "\<not> is_ok (create_graph_edge sample_env graph_store (link_input ''e3'' ''w2'' ''w1''))
   \<and> is_ok (create_graph_edge sample_env graph_store (link_input ''e3'' ''w2'' ''w3''))"
proof -
  have clock: "\<And>n. env_now sample_env n \<noteq> None" by (simp add: sample_env_def sample_env_at_def)
  have wf: "well_formed_edge_input graph_store (link_input ''e3'' ''w2'' t) ''e3''" if "trim t \<noteq> []" for t
    using that by (simp add: well_formed_edge_input_def link_input_def sample_eval string_eval)
  note decide = create_graph_edge_decides [OF graph_store_inv clock sample_env_fresh graph_store_events_ok wf refl]
  have "\<not> graph_inv (graph_store\<lparr>planning_edges := planning_edges graph_store @
      [edge_of_input (link_input ''e3'' ''w2'' ''w1'') ''e3'' ''default'' []]\<rparr>)"
    by (subst append_edge_inv_iff [OF graph_store_inv])
      (simp_all add: no_new_cycle_def link_input_def edge_check_eval sample_eval string_eval)
  then have "\<not> is_ok (create_graph_edge sample_env graph_store (link_input ''e3'' ''w2'' ''w1''))"
    using decide [of "''w1''" "[]"] by (simp add: link_input_def string_eval)
  moreover have "graph_inv (graph_store\<lparr>planning_edges := planning_edges graph_store @
      [edge_of_input (link_input ''e3'' ''w2'' ''w3'') ''e3'' ''default'' []]\<rparr>)"
    by (subst append_edge_inv_iff [OF graph_store_inv])
      (simp_all add: link_input_def string_eval edge_ok_iff no_new_cycle_def active_duplicate_def edge_check_eval sample_eval)
  then have "is_ok (create_graph_edge sample_env graph_store (link_input ''e3'' ''w2'' ''w3''))"
    using decide [of "''w3''" "[]"] by (simp add: link_input_def string_eval)
  ultimately show ?thesis by blast
qed

section \<open>Finalization\<close>

text \<open>
  A sound edge: both ends exist in its scope, with kinds the edge may join; an active edge has no active
  twin and closes no cycle of a kind that has to be acyclic.
\<close>

definition edge_sound :: "planning_store \<Rightarrow> planning_graph_edge \<Rightarrow> bool" where
  "edge_sound st e \<longleftrightarrow>
     (\<exists>s t. find_row gn_id (ge_source_node_id e) (planning_nodes st) = Some s
        \<and> find_row gn_id (ge_target_node_id e) (planning_nodes st) = Some t
        \<and> gn_scope_key s = ge_scope_key e \<and> gn_scope_key t = ge_scope_key e
        \<and> is_ok (validate_edge_kind_pair (ge_kind e) (gn_kind s) (gn_kind t)))
   \<and> (ge_status e = ''active'' \<longrightarrow>
        (\<forall>e' \<in> set (planning_edges st). ge_status e' = ''active'' \<and> edge_key e' = edge_key e \<longrightarrow> ge_id e' = ge_id e)
        \<and> (acyclic_kind (ge_kind e) \<longrightarrow>
            (ge_target_node_id e, ge_source_node_id e) \<notin> (set (edge_pairs st (ge_kind e)))\<^sup>*))"

lemma structural_steps_sound:
  "list_all (\<lambda>s. step_code s \<notin> set structural_codes) (structural_steps st e sn tn) \<longleftrightarrow>
     gn_scope_key sn = ge_scope_key e \<and> gn_scope_key tn = ge_scope_key e
   \<and> is_ok (validate_edge_kind_pair (ge_kind e) (gn_kind sn) (gn_kind tn))
   \<and> (ge_status e = ''active'' \<longrightarrow>
        (\<forall>e' \<in> set (planning_edges st). ge_status e' = ''active'' \<and> edge_key e' = edge_key e \<longrightarrow> ge_id e' = ge_id e)
        \<and> (acyclic_kind (ge_kind e) \<longrightarrow>
            (ge_target_node_id e, ge_source_node_id e) \<notin> (set (edge_pairs st (ge_kind e)))\<^sup>*))"
  unfolding structural_steps_def Let_def list_all_append list_all_push_when structural_codes_def graph_guard.check_iff
  by (simp add: filter_empty_conv edge_key_def) blast

lemma edge_sound_codes:
  assumes "find_row ge_id (ge_id e) (planning_edges st) = Some e"
    and "set (edge_codes st (ge_id e)) \<inter> set structural_codes = {}"
  shows "edge_sound st e"
proof -
  from assms(1) obtain steps where v: "validate_graph_edge st (ge_id e) = Inr (ge_scope_key e, steps)"
    by (simp add: validate_graph_edge_def load_graph_edge_def row_or_not_found_def Let_def)
  have steps: "Inr (ge_scope_key e, steps) = validate_graph_edge st (ge_id e)" by (simp add: v)
  have free: "list_all (\<lambda>s. step_code s \<notin> set structural_codes) steps"
    using assms(2) by (auto simp: edge_codes_def v list_all_iff)
  then have "is_ok (load_graph_node st (ge_source_node_id e))" "is_ok (load_graph_node st (ge_target_node_id e))"
    using steps assms(1) by (simp_all add: validate_graph_edge_def load_graph_edge_def row_or_not_found_def Let_def
        structural_codes_def)
  then obtain sn tn where nodes: "load_graph_node st (ge_source_node_id e) = Inr sn"
    "load_graph_node st (ge_target_node_id e) = Inr tn"
    by (auto simp: is_ok_iff)
  have "list_all (\<lambda>s. step_code s \<notin> set structural_codes) (structural_steps st e sn tn)"
    using free steps assms(1)
    by (simp add: nodes validate_graph_edge_def load_graph_edge_def row_or_not_found_def Let_def)
  with nodes show ?thesis unfolding structural_steps_sound by (simp add: edge_sound_def load_graph_node_def)
qed

text \<open>The typed payload of a node, and its acceptance and evidence gaps.\<close>

definition payload_kind_ok :: "planning_graph_node \<Rightarrow> bool" where
  "payload_kind_ok node \<longleftrightarrow>
     (gn_kind node = PlanningNodeKind_Acceptance \<longrightarrow>
        json_str_or_empty ''acceptanceKind'' (gn_payload node) \<in> {''abstract'', ''concrete''})
   \<and> (gn_kind node = PlanningNodeKind_Evidence \<longrightarrow>
        is_ok (evidence_kind_from_str (json_str_or_empty ''evidenceKind'' (gn_payload node))))"

definition no_gaps :: "planning_store \<Rightarrow> planning_graph_node \<Rightarrow> bool" where
  "no_gaps st node \<longleftrightarrow> (gn_kind node = PlanningNodeKind_Acceptance \<longrightarrow>
     (json_str_or_empty ''acceptanceKind'' (gn_payload node) = ''abstract'' \<longrightarrow> has_active_coverage st node)
   \<and> (json_str_or_empty ''acceptanceKind'' (gn_payload node) = ''concrete'' \<longrightarrow>
        (\<forall>k \<in> set (payload_str_list ''requiredEvidenceKinds'' (gn_payload node)). evidence_kind_covered st node k)))"

lemma list_all_concat_map: "list_all P (concat (map f xs)) \<longleftrightarrow> (\<forall>x \<in> set xs. list_all P (f x))"
  by (auto simp: list_all_iff)

lemma node_codes_sound:
  assumes "find_row gn_id (gn_id node) (planning_nodes st) = Some node"
  shows "set (node_codes st (gn_id node)) \<inter> set type_integrity_codes = {} \<Longrightarrow> payload_kind_ok node"
    and "set (node_codes st (gn_id node)) \<inter> set waivable_gap_codes = {} \<Longrightarrow> no_gaps st node"
proof -
  from assms obtain steps where v: "validate_graph_node st (gn_id node) = Inr (gn_scope_key node, steps)"
    by (simp add: validate_graph_node_def load_graph_node_def row_or_not_found_def Let_def)
  have free: "set (node_codes st (gn_id node)) \<inter> C = {} \<longleftrightarrow> list_all (\<lambda>s. step_code s \<notin> C) steps" for C
    by (auto simp: node_codes_def v list_all_iff)
  have steps: "Inr (gn_scope_key node, steps) = validate_graph_node st (gn_id node)" by (simp add: v)
  have kind: "is_ok (acceptance_kind_from_str t) \<longleftrightarrow> t \<in> {''abstract'', ''concrete''}" for t
    by (simp add: acceptance_kind_from_str_def enum_from_str_def match_str_def)
  show "payload_kind_ok node" if "set (node_codes st (gn_id node)) \<inter> set type_integrity_codes = {}"
    using that steps assms unfolding free
    by (cases "gn_kind node = PlanningNodeKind_Acceptance")
      (simp_all add: payload_kind_ok_def validate_graph_node_def load_graph_node_def row_or_not_found_def Let_def
        list_all_concat_map type_integrity_codes_def kind)
  show "no_gaps st node" if "set (node_codes st (gn_id node)) \<inter> set waivable_gap_codes = {}"
    using that steps assms unfolding free
    by (cases "gn_kind node = PlanningNodeKind_Acceptance")
      (auto simp: no_gaps_def validate_graph_node_def load_graph_node_def row_or_not_found_def Let_def
        list_all_concat_map waivable_gap_codes_def)
qed

lemma set_touching_edges:
  "set (touching_edges st node) = {e \<in> set (planning_edges st). ge_scope_key e = gn_scope_key node
     \<and> gn_id node \<in> {ge_source_node_id e, ge_target_node_id e}}"
  by (auto simp: touching_edges_def list_incoming_edges_in_scope_def list_outgoing_edges_in_scope_def
      list_incoming_edges_for_node_def list_outgoing_edges_for_node_def)

text \<open>
  Claim C5. When a node was finalized, every edge of its scope that touches it was sound: both ends existed
  in the scope with kinds the edge may join, an active edge had no active twin and closed no cycle of
  depends-on or decomposes-to edges. The typed payload of the node was valid, and acceptance or evidence
  gaps were there only if the caller accepted the risk. The stored node has the requested status and the
  next revision. (An edge from the node to itself of another kind does not stop the gate.)
\<close>

theorem finalize_gate_sound:
  assumes "finalize_graph_node env st input = Inr (res, st')" "\<And>n. env_now env n \<noteq> None" "graph_keys st"
  shows "\<exists>node. find_row gn_id (fz_node_id input) (planning_nodes st) = Some node
    \<and> (\<forall>e \<in> set (planning_edges st). ge_scope_key e = gn_scope_key node
         \<and> fz_node_id input \<in> {ge_source_node_id e, ge_target_node_id e} \<longrightarrow> edge_sound st e)
    \<and> payload_kind_ok node \<and> (no_gaps st node \<or> risk_accepted input)
    \<and> (\<exists>node'. find_row gn_id (fz_node_id input) (planning_nodes st') = Some node'
         \<and> gn_status node' = trim (fz_status input) \<and> gn_revision node' = gn_revision node + 1)"
proof -
  from assms(1) obtain now st1 n node where node: "find_row gn_id (fz_node_id input) (planning_nodes st) = Some node"
    and gate: "finalize_gate env st node input = Inr st1"
    and core: "core st' = core (update_planning_node (st1\<lparr>tick := n\<rparr>) (fz_node_id input)
       (\<lambda>r. r\<lparr>gn_status := trim (fz_status input), gn_revision := gn_revision r + 1, gn_updated_at := now\<rparr>))"
    by (rule finalize_graph_node_effect) (rule that)
  have id: "gn_id node = fz_node_id input" using find_row_SomeD [OF node] by blast
  have nodes: "planning_nodes st1 = planning_nodes st"
    using core_fields(12) [OF finalize_gate_core [OF gate]] .
  have stored: "find_row gn_id (fz_node_id input) (planning_nodes st') =
      Some (node\<lparr>gn_status := trim (fz_status input), gn_revision := gn_revision node + 1, gn_updated_at := now\<rparr>)"
    using core_fields(12) [OF core] node find_row_SomeD [OF node]
    by (simp add: update_planning_node_def nodes find_row_update_where)
  note codes = finalize_gate_codes [OF gate assms(2)]
  have "edge_sound st e" if "e \<in> set (touching_edges st node)" for e
  proof (rule edge_sound_codes)
    show "find_row ge_id (ge_id e) (planning_edges st) = Some e"
      using that assms(3) by (simp add: set_touching_edges graph_keys_def find_row_distinct)
    show "set (edge_codes st (ge_id e)) \<inter> set structural_codes = {}"
      using that codes by (auto simp: blocking_codes_def)
  qed
  moreover have "payload_kind_ok node" "no_gaps st node \<or> risk_accepted input"
    using node_codes_sound [of node st] node codes by (auto simp: id blocking_codes_def)
  ultimately show ?thesis using node stored by (auto simp: set_touching_edges id)
qed

definition finalize_input :: "string \<Rightarrow> finalize_graph_node_input" where
  "finalize_input i = \<lparr>fz_node_id = i, fz_correlation_id = ''corr'', fz_active_scope_key = None,
     fz_status = ''done'', fz_accepted_risk = None, fz_run_id = None\<rparr>"

lemmas finalize_eval = finalize_graph_node_def finalize_gate_def finalize_event_def risk_accepted_def codes_among_def
  structural_codes_def type_integrity_codes_def waivable_gap_codes_def status_payload_def update_planning_node_def
  update_where_def refresh_validation_target_def persist_validation_findings_def

lemmas validate_eval = validate_entity_def validator_steps_def validate_graph_node_def validate_graph_edge_def
  structural_steps_def is_valid_status_def push_when_def json_str_or_empty_def finding_def
  list_incoming_edges_in_scope_def list_outgoing_edges_in_scope_def list_incoming_edges_for_node_def
  list_outgoing_edges_for_node_def edge_order_def

definition finalized :: "(planning_graph_node mutation_result \<times> planning_store) result" where
  "finalized = finalize_graph_node sample_env graph_store (finalize_input ''w2'')"

lemma finalized_ok: "is_ok finalized"
  by (simp add: finalized_def finalize_input_def finalize_eval validate_eval edge_check_eval string_eval lookup_eval
      log_eval sample_eval Let_def)

theorem finalize_gate_sound_witness:
  "\<exists>res st'. finalize_graph_node sample_env graph_store (finalize_input ''w2'') = Inr (res, st')
     \<and> edge_sound graph_store (sample_edge ''e1'' PlanningEdgeKind_DependsOn ''w1'' ''w2'')"
proof -
  from finalized_ok obtain res st' where
    f: "finalize_graph_node sample_env graph_store (finalize_input ''w2'') = Inr (res, st')"
    by (auto simp: is_ok_iff finalized_def)
  have clock: "\<And>n. env_now sample_env n \<noteq> None" by (simp add: sample_env_def sample_env_at_def)
  have keys: "graph_keys graph_store" using graph_store_inv by (simp add: graph_inv_def)
  have node: "find_row gn_id (fz_node_id (finalize_input ''w2'')) (planning_nodes graph_store) =
      Some (sample_node ''w2'' PlanningNodeKind_Work)"
    by (simp add: finalize_input_def sample_eval)
  have edge: "sample_edge ''e1'' PlanningEdgeKind_DependsOn ''w1'' ''w2'' \<in> set (planning_edges graph_store)"
    "ge_scope_key (sample_edge ''e1'' PlanningEdgeKind_DependsOn ''w1'' ''w2'') =
      gn_scope_key (sample_node ''w2'' PlanningNodeKind_Work)"
    "ge_target_node_id (sample_edge ''e1'' PlanningEdgeKind_DependsOn ''w1'' ''w2'') = fz_node_id (finalize_input ''w2'')"
    by (simp_all add: finalize_input_def sample_eval)
  from finalize_gate_sound [OF f clock keys] node edge f show ?thesis by auto
qed

definition self_loop_store :: planning_store where
  "self_loop_store = empty_store
     \<lparr>planning_nodes := [sample_node ''w1'' PlanningNodeKind_Work],
      planning_edges := [sample_edge ''e1'' PlanningEdgeKind_ParallelSafeWith ''w1'' ''w1'']\<rparr>"

text \<open>
  Finalization does not treat a self-loop as structural corruption: there is a store whose
  validator reports GRAPH-EDGE-SELF-LOOP for the only edge at a node, and the node is finalized
  nevertheless, without an accepted risk.
\<close>

lemma finalize_ignores_self_loop:
  "edge_codes self_loop_store ''e1'' = [''GRAPH-EDGE-SELF-LOOP'']
   \<and> is_ok (finalize_graph_node sample_env self_loop_store (finalize_input ''w1''))"
  by (simp add: self_loop_store_def edge_codes_def finalize_input_def finalize_eval validate_eval edge_check_eval
      string_eval lookup_eval log_eval sample_eval Let_def)

section \<open>Manifests\<close>

text \<open>
  Applying a manifest, whatever conflicts it meets, keeps the shape of the graph: distinct
  keys, good edges and unique active edges.
\<close>

lemma apply_manifest_shape:
  assumes "graph_shape st" "apply_manifest env st parsed dry_run = Inr (res, st')"
  shows "graph_shape st'"
  using assms(2)
proof (rule apply_manifest_Inr)
  fix k res1 st1 st2
  assume nodes: "foldE (apply_manifest_node env k) (empty_apply_result parsed, st) (pm_nodes parsed) = Inr (res1, st1)"
    and edges: "foldE (apply_manifest_edge env k) (res1, st1) (pm_edges parsed) = Inr (res, st2)"
    and st': "st' = (if dry_run then st\<lparr>tick := tick st2\<rparr> else st2)"
  from apply_nodes_keep [OF nodes] assms(1) have "graph_shape st1" by blast
  from apply_edges_shape [OF edges this] assms(1) st' show "graph_shape st'" by simp
qed

text \<open>
  When no edge of the manifest carries an id that is already in use (in the store, twice in
  the manifest, or by the UUID source), applying it keeps the whole graph invariant, acyclicity
  included.
\<close>

lemma apply_manifest_fresh_inv:
  assumes "graph_inv st" "apply_manifest env st parsed dry_run = Inr (res, st')"
    and "distinct (explicit_ids (pm_edges parsed))"
    and "set (explicit_ids (pm_edges parsed)) \<inter> ge_id ` set (planning_edges st) = {}"
    and "set (explicit_ids (pm_edges parsed)) \<inter> range (env_new_id env) = {}"
  shows "graph_inv st'"
  using assms(2)
proof (rule apply_manifest_Inr)
  fix k res1 st1 st2
  assume nodes: "foldE (apply_manifest_node env k) (empty_apply_result parsed, st) (pm_nodes parsed) = Inr (res1, st1)"
    and edges: "foldE (apply_manifest_edge env k) (res1, st1) (pm_edges parsed) = Inr (res, st2)"
    and st': "st' = (if dry_run then st\<lparr>tick := tick st2\<rparr> else st2)"
  from apply_nodes_keep [OF nodes] assms(1) have "graph_inv st1" "planning_edges st1 = planning_edges st" by auto
  with apply_edges_inv_fresh [OF edges _ assms(3) _ assms(5)] assms(1,4) st' show "graph_inv st'" by simp
qed

definition edge_manifest :: "create_graph_edge_input list \<Rightarrow> parsed_manifest" where
  "edge_manifest inputs = \<lparr>pm_scope = ''default'', pm_nodes = [], pm_edges = inputs\<rparr>"

lemmas manifest_eval = apply_manifest_def apply_manifest_edge_def apply_manifest_node_def upsert_graph_edge_in_tx_def
  upsert_graph_node_in_tx_def empty_apply_result_def edge_manifest_def link_input_def end_node_def
  update_planning_edge_def overwrite_edge_def update_where_def edge_row_ok_def active_duplicate_def
  matching_active_edge_def id_or_new_def insert_planning_edge_def edge_of_input_def

definition manifest_store :: planning_store where
  "manifest_store = (case apply_manifest sample_env graph_store (edge_manifest [link_input ''e3'' ''w2'' ''w3'']) False of
     Inr (_, st) \<Rightarrow> st | Inl _ \<Rightarrow> graph_store)"

lemma manifest_store_eq:
  "\<exists>res. apply_manifest sample_env graph_store (edge_manifest [link_input ''e3'' ''w2'' ''w3'']) False = Inr (res, manifest_store)"
  by (simp add: manifest_store_def manifest_eval edge_check_eval string_eval lookup_eval log_eval sample_eval Let_def)

lemma apply_manifest_fresh_inv_witness: "graph_inv manifest_store"
proof -
  obtain res where "apply_manifest sample_env graph_store (edge_manifest [link_input ''e3'' ''w2'' ''w3'']) False =
      Inr (res, manifest_store)" using manifest_store_eq by blast
  from apply_manifest_fresh_inv [OF graph_store_inv this] show ?thesis
    by (simp add: edge_manifest_def explicit_ids_def link_input_def sample_eval image_iff)
qed

lemma apply_manifest_shape_witness: "graph_shape manifest_store"
proof -
  obtain res where "apply_manifest sample_env graph_store (edge_manifest [link_input ''e3'' ''w2'' ''w3'']) False =
      Inr (res, manifest_store)" using manifest_store_eq by blast
  from apply_manifest_shape [OF _ this] graph_store_inv show ?thesis by (simp add: graph_inv_shape)
qed



text \<open>
  A dry run leaves every table of the store as it was.
\<close>

lemma apply_manifest_dry_run:
  assumes "apply_manifest env st parsed True = Inr (res, st')"
  shows "\<exists>n. st' = st\<lparr>tick := n\<rparr>"
  using assms by (auto simp: apply_manifest_def Let_def)

text \<open>
  The result of applying a manifest never lists a revised node or a revised edge: an existing
  node is compared with the input only after the input was written to it.
\<close>

lemma apply_manifest_never_revised:
  assumes "apply_manifest env st parsed dry_run = Inr (res, st')"
  shows "ma_revised_nodes res = [] \<and> ma_revised_edges res = []"
proof -
  let ?P = "\<lambda>(r, s). ma_revised_nodes r = [] \<and> ma_revised_edges r = []"
  from assms show ?thesis
  proof (rule apply_manifest_Inr)
    fix k res1 st1 st2
    assume nodes: "foldE (apply_manifest_node env k) (empty_apply_result parsed, st) (pm_nodes parsed) = Inr (res1, st1)"
      and edges: "foldE (apply_manifest_edge env k) (res1, st1) (pm_edges parsed) = Inr (res, st2)"
    have "?P (res1, st1)"
      by (rule foldE_invariant [OF nodes])
        (auto simp: empty_apply_result_def apply_node_revised apply_node_revised_edges)
    then have "?P (res, st2)"
      by (rule foldE_invariant [OF edges]) (auto simp: apply_edge_revised apply_edge_revised_edges)
    then show ?thesis by simp
  qed
qed

section \<open>Bulk status changes\<close>

definition set_status :: "string \<Rightarrow> string \<Rightarrow> planning_graph_node \<Rightarrow> planning_graph_node" where
  "set_status x now r = r\<lparr>gn_status := x, gn_revision := gn_revision r + 1, gn_updated_at := now\<rparr>"

lemma find_row_set_status_one:
  "find_row gn_id j (planning_nodes (update_planning_node st i (set_status x now))) =
     map_option (\<lambda>r. if j = i then set_status x now r else r) (find_row gn_id j (planning_nodes st))"
proof -
  have id: "\<And>r. gn_id (set_status x now r) = gn_id r" by (simp add: set_status_def)
  show ?thesis
    by (cases "find_row gn_id j (planning_nodes st)")
      (auto simp: update_planning_node_def find_row_update_where [where key = gn_id and f = "set_status x now", OF id]
        dest!: find_row_SomeD)
qed

lemma find_row_set_status:
  "find_row gn_id j (planning_nodes (fold (\<lambda>i st. update_planning_node st i (set_status x now)) ids st)) =
     map_option (\<lambda>r. if j \<in> set ids
       then r\<lparr>gn_status := x, gn_revision := gn_revision r + int (count_list ids j), gn_updated_at := now\<rparr> else r)
     (find_row gn_id j (planning_nodes st))"
proof (induction ids arbitrary: st)
  case Nil
  then show ?case by (simp add: option.map_ident)
next
  case (Cons i ids)
  show ?case
    unfolding fold_Cons comp_def Cons.IH find_row_set_status_one
    by (cases "find_row gn_id j (planning_nodes st)")
      (auto simp: set_status_def count_notin)
qed

lemma fold_set_status_edges [simp]:
  "planning_edges (fold (\<lambda>i st. update_planning_node st i (set_status x now)) ids st) = planning_edges st"
  by (induction ids arbitrary: st) (simp_all add: update_planning_node_def)

lemma map_fst_map_filter:
  assumes "\<And>i p. g i = Some p \<Longrightarrow> fst p = i"
  shows "map fst (List.map_filter g ids) = filter (\<lambda>i. g i \<noteq> None) ids"
proof (induction ids)
  case (Cons i ids)
  then show ?case using assms [of i] by (cases "g i") auto
qed simp

lemma bulk_rejection_None:
  "bulk_rejection st k i = None \<longleftrightarrow> scope_key_for_entity st EntityType_GraphNode i = Inr k"
  by (cases "find_row gn_id i (planning_nodes st)")
    (simp_all add: bulk_rejection_def scope_key_for_entity.simps load_graph_node_def row_or_not_found_def)

lemma bulk_rejection_id: "bulk_rejection st k i = Some p \<Longrightarrow> fst p = i"
  by (auto simp: bulk_rejection_def split: sum.split_asm if_split_asm)

lemma bulk_partition:
  assumes "rejected = List.map_filter (bulk_rejection st k) ids"
  shows "length ids = length (filter (\<lambda>i. i \<notin> fst ` set rejected) ids) + length rejected
    \<and> (\<forall>i\<in>set ids. i \<notin> fst ` set rejected \<longleftrightarrow> scope_key_for_entity st EntityType_GraphNode i = Inr k)"
proof -
  let ?bad = "\<lambda>i. bulk_rejection st k i \<noteq> None"
  have ids: "map fst rejected = filter ?bad ids"
    unfolding assms by (rule map_fst_map_filter) (rule bulk_rejection_id)
  then have rej: "fst ` set rejected = {i \<in> set ids. ?bad i}" by (metis set_filter set_map)
  have "length rejected = length (filter ?bad ids)" using ids by (metis length_map)
  moreover have "filter (\<lambda>i. i \<notin> fst ` set rejected) ids = filter (\<lambda>i. \<not> ?bad i) ids"
    unfolding rej by (rule filter_cong) auto
  ultimately show ?thesis using sum_length_filter_compl [of ?bad ids] rej by (simp add: bulk_rejection_None)
qed

text \<open>
  A bulk transition splits the matched ids: the transitioned ids are those of nodes of the
  scope, the others are rejected, and the counts add up. A node of the store that is not among the
  transitioned ids is unchanged; one that is has the requested status and one more revision per
  occurrence of its id; nothing else of it changes but the time.
\<close>

lemma bulk_transition_exact:
  assumes "bulk_update_graph_node_status env st input = Inr (res, st')"
  shows "br_total_matched res = length (br_transitioned res) + length (br_rejected res)
    \<and> br_total_transitioned res = length (br_transitioned res)
    \<and> (\<forall>i\<in>set (br_transitioned res). scope_key_for_entity st EntityType_GraphNode i = Inr (normalize_scope_key_value (bt_scope_key input)))
    \<and> planning_edges st' = planning_edges st
    \<and> (\<exists>now. \<forall>j. find_row gn_id j (planning_nodes st') =
        map_option (\<lambda>r. if j \<in> set (br_transitioned res)
          then r\<lparr>gn_status := bt_status input, gn_revision := gn_revision r + int (count_list (br_transitioned res) j),
                 gn_updated_at := now\<rparr> else r)
        (find_row gn_id j (planning_nodes st)))"
proof -
  let ?k = "normalize_scope_key_value (bt_scope_key input)"
  from assms obtain now ids where now: "env_now env (tick st) = Some now"
    and ids: "bulk_node_ids (st\<lparr>tick := Suc (tick st)\<rparr>) input = Inr ids"
    unfolding bulk_update_graph_node_status_def Let_def by (auto simp: now_string_Inr_iff)
  define st1 where "st1 = st\<lparr>tick := Suc (tick st)\<rparr>"
  define rejected where "rejected = List.map_filter (bulk_rejection st1 ?k) ids"
  define moved where "moved = filter (\<lambda>i. i \<notin> fst ` set rejected) ids"
  have upd: "(\<lambda>i st. update_planning_node st i (\<lambda>r.
      r\<lparr>gn_status := bt_status input, gn_revision := gn_revision r + 1, gn_updated_at := now\<rparr>)) =
      (\<lambda>i st. update_planning_node st i (set_status (bt_status input) now))"
    by (simp add: set_status_def [abs_def])
  have "br_transitioned res = moved \<and> br_rejected res = rejected \<and> br_total_matched res = length ids
      \<and> br_total_transitioned res = length moved
      \<and> st' = fold (\<lambda>i st. update_planning_node st i (set_status (bt_status input) now)) moved st1"
    using assms ids now
    by (cases "ids = []") (auto simp: bulk_update_graph_node_status_def now_string_def Let_def st1_def [symmetric]
        moved_def rejected_def upd)
  then have r: "br_transitioned res = moved" "br_rejected res = rejected" "br_total_matched res = length ids"
    "br_total_transitioned res = length moved"
    "st' = fold (\<lambda>i st. update_planning_node st i (set_status (bt_status input) now)) moved st1"
    by blast+
  have nodes: "\<forall>j. find_row gn_id j (planning_nodes st') =
      map_option (\<lambda>r. if j \<in> set moved
          then r\<lparr>gn_status := bt_status input, gn_revision := gn_revision r + int (count_list moved j),
                 gn_updated_at := now\<rparr> else r) (find_row gn_id j (planning_nodes st))"
    by (simp add: r(5) find_row_set_status st1_def)
  have part: "length ids = length moved + length rejected"
    "\<forall>i\<in>set moved. scope_key_for_entity st EntityType_GraphNode i = Inr ?k"
    using bulk_partition [OF rejected_def] by (auto simp: moved_def st1_def)
  have "planning_edges st' = planning_edges st" by (simp add: r(5) st1_def)
  with nodes part show ?thesis unfolding r(1-4) by auto
qed

definition bulk_input :: bulk_transition_input where
  "bulk_input = \<lparr>bt_scope_key = ''default'', bt_node_ids = Some [''w1'', ''missing'', ''w2''], bt_filter = None,
     bt_status = ''done'', bt_correlation_id = ''corr'', bt_run_id = None\<rparr>"

lemma bulk_transition_exact_witness:
  "\<exists>res st'. bulk_update_graph_node_status sample_env graph_store bulk_input = Inr (res, st')
     \<and> br_transitioned res = [''w1'', ''w2''] \<and> br_total_matched res = 3
     \<and> map_option gn_status (find_row gn_id ''w2'' (planning_nodes st')) = Some ''done''"
proof -
  have "\<exists>res st'. bulk_update_graph_node_status sample_env graph_store bulk_input = Inr (res, st')
      \<and> br_transitioned res = [''w1'', ''w2''] \<and> br_rejected res = [(''missing'', ''node not found'')]"
    by (simp add: bulk_update_graph_node_status_def bulk_input_def bulk_node_ids_def bulk_rejection_def string_eval
        lookup_eval log_eval sample_eval Let_def)
  then obtain res st' where b: "bulk_update_graph_node_status sample_env graph_store bulk_input = Inr (res, st')"
    "br_transitioned res = [''w1'', ''w2'']" "br_rejected res = [(''missing'', ''node not found'')]" by blast
  from bulk_transition_exact [OF b(1)] b show ?thesis
    by (auto simp: bulk_input_def sample_eval)
qed

section \<open>Dependencies of work points\<close>

text \<open>
  The validator of a work point reports WORK-POINT-DEPENDENCY-CYCLE exactly when the work
  point lies on a cycle of the dependency relation; its search always ends, also on cyclic data and on
  dangling ids.
\<close>

lemma dependency_cycle_finding_exact:
  assumes "validate_work_point st i = Inr (k, steps)"
  shows "has_code ''WORK-POINT-DEPENDENCY-CYCLE'' steps \<longleftrightarrow> (i, i) \<in> (dependency_rel st)\<^sup>+"
  using assms by (rule dependency_cycle_finding_iff)

lemma dependency_cycle_finding_exact_witness:
  "(\<exists>k steps. validate_work_point work_store ''p1'' = Inr (k, steps)
      \<and> has_code ''WORK-POINT-DEPENDENCY-CYCLE'' steps \<and> (''p1'', ''p1'') \<in> (dependency_rel work_store)\<^sup>+)
   \<and> (''p3'', ''p3'') \<notin> (dependency_rel work_store)\<^sup>+"
proof -
  have ok: "is_ok (validate_work_point work_store i)" if "i \<in> {''p1'', ''p3''}" for i
    using that by (auto simp: validate_work_point_def load_work_point_def load_roadmap_def lookup_eval sample_eval)
  obtain k1 steps1 where p1: "validate_work_point work_store ''p1'' = Inr (k1, steps1)"
    using ok [of "''p1''"] by (auto simp: is_ok_iff)
  obtain k3 steps3 where p3: "validate_work_point work_store ''p3'' = Inr (k3, steps3)"
    using ok [of "''p3''"] by (auto simp: is_ok_iff)
  have "(''p1'', ''p2'') \<in> dependency_rel work_store" "(''p2'', ''p1'') \<in> dependency_rel work_store"
    by (simp_all add: dependency_rel_def sample_eval)
  then have c: "(''p1'', ''p1'') \<in> (dependency_rel work_store)\<^sup>+" by (meson r_into_trancl trancl_trans)
  have "\<not> has_code ''WORK-POINT-DEPENDENCY-CYCLE'' steps3"
    using p3 by (simp add: validate_work_point_cycle_code [OF p3, of "sample_work_point ''p3'' [] WorkPointStatus_Active"]
        load_work_point_def load_file_scopes_for_entity_def lookup_eval sample_eval)
  with dependency_cycle_finding_exact [OF p3] have "(''p3'', ''p3'') \<notin> (dependency_rel work_store)\<^sup>+" by simp
  with dependency_cycle_finding_exact [OF p1] p1 c show ?thesis by blast
qed

end
