(* ===== verification/Session.thy ===== *)
theory Session
  imports PlanningStore
begin

text \<open>
  The session file (\<open>session.rs\<close>): one JSON file beside the user's home directory that remembers the
  active project run. The file is absent, unreadable, or holds a session; whether a write succeeds is
  a property of the file system. A write replaces the whole file (temporary file and rename), so a
  failed write leaves the old contents. Reading the clock or the UUID source takes the number of
  readings made so far.
\<close>

record active_project_run_state =
  ap_project_run_id :: string
  ap_goal_id :: string
  ap_roadmap_id :: string
  ap_work_point_id :: string
  ap_status :: string
  ap_claimed_at :: string
  ap_activated_at :: "string option"
  ap_evidence_refs :: "string list"

record planning_session =
  se_session_id :: string
  se_scope :: string
  se_created_at :: string
  se_last_used :: string
  se_active_project_run :: "active_project_run_state option"
  se_last_active_work_point_id :: "string option"
  se_last_completed_work_point_id :: "string option"

datatype session_content =
    Absent
  | Unreadable planning_store_error
  | Stored planning_session

record session_disk =
  sd_content :: session_content
  sd_write_error :: "planning_store_error option"

definition read_session :: "session_disk \<Rightarrow> planning_session option result" where
  "read_session d = (case sd_content d of
       Absent \<Rightarrow> Inr None
     | Unreadable e \<Rightarrow> Inl e
     | Stored s \<Rightarrow> Inr (Some s))"

definition write_session :: "session_disk \<Rightarrow> planning_session \<Rightarrow> session_disk result" where
  "write_session d s = (case sd_write_error d of
       Some e \<Rightarrow> Inl e
     | None \<Rightarrow> Inr (d\<lparr>sd_content := Stored s\<rparr>))"

definition session_now :: "environment \<Rightarrow> nat \<Rightarrow> string result" where
  "session_now env n = (case env_now env n of None \<Rightarrow> Inl TimeFormat | Some t \<Rightarrow> Inr t)"

definition init_session ::
    "environment \<Rightarrow> nat \<Rightarrow> session_disk \<Rightarrow> string \<Rightarrow> (planning_session \<times> session_disk) result" where
  "init_session env n d scope =
     tryE (session_now env n) (\<lambda>now.
     let session = \<lparr>se_session_id = env_new_id env (Suc n), se_scope = scope, se_created_at = now,
           se_last_used = now, se_active_project_run = None, se_last_active_work_point_id = None,
           se_last_completed_work_point_id = None\<rparr> in
     tryE (write_session d session) (\<lambda>d. Inr (session, d)))"

definition use_session ::
    "environment \<Rightarrow> nat \<Rightarrow> session_disk \<Rightarrow> string \<Rightarrow> (planning_session \<times> session_disk) result" where
  "use_session env n d session_id =
     tryE (read_session d) (\<lambda>found. case found of
       None \<Rightarrow> Inl (invalid [''no active session; run `elegy-planning session init` first''])
     | Some session \<Rightarrow>
         tryE (session_now env n) (\<lambda>now.
         let session = session\<lparr>se_session_id := session_id, se_last_used := now\<rparr> in
         tryE (write_session d session) (\<lambda>d. Inr (session, d))))"

definition show_session :: "session_disk \<Rightarrow> planning_session option result" where
  "show_session d = read_session d"

definition resolve_session_correlation_id :: "session_disk \<Rightarrow> string option result" where
  "resolve_session_correlation_id d = tryE (read_session d) (\<lambda>found. Inr (map_option se_session_id found))"

text \<open>The session a writer starts from when the file is absent.\<close>

definition blank_session :: "string \<Rightarrow> string \<Rightarrow> planning_session" where
  "blank_session session_id scope = \<lparr>se_session_id = session_id, se_scope = scope, se_created_at = [],
     se_last_used = [], se_active_project_run = None, se_last_active_work_point_id = None,
     se_last_completed_work_point_id = None\<rparr>"

definition update_session_file ::
    "environment \<Rightarrow> nat \<Rightarrow> session_disk \<Rightarrow> string \<Rightarrow> string \<Rightarrow> (planning_session \<times> session_disk) result" where
  "update_session_file env n d session_id scope =
     tryE (read_session d) (\<lambda>found.
     let session = (case found of Some s \<Rightarrow> s | None \<Rightarrow> blank_session (env_new_id env n) scope) in
     tryE (session_now env (Suc n)) (\<lambda>now.
     let session = session\<lparr>se_session_id := session_id, se_scope := scope, se_last_used := now\<rparr>;
         session = (if se_created_at session = [] then session\<lparr>se_created_at := now\<rparr> else session) in
     tryE (write_session d session) (\<lambda>d. Inr (session, d))))"

definition set_active_project_run ::
    "environment \<Rightarrow> nat \<Rightarrow> session_disk \<Rightarrow> active_project_run_state \<Rightarrow> session_disk result" where
  "set_active_project_run env n d state =
     tryE (read_session d) (\<lambda>found.
     let session = (case found of Some s \<Rightarrow> s | None \<Rightarrow> blank_session (env_new_id env n) ''default'') in
     write_session d (session\<lparr>se_active_project_run := Some state,
       se_last_active_work_point_id := Some (ap_work_point_id state)\<rparr>))"

definition clear_active_project_run :: "session_disk \<Rightarrow> string option \<Rightarrow> session_disk result" where
  "clear_active_project_run d completed =
     tryE (read_session d) (\<lambda>found. case found of
       None \<Rightarrow> Inr d
     | Some session \<Rightarrow>
         let session = session\<lparr>se_active_project_run := None\<rparr>;
             session = (case completed of
                 Some i \<Rightarrow> session\<lparr>se_last_completed_work_point_id := Some i\<rparr>
               | None \<Rightarrow> session) in
         write_session d session)"

text \<open>\<open>let _ = session::...\<close>: the callers in \<open>storage.rs\<close> ignore an error of the session file.\<close>

definition best_effort :: "session_disk \<Rightarrow> session_disk result \<Rightarrow> session_disk" where
  "best_effort d m = (case m of Inl _ \<Rightarrow> d | Inr d' \<Rightarrow> d')"

definition active_run :: "session_disk \<Rightarrow> active_project_run_state option" where
  "active_run d = (case sd_content d of Stored s \<Rightarrow> se_active_project_run s | _ \<Rightarrow> None)"

lemma write_session_Inr: "write_session d s = Inr d' \<longleftrightarrow> sd_write_error d = None \<and> d' = d\<lparr>sd_content := Stored s\<rparr>"
  by (auto simp: write_session_def split: option.splits)

lemma read_session_Inr:
  "read_session d = Inr found \<longleftrightarrow> (sd_content d = Absent \<and> found = None) \<or> (\<exists>s. sd_content d = Stored s \<and> found = Some s)"
  by (auto simp: read_session_def split: session_content.splits)

text \<open>What was written is what is read.\<close>

lemma read_write_session: "write_session d s = Inr d' \<Longrightarrow> read_session d' = Inr (Some s)"
  by (simp add: write_session_Inr read_session_Inr)

lemma set_active_project_run_active:
  "set_active_project_run env n d state = Inr d' \<Longrightarrow> active_run d' = Some state"
  by (auto simp: set_active_project_run_def Let_def write_session_Inr active_run_def)

lemma clear_active_project_run_active:
  "clear_active_project_run d completed = Inr d' \<Longrightarrow> active_run d' = None"
  by (cases "sd_content d"; cases completed)
    (auto simp: clear_active_project_run_def Let_def write_session_Inr read_session_def active_run_def)

end
