(* ===== verification/ProjectRuns.thy ===== *)
theory ProjectRuns
  imports Validation Session
begin

text \<open>
  Project runs (\<open>storage.rs\<close>): a run claims a work point under a lease with a fencing token, is
  activated, kept alive by heartbeats, carries evidence and is released. Every operation is the
  transaction on the store followed by the update of the session file, whose errors are ignored.
  The state is therefore the store and the session file.
\<close>

type_synonym world = "planning_store \<times> session_disk"

section \<open>Inputs\<close>

record claim_project_run_input =
  cr_id :: "string option"
  cr_scope_key :: "string option"
  cr_goal_id :: string
  cr_roadmap_id :: string
  cr_work_point_id :: string
  cr_repo_id :: "string option"
  cr_branch :: "string option"
  cr_worktree_id :: "string option"
  cr_session_id :: "string option"
  cr_run_id :: "string option"
  cr_profile_id :: "string option"
  cr_correlation_id :: "string option"
  cr_owner_id :: "string option"
  cr_idempotency_key :: "string option"
  cr_lease_seconds :: "int option"

record activate_project_run_input =
  ar_project_run_id :: string
  ar_active_scope_key :: "string option"
  ar_run_id :: "string option"
  ar_fencing_token :: "int option"

record heartbeat_project_run_input =
  hr_project_run_id :: string
  hr_active_scope_key :: "string option"
  hr_run_id :: "string option"
  hr_fencing_token :: "int option"
  hr_lease_seconds :: "int option"

record release_project_run_input =
  rr_project_run_id :: string
  rr_status :: project_run_status
  rr_evidence :: "project_run_evidence option"
  rr_active_scope_key :: "string option"
  rr_run_id :: "string option"
  rr_fencing_token :: "int option"

record add_evidence_input =
  ad_project_run_id :: string
  ad_evidence :: project_run_evidence
  ad_active_scope_key :: "string option"
  ad_run_id :: "string option"
  ad_fencing_token :: "int option"

section \<open>Leases\<close>

definition DEFAULT_LEASE_SECONDS :: int where
  "DEFAULT_LEASE_SECONDS = 900"

definition normalize_lease_seconds :: "int option \<Rightarrow> int result" where
  "normalize_lease_seconds val =
     (let seconds = (case val of None \<Rightarrow> DEFAULT_LEASE_SECONDS | Some s \<Rightarrow> s) in
      if 1 \<le> seconds \<and> seconds \<le> 86400 then Inr seconds
      else Inl (invalid_json
        [(''code'', JStr ''PROJECT-RUN-LEASE-DURATION-INVALID''),
         (''message'', JStr ''leaseSeconds must be between 1 and 86400''),
         (''leaseSeconds'', JInt seconds)]))"

definition parse_time :: "environment \<Rightarrow> string \<Rightarrow> int result" where
  "parse_time env text = (case env_parse_rfc3339 env text of None \<Rightarrow> Inl TimeFormat | Some i \<Rightarrow> Inr i)"

definition lease_deadline :: "environment \<Rightarrow> string \<Rightarrow> int \<Rightarrow> string result" where
  "lease_deadline env now lease_seconds =
     tryE (parse_time env now) (\<lambda>parsed.
     case env_format_rfc3339 env (parsed + lease_seconds * 1000000000) of
       None \<Rightarrow> Inl TimeFormat
     | Some t \<Rightarrow> Inr t)"

definition require_current_lease :: "environment \<Rightarrow> project_run_record \<Rightarrow> int option \<Rightarrow> string \<Rightarrow> unit result" where
  "require_current_lease env record fencing_token now =
     (case fencing_token of
        None \<Rightarrow> Inl (invalid_json
          [(''code'', JStr ''PROJECT-RUN-FENCING-TOKEN-REQUIRED''),
           (''message'', JStr ''pass the fencingToken returned by project-run claim''),
           (''projectRunId'', JStr (pr_id record)),
           (''expectedFencingToken'', JInt (pr_fencing_token record))])
      | Some supplied \<Rightarrow>
          if supplied \<noteq> pr_fencing_token record then Inl (invalid_json
            [(''code'', JStr ''PROJECT-RUN-STALE-FENCING-TOKEN''),
             (''message'', JStr ''the project run fencing token is stale''),
             (''projectRunId'', JStr (pr_id record)),
             (''expectedFencingToken'', JInt (pr_fencing_token record)),
             (''actualFencingToken'', JInt supplied)])
          else
          tryE (parse_time env (pr_lease_expires_at record)) (\<lambda>lease_expires_at.
          tryE (parse_time env now) (\<lambda>current_time.
          if lease_expires_at \<le> current_time then Inl (invalid_json
            [(''code'', JStr ''PROJECT-RUN-LEASE-EXPIRED''),
             (''message'', JStr ''the project run lease has expired''),
             (''projectRunId'', JStr (pr_id record)),
             (''leaseExpiresAt'', JStr (pr_lease_expires_at record))])
          else Inr ())))"

section \<open>Statements\<close>

definition warning_record_json :: "warning_record \<Rightarrow> json" where
  "warning_record_json w = JObj [(''level'', JStr (wr_level w)), (''message'', JStr (wr_message w)),
     (''source'', json_opt_str (wr_source w))]"

definition evidence_json :: "project_run_evidence \<Rightarrow> json" where
  "evidence_json e = JObj
     [(''implementationRunRefs'', json_strs (pe_implementation_run_refs e)),
      (''warningRecords'', JArr (map warning_record_json (pe_warning_records e))),
      (''validationFindingRefs'', json_strs (pe_validation_finding_refs e)),
      (''commitSha'', json_opt_str (pe_commit_sha e)), (''prUrl'', json_opt_str (pe_pr_url e)),
      (''linkedSpecIds'', json_strs (pe_linked_spec_ids e)),
      (''workflowResultKeys'', json_strs (pe_workflow_result_keys e))]"

definition project_run_json :: "project_run_record \<Rightarrow> json" where
  "project_run_json r = JObj
     [(''id'', JStr (pr_id r)), (''scopeKey'', JStr (pr_scope_key r)), (''goalId'', JStr (pr_goal_id r)),
      (''roadmapId'', JStr (pr_roadmap_id r)), (''workPointId'', JStr (pr_work_point_id r)),
      (''repoId'', json_opt_str (pr_repo_id r)), (''branch'', json_opt_str (pr_branch r)),
      (''worktreeId'', json_opt_str (pr_worktree_id r)), (''sessionId'', json_opt_str (pr_session_id r)),
      (''runId'', json_opt_str (pr_run_id r)), (''profileId'', json_opt_str (pr_profile_id r)),
      (''ownerId'', JStr (pr_owner_id r)), (''idempotencyKey'', json_opt_str (pr_idempotency_key r)),
      (''fencingToken'', JInt (pr_fencing_token r)), (''leaseExpiresAt'', JStr (pr_lease_expires_at r)),
      (''heartbeatAt'', JStr (pr_heartbeat_at r)), (''status'', JStr (project_run_status_as_str (pr_status r))),
      (''evidence'', evidence_json (pr_evidence r)), (''revision'', JInt (pr_revision r)),
      (''claimedAt'', json_opt_str (pr_claimed_at r)), (''completedAt'', json_opt_str (pr_completed_at r)),
      (''createdAt'', JStr (pr_created_at r)), (''updatedAt'', JStr (pr_updated_at r))]"

definition run_key :: "project_run_record \<Rightarrow> (string \<times> string) option" where
  "run_key r = map_option (\<lambda>k. (pr_scope_key r, k)) (pr_idempotency_key r)"

definition insert_project_run :: "planning_store \<Rightarrow> project_run_record \<Rightarrow> planning_store result" where
  "insert_project_run st r =
     (if find_row pr_id (pr_id r) (project_runs st) \<noteq> None
      then Inl (Sqlite (UniqueViolation ''project_runs.id''))
      else if run_key r \<noteq> None \<and> list_ex (\<lambda>other. run_key other = run_key r) (project_runs st)
      then Inl (Sqlite (UniqueViolation ''idx_project_runs_idempotency''))
      else if find_row go_id (pr_goal_id r) (goals st) = None
         \<or> find_row rm_id (pr_roadmap_id r) (roadmaps st) = None
         \<or> find_row wp_id (pr_work_point_id r) (work_points st) = None
      then Inl (Sqlite (ForeignKeyViolation ''project_runs''))
      else Inr (st\<lparr>project_runs := project_runs st @ [r]\<rparr>))"

definition update_project_run ::
    "planning_store \<Rightarrow> string \<Rightarrow> (project_run_record \<Rightarrow> project_run_record) \<Rightarrow> planning_store" where
  "update_project_run st i f =
     st\<lparr>project_runs := update_where (\<lambda>r. pr_id r = i) f (project_runs st)\<rparr>"

definition open_status :: "project_run_status \<Rightarrow> bool" where
  "open_status s \<longleftrightarrow> s = ProjectRunStatus_Claimed \<or> s = ProjectRunStatus_Active \<or> s = ProjectRunStatus_Interrupted"

text \<open>
  \<open>julianday(lease_expires_at) <= julianday(now)\<close> and its strict converse; a text SQLite cannot read
  is NULL and satisfies neither.
\<close>

definition lease_over :: "environment \<Rightarrow> string \<Rightarrow> project_run_record \<Rightarrow> bool" where
  "lease_over env now r = (case (env_julianday env (pr_lease_expires_at r), env_julianday env now) of
       (Some a, Some b) \<Rightarrow> a \<le> b
     | _ \<Rightarrow> False)"

definition lease_live :: "environment \<Rightarrow> string \<Rightarrow> project_run_record \<Rightarrow> bool" where
  "lease_live env now r = (case (env_julianday env (pr_lease_expires_at r), env_julianday env now) of
       (Some a, Some b) \<Rightarrow> a > b
     | _ \<Rightarrow> False)"

definition validate_and_store ::
    "environment \<Rightarrow> planning_store \<Rightarrow> entity_type \<Rightarrow> string \<Rightarrow> (validation_report \<times> planning_store) result" where
  "validate_and_store env st et i = refresh_validation_target env st et i"

section \<open>Claiming\<close>

definition run_owner :: "claim_project_run_input \<Rightarrow> string result" where
  "run_owner input =
     (case cr_owner_id input of Some owner \<Rightarrow> Inr owner | None \<Rightarrow>
      (case cr_session_id input of Some owner \<Rightarrow> Inr owner | None \<Rightarrow>
       (case cr_run_id input of Some owner \<Rightarrow> Inr owner | None \<Rightarrow>
        Inl (invalid_json [(''code'', JStr ''PROJECT-RUN-OWNER-REQUIRED''),
          (''message'', JStr ''provide ownerId, sessionId, or a run correlation id'')]))))"

definition claim_references ::
    "planning_store \<Rightarrow> string \<Rightarrow> claim_project_run_input \<Rightarrow> string result" where
  "claim_references st scope_key input =
     tryE (ensure_referenced_entity_in_scope st EntityType_Goal (cr_goal_id input) ''goalId'' scope_key) (\<lambda>inherited.
     tryE (ensure_referenced_entity_in_scope st EntityType_Roadmap (cr_roadmap_id input) ''roadmapId'' scope_key) (\<lambda>_.
     tryE (ensure_referenced_entity_in_scope st EntityType_WorkPoint (cr_work_point_id input) ''workPointId'' scope_key) (\<lambda>_.
     tryE (load_roadmap st (cr_roadmap_id input)) (\<lambda>roadmap.
     if rm_goal_id roadmap \<noteq> cr_goal_id input then Inl (invalid_json
       [(''code'', JStr ''PROJECT-RUN-GOAL-ROADMAP-MISMATCH''),
        (''message'', JStr (format [''roadmap '', sq, cr_roadmap_id input, sq, '' belongs to goal '', sq,
           rm_goal_id roadmap, sq, '', not goal '', sq, cr_goal_id input, sq])),
        (''roadmapId'', JStr (cr_roadmap_id input)), (''expectedGoalId'', JStr (cr_goal_id input)),
        (''actualGoalId'', JStr (rm_goal_id roadmap))])
     else
     tryE (load_work_point st (cr_work_point_id input)) (\<lambda>work_point.
     if wp_roadmap_id work_point \<noteq> cr_roadmap_id input then Inl (invalid_json
       [(''code'', JStr ''PROJECT-RUN-WORK-POINT-ROADMAP-MISMATCH''),
        (''message'', JStr (format [''work point '', sq, cr_work_point_id input, sq, '' belongs to roadmap '', sq,
           wp_roadmap_id work_point, sq, '', not roadmap '', sq, cr_roadmap_id input, sq])),
        (''workPointId'', JStr (cr_work_point_id input)), (''expectedRoadmapId'', JStr (cr_roadmap_id input)),
        (''actualRoadmapId'', JStr (wp_roadmap_id work_point))])
     else Inr inherited)))))"

definition same_claim :: "claim_project_run_input \<Rightarrow> string \<Rightarrow> project_run_record \<Rightarrow> bool" where
  "same_claim input owner_id existing \<longleftrightarrow>
     pr_goal_id existing = cr_goal_id input \<and> pr_roadmap_id existing = cr_roadmap_id input
     \<and> pr_work_point_id existing = cr_work_point_id input \<and> pr_owner_id existing = owner_id
     \<and> pr_repo_id existing = cr_repo_id input \<and> pr_branch existing = cr_branch input
     \<and> pr_worktree_id existing = cr_worktree_id input \<and> pr_session_id existing = cr_session_id input
     \<and> pr_profile_id existing = cr_profile_id input"

text \<open>The run a claim replays: \<open>None\<close> when the key is absent or new.\<close>

definition replayed_run ::
    "planning_store \<Rightarrow> string \<Rightarrow> claim_project_run_input \<Rightarrow> string \<Rightarrow> project_run_record option result" where
  "replayed_run st scope_key input owner_id =
     (case cr_idempotency_key input of
        None \<Rightarrow> Inr None
      | Some key \<Rightarrow>
          tryE (require_non_empty ''idempotencyKey'' key) (\<lambda>_.
          case List.find (\<lambda>r. run_key r = Some (scope_key, key)) (project_runs st) of
            None \<Rightarrow> Inr None
          | Some row \<Rightarrow>
              tryE (load_project_run st (pr_id row)) (\<lambda>existing.
              if same_claim input owner_id existing then Inr (Some existing)
              else Inl (invalid_json
                [(''code'', JStr ''PROJECT-RUN-IDEMPOTENCY-CONFLICT''),
                 (''message'', JStr ''idempotency key was already used with a different claim payload''),
                 (''idempotencyKey'', JStr key), (''existingProjectRunId'', JStr (pr_id existing))]))))"

definition expired_runs :: "environment \<Rightarrow> planning_store \<Rightarrow> string \<Rightarrow> string \<Rightarrow> project_run_record list" where
  "expired_runs env st work_point_id now =
     sort_key pr_fencing_token (filter (\<lambda>r. pr_work_point_id r = work_point_id \<and> open_status (pr_status r)
       \<and> lease_over env now r) (project_runs st))"

definition expire_runs :: "environment \<Rightarrow> planning_store \<Rightarrow> string \<Rightarrow> string \<Rightarrow> planning_store" where
  "expire_runs env st work_point_id now =
     st\<lparr>project_runs := update_where
          (\<lambda>r. pr_work_point_id r = work_point_id \<and> open_status (pr_status r) \<and> lease_over env now r)
          (\<lambda>r. r\<lparr>pr_status := ProjectRunStatus_Released, pr_revision := pr_revision r + 1, pr_updated_at := now\<rparr>)
          (project_runs st)\<rparr>"

definition log_expired ::
    "environment \<Rightarrow> claim_project_run_input \<Rightarrow> planning_store \<Rightarrow> string \<Rightarrow> planning_store result" where
  "log_expired env input st expired_id =
     tryE (load_project_run st expired_id) (\<lambda>expired.
     log_event env st EntityType_ProjectRun (pr_id expired) EntityType_Roadmap (pr_roadmap_id expired)
       (case cr_correlation_id input of None \<Rightarrow> ''lease-expiration'' | Some c \<Rightarrow> c) (cr_run_id input)
       ''project-run.expired''
       (JObj [(''fencingToken'', JInt (pr_fencing_token expired)),
              (''leaseExpiresAt'', JStr (pr_lease_expires_at expired)),
              (''status'', JStr (project_run_status_as_str (pr_status expired)))]))"

definition next_fencing_token :: "planning_store \<Rightarrow> string \<Rightarrow> int" where
  "next_fencing_token st work_point_id =
     max_or_zero (map pr_fencing_token (filter (\<lambda>r. pr_work_point_id r = work_point_id) (project_runs st))) + 1"

definition claimed_record ::
    "claim_project_run_input \<Rightarrow> string \<Rightarrow> string \<Rightarrow> string \<Rightarrow> int \<Rightarrow> string \<Rightarrow> string \<Rightarrow> project_run_record" where
  "claimed_record input i scope_key owner_id token deadline now =
     \<lparr>pr_id = i, pr_scope_key = scope_key, pr_goal_id = cr_goal_id input, pr_roadmap_id = cr_roadmap_id input,
      pr_work_point_id = cr_work_point_id input, pr_repo_id = cr_repo_id input, pr_branch = cr_branch input,
      pr_worktree_id = cr_worktree_id input, pr_session_id = cr_session_id input, pr_run_id = cr_run_id input,
      pr_profile_id = cr_profile_id input, pr_owner_id = owner_id, pr_idempotency_key = cr_idempotency_key input,
      pr_fencing_token = token, pr_lease_expires_at = deadline, pr_heartbeat_at = now,
      pr_status = ProjectRunStatus_Claimed, pr_evidence = project_run_evidence_default, pr_revision = 1,
      pr_claimed_at = Some now, pr_completed_at = None, pr_created_at = now, pr_updated_at = now\<rparr>"

text \<open>The new claim, from the expiry of old leases to the refreshed findings.\<close>

definition claim_fresh ::
    "environment \<Rightarrow> planning_store \<Rightarrow> claim_project_run_input \<Rightarrow> string \<Rightarrow> string \<Rightarrow> int \<Rightarrow> string
     \<Rightarrow> (project_run_record mutation_result \<times> planning_store) result" where
  "claim_fresh env st input scope_key owner_id lease_seconds now =
     (let w = cr_work_point_id input;
          expired_ids = map pr_id (expired_runs env st w now);
          st = expire_runs env st w now in
      tryE (foldE (log_expired env input) st expired_ids) (\<lambda>st.
      let active_count = length (filter (\<lambda>r. pr_work_point_id r = w \<and> open_status (pr_status r)
            \<and> lease_live env now r) (project_runs st)) in
      if active_count > 0 then Inl (ActiveLeaseConflict w) else
      let (i, st) = id_or_new env st (cr_id input);
          fencing_token = next_fencing_token st w in
      tryE (lease_deadline env now lease_seconds) (\<lambda>lease_expires_at.
      let record = claimed_record input i scope_key owner_id fencing_token lease_expires_at now in
      tryE (insert_project_run st record) (\<lambda>st.
      tryE (log_event env st EntityType_ProjectRun i EntityType_Roadmap (pr_roadmap_id record)
              (case cr_correlation_id input of None \<Rightarrow> format [''corr-'', i] | Some c \<Rightarrow> c) (cr_run_id input)
              ''project-run.claimed'' (project_run_json record)) (\<lambda>st.
      tryE (validate_and_store env st EntityType_ProjectRun i) (\<lambda>(validation, st).
      tryE (refresh_validation_target env st EntityType_WorkPoint (pr_work_point_id record)) (\<lambda>(_, st).
      Inr (\<lparr>mr_record = record, mr_validation = validation\<rparr>, st))))))))"

text \<open>The transaction of \<open>claim_project_run\<close>; the flag tells a new claim from a replayed one.\<close>

definition claim_project_run_tx ::
    "environment \<Rightarrow> planning_store \<Rightarrow> claim_project_run_input
     \<Rightarrow> ((project_run_record mutation_result \<times> bool) \<times> planning_store) result" where
  "claim_project_run_tx env st input =
     tryE (require_non_empty ''goalId'' (cr_goal_id input)) (\<lambda>_.
     tryE (require_non_empty ''roadmapId'' (cr_roadmap_id input)) (\<lambda>_.
     tryE (require_non_empty ''workPointId'' (cr_work_point_id input)) (\<lambda>_.
     tryE (claim_references st (normalized_scope_key (cr_scope_key input)) input) (\<lambda>inherited.
     tryE (now_string env st) (\<lambda>(now, st).
     tryE (normalize_lease_seconds (cr_lease_seconds input)) (\<lambda>lease_seconds.
     tryE (run_owner input) (\<lambda>owner_id.
     tryE (replayed_run st inherited input owner_id) (\<lambda>replayed.
     case replayed of
       Some existing \<Rightarrow>
         tryE (validate_and_store env st EntityType_ProjectRun (pr_id existing)) (\<lambda>(validation, st).
         Inr ((\<lparr>mr_record = existing, mr_validation = validation\<rparr>, False), st))
     | None \<Rightarrow>
         tryE (claim_fresh env st input inherited owner_id lease_seconds now) (\<lambda>(res, st).
         Inr ((res, True), st))))))))))"

definition evidence_refs :: "project_run_evidence \<Rightarrow> string list" where
  "evidence_refs e = pe_implementation_run_refs e @ pe_validation_finding_refs e @ pe_linked_spec_ids e"

definition run_state :: "project_run_record \<Rightarrow> string \<Rightarrow> string option \<Rightarrow> active_project_run_state" where
  "run_state record status activated_at =
     \<lparr>ap_project_run_id = pr_id record, ap_goal_id = pr_goal_id record, ap_roadmap_id = pr_roadmap_id record,
      ap_work_point_id = pr_work_point_id record, ap_status = status,
      ap_claimed_at = (case pr_claimed_at record of None \<Rightarrow> [] | Some t \<Rightarrow> t),
      ap_activated_at = activated_at, ap_evidence_refs = evidence_refs (pr_evidence record)\<rparr>"

text \<open>Writing the session may read the UUID source once.\<close>

definition publish_run ::
    "environment \<Rightarrow> world \<Rightarrow> active_project_run_state \<Rightarrow> world" where
  "publish_run env w state = (case w of (st, d) \<Rightarrow>
     (st\<lparr>tick := Suc (tick st)\<rparr>, best_effort d (set_active_project_run env (tick st) d state)))"

definition claim_project_run ::
    "environment \<Rightarrow> world \<Rightarrow> claim_project_run_input
     \<Rightarrow> (project_run_record mutation_result \<times> world) result" where
  "claim_project_run env w input = (case w of (st, d) \<Rightarrow>
     tryE (claim_project_run_tx env st input) (\<lambda>((res, claimed), st).
     let record = mr_record res in
     if claimed \<and> pr_session_id record \<noteq> None
     then Inr (res, publish_run env (st, d)
            (run_state record (project_run_status_as_str (pr_status record)) None))
     else Inr (res, (st, d))))"

section \<open>Operations of the holder\<close>

text \<open>The run an operation works on, after the checks on scope, fencing token and lease.\<close>

definition held_run ::
    "environment \<Rightarrow> planning_store \<Rightarrow> string \<Rightarrow> string option \<Rightarrow> int option
     \<Rightarrow> ((project_run_record \<times> string) \<times> planning_store) result" where
  "held_run env st i active_scope_key fencing_token =
     tryE (ensure_entity_in_scope st EntityType_ProjectRun i (normalized_scope_key active_scope_key)) (\<lambda>_.
     tryE (load_project_run st i) (\<lambda>existing.
     tryE (now_string env st) (\<lambda>(now, st).
     tryE (require_current_lease env existing fencing_token now) (\<lambda>_.
     Inr ((existing, now), st)))))"

text \<open>Event and findings after the row of a run was changed.\<close>

definition record_run_change ::
    "environment \<Rightarrow> planning_store \<Rightarrow> string \<Rightarrow> string option \<Rightarrow> string \<Rightarrow> (project_run_record \<Rightarrow> json) \<Rightarrow> bool
     \<Rightarrow> (project_run_record mutation_result \<times> planning_store) result" where
  "record_run_change env st i run_id event_type payload refresh_work_point =
     tryE (load_project_run st i) (\<lambda>record.
     tryE (roadmap_correlation_id st (pr_roadmap_id record)) (\<lambda>correlation_id.
     tryE (log_event env st EntityType_ProjectRun (pr_id record) EntityType_Roadmap (pr_roadmap_id record)
             correlation_id run_id event_type (payload record)) (\<lambda>st.
     tryE (validate_and_store env st EntityType_ProjectRun (pr_id record)) (\<lambda>(validation, st).
     tryE (if refresh_work_point
           then tryE (refresh_validation_target env st EntityType_WorkPoint (pr_work_point_id record)) (\<lambda>(_, st). Inr st)
           else Inr st) (\<lambda>st.
     Inr (\<lparr>mr_record = record, mr_validation = validation\<rparr>, st))))))"

definition activate_project_run_tx ::
    "environment \<Rightarrow> planning_store \<Rightarrow> activate_project_run_input
     \<Rightarrow> (project_run_record mutation_result \<times> planning_store) result" where
  "activate_project_run_tx env st input =
     tryE (require_non_empty ''projectRunId'' (ar_project_run_id input)) (\<lambda>_.
     tryE (held_run env st (ar_project_run_id input) (ar_active_scope_key input) (ar_fencing_token input))
       (\<lambda>((existing, now), st).
     if pr_status existing \<noteq> ProjectRunStatus_Claimed
     then Inl (ProjectRunStatusMismatch ''claimed'' (project_run_status_as_str (pr_status existing)))
     else
     let st = update_project_run st (ar_project_run_id input) (\<lambda>r.
           r\<lparr>pr_status := ProjectRunStatus_Active, pr_revision := pr_revision r + 1, pr_updated_at := now\<rparr>) in
     record_run_change env st (ar_project_run_id input) (ar_run_id input) ''project-run.activated''
       project_run_json True))"

definition activate_project_run ::
    "environment \<Rightarrow> world \<Rightarrow> activate_project_run_input
     \<Rightarrow> (project_run_record mutation_result \<times> world) result" where
  "activate_project_run env w input = (case w of (st, d) \<Rightarrow>
     tryE (activate_project_run_tx env st input) (\<lambda>(res, st).
     let record = mr_record res in
     if pr_session_id record \<noteq> None
     then let now = (case env_now env (tick st) of None \<Rightarrow> [] | Some t \<Rightarrow> t) in
          Inr (res, publish_run env (st\<lparr>tick := Suc (tick st)\<rparr>, d) (run_state record ''active'' (Some now)))
     else Inr (res, (st, d))))"

definition heartbeat_project_run ::
    "environment \<Rightarrow> planning_store \<Rightarrow> heartbeat_project_run_input
     \<Rightarrow> (project_run_record mutation_result \<times> planning_store) result" where
  "heartbeat_project_run env st input =
     tryE (require_non_empty ''projectRunId'' (hr_project_run_id input)) (\<lambda>_.
     tryE (held_run env st (hr_project_run_id input) (hr_active_scope_key input) (hr_fencing_token input))
       (\<lambda>((existing, now), st).
     if pr_status existing \<noteq> ProjectRunStatus_Claimed \<and> pr_status existing \<noteq> ProjectRunStatus_Active
     then Inl (ProjectRunStatusMismatch ''claimed or active'' (project_run_status_as_str (pr_status existing)))
     else
     tryE (normalize_lease_seconds (hr_lease_seconds input)) (\<lambda>lease_seconds.
     tryE (lease_deadline env now lease_seconds) (\<lambda>lease_expires_at.
     let st = st\<lparr>project_runs := update_where
               (\<lambda>r. pr_id r = hr_project_run_id input \<and> pr_fencing_token r = pr_fencing_token existing)
               (\<lambda>r. r\<lparr>pr_heartbeat_at := now, pr_lease_expires_at := lease_expires_at,
                     pr_revision := pr_revision r + 1, pr_updated_at := now\<rparr>) (project_runs st)\<rparr> in
     record_run_change env st (hr_project_run_id input) (hr_run_id input) ''project-run.heartbeat''
       (\<lambda>record. JObj [(''fencingToken'', JInt (pr_fencing_token record)),
          (''heartbeatAt'', JStr (pr_heartbeat_at record)), (''leaseExpiresAt'', JStr (pr_lease_expires_at record))])
       False))))"

definition release_project_run_tx ::
    "environment \<Rightarrow> planning_store \<Rightarrow> release_project_run_input
     \<Rightarrow> (project_run_record mutation_result \<times> planning_store) result" where
  "release_project_run_tx env st input =
     tryE (require_non_empty ''projectRunId'' (rr_project_run_id input)) (\<lambda>_.
     if rr_status input \<notin> {ProjectRunStatus_Completed, ProjectRunStatus_Failed, ProjectRunStatus_Cancelled,
          ProjectRunStatus_Released}
     then Inl (invalid [''project-run release status must be completed, failed, cancelled, or released; got '',
            project_run_status_as_str (rr_status input)])
     else
     tryE (held_run env st (rr_project_run_id input) (rr_active_scope_key input) (rr_fencing_token input))
       (\<lambda>((existing, now), st).
     if \<not> open_status (pr_status existing)
     then Inl (ProjectRunStatusMismatch ''claimed, active, or interrupted''
            (project_run_status_as_str (pr_status existing)))
     else
     let evidence = (case rr_evidence input of None \<Rightarrow> pr_evidence existing | Some e \<Rightarrow> e);
         completed_at = (if rr_status input = ProjectRunStatus_Completed then Some now else None);
         st = update_project_run st (rr_project_run_id input) (\<lambda>r.
           r\<lparr>pr_status := rr_status input, pr_evidence := evidence, pr_completed_at := completed_at,
             pr_revision := pr_revision r + 1, pr_updated_at := now\<rparr>) in
     record_run_change env st (rr_project_run_id input) (rr_run_id input) ''project-run.released''
       project_run_json True))"

definition release_project_run ::
    "environment \<Rightarrow> world \<Rightarrow> release_project_run_input
     \<Rightarrow> (project_run_record mutation_result \<times> world) result" where
  "release_project_run env w input = (case w of (st, d) \<Rightarrow>
     tryE (release_project_run_tx env st input) (\<lambda>(res, st).
     let completed = (if rr_status input = ProjectRunStatus_Completed
                      then Some (pr_work_point_id (mr_record res)) else None) in
     Inr (res, (st, best_effort d (clear_active_project_run d completed)))))"

definition add_project_run_evidence_tx ::
    "environment \<Rightarrow> planning_store \<Rightarrow> add_evidence_input
     \<Rightarrow> (project_run_record mutation_result \<times> planning_store) result" where
  "add_project_run_evidence_tx env st input =
     tryE (require_non_empty ''projectRunId'' (ad_project_run_id input)) (\<lambda>_.
     tryE (held_run env st (ad_project_run_id input) (ad_active_scope_key input) (ad_fencing_token input))
       (\<lambda>((existing, now), st).
     if pr_status existing \<in> {ProjectRunStatus_Completed, ProjectRunStatus_Failed, ProjectRunStatus_Cancelled,
          ProjectRunStatus_Released}
     then Inl (ProjectRunStatusMismatch ''claimed or active'' (project_run_status_as_str (pr_status existing)))
     else
     let st = update_project_run st (ad_project_run_id input) (\<lambda>r.
           r\<lparr>pr_evidence := ad_evidence input, pr_revision := pr_revision r + 1, pr_updated_at := now\<rparr>) in
     record_run_change env st (ad_project_run_id input) (ad_run_id input) ''project-run.evidence-added''
       (\<lambda>_. JObj [(''evidence'', evidence_json (ad_evidence input))]) False))"

definition add_project_run_evidence ::
    "environment \<Rightarrow> world \<Rightarrow> add_evidence_input
     \<Rightarrow> (project_run_record mutation_result \<times> world) result" where
  "add_project_run_evidence env w input = (case w of (st, d) \<Rightarrow>
     tryE (add_project_run_evidence_tx env st input) (\<lambda>(res, st).
     let record = mr_record res in
     Inr (res, publish_run env (st, d)
       (run_state record (project_run_status_as_str (pr_status record)) (pr_completed_at record)))))"

end
