(* ===== verification/RunInvariant.thy ===== *)
theory RunInvariant
  imports ProjectRuns
begin

text \<open>
  What the project-run operations keep: ids and fencing tokens are unique, no run has the status
  \<open>suggested\<close> (no operation writes it), and the open run of a work
  point (claimed, active or interrupted) holds the largest token ever given for it, so a work point
  has at most one open run. \<open>run_step\<close> interleaves the five operations with any step that leaves
  the runs alone.
\<close>

section \<open>The invariant\<close>

text \<open>
  What the leases rely on outside the repository: SQLite reads the times the program writes.
\<close>

definition clock_laws :: "environment \<Rightarrow> bool" where
  "clock_laws env \<longleftrightarrow> (\<forall>n t. env_now env n = Some t \<longrightarrow> env_julianday env t \<noteq> None)
     \<and> (\<forall>i t. env_format_rfc3339 env i = Some t \<longrightarrow> env_julianday env t \<noteq> None)"

definition runs_ok :: "environment \<Rightarrow> project_run_record list \<Rightarrow> bool" where
  "runs_ok env rs \<longleftrightarrow> distinct (map pr_id rs)
     \<and> (\<forall>r\<in>set rs. env_julianday env (pr_lease_expires_at r) \<noteq> None \<and> pr_status r \<noteq> ProjectRunStatus_Suggested)
     \<and> (\<forall>r\<in>set rs. \<forall>q\<in>set rs. pr_work_point_id q = pr_work_point_id r \<and> q \<noteq> r
           \<longrightarrow> pr_fencing_token q \<noteq> pr_fencing_token r)
     \<and> (\<forall>r\<in>set rs. \<forall>q\<in>set rs. open_status (pr_status r) \<and> pr_work_point_id q = pr_work_point_id r \<and> q \<noteq> r
           \<longrightarrow> pr_fencing_token q < pr_fencing_token r)"

lemma runs_ok_Nil [simp]: "runs_ok env []"
  by (simp add: runs_ok_def)

lemma runs_ok_one_open:
  assumes "runs_ok env rs" "r \<in> set rs" "q \<in> set rs" "pr_work_point_id q = pr_work_point_id r"
    and "open_status (pr_status r)" "open_status (pr_status q)"
  shows "q = r"
  using assms unfolding runs_ok_def by (metis order_less_asym)

lemma runs_ok_readable:
  "runs_ok env rs \<Longrightarrow> r \<in> set rs \<Longrightarrow> env_julianday env (pr_lease_expires_at r) \<noteq> None"
  by (simp add: runs_ok_def)

lemma runs_ok_update:
  assumes ok: "runs_ok env rs"
    and same: "\<And>r. pr_id (f r) = pr_id r" "\<And>r. pr_work_point_id (f r) = pr_work_point_id r"
      "\<And>r. pr_fencing_token (f r) = pr_fencing_token r"
    and lease: "\<And>r. r \<in> set rs \<Longrightarrow> p r \<Longrightarrow> env_julianday env (pr_lease_expires_at (f r)) \<noteq> None"
    and status: "\<And>r. r \<in> set rs \<Longrightarrow> p r \<Longrightarrow> open_status (pr_status (f r)) \<Longrightarrow> open_status (pr_status r)"
      "\<And>r. r \<in> set rs \<Longrightarrow> p r \<Longrightarrow> pr_status (f r) \<noteq> ProjectRunStatus_Suggested"
  shows "runs_ok env (update_where p f rs)"
proof -
  let ?g = "\<lambda>r. if p r then f r else r"
  have g: "pr_work_point_id (?g r) = pr_work_point_id r" "pr_fencing_token (?g r) = pr_fencing_token r" for r
    by (simp_all add: same)
  have g_open: "open_status (pr_status (?g r)) \<Longrightarrow> open_status (pr_status r)" if "r \<in> set rs" for r
    using status(1) that by (cases "p r") auto
  have g_lease: "env_julianday env (pr_lease_expires_at (?g r)) \<noteq> None \<and> pr_status (?g r) \<noteq> ProjectRunStatus_Suggested"
    if "r \<in> set rs" for r
    using lease status(2) ok that unfolding runs_ok_def by auto
  have "distinct (map pr_id (update_where p f rs))"
    using ok same(1) by (simp add: runs_ok_def)
  moreover have "pr_fencing_token (?g q) \<noteq> pr_fencing_token (?g r)"
    if "r \<in> set rs" "q \<in> set rs" "pr_work_point_id (?g q) = pr_work_point_id (?g r)" "?g q \<noteq> ?g r" for r q
    using ok that unfolding g runs_ok_def by blast
  moreover have "pr_fencing_token (?g q) < pr_fencing_token (?g r)"
    if "r \<in> set rs" "q \<in> set rs" "open_status (pr_status (?g r))"
      "pr_work_point_id (?g q) = pr_work_point_id (?g r)" "?g q \<noteq> ?g r" for r q
    using ok that g_open [OF that(1)] unfolding g runs_ok_def by blast
  ultimately show ?thesis
    using g_lease unfolding runs_ok_def set_update_where by (simp only: ball_simps) blast
qed

lemma runs_ok_append:
  assumes ok: "runs_ok env rs" and fresh: "pr_id new \<notin> pr_id ` set rs"
    and lease: "env_julianday env (pr_lease_expires_at new) \<noteq> None" "pr_status new \<noteq> ProjectRunStatus_Suggested"
    and none_open: "\<And>r. r \<in> set rs \<Longrightarrow> pr_work_point_id r = pr_work_point_id new \<Longrightarrow> \<not> open_status (pr_status r)"
    and token: "\<And>r. r \<in> set rs \<Longrightarrow> pr_work_point_id r = pr_work_point_id new \<Longrightarrow> pr_fencing_token r < pr_fencing_token new"
  shows "runs_ok env (rs @ [new])"
proof -
  have "distinct (map pr_id (rs @ [new]))" using ok fresh by (simp add: runs_ok_def)
  moreover have "pr_fencing_token q \<noteq> pr_fencing_token r"
    if "r \<in> set (rs @ [new])" "q \<in> set (rs @ [new])" "pr_work_point_id q = pr_work_point_id r" "q \<noteq> r" for r q
    using ok that token [of r] token [of q] unfolding runs_ok_def by auto
  moreover have "pr_fencing_token q < pr_fencing_token r"
    if "r \<in> set (rs @ [new])" "q \<in> set (rs @ [new])" "open_status (pr_status r)"
      "pr_work_point_id q = pr_work_point_id r" "q \<noteq> r" for r q
    using ok that token [of q] none_open [of r] unfolding runs_ok_def by auto
  ultimately show ?thesis using ok lease unfolding runs_ok_def by auto
qed

section \<open>Effects of the operations\<close>

lemma project_runs_core: "core st' = core st \<Longrightarrow> project_runs st' = project_runs st"
  by (rule core_fields(11))

lemma load_project_run_Inr [simp]:
  "load_project_run st i = Inr r \<longleftrightarrow> find_row pr_id i (project_runs st) = Some r"
  by (simp add: load_project_run_def)

lemma held_run_effect:
  assumes "held_run env st i k token = Inr ((existing, now), st')"
  shows "find_row pr_id i (project_runs st) = Some existing" "token = Some (pr_fencing_token existing)"
    "env_now env (tick st) = Some now" "st' = st\<lparr>tick := Suc (tick st)\<rparr>"
    "\<exists>a b. env_parse_rfc3339 env (pr_lease_expires_at existing) = Some a \<and> env_parse_rfc3339 env now = Some b \<and> b < a"
  using assms
  by (auto simp: held_run_def require_current_lease_def parse_time_def now_string_Inr_iff
      split: option.split_asm if_split_asm)

lemma record_run_change_effect:
  assumes "record_run_change env st i run_id ty payload refresh = Inr (res, st')"
  shows "core st' = core st" "find_row pr_id i (project_runs st) = Some (mr_record res)"
proof -
  from assms obtain rec c st1 v st2 where load: "load_project_run st i = Inr rec"
    and log: "log_event env st EntityType_ProjectRun (pr_id rec) EntityType_Roadmap (pr_roadmap_id rec) c
      run_id ty (payload rec) = Inr st1"
    and val: "refresh_validation_target env st1 EntityType_ProjectRun (pr_id rec) = Inr (v, st2)"
    and wp: "(if refresh
           then tryE (refresh_validation_target env st2 EntityType_WorkPoint (pr_work_point_id rec)) (\<lambda>(_, st). Inr st)
           else Inr st2) = Inr st'"
    and res: "mr_record res = rec"
    unfolding record_run_change_def validate_and_store_def tryE_Inr_iff
    by (clarsimp simp del: load_project_run_Inr)
  have "core st' = core st2"
    using wp by (cases refresh) (auto dest: refresh_validation_target_core)
  also have "\<dots> = core st1" by (rule refresh_validation_target_core [OF val])
  also have "\<dots> = core st" by (rule log_event_core [OF log])
  finally show "core st' = core st" .
  show "find_row pr_id i (project_runs st) = Some (mr_record res)" using load res by simp
qed

lemma expire_runs_rows:
  assumes "r \<in> set (project_runs (expire_runs env st w now))" "pr_work_point_id r = w" "open_status (pr_status r)"
  shows "r \<in> set (project_runs st) \<and> \<not> lease_over env now r"
proof -
  let ?p = "\<lambda>q. pr_work_point_id q = w \<and> open_status (pr_status q) \<and> lease_over env now q"
  have "r \<in> set (update_where ?p (\<lambda>q. q\<lparr>pr_status := ProjectRunStatus_Released,
      pr_revision := pr_revision q + 1, pr_updated_at := now\<rparr>) (project_runs st))"
    using assms(1) by (simp add: expire_runs_def)
  then obtain q where q: "q \<in> set (project_runs st)" and r: "r = (if ?p q then q\<lparr>pr_status := ProjectRunStatus_Released,
      pr_revision := pr_revision q + 1, pr_updated_at := now\<rparr> else q)"
    by (rule in_update_whereE)
  show ?thesis
  proof (cases "?p q")
    case True
    then have "pr_status r = ProjectRunStatus_Released" using r by simp
    with assms(3) show ?thesis by (simp add: open_status_def)
  next
    case False
    then have "r = q" using r by (simp only: if_False)
    with False q assms show ?thesis by blast
  qed
qed

lemma next_fencing_token_expire [simp]:
  "next_fencing_token (expire_runs env st w now) v = next_fencing_token st v"
  by (simp add: next_fencing_token_def expire_runs_def map_filter_update_where)

lemma next_fencing_token_greater:
  assumes "r \<in> set (project_runs st)" "pr_work_point_id r = w"
  shows "pr_fencing_token r < next_fencing_token st w"
proof -
  have "pr_fencing_token r \<in> set (map pr_fencing_token (filter (\<lambda>r. pr_work_point_id r = w) (project_runs st)))"
    using assms by auto
  from max_or_zero_ge [OF this] show ?thesis by (simp add: next_fencing_token_def)
qed

lemma log_expired_core:
  assumes "foldE (log_expired env input) st ids = Inr st'"
  shows "core st' = core st"
  using assms by (rule foldE_invariant [where P = "\<lambda>s. core s = core st"])
    (auto simp: log_expired_def dest!: log_event_core)

lemma insert_project_run_effect:
  assumes "insert_project_run st r = Inr st'"
  shows "project_runs st' = project_runs st @ [r]" "pr_id r \<notin> pr_id ` set (project_runs st)"
    "run_key r \<noteq> None \<Longrightarrow> run_key r \<notin> run_key ` set (project_runs st)"
  using assms by (auto simp: insert_project_run_def list_ex_iff find_row_None_iff split: if_split_asm)

lemma expire_runs_keeps_live:
  assumes "r \<in> set (project_runs st)" "lease_live env now r"
  shows "r \<in> set (project_runs (expire_runs env st w now))"
proof -
  have "\<not> lease_over env now r"
    using assms(2) by (auto simp: lease_live_def lease_over_def split: option.splits)
  then show ?thesis using assms(1) by (auto simp: expire_runs_def set_update_where image_iff)
qed

lemma expire_runs_keys:
  "pr_id ` set (project_runs (expire_runs env st w now)) = pr_id ` set (project_runs st)"
  "run_key ` set (project_runs (expire_runs env st w now)) = run_key ` set (project_runs st)"
  by (simp_all add: expire_runs_def image_update_where run_key_def)

lemma claim_fresh_effect:
  assumes "claim_fresh env st input k owner secs now = Inr (res, st')"
  obtains i deadline where "lease_deadline env now secs = Inr deadline"
    "mr_record res = claimed_record input i k owner (next_fencing_token st (cr_work_point_id input)) deadline now"
    "i \<notin> pr_id ` set (project_runs st)"
    "run_key (mr_record res) \<noteq> None \<Longrightarrow> run_key (mr_record res) \<notin> run_key ` set (project_runs st)"
    "\<And>r. r \<in> set (project_runs st) \<Longrightarrow> pr_work_point_id r = cr_work_point_id input
        \<Longrightarrow> open_status (pr_status r) \<Longrightarrow> \<not> lease_live env now r"
    "project_runs st' = project_runs (expire_runs env st (cr_work_point_id input) now) @ [mr_record res]"
proof -
  let ?w = "cr_work_point_id input" and ?e = "expire_runs env st (cr_work_point_id input) now"
  from assms obtain st1 i deadline st2 st3 st4 st5 v v' where logged: "foldE (log_expired env input) ?e (map pr_id (expired_runs env st ?w now)) = Inr st1"
    and none: "filter (\<lambda>r. pr_work_point_id r = ?w \<and> open_status (pr_status r) \<and> lease_live env now r) (project_runs st1) = []"
    and i: "i = chosen_id env (tick st1) (cr_id input)"
    and deadline: "lease_deadline env now secs = Inr deadline"
    and ins: "insert_project_run (st1\<lparr>tick := chosen_tick (tick st1) (cr_id input)\<rparr>) (mr_record res) = Inr st2"
    and rec: "mr_record res = claimed_record input i k owner (next_fencing_token (st1\<lparr>tick := chosen_tick (tick st1) (cr_id input)\<rparr>) ?w) deadline now"
    and log: "log_event env st2 EntityType_ProjectRun i EntityType_Roadmap (pr_roadmap_id (mr_record res))
      (case cr_correlation_id input of None \<Rightarrow> format [''corr-'', i] | Some c \<Rightarrow> c) (cr_run_id input)
      ''project-run.claimed'' (project_run_json (mr_record res)) = Inr st3"
    and val: "refresh_validation_target env st3 EntityType_ProjectRun i = Inr (v, st4)"
    and wp: "refresh_validation_target env st4 EntityType_WorkPoint (pr_work_point_id (mr_record res)) = Inr (v', st')"
    unfolding claim_fresh_def Let_def id_or_new_eq validate_and_store_def
    by (auto split: if_split_asm)
  have st1: "project_runs st1 = project_runs ?e" by (rule project_runs_core [OF log_expired_core [OF logged]])
  have "core st' = core st2"
    using refresh_validation_target_core [OF wp] refresh_validation_target_core [OF val] log_event_core [OF log] by simp
  then have rows: "project_runs st' = project_runs ?e @ [mr_record res]"
    using project_runs_core [of st' st2] insert_project_run_effect(1) [OF ins] st1 by simp
  have token: "next_fencing_token (st1\<lparr>tick := chosen_tick (tick st1) (cr_id input)\<rparr>) ?w = next_fencing_token st ?w"
    using st1 next_fencing_token_expire by (simp add: next_fencing_token_def)
  show ?thesis
  proof (rule that [OF deadline])
    show "mr_record res = claimed_record input i k owner (next_fencing_token st ?w) deadline now"
      using rec token by simp
    show "i \<notin> pr_id ` set (project_runs st)"
      using insert_project_run_effect(2) [OF ins] st1 rec expire_runs_keys(1) by (simp add: claimed_record_def)
    show "run_key (mr_record res) \<notin> run_key ` set (project_runs st)" if "run_key (mr_record res) \<noteq> None"
      using insert_project_run_effect(3) [OF ins that] st1 expire_runs_keys(2) by simp
    show "\<not> lease_live env now r" if "r \<in> set (project_runs st)" "pr_work_point_id r = ?w" "open_status (pr_status r)" for r
    proof
      assume live: "lease_live env now r"
      from expire_runs_keeps_live [OF that(1) live] have "r \<in> set (project_runs st1)" by (simp add: st1)
      with none that live show False by (simp add: filter_empty_conv)
    qed
    show "project_runs st' = project_runs ?e @ [mr_record res]" by (rule rows)
  qed
qed

lemma tick_runs [simp]:
  "project_runs (expire_runs env (st\<lparr>tick := n\<rparr>) w now) = project_runs (expire_runs env st w now)"
  "next_fencing_token (st\<lparr>tick := n\<rparr>) w = next_fencing_token st w"
  by (simp_all add: expire_runs_def next_fencing_token_def)

lemma replayed_run_tick [simp]: "replayed_run (st\<lparr>tick := n\<rparr>) k input owner = replayed_run st k input owner"
  by (simp add: replayed_run_def load_project_run_def cong: option.case_cong)

lemma claim_project_run_tx_cases:
  assumes "claim_project_run_tx env st input = Inr ((res, claimed), st')"
  obtains (replay) key k owner where "\<not> claimed" "cr_idempotency_key input = Some key" "project_runs st' = project_runs st"
      "mr_record res \<in> set (project_runs st)"
      "claim_references st (normalized_scope_key (cr_scope_key input)) input = Inr k" "run_owner input = Inr owner"
      "replayed_run st k input owner = Inr (Some (mr_record res))"
      "core st' = core st"
  | (fresh) k owner secs now where "claimed" "env_now env (tick st) = Some now"
      "normalize_lease_seconds (cr_lease_seconds input) = Inr secs"
      "claim_references st (normalized_scope_key (cr_scope_key input)) input = Inr k" "run_owner input = Inr owner"
      "claim_fresh env (st\<lparr>tick := Suc (tick st)\<rparr>) input k owner secs now = Inr (res, st')"
proof -
  let ?st = "st\<lparr>tick := Suc (tick st)\<rparr>"
  from assms obtain k now secs owner replayed where now: "env_now env (tick st) = Some now"
    and secs: "normalize_lease_seconds (cr_lease_seconds input) = Inr secs"
    and refs: "claim_references st (normalized_scope_key (cr_scope_key input)) input = Inr k"
    and owner: "run_owner input = Inr owner" and rep: "replayed_run ?st k input owner = Inr replayed"
    and rest: "(case replayed of
       Some existing \<Rightarrow>
         tryE (validate_and_store env ?st EntityType_ProjectRun (pr_id existing)) (\<lambda>(validation, st).
         Inr ((\<lparr>mr_record = existing, mr_validation = validation\<rparr>, False), st))
     | None \<Rightarrow>
         tryE (claim_fresh env ?st input k owner secs now) (\<lambda>(res, st).
         Inr ((res, True), st))) = Inr ((res, claimed), st')"
    unfolding claim_project_run_tx_def tryE_Inr_iff now_string_Inr_iff by (clarsimp simp: now_string_Inr_iff)
  show ?thesis
  proof (cases replayed)
    case None
    then show ?thesis using rest by (intro fresh [OF _ now secs refs owner]) auto
  next
    case (Some existing)
    with rest have res: "\<not> claimed" "mr_record res = existing"
      and val: "refresh_validation_target env ?st EntityType_ProjectRun (pr_id existing) = Inr (mr_validation res, st')"
      by (auto simp: validate_and_store_def)
    have core: "core st' = core st" using refresh_validation_target_core [OF val] by simp
    note runs = project_runs_core [OF core]
    have rep': "replayed_run st k input owner = Inr (Some existing)"
      using rep Some by simp
    from rep Some obtain key where key: "cr_idempotency_key input = Some key"
      and "\<exists>i. find_row pr_id i (project_runs st) = Some existing"
      by (auto simp: replayed_run_def split: option.split_asm if_split_asm)
    then have "existing \<in> set (project_runs st)" by (blast dest: find_row_SomeD)
    with res runs key core rep' show ?thesis by - (rule replay [OF _ _ _ _ refs owner], simp_all)
  qed
qed

section \<open>The operations keep the invariant\<close>

lemma expire_runs_ok:
  assumes "runs_ok env (project_runs st)"
  shows "runs_ok env (project_runs (expire_runs env st w now))"
  unfolding expire_runs_def
  by (simp, rule runs_ok_update [OF assms]) (simp_all add: runs_ok_readable [OF assms] open_status_def)

lemma lease_over_or_live:
  "env_julianday env (pr_lease_expires_at r) \<noteq> None \<Longrightarrow> env_julianday env now \<noteq> None
   \<Longrightarrow> lease_over env now r \<or> lease_live env now r"
  by (auto simp: lease_over_def lease_live_def)

lemma lease_deadline_readable:
  "clock_laws env \<Longrightarrow> lease_deadline env now secs = Inr t \<Longrightarrow> env_julianday env t \<noteq> None"
  by (auto simp: lease_deadline_def clock_laws_def split: option.split_asm)

lemma claim_fresh_ok:
  assumes claim: "claim_fresh env st input k owner secs now = Inr (res, st')"
    and ok: "runs_ok env (project_runs st)" and clock: "clock_laws env" "env_julianday env now \<noteq> None"
  shows "runs_ok env (project_runs st')"
proof -
  let ?w = "cr_work_point_id input" and ?e = "expire_runs env st (cr_work_point_id input) now"
  from claim obtain i deadline where deadline: "lease_deadline env now secs = Inr deadline"
    and new: "mr_record res = claimed_record input i k owner (next_fencing_token st ?w) deadline now"
    and fresh: "i \<notin> pr_id ` set (project_runs st)"
    and dead: "\<And>r. r \<in> set (project_runs st) \<Longrightarrow> pr_work_point_id r = ?w \<Longrightarrow> open_status (pr_status r) \<Longrightarrow> \<not> lease_live env now r"
    and runs: "project_runs st' = project_runs ?e @ [mr_record res]"
    by (rule claim_fresh_effect) (rule that)
  have ok_e: "runs_ok env (project_runs ?e)" by (rule expire_runs_ok [OF ok])
  have none_open: "\<not> open_status (pr_status r)" if r: "r \<in> set (project_runs ?e)" "pr_work_point_id r = ?w" for r
  proof
    assume o: "open_status (pr_status r)"
    from expire_runs_rows [OF r o] have "r \<in> set (project_runs st)" "\<not> lease_over env now r" by simp_all
    moreover from this dead [OF _ r(2) o] have "\<not> lease_live env now r" by simp
    ultimately show False using lease_over_or_live [OF runs_ok_readable [OF ok] clock(2)] by blast
  qed
  have token: "pr_fencing_token r < next_fencing_token st ?w"
    if "r \<in> set (project_runs ?e)" "pr_work_point_id r = ?w" for r
    using next_fencing_token_greater [OF that] by simp
  have "runs_ok env (project_runs ?e @ [mr_record res])"
    using ok_e
  proof (rule runs_ok_append)
    show "pr_id (mr_record res) \<notin> pr_id ` set (project_runs ?e)"
      using fresh new expire_runs_keys(1) by (simp add: claimed_record_def)
    show "env_julianday env (pr_lease_expires_at (mr_record res)) \<noteq> None"
      using lease_deadline_readable [OF clock(1) deadline] new by (simp add: claimed_record_def)
  qed (use none_open token new in \<open>simp_all add: claimed_record_def\<close>)
  then show ?thesis by (simp add: runs)
qed

lemma held_change:
  assumes held: "held_run env st i k tok = Inr ((existing, now), st1)"
    and change: "record_run_change env (st1\<lparr>project_runs := update_where p f (project_runs st1)\<rparr>) i run ty pay b = Inr (res, st')"
    and same: "\<And>r. pr_id (f r) = pr_id r"
  shows "project_runs st' = update_where p f (project_runs st)"
    "mr_record res = (if p existing then f existing else existing)"
proof -
  note held = held_run_effect [OF held] and change = record_run_change_effect [OF change]
  show "project_runs st' = update_where p f (project_runs st)"
    using project_runs_core [OF change(1)] held(4) by simp
  show "mr_record res = (if p existing then f existing else existing)"
    using change(2) held(1,4) find_row_update_where [of pr_id f i p "project_runs st"] same by simp
qed

text \<open>
  The run an operation of the holder works on: it exists, the caller presented its token, and its
  lease was not over when the clock was read.
\<close>

definition lease_held :: "environment \<Rightarrow> planning_store \<Rightarrow> string \<Rightarrow> int option \<Rightarrow> project_run_record \<Rightarrow> bool" where
  "lease_held env st i tok r \<longleftrightarrow> find_row pr_id i (project_runs st) = Some r \<and> tok = Some (pr_fencing_token r)
     \<and> (\<exists>now a b. env_now env (tick st) = Some now \<and> env_parse_rfc3339 env (pr_lease_expires_at r) = Some a
          \<and> env_parse_rfc3339 env now = Some b \<and> b < a)"

lemma held_run_lease_held:
  "held_run env st i k tok = Inr ((existing, now), st1) \<Longrightarrow> lease_held env st i tok existing"
  using held_run_effect [of env st i k tok existing now st1] by (auto simp: lease_held_def)

lemma activate_effect:
  assumes "activate_project_run_tx env st input = Inr (res, st')"
  obtains existing now where "lease_held env st (ar_project_run_id input) (ar_fencing_token input) existing"
    "pr_status existing = ProjectRunStatus_Claimed"
    "project_runs st' = update_where (\<lambda>r. pr_id r = ar_project_run_id input)
       (\<lambda>r. r\<lparr>pr_status := ProjectRunStatus_Active, pr_revision := pr_revision r + 1, pr_updated_at := now\<rparr>) (project_runs st)"
    "mr_record res = existing\<lparr>pr_status := ProjectRunStatus_Active, pr_revision := pr_revision existing + 1,
       pr_updated_at := now\<rparr>"
proof -
  from assms obtain existing now st1 where held: "held_run env st (ar_project_run_id input) (ar_active_scope_key input)
      (ar_fencing_token input) = Inr ((existing, now), st1)" and status: "pr_status existing = ProjectRunStatus_Claimed"
    and change: "record_run_change env (update_project_run st1 (ar_project_run_id input) (\<lambda>r.
           r\<lparr>pr_status := ProjectRunStatus_Active, pr_revision := pr_revision r + 1, pr_updated_at := now\<rparr>))
        (ar_project_run_id input) (ar_run_id input) ''project-run.activated'' project_run_json True = Inr (res, st')"
    unfolding activate_project_run_tx_def by (auto simp: Let_def split: if_split_asm)
  have "pr_id existing = ar_project_run_id input" using held_run_effect(1) [OF held] by (blast dest: find_row_SomeD)
  then show ?thesis
    using held_change [OF held change [unfolded update_project_run_def]] held_run_lease_held [OF held] status
    by (intro that [of existing now]) simp_all
qed

lemma heartbeat_effect:
  assumes "heartbeat_project_run env st input = Inr (res, st')"
  obtains existing now secs deadline where
    "lease_held env st (hr_project_run_id input) (hr_fencing_token input) existing"
    "pr_status existing = ProjectRunStatus_Claimed \<or> pr_status existing = ProjectRunStatus_Active"
    "env_now env (tick st) = Some now"
    "normalize_lease_seconds (hr_lease_seconds input) = Inr secs" "lease_deadline env now secs = Inr deadline"
    "project_runs st' = update_where
       (\<lambda>r. pr_id r = hr_project_run_id input \<and> pr_fencing_token r = pr_fencing_token existing)
       (\<lambda>r. r\<lparr>pr_heartbeat_at := now, pr_lease_expires_at := deadline, pr_revision := pr_revision r + 1,
             pr_updated_at := now\<rparr>) (project_runs st)"
    "mr_record res = existing\<lparr>pr_heartbeat_at := now, pr_lease_expires_at := deadline,
       pr_revision := pr_revision existing + 1, pr_updated_at := now\<rparr>"
proof -
  from assms obtain existing now st1 secs deadline where held: "held_run env st (hr_project_run_id input)
      (hr_active_scope_key input) (hr_fencing_token input) = Inr ((existing, now), st1)"
    and status: "pr_status existing = ProjectRunStatus_Claimed \<or> pr_status existing = ProjectRunStatus_Active"
    and lease: "normalize_lease_seconds (hr_lease_seconds input) = Inr secs" "lease_deadline env now secs = Inr deadline"
    and change: "record_run_change env (st1\<lparr>project_runs := update_where
               (\<lambda>r. pr_id r = hr_project_run_id input \<and> pr_fencing_token r = pr_fencing_token existing)
               (\<lambda>r. r\<lparr>pr_heartbeat_at := now, pr_lease_expires_at := deadline,
                     pr_revision := pr_revision r + 1, pr_updated_at := now\<rparr>) (project_runs st1)\<rparr>)
        (hr_project_run_id input) (hr_run_id input) ''project-run.heartbeat''
       (\<lambda>rec. JObj [(''fencingToken'', JInt (pr_fencing_token rec)),
          (''heartbeatAt'', JStr (pr_heartbeat_at rec)), (''leaseExpiresAt'', JStr (pr_lease_expires_at rec))])
       False = Inr (res, st')"
    unfolding heartbeat_project_run_def by (auto simp: Let_def split: if_split_asm)
  have "pr_id existing = hr_project_run_id input" using held_run_effect(1) [OF held] by (blast dest: find_row_SomeD)
  then show ?thesis
    using held_change [OF held change] held_run_lease_held [OF held] held_run_effect(3) [OF held] status lease
    by (intro that [of existing now secs deadline]) simp_all
qed

lemma release_effect:
  assumes "release_project_run_tx env st input = Inr (res, st')"
  obtains existing now evidence completed where
    "lease_held env st (rr_project_run_id input) (rr_fencing_token input) existing" "open_status (pr_status existing)"
    "rr_status input \<in> {ProjectRunStatus_Completed, ProjectRunStatus_Failed, ProjectRunStatus_Cancelled, ProjectRunStatus_Released}"
    "project_runs st' = update_where (\<lambda>r. pr_id r = rr_project_run_id input)
       (\<lambda>r. r\<lparr>pr_status := rr_status input, pr_evidence := evidence, pr_completed_at := completed,
             pr_revision := pr_revision r + 1, pr_updated_at := now\<rparr>) (project_runs st)"
    "mr_record res = existing\<lparr>pr_status := rr_status input, pr_evidence := evidence, pr_completed_at := completed,
       pr_revision := pr_revision existing + 1, pr_updated_at := now\<rparr>"
proof -
  from assms obtain existing now st1 where held: "held_run env st (rr_project_run_id input) (rr_active_scope_key input)
      (rr_fencing_token input) = Inr ((existing, now), st1)" and status: "open_status (pr_status existing)"
    and closed: "rr_status input \<in> {ProjectRunStatus_Completed, ProjectRunStatus_Failed, ProjectRunStatus_Cancelled, ProjectRunStatus_Released}"
    and change: "record_run_change env (update_project_run st1 (rr_project_run_id input) (\<lambda>r.
           r\<lparr>pr_status := rr_status input, pr_evidence := (case rr_evidence input of None \<Rightarrow> pr_evidence existing | Some e \<Rightarrow> e),
             pr_completed_at := (if rr_status input = ProjectRunStatus_Completed then Some now else None),
             pr_revision := pr_revision r + 1, pr_updated_at := now\<rparr>))
        (rr_project_run_id input) (rr_run_id input) ''project-run.released'' project_run_json True = Inr (res, st')"
    unfolding release_project_run_tx_def Let_def tryE_Inr_iff if_distrib [of "\<lambda>x. x = Inr (res, st')"]
    by (auto split: if_split_asm)
  have "pr_id existing = rr_project_run_id input" using held_run_effect(1) [OF held] by (blast dest: find_row_SomeD)
  then show ?thesis
    using held_change [OF held change [unfolded update_project_run_def]] held_run_lease_held [OF held] status closed
    by - (rule that, assumption+, simp_all)
qed

lemma add_evidence_effect:
  assumes "add_project_run_evidence_tx env st input = Inr (res, st')"
  obtains existing now where "lease_held env st (ad_project_run_id input) (ad_fencing_token input) existing"
    "pr_status existing = ProjectRunStatus_Suggested \<or> open_status (pr_status existing)"
    "project_runs st' = update_where (\<lambda>r. pr_id r = ad_project_run_id input)
       (\<lambda>r. r\<lparr>pr_evidence := ad_evidence input, pr_revision := pr_revision r + 1, pr_updated_at := now\<rparr>) (project_runs st)"
    "mr_record res = existing\<lparr>pr_evidence := ad_evidence input, pr_revision := pr_revision existing + 1,
       pr_updated_at := now\<rparr>"
proof -
  from assms obtain existing now st1 where held: "held_run env st (ad_project_run_id input) (ad_active_scope_key input)
      (ad_fencing_token input) = Inr ((existing, now), st1)"
    and status: "pr_status existing \<notin> {ProjectRunStatus_Completed, ProjectRunStatus_Failed, ProjectRunStatus_Cancelled, ProjectRunStatus_Released}"
    and change: "record_run_change env (update_project_run st1 (ad_project_run_id input) (\<lambda>r.
           r\<lparr>pr_evidence := ad_evidence input, pr_revision := pr_revision r + 1, pr_updated_at := now\<rparr>))
        (ad_project_run_id input) (ad_run_id input) ''project-run.evidence-added''
        (\<lambda>_. JObj [(''evidence'', evidence_json (ad_evidence input))]) False = Inr (res, st')"
    unfolding add_project_run_evidence_tx_def by (auto simp: Let_def split: if_split_asm)
  have "pr_id existing = ad_project_run_id input" using held_run_effect(1) [OF held] by (blast dest: find_row_SomeD)
  moreover have "pr_status existing = ProjectRunStatus_Suggested \<or> open_status (pr_status existing)"
    using status by (cases "pr_status existing") (simp_all add: open_status_def)
  ultimately show ?thesis
    using held_change [OF held change [unfolded update_project_run_def]] held_run_lease_held [OF held]
    by (intro that [of existing now]) simp_all
qed

section \<open>The step relation\<close>

definition run_inv :: "environment \<Rightarrow> world \<Rightarrow> bool" where
  "run_inv env w \<longleftrightarrow> clock_laws env \<and> runs_ok env (project_runs (fst w))"

inductive run_step :: "environment \<Rightarrow> world \<Rightarrow> world \<Rightarrow> bool" for env where
  claim: "claim_project_run env w input = Inr (res, w') \<Longrightarrow> run_step env w w'"
| activate: "activate_project_run env w input = Inr (res, w') \<Longrightarrow> run_step env w w'"
| heartbeat: "heartbeat_project_run env st input = Inr (res, st') \<Longrightarrow> run_step env (st, d) (st', d)"
| release: "release_project_run env w input = Inr (res, w') \<Longrightarrow> run_step env w w'"
| add_evidence: "add_project_run_evidence env w input = Inr (res, w') \<Longrightarrow> run_step env w w'"
| other: "project_runs st' = project_runs st \<Longrightarrow> run_step env (st, d) (st', d')"

lemma publish_run_runs [simp]: "project_runs (fst (publish_run env w state)) = project_runs (fst w)"
  by (cases w) (simp add: publish_run_def)

lemma claim_project_run_tx:
  assumes "claim_project_run env w input = Inr (res, w')"
  obtains claimed st' n where "claim_project_run_tx env (fst w) input = Inr ((res, claimed), st')"
    "fst w' = st'\<lparr>tick := n\<rparr>" "project_runs (fst w') = project_runs st'"
proof -
  obtain st d where w: "w = (st, d)" by (cases w)
  from assms obtain claimed st' where tx: "claim_project_run_tx env st input = Inr ((res, claimed), st')"
    and w': "w' = (if claimed \<and> pr_session_id (mr_record res) \<noteq> None
        then publish_run env (st', d) (run_state (mr_record res) (project_run_status_as_str (pr_status (mr_record res))) None)
        else (st', d))"
    unfolding w claim_project_run_def by (auto simp: Let_def split: if_split_asm)
  have "\<exists>n. fst w' = st'\<lparr>tick := n\<rparr>" unfolding w' publish_run_def
    by (cases st') auto
  then show ?thesis using that tx unfolding w by auto
qed

lemma activate_project_run_tx:
  assumes "activate_project_run env w input = Inr (res, w')"
  obtains st' where "activate_project_run_tx env (fst w) input = Inr (res, st')" "project_runs (fst w') = project_runs st'"
  using assms by (cases w) (auto simp: activate_project_run_def Let_def split: if_split_asm)

lemma release_project_run_tx:
  assumes "release_project_run env w input = Inr (res, w')"
  obtains st' where "release_project_run_tx env (fst w) input = Inr (res, st')" "project_runs (fst w') = project_runs st'"
  using assms by (cases w) (auto simp: release_project_run_def Let_def split: if_split_asm)

lemma add_project_run_evidence_tx:
  assumes "add_project_run_evidence env w input = Inr (res, w')"
  obtains st' where "add_project_run_evidence_tx env (fst w) input = Inr (res, st')" "project_runs (fst w') = project_runs st'"
  using assms by (cases w) (auto simp: add_project_run_evidence_def Let_def split: if_split_asm)

lemma clock_now_readable: "clock_laws env \<Longrightarrow> env_now env n = Some t \<Longrightarrow> env_julianday env t \<noteq> None"
  unfolding clock_laws_def by blast

lemma claim_project_run_ok:
  assumes "claim_project_run env w input = Inr (res, w')" "run_inv env w"
  shows "run_inv env w'"
proof -
  from assms(1) obtain claimed st' where tx: "claim_project_run_tx env (fst w) input = Inr ((res, claimed), st')"
    and runs: "project_runs (fst w') = project_runs st'" by (rule claim_project_run_tx) (rule that, assumption+)
  have "runs_ok env (project_runs st')"
    using tx
  proof (cases rule: claim_project_run_tx_cases)
    case replay
    then show ?thesis using assms(2) by (simp add: run_inv_def)
  next
    case (fresh k owner secs now)
    with assms(2) show ?thesis
      by (intro claim_fresh_ok [OF fresh(6)]) (simp_all add: run_inv_def clock_now_readable)
  qed
  with runs assms(2) show ?thesis by (simp add: run_inv_def)
qed

lemma find_row_only:
  assumes "runs_ok env rs" "find_row pr_id i rs = Some existing" "r \<in> set rs" "pr_id r = i"
  shows "r = existing"
proof -
  have "find_row pr_id (pr_id r) rs = Some r" using assms(1,3) by (intro find_row_distinct) (simp_all add: runs_ok_def)
  with assms(2,4) show ?thesis by simp
qed

lemma activate_project_run_ok:
  assumes "activate_project_run env w input = Inr (res, w')" "run_inv env w"
  shows "run_inv env w'"
proof -
  from assms(1) obtain st' where tx: "activate_project_run_tx env (fst w) input = Inr (res, st')"
    and runs: "project_runs (fst w') = project_runs st'" by (rule activate_project_run_tx) (rule that)
  from tx obtain existing now where held: "lease_held env (fst w) (ar_project_run_id input) (ar_fencing_token input) existing"
    and status: "pr_status existing = ProjectRunStatus_Claimed"
    and upd: "project_runs st' = update_where (\<lambda>r. pr_id r = ar_project_run_id input)
       (\<lambda>r. r\<lparr>pr_status := ProjectRunStatus_Active, pr_revision := pr_revision r + 1, pr_updated_at := now\<rparr>) (project_runs (fst w))"
    by (rule activate_effect) (rule that)
  have ok: "runs_ok env (project_runs (fst w))" using assms(2) by (simp add: run_inv_def)
  have "runs_ok env (project_runs st')"
    unfolding upd using ok
  proof (rule runs_ok_update)
    fix r assume r: "r \<in> set (project_runs (fst w))" "pr_id r = ar_project_run_id input"
    with ok held have "r = existing" by (auto simp: lease_held_def intro: find_row_only)
    then show "open_status (pr_status r)" using status by (simp add: open_status_def)
  qed (simp_all add: runs_ok_readable [OF ok])
  with runs assms(2) show ?thesis by (simp add: run_inv_def)
qed

lemma heartbeat_project_run_ok:
  assumes "heartbeat_project_run env st input = Inr (res, st')" "run_inv env (st, d)"
  shows "run_inv env (st', d)"
proof -
  from assms(1) obtain existing now secs deadline where
    "lease_held env st (hr_project_run_id input) (hr_fencing_token input) existing"
    and deadline: "lease_deadline env now secs = Inr deadline"
    and upd: "project_runs st' = update_where
       (\<lambda>r. pr_id r = hr_project_run_id input \<and> pr_fencing_token r = pr_fencing_token existing)
       (\<lambda>r. r\<lparr>pr_heartbeat_at := now, pr_lease_expires_at := deadline, pr_revision := pr_revision r + 1,
             pr_updated_at := now\<rparr>) (project_runs st)"
    by (rule heartbeat_effect) (rule that, assumption+)
  have ok: "runs_ok env (project_runs st)" and clock: "clock_laws env" using assms(2) by (simp_all add: run_inv_def)
  have "runs_ok env (project_runs st')" unfolding upd
    by (rule runs_ok_update [OF ok]) (use ok lease_deadline_readable [OF clock deadline] in \<open>simp_all add: runs_ok_def\<close>)
  with clock show ?thesis by (simp add: run_inv_def)
qed

lemma release_project_run_ok:
  assumes "release_project_run env w input = Inr (res, w')" "run_inv env w"
  shows "run_inv env w'"
proof -
  from assms(1) obtain st' where tx: "release_project_run_tx env (fst w) input = Inr (res, st')"
    and runs: "project_runs (fst w') = project_runs st'" by (rule release_project_run_tx) (rule that)
  from tx obtain existing now evidence completed where
    closed: "rr_status input \<in> {ProjectRunStatus_Completed, ProjectRunStatus_Failed, ProjectRunStatus_Cancelled, ProjectRunStatus_Released}"
    and upd: "project_runs st' = update_where (\<lambda>r. pr_id r = rr_project_run_id input)
       (\<lambda>r. r\<lparr>pr_status := rr_status input, pr_evidence := evidence, pr_completed_at := completed,
             pr_revision := pr_revision r + 1, pr_updated_at := now\<rparr>) (project_runs (fst w))"
    by (rule release_effect) (rule that)
  have ok: "runs_ok env (project_runs (fst w))" using assms(2) by (simp add: run_inv_def)
  have "runs_ok env (project_runs st')" unfolding upd
    by (rule runs_ok_update [OF ok]) (use closed in \<open>auto simp: runs_ok_readable [OF ok] open_status_def\<close>)
  with runs assms(2) show ?thesis by (simp add: run_inv_def)
qed

lemma add_project_run_evidence_ok:
  assumes "add_project_run_evidence env w input = Inr (res, w')" "run_inv env w"
  shows "run_inv env w'"
proof -
  from assms(1) obtain st' where tx: "add_project_run_evidence_tx env (fst w) input = Inr (res, st')"
    and runs: "project_runs (fst w') = project_runs st'" by (rule add_project_run_evidence_tx) (rule that)
  from tx obtain existing now where
    upd: "project_runs st' = update_where (\<lambda>r. pr_id r = ad_project_run_id input)
       (\<lambda>r. r\<lparr>pr_evidence := ad_evidence input, pr_revision := pr_revision r + 1, pr_updated_at := now\<rparr>) (project_runs (fst w))"
    by (rule add_evidence_effect) (rule that)
  have ok: "runs_ok env (project_runs (fst w))" using assms(2) by (simp add: run_inv_def)
  have "runs_ok env (project_runs st')" unfolding upd
    by (rule runs_ok_update [OF ok]) (use ok in \<open>simp_all add: runs_ok_def\<close>)
  with runs assms(2) show ?thesis by (simp add: run_inv_def)
qed

lemma run_step_inv: "run_step env w w' \<Longrightarrow> run_inv env w \<Longrightarrow> run_inv env w'"
proof (induction rule: run_step.induct)
  case (other st' st d d')
  then show ?case by (simp add: run_inv_def)
qed (erule (1) claim_project_run_ok activate_project_run_ok heartbeat_project_run_ok release_project_run_ok
      add_project_run_evidence_ok)+

interpretation run_sys: invariant_system "run_step env" "run_inv env" for env
  by unfold_locales (rule run_step_inv)

end
