(* ===== verification/RunProperties.thy ===== *)
theory RunProperties
  imports RunInvariant EventLog
begin

text \<open>
  The properties of project runs: exclusive leases, fencing, idempotent claims, the bounds of a lease
  and the session file. The witnesses run on \<open>lease_env\<close>, whose times are numbers written in unary.
\<close>

section \<open>An environment for the witnesses\<close>

definition unary :: "nat \<Rightarrow> string" where
  "unary n = replicate n (CHR ''i'')"

lemma length_unary [simp]: "length (unary n) = n"
  by (simp add: unary_def)

lemma unary_eq_Nil [simp]: "unary n = [] \<longleftrightarrow> n = 0"
  by (simp add: unary_def)

definition lease_env :: environment where
  "lease_env =
     \<lparr>env_new_id = (\<lambda>n. ''uuid-'' @ replicate n (CHR ''x'')),
      env_now = (\<lambda>n. Some (unary n)),
      env_parse_rfc3339 = (\<lambda>s. Some (int (length s))),
      env_format_rfc3339 = (\<lambda>i. if 0 \<le> i then Some (unary (nat i)) else None),
      env_julianday = (\<lambda>s. Some (int (length s)))\<rparr>"

definition claim_input :: "string option \<Rightarrow> string \<Rightarrow> claim_project_run_input" where
  "claim_input key w = \<lparr>cr_id = None, cr_scope_key = None, cr_goal_id = ''g'', cr_roadmap_id = ''rm'',
     cr_work_point_id = w, cr_repo_id = None, cr_branch = None, cr_worktree_id = None,
     cr_session_id = Some ''s'', cr_run_id = None, cr_profile_id = None, cr_correlation_id = None,
     cr_owner_id = Some ''me'', cr_idempotency_key = key, cr_lease_seconds = Some 60\<rparr>"

definition empty_disk :: session_disk where
  "empty_disk = \<lparr>sd_content = Absent, sd_write_error = None\<rparr>"

definition claim_world :: world where
  "claim_world = (case claim_project_run lease_env (work_store, empty_disk) (claim_input (Some ''k'') ''p3'') of
      Inr (_, w) \<Rightarrow> w | Inl _ \<Rightarrow> (work_store, empty_disk))"

definition claim_result :: "project_run_record mutation_result" where
  "claim_result = (case claim_project_run lease_env (work_store, empty_disk) (claim_input (Some ''k'') ''p3'') of
      Inr (res, _) \<Rightarrow> res
    | Inl _ \<Rightarrow> \<lparr>mr_record = claimed_record (claim_input None ''p3'') [] [] [] 0 [] [], mr_validation = from_findings []\<rparr>)"

lemmas validate_eval = validate_and_store_def refresh_validation_target_def validate_entity_def validator_steps_def
  validate_project_run_def validate_work_point_def section_steps_def dependency_steps_def push_when_def after_load_def
  persist_validation_findings_def cross_scope_targets_def finding_def dependency_cycle_loop.simps
  list_work_points_for_roadmap_def

lemmas run_lookup_eval = load_goal_def load_roadmap_def load_work_point_def load_project_run_def
  load_file_scopes_for_entity_def ensure_referenced_entity_in_scope_def roadmap_correlation_id_def

lemmas lease_eval = normalize_lease_seconds_def lease_deadline_def parse_time_def lease_live_def lease_over_def
  require_current_lease_def held_run_def lease_env_def

lemmas claim_eval = claim_project_run_def claim_project_run_tx_def claim_input_def claim_references_def run_owner_def
  replayed_run_def claim_fresh_def expired_runs_def expire_runs_def update_where_def id_or_new_def
  next_fencing_token_def insert_project_run_def run_key_def claimed_record_def publish_run_def best_effort_def
  set_active_project_run_def read_session_def write_session_def empty_disk_def

lemmas run_eval = claim_eval lease_eval run_lookup_eval validate_eval string_eval lookup_eval log_eval sample_eval
  Let_def

lemma claim_world_eq:
  "claim_project_run lease_env (work_store, empty_disk) (claim_input (Some ''k'') ''p3'') = Inr (claim_result, claim_world)"
  by (simp add: claim_world_def claim_result_def run_eval)

lemma claim_result_record:
  "mr_record claim_result = \<lparr>pr_id = ''uuid-x'', pr_scope_key = ''default'', pr_goal_id = ''g'', pr_roadmap_id = ''rm'',
     pr_work_point_id = ''p3'', pr_repo_id = None, pr_branch = None, pr_worktree_id = None,
     pr_session_id = Some ''s'', pr_run_id = None, pr_profile_id = None, pr_owner_id = ''me'',
     pr_idempotency_key = Some ''k'', pr_fencing_token = 1, pr_lease_expires_at = unary 60000000000,
     pr_heartbeat_at = unary 0, pr_status = ProjectRunStatus_Claimed, pr_evidence = project_run_evidence_default,
     pr_revision = 1, pr_claimed_at = Some (unary 0), pr_completed_at = None, pr_created_at = unary 0,
     pr_updated_at = unary 0\<rparr>"
  by (simp add: claim_result_def run_eval)

lemma claim_world_runs: "project_runs (fst claim_world) = [mr_record claim_result]"
  by (simp add: claim_result_record) (simp add: claim_world_def run_eval)

lemma lease_env_laws: "clock_laws lease_env"
  by (simp add: clock_laws_def lease_env_def)

lemma work_store_run_inv: "run_inv lease_env (work_store, d)"
  by (simp add: run_inv_def lease_env_laws work_store_def empty_store_def)

section \<open>Exclusive leases and fencing\<close>

text \<open>
  Claim C8. Along every interleaving of claims, activations, heartbeats, releases and evidence with other
  operations, a work point has at most one open run (claimed, active or interrupted), and that run
  holds a larger fencing token than every other run of the work point.
\<close>

theorem run_reachable_exclusive:
  assumes "run_inv env w\<^sub>0" "reachable_from (run_step env) w\<^sub>0 w"
    and "r \<in> set (project_runs (fst w))" "q \<in> set (project_runs (fst w))"
    and "pr_work_point_id q = pr_work_point_id r" "open_status (pr_status r)" "q \<noteq> r"
  shows "\<not> open_status (pr_status q) \<and> pr_fencing_token q < pr_fencing_token r"
proof -
  have "runs_ok env (project_runs (fst w))"
    using run_sys.reachable_inv [OF assms(2,1)] by (simp add: run_inv_def)
  then show ?thesis using assms(3-7) runs_ok_one_open unfolding runs_ok_def by metis
qed

text \<open>A store with a lapsed claim on \<open>p3\<close>, and the world after the next claim.\<close>

definition old_run :: project_run_record where
  "old_run = claimed_record (claim_input None ''p3'') ''old'' ''default'' ''me'' 1 (unary 0) (unary 0)"

definition lapsed_store :: planning_store where
  "lapsed_store = work_store\<lparr>project_runs := [old_run]\<rparr>"

definition reclaimed :: "project_run_record mutation_result \<times> world" where
  "reclaimed = (case claim_project_run lease_env (lapsed_store, empty_disk) (claim_input None ''p3'') of
      Inr x \<Rightarrow> x | Inl _ \<Rightarrow> (claim_result, (lapsed_store, empty_disk)))"

definition released_run :: project_run_record where
  "released_run = old_run\<lparr>pr_status := ProjectRunStatus_Released, pr_revision := 2, pr_updated_at := unary 0\<rparr>"

lemma reclaimed_eq:
  "claim_project_run lease_env (lapsed_store, empty_disk) (claim_input None ''p3'') = Inr (fst reclaimed, snd reclaimed)"
  by (simp add: reclaimed_def lapsed_store_def old_run_def log_expired_def run_eval open_status_def)

lemma reclaimed_runs:
  "project_runs (fst (snd reclaimed)) = [released_run, mr_record (fst reclaimed)]
   \<and> mr_record (fst reclaimed) = claimed_record (claim_input None ''p3'') ''uuid-xxx'' ''default'' ''me'' 2
       (unary 60000000000) (unary 0)"
  by (simp add: reclaimed_def lapsed_store_def released_run_def old_run_def log_expired_def run_eval open_status_def)

lemma lapsed_run_inv: "run_inv lease_env (lapsed_store, d)"
  using lease_env_laws
  by (simp add: run_inv_def lapsed_store_def runs_ok_def old_run_def claimed_record_def) (simp add: lease_env_def)

theorem run_reachable_exclusive_witness:
  "\<not> open_status (pr_status released_run) \<and> pr_fencing_token released_run < pr_fencing_token (mr_record (fst reclaimed))"
proof (rule run_reachable_exclusive)
  show "run_inv lease_env (lapsed_store, empty_disk)" by (rule lapsed_run_inv)
  show "reachable_from (run_step lease_env) (lapsed_store, empty_disk) (snd reclaimed)"
    by (rule reachable_from.step, rule reachable_from.start, rule run_step.claim, rule reclaimed_eq)
qed (simp_all add: reclaimed_runs released_run_def old_run_def claimed_record_def claim_input_def open_status_def)

text \<open>
  Claim C9. Fencing: once a work point was claimed again, no operation of an older run succeeds, whatever
  token, scope or status the caller gives.
\<close>

theorem stale_holder_fenced:
  assumes "run_inv env (st, d)" "r \<in> set (project_runs st)" "q \<in> set (project_runs st)"
    and "pr_work_point_id q = pr_work_point_id r" "pr_fencing_token r < pr_fencing_token q"
  shows "(\<forall>input. ar_project_run_id input = pr_id r \<longrightarrow> \<not> is_ok (activate_project_run env (st, d) input))
    \<and> (\<forall>input. hr_project_run_id input = pr_id r \<longrightarrow> \<not> is_ok (heartbeat_project_run env st input))
    \<and> (\<forall>input. rr_project_run_id input = pr_id r \<longrightarrow> \<not> is_ok (release_project_run env (st, d) input))
    \<and> (\<forall>input. ad_project_run_id input = pr_id r \<longrightarrow> \<not> is_ok (add_project_run_evidence env (st, d) input))"
proof -
  have ok: "runs_ok env (project_runs st)" using assms(1) by (simp add: run_inv_def)
  have closed: "\<not> open_status (pr_status r) \<and> pr_status r \<noteq> ProjectRunStatus_Suggested"
    using ok assms(2-5) unfolding runs_ok_def by (metis less_asym less_irrefl)
  have only: "existing = r" if "lease_held env st (pr_id r) tok existing" for tok existing
    using that find_row_only [OF ok _ assms(2)] by (auto simp: lease_held_def)
  have "\<not> is_ok (activate_project_run env (st, d) input)" if "ar_project_run_id input = pr_id r" for input
  proof
    assume "is_ok (activate_project_run env (st, d) input)"
    then obtain res w' where "activate_project_run env (st, d) input = Inr (res, w')" by (auto simp: is_ok_iff)
    then obtain st' where tx: "activate_project_run_tx env st input = Inr (res, st')"
      by (rule activate_project_run_tx) simp
    then show False by (rule activate_effect) (use only closed that in \<open>auto simp: open_status_def\<close>)
  qed
  moreover have "\<not> is_ok (heartbeat_project_run env st input)" if "hr_project_run_id input = pr_id r" for input
  proof
    assume "is_ok (heartbeat_project_run env st input)"
    then obtain res st' where "heartbeat_project_run env st input = Inr (res, st')" by (auto simp: is_ok_iff)
    then show False by (rule heartbeat_effect) (use only closed that in \<open>auto simp: open_status_def\<close>)
  qed
  moreover have "\<not> is_ok (release_project_run env (st, d) input)" if "rr_project_run_id input = pr_id r" for input
  proof
    assume "is_ok (release_project_run env (st, d) input)"
    then obtain res w' where "release_project_run env (st, d) input = Inr (res, w')" by (auto simp: is_ok_iff)
    then obtain st' where tx: "release_project_run_tx env st input = Inr (res, st')"
      by (rule release_project_run_tx) simp
    then show False by (rule release_effect) (use only closed that in auto)
  qed
  moreover have "\<not> is_ok (add_project_run_evidence env (st, d) input)" if "ad_project_run_id input = pr_id r" for input
  proof
    assume "is_ok (add_project_run_evidence env (st, d) input)"
    then obtain res w' where "add_project_run_evidence env (st, d) input = Inr (res, w')" by (auto simp: is_ok_iff)
    then obtain st' where tx: "add_project_run_evidence_tx env st input = Inr (res, st')"
      by (rule add_project_run_evidence_tx) simp
    then show False by (rule add_evidence_effect) (use only closed that in auto)
  qed
  ultimately show ?thesis by blast
qed

definition stale_heartbeat :: heartbeat_project_run_input where
  "stale_heartbeat = \<lparr>hr_project_run_id = ''old'', hr_active_scope_key = None, hr_run_id = None,
     hr_fencing_token = Some 1, hr_lease_seconds = None\<rparr>"

theorem stale_holder_fenced_witness:
  "\<not> is_ok (heartbeat_project_run lease_env (fst (snd reclaimed)) stale_heartbeat)"
proof -
  have "run_inv lease_env (snd reclaimed)"
    by (rule claim_project_run_ok [OF reclaimed_eq lapsed_run_inv])
  then have "run_inv lease_env (fst (snd reclaimed), snd (snd reclaimed))" by simp
  from stale_holder_fenced [OF this, of released_run "mr_record (fst reclaimed)"]
  show ?thesis
    by (simp add: reclaimed_runs released_run_def old_run_def claimed_record_def claim_input_def stale_heartbeat_def)
qed

section \<open>Claims\<close>

text \<open>What the crate \<open>time\<close> documents: a printed time is read back.\<close>

definition time_roundtrip :: "environment \<Rightarrow> bool" where
  "time_roundtrip env \<longleftrightarrow> (\<forall>i t. env_format_rfc3339 env i = Some t \<longrightarrow> env_parse_rfc3339 env t = Some i)"

lemma normalize_lease_seconds_Inr:
  "normalize_lease_seconds v = Inr s \<Longrightarrow> 1 \<le> s \<and> s \<le> 86400 \<and> s = (case v of None \<Rightarrow> 900 | Some x \<Rightarrow> x)"
  by (auto simp: normalize_lease_seconds_def Let_def DEFAULT_LEASE_SECONDS_def split: if_split_asm option.split_asm)

lemma lease_deadline_Inr:
  assumes "time_roundtrip env" "lease_deadline env now secs = Inr t"
  obtains n where "env_parse_rfc3339 env now = Some n" "env_parse_rfc3339 env t = Some (n + secs * 1000000000)"
  using assms by (auto simp: lease_deadline_def parse_time_def time_roundtrip_def split: option.split_asm)

text \<open>
  Claim C10. A claim that is not a replay returns a new run: it is stored, has status claimed, a token
  larger than every earlier token of the work point, and a lease that ends between one second and one
  day after the time of the claim, as requested (900 seconds by default).
\<close>

theorem claim_issues_lease:
  assumes "claim_project_run env (st, d) input = Inr (res, (st', d'))" "mr_record res \<notin> set (project_runs st)"
    and "time_roundtrip env"
  shows "let new = mr_record res in
    pr_status new = ProjectRunStatus_Claimed \<and> pr_work_point_id new = cr_work_point_id input
    \<and> find_row pr_id (pr_id new) (project_runs st') = Some new
    \<and> (\<forall>r\<in>set (project_runs st). pr_work_point_id r = cr_work_point_id input \<longrightarrow> pr_fencing_token r < pr_fencing_token new)
    \<and> (\<exists>n secs. env_parse_rfc3339 env (pr_heartbeat_at new) = Some n
        \<and> env_parse_rfc3339 env (pr_lease_expires_at new) = Some (n + secs * 1000000000)
        \<and> 1 \<le> secs \<and> secs \<le> 86400 \<and> secs = (case cr_lease_seconds input of None \<Rightarrow> 900 | Some s \<Rightarrow> s))"
proof -
  from assms(1) obtain claimed st1 where tx: "claim_project_run_tx env st input = Inr ((res, claimed), st1)"
    and runs: "project_runs st' = project_runs st1" by (rule claim_project_run_tx) simp
  from tx show ?thesis
  proof (cases rule: claim_project_run_tx_cases)
    case replay
    then show ?thesis using assms(2) by simp
  next
    case (fresh k owner secs now)
    let ?w = "cr_work_point_id input"
    from fresh(6) obtain i deadline where deadline: "lease_deadline env now secs = Inr deadline"
      and new: "mr_record res = claimed_record input i k owner (next_fencing_token st ?w) deadline now"
      and i: "i \<notin> pr_id ` set (project_runs st)"
      and rows: "project_runs st1 = project_runs (expire_runs env st ?w now) @ [mr_record res]"
      by (rule claim_fresh_effect) (simp add: that)
    have "find_row pr_id i (project_runs (expire_runs env st ?w now)) = None"
      using i expire_runs_keys(1) by (simp add: find_row_None_iff)
    then have stored: "find_row pr_id i (project_runs st') = Some (mr_record res)"
      using new by (simp add: runs rows find_row_append claimed_record_def)
    from lease_deadline_Inr [OF assms(3) deadline] obtain n where
      "env_parse_rfc3339 env now = Some n" "env_parse_rfc3339 env deadline = Some (n + secs * 1000000000)" .
    then show ?thesis
      using new stored next_fencing_token_greater [of _ st ?w] normalize_lease_seconds_Inr [OF fresh(3)]
      by (simp add: Let_def claimed_record_def)
  qed
qed

lemma lease_env_roundtrip: "time_roundtrip lease_env"
  by (auto simp: time_roundtrip_def lease_env_def split: if_split_asm)

theorem claim_issues_lease_witness:
  "pr_status (mr_record claim_result) = ProjectRunStatus_Claimed
   \<and> find_row pr_id ''uuid-x'' (project_runs (fst claim_world)) = Some (mr_record claim_result)"
proof -
  have eq: "claim_project_run lease_env (work_store, empty_disk) (claim_input (Some ''k'') ''p3'')
      = Inr (claim_result, (fst claim_world, snd claim_world))" by (simp add: claim_world_eq)
  from claim_issues_lease [OF eq _ lease_env_roundtrip] show ?thesis
    by (simp add: Let_def claim_result_record work_store_def empty_store_def)
qed

text \<open>
  While a run of a work point is open and its lease has not ended at the time of the call, a claim
  on that work point creates no run: the call fails or replays an earlier run, and the runs stay as
  they are.
\<close>

lemma live_lease_excludes:
  assumes "r \<in> set (project_runs st)" "pr_work_point_id r = cr_work_point_id input" "open_status (pr_status r)"
    and "env_now env (tick st) = Some now" "lease_live env now r"
  shows "case claim_project_run env (st, d) input of
      Inl _ \<Rightarrow> True
    | Inr (res, (st', d')) \<Rightarrow> mr_record res \<in> set (project_runs st) \<and> project_runs st' = project_runs st"
proof (cases "claim_project_run env (st, d) input")
  case (Inr x)
  obtain res st' d' where x: "x = (res, (st', d'))" by (metis surj_pair)
  with Inr have "claim_project_run env (st, d) input = Inr (res, (st', d'))" by simp
  then obtain claimed st1 where tx: "claim_project_run_tx env st input = Inr ((res, claimed), st1)"
    and runs: "project_runs st' = project_runs st1" by (rule claim_project_run_tx) simp
  from tx have "mr_record res \<in> set (project_runs st) \<and> project_runs st1 = project_runs st"
  proof (cases rule: claim_project_run_tx_cases)
    case (fresh k owner secs now')
    have "now' = now" using fresh(2) assms(4) by simp
    with fresh(6) have claim: "claim_fresh env (st\<lparr>tick := Suc (tick st)\<rparr>) input k owner secs now = Inr (res, st1)" by simp
    have "\<not> lease_live env now r"
      by (rule claim_fresh_effect [OF claim]) (use assms(1-3) in simp)
    with assms(5) show ?thesis by simp
  qed simp
  with Inr x runs show ?thesis by simp
qed simp

lemma live_lease_excludes_witness:
  "case claim_project_run lease_env claim_world (claim_input None ''p3'') of
     Inl _ \<Rightarrow> True
   | Inr (res, (st', d')) \<Rightarrow> mr_record res \<in> set (project_runs (fst claim_world))
       \<and> project_runs st' = project_runs (fst claim_world)"
proof -
  have tick: "tick (fst claim_world) = 5" by (simp add: claim_world_def run_eval)
  have "env_now lease_env 5 = Some (unary 5)" by (simp add: lease_env_def)
  moreover have "lease_live lease_env (unary 5) (mr_record claim_result)"
    by (simp add: lease_live_def claim_result_record) (simp add: lease_env_def)
  ultimately show ?thesis
    using live_lease_excludes [of "mr_record claim_result" "fst claim_world" "claim_input None ''p3''" lease_env "unary 5" "snd claim_world"]
    by (simp add: claim_world_runs tick claim_result_record claim_input_def open_status_def)
qed

section \<open>Idempotent claims\<close>

lemma claim_references_cong:
  assumes "goals st' = goals st" "roadmaps st' = roadmaps st" "work_points st' = work_points st"
    and "entity_file_scopes st' = entity_file_scopes st"
  shows "claim_references st' k input = claim_references st k input"
proof -
  have loads: "load_goal st' i = load_goal st i" "load_roadmap st' i = load_roadmap st i"
    "load_work_point st' i = load_work_point st i" for i
    using assms by (simp_all add: load_goal_def load_roadmap_def load_work_point_def load_file_scopes_for_entity_def)
  have "ensure_referenced_entity_in_scope st' et i f k = ensure_referenced_entity_in_scope st et i f k"
    if "et \<in> {EntityType_Goal, EntityType_Roadmap, EntityType_WorkPoint}" for et i f
    using that loads assms
    by (auto simp: ensure_referenced_entity_in_scope_def scope_key_for_entity.simps)
  then show ?thesis by (simp add: claim_references_def loads cong: if_cong)
qed

text \<open>The tables a claim leaves alone.\<close>

lemma claim_fresh_frame:
  assumes "claim_fresh env st input k owner secs now = Inr (res, st')"
  shows "core (st'\<lparr>project_runs := []\<rparr>) = core (st\<lparr>project_runs := []\<rparr>)"
proof -
  have drop: "core a = core b \<Longrightarrow> core (a\<lparr>project_runs := []\<rparr>) = core (b\<lparr>project_runs := []\<rparr>)" for a b :: planning_store
    by (cases a; cases b) (simp add: core_def)
  let ?w = "cr_work_point_id input"
  from assms obtain st1 i deadline st2 st3 st4 c v v' where
    logged: "foldE (log_expired env input) (expire_runs env st ?w now) (map pr_id (expired_runs env st ?w now)) = Inr st1"
    and ins: "insert_project_run (st1\<lparr>tick := chosen_tick (tick st1) (cr_id input)\<rparr>) (mr_record res) = Inr st2"
    and log: "log_event env st2 EntityType_ProjectRun i EntityType_Roadmap (pr_roadmap_id (mr_record res)) c (cr_run_id input)
      ''project-run.claimed'' (project_run_json (mr_record res)) = Inr st3"
    and val: "refresh_validation_target env st3 EntityType_ProjectRun i = Inr (v, st4)"
    and wp: "refresh_validation_target env st4 EntityType_WorkPoint (pr_work_point_id (mr_record res)) = Inr (v', st')"
    unfolding claim_fresh_def Let_def id_or_new_eq validate_and_store_def by (auto split: if_split_asm)
  have "core st' = core st2"
    using refresh_validation_target_core [OF wp] refresh_validation_target_core [OF val] log_event_core [OF log] by simp
  from drop [OF this] have "core (st'\<lparr>project_runs := []\<rparr>) = core (st2\<lparr>project_runs := []\<rparr>)" .
  also have "\<dots> = core (st1\<lparr>project_runs := []\<rparr>)"
    using ins by (cases st1) (auto simp: insert_project_run_def core_def split: if_split_asm)
  also have "\<dots> = core ((expire_runs env st ?w now)\<lparr>project_runs := []\<rparr>)" by (rule drop [OF log_expired_core [OF logged]])
  also have "\<dots> = core (st\<lparr>project_runs := []\<rparr>)" by (simp add: expire_runs_def core_def)
  finally show ?thesis .
qed

lemma claim_fresh_tables:
  assumes "claim_fresh env st input k owner secs now = Inr (res, st')"
  shows "goals st' = goals st" "roadmaps st' = roadmaps st" "work_points st' = work_points st"
    "entity_file_scopes st' = entity_file_scopes st"
  using core_fields(2,3,5,14) [OF claim_fresh_frame [OF assms]] by simp_all

text \<open>After a claim with an idempotency key, the key leads back to the run of the claim.\<close>

lemma claim_tx_replayed:
  assumes tx: "claim_project_run_tx env st input = Inr ((res, claimed), st')"
    and key: "cr_idempotency_key input = Some key" "trim key \<noteq> []"
  obtains k owner where "claim_references st' (normalized_scope_key (cr_scope_key input)) input = Inr k"
    "run_owner input = Inr owner" "replayed_run st' k input owner = Inr (Some (mr_record res))"
  using tx
proof (cases rule: claim_project_run_tx_cases)
  case (replay key' k owner)
  have "claim_references st' (normalized_scope_key (cr_scope_key input)) input = Inr k"
    using claim_references_cong core_fields(2,3,5,14) [OF replay(8)] replay(5) by metis
  moreover have "replayed_run st' k input owner = Inr (Some (mr_record res))"
    using replay(3,7) by (simp add: replayed_run_def load_project_run_def cong: option.case_cong)
  ultimately show ?thesis using replay(6) by - (rule that)
next
  case (fresh k owner secs now)
  let ?w = "cr_work_point_id input" and ?new = "mr_record res"
  from fresh(6) obtain i deadline where
    new: "?new = claimed_record input i k owner (next_fencing_token st ?w) deadline now"
    and i: "i \<notin> pr_id ` set (project_runs st)"
    and unused: "run_key ?new \<noteq> None \<Longrightarrow> run_key ?new \<notin> run_key ` set (project_runs st)"
    and rows: "project_runs st' = project_runs (expire_runs env st ?w now) @ [?new]"
    by (rule claim_fresh_effect) (simp add: that)
  have rk: "run_key ?new = Some (k, key)" using new key by (simp add: run_key_def claimed_record_def)
  have "Some (k, key) \<notin> run_key ` set (project_runs (expire_runs env st ?w now))"
    using unused rk expire_runs_keys(2) [of env st ?w now] by simp
  then have "List.find (\<lambda>r. run_key r = Some (k, key)) (project_runs (expire_runs env st ?w now)) = None"
    by (force simp: find_None_iff)
  then have "List.find (\<lambda>r. run_key r = Some (k, key)) (project_runs st') = Some ?new"
    using find_row_append [of run_key "Some (k, key)" "project_runs (expire_runs env st ?w now)" "[?new]"] rk
    by (simp add: rows find_row_def)
  moreover have "find_row pr_id (pr_id ?new) (project_runs (expire_runs env st ?w now)) = None"
    using i expire_runs_keys(1) [of env st ?w now] new by (simp add: find_row_None_iff claimed_record_def)
  then have "find_row pr_id (pr_id ?new) (project_runs st') = Some ?new" by (simp add: rows find_row_append)
  moreover have "same_claim input owner ?new" using new by (simp add: same_claim_def claimed_record_def)
  ultimately have "replayed_run st' k input owner = Inr (Some ?new)"
    using key by (simp add: replayed_run_def)
  moreover have "claim_references st' (normalized_scope_key (cr_scope_key input)) input = Inr k"
    using claim_references_cong [of st' st] claim_fresh_tables [OF fresh(6)] fresh(4) by simp
  ultimately show ?thesis using fresh(5) by - (rule that)
qed

lemma claim_tx_key:
  "claim_project_run_tx env st input = Inr x \<Longrightarrow> cr_idempotency_key input = Some key \<Longrightarrow> trim key \<noteq> []"
  by (auto simp: claim_project_run_tx_def replayed_run_def)

lemma claim_tx_lease: "claim_project_run_tx env st input = Inr x \<Longrightarrow> is_ok (normalize_lease_seconds (cr_lease_seconds input))
    \<and> trim (cr_goal_id input) \<noteq> [] \<and> trim (cr_roadmap_id input) \<noteq> [] \<and> trim (cr_work_point_id input) \<noteq> []"
  by (auto simp: claim_project_run_tx_def)

text \<open>
  Claim C11. A claim with an idempotency key can be repeated: the second call returns the run of the first,
  creates none and leaves the session file alone. The hypotheses say that the clock can be read and
  that the findings of the run can be stored.
\<close>

theorem claim_idempotent:
  assumes first: "claim_project_run env (st, d) input = Inr (res, (st', d'))" and key: "cr_idempotency_key input = Some key"
    and now: "env_now env (tick st') = Some now"
    and findings: "is_ok (validate_and_store env (st'\<lparr>tick := Suc (tick st')\<rparr>) EntityType_ProjectRun (pr_id (mr_record res)))"
  shows "\<exists>res2 st2. claim_project_run env (st', d') input = Inr (res2, (st2, d'))
    \<and> mr_record res2 = mr_record res \<and> project_runs st2 = project_runs st'"
proof -
  from first obtain claimed st1 n where tx: "claim_project_run_tx env st input = Inr ((res, claimed), st1)"
    and st': "st' = st1\<lparr>tick := n\<rparr>" by (rule claim_project_run_tx) (simp add: that)
  from claim_tx_replayed [OF tx key claim_tx_key [OF tx key]] obtain k owner where
    refs: "claim_references st1 (normalized_scope_key (cr_scope_key input)) input = Inr k"
    and owner: "run_owner input = Inr owner" and rep: "replayed_run st1 k input owner = Inr (Some (mr_record res))" .
  have refs': "claim_references st' (normalized_scope_key (cr_scope_key input)) input = Inr k"
    using refs claim_references_cong [of st' st1] by (simp add: st')
  have rep': "replayed_run st' k input owner = Inr (Some (mr_record res))"
    using rep by (simp add: st')
  from findings obtain v st2 where val: "validate_and_store env (st'\<lparr>tick := Suc (tick st')\<rparr>) EntityType_ProjectRun
      (pr_id (mr_record res)) = Inr (v, st2)" by (auto simp: is_ok_iff)
  from claim_tx_lease [OF tx] obtain secs where secs: "normalize_lease_seconds (cr_lease_seconds input) = Inr secs"
    by (auto simp: is_ok_iff)
  have "claim_project_run_tx env st' input = Inr ((\<lparr>mr_record = mr_record res, mr_validation = v\<rparr>, False), st2)"
    using claim_tx_lease [OF tx]
    by (simp add: claim_project_run_tx_def refs' now_string_def now secs owner rep' val require_non_empty_def)
  moreover have "project_runs st2 = project_runs st'"
    using project_runs_core [OF refresh_validation_target_core [OF val [unfolded validate_and_store_def]]] by simp
  ultimately show ?thesis by (simp add: claim_project_run_def)
qed

theorem claim_idempotent_witness:
  "\<exists>res2 st2. claim_project_run lease_env claim_world (claim_input (Some ''k'') ''p3'') = Inr (res2, (st2, snd claim_world))
    \<and> mr_record res2 = mr_record claim_result"
proof -
  have first: "claim_project_run lease_env (work_store, empty_disk) (claim_input (Some ''k'') ''p3'')
      = Inr (claim_result, (fst claim_world, snd claim_world))" by (simp add: claim_world_eq)
  have findings: "is_ok (validate_and_store lease_env ((fst claim_world)\<lparr>tick := Suc (tick (fst claim_world))\<rparr>)
      EntityType_ProjectRun (pr_id (mr_record claim_result)))"
    by (simp add: claim_result_record) (simp add: claim_world_def run_eval)
  from claim_idempotent [OF first _ _ findings, of "''k''" "unary (tick (fst claim_world))"] show ?thesis
    by (auto simp: claim_input_def lease_env_def)
qed

section \<open>Heartbeats and the session file\<close>

text \<open>
  A heartbeat is accepted only from the holder of the current token before the lease ends; it
  moves the end of the lease to the requested number of seconds after now, counts one revision and
  changes no other run.
\<close>

lemma heartbeat_extends_lease:
  assumes "heartbeat_project_run env st input = Inr (res, st')" "time_roundtrip env"
  shows "\<exists>existing n old secs. find_row pr_id (hr_project_run_id input) (project_runs st) = Some existing
    \<and> hr_fencing_token input = Some (pr_fencing_token existing)
    \<and> env_parse_rfc3339 env (pr_lease_expires_at existing) = Some old \<and> n < old
    \<and> find_row pr_id (hr_project_run_id input) (project_runs st') = Some (mr_record res)
    \<and> env_parse_rfc3339 env (pr_lease_expires_at (mr_record res)) = Some (n + secs * 1000000000)
    \<and> 1 \<le> secs \<and> secs \<le> 86400
    \<and> pr_status (mr_record res) = pr_status existing \<and> pr_fencing_token (mr_record res) = pr_fencing_token existing
    \<and> pr_revision (mr_record res) = pr_revision existing + 1
    \<and> (\<forall>i. i \<noteq> hr_project_run_id input \<longrightarrow> find_row pr_id i (project_runs st') = find_row pr_id i (project_runs st))"
proof -
  from assms(1) obtain existing now secs deadline where
    held: "lease_held env st (hr_project_run_id input) (hr_fencing_token input) existing"
    and now: "env_now env (tick st) = Some now"
    and secs: "normalize_lease_seconds (hr_lease_seconds input) = Inr secs"
    and deadline: "lease_deadline env now secs = Inr deadline"
    and runs: "project_runs st' = update_where
       (\<lambda>r. pr_id r = hr_project_run_id input \<and> pr_fencing_token r = pr_fencing_token existing)
       (\<lambda>r. r\<lparr>pr_heartbeat_at := now, pr_lease_expires_at := deadline, pr_revision := pr_revision r + 1,
             pr_updated_at := now\<rparr>) (project_runs st)"
    and res: "mr_record res = existing\<lparr>pr_heartbeat_at := now, pr_lease_expires_at := deadline,
       pr_revision := pr_revision existing + 1, pr_updated_at := now\<rparr>"
    by (rule heartbeat_effect) (rule that, assumption+)
  from held now obtain old n where existing: "find_row pr_id (hr_project_run_id input) (project_runs st) = Some existing"
      "hr_fencing_token input = Some (pr_fencing_token existing)"
    and old: "env_parse_rfc3339 env (pr_lease_expires_at existing) = Some old" "env_parse_rfc3339 env now = Some n" "n < old"
    by (auto simp: lease_held_def)
  have "find_row pr_id (hr_project_run_id input) (project_runs st') = Some (mr_record res)"
    using existing find_row_SomeD [OF existing(1)] by (simp add: runs find_row_update_where res)
  moreover have "find_row pr_id i (project_runs st') = find_row pr_id i (project_runs st)"
    if "i \<noteq> hr_project_run_id input" for i
    using that by (cases "find_row pr_id i (project_runs st)") (auto simp: runs find_row_update_where dest!: find_row_SomeD)
  moreover from lease_deadline_Inr [OF assms(2) deadline] old(2)
  have "env_parse_rfc3339 env deadline = Some (n + secs * 1000000000)" by auto
  ultimately show ?thesis
    using existing old normalize_lease_seconds_Inr [OF secs]
    by (intro exI [of _ existing] exI [of _ n] exI [of _ old] exI [of _ secs]) (simp add: res)
qed

definition heartbeat_input :: heartbeat_project_run_input where
  "heartbeat_input = \<lparr>hr_project_run_id = ''uuid-x'', hr_active_scope_key = None, hr_run_id = None,
     hr_fencing_token = Some 1, hr_lease_seconds = Some 120\<rparr>"

definition beaten :: "project_run_record mutation_result \<times> planning_store" where
  "beaten = (case heartbeat_project_run lease_env (fst claim_world) heartbeat_input of
     Inr x \<Rightarrow> x | Inl _ \<Rightarrow> (claim_result, work_store))"

lemma beaten_eq: "heartbeat_project_run lease_env (fst claim_world) heartbeat_input = Inr (fst beaten, snd beaten)"
  by (simp add: beaten_def heartbeat_input_def claim_world_def heartbeat_project_run_def record_run_change_def run_eval)

lemma heartbeat_extends_lease_witness:
  "\<exists>existing. find_row pr_id ''uuid-x'' (project_runs (fst claim_world)) = Some existing
     \<and> pr_revision (mr_record (fst beaten)) = pr_revision existing + 1"
  using heartbeat_extends_lease [OF beaten_eq lease_env_roundtrip] by (auto simp: heartbeat_input_def)

text \<open>
  On a readable and writable session file the session follows the run: after a new claim made in a
  session the session's active run is the claimed one, after a release there is none. An error of the
  session file never fails the operation.
\<close>

lemma session_follows_run:
  assumes "sd_write_error d = None" "is_ok (read_session d)"
  shows "(claim_project_run_tx env st cin = Inr ((res, True), st1) \<and> pr_session_id (mr_record res) \<noteq> None \<longrightarrow>
      (\<exists>w'. claim_project_run env (st, d) cin = Inr (res, w')
        \<and> active_run (snd w') = Some (run_state (mr_record res) (project_run_status_as_str (pr_status (mr_record res))) None)))
    \<and> (release_project_run_tx env st rin = Inr (res, st1) \<longrightarrow>
      (\<exists>w'. release_project_run env (st, d) rin = Inr (res, w') \<and> active_run (snd w') = None))
    \<and> is_ok (claim_project_run env (st, any) cin) = is_ok (claim_project_run_tx env st cin)
    \<and> is_ok (release_project_run env (st, any) rin) = is_ok (release_project_run_tx env st rin)"
proof -
  have set: "active_run (best_effort d (set_active_project_run env n d s)) = Some s" for n s
    using assms
    by (cases "sd_content d") (simp_all add: set_active_project_run_def read_session_def write_session_def best_effort_def active_run_def)
  have clear: "active_run (best_effort d (clear_active_project_run d c)) = None" for c
    using assms
    by (cases "sd_content d"; cases c)
      (simp_all add: clear_active_project_run_def read_session_def write_session_def best_effort_def active_run_def Let_def)
  have "is_ok (claim_project_run env (st, any) cin) = is_ok (claim_project_run_tx env st cin)"
    by (cases "claim_project_run_tx env st cin") (auto simp: claim_project_run_def Let_def split: prod.split)
  moreover have "is_ok (release_project_run env (st, any) rin) = is_ok (release_project_run_tx env st rin)"
    by (cases "release_project_run_tx env st rin") (auto simp: release_project_run_def Let_def split: prod.split)
  ultimately show ?thesis
    using set clear by (auto simp: claim_project_run_def release_project_run_def publish_run_def Let_def)
qed

lemma claim_tx_eq:
  "\<exists>st1. claim_project_run_tx lease_env work_store (claim_input (Some ''k'') ''p3'') = Inr ((claim_result, True), st1)"
  by (simp add: claim_result_def run_eval)

lemma session_follows_run_witness:
  "\<exists>s. active_run (snd claim_world) = Some s \<and> ap_project_run_id s = ''uuid-x''"
proof -
  obtain st1 where tx: "claim_project_run_tx lease_env work_store (claim_input (Some ''k'') ''p3'') = Inr ((claim_result, True), st1)"
    using claim_tx_eq by blast
  have "sd_write_error empty_disk = None" "is_ok (read_session empty_disk)" by (simp_all add: empty_disk_def read_session_def)
  note session_follows_run [OF this, of lease_env work_store "claim_input (Some ''k'') ''p3''" claim_result st1]
  then show ?thesis using tx claim_world_eq by (auto simp: claim_result_record run_state_def)
qed

end
