(* ===== verification/Lifecycle.thy ===== *)
theory Lifecycle
  imports Validation
begin

text \<open>
  The life cycles of the planning entities (\<open>storage.rs\<close>): the table of allowed status transitions and
  \<open>update_status\<close>, with one definition per branch of its match. The locale \<open>lifecycle\<close> states what
  the operation needs of a table: every status of the enumeration is known to it, and it only lists
  statuses of the enumeration.
\<close>

section \<open>Transitions\<close>

definition arms :: "string \<Rightarrow> (string \<times> string list) list \<Rightarrow> string \<Rightarrow> string list result" where
  "arms what table current = (case map_of table current of
       Some allowed \<Rightarrow> Inr allowed
     | None \<Rightarrow> Inl (invalid [''unknown '', what, '' status: '', current]))"

definition staged_table :: "(string \<times> string list) list" where
  "staged_table =
     [(''draft'', [''proposed'', ''cancelled'']),
      (''proposed'', [''active'', ''cancelled'']),
      (''active'', [''blocked'', ''completed'', ''cancelled'']),
      (''blocked'', [''active'', ''cancelled'']),
      (''completed'', []),
      (''cancelled'', [''draft'']),
      (''invalidated'', [''draft''])]"

definition allowed_transitions :: "entity_type \<Rightarrow> string \<Rightarrow> string list result" where
  "allowed_transitions et current = (case et of
       EntityType_Goal \<Rightarrow> arms ''goal''
         [(''draft'', [''proposed'', ''abandoned'']),
          (''proposed'', [''active'', ''abandoned'']),
          (''active'', [''validated'', ''invalidated'', ''abandoned'']),
          (''validated'', [''superseded'']),
          (''invalidated'', [''active'', ''abandoned'']),
          (''superseded'', []),
          (''abandoned'', [''draft''])] current
     | EntityType_Roadmap \<Rightarrow> arms ''roadmap'' staged_table current
     | EntityType_WorkPoint \<Rightarrow> arms ''work point'' staged_table current
     | EntityType_Plan \<Rightarrow> arms ''plan'' staged_table current
     | EntityType_Todo \<Rightarrow> arms ''todo''
         [(''pending'', [''in-progress'', ''cancelled'']),
          (''in-progress'', [''blocked'', ''completed'', ''cancelled'']),
          (''blocked'', [''pending'', ''in-progress'', ''cancelled'']),
          (''completed'', []),
          (''cancelled'', [''pending''])] current
     | EntityType_Issue \<Rightarrow> arms ''issue''
         [(''open'', [''blocked'', ''resolved'']),
          (''blocked'', [''open'', ''resolved'']),
          (''resolved'', [''reopened'']),
          (''reopened'', [''open'', ''blocked'', ''resolved''])] current
     | EntityType_ReviewPoint \<Rightarrow> arms ''review point''
         [(''open'', [''resolved'', ''accepted-risk'']),
          (''resolved'', []),
          (''accepted-risk'', [])] current
     | EntityType_Insight \<Rightarrow> arms ''insight''
         [(''active'', [''superseded'', ''archived'']),
          (''superseded'', [''active'', ''archived'']),
          (''archived'', [''active''])] current
     | EntityType_RoadmapSection \<Rightarrow> Inl (invalid [''status transitions are not supported for '', entity_type_as_str et])
     | EntityType_Scope \<Rightarrow> Inl (invalid [''status transitions are not supported for '', entity_type_as_str et])
     | EntityType_DiscoveryNode \<Rightarrow> Inl (invalid [''status transitions are not supported for '', entity_type_as_str et])
     | EntityType_DiscoveryRelationship \<Rightarrow>
         Inl (invalid [''status transitions are not supported for '', entity_type_as_str et])
     | EntityType_DiscoveryCheckpoint \<Rightarrow>
         Inl (invalid [''status transitions are not supported for '', entity_type_as_str et])
     | _ \<Rightarrow> Inl (invalid [''unsupported entity type: '', entity_type_as_str et]))"

definition status_id_flag :: "entity_type \<Rightarrow> string" where
  "status_id_flag et = (case et of
       EntityType_Goal \<Rightarrow> ''goal-id'' | EntityType_Roadmap \<Rightarrow> ''roadmap-id''
     | EntityType_WorkPoint \<Rightarrow> ''work-point-id'' | EntityType_Plan \<Rightarrow> ''plan-id''
     | EntityType_Todo \<Rightarrow> ''todo-id'' | EntityType_Issue \<Rightarrow> ''issue-id''
     | EntityType_ReviewPoint \<Rightarrow> ''review-point-id'' | EntityType_Insight \<Rightarrow> ''insight-id''
     | _ \<Rightarrow> ''id'')"

definition invalid_status_transition_error ::
    "entity_type \<Rightarrow> string \<Rightarrow> string \<Rightarrow> string \<Rightarrow> string list \<Rightarrow> planning_store_error" where
  "invalid_status_transition_error et i current requested allowed = invalid_json
     [(''code'', JStr ''INVALID_STATUS_TRANSITION''), (''entityType'', JStr (entity_type_as_str et)),
      (''entityId'', JStr i), (''currentStatus'', JStr current), (''requestedStatus'', JStr requested),
      (''allowedTransitions'', json_strs allowed),
      (''nextAllowedCommand'', (case allowed of
          [] \<Rightarrow> JNull
        | next_status # _ \<Rightarrow> JStr (format [''elegy-planning '', entity_type_as_str et, '' update-status --'',
            status_id_flag et, '' '', i, '' --status '', next_status])))]"

section \<open>Updating a status\<close>

record update_status_input =
  us_entity_type :: entity_type
  us_entity_id :: string
  us_status :: string
  us_evidence_refs :: "string list option"
  us_active_scope_key :: "string option"
  us_run_id :: "string option"
  us_override_transition :: bool
  us_reason :: "string option"

datatype entity_record =
    EntityGoal goal_record
  | EntityRoadmap roadmap_record
  | EntityWorkPoint work_point_record
  | EntityPlan plan_record
  | EntityTodo todo_record
  | EntityIssue issue_record
  | EntityReviewPoint review_point_record
  | EntityInsight insight_record

definition parse_status :: "(string \<Rightarrow> string + 's) \<Rightarrow> string \<Rightarrow> 's result" where
  "parse_status from_str text = map_err (\<lambda>m. Sqlite (ConversionFailure m)) (from_str text)"

definition transition_guard ::
    "entity_type \<Rightarrow> update_status_input \<Rightarrow> string \<Rightarrow> string \<Rightarrow> unit result" where
  "transition_guard et input current requested =
     (if us_override_transition input then Inr () else
      tryE (allowed_transitions et current) (\<lambda>allowed.
      if requested \<in> set allowed then Inr ()
      else Inl (invalid_status_transition_error et (us_entity_id input) current requested allowed)))"

definition update_status_row ::
    "string \<Rightarrow> string \<Rightarrow> ('r \<Rightarrow> string) \<Rightarrow> ('r \<Rightarrow> 'r) \<Rightarrow> 'r list \<Rightarrow> 'r list result" where
  "update_status_row table i key f rows =
     (if find_row key i rows = None
      then Inl (NotFound (rev (dropWhile (\<lambda>c. c = CHR ''s'') (rev table))) i)
      else Inr (update_where (\<lambda>r. key r = i) f rows))"

definition status_event :: "update_status_input \<Rightarrow> string \<Rightarrow> string" where
  "status_event input what =
     format [what, if us_override_transition input then ''.status-overridden'' else ''.status-updated'']"

definition transition_payload :: "update_status_input \<Rightarrow> (string \<times> json) list \<Rightarrow> json" where
  "transition_payload input payload = JObj
     (if us_override_transition input
      then obj_set ''overridden'' (JBool True)
             (obj_set ''reason'' (JStr (case us_reason input of None \<Rightarrow> [] | Some r \<Rightarrow> r)) payload)
      else payload)"

definition refresh_targets ::
    "environment \<Rightarrow> planning_store \<Rightarrow> (entity_type \<times> string) list \<Rightarrow> planning_store result" where
  "refresh_targets env st targets =
     foldE (\<lambda>st (et, i). tryE (refresh_validation_target env st et i) (\<lambda>(_, st). Inr st)) st targets"

definition update_goal_status ::
    "environment \<Rightarrow> planning_store \<Rightarrow> update_status_input \<Rightarrow> string
     \<Rightarrow> ((entity_record \<times> validation_report) \<times> planning_store) result" where
  "update_goal_status env st input now =
     (let i = us_entity_id input in
     tryE (parse_status goal_status_from_str (us_status input)) (\<lambda>status.
     tryE (load_goal st i) (\<lambda>old.
     tryE (transition_guard EntityType_Goal input (goal_status_as_str (go_status old)) (goal_status_as_str status)) (\<lambda>_.
     tryE (update_status_row ''goals'' i go_id (\<lambda>r. r\<lparr>go_status := status, go_revision := go_revision r + 1, go_updated_at := now\<rparr>) (goals st)) (\<lambda>rows.
     let st = st\<lparr>goals := rows\<rparr> in
     tryE (load_goal st i) (\<lambda>rec.
     tryE (log_event env st EntityType_Goal (go_id rec) EntityType_Goal (go_id rec) (go_correlation_id rec) (us_run_id input)
             (status_event input ''goal'') (transition_payload input
               [(''status'', JStr (goal_status_as_str (go_status rec))), (''revision'', JInt (go_revision rec))])) (\<lambda>st.
     tryE (refresh_validation_target env st EntityType_Goal (go_id rec)) (\<lambda>(validation, st).
     Inr ((EntityGoal rec, validation), st)))))))))"

definition update_roadmap_status ::
    "environment \<Rightarrow> planning_store \<Rightarrow> update_status_input \<Rightarrow> string
     \<Rightarrow> ((entity_record \<times> validation_report) \<times> planning_store) result" where
  "update_roadmap_status env st input now =
     (let i = us_entity_id input in
     tryE (parse_status roadmap_status_from_str (us_status input)) (\<lambda>status.
     tryE (load_roadmap st i) (\<lambda>old.
     tryE (transition_guard EntityType_Roadmap input (roadmap_status_as_str (rm_status old)) (roadmap_status_as_str status)) (\<lambda>_.
     tryE (update_status_row ''roadmaps'' i rm_id (\<lambda>r. r\<lparr>rm_status := status, rm_revision := rm_revision r + 1, rm_updated_at := now\<rparr>) (roadmaps st)) (\<lambda>rows.
     let st = st\<lparr>roadmaps := rows\<rparr> in
     tryE (load_roadmap st i) (\<lambda>rec.
     tryE (log_event env st EntityType_Roadmap (rm_id rec) EntityType_Roadmap (rm_id rec) (rm_correlation_id rec) (us_run_id input)
             (status_event input ''roadmap'') (transition_payload input
               [(''status'', JStr (roadmap_status_as_str (rm_status rec))), (''revision'', JInt (rm_revision rec))])) (\<lambda>st.
     tryE (refresh_validation_target env st EntityType_Roadmap (rm_id rec)) (\<lambda>(validation, st).
     Inr ((EntityRoadmap rec, validation), st)))))))))"

definition update_work_point_status ::
    "environment \<Rightarrow> planning_store \<Rightarrow> update_status_input \<Rightarrow> string
     \<Rightarrow> ((entity_record \<times> validation_report) \<times> planning_store) result" where
  "update_work_point_status env st input now =
     (let i = us_entity_id input in
     tryE (parse_status work_point_status_from_str (us_status input)) (\<lambda>status.
     tryE (load_work_point st i) (\<lambda>old.
     tryE (transition_guard EntityType_WorkPoint input (work_point_status_as_str (wp_status old)) (work_point_status_as_str status)) (\<lambda>_.
     tryE (update_status_row ''work_points'' i wp_id (\<lambda>r. r\<lparr>wp_status := status, wp_revision := wp_revision r + 1, wp_updated_at := now\<rparr>) (work_points st)) (\<lambda>rows.
     let st = st\<lparr>work_points := rows\<rparr> in
     tryE (load_work_point st i) (\<lambda>rec.
     tryE (roadmap_correlation_id st (wp_roadmap_id rec)) (\<lambda>correlation_id.
     tryE (log_event env st EntityType_WorkPoint (wp_id rec) EntityType_Roadmap (wp_roadmap_id rec) correlation_id (us_run_id input)
             (status_event input ''work-point'') (transition_payload input
               [(''status'', JStr (work_point_status_as_str (wp_status rec))), (''revision'', JInt (wp_revision rec))])) (\<lambda>st.
     tryE (refresh_validation_target env st EntityType_WorkPoint (wp_id rec)) (\<lambda>(validation, st).
     tryE (refresh_targets env st [(EntityType_Roadmap, wp_roadmap_id rec)]) (\<lambda>st.
     Inr ((EntityWorkPoint rec, validation), st)))))))))))"

definition update_plan_status ::
    "environment \<Rightarrow> planning_store \<Rightarrow> update_status_input \<Rightarrow> string
     \<Rightarrow> ((entity_record \<times> validation_report) \<times> planning_store) result" where
  "update_plan_status env st input now =
     (let i = us_entity_id input in
     tryE (parse_status plan_status_from_str (us_status input)) (\<lambda>status.
     tryE (load_plan st i) (\<lambda>old.
     tryE (transition_guard EntityType_Plan input (plan_status_as_str (pl_status old)) (plan_status_as_str status)) (\<lambda>_.
     tryE (update_status_row ''plans'' i pl_id (\<lambda>r. r\<lparr>pl_status := status, pl_revision := pl_revision r + 1, pl_updated_at := now\<rparr>) (plans st)) (\<lambda>rows.
     let st = st\<lparr>plans := rows\<rparr> in
     tryE (load_plan st i) (\<lambda>rec.
     tryE (log_event env st EntityType_Plan (pl_id rec) EntityType_Plan (pl_id rec) (pl_correlation_id rec) (us_run_id input)
             (status_event input ''plan'') (transition_payload input
               [(''status'', JStr (plan_status_as_str (pl_status rec))), (''revision'', JInt (pl_revision rec))])) (\<lambda>st.
     tryE (refresh_validation_target env st EntityType_Plan (pl_id rec)) (\<lambda>(validation, st).
     Inr ((EntityPlan rec, validation), st)))))))))"

definition update_todo_status ::
    "environment \<Rightarrow> planning_store \<Rightarrow> update_status_input \<Rightarrow> string
     \<Rightarrow> ((entity_record \<times> validation_report) \<times> planning_store) result" where
  "update_todo_status env st input now =
     (let i = us_entity_id input;
          refs = (case us_evidence_refs input of None \<Rightarrow> [] | Some refs \<Rightarrow> refs) in
     tryE (parse_status todo_status_from_str (us_status input)) (\<lambda>status.
     tryE (load_todo st i) (\<lambda>old.
     tryE (transition_guard EntityType_Todo input (todo_status_as_str (td_status old)) (todo_status_as_str status)) (\<lambda>_.
     tryE (update_status_row ''todos'' i td_id (\<lambda>r. r\<lparr>td_status := status, td_evidence_refs := refs, td_revision := td_revision r + 1, td_updated_at := now\<rparr>) (todos st)) (\<lambda>rows.
     let st = st\<lparr>todos := rows\<rparr> in
     tryE (load_todo st i) (\<lambda>rec.
     tryE (case td_plan_id rec of
             Some plan_id \<Rightarrow> plan_correlation_id st plan_id
           | None \<Rightarrow> (case td_work_point_id rec of
               Some work_point_id \<Rightarrow> work_point_correlation_id st work_point_id
             | None \<Rightarrow> Inr (format [''corr-'', td_id rec]))) (\<lambda>correlation_id.
     tryE (log_event env st EntityType_Todo (td_id rec) EntityType_Todo (td_id rec) correlation_id (us_run_id input)
             (status_event input ''todo'') (transition_payload input
               [(''status'', JStr (todo_status_as_str (td_status rec))), (''evidenceRefs'', json_strs (td_evidence_refs rec)), (''revision'', JInt (td_revision rec))])) (\<lambda>st.
     tryE (refresh_validation_target env st EntityType_Todo (td_id rec)) (\<lambda>(validation, st).
     tryE (refresh_targets env st (case td_plan_id rec of Some p \<Rightarrow> [(EntityType_Plan, p)] | None \<Rightarrow> [])) (\<lambda>st.
     Inr ((EntityTodo rec, validation), st)))))))))))"

definition update_issue_status ::
    "environment \<Rightarrow> planning_store \<Rightarrow> update_status_input \<Rightarrow> string
     \<Rightarrow> ((entity_record \<times> validation_report) \<times> planning_store) result" where
  "update_issue_status env st input now =
     (let i = us_entity_id input in
     tryE (parse_status issue_status_from_str (us_status input)) (\<lambda>status.
     tryE (load_issue st i) (\<lambda>old.
     tryE (transition_guard EntityType_Issue input (issue_status_as_str (is_status old)) (issue_status_as_str status)) (\<lambda>_.
     tryE (update_status_row ''issues'' i is_id (\<lambda>r. r\<lparr>is_status := status, is_revision := is_revision r + 1, is_updated_at := now\<rparr>) (issues st)) (\<lambda>rows.
     let st = st\<lparr>issues := rows\<rparr> in
     tryE (load_issue st i) (\<lambda>rec.
     tryE (log_event env st EntityType_Issue (is_id rec) EntityType_Issue (is_id rec) (is_correlation_id rec) (us_run_id input)
             (status_event input ''issue'') (transition_payload input
               [(''status'', JStr (issue_status_as_str (is_status rec))), (''revision'', JInt (is_revision rec))])) (\<lambda>st.
     tryE (refresh_validation_target env st EntityType_Issue (is_id rec)) (\<lambda>(validation, st).
     tryE (refresh_targets env st (if is_related_entity_type rec = Some EntityType_Plan
        then (case is_related_entity_id rec of Some p \<Rightarrow> [(EntityType_Plan, p)] | None \<Rightarrow> []) else [])) (\<lambda>st.
     Inr ((EntityIssue rec, validation), st))))))))))"

definition update_review_point_status ::
    "environment \<Rightarrow> planning_store \<Rightarrow> update_status_input \<Rightarrow> string
     \<Rightarrow> ((entity_record \<times> validation_report) \<times> planning_store) result" where
  "update_review_point_status env st input now =
     (let i = us_entity_id input in
     tryE (parse_status review_point_status_from_str (us_status input)) (\<lambda>status.
     tryE (load_review_point st i) (\<lambda>old.
     tryE (transition_guard EntityType_ReviewPoint input (review_point_status_as_str (rp_status old)) (review_point_status_as_str status)) (\<lambda>_.
     tryE (update_status_row ''review_points'' i rp_id (\<lambda>r. r\<lparr>rp_status := status, rp_revision := rp_revision r + 1, rp_updated_at := now\<rparr>) (review_points st)) (\<lambda>rows.
     let st = st\<lparr>review_points := rows\<rparr> in
     tryE (load_review_point st i) (\<lambda>rec.
     tryE (attached_entity_correlation_id st (rp_attached_entity_type rec) (rp_attached_entity_id rec)) (\<lambda>correlation_id.
     tryE (log_event env st EntityType_ReviewPoint (rp_id rec) (rp_attached_entity_type rec) (rp_attached_entity_id rec) correlation_id (us_run_id input)
             (status_event input ''review-point'') (transition_payload input
               [(''status'', JStr (review_point_status_as_str (rp_status rec))), (''revision'', JInt (rp_revision rec))])) (\<lambda>st.
     tryE (refresh_validation_target env st EntityType_ReviewPoint (rp_id rec)) (\<lambda>(validation, st).
     tryE (refresh_targets env st [(rp_attached_entity_type rec, rp_attached_entity_id rec)]) (\<lambda>st.
     Inr ((EntityReviewPoint rec, validation), st)))))))))))"

definition update_insight_status ::
    "environment \<Rightarrow> planning_store \<Rightarrow> update_status_input \<Rightarrow> string
     \<Rightarrow> ((entity_record \<times> validation_report) \<times> planning_store) result" where
  "update_insight_status env st input now =
     (let i = us_entity_id input in
     tryE (parse_status insight_status_from_str (us_status input)) (\<lambda>status.
     tryE (load_insight st i) (\<lambda>old.
     tryE (transition_guard EntityType_Insight input (insight_status_as_str (in_status old)) (insight_status_as_str status)) (\<lambda>_.
     tryE (update_status_row ''insights'' i in_id (\<lambda>r. r\<lparr>in_status := status, in_revision := in_revision r + 1, in_updated_at := now\<rparr>) (insights st)) (\<lambda>rows.
     let st = st\<lparr>insights := rows\<rparr> in
     tryE (load_insight st i) (\<lambda>rec.
     tryE (attached_entity_correlation_id st (in_parent_entity_type rec) (in_parent_entity_id rec)) (\<lambda>correlation_id.
     tryE (log_event env st EntityType_Insight (in_id rec) (in_parent_entity_type rec) (in_parent_entity_id rec) correlation_id (us_run_id input)
             (status_event input ''insight'') (transition_payload input
               [(''status'', JStr (insight_status_as_str (in_status rec))), (''revision'', JInt (in_revision rec))])) (\<lambda>st.
     tryE (refresh_validation_target env st EntityType_Insight (in_id rec)) (\<lambda>(validation, st).
     tryE (refresh_targets env st [(in_parent_entity_type rec, in_parent_entity_id rec)]) (\<lambda>st.
     Inr ((EntityInsight rec, validation), st)))))))))))"

definition update_status ::
    "environment \<Rightarrow> planning_store \<Rightarrow> update_status_input
     \<Rightarrow> ((entity_record \<times> validation_report) \<times> planning_store) result" where
  "update_status env st input =
     tryE (require_non_empty ''entityId'' (us_entity_id input)) (\<lambda>_.
     tryE (require_non_empty ''status'' (us_status input)) (\<lambda>_.
     tryE (now_string env st) (\<lambda>(now, st).
     let et = us_entity_type input;
         unsupported = Inl (invalid [''status transitions are not supported for '', entity_type_as_str et]) in
     if et \<in> {EntityType_RoadmapSection, EntityType_Scope, EntityType_DiscoveryNode,
           EntityType_DiscoveryRelationship, EntityType_DiscoveryCheckpoint} then unsupported
     else
     tryE (ensure_entity_in_scope st et (us_entity_id input) (normalized_scope_key (us_active_scope_key input))) (\<lambda>_.
     case et of
       EntityType_Goal \<Rightarrow> update_goal_status env st input now
     | EntityType_Roadmap \<Rightarrow> update_roadmap_status env st input now
     | EntityType_WorkPoint \<Rightarrow> update_work_point_status env st input now
     | EntityType_Plan \<Rightarrow> update_plan_status env st input now
     | EntityType_Todo \<Rightarrow> update_todo_status env st input now
     | EntityType_Issue \<Rightarrow> update_issue_status env st input now
     | EntityType_ReviewPoint \<Rightarrow> update_review_point_status env st input now
     | EntityType_Insight \<Rightarrow> update_insight_status env st input now
     | _ \<Rightarrow> unsupported))))"

section \<open>The interface of a transition table\<close>

locale lifecycle = string_enum as_str from_str for as_str :: "'v \<Rightarrow> string" and from_str +
  fixes allowed :: "string \<Rightarrow> string list result"
  assumes known: "is_ok (allowed (as_str v))"
    and only: "allowed s = Inr ts \<Longrightarrow> is_ok (from_str s)"
    and closed: "allowed s = Inr ts \<Longrightarrow> list_all (\<lambda>t. is_ok (from_str t)) ts"
begin

lemma known_iff: "is_ok (allowed s) \<longleftrightarrow> is_ok (from_str s)"
proof
  assume "is_ok (from_str s)"
  then obtain v where "s = as_str v" by (auto simp: is_ok_iff from_str_Inr_iff)
  then show "is_ok (allowed s)" using known by simp
qed (auto simp: is_ok_iff dest: only)

lemma table_exact:
  "case allowed s of Inl _ \<Rightarrow> \<not> is_ok (from_str s) | Inr ts \<Rightarrow> is_ok (from_str s) \<and> list_all (\<lambda>t. is_ok (from_str t)) ts"
proof (cases "allowed s")
  case (Inl e)
  then show ?thesis using known_iff [of s] by simp
next
  case (Inr ts)
  then show ?thesis using only closed by simp
qed

end

lemma arms_simps [simp]:
  "arms what [] s = Inl (invalid [''unknown '', what, '' status: '', s])"
  "arms what ((t, ts) # table) s = (if s = t then Inr ts else arms what table s)"
  by (simp_all add: arms_def)

interpretation goal_lifecycle: lifecycle goal_status_as_str goal_status_from_str "allowed_transitions EntityType_Goal"
proof unfold_locales
  fix v show "is_ok (allowed_transitions EntityType_Goal (goal_status_as_str v))"
    by (cases v) (simp_all add: allowed_transitions_def)
next
  fix s ts assume "allowed_transitions EntityType_Goal s = Inr ts"
  then show "is_ok (goal_status_from_str s)" "list_all (\<lambda>t. is_ok (goal_status_from_str t)) ts"
    by (auto simp: allowed_transitions_def goal_status_from_str_def enum_from_str_def
        match_str_def split: if_split_asm)
qed

interpretation roadmap_lifecycle: lifecycle roadmap_status_as_str roadmap_status_from_str "allowed_transitions EntityType_Roadmap"
proof unfold_locales
  fix v show "is_ok (allowed_transitions EntityType_Roadmap (roadmap_status_as_str v))"
    by (cases v) (simp_all add: allowed_transitions_def staged_table_def)
next
  fix s ts assume "allowed_transitions EntityType_Roadmap s = Inr ts"
  then show "is_ok (roadmap_status_from_str s)" "list_all (\<lambda>t. is_ok (roadmap_status_from_str t)) ts"
    by (auto simp: allowed_transitions_def staged_table_def roadmap_status_from_str_def enum_from_str_def
        match_str_def split: if_split_asm)
qed

interpretation work_point_lifecycle: lifecycle work_point_status_as_str work_point_status_from_str "allowed_transitions EntityType_WorkPoint"
proof unfold_locales
  fix v show "is_ok (allowed_transitions EntityType_WorkPoint (work_point_status_as_str v))"
    by (cases v) (simp_all add: allowed_transitions_def staged_table_def)
next
  fix s ts assume "allowed_transitions EntityType_WorkPoint s = Inr ts"
  then show "is_ok (work_point_status_from_str s)" "list_all (\<lambda>t. is_ok (work_point_status_from_str t)) ts"
    by (auto simp: allowed_transitions_def staged_table_def work_point_status_from_str_def enum_from_str_def
        match_str_def split: if_split_asm)
qed

interpretation plan_lifecycle: lifecycle plan_status_as_str plan_status_from_str "allowed_transitions EntityType_Plan"
proof unfold_locales
  fix v show "is_ok (allowed_transitions EntityType_Plan (plan_status_as_str v))"
    by (cases v) (simp_all add: allowed_transitions_def staged_table_def)
next
  fix s ts assume "allowed_transitions EntityType_Plan s = Inr ts"
  then show "is_ok (plan_status_from_str s)" "list_all (\<lambda>t. is_ok (plan_status_from_str t)) ts"
    by (auto simp: allowed_transitions_def staged_table_def plan_status_from_str_def enum_from_str_def
        match_str_def split: if_split_asm)
qed

interpretation todo_lifecycle: lifecycle todo_status_as_str todo_status_from_str "allowed_transitions EntityType_Todo"
proof unfold_locales
  fix v show "is_ok (allowed_transitions EntityType_Todo (todo_status_as_str v))"
    by (cases v) (simp_all add: allowed_transitions_def)
next
  fix s ts assume "allowed_transitions EntityType_Todo s = Inr ts"
  then show "is_ok (todo_status_from_str s)" "list_all (\<lambda>t. is_ok (todo_status_from_str t)) ts"
    by (auto simp: allowed_transitions_def todo_status_from_str_def enum_from_str_def
        match_str_def split: if_split_asm)
qed

interpretation issue_lifecycle: lifecycle issue_status_as_str issue_status_from_str "allowed_transitions EntityType_Issue"
proof unfold_locales
  fix v show "is_ok (allowed_transitions EntityType_Issue (issue_status_as_str v))"
    by (cases v) (simp_all add: allowed_transitions_def)
next
  fix s ts assume "allowed_transitions EntityType_Issue s = Inr ts"
  then show "is_ok (issue_status_from_str s)" "list_all (\<lambda>t. is_ok (issue_status_from_str t)) ts"
    by (auto simp: allowed_transitions_def issue_status_from_str_def enum_from_str_def
        match_str_def split: if_split_asm)
qed

interpretation review_point_lifecycle: lifecycle review_point_status_as_str review_point_status_from_str "allowed_transitions EntityType_ReviewPoint"
proof unfold_locales
  fix v show "is_ok (allowed_transitions EntityType_ReviewPoint (review_point_status_as_str v))"
    by (cases v) (simp_all add: allowed_transitions_def)
next
  fix s ts assume "allowed_transitions EntityType_ReviewPoint s = Inr ts"
  then show "is_ok (review_point_status_from_str s)" "list_all (\<lambda>t. is_ok (review_point_status_from_str t)) ts"
    by (auto simp: allowed_transitions_def review_point_status_from_str_def enum_from_str_def
        match_str_def split: if_split_asm)
qed

interpretation insight_lifecycle: lifecycle insight_status_as_str insight_status_from_str "allowed_transitions EntityType_Insight"
proof unfold_locales
  fix v show "is_ok (allowed_transitions EntityType_Insight (insight_status_as_str v))"
    by (cases v) (simp_all add: allowed_transitions_def)
next
  fix s ts assume "allowed_transitions EntityType_Insight s = Inr ts"
  then show "is_ok (insight_status_from_str s)" "list_all (\<lambda>t. is_ok (insight_status_from_str t)) ts"
    by (auto simp: allowed_transitions_def insight_status_from_str_def enum_from_str_def
        match_str_def split: if_split_asm)
qed

definition known_status :: "entity_type \<Rightarrow> string \<Rightarrow> bool" where
  "known_status et = (\<lambda>s. case et of
       EntityType_Goal \<Rightarrow> is_ok (goal_status_from_str s)
     | EntityType_Roadmap \<Rightarrow> is_ok (roadmap_status_from_str s)
     | EntityType_WorkPoint \<Rightarrow> is_ok (work_point_status_from_str s)
     | EntityType_Plan \<Rightarrow> is_ok (plan_status_from_str s)
     | EntityType_Todo \<Rightarrow> is_ok (todo_status_from_str s)
     | EntityType_Issue \<Rightarrow> is_ok (issue_status_from_str s)
     | EntityType_ReviewPoint \<Rightarrow> is_ok (review_point_status_from_str s)
     | EntityType_Insight \<Rightarrow> is_ok (insight_status_from_str s)
     | _ \<Rightarrow> False)"

section \<open>What an update of a status does\<close>

text \<open>The status and the revision of an entity, whatever its table.\<close>

definition entity_status :: "planning_store \<Rightarrow> entity_type \<Rightarrow> string \<Rightarrow> (string \<times> int) option" where
  "entity_status st et i = (case et of
       EntityType_Goal \<Rightarrow>
         map_option (\<lambda>r. (goal_status_as_str (go_status r), go_revision r)) (find_row go_id i (goals st))
     | EntityType_Roadmap \<Rightarrow>
         map_option (\<lambda>r. (roadmap_status_as_str (rm_status r), rm_revision r)) (find_row rm_id i (roadmaps st))
     | EntityType_WorkPoint \<Rightarrow>
         map_option (\<lambda>r. (work_point_status_as_str (wp_status r), wp_revision r)) (find_row wp_id i (work_points st))
     | EntityType_Plan \<Rightarrow>
         map_option (\<lambda>r. (plan_status_as_str (pl_status r), pl_revision r)) (find_row pl_id i (plans st))
     | EntityType_Todo \<Rightarrow>
         map_option (\<lambda>r. (todo_status_as_str (td_status r), td_revision r)) (find_row td_id i (todos st))
     | EntityType_Issue \<Rightarrow>
         map_option (\<lambda>r. (issue_status_as_str (is_status r), is_revision r)) (find_row is_id i (issues st))
     | EntityType_ReviewPoint \<Rightarrow>
         map_option (\<lambda>r. (review_point_status_as_str (rp_status r), rp_revision r)) (find_row rp_id i (review_points st))
     | EntityType_Insight \<Rightarrow>
         map_option (\<lambda>r. (insight_status_as_str (in_status r), in_revision r)) (find_row in_id i (insights st))
     | _ \<Rightarrow> None)"

lemma entity_status_core: "core st' = core st \<Longrightarrow> entity_status st' et i = entity_status st et i"
  using core_fields [of st' st] by (cases et) (simp_all add: entity_status_def)

lemma transition_guard_Inr:
  "transition_guard et input current requested = Inr u \<longleftrightarrow>
     us_override_transition input \<or> (\<exists>ts. allowed_transitions et current = Inr ts \<and> requested \<in> set ts)"
  by (auto simp: transition_guard_def)

lemma update_status_row_Inr:
  "update_status_row table i key f rows = Inr rows' \<longleftrightarrow>
     find_row key i rows \<noteq> None \<and> rows' = update_where (\<lambda>r. key r = i) f rows"
  by (auto simp: update_status_row_def)

lemma parse_status_Inr: "parse_status from_str text = Inr v \<longleftrightarrow> from_str text = Inr v"
  by (simp add: parse_status_def)

lemma refresh_targets_core:
  assumes "refresh_targets env st targets = Inr st'"
  shows "core st' = core st"
  using assms unfolding refresh_targets_def
  by (rule foldE_invariant [where P = "\<lambda>s. core s = core st"]) (auto dest!: refresh_validation_target_core)

text \<open>
  What the branches have in common: the entity existed with a status from which the requested one
  is allowed (or the transition was overridden), it now has the requested status and the next
  revision, and no other entity changed.
\<close>

definition status_changed ::
    "planning_store \<Rightarrow> update_status_input \<Rightarrow> planning_store \<Rightarrow> bool" where
  "status_changed st input st' \<longleftrightarrow>
     (let et = us_entity_type input; i = us_entity_id input in
      \<exists>old rev. entity_status st et i = Some (old, rev)
        \<and> entity_status st' et i = Some (us_status input, rev + 1)
        \<and> (us_override_transition input \<or> (\<exists>ts. allowed_transitions et old = Inr ts \<and> us_status input \<in> set ts))
        \<and> (\<forall>et' i'. (et', i') \<noteq> (et, i) \<longrightarrow> entity_status st' et' i' = entity_status st et' i'))"

lemma status_changed_core: "core st' = core st'' \<Longrightarrow> status_changed st input st' = status_changed st input st''"
  by (simp add: status_changed_def entity_status_core [of st' st''])

lemma status_changedI:
  assumes et: "us_entity_type input = et"
    and before: "\<And>i. entity_status st et i = map_option (\<lambda>r. (stat r, revn r)) (find_row key i rows)"
    and after: "\<And>i. entity_status st' et i =
      map_option (\<lambda>r. (stat r, revn r)) (find_row key i (update_where (\<lambda>r. key r = us_entity_id input) f rows))"
    and others: "\<And>et' i. et' \<noteq> et \<Longrightarrow> entity_status st' et' i = entity_status st et' i"
    and f: "\<And>r. key (f r) = key r" "\<And>r. stat (f r) = us_status input" "\<And>r. revn (f r) = revn r + 1"
    and old: "find_row key (us_entity_id input) rows = Some old"
    and guard: "transition_guard et input (stat old) (us_status input) = Inr u"
  shows "status_changed st input st'"
proof -
  have rows: "find_row key i (update_where (\<lambda>r. key r = us_entity_id input) f rows) =
    (if i = us_entity_id input then map_option f (find_row key i rows) else find_row key i rows)" for i
  proof (cases "find_row key i rows")
    case (Some r)
    then have "key r = i" by (blast dest: find_row_SomeD)
    with Some show ?thesis by (auto simp: find_row_update_where f(1))
  qed (auto simp: find_row_update_where f(1))
  have "entity_status st et (us_entity_id input) = Some (stat old, revn old)" using before old by simp
  moreover have "entity_status st' et (us_entity_id input) = Some (us_status input, revn old + 1)"
    using after rows old f by simp
  moreover have "entity_status st' et' i' = entity_status st et' i'" if "(et', i') \<noteq> (et, us_entity_id input)" for et' i'
    using that others before after rows by (cases "et' = et") auto
  ultimately show ?thesis
    using guard unfolding status_changed_def Let_def et transition_guard_Inr by blast
qed

lemma update_goal_status_changed:
  assumes "update_goal_status env st input now = Inr (res, st')" "us_entity_type input = EntityType_Goal"
  shows "status_changed st input st'"
proof -
  from assms(1) obtain status old where parse: "goal_status_from_str (us_status input) = Inr status"
    and old: "find_row go_id (us_entity_id input) (goals st) = Some old"
    and guard: "transition_guard EntityType_Goal input (goal_status_as_str (go_status old)) (goal_status_as_str status) = Inr ()"
    and core: "core st' = core (st\<lparr>goals := update_where (\<lambda>r. go_id r = us_entity_id input)
        (\<lambda>r. r\<lparr>go_status := status, go_revision := go_revision r + 1, go_updated_at := now\<rparr>) (goals st)\<rparr>)"
    unfolding update_goal_status_def Let_def
    by (auto simp: parse_status_Inr update_status_row_Inr load_goal_def
        dest!: log_event_core refresh_validation_target_core)
  have same: "goal_status_as_str status = us_status input" using parse by (rule goal_status.as_from)
  show ?thesis unfolding status_changed_core [OF core]
    by (rule status_changedI [where stat = "\<lambda>r. goal_status_as_str (go_status r)" and revn = go_revision
          and key = go_id and rows = "goals st"
          and f = "\<lambda>r. r\<lparr>go_status := status, go_revision := go_revision r + 1, go_updated_at := now\<rparr>", OF assms(2)])
      (use old guard in \<open>simp_all add: entity_status_def same split: entity_type.split\<close>)
qed

lemma update_roadmap_status_changed:
  assumes "update_roadmap_status env st input now = Inr (res, st')" "us_entity_type input = EntityType_Roadmap"
  shows "status_changed st input st'"
proof -
  from assms(1) obtain status old where parse: "roadmap_status_from_str (us_status input) = Inr status"
    and old: "find_row rm_id (us_entity_id input) (roadmaps st) = Some old"
    and guard: "transition_guard EntityType_Roadmap input (roadmap_status_as_str (rm_status old)) (roadmap_status_as_str status) = Inr ()"
    and core: "core st' = core (st\<lparr>roadmaps := update_where (\<lambda>r. rm_id r = us_entity_id input)
        (\<lambda>r. r\<lparr>rm_status := status, rm_revision := rm_revision r + 1, rm_updated_at := now\<rparr>) (roadmaps st)\<rparr>)"
    unfolding update_roadmap_status_def Let_def
    by (auto simp: parse_status_Inr update_status_row_Inr load_roadmap_def
        dest!: log_event_core refresh_validation_target_core)
  have same: "roadmap_status_as_str status = us_status input" using parse by (rule roadmap_status.as_from)
  show ?thesis unfolding status_changed_core [OF core]
    by (rule status_changedI [where stat = "\<lambda>r. roadmap_status_as_str (rm_status r)" and revn = rm_revision
          and key = rm_id and rows = "roadmaps st"
          and f = "\<lambda>r. r\<lparr>rm_status := status, rm_revision := rm_revision r + 1, rm_updated_at := now\<rparr>", OF assms(2)])
      (use old guard in \<open>simp_all add: entity_status_def same split: entity_type.split\<close>)
qed

lemma update_work_point_status_changed:
  assumes "update_work_point_status env st input now = Inr (res, st')" "us_entity_type input = EntityType_WorkPoint"
  shows "status_changed st input st'"
proof -
  from assms(1) obtain status old where parse: "work_point_status_from_str (us_status input) = Inr status"
    and old: "find_row wp_id (us_entity_id input) (work_points st) = Some old"
    and guard: "transition_guard EntityType_WorkPoint input (work_point_status_as_str (wp_status old)) (work_point_status_as_str status) = Inr ()"
    and core: "core st' = core (st\<lparr>work_points := update_where (\<lambda>r. wp_id r = us_entity_id input)
        (\<lambda>r. r\<lparr>wp_status := status, wp_revision := wp_revision r + 1, wp_updated_at := now\<rparr>) (work_points st)\<rparr>)"
    unfolding update_work_point_status_def Let_def
    by (auto simp: parse_status_Inr update_status_row_Inr load_work_point_def
        dest!: log_event_core refresh_validation_target_core refresh_targets_core)
  have same: "work_point_status_as_str status = us_status input" using parse by (rule work_point_status.as_from)
  show ?thesis unfolding status_changed_core [OF core]
    by (rule status_changedI [where stat = "\<lambda>r. work_point_status_as_str (wp_status r)" and revn = wp_revision
          and key = wp_id and rows = "work_points st"
          and f = "\<lambda>r. r\<lparr>wp_status := status, wp_revision := wp_revision r + 1, wp_updated_at := now\<rparr>", OF assms(2)])
      (use old guard in \<open>simp_all add: entity_status_def same split: entity_type.split\<close>)
qed

lemma update_plan_status_changed:
  assumes "update_plan_status env st input now = Inr (res, st')" "us_entity_type input = EntityType_Plan"
  shows "status_changed st input st'"
proof -
  from assms(1) obtain status old where parse: "plan_status_from_str (us_status input) = Inr status"
    and old: "find_row pl_id (us_entity_id input) (plans st) = Some old"
    and guard: "transition_guard EntityType_Plan input (plan_status_as_str (pl_status old)) (plan_status_as_str status) = Inr ()"
    and core: "core st' = core (st\<lparr>plans := update_where (\<lambda>r. pl_id r = us_entity_id input)
        (\<lambda>r. r\<lparr>pl_status := status, pl_revision := pl_revision r + 1, pl_updated_at := now\<rparr>) (plans st)\<rparr>)"
    unfolding update_plan_status_def Let_def
    by (auto simp: parse_status_Inr update_status_row_Inr load_plan_def
        dest!: log_event_core refresh_validation_target_core)
  have same: "plan_status_as_str status = us_status input" using parse by (rule plan_status.as_from)
  show ?thesis unfolding status_changed_core [OF core]
    by (rule status_changedI [where stat = "\<lambda>r. plan_status_as_str (pl_status r)" and revn = pl_revision
          and key = pl_id and rows = "plans st"
          and f = "\<lambda>r. r\<lparr>pl_status := status, pl_revision := pl_revision r + 1, pl_updated_at := now\<rparr>", OF assms(2)])
      (use old guard in \<open>simp_all add: entity_status_def same split: entity_type.split\<close>)
qed

lemma update_todo_status_changed:
  assumes "update_todo_status env st input now = Inr (res, st')" "us_entity_type input = EntityType_Todo"
  shows "status_changed st input st'"
proof -
  from assms(1) obtain status old refs where parse: "todo_status_from_str (us_status input) = Inr status"
    and old: "find_row td_id (us_entity_id input) (todos st) = Some old"
    and guard: "transition_guard EntityType_Todo input (todo_status_as_str (td_status old)) (todo_status_as_str status) = Inr ()"
    and core: "core st' = core (st\<lparr>todos := update_where (\<lambda>r. td_id r = us_entity_id input)
        (\<lambda>r. r\<lparr>td_status := status, td_evidence_refs := refs, td_revision := td_revision r + 1, td_updated_at := now\<rparr>) (todos st)\<rparr>)"
    unfolding update_todo_status_def Let_def
    by (auto simp: parse_status_Inr update_status_row_Inr load_todo_def
        dest!: log_event_core refresh_validation_target_core refresh_targets_core)
  have same: "todo_status_as_str status = us_status input" using parse by (rule todo_status.as_from)
  show ?thesis unfolding status_changed_core [OF core]
    by (rule status_changedI [where stat = "\<lambda>r. todo_status_as_str (td_status r)" and revn = td_revision
          and key = td_id and rows = "todos st"
          and f = "\<lambda>r. r\<lparr>td_status := status, td_evidence_refs := refs, td_revision := td_revision r + 1, td_updated_at := now\<rparr>", OF assms(2)])
      (use old guard in \<open>simp_all add: entity_status_def same split: entity_type.split\<close>)
qed

lemma update_issue_status_changed:
  assumes "update_issue_status env st input now = Inr (res, st')" "us_entity_type input = EntityType_Issue"
  shows "status_changed st input st'"
proof -
  from assms(1) obtain status old where parse: "issue_status_from_str (us_status input) = Inr status"
    and old: "find_row is_id (us_entity_id input) (issues st) = Some old"
    and guard: "transition_guard EntityType_Issue input (issue_status_as_str (is_status old)) (issue_status_as_str status) = Inr ()"
    and core: "core st' = core (st\<lparr>issues := update_where (\<lambda>r. is_id r = us_entity_id input)
        (\<lambda>r. r\<lparr>is_status := status, is_revision := is_revision r + 1, is_updated_at := now\<rparr>) (issues st)\<rparr>)"
    unfolding update_issue_status_def Let_def
    by (auto simp: parse_status_Inr update_status_row_Inr load_issue_def
        dest!: log_event_core refresh_validation_target_core refresh_targets_core)
  have same: "issue_status_as_str status = us_status input" using parse by (rule issue_status.as_from)
  show ?thesis unfolding status_changed_core [OF core]
    by (rule status_changedI [where stat = "\<lambda>r. issue_status_as_str (is_status r)" and revn = is_revision
          and key = is_id and rows = "issues st"
          and f = "\<lambda>r. r\<lparr>is_status := status, is_revision := is_revision r + 1, is_updated_at := now\<rparr>", OF assms(2)])
      (use old guard in \<open>simp_all add: entity_status_def same split: entity_type.split\<close>)
qed

lemma update_review_point_status_changed:
  assumes "update_review_point_status env st input now = Inr (res, st')" "us_entity_type input = EntityType_ReviewPoint"
  shows "status_changed st input st'"
proof -
  from assms(1) obtain status old where parse: "review_point_status_from_str (us_status input) = Inr status"
    and old: "find_row rp_id (us_entity_id input) (review_points st) = Some old"
    and guard: "transition_guard EntityType_ReviewPoint input (review_point_status_as_str (rp_status old)) (review_point_status_as_str status) = Inr ()"
    and core: "core st' = core (st\<lparr>review_points := update_where (\<lambda>r. rp_id r = us_entity_id input)
        (\<lambda>r. r\<lparr>rp_status := status, rp_revision := rp_revision r + 1, rp_updated_at := now\<rparr>) (review_points st)\<rparr>)"
    unfolding update_review_point_status_def Let_def
    by (auto simp: parse_status_Inr update_status_row_Inr load_review_point_def
        dest!: log_event_core refresh_validation_target_core refresh_targets_core)
  have same: "review_point_status_as_str status = us_status input" using parse by (rule review_point_status.as_from)
  show ?thesis unfolding status_changed_core [OF core]
    by (rule status_changedI [where stat = "\<lambda>r. review_point_status_as_str (rp_status r)" and revn = rp_revision
          and key = rp_id and rows = "review_points st"
          and f = "\<lambda>r. r\<lparr>rp_status := status, rp_revision := rp_revision r + 1, rp_updated_at := now\<rparr>", OF assms(2)])
      (use old guard in \<open>simp_all add: entity_status_def same split: entity_type.split\<close>)
qed

lemma update_insight_status_changed:
  assumes "update_insight_status env st input now = Inr (res, st')" "us_entity_type input = EntityType_Insight"
  shows "status_changed st input st'"
proof -
  from assms(1) obtain status old where parse: "insight_status_from_str (us_status input) = Inr status"
    and old: "find_row in_id (us_entity_id input) (insights st) = Some old"
    and guard: "transition_guard EntityType_Insight input (insight_status_as_str (in_status old)) (insight_status_as_str status) = Inr ()"
    and core: "core st' = core (st\<lparr>insights := update_where (\<lambda>r. in_id r = us_entity_id input)
        (\<lambda>r. r\<lparr>in_status := status, in_revision := in_revision r + 1, in_updated_at := now\<rparr>) (insights st)\<rparr>)"
    unfolding update_insight_status_def Let_def
    by (auto simp: parse_status_Inr update_status_row_Inr load_insight_def
        dest!: log_event_core refresh_validation_target_core refresh_targets_core)
  have same: "insight_status_as_str status = us_status input" using parse by (rule insight_status.as_from)
  show ?thesis unfolding status_changed_core [OF core]
    by (rule status_changedI [where stat = "\<lambda>r. insight_status_as_str (in_status r)" and revn = in_revision
          and key = in_id and rows = "insights st"
          and f = "\<lambda>r. r\<lparr>in_status := status, in_revision := in_revision r + 1, in_updated_at := now\<rparr>", OF assms(2)])
      (use old guard in \<open>simp_all add: entity_status_def same split: entity_type.split\<close>)
qed

lemma update_status_changed:
  assumes "update_status env st input = Inr (res, st')"
  shows "status_changed st input st'"
proof -
  from assms obtain now where branch: "(case us_entity_type input of
       EntityType_Goal \<Rightarrow> update_goal_status env (st\<lparr>tick := Suc (tick st)\<rparr>) input now
     | EntityType_Roadmap \<Rightarrow> update_roadmap_status env (st\<lparr>tick := Suc (tick st)\<rparr>) input now
     | EntityType_WorkPoint \<Rightarrow> update_work_point_status env (st\<lparr>tick := Suc (tick st)\<rparr>) input now
     | EntityType_Plan \<Rightarrow> update_plan_status env (st\<lparr>tick := Suc (tick st)\<rparr>) input now
     | EntityType_Todo \<Rightarrow> update_todo_status env (st\<lparr>tick := Suc (tick st)\<rparr>) input now
     | EntityType_Issue \<Rightarrow> update_issue_status env (st\<lparr>tick := Suc (tick st)\<rparr>) input now
     | EntityType_ReviewPoint \<Rightarrow> update_review_point_status env (st\<lparr>tick := Suc (tick st)\<rparr>) input now
     | EntityType_Insight \<Rightarrow> update_insight_status env (st\<lparr>tick := Suc (tick st)\<rparr>) input now
     | _ \<Rightarrow> Inl (invalid [''status transitions are not supported for '', entity_type_as_str (us_entity_type input)]))
       = Inr (res, st')"
    unfolding update_status_def by (auto simp: Let_def now_string_Inr_iff split: if_split_asm)
  have "status_changed (st\<lparr>tick := Suc (tick st)\<rparr>) input st'"
    using branch
    by (cases "us_entity_type input")
      (simp_all add: update_goal_status_changed update_roadmap_status_changed update_work_point_status_changed
        update_plan_status_changed update_todo_status_changed update_issue_status_changed
        update_review_point_status_changed update_insight_status_changed)
  then show ?thesis by (simp add: status_changed_def entity_status_core [of "st\<lparr>tick := Suc (tick st)\<rparr>" st])
qed

end
