(* ===== verification/LifecycleProperties.thy ===== *)
theory LifecycleProperties
  imports Lifecycle Samples
begin

text \<open>
  The properties of status updates: the transition tables fit the enumerations, an update changes one
  entity along its table, and sequences of updates refine the table as a transition system.
\<close>

section \<open>Tables and single updates\<close>

lemma unsupported_transitions:
  "allowed_transitions et s = Inr ts \<Longrightarrow> et \<in> {EntityType_Goal, EntityType_Roadmap, EntityType_WorkPoint, EntityType_Plan,
     EntityType_Todo, EntityType_Issue, EntityType_ReviewPoint, EntityType_Insight}"
  by (cases et) (simp_all add: allowed_transitions_def)

lemmas tables_exact = goal_lifecycle.table_exact roadmap_lifecycle.table_exact work_point_lifecycle.table_exact
  plan_lifecycle.table_exact todo_lifecycle.table_exact issue_lifecycle.table_exact
  review_point_lifecycle.table_exact insight_lifecycle.table_exact

text \<open>
  Claim C18. The transition table of an entity type is defined exactly on the statuses of its enumeration,
  and lists only statuses of the enumeration.
\<close>

theorem transitions_fit_enums:
  "case allowed_transitions et s of
     Inl _ \<Rightarrow> \<not> known_status et s
   | Inr ts \<Rightarrow> known_status et s \<and> list_all (known_status et) ts"
proof (cases "allowed_transitions et s")
  case (Inl e)
  then show ?thesis using tables_exact [of s] by (cases et) (simp_all add: known_status_def)
next
  case (Inr ts)
  then have "et \<in> {EntityType_Goal, EntityType_Roadmap, EntityType_WorkPoint, EntityType_Plan, EntityType_Todo,
      EntityType_Issue, EntityType_ReviewPoint, EntityType_Insight}" by (rule unsupported_transitions)
  with Inr show ?thesis using tables_exact [of s] by (auto simp: known_status_def)
qed

text \<open>
  Claim C19. A successful update gives the entity the requested status and the next revision; without the
  override the requested status is one the table allows from the old one, and no other entity of any
  type changes its status or revision.
\<close>

theorem update_status_exact:
  assumes "update_status env st input = Inr (res, st')"
  shows "\<exists>old v. entity_status st (us_entity_type input) (us_entity_id input) = Some (old, v)
    \<and> entity_status st' (us_entity_type input) (us_entity_id input) = Some (us_status input, v + 1)
    \<and> (us_override_transition input
        \<or> (\<exists>ts. allowed_transitions (us_entity_type input) old = Inr ts \<and> us_status input \<in> set ts))
    \<and> (\<forall>et i. (et, i) \<noteq> (us_entity_type input, us_entity_id input) \<longrightarrow> entity_status st' et i = entity_status st et i)"
  using update_status_changed [OF assms] by (simp add: status_changed_def Let_def)

definition status_input :: "entity_type \<Rightarrow> string \<Rightarrow> string \<Rightarrow> update_status_input" where
  "status_input et i status = \<lparr>us_entity_type = et, us_entity_id = i, us_status = status, us_evidence_refs = None,
     us_active_scope_key = None, us_run_id = None, us_override_transition = False, us_reason = None\<rparr>"

definition finished :: "(entity_record \<times> validation_report) \<times> planning_store" where
  "finished = (case update_status sample_env work_store (status_input EntityType_WorkPoint ''p3'' ''completed'') of
     Inr x \<Rightarrow> x | Inl _ \<Rightarrow> ((EntityGoal sample_goal, from_findings []), work_store))"

lemmas validate_status_eval = refresh_validation_target_def validate_entity_def validator_steps_def
  validate_work_point_def validate_roadmap_def validate_todo_def section_steps_def dependency_steps_def push_when_def
  after_load_def persist_validation_findings_def cross_scope_targets_def finding_def dependency_cycle_loop.simps
  list_work_points_for_roadmap_def

lemmas status_eval = status_input_def update_status_def update_work_point_status_def parse_status_def
  work_point_status_from_str_def enum_from_str_def match_str_def transition_guard_def allowed_transitions_def
  staged_table_def update_status_row_def update_where_def load_work_point_def load_roadmap_def load_goal_def
  load_file_scopes_for_entity_def roadmap_correlation_id_def refresh_targets_def validate_status_eval
  string_eval lookup_eval log_eval sample_eval Let_def

lemma finished_eq:
  "update_status sample_env work_store (status_input EntityType_WorkPoint ''p3'' ''completed'') = Inr (fst finished, snd finished)"
  by (simp add: finished_def status_eval)

theorem update_status_exact_witness:
  "\<exists>old v. entity_status work_store EntityType_WorkPoint ''p3'' = Some (old, v)
    \<and> entity_status (snd finished) EntityType_WorkPoint ''p3'' = Some (''completed'', v + 1)"
  using update_status_exact [OF finished_eq] by (auto simp: status_input_def)

text \<open>
  An update of a work point along a transition the table does not allow is rejected without the
  override: the error names the current status and the statuses that are allowed.
\<close>

lemma forbidden_transition_rejected:
  assumes "us_entity_type input = EntityType_WorkPoint" "us_override_transition input = False"
    and "find_row wp_id (us_entity_id input) (work_points st) = Some w" "trim (us_entity_id input) \<noteq> []"
    and "wp_scope_key w = normalized_scope_key (us_active_scope_key input)"
    and "work_point_status_from_str (us_status input) = Inr requested" "trim (us_status input) \<noteq> []"
    and "allowed_transitions EntityType_WorkPoint (work_point_status_as_str (wp_status w)) = Inr ts"
    and "us_status input \<notin> set ts" "env_now env (tick st) = Some now"
  shows "update_status env st input = Inl (invalid_status_transition_error EntityType_WorkPoint (us_entity_id input)
    (work_point_status_as_str (wp_status w)) (us_status input) ts)"
proof -
  have same: "work_point_status_as_str requested = us_status input" using assms(6) by (rule work_point_status.as_from)
  have guard: "transition_guard EntityType_WorkPoint input (work_point_status_as_str (wp_status w)) (us_status input)
      = Inl (invalid_status_transition_error EntityType_WorkPoint (us_entity_id input)
          (work_point_status_as_str (wp_status w)) (us_status input) ts)"
    using assms(2,8,9) by (simp add: transition_guard_def)
  have "ensure_entity_in_scope (st\<lparr>tick := Suc (tick st)\<rparr>) EntityType_WorkPoint (us_entity_id input)
      (normalized_scope_key (us_active_scope_key input)) = Inr (wp_scope_key w)"
    using assms(3,5) by (simp add: ensure_entity_in_scope_def scope_key_for_entity.simps row_or_not_found_def)
  then show ?thesis
    using assms(1,3,4,6,7,10) guard
    by (simp add: update_status_def now_string_def Let_def require_non_empty_def update_work_point_status_def
        parse_status_def load_work_point_def row_or_not_found_def same)
qed

lemma forbidden_transition_rejected_witness:
  "update_status sample_env work_store (status_input EntityType_WorkPoint ''p3'' ''draft'') =
     Inl (invalid_status_transition_error EntityType_WorkPoint ''p3'' ''active'' ''draft'' [''blocked'', ''completed'', ''cancelled''])"
  using forbidden_transition_rejected [of "status_input EntityType_WorkPoint ''p3'' ''draft''" work_store
      "sample_work_point ''p3'' [] WorkPointStatus_Active" WorkPointStatus_Draft
      "[''blocked'', ''completed'', ''cancelled'']" sample_env "encode_time 0"]
  by (simp add: status_eval)

section \<open>Sequences of updates\<close>

definition allowed_step :: "entity_type \<Rightarrow> string \<Rightarrow> string \<Rightarrow> bool" where
  "allowed_step et s t \<longleftrightarrow> (\<exists>ts. allowed_transitions et s = Inr ts \<and> t \<in> set ts)"

text \<open>Updates without override, interleaved with steps that change no status.\<close>

inductive lifecycle_step :: "environment \<Rightarrow> planning_store \<Rightarrow> planning_store \<Rightarrow> bool" for env where
  update: "update_status env st input = Inr (res, st') \<Longrightarrow> \<not> us_override_transition input \<Longrightarrow> lifecycle_step env st st'"
| other: "(\<And>et i. entity_status st' et i = entity_status st et i) \<Longrightarrow> lifecycle_step env st st'"

definition follows_table :: "entity_type \<Rightarrow> string \<Rightarrow> string \<times> int \<Rightarrow> planning_store \<Rightarrow> bool" where
  "follows_table et i s st \<longleftrightarrow>
     (\<exists>t v. entity_status st et i = Some (t, v) \<and> (allowed_step et)\<^sup>*\<^sup>* (fst s) t \<and> snd s \<le> v \<and> (v = snd s \<longrightarrow> t = fst s))"

lemma lifecycle_step_cases:
  assumes "lifecycle_step env st st'" "entity_status st et i = Some (s, v)"
  shows "entity_status st' et i = Some (s, v) \<or> (\<exists>t. entity_status st' et i = Some (t, v + 1) \<and> allowed_step et s t)"
  using assms(1)
proof cases
  case (update input res)
  then have "status_changed st input st'" by (blast intro: update_status_changed)
  with update(2) assms(2) show ?thesis
    by (cases "(et, i) = (us_entity_type input, us_entity_id input)")
      (auto simp: status_changed_def Let_def allowed_step_def)
next
  case other
  with assms(2) show ?thesis by simp
qed

interpretation status_sys: invariant_system "lifecycle_step env" "follows_table et i s" for env et i s
proof unfold_locales
  fix st st' assume "follows_table et i s st" "lifecycle_step env st st'"
  then obtain t v where t: "entity_status st et i = Some (t, v)" "(allowed_step et)\<^sup>*\<^sup>* (fst s) t" "snd s \<le> v"
    "v = snd s \<longrightarrow> t = fst s" unfolding follows_table_def by blast
  from lifecycle_step_cases [OF \<open>lifecycle_step env st st'\<close> t(1)] show "follows_table et i s st'"
    using t unfolding follows_table_def by (auto intro: rtranclp.rtrancl_into_rtrancl)
qed

text \<open>
  Claim C20. Sequences of updates refine the transition table: whatever is done to a store without the
  override, the status of an entity moves along a path of its table, its revision never decreases, and
  a status change is visible as a larger revision.
\<close>

theorem updates_refine_table:
  assumes "reachable_from (lifecycle_step env) st st'" "entity_status st et i = Some (s, v)"
  shows "\<exists>t v'. entity_status st' et i = Some (t, v') \<and> (allowed_step et)\<^sup>*\<^sup>* s t \<and> v \<le> v' \<and> (v' = v \<longrightarrow> t = s)"
proof -
  have "follows_table et i (s, v) st" using assms(2) by (simp add: follows_table_def)
  from status_sys.reachable_inv [OF assms(1) this] show ?thesis by (simp add: follows_table_def)
qed

theorem updates_refine_table_witness:
  "\<exists>t v'. entity_status (snd finished) EntityType_WorkPoint ''p3'' = Some (t, v') \<and> (allowed_step EntityType_WorkPoint)\<^sup>*\<^sup>* ''active'' t"
proof -
  have step: "lifecycle_step sample_env work_store (snd finished)"
    by (rule lifecycle_step.update [OF finished_eq]) (simp add: status_input_def)
  have "reachable_from (lifecycle_step sample_env) work_store (snd finished)"
    by (rule reachable_from.step, rule reachable_from.start, rule step)
  moreover have "entity_status work_store EntityType_WorkPoint ''p3'' = Some (''active'', 1)"
    by (simp add: entity_status_def sample_eval)
  ultimately show ?thesis using updates_refine_table by blast
qed

text \<open>
  A status without successors is final: a completed roadmap, work point, plan or todo, a superseded
  goal and a closed review point keep status and revision under every sequence of updates without override.
\<close>

lemma terminal_status_final:
  assumes "reachable_from (lifecycle_step env) st st'" "entity_status st et i = Some (s, v)"
    and "allowed_transitions et s = Inr []"
  shows "entity_status st' et i = Some (s, v)"
  using assms(1)
proof (induction rule: reachable_from.induct)
  case start
  then show ?case by (rule assms(2))
next
  case (step st1 st2)
  then show ?case using lifecycle_step_cases [OF step.hyps(2) step.IH] assms(3) by (simp add: allowed_step_def)
qed

definition finished_later :: "(entity_record \<times> validation_report) \<times> planning_store" where
  "finished_later = (case update_status sample_env (snd finished) (status_input EntityType_WorkPoint ''p2'' ''blocked'') of
     Inr x \<Rightarrow> x | Inl _ \<Rightarrow> finished)"

lemma finished_later_eq:
  "update_status sample_env (snd finished) (status_input EntityType_WorkPoint ''p2'' ''blocked'')
    = Inr (fst finished_later, snd finished_later)"
  by (simp add: finished_later_def finished_def status_eval)

lemma terminal_status_final_witness:
  "entity_status (snd finished_later) EntityType_WorkPoint ''p3'' = Some (''completed'', 2)"
proof (rule terminal_status_final)
  show "entity_status (snd finished) EntityType_WorkPoint ''p3'' = Some (''completed'', 2)"
    by (simp add: entity_status_def finished_def status_eval)
  have "lifecycle_step sample_env (snd finished) (snd finished_later)"
    by (rule lifecycle_step.update [OF finished_later_eq]) (simp add: status_input_def)
  then show "reachable_from (lifecycle_step sample_env) (snd finished) (snd finished_later)"
    by (rule reachable_from.step [OF reachable_from.start])
  show "allowed_transitions EntityType_WorkPoint ''completed'' = Inr []"
    by (simp add: allowed_transitions_def staged_table_def)
qed

text \<open>
  A status update of a todo that names no evidence erases the evidence recorded before: the
  statement writes the given references, and an absent list is written as the empty one.
\<close>

lemma todo_update_erases_evidence:
  assumes "update_status env st input = Inr (res, st')" "us_entity_type input = EntityType_Todo"
    and "us_evidence_refs input = None"
  shows "\<exists>todo. find_row td_id (us_entity_id input) (todos st') = Some todo \<and> td_evidence_refs todo = []"
proof -
  from assms obtain now where branch: "update_todo_status env (st\<lparr>tick := Suc (tick st)\<rparr>) input now = Inr (res, st')"
    unfolding update_status_def by (auto simp: Let_def now_string_Inr_iff)
  then obtain old status where old: "find_row td_id (us_entity_id input) (todos st) = Some old"
    and core: "core st' = core (st\<lparr>tick := Suc (tick st), todos := update_where (\<lambda>r. td_id r = us_entity_id input)
      (\<lambda>r. r\<lparr>td_status := status, td_evidence_refs := [], td_revision := td_revision r + 1, td_updated_at := now\<rparr>) (todos st)\<rparr>)"
    unfolding update_todo_status_def Let_def assms(3)
    by (auto simp: parse_status_Inr update_status_row_Inr load_todo_def
        dest!: log_event_core refresh_validation_target_core refresh_targets_core)
  have "td_id old = us_entity_id input" using old by (blast dest: find_row_SomeD)
  then show ?thesis using old core_fields(7) [OF core] by (simp add: find_row_update_where)
qed

end
