(* ===== verification/Entities.thy ===== *)
theory Entities
  imports ProjectRuns Lifecycle
begin

text \<open>
  Creation and revision of the planning entities (\<open>storage.rs\<close>): scopes, goals, roadmaps and their
  sections, work points, plans, todos, issues, review points and insights. One definition per
  operation, with the checks, the row it writes, the event, the refreshed findings, the tag index and
  the full-text entry in the order of the code.

  The rows of \<open>work_points\<close>, \<open>plans\<close> and \<open>todos\<close> have no column for the file scopes: they live in
  \<open>entity_file_scopes\<close>, so an inserted row has an empty list there and the loaders fill it in.

  SQLite computes \<open>MAX(ordering_index) + 1\<close> on 64-bit integers and turns an overflow into a floating
  point value, which the code cannot read back as an \<open>i64\<close>: \<open>next_ordering\<close> then fails.
\<close>

section \<open>Inputs\<close>

record create_scope_input =
  csc_scope_key :: string
  csc_scope_type :: "string option"
  csc_parent_scope_key :: "string option"
  csc_metadata :: "json option"
  csc_tags :: "string list"
  csc_run_id :: "string option"

record create_goal_input =
  cgo_id :: "string option"
  cgo_scope_key :: "string option"
  cgo_correlation_id :: string
  cgo_title :: string
  cgo_description :: string
  cgo_acceptance_criteria :: "string list"
  cgo_rejection_criteria :: "string list"
  cgo_status :: goal_status
  cgo_tags :: "string list"
  cgo_run_id :: "string option"

record create_roadmap_input =
  crm_id :: "string option"
  crm_scope_key :: "string option"
  crm_goal_id :: string
  crm_correlation_id :: string
  crm_title :: string
  crm_summary :: string
  crm_status :: roadmap_status
  crm_tags :: "string list"
  crm_run_id :: "string option"

record add_roadmap_section_input =
  ars_id :: "string option"
  ars_scope_key :: "string option"
  ars_roadmap_id :: string
  ars_slug :: string
  ars_title :: string
  ars_summary :: string
  ars_ordering :: "int option"
  ars_run_id :: "string option"

record add_work_point_input =
  awp_id :: "string option"
  awp_scope_key :: "string option"
  awp_roadmap_id :: string
  awp_section_id :: "string option"
  awp_title :: string
  awp_summary :: string
  awp_status :: work_point_status
  awp_ordering :: "int option"
  awp_dependency_ids :: "string list"
  awp_validation_expectations :: "string list"
  awp_effort_tier :: effort_tier
  awp_kind :: "work_point_kind option"
  awp_priority :: "priority option"
  awp_repairs_work_point_ids :: "string list"
  awp_supersedes_work_point_ids :: "string list"
  awp_blocks_work_point_ids :: "string list"
  awp_file_scopes :: "file_scope_record list"
  awp_tags :: "string list"
  awp_run_id :: "string option"

record revise_work_point_input =
  rwp_work_point_id :: string
  rwp_active_scope_key :: "string option"
  rwp_dependency_ids :: "string list option"
  rwp_clear_dependencies :: bool
  rwp_blocks_work_point_ids :: "string list option"
  rwp_clear_blocks :: bool
  rwp_run_id :: "string option"

record create_plan_input =
  cpl_id :: "string option"
  cpl_scope_key :: "string option"
  cpl_goal_id :: string
  cpl_roadmap_id :: string
  cpl_correlation_id :: string
  cpl_title :: string
  cpl_summary :: string
  cpl_scope :: string
  cpl_assumptions :: "string list"
  cpl_stop_conditions :: "string list"
  cpl_validation_steps :: "string list"
  cpl_targeted_work_point_ids :: "string list"
  cpl_effort_tier :: effort_tier
  cpl_routing_hint :: "string option"
  cpl_allow_parallel_overlap :: bool
  cpl_file_scopes :: "file_scope_record list"
  cpl_status :: plan_status
  cpl_tags :: "string list"
  cpl_run_id :: "string option"

record revise_plan_input =
  rpl_plan_id :: string
  rpl_active_scope_key :: "string option"
  rpl_scope_key :: "string option"
  rpl_assumptions :: "string list option"
  rpl_stop_conditions :: "string list option"
  rpl_validation_steps :: "string list option"
  rpl_targeted_work_point_ids :: "string list option"
  rpl_effort_tier :: "effort_tier option"
  rpl_routing_hint :: "string option"
  rpl_clear_routing_hint :: bool
  rpl_allow_parallel_overlap :: "bool option"
  rpl_file_scopes :: "file_scope_record list option"
  rpl_clear_file_scopes :: bool
  rpl_tags :: "string list option"
  rpl_run_id :: "string option"

record create_todo_input =
  ctd_id :: "string option"
  ctd_scope_key :: "string option"
  ctd_plan_id :: "string option"
  ctd_work_point_id :: "string option"
  ctd_title :: string
  ctd_summary :: string
  ctd_status :: todo_status
  ctd_priority :: priority
  ctd_effort_tier :: effort_tier
  ctd_file_scopes :: "file_scope_record list"
  ctd_evidence_refs :: "string list"
  ctd_tags :: "string list"
  ctd_ordering :: "int option"
  ctd_run_id :: "string option"

record create_issue_input =
  cis_id :: "string option"
  cis_scope_key :: "string option"
  cis_correlation_id :: string
  cis_title :: string
  cis_summary :: string
  cis_status :: issue_status
  cis_severity :: severity
  cis_related_entity_type :: "entity_type option"
  cis_related_entity_id :: "string option"
  cis_tags :: "string list"
  cis_run_id :: "string option"

record create_review_point_input =
  crp_id :: "string option"
  crp_scope_key :: "string option"
  crp_attached_entity_type :: entity_type
  crp_attached_entity_id :: string
  crp_title :: string
  crp_summary :: string
  crp_status :: review_point_status
  crp_severity :: severity
  crp_run_id :: "string option"

record create_insight_input =
  cin_id :: "string option"
  cin_scope_key :: "string option"
  cin_correlation_id :: string
  cin_title :: string
  cin_content :: string
  cin_insight_type :: insight_type
  cin_parent_entity_type :: entity_type
  cin_parent_entity_id :: string
  cin_tags :: "string list"
  cin_status :: insight_status
  cin_run_id :: "string option"

section \<open>Event payloads\<close>

definition scope_json :: "scope_record \<Rightarrow> json" where
  "scope_json r = JObj
     [(''scopeKey'', JStr (sc_scope_key r)), (''scopeType'', json_opt_str (sc_scope_type r)),
      (''parentScopeKey'', json_opt_str (sc_parent_scope_key r)), (''metadata'', sc_metadata r),
      (''tags'', json_strs (sc_tags r)), (''revision'', JInt (sc_revision r)),
      (''createdAt'', JStr (sc_created_at r)), (''updatedAt'', JStr (sc_updated_at r))]"

definition goal_json :: "goal_record \<Rightarrow> json" where
  "goal_json r = JObj
     [(''id'', JStr (go_id r)), (''scopeKey'', JStr (go_scope_key r)),
      (''correlationId'', JStr (go_correlation_id r)), (''title'', JStr (go_title r)),
      (''description'', JStr (go_description r)), (''acceptanceCriteria'', json_strs (go_acceptance_criteria r)),
      (''rejectionCriteria'', json_strs (go_rejection_criteria r)),
      (''status'', JStr (goal_status_as_str (go_status r))), (''tags'', json_strs (go_tags r)),
      (''revision'', JInt (go_revision r)), (''createdAt'', JStr (go_created_at r)),
      (''updatedAt'', JStr (go_updated_at r))]"

definition roadmap_json :: "roadmap_record \<Rightarrow> json" where
  "roadmap_json r = JObj
     [(''id'', JStr (rm_id r)), (''scopeKey'', JStr (rm_scope_key r)), (''goalId'', JStr (rm_goal_id r)),
      (''correlationId'', JStr (rm_correlation_id r)), (''title'', JStr (rm_title r)),
      (''summary'', JStr (rm_summary r)), (''status'', JStr (roadmap_status_as_str (rm_status r))),
      (''tags'', json_strs (rm_tags r)), (''revision'', JInt (rm_revision r)),
      (''createdAt'', JStr (rm_created_at r)), (''updatedAt'', JStr (rm_updated_at r))]"

definition roadmap_section_json :: "roadmap_section_record \<Rightarrow> json" where
  "roadmap_section_json r = JObj
     [(''id'', JStr (rs_id r)), (''scopeKey'', JStr (rs_scope_key r)), (''roadmapId'', JStr (rs_roadmap_id r)),
      (''slug'', JStr (rs_slug r)), (''title'', JStr (rs_title r)), (''summary'', JStr (rs_summary r)),
      (''ordering'', JInt (rs_ordering r)), (''revision'', JInt (rs_revision r)),
      (''createdAt'', JStr (rs_created_at r)), (''updatedAt'', JStr (rs_updated_at r))]"

definition file_scope_json :: "file_scope_record \<Rightarrow> json" where
  "file_scope_json f = JObj
     [(''selectorType'', JStr (file_scope_selector_type_as_str (fs_selector_type f))),
      (''selector'', JStr (fs_selector f)), (''intent'', JStr (file_scope_intent_as_str (fs_intent f)))]"

definition work_point_json :: "work_point_record \<Rightarrow> json" where
  "work_point_json r = JObj
     [(''id'', JStr (wp_id r)), (''scopeKey'', JStr (wp_scope_key r)), (''roadmapId'', JStr (wp_roadmap_id r)),
      (''sectionId'', json_opt_str (wp_section_id r)), (''title'', JStr (wp_title r)),
      (''summary'', JStr (wp_summary r)), (''status'', JStr (work_point_status_as_str (wp_status r))),
      (''ordering'', JInt (wp_ordering r)), (''dependencyIds'', json_strs (wp_dependency_ids r)),
      (''validationExpectations'', json_strs (wp_validation_expectations r)),
      (''effortTier'', JStr (effort_tier_as_str (wp_effort_tier r))),
      (''kind'', JStr (work_point_kind_as_str (wp_kind r))),
      (''priority'', JStr (priority_as_str (wp_priority r))),
      (''repairsWorkPointIds'', json_strs (wp_repairs_work_point_ids r)),
      (''supersedesWorkPointIds'', json_strs (wp_supersedes_work_point_ids r)),
      (''blocksWorkPointIds'', json_strs (wp_blocks_work_point_ids r)),
      (''fileScopes'', JArr (map file_scope_json (wp_file_scopes r))), (''tags'', json_strs (wp_tags r)),
      (''revision'', JInt (wp_revision r)), (''createdAt'', JStr (wp_created_at r)),
      (''updatedAt'', JStr (wp_updated_at r))]"

definition plan_json :: "plan_record \<Rightarrow> json" where
  "plan_json r = JObj
     [(''id'', JStr (pl_id r)), (''scopeKey'', JStr (pl_scope_key r)), (''goalId'', JStr (pl_goal_id r)),
      (''roadmapId'', JStr (pl_roadmap_id r)), (''correlationId'', JStr (pl_correlation_id r)),
      (''title'', JStr (pl_title r)), (''summary'', JStr (pl_summary r)), (''scope'', JStr (pl_scope r)),
      (''assumptions'', json_strs (pl_assumptions r)), (''stopConditions'', json_strs (pl_stop_conditions r)),
      (''validationSteps'', json_strs (pl_validation_steps r)),
      (''targetedWorkPointIds'', json_strs (pl_targeted_work_point_ids r)),
      (''effortTier'', JStr (effort_tier_as_str (pl_effort_tier r))),
      (''routingHint'', json_opt_str (pl_routing_hint r)),
      (''allowParallelOverlap'', JBool (pl_allow_parallel_overlap r)),
      (''fileScopes'', JArr (map file_scope_json (pl_file_scopes r))),
      (''status'', JStr (plan_status_as_str (pl_status r))), (''tags'', json_strs (pl_tags r)),
      (''revision'', JInt (pl_revision r)), (''createdAt'', JStr (pl_created_at r)),
      (''updatedAt'', JStr (pl_updated_at r))]"

definition todo_json :: "todo_record \<Rightarrow> json" where
  "todo_json r = JObj
     [(''id'', JStr (td_id r)), (''scopeKey'', JStr (td_scope_key r)), (''planId'', json_opt_str (td_plan_id r)),
      (''workPointId'', json_opt_str (td_work_point_id r)), (''title'', JStr (td_title r)),
      (''summary'', JStr (td_summary r)), (''status'', JStr (todo_status_as_str (td_status r))),
      (''priority'', JStr (priority_as_str (td_priority r))),
      (''effortTier'', JStr (effort_tier_as_str (td_effort_tier r))),
      (''fileScopes'', JArr (map file_scope_json (td_file_scopes r))),
      (''evidenceRefs'', json_strs (td_evidence_refs r)), (''tags'', json_strs (td_tags r)),
      (''ordering'', JInt (td_ordering r)), (''revision'', JInt (td_revision r)),
      (''createdAt'', JStr (td_created_at r)), (''updatedAt'', JStr (td_updated_at r))]"

definition issue_json :: "issue_record \<Rightarrow> json" where
  "issue_json r = JObj
     [(''id'', JStr (is_id r)), (''scopeKey'', JStr (is_scope_key r)),
      (''correlationId'', JStr (is_correlation_id r)), (''title'', JStr (is_title r)),
      (''summary'', JStr (is_summary r)), (''status'', JStr (issue_status_as_str (is_status r))),
      (''severity'', JStr (severity_as_str (is_severity r))),
      (''relatedEntityType'', json_opt_str (map_option entity_type_as_str (is_related_entity_type r))),
      (''relatedEntityId'', json_opt_str (is_related_entity_id r)), (''tags'', json_strs (is_tags r)),
      (''revision'', JInt (is_revision r)), (''createdAt'', JStr (is_created_at r)),
      (''updatedAt'', JStr (is_updated_at r))]"

definition review_point_json :: "review_point_record \<Rightarrow> json" where
  "review_point_json r = JObj
     [(''id'', JStr (rp_id r)), (''scopeKey'', JStr (rp_scope_key r)),
      (''attachedEntityType'', JStr (entity_type_as_str (rp_attached_entity_type r))),
      (''attachedEntityId'', JStr (rp_attached_entity_id r)), (''title'', JStr (rp_title r)),
      (''summary'', JStr (rp_summary r)), (''status'', JStr (review_point_status_as_str (rp_status r))),
      (''severity'', JStr (severity_as_str (rp_severity r))), (''revision'', JInt (rp_revision r)),
      (''createdAt'', JStr (rp_created_at r)), (''updatedAt'', JStr (rp_updated_at r))]"

definition insight_json :: "insight_record \<Rightarrow> json" where
  "insight_json r = JObj
     [(''id'', JStr (in_id r)), (''scopeKey'', JStr (in_scope_key r)),
      (''correlationId'', JStr (in_correlation_id r)), (''title'', JStr (in_title r)),
      (''content'', JStr (in_content r)), (''insightType'', JStr (insight_type_as_str (in_insight_type r))),
      (''parentEntityType'', JStr (entity_type_as_str (in_parent_entity_type r))),
      (''parentEntityId'', JStr (in_parent_entity_id r)), (''tags'', json_strs (in_tags r)),
      (''status'', JStr (insight_status_as_str (in_status r))), (''revision'', JInt (in_revision r)),
      (''createdAt'', JStr (in_created_at r)), (''updatedAt'', JStr (in_updated_at r))]"

section \<open>Helpers\<close>

text \<open>\<open>INSERT\<close> of a row under a primary key, and the check of the foreign keys.\<close>

definition insert_row :: "string \<Rightarrow> ('r \<Rightarrow> string) \<Rightarrow> 'r \<Rightarrow> 'r list \<Rightarrow> 'r list result" where
  "insert_row table key r rows =
     (if find_row key (key r) rows \<noteq> None then Inl (Sqlite (UniqueViolation table)) else Inr (rows @ [r]))"

definition foreign_key :: "string \<Rightarrow> ('r \<Rightarrow> string) \<Rightarrow> string \<Rightarrow> 'r list \<Rightarrow> unit result" where
  "foreign_key table key i rows = guardE (find_row key i rows \<noteq> None) (Sqlite (ForeignKeyViolation table))"

definition optional_foreign_key :: "string \<Rightarrow> ('r \<Rightarrow> string) \<Rightarrow> string option \<Rightarrow> 'r list \<Rightarrow> unit result" where
  "optional_foreign_key table key i rows =
     (case i of None \<Rightarrow> Inr () | Some i \<Rightarrow> foreign_key table key i rows)"

definition i64_max :: int where
  "i64_max = 2 ^ 63 - 1"

definition next_ordering :: "int list \<Rightarrow> int result" where
  "next_ordering orderings =
     (let next = max_or_zero orderings + 1 in
      if next > i64_max then Inl (Sqlite (ConversionFailure ''ordering_index'')) else Inr next)"

definition todo_group :: "string option \<Rightarrow> string option \<Rightarrow> string" where
  "todo_group plan_id work_point_id =
     (case plan_id of Some p \<Rightarrow> p | None \<Rightarrow> (case work_point_id of Some w \<Rightarrow> w | None \<Rightarrow> ''__global__''))"

definition next_todo_ordering :: "planning_store \<Rightarrow> string \<Rightarrow> int result" where
  "next_todo_ordering st grouping_key =
     next_ordering (map td_ordering
       (filter (\<lambda>t. todo_group (td_plan_id t) (td_work_point_id t) = grouping_key) (todos st)))"

definition file_scope_key :: "file_scope_record \<Rightarrow> string \<times> string \<times> string" where
  "file_scope_key f =
     (file_scope_selector_type_as_str (fs_selector_type f), file_scope_intent_as_str (fs_intent f), fs_selector f)"

definition normalize_file_scopes :: "file_scope_record list \<Rightarrow> file_scope_record list" where
  "normalize_file_scopes file_scopes =
     remdups_adj (sort_key file_scope_key
       (filter (\<lambda>f. fs_selector f \<noteq> []) (map (\<lambda>f. f\<lparr>fs_selector := trim (fs_selector f)\<rparr>) file_scopes)))"

definition trimmed_option :: "string option \<Rightarrow> string option" where
  "trimmed_option x =
     (case x of None \<Rightarrow> None | Some v \<Rightarrow> (if trim v = [] then None else Some (trim v)))"

definition ensure_section_belongs_to_roadmap :: "planning_store \<Rightarrow> string \<Rightarrow> string \<Rightarrow> unit result" where
  "ensure_section_belongs_to_roadmap st section_id roadmap_id =
     tryE (row_or_not_found EntityType_RoadmapSection section_id (find_row rs_id section_id (roadmap_sections st)))
       (\<lambda>section.
       if rs_roadmap_id section \<noteq> roadmap_id then
         Inl (invalid [''sectionId `'', section_id, ''` belongs to roadmap `'', rs_roadmap_id section, ''`, not `'',
                       roadmap_id, ''`''])
       else Inr ())"

definition list_work_point_dependents :: "planning_store \<Rightarrow> string \<Rightarrow> string list" where
  "list_work_point_dependents st dependency_id =
     map wp_id (filter (\<lambda>w. dependency_id \<in> set (wp_dependency_ids w)) (work_points st))"

definition list_plans_targeting_work_point :: "planning_store \<Rightarrow> string \<Rightarrow> string list" where
  "list_plans_targeting_work_point st work_point_id =
     map pl_id (filter (\<lambda>p. work_point_id \<in> set (pl_targeted_work_point_ids p)) (plans st))"

section \<open>Scopes, goals and roadmaps\<close>

definition create_scope ::
    "environment \<Rightarrow> planning_store \<Rightarrow> create_scope_input \<Rightarrow> (scope_record mutation_result \<times> planning_store) result" where
  "create_scope env st input =
     tryE (require_non_empty ''scopeKey'' (csc_scope_key input)) (\<lambda>_.
     let scope_key = normalize_scope_key_value (csc_scope_key input);
         parent_scope_key = map_option normalize_scope_key_value (csc_parent_scope_key input) in
     if parent_scope_key = Some scope_key then
       Inl (invalid [''parentScopeKey cannot be the same as scopeKey''])
     else
     tryE (case parent_scope_key of None \<Rightarrow> Inr () | Some parent \<Rightarrow> ensure_scope_exists st parent) (\<lambda>_.
     tryE (now_string env st) (\<lambda>(now, st).
     let rec = \<lparr>sc_scope_key = scope_key, sc_scope_type = map_option trim (csc_scope_type input),
                sc_parent_scope_key = parent_scope_key,
                sc_metadata = (case csc_metadata input of None \<Rightarrow> JObj [] | Some m \<Rightarrow> m),
                sc_tags = normalize_string_list (csc_tags input), sc_revision = 1,
                sc_created_at = now, sc_updated_at = now\<rparr> in
     tryE (insert_row ''scopes'' sc_scope_key rec (scopes st)) (\<lambda>rows.
     tryE (optional_foreign_key ''scopes'' sc_scope_key parent_scope_key (scopes st)) (\<lambda>_.
     tryE (log_event env (st\<lparr>scopes := rows\<rparr>) EntityType_Scope scope_key EntityType_Scope scope_key
             (format [''corr-scope-'', scope_key]) (csc_run_id input) ''scope.created'' (scope_json rec)) (\<lambda>st.
     Inr (\<lparr>mr_record = rec, mr_validation = from_findings []\<rparr>, st)))))))"

definition create_goal ::
    "environment \<Rightarrow> planning_store \<Rightarrow> create_goal_input \<Rightarrow> (goal_record mutation_result \<times> planning_store) result" where
  "create_goal env st input =
     tryE (require_non_empty ''correlationId'' (cgo_correlation_id input)) (\<lambda>_.
     tryE (require_non_empty ''title'' (cgo_title input)) (\<lambda>_.
     tryE (require_non_empty ''description'' (cgo_description input)) (\<lambda>_.
     let scope_key = normalized_scope_key (cgo_scope_key input) in
     tryE (ensure_scope_exists st scope_key) (\<lambda>_.
     tryE (now_string env st) (\<lambda>(now, st).
     let (i, st) = id_or_new env st (cgo_id input);
         rec = \<lparr>go_id = i, go_scope_key = scope_key, go_correlation_id = cgo_correlation_id input,
                go_title = trim (cgo_title input), go_description = trim (cgo_description input),
                go_acceptance_criteria = normalize_string_list (cgo_acceptance_criteria input),
                go_rejection_criteria = normalize_string_list (cgo_rejection_criteria input),
                go_status = cgo_status input, go_tags = normalize_string_list (cgo_tags input),
                go_revision = 1, go_created_at = now, go_updated_at = now\<rparr> in
     tryE (insert_row ''goals'' go_id rec (goals st)) (\<lambda>rows.
     tryE (log_event env (st\<lparr>goals := rows\<rparr>) EntityType_Goal i EntityType_Goal i (go_correlation_id rec)
             (cgo_run_id input) ''goal.created'' (goal_json rec)) (\<lambda>st.
     tryE (validate_and_store env st EntityType_Goal i) (\<lambda>(validation, st).
     tryE (rebuild_tag_index_for_entity st EntityType_Goal i (go_tags rec)) (\<lambda>st.
     let st = upsert_fts_entry st EntityType_Goal (go_scope_key rec) i (go_title rec) (go_description rec) in
     Inr (\<lparr>mr_record = rec, mr_validation = validation\<rparr>, st))))))))))"

text \<open>The preflight of \<open>create_roadmap\<close>.\<close>

definition goal_open :: "goal_record \<Rightarrow> unit result" where
  "goal_open goal =
     (if go_status goal \<in> {GoalStatus_Invalidated, GoalStatus_Superseded, GoalStatus_Abandoned} then
        Inl (invalid_json
          [(''code'', JStr ''GOAL_NOT_ACTIVE''),
           (''message'', JStr (format [''goal `'', go_id goal, ''` is not active (status: '',
              goal_status_as_str (go_status goal), '')''])),
           (''goalId'', JStr (go_id goal)), (''status'', JStr ''invalid'')])
      else Inr ())"

definition create_roadmap ::
    "environment \<Rightarrow> planning_store \<Rightarrow> create_roadmap_input
     \<Rightarrow> (roadmap_record mutation_result \<times> planning_store) result" where
  "create_roadmap env st input =
     tryE (require_non_empty ''goalId'' (crm_goal_id input)) (\<lambda>_.
     tryE (require_non_empty ''correlationId'' (crm_correlation_id input)) (\<lambda>_.
     tryE (require_non_empty ''title'' (crm_title input)) (\<lambda>_.
     tryE (require_non_empty ''summary'' (crm_summary input)) (\<lambda>_.
     tryE (ensure_referenced_entity_in_scope st EntityType_Goal (crm_goal_id input) ''goalId''
             (normalized_scope_key (crm_scope_key input))) (\<lambda>inherited_scope_key.
     tryE (load_goal st (crm_goal_id input)) (\<lambda>goal.
     tryE (goal_open goal) (\<lambda>_.
     tryE (now_string env st) (\<lambda>(now, st).
     let (i, st) = id_or_new env st (crm_id input);
         rec = \<lparr>rm_id = i, rm_scope_key = inherited_scope_key, rm_goal_id = crm_goal_id input,
                rm_correlation_id = crm_correlation_id input, rm_title = trim (crm_title input),
                rm_summary = trim (crm_summary input), rm_status = crm_status input,
                rm_tags = normalize_string_list (crm_tags input), rm_revision = 1,
                rm_created_at = now, rm_updated_at = now\<rparr> in
     tryE (insert_row ''roadmaps'' rm_id rec (roadmaps st)) (\<lambda>rows.
     tryE (foreign_key ''roadmaps'' go_id (rm_goal_id rec) (goals st)) (\<lambda>_.
     tryE (log_event env (st\<lparr>roadmaps := rows\<rparr>) EntityType_Roadmap i EntityType_Roadmap i (rm_correlation_id rec)
             (crm_run_id input) ''roadmap.created'' (roadmap_json rec)) (\<lambda>st.
     tryE (refresh_validation_target env st EntityType_Roadmap i) (\<lambda>(validation, st).
     tryE (refresh_targets env st [(EntityType_Goal, rm_goal_id rec)]) (\<lambda>st.
     tryE (rebuild_tag_index_for_entity st EntityType_Roadmap i (rm_tags rec)) (\<lambda>st.
     let st = upsert_fts_entry st EntityType_Roadmap (rm_scope_key rec) i (rm_title rec) (rm_summary rec) in
     Inr (\<lparr>mr_record = rec, mr_validation = validation\<rparr>, st)))))))))))))))"

definition section_slug :: "roadmap_section_record \<Rightarrow> string \<times> string" where
  "section_slug r = (rs_roadmap_id r, rs_slug r)"

definition add_roadmap_section ::
    "environment \<Rightarrow> planning_store \<Rightarrow> add_roadmap_section_input
     \<Rightarrow> (roadmap_section_record mutation_result \<times> planning_store) result" where
  "add_roadmap_section env st input =
     tryE (require_non_empty ''roadmapId'' (ars_roadmap_id input)) (\<lambda>_.
     tryE (require_non_empty ''slug'' (ars_slug input)) (\<lambda>_.
     tryE (require_non_empty ''title'' (ars_title input)) (\<lambda>_.
     tryE (ensure_referenced_entity_in_scope st EntityType_Roadmap (ars_roadmap_id input) ''roadmapId''
             (normalized_scope_key (ars_scope_key input))) (\<lambda>inherited_scope_key.
     tryE (now_string env st) (\<lambda>(now, st).
     let (i, st) = id_or_new env st (ars_id input) in
     tryE (next_ordering (map rs_ordering
             (filter (\<lambda>s. rs_roadmap_id s = ars_roadmap_id input) (roadmap_sections st)))) (\<lambda>next.
     let rec = \<lparr>rs_id = i, rs_scope_key = inherited_scope_key, rs_roadmap_id = ars_roadmap_id input,
                rs_slug = trim (ars_slug input), rs_title = trim (ars_title input),
                rs_summary = trim (ars_summary input),
                rs_ordering = (case ars_ordering input of Some k \<Rightarrow> k | None \<Rightarrow> next), rs_revision = 1,
                rs_created_at = now, rs_updated_at = now\<rparr> in
     tryE (insert_row ''roadmap_sections'' rs_id rec (roadmap_sections st)) (\<lambda>rows.
     tryE (guardE (section_slug rec \<notin> section_slug ` set (roadmap_sections st))
             (Sqlite (UniqueViolation ''roadmap_sections.slug''))) (\<lambda>_.
     tryE (foreign_key ''roadmap_sections'' rm_id (rs_roadmap_id rec) (roadmaps st)) (\<lambda>_.
     let st = st\<lparr>roadmap_sections := rows\<rparr> in
     tryE (roadmap_correlation_id st (rs_roadmap_id rec)) (\<lambda>correlation_id.
     tryE (log_event env st EntityType_RoadmapSection i EntityType_Roadmap (rs_roadmap_id rec) correlation_id
             (ars_run_id input) ''roadmap.section-added'' (roadmap_section_json rec)) (\<lambda>st.
     tryE (refresh_targets env st [(EntityType_RoadmapSection, i)]) (\<lambda>st.
     tryE (refresh_validation_target env st EntityType_Roadmap (rs_roadmap_id rec)) (\<lambda>(validation, st).
     Inr (\<lparr>mr_record = rec, mr_validation = validation\<rparr>, st))))))))))))))"

section \<open>Work points\<close>

text \<open>
  The checks of \<open>add_work_point\<close> on one dependency and on one blocked work point: an empty id is
  skipped, a missing dependency is accepted, a missing blocked work point is not.
\<close>

definition check_dependency :: "planning_store \<Rightarrow> string \<Rightarrow> string \<Rightarrow> unit result" where
  "check_dependency st roadmap_id dep_id =
     (let trimmed = trim dep_id in
      if trimmed = [] then Inr () else
      case load_work_point st trimmed of
        Inr dep \<Rightarrow>
          if wp_roadmap_id dep \<noteq> roadmap_id then
            Inl (invalid [''dependency work point `'', trimmed, ''` belongs to roadmap `'', wp_roadmap_id dep,
              ''`, not `'', roadmap_id, ''`. Cross-roadmap work-point dependencies are not supported.''])
          else Inr ()
      | Inl (NotFound _ _) \<Rightarrow> Inr ()
      | Inl e \<Rightarrow> Inl e)"

definition require_same_roadmap :: "planning_store \<Rightarrow> string \<Rightarrow> string \<Rightarrow> string \<Rightarrow> string \<Rightarrow> unit result" where
  "require_same_roadmap st what relation roadmap_id i =
     (case load_work_point st i of
        Inl (NotFound _ _) \<Rightarrow> Inl (invalid [what, '' work point `'', i, ''` does not exist''])
      | Inl e \<Rightarrow> Inl e
      | Inr w \<Rightarrow>
          if wp_roadmap_id w \<noteq> roadmap_id then
            Inl (invalid [what, '' work point `'', i, ''` belongs to roadmap `'', wp_roadmap_id w, ''`, not `'',
              roadmap_id, ''`. Cross-roadmap '', relation, '' are not supported.''])
          else Inr ())"

definition check_blocked :: "planning_store \<Rightarrow> string \<Rightarrow> string \<Rightarrow> unit result" where
  "check_blocked st roadmap_id blocked_id =
     (let trimmed = trim blocked_id in
      if trimmed = [] then Inr ()
      else require_same_roadmap st ''blocked'' ''block relationships'' roadmap_id trimmed)"

text \<open>
  The map \<open>all_blocks\<close> of the blocks lists of a scope, with the new list of one work point, and the
  loop that searches a way back from every blocked work point.
\<close>

definition all_blocks :: "planning_store \<Rightarrow> string \<Rightarrow> string \<Rightarrow> string list \<Rightarrow> (string \<times> string list) list" where
  "all_blocks st scope_key i blocks =
     (i, blocks) # map (\<lambda>w. (wp_id w, wp_blocks_work_point_ids w))
       (filter (\<lambda>w. wp_scope_key w = scope_key \<and> wp_blocks_work_point_ids w \<noteq> [] \<and> wp_id w \<noteq> i)
         (work_points st))"

definition check_block_cycle :: "planning_store \<Rightarrow> string \<Rightarrow> string \<Rightarrow> string list \<Rightarrow> unit result" where
  "check_block_cycle st scope_key i blocks =
     (case find (\<lambda>blocked_id. would_create_cycle blocked_id i (all_blocks st scope_key i blocks)) blocks of
        None \<Rightarrow> Inr ()
      | Some blocked_id \<Rightarrow> Inl (invalid_json
          [(''code'', JStr ''INVALID_BLOCK_CYCLE''),
           (''message'', JStr (format [''blocking work point '', sq, i, sq, '' would create a cycle via '', sq,
              blocked_id, sq])),
           (''workPointId'', JStr i), (''blockedId'', JStr blocked_id)]))"

definition insert_work_point :: "planning_store \<Rightarrow> work_point_record \<Rightarrow> planning_store result" where
  "insert_work_point st rec =
     tryE (insert_row ''work_points'' wp_id (rec\<lparr>wp_file_scopes := []\<rparr>) (work_points st)) (\<lambda>rows.
     tryE (foreign_key ''work_points'' rm_id (wp_roadmap_id rec) (roadmaps st)) (\<lambda>_.
     tryE (optional_foreign_key ''work_points'' rs_id (wp_section_id rec) (roadmap_sections st)) (\<lambda>_.
     Inr (st\<lparr>work_points := rows\<rparr>))))"

definition work_point_of_input ::
    "add_work_point_input \<Rightarrow> string \<Rightarrow> string \<Rightarrow> int \<Rightarrow> string \<Rightarrow> work_point_record" where
  "work_point_of_input input i scope_key order_index now =
     \<lparr>wp_id = i, wp_scope_key = scope_key, wp_roadmap_id = awp_roadmap_id input,
      wp_section_id = awp_section_id input, wp_title = trim (awp_title input),
      wp_summary = trim (awp_summary input), wp_status = awp_status input, wp_ordering = order_index,
      wp_dependency_ids = normalize_string_list (awp_dependency_ids input),
      wp_validation_expectations = normalize_string_list (awp_validation_expectations input),
      wp_effort_tier = awp_effort_tier input,
      wp_kind = (case awp_kind input of Some k \<Rightarrow> k | None \<Rightarrow> WorkPointKind_Feature),
      wp_priority = (case awp_priority input of Some p \<Rightarrow> p | None \<Rightarrow> Priority_Medium),
      wp_repairs_work_point_ids = normalize_string_list (awp_repairs_work_point_ids input),
      wp_supersedes_work_point_ids = normalize_string_list (awp_supersedes_work_point_ids input),
      wp_blocks_work_point_ids = normalize_string_list (awp_blocks_work_point_ids input),
      wp_file_scopes = normalize_file_scopes (awp_file_scopes input),
      wp_tags = normalize_string_list (awp_tags input), wp_revision = 1,
      wp_created_at = now, wp_updated_at = now\<rparr>"

text \<open>The findings an added or revised work point refreshes besides those of its roadmap.\<close>

definition work_point_neighbours :: "planning_store \<Rightarrow> string \<Rightarrow> (entity_type \<times> string) list" where
  "work_point_neighbours st i =
     map (Pair EntityType_WorkPoint) (list_work_point_dependents st i)
     @ map (Pair EntityType_Plan) (list_plans_targeting_work_point st i)"

definition add_work_point ::
    "environment \<Rightarrow> planning_store \<Rightarrow> add_work_point_input
     \<Rightarrow> (work_point_record mutation_result \<times> planning_store) result" where
  "add_work_point env st input =
     tryE (require_non_empty ''roadmapId'' (awp_roadmap_id input)) (\<lambda>_.
     tryE (require_non_empty ''title'' (awp_title input)) (\<lambda>_.
     tryE (require_non_empty ''summary'' (awp_summary input)) (\<lambda>_.
     let active_scope_key = normalized_scope_key (awp_scope_key input); roadmap_id = awp_roadmap_id input in
     tryE (ensure_referenced_entity_in_scope st EntityType_Roadmap roadmap_id ''roadmapId'' active_scope_key)
       (\<lambda>inherited_scope_key.
     tryE (case awp_section_id input of
             None \<Rightarrow> Inr ()
           | Some section_id \<Rightarrow>
               tryE (ensure_referenced_entity_in_scope st EntityType_RoadmapSection section_id ''sectionId''
                       active_scope_key) (\<lambda>_.
               ensure_section_belongs_to_roadmap st section_id roadmap_id)) (\<lambda>_.
     tryE (mapE (check_dependency st roadmap_id) (awp_dependency_ids input)) (\<lambda>_.
     tryE (mapE (check_blocked st roadmap_id) (awp_blocks_work_point_ids input)) (\<lambda>_.
     tryE (now_string env st) (\<lambda>(now, st).
     let (i, st) = id_or_new env st (awp_id input) in
     tryE (next_ordering (map wp_ordering (filter (\<lambda>w. wp_roadmap_id w = roadmap_id) (work_points st)))) (\<lambda>next.
     let rec = work_point_of_input input i inherited_scope_key
                 (case awp_ordering input of Some k \<Rightarrow> k | None \<Rightarrow> next) now in
     tryE (check_block_cycle st (wp_scope_key rec) i (wp_blocks_work_point_ids rec)) (\<lambda>_.
     tryE (insert_work_point st rec) (\<lambda>st.
     tryE (replace_entity_file_scopes env st (wp_scope_key rec) EntityType_WorkPoint i (wp_file_scopes rec) now) (\<lambda>st.
     tryE (roadmap_correlation_id st roadmap_id) (\<lambda>correlation_id.
     tryE (log_event env st EntityType_WorkPoint i EntityType_Roadmap roadmap_id correlation_id
             (awp_run_id input) ''roadmap.work-point-added'' (work_point_json rec)) (\<lambda>st.
     tryE (refresh_targets env st ((EntityType_WorkPoint, i)
             # (case wp_section_id rec of None \<Rightarrow> [] | Some s \<Rightarrow> [(EntityType_RoadmapSection, s)])
             @ work_point_neighbours st i)) (\<lambda>st.
     tryE (refresh_validation_target env st EntityType_Roadmap roadmap_id) (\<lambda>(validation, st).
     tryE (rebuild_tag_index_for_entity st EntityType_WorkPoint i (wp_tags rec)) (\<lambda>st.
     let st = upsert_fts_entry st EntityType_WorkPoint (wp_scope_key rec) i (wp_title rec) (wp_summary rec) in
     Inr (\<lparr>mr_record = rec, mr_validation = validation\<rparr>, st))))))))))))))))))"

definition trimmed_ids :: "string list \<Rightarrow> string list" where
  "trimmed_ids ids = filter (\<lambda>s. s \<noteq> []) (map trim ids)"

definition revised_dependencies ::
    "planning_store \<Rightarrow> revise_work_point_input \<Rightarrow> work_point_record \<Rightarrow> string list result" where
  "revised_dependencies st input rec =
     (if rwp_clear_dependencies input then Inr [] else
      case rwp_dependency_ids input of
        None \<Rightarrow> Inr (wp_dependency_ids rec)
      | Some dep_ids \<Rightarrow>
          let trimmed = trimmed_ids dep_ids in
          tryE (mapE (\<lambda>dep_id.
            case load_work_point st dep_id of
              Inl (NotFound _ _) \<Rightarrow> Inl (invalid [''dependency work point `'', dep_id, ''` does not exist''])
            | Inl e \<Rightarrow> Inl e
            | Inr _ \<Rightarrow> Inr ()) trimmed) (\<lambda>_.
          tryE (mapE (require_same_roadmap st ''dependency'' ''work-point dependencies'' (wp_roadmap_id rec)) trimmed)
            (\<lambda>_. Inr trimmed)))"

definition revised_blocks ::
    "planning_store \<Rightarrow> revise_work_point_input \<Rightarrow> work_point_record \<Rightarrow> string list result" where
  "revised_blocks st input rec =
     (if rwp_clear_blocks input then Inr [] else
      case rwp_blocks_work_point_ids input of
        None \<Rightarrow> Inr (wp_blocks_work_point_ids rec)
      | Some block_ids \<Rightarrow>
          let trimmed = trimmed_ids block_ids in
          tryE (mapE (require_same_roadmap st ''blocked'' ''block relationships'' (wp_roadmap_id rec)) trimmed)
            (\<lambda>_. Inr trimmed))"

definition revise_work_point ::
    "environment \<Rightarrow> planning_store \<Rightarrow> revise_work_point_input
     \<Rightarrow> (work_point_record mutation_result \<times> planning_store) result" where
  "revise_work_point env st input =
     tryE (load_work_point st (rwp_work_point_id input)) (\<lambda>old.
     let i = wp_id old; active_scope = normalized_scope_key (rwp_active_scope_key input) in
     if rwp_active_scope_key input \<noteq> None \<and> wp_scope_key old \<noteq> active_scope then
       Inl (invalid [''work point `'', rwp_work_point_id input, ''` is in scope `'', wp_scope_key old, ''`, not `'',
                     active_scope, ''`''])
     else if rwp_clear_dependencies input \<and> rwp_dependency_ids input \<noteq> None then
       Inl (invalid [''--clear-dependencies cannot be combined with providing new dependency IDs''])
     else if rwp_clear_blocks input \<and> rwp_blocks_work_point_ids input \<noteq> None then
       Inl (invalid [''--clear-blocks cannot be combined with providing new blocked work point IDs''])
     else
     tryE (revised_dependencies st input old) (\<lambda>new_deps.
     tryE (revised_blocks st input old) (\<lambda>new_blocks.
     tryE (if new_blocks \<noteq> wp_blocks_work_point_ids old
           then check_block_cycle st (wp_scope_key old) i new_blocks else Inr ()) (\<lambda>_.
     tryE (now_string env st) (\<lambda>(now, st).
     let change = (\<lambda>w. w\<lparr>wp_dependency_ids := new_deps, wp_blocks_work_point_ids := new_blocks,
                        wp_revision := wp_revision w + 1, wp_updated_at := now\<rparr>);
         st = st\<lparr>work_points := update_where (\<lambda>w. wp_id w = i) change (work_points st)\<rparr>;
         rec = change old in
     tryE (roadmap_correlation_id st (wp_roadmap_id rec)) (\<lambda>correlation_id.
     tryE (log_event env st EntityType_WorkPoint i EntityType_Roadmap (wp_roadmap_id rec) correlation_id
             (rwp_run_id input) ''work-point.revised'' (work_point_json rec)) (\<lambda>st.
     tryE (refresh_targets env st ((EntityType_WorkPoint, i) # work_point_neighbours st i)) (\<lambda>st.
     tryE (refresh_validation_target env st EntityType_Roadmap (wp_roadmap_id rec)) (\<lambda>(validation, st).
     Inr (\<lparr>mr_record = rec, mr_validation = validation\<rparr>, st))))))))))"

section \<open>Plans\<close>

text \<open>The preflight of \<open>create_plan\<close> on one targeted work point.\<close>

definition check_target :: "planning_store \<Rightarrow> string \<Rightarrow> string \<Rightarrow> unit result" where
  "check_target st roadmap_id wp_ref =
     (let trimmed = trim wp_ref in
      if trimmed = [] then Inr () else
      case load_work_point st trimmed of
        Inr wp \<Rightarrow>
          if wp_roadmap_id wp \<noteq> roadmap_id then Inl (invalid_json
            [(''code'', JStr ''WORK_POINT_ROADMAP_MISMATCH''),
             (''message'', JStr (format [''targeted work point `'', trimmed, ''` belongs to roadmap `'',
                wp_roadmap_id wp, ''`, not `'', roadmap_id, ''`''])),
             (''workPointId'', JStr trimmed), (''status'', JStr ''invalid'')])
          else Inr ()
      | Inl (NotFound _ _) \<Rightarrow> Inl (invalid_json
            [(''code'', JStr ''WORK_POINT_MISSING''),
             (''message'', JStr (format [''targeted work point `'', trimmed, ''` does not exist''])),
             (''workPointId'', JStr trimmed), (''status'', JStr ''invalid'')])
      | Inl e \<Rightarrow> Inl e)"

definition insert_plan :: "planning_store \<Rightarrow> plan_record \<Rightarrow> planning_store result" where
  "insert_plan st rec =
     tryE (insert_row ''plans'' pl_id (rec\<lparr>pl_file_scopes := []\<rparr>) (plans st)) (\<lambda>rows.
     tryE (foreign_key ''plans'' go_id (pl_goal_id rec) (goals st)) (\<lambda>_.
     tryE (foreign_key ''plans'' rm_id (pl_roadmap_id rec) (roadmaps st)) (\<lambda>_.
     Inr (st\<lparr>plans := rows\<rparr>))))"

definition plan_of_input :: "create_plan_input \<Rightarrow> string \<Rightarrow> string \<Rightarrow> string \<Rightarrow> plan_record" where
  "plan_of_input input i scope_key now =
     \<lparr>pl_id = i, pl_scope_key = scope_key, pl_goal_id = cpl_goal_id input, pl_roadmap_id = cpl_roadmap_id input,
      pl_correlation_id = cpl_correlation_id input, pl_title = trim (cpl_title input),
      pl_summary = trim (cpl_summary input), pl_scope = trim (cpl_scope input),
      pl_assumptions = normalize_string_list (cpl_assumptions input),
      pl_stop_conditions = normalize_string_list (cpl_stop_conditions input),
      pl_validation_steps = normalize_string_list (cpl_validation_steps input),
      pl_targeted_work_point_ids = normalize_string_list (cpl_targeted_work_point_ids input),
      pl_effort_tier = cpl_effort_tier input, pl_routing_hint = trimmed_option (cpl_routing_hint input),
      pl_allow_parallel_overlap = cpl_allow_parallel_overlap input,
      pl_file_scopes = normalize_file_scopes (cpl_file_scopes input), pl_status = cpl_status input,
      pl_tags = normalize_string_list (cpl_tags input), pl_revision = 1,
      pl_created_at = now, pl_updated_at = now\<rparr>"

definition create_plan ::
    "environment \<Rightarrow> planning_store \<Rightarrow> create_plan_input \<Rightarrow> (plan_record mutation_result \<times> planning_store) result" where
  "create_plan env st input =
     tryE (require_non_empty ''goalId'' (cpl_goal_id input)) (\<lambda>_.
     tryE (require_non_empty ''roadmapId'' (cpl_roadmap_id input)) (\<lambda>_.
     tryE (require_non_empty ''correlationId'' (cpl_correlation_id input)) (\<lambda>_.
     tryE (require_non_empty ''title'' (cpl_title input)) (\<lambda>_.
     tryE (require_non_empty ''summary'' (cpl_summary input)) (\<lambda>_.
     tryE (require_non_empty ''scope'' (cpl_scope input)) (\<lambda>_.
     let active_scope_key = normalized_scope_key (cpl_scope_key input) in
     tryE (ensure_referenced_entity_in_scope st EntityType_Goal (cpl_goal_id input) ''goalId'' active_scope_key) (\<lambda>_.
     tryE (ensure_referenced_entity_in_scope st EntityType_Roadmap (cpl_roadmap_id input) ''roadmapId''
             active_scope_key) (\<lambda>inherited_scope_key.
     tryE (load_roadmap st (cpl_roadmap_id input)) (\<lambda>roadmap.
     if rm_goal_id roadmap \<noteq> cpl_goal_id input then Inl (invalid_json
       [(''code'', JStr ''GOAL_ROADMAP_MISMATCH''),
        (''message'', JStr (format [''plan goal `'', cpl_goal_id input, ''` does not match roadmap goal `'',
           rm_goal_id roadmap, ''`''])), (''status'', JStr ''invalid'')])
     else
     tryE (mapE (check_target st (cpl_roadmap_id input)) (cpl_targeted_work_point_ids input)) (\<lambda>_.
     tryE (now_string env st) (\<lambda>(now, st).
     let (i, st) = id_or_new env st (cpl_id input);
         rec = plan_of_input input i inherited_scope_key now in
     tryE (insert_plan st rec) (\<lambda>st.
     tryE (replace_entity_file_scopes env st (pl_scope_key rec) EntityType_Plan i (pl_file_scopes rec) now) (\<lambda>st.
     tryE (log_event env st EntityType_Plan i EntityType_Plan i (pl_correlation_id rec) (cpl_run_id input)
             ''plan.created'' (plan_json rec)) (\<lambda>st.
     tryE (refresh_validation_target env st EntityType_Plan i) (\<lambda>(validation, st).
     tryE (rebuild_tag_index_for_entity st EntityType_Plan i (pl_tags rec)) (\<lambda>st.
     let st = upsert_fts_entry st EntityType_Plan (pl_scope_key rec) i (pl_title rec) (pl_summary rec) in
     Inr (\<lparr>mr_record = rec, mr_validation = validation\<rparr>, st)))))))))))))))))"

definition ensure_plan_transfer_record_in_scope ::
    "string \<Rightarrow> entity_type \<Rightarrow> string \<Rightarrow> string \<Rightarrow> string \<Rightarrow> unit result" where
  "ensure_plan_transfer_record_in_scope plan_id et i actual_scope_key target_scope_key =
     (if actual_scope_key = target_scope_key then Inr () else
      Inl (invalid [''plan `'', plan_id, ''` cannot transfer to scope `'', target_scope_key, ''` because linked '',
        entity_type_as_str et, '' `'', i, ''` remains in scope `'', actual_scope_key, ''`'']))"

definition ensure_plan_transfer_entity_in_scope ::
    "planning_store \<Rightarrow> string \<Rightarrow> entity_type \<Rightarrow> string \<Rightarrow> string \<Rightarrow> unit result" where
  "ensure_plan_transfer_entity_in_scope st plan_id et i target_scope_key =
     tryE (scope_key_for_entity st et i) (\<lambda>actual_scope_key.
     ensure_plan_transfer_record_in_scope plan_id et i actual_scope_key target_scope_key)"

definition ensure_plan_transfer_compatible ::
    "planning_store \<Rightarrow> plan_record \<Rightarrow> string \<Rightarrow> string list \<Rightarrow> unit result" where
  "ensure_plan_transfer_compatible st plan target_scope_key targeted =
     (if target_scope_key = pl_scope_key plan then Inr () else
      let p = pl_id plan in
      tryE (ensure_plan_transfer_entity_in_scope st p EntityType_Goal (pl_goal_id plan) target_scope_key) (\<lambda>_.
      tryE (ensure_plan_transfer_entity_in_scope st p EntityType_Roadmap (pl_roadmap_id plan) target_scope_key) (\<lambda>_.
      tryE (mapE (\<lambda>w. ensure_plan_transfer_entity_in_scope st p EntityType_WorkPoint w target_scope_key) targeted) (\<lambda>_.
      tryE (mapE (\<lambda>t. ensure_plan_transfer_record_in_scope p EntityType_Todo (td_id t) (td_scope_key t)
              target_scope_key) (list_todos_for_plan st p)) (\<lambda>_.
      tryE (mapE (\<lambda>r. ensure_plan_transfer_record_in_scope p EntityType_ReviewPoint (rp_id r) (rp_scope_key r)
              target_scope_key) (list_review_points_for_entity st EntityType_Plan p)) (\<lambda>_.
      tryE (mapE (\<lambda>x. ensure_plan_transfer_record_in_scope p EntityType_Issue (is_id x) (is_scope_key x)
              target_scope_key) (list_issues_for_related_entity st EntityType_Plan p)) (\<lambda>_.
      Inr ())))))))"

definition revised_list :: "string list option \<Rightarrow> string list \<Rightarrow> string list" where
  "revised_list given old = (case given of Some xs \<Rightarrow> normalize_string_list xs | None \<Rightarrow> old)"

definition revised_routing_hint :: "revise_plan_input \<Rightarrow> string option \<Rightarrow> string option" where
  "revised_routing_hint input old =
     (if rpl_clear_routing_hint input then None
      else case trimmed_option (rpl_routing_hint input) of Some h \<Rightarrow> Some h | None \<Rightarrow> old)"

definition revised_file_scopes :: "revise_plan_input \<Rightarrow> file_scope_record list \<Rightarrow> file_scope_record list" where
  "revised_file_scopes input old =
     (if rpl_clear_file_scopes input then []
      else case rpl_file_scopes input of Some fs \<Rightarrow> normalize_file_scopes fs | None \<Rightarrow> old)"

definition plan_revised_json :: "plan_record \<Rightarrow> json" where
  "plan_revised_json r = JObj
     [(''assumptions'', json_strs (pl_assumptions r)), (''stopConditions'', json_strs (pl_stop_conditions r)),
      (''validationSteps'', json_strs (pl_validation_steps r)),
      (''targetedWorkPointIds'', json_strs (pl_targeted_work_point_ids r)),
      (''effortTier'', JStr (effort_tier_as_str (pl_effort_tier r))),
      (''routingHint'', json_opt_str (pl_routing_hint r)),
      (''allowParallelOverlap'', JBool (pl_allow_parallel_overlap r)),
      (''fileScopes'', JArr (map file_scope_json (pl_file_scopes r))), (''tags'', json_strs (pl_tags r)),
      (''revision'', JInt (pl_revision r))]"

definition revise_plan ::
    "environment \<Rightarrow> planning_store \<Rightarrow> revise_plan_input \<Rightarrow> (plan_record mutation_result \<times> planning_store) result" where
  "revise_plan env st input =
     tryE (require_non_empty ''planId'' (rpl_plan_id input)) (\<lambda>_.
     let i = rpl_plan_id input in
     tryE (ensure_entity_in_scope st EntityType_Plan i (normalized_scope_key (rpl_active_scope_key input))) (\<lambda>_.
     tryE (load_plan st i) (\<lambda>existing.
     let scope_key = (case rpl_scope_key input of Some k \<Rightarrow> normalize_scope_key_value k
                      | None \<Rightarrow> pl_scope_key existing) in
     tryE (ensure_scope_exists st scope_key) (\<lambda>_.
     let targeted = revised_list (rpl_targeted_work_point_ids input) (pl_targeted_work_point_ids existing) in
     tryE (ensure_plan_transfer_compatible st existing scope_key targeted) (\<lambda>_.
     tryE (now_string env st) (\<lambda>(now, st).
     let change = (\<lambda>p. p\<lparr>pl_scope_key := scope_key,
           pl_assumptions := revised_list (rpl_assumptions input) (pl_assumptions existing),
           pl_stop_conditions := revised_list (rpl_stop_conditions input) (pl_stop_conditions existing),
           pl_validation_steps := revised_list (rpl_validation_steps input) (pl_validation_steps existing),
           pl_targeted_work_point_ids := targeted,
           pl_effort_tier := (case rpl_effort_tier input of Some t \<Rightarrow> t | None \<Rightarrow> pl_effort_tier existing),
           pl_routing_hint := revised_routing_hint input (pl_routing_hint existing),
           pl_allow_parallel_overlap :=
             (case rpl_allow_parallel_overlap input of Some b \<Rightarrow> b | None \<Rightarrow> pl_allow_parallel_overlap existing),
           pl_tags := revised_list (rpl_tags input) (pl_tags existing),
           pl_revision := pl_revision p + 1, pl_updated_at := now\<rparr>);
         st = st\<lparr>plans := update_where (\<lambda>p. pl_id p = i) change (plans st)\<rparr> in
     tryE (replace_entity_file_scopes env st scope_key EntityType_Plan i
             (revised_file_scopes input (pl_file_scopes existing)) now) (\<lambda>st.
     tryE (load_plan st i) (\<lambda>rec.
     tryE (log_event env st EntityType_Plan (pl_id rec) EntityType_Plan (pl_id rec) (pl_correlation_id rec)
             (rpl_run_id input) ''plan.revised'' (plan_revised_json rec)) (\<lambda>st.
     tryE (refresh_validation_target env st EntityType_Plan (pl_id rec)) (\<lambda>(validation, st).
     tryE (rebuild_tag_index_for_entity st EntityType_Plan (pl_id rec) (pl_tags rec)) (\<lambda>st.
     Inr (\<lparr>mr_record = rec, mr_validation = validation\<rparr>, st))))))))))))"

section \<open>Todos, issues, review points and insights\<close>

definition insert_todo :: "planning_store \<Rightarrow> todo_record \<Rightarrow> planning_store result" where
  "insert_todo st rec =
     tryE (insert_row ''todos'' td_id (rec\<lparr>td_file_scopes := []\<rparr>) (todos st)) (\<lambda>rows.
     tryE (optional_foreign_key ''todos'' pl_id (td_plan_id rec) (plans st)) (\<lambda>_.
     tryE (optional_foreign_key ''todos'' wp_id (td_work_point_id rec) (work_points st)) (\<lambda>_.
     Inr (st\<lparr>todos := rows\<rparr>))))"

text \<open>The checks of the optional parents and the scope a todo inherits.\<close>

definition optional_reference ::
    "planning_store \<Rightarrow> entity_type \<Rightarrow> string option \<Rightarrow> string \<Rightarrow> string \<Rightarrow> string option result" where
  "optional_reference st et i field_name active_scope_key =
     (case i of
        None \<Rightarrow> Inr None
      | Some i \<Rightarrow> tryE (ensure_referenced_entity_in_scope st et i field_name active_scope_key) (\<lambda>k. Inr (Some k)))"

definition todo_scope :: "planning_store \<Rightarrow> create_todo_input \<Rightarrow> string result" where
  "todo_scope st input =
     (let active_scope_key = normalized_scope_key (ctd_scope_key input) in
      tryE (optional_reference st EntityType_Plan (ctd_plan_id input) ''planId'' active_scope_key) (\<lambda>plan_scope_key.
      tryE (optional_reference st EntityType_WorkPoint (ctd_work_point_id input) ''workPointId'' active_scope_key)
        (\<lambda>work_point_scope_key.
      case (plan_scope_key, work_point_scope_key) of
        (Some k, _) \<Rightarrow> Inr k
      | (None, Some k) \<Rightarrow> Inr k
      | (None, None) \<Rightarrow> tryE (ensure_scope_exists st active_scope_key) (\<lambda>_. Inr active_scope_key))))"

definition todo_aggregate :: "planning_store \<Rightarrow> todo_record \<Rightarrow> (entity_type \<times> string \<times> string) result" where
  "todo_aggregate st rec =
     (case td_plan_id rec of
        Some p \<Rightarrow> tryE (plan_correlation_id st p) (\<lambda>c. Inr (EntityType_Plan, p, c))
      | None \<Rightarrow> (case td_work_point_id rec of
          Some w \<Rightarrow> tryE (work_point_correlation_id st w) (\<lambda>c. Inr (EntityType_WorkPoint, w, c))
        | None \<Rightarrow> Inr (EntityType_Todo, td_id rec, format [''corr-'', td_id rec])))"

definition create_todo ::
    "environment \<Rightarrow> planning_store \<Rightarrow> create_todo_input \<Rightarrow> (todo_record mutation_result \<times> planning_store) result" where
  "create_todo env st input =
     tryE (require_non_empty ''title'' (ctd_title input)) (\<lambda>_.
     tryE (todo_scope st input) (\<lambda>scope_key.
     tryE (now_string env st) (\<lambda>(now, st).
     let (i, st) = id_or_new env st (ctd_id input) in
     tryE (next_todo_ordering st (todo_group (ctd_plan_id input) (ctd_work_point_id input))) (\<lambda>next.
     let rec = \<lparr>td_id = i, td_scope_key = scope_key, td_plan_id = ctd_plan_id input,
                td_work_point_id = ctd_work_point_id input, td_title = trim (ctd_title input),
                td_summary = trim (ctd_summary input), td_status = ctd_status input,
                td_priority = ctd_priority input, td_effort_tier = ctd_effort_tier input,
                td_file_scopes = normalize_file_scopes (ctd_file_scopes input),
                td_evidence_refs = normalize_string_list (ctd_evidence_refs input),
                td_tags = normalize_string_list (ctd_tags input),
                td_ordering = (case ctd_ordering input of Some k \<Rightarrow> k | None \<Rightarrow> next), td_revision = 1,
                td_created_at = now, td_updated_at = now\<rparr> in
     tryE (insert_todo st rec) (\<lambda>st.
     tryE (replace_entity_file_scopes env st scope_key EntityType_Todo i (td_file_scopes rec) now) (\<lambda>st.
     tryE (todo_aggregate st rec) (\<lambda>(aggregate_type, aggregate_id, correlation_id).
     tryE (log_event env st EntityType_Todo i aggregate_type aggregate_id correlation_id (ctd_run_id input)
             ''todo.created'' (todo_json rec)) (\<lambda>st.
     tryE (refresh_validation_target env st EntityType_Todo i) (\<lambda>(validation, st).
     tryE (rebuild_tag_index_for_entity st EntityType_Todo i (td_tags rec)) (\<lambda>st.
     let st = upsert_fts_entry st EntityType_Todo scope_key i (td_title rec) (td_summary rec) in
     tryE (refresh_targets env st (case td_plan_id rec of Some p \<Rightarrow> [(EntityType_Plan, p)] | None \<Rightarrow> [])) (\<lambda>st.
     Inr (\<lparr>mr_record = rec, mr_validation = validation\<rparr>, st))))))))))))"

definition create_issue ::
    "environment \<Rightarrow> planning_store \<Rightarrow> create_issue_input \<Rightarrow> (issue_record mutation_result \<times> planning_store) result" where
  "create_issue env st input =
     tryE (require_non_empty ''correlationId'' (cis_correlation_id input)) (\<lambda>_.
     tryE (require_non_empty ''title'' (cis_title input)) (\<lambda>_.
     tryE (require_non_empty ''summary'' (cis_summary input)) (\<lambda>_.
     let active_scope_key = normalized_scope_key (cis_scope_key input) in
     tryE (case (cis_related_entity_type input, cis_related_entity_id input) of
             (Some et, Some e) \<Rightarrow> ensure_referenced_entity_in_scope st et e ''relatedEntityId'' active_scope_key
           | _ \<Rightarrow> tryE (ensure_scope_exists st active_scope_key) (\<lambda>_. Inr active_scope_key)) (\<lambda>scope_key.
     tryE (now_string env st) (\<lambda>(now, st).
     let (i, st) = id_or_new env st (cis_id input);
         rec = \<lparr>is_id = i, is_scope_key = scope_key, is_correlation_id = cis_correlation_id input,
                is_title = trim (cis_title input), is_summary = trim (cis_summary input),
                is_status = cis_status input, is_severity = cis_severity input,
                is_related_entity_type = cis_related_entity_type input,
                is_related_entity_id = map_option trim (cis_related_entity_id input),
                is_tags = normalize_string_list (cis_tags input), is_revision = 1,
                is_created_at = now, is_updated_at = now\<rparr> in
     tryE (insert_row ''issues'' is_id rec (issues st)) (\<lambda>rows.
     tryE (log_event env (st\<lparr>issues := rows\<rparr>) EntityType_Issue i EntityType_Issue i (is_correlation_id rec)
             (cis_run_id input) ''issue.recorded'' (issue_json rec)) (\<lambda>st.
     tryE (refresh_validation_target env st EntityType_Issue i) (\<lambda>(validation, st).
     tryE (rebuild_tag_index_for_entity st EntityType_Issue i (is_tags rec)) (\<lambda>st.
     let st = upsert_fts_entry st EntityType_Issue (is_scope_key rec) i (is_title rec) (is_summary rec) in
     tryE (refresh_targets env st (case (is_related_entity_type rec, is_related_entity_id rec) of
             (Some EntityType_Plan, Some p) \<Rightarrow> [(EntityType_Plan, p)] | _ \<Rightarrow> [])) (\<lambda>st.
     Inr (\<lparr>mr_record = rec, mr_validation = validation\<rparr>, st)))))))))))"

definition create_review_point ::
    "environment \<Rightarrow> planning_store \<Rightarrow> create_review_point_input
     \<Rightarrow> (review_point_record mutation_result \<times> planning_store) result" where
  "create_review_point env st input =
     tryE (require_non_empty ''attachedEntityId'' (crp_attached_entity_id input)) (\<lambda>_.
     tryE (require_non_empty ''title'' (crp_title input)) (\<lambda>_.
     tryE (require_non_empty ''summary'' (crp_summary input)) (\<lambda>_.
     tryE (ensure_referenced_entity_in_scope st (crp_attached_entity_type input) (crp_attached_entity_id input)
             ''attachedEntityId'' (normalized_scope_key (crp_scope_key input))) (\<lambda>inherited_scope_key.
     tryE (now_string env st) (\<lambda>(now, st).
     let (i, st) = id_or_new env st (crp_id input);
         rec = \<lparr>rp_id = i, rp_scope_key = inherited_scope_key,
                rp_attached_entity_type = crp_attached_entity_type input,
                rp_attached_entity_id = crp_attached_entity_id input, rp_title = trim (crp_title input),
                rp_summary = trim (crp_summary input), rp_status = crp_status input,
                rp_severity = crp_severity input, rp_revision = 1, rp_created_at = now, rp_updated_at = now\<rparr> in
     tryE (insert_row ''review_points'' rp_id rec (review_points st)) (\<lambda>rows.
     let st = st\<lparr>review_points := rows\<rparr> in
     tryE (attached_entity_correlation_id st (rp_attached_entity_type rec) (rp_attached_entity_id rec)) (\<lambda>correlation_id.
     tryE (log_event env st EntityType_ReviewPoint i (rp_attached_entity_type rec) (rp_attached_entity_id rec)
             correlation_id (crp_run_id input) ''review-point.recorded'' (review_point_json rec)) (\<lambda>st.
     tryE (refresh_targets env st [(EntityType_ReviewPoint, i)]) (\<lambda>st.
     tryE (refresh_validation_target env st (rp_attached_entity_type rec) (rp_attached_entity_id rec))
       (\<lambda>(validation, st).
     Inr (\<lparr>mr_record = rec, mr_validation = validation\<rparr>, st)))))))))))"

definition create_insight ::
    "environment \<Rightarrow> planning_store \<Rightarrow> create_insight_input
     \<Rightarrow> (insight_record mutation_result \<times> planning_store) result" where
  "create_insight env st input =
     tryE (require_non_empty ''correlationId'' (cin_correlation_id input)) (\<lambda>_.
     tryE (require_non_empty ''title'' (cin_title input)) (\<lambda>_.
     tryE (require_non_empty ''content'' (cin_content input)) (\<lambda>_.
     if trim (cin_content input) = [] then Inl (invalid_json
       [(''code'', JStr ''EMPTY_CONTENT''),
        (''message'', JStr ''insight content must not be empty or whitespace-only''),
        (''status'', JStr ''invalid'')])
     else
     tryE (ensure_referenced_entity_in_scope st (cin_parent_entity_type input) (cin_parent_entity_id input)
             ''parentEntityId'' (normalized_scope_key (cin_scope_key input))) (\<lambda>inherited_scope_key.
     tryE (now_string env st) (\<lambda>(now, st).
     let (i, st) = id_or_new env st (cin_id input);
         rec = \<lparr>in_id = i, in_scope_key = inherited_scope_key, in_correlation_id = cin_correlation_id input,
                in_title = trim (cin_title input), in_content = trim (cin_content input),
                in_insight_type = cin_insight_type input, in_parent_entity_type = cin_parent_entity_type input,
                in_parent_entity_id = cin_parent_entity_id input, in_tags = normalize_string_list (cin_tags input),
                in_status = cin_status input, in_revision = 1, in_created_at = now, in_updated_at = now\<rparr> in
     tryE (insert_row ''insights'' in_id rec (insights st)) (\<lambda>rows.
     tryE (rebuild_tag_index_for_entity (st\<lparr>insights := rows\<rparr>) EntityType_Insight i (in_tags rec)) (\<lambda>st.
     let st = upsert_insights_fts_entry st i (in_title rec) (in_content rec) in
     tryE (attached_entity_correlation_id st (in_parent_entity_type rec) (in_parent_entity_id rec)) (\<lambda>correlation_id.
     tryE (log_event env st EntityType_Insight i (in_parent_entity_type rec) (in_parent_entity_id rec)
             correlation_id (cin_run_id input) ''insight.recorded'' (insight_json rec)) (\<lambda>st.
     tryE (refresh_targets env st [(EntityType_Insight, i)]) (\<lambda>st.
     tryE (refresh_validation_target env st (in_parent_entity_type rec) (in_parent_entity_id rec))
       (\<lambda>(validation, st).
     Inr (\<lparr>mr_record = rec, mr_validation = validation\<rparr>, st))))))))))))"

end
