(* ===== verification/EntityTree.thy ===== *)
theory EntityTree
  imports Entities
begin

text \<open>
  The abstract specification of the planning hierarchy. A \<open>skeleton\<close> keeps of every entity its id,
  its scope and its references: a goal belongs to a scope, a roadmap to a goal, a section and a work
  point to a roadmap, a plan to a roadmap and its goal, a todo to a plan or a work point, and a work
  point blocks others. \<open>tree_step\<close> is what the operations may do to it, \<open>tree_ok\<close> is the invariant:
  distinct ids, references that resolve inside the scope, and an acyclic \<open>blocks\<close> relation.
\<close>

record skeleton =
  sk_scopes :: "string list"
  sk_goals :: "(string \<times> string) list"
  sk_roadmaps :: "(string \<times> string \<times> string) list"
  sk_sections :: "(string \<times> string \<times> string \<times> string) list"
  sk_work_points :: "(string \<times> string \<times> string \<times> string option \<times> string list) list"
  sk_plans :: "(string \<times> string \<times> string \<times> string) list"
  sk_todos :: "(string \<times> string \<times> string option \<times> string option) list"

section \<open>The blocks relation\<close>

definition blocks_of :: "(string \<times> string \<times> string \<times> string option \<times> string list) list \<Rightarrow> (string \<times> string) set" where
  "blocks_of ws = {(w, b). \<exists>k r sec bs. (w, k, r, sec, bs) \<in> set ws \<and> b \<in> set bs}"

text \<open>The relation inside a scope in which the list of one work point is replaced.\<close>

definition blocks_with ::
    "(string \<times> string \<times> string \<times> string option \<times> string list) list \<Rightarrow> string \<Rightarrow> string \<Rightarrow> string list
     \<Rightarrow> (string \<times> string) set" where
  "blocks_with ws k i bs =
     {(w, b). \<exists>r sec bs'. (w, k, r, sec, bs') \<in> set ws \<and> w \<noteq> i \<and> b \<in> set bs'} \<union> {i} \<times> set bs"

definition set_blocks ::
    "string \<Rightarrow> string list \<Rightarrow> (string \<times> string \<times> string \<times> string option \<times> string list) list
     \<Rightarrow> (string \<times> string \<times> string \<times> string option \<times> string list) list" where
  "set_blocks i bs ws = map (\<lambda>(w, k, r, sec, bs'). (w, k, r, sec, if w = i then bs else bs')) ws"

lemma trancl_extend_source:
  assumes "(x, y) \<in> (S \<union> {i} \<times> B)\<^sup>+"
  shows "(x, y) \<in> S\<^sup>+ \<or> (\<exists>b\<in>B. (x, i) \<in> (S \<union> {i} \<times> B)\<^sup>* \<and> (b, y) \<in> (S \<union> {i} \<times> B)\<^sup>*)"
  using assms
proof (induction rule: trancl_induct)
  case (base y)
  then show ?case by auto
next
  case (step y z)
  show ?case
  proof (cases "(y, z) \<in> S")
    case True
    with step show ?thesis by (meson UnI1 rtrancl.rtrancl_into_rtrancl trancl.trancl_into_trancl)
  next
    case False
    with step.hyps have "y = i" "z \<in> B" by auto
    with step.hyps show ?thesis by (auto dest: trancl_into_rtrancl)
  qed
qed

lemma acyclic_extend_source:
  assumes "acyclic S" "\<forall>b\<in>B. (b, i) \<notin> (S \<union> {i} \<times> B)\<^sup>*"
  shows "acyclic (S \<union> {i} \<times> B)"
proof (rule acyclicI, intro allI notI)
  fix x assume "(x, x) \<in> (S \<union> {i} \<times> B)\<^sup>+"
  from trancl_extend_source [OF this] show False
  proof
    assume "(x, x) \<in> S\<^sup>+"
    with assms(1) show False by (simp add: acyclic_def)
  next
    assume "\<exists>b\<in>B. (x, i) \<in> (S \<union> {i} \<times> B)\<^sup>* \<and> (b, x) \<in> (S \<union> {i} \<times> B)\<^sup>*"
    with assms(2) show False by (meson rtrancl_trans)
  qed
qed

section \<open>Steps\<close>

abbreviation sk_ids :: "('a \<times> 'b) list \<Rightarrow> 'a set" where
  "sk_ids rows \<equiv> fst ` set rows"

text \<open>The work points a work point of a roadmap may block.\<close>

definition blockable :: "skeleton \<Rightarrow> string \<Rightarrow> string \<Rightarrow> bool" where
  "blockable s r b \<longleftrightarrow> (\<exists>k sec bs. (b, k, r, sec, bs) \<in> set (sk_work_points s))"

inductive tree_step :: "skeleton \<Rightarrow> skeleton \<Rightarrow> bool" where
  add_scope: "k \<notin> set (sk_scopes s) \<Longrightarrow> tree_step s (s\<lparr>sk_scopes := sk_scopes s @ [k]\<rparr>)"
| add_goal: "i \<notin> sk_ids (sk_goals s) \<Longrightarrow> k \<in> set (sk_scopes s) \<Longrightarrow>
    tree_step s (s\<lparr>sk_goals := sk_goals s @ [(i, k)]\<rparr>)"
| add_roadmap: "i \<notin> sk_ids (sk_roadmaps s) \<Longrightarrow> (g, k) \<in> set (sk_goals s) \<Longrightarrow>
    tree_step s (s\<lparr>sk_roadmaps := sk_roadmaps s @ [(i, k, g)]\<rparr>)"
| add_section: "i \<notin> sk_ids (sk_sections s) \<Longrightarrow> (r, k, g) \<in> set (sk_roadmaps s) \<Longrightarrow>
    \<forall>(i', k', r', slug') \<in> set (sk_sections s). (r', slug') \<noteq> (r, slug) \<Longrightarrow>
    tree_step s (s\<lparr>sk_sections := sk_sections s @ [(i, k, r, slug)]\<rparr>)"
| add_work_point: "i \<notin> sk_ids (sk_work_points s) \<Longrightarrow> (r, k, g) \<in> set (sk_roadmaps s) \<Longrightarrow>
    (\<And>x. sec = Some x \<Longrightarrow> \<exists>slug. (x, k, r, slug) \<in> set (sk_sections s)) \<Longrightarrow>
    (\<And>b. b \<in> set bs \<Longrightarrow> blockable s r b) \<Longrightarrow>
    tree_step s (s\<lparr>sk_work_points := sk_work_points s @ [(i, k, r, sec, bs)]\<rparr>)"
| revise_blocks: "(i, k, r, sec, old) \<in> set (sk_work_points s) \<Longrightarrow>
    (\<And>b. b \<in> set bs \<Longrightarrow> blockable s r b) \<Longrightarrow>
    (\<And>b. b \<in> set bs \<Longrightarrow> (b, i) \<notin> (blocks_with (sk_work_points s) k i bs)\<^sup>*) \<Longrightarrow>
    tree_step s (s\<lparr>sk_work_points := set_blocks i bs (sk_work_points s)\<rparr>)"
| add_plan: "i \<notin> sk_ids (sk_plans s) \<Longrightarrow> (r, k, g) \<in> set (sk_roadmaps s) \<Longrightarrow>
    tree_step s (s\<lparr>sk_plans := sk_plans s @ [(i, k, g, r)]\<rparr>)"
| add_todo: "i \<notin> sk_ids (sk_todos s) \<Longrightarrow>
    (\<And>p. plan = Some p \<Longrightarrow> \<exists>g r. (p, k, g, r) \<in> set (sk_plans s)) \<Longrightarrow>
    (\<And>w. wp = Some w \<Longrightarrow> \<exists>r sec bs. (w, k, r, sec, bs) \<in> set (sk_work_points s)) \<Longrightarrow>
    (plan = None \<Longrightarrow> wp = None \<Longrightarrow> k \<in> set (sk_scopes s)) \<Longrightarrow>
    tree_step s (s\<lparr>sk_todos := sk_todos s @ [(i, k, plan, wp)]\<rparr>)"

section \<open>The invariant\<close>

definition keys_ok :: "skeleton \<Rightarrow> bool" where
  "keys_ok s \<longleftrightarrow>
     distinct (sk_scopes s) \<and> distinct (map fst (sk_goals s)) \<and> distinct (map fst (sk_roadmaps s))
     \<and> distinct (map fst (sk_sections s)) \<and> distinct (map fst (sk_work_points s))
     \<and> distinct (map fst (sk_plans s)) \<and> distinct (map fst (sk_todos s))
     \<and> distinct (map (\<lambda>(i, k, r, slug). (r, slug)) (sk_sections s))"

definition work_point_ok :: "skeleton \<Rightarrow> string \<times> string \<times> string \<times> string option \<times> string list \<Rightarrow> bool" where
  "work_point_ok s = (\<lambda>(i, k, r, sec, bs).
     (\<exists>g. (r, k, g) \<in> set (sk_roadmaps s))
     \<and> (\<forall>x. sec = Some x \<longrightarrow> (\<exists>slug. (x, k, r, slug) \<in> set (sk_sections s)))
     \<and> (\<forall>b\<in>set bs. blockable s r b))"

definition todo_ok :: "skeleton \<Rightarrow> string \<times> string \<times> string option \<times> string option \<Rightarrow> bool" where
  "todo_ok s = (\<lambda>(i, k, plan, wp).
     (plan = None \<longrightarrow> wp = None \<longrightarrow> k \<in> set (sk_scopes s))
     \<and> (\<forall>p. plan = Some p \<longrightarrow> (\<exists>g r. (p, k, g, r) \<in> set (sk_plans s)))
     \<and> (\<forall>w. wp = Some w \<longrightarrow> (\<exists>r sec bs. (w, k, r, sec, bs) \<in> set (sk_work_points s))))"

definition refs_ok :: "skeleton \<Rightarrow> bool" where
  "refs_ok s \<longleftrightarrow>
     (\<forall>(i, k)\<in>set (sk_goals s). k \<in> set (sk_scopes s))
     \<and> (\<forall>(i, k, g)\<in>set (sk_roadmaps s). (g, k) \<in> set (sk_goals s))
     \<and> (\<forall>(i, k, r, slug)\<in>set (sk_sections s). \<exists>g. (r, k, g) \<in> set (sk_roadmaps s))
     \<and> (\<forall>w\<in>set (sk_work_points s). work_point_ok s w)
     \<and> (\<forall>(i, k, g, r)\<in>set (sk_plans s). (r, k, g) \<in> set (sk_roadmaps s))
     \<and> (\<forall>t\<in>set (sk_todos s). todo_ok s t)"

definition tree_ok :: "skeleton \<Rightarrow> bool" where
  "tree_ok s \<longleftrightarrow> keys_ok s \<and> refs_ok s \<and> acyclic (blocks_of (sk_work_points s))"

lemma distinct_key_eq:
  assumes "distinct (map fst rows)" "(i, a) \<in> set rows" "(i, b) \<in> set rows"
  shows "a = b"
  using assms by (metis eq_key_imp_eq_value)

lemma blocks_of_append:
  "blocks_of (ws @ [(i, k, r, sec, bs)]) = blocks_of ws \<union> {i} \<times> set bs"
  by (auto simp: blocks_of_def)

lemma map_fst_set_blocks [simp]: "map fst (set_blocks i bs ws) = map fst ws"
  by (simp add: set_blocks_def comp_def split_def)

lemma in_set_blocks:
  "(w, k, r, sec, c) \<in> set (set_blocks i bs ws) \<longleftrightarrow>
     (\<exists>c'. (w, k, r, sec, c') \<in> set ws \<and> c = (if w = i then bs else c'))"
  unfolding set_blocks_def by force

text \<open>Edges of the blocks relation never leave a roadmap, so paths stay in the scope.\<close>

lemma blockable_scope:
  assumes "keys_ok s" "refs_ok s" "blockable s r b" "(r, k, g) \<in> set (sk_roadmaps s)"
  shows "\<exists>sec bs. (b, k, r, sec, bs) \<in> set (sk_work_points s)"
proof -
  obtain k' sec bs where w: "(b, k', r, sec, bs) \<in> set (sk_work_points s)"
    using assms(3) by (auto simp: blockable_def)
  then obtain g' where "(r, k', g') \<in> set (sk_roadmaps s)"
    using assms(2) by (fastforce simp: refs_ok_def work_point_ok_def)
  with assms(1,4) have "(k', g') = (k, g)" unfolding keys_ok_def by (blast dest: distinct_key_eq)
  with w show ?thesis by blast
qed

lemma path_in_scope:
  assumes keys: "keys_ok s" and refs: "refs_ok s"
    and new: "\<And>b. b \<in> set bs \<Longrightarrow> \<exists>r sec c. (b, k, r, sec, c) \<in> set (sk_work_points s)"
    and start: "(x, k, r\<^sub>0, sec\<^sub>0, c\<^sub>0) \<in> set (sk_work_points s)"
    and path: "(x, y) \<in> ({(w, b). \<exists>k r sec c. (w, k, r, sec, c) \<in> set (sk_work_points s) \<and> w \<noteq> i \<and> b \<in> set c}
                 \<union> {i} \<times> set bs)\<^sup>*"
  shows "(x, y) \<in> (blocks_with (sk_work_points s) k i bs)\<^sup>*
    \<and> (\<exists>r sec c. (y, k, r, sec, c) \<in> set (sk_work_points s))"
  using path
proof (induction rule: rtrancl_induct)
  case base
  then show ?case using start by blast
next
  case (step y z)
  then obtain r sec c where y: "(y, k, r, sec, c) \<in> set (sk_work_points s)"
    and xy: "(x, y) \<in> (blocks_with (sk_work_points s) k i bs)\<^sup>*" by blast
  from step.hyps(2) consider (other) k' r' sec' c' where "(y, k', r', sec', c') \<in> set (sk_work_points s)" "y \<noteq> i" "z \<in> set c'"
    | (self) "y = i" "z \<in> set bs" by auto
  then show ?case
  proof cases
    case other
    with keys y have same: "k' = k" "r' = r" "c' = c"
      unfolding keys_ok_def by (auto dest: distinct_key_eq)
    have ok: "work_point_ok s (y, k, r, sec, c)" using refs y by (auto simp: refs_ok_def)
    then obtain g where "(r, k, g) \<in> set (sk_roadmaps s)" "blockable s r z"
      using other same by (auto simp: work_point_ok_def)
    then have z: "\<exists>sec c. (z, k, r, sec, c) \<in> set (sk_work_points s)"
      using blockable_scope [OF keys refs] by blast
    have "(y, z) \<in> blocks_with (sk_work_points s) k i bs"
      using other same unfolding blocks_with_def by blast
    then have "(x, z) \<in> (blocks_with (sk_work_points s) k i bs)\<^sup>*" using xy by (rule rtrancl_into_rtrancl [rotated])
    with z show ?thesis by blast
  next
    case self
    then have "(y, z) \<in> blocks_with (sk_work_points s) k i bs" by (simp add: blocks_with_def)
    then have "(x, z) \<in> (blocks_with (sk_work_points s) k i bs)\<^sup>*" using xy by (rule rtrancl_into_rtrancl [rotated])
    with new [OF self(2)] show ?thesis by blast
  qed
qed

lemma blocks_of_set_blocks:
  assumes "i \<in> sk_ids ws"
  shows "blocks_of (set_blocks i bs ws) =
    {(w, b). \<exists>k r sec c. (w, k, r, sec, c) \<in> set ws \<and> w \<noteq> i \<and> b \<in> set c} \<union> {i} \<times> set bs"
proof -
  obtain k r sec c where i: "(i, k, r, sec, c) \<in> set ws" using assms by auto
  show ?thesis
  proof (intro equalityI subrelI)
    fix w b assume "(w, b) \<in> blocks_of (set_blocks i bs ws)"
    then show "(w, b) \<in> {(w, b). \<exists>k r sec c. (w, k, r, sec, c) \<in> set ws \<and> w \<noteq> i \<and> b \<in> set c} \<union> {i} \<times> set bs"
      unfolding blocks_of_def in_set_blocks by (auto split: if_split_asm)
  next
    fix w b
    assume "(w, b) \<in> {(w, b). \<exists>k r sec c. (w, k, r, sec, c) \<in> set ws \<and> w \<noteq> i \<and> b \<in> set c} \<union> {i} \<times> set bs"
    then consider k r sec c where "(w, k, r, sec, c) \<in> set ws" "w \<noteq> i" "b \<in> set c" | "w = i" "b \<in> set bs" by auto
    then have "\<exists>k r sec c. (w, k, r, sec, c) \<in> set (set_blocks i bs ws) \<and> b \<in> set c"
      unfolding in_set_blocks using i by (metis (full_types))
    then show "(w, b) \<in> blocks_of (set_blocks i bs ws)" by (simp add: blocks_of_def)
  qed
qed

lemma revise_blocks_acyclic:
  assumes ok: "tree_ok s" and i: "(i, k, r, sec, old) \<in> set (sk_work_points s)"
    and new: "\<And>b. b \<in> set bs \<Longrightarrow> blockable s r b"
    and free: "\<And>b. b \<in> set bs \<Longrightarrow> (b, i) \<notin> (blocks_with (sk_work_points s) k i bs)\<^sup>*"
  shows "acyclic (blocks_of (set_blocks i bs (sk_work_points s)))"
proof -
  let ?S = "{(w, b). \<exists>k r sec c. (w, k, r, sec, c) \<in> set (sk_work_points s) \<and> w \<noteq> i \<and> b \<in> set c}"
  have parts: "keys_ok s" "refs_ok s" "acyclic (blocks_of (sk_work_points s))" using ok by (simp_all add: tree_ok_def)
  have "work_point_ok s (i, k, r, sec, old)" using parts(2) i by (auto simp: refs_ok_def)
  then obtain g where g: "(r, k, g) \<in> set (sk_roadmaps s)" by (auto simp: work_point_ok_def)
  have target: "\<exists>sec c. (b, k, r, sec, c) \<in> set (sk_work_points s)" if "b \<in> set bs" for b
    using blockable_scope [OF parts(1,2) new [OF that] g] .
  have "acyclic ?S" by (rule acyclic_subset [OF parts(3)]) (auto simp: blocks_of_def)
  moreover have "(b, i) \<notin> (?S \<union> {i} \<times> set bs)\<^sup>*" if b: "b \<in> set bs" for b
  proof
    assume path: "(b, i) \<in> (?S \<union> {i} \<times> set bs)\<^sup>*"
    obtain sec\<^sub>0 c\<^sub>0 where "(b, k, r, sec\<^sub>0, c\<^sub>0) \<in> set (sk_work_points s)" using target [OF b] by blast
    from path_in_scope [OF parts(1,2) _ this path] target free [OF b] show False by blast
  qed
  ultimately have "acyclic (?S \<union> {i} \<times> set bs)" by (intro acyclic_extend_source) auto
  moreover have "i \<in> sk_ids (sk_work_points s)" using i by force
  ultimately show ?thesis by (simp add: blocks_of_set_blocks)
qed

lemma add_work_point_acyclic:
  assumes "acyclic (blocks_of ws)" "i \<notin> sk_ids ws" "\<And>b. b \<in> set bs \<Longrightarrow> b \<in> sk_ids ws"
    and "\<And>w k r sec c b. (w, k, r, sec, c) \<in> set ws \<Longrightarrow> b \<in> set c \<Longrightarrow> b \<in> sk_ids ws"
  shows "acyclic (blocks_of (ws @ [(i, k, r, sec, bs)]))"
proof -
  have "(b, i) \<notin> (blocks_of ws \<union> {i} \<times> set bs)\<^sup>*" if "b \<in> set bs" for b
  proof
    assume "(b, i) \<in> (blocks_of ws \<union> {i} \<times> set bs)\<^sup>*"
    moreover have "b \<noteq> i" using assms(2,3) that by blast
    ultimately obtain y where "(y, i) \<in> blocks_of ws \<union> {i} \<times> set bs" by (auto elim: rtranclE)
    with assms(2-4) show False by (auto simp: blocks_of_def)
  qed
  then show ?thesis unfolding blocks_of_append using assms(1) by (intro acyclic_extend_source) auto
qed

lemma blockable_ids: "blockable s r b \<Longrightarrow> b \<in> sk_ids (sk_work_points s)"
  by (force simp: blockable_def)

lemma tree_step_keys: "tree_step s t \<Longrightarrow> keys_ok s \<Longrightarrow> keys_ok t"
  by (induction rule: tree_step.induct) (auto simp: keys_ok_def)

text \<open>Every table only grows, or keeps the ids, scopes and parents of its rows.\<close>

lemma work_point_ok_mono:
  assumes "work_point_ok s w" "set (sk_roadmaps s) \<subseteq> set (sk_roadmaps t)" "set (sk_sections s) \<subseteq> set (sk_sections t)"
    and "\<And>r b. blockable s r b \<Longrightarrow> blockable t r b"
  shows "work_point_ok t w"
  using assms unfolding work_point_ok_def by (auto split: prod.splits) blast

lemma todo_ok_mono:
  assumes "todo_ok s x" "set (sk_scopes s) \<subseteq> set (sk_scopes t)" "set (sk_plans s) \<subseteq> set (sk_plans t)"
    and "\<And>w k r sec bs. (w, k, r, sec, bs) \<in> set (sk_work_points s) \<Longrightarrow>
      \<exists>r sec bs. (w, k, r, sec, bs) \<in> set (sk_work_points t)"
  shows "todo_ok t x"
  using assms unfolding todo_ok_def by (auto split: prod.splits) blast+

lemma tree_step_mono:
  assumes "tree_step s t"
  shows "set (sk_scopes s) \<subseteq> set (sk_scopes t)" "set (sk_goals s) \<subseteq> set (sk_goals t)"
    "set (sk_roadmaps s) \<subseteq> set (sk_roadmaps t)" "set (sk_sections s) \<subseteq> set (sk_sections t)"
    "set (sk_plans s) \<subseteq> set (sk_plans t)"
    "\<And>w k r sec bs. (w, k, r, sec, bs) \<in> set (sk_work_points s) \<Longrightarrow>
      \<exists>bs'. (w, k, r, sec, bs') \<in> set (sk_work_points t)"
  using assms by (induction rule: tree_step.induct) (auto simp: in_set_blocks)

lemma tree_step_blockable: "tree_step s t \<Longrightarrow> blockable s r b \<Longrightarrow> blockable t r b"
  unfolding blockable_def by (blast dest: tree_step_mono(6))

text \<open>The work points after a step: old ones and the one the step wrote.\<close>

lemma tree_step_work_points:
  assumes "tree_step s t" "keys_ok s" "(w, k, r, sec, bs) \<in> set (sk_work_points t)"
  shows "(\<exists>bs'. (w, k, r, sec, bs') \<in> set (sk_work_points s) \<and>
            ((\<forall>b\<in>set bs. blockable s r b) \<or> bs = bs'))
    \<or> work_point_ok s (w, k, r, sec, bs)"
  using assms
proof (cases rule: tree_step.cases)
  case (revise_blocks i k' r' sec' old new)
  from assms(3) obtain c where c: "(w, k, r, sec, c) \<in> set (sk_work_points s)" and bs: "bs = (if w = i then new else c)"
    by (auto simp: revise_blocks(1) in_set_blocks)
  show ?thesis
  proof (cases "w = i")
    case True
    with c assms(2) revise_blocks(2) have "r' = r" unfolding keys_ok_def by (auto dest: distinct_key_eq)
    with True bs c revise_blocks(3) show ?thesis by auto
  qed (use bs c in auto)
qed (auto simp: work_point_ok_def)

lemma tree_step_refs:
  assumes step: "tree_step s t" and keys: "keys_ok s" and refs: "refs_ok s"
  shows "refs_ok t"
proof -
  note mono = tree_step_mono [OF step] and blockable = tree_step_blockable [OF step]
  have "work_point_ok t w" if w: "w \<in> set (sk_work_points t)" for w
  proof -
    obtain i k r sec bs where eq: "w = (i, k, r, sec, bs)" by (cases w)
    have "work_point_ok s (i, k, r, sec, bs)"
      using tree_step_work_points [OF step keys, of i k r sec bs] w eq refs
      by (fastforce simp: refs_ok_def work_point_ok_def)
    then show ?thesis unfolding eq using mono(3,4) blockable by (rule work_point_ok_mono)
  qed
  moreover have x: "todo_ok t x" if "todo_ok s x" for x
    by (rule todo_ok_mono [OF that mono(1,5)]) (blast dest: mono(6))
  moreover have "\<forall>x\<in>set (sk_todos t). todo_ok s x"
    using step refs by (cases rule: tree_step.cases) (auto simp: refs_ok_def todo_ok_def)
  moreover have "(\<forall>(i, k)\<in>set (sk_goals t). k \<in> set (sk_scopes t))
     \<and> (\<forall>(i, k, g)\<in>set (sk_roadmaps t). (g, k) \<in> set (sk_goals t))
     \<and> (\<forall>(i, k, r, slug)\<in>set (sk_sections t). \<exists>g. (r, k, g) \<in> set (sk_roadmaps t))
     \<and> (\<forall>(i, k, g, r)\<in>set (sk_plans t). (r, k, g) \<in> set (sk_roadmaps t))"
    using step refs by (cases rule: tree_step.cases) (auto simp: refs_ok_def)
  ultimately show ?thesis by (simp add: refs_ok_def)
qed

lemma tree_step_acyclic:
  assumes step: "tree_step s t" and ok: "tree_ok s"
  shows "acyclic (blocks_of (sk_work_points t))"
  using step
proof (cases rule: tree_step.cases)
  case (add_work_point i r k g sec bs)
  have "acyclic (blocks_of (sk_work_points s @ [(i, k, r, sec, bs)]))"
  proof (rule add_work_point_acyclic)
    show "acyclic (blocks_of (sk_work_points s))" using ok by (simp add: tree_ok_def)
    show "i \<notin> sk_ids (sk_work_points s)" by (rule add_work_point(2))
    show "b \<in> sk_ids (sk_work_points s)" if "b \<in> set bs" for b
      using add_work_point(5) [OF that] by (rule blockable_ids)
    show "b \<in> sk_ids (sk_work_points s)" if "(w, k', r', sec', c) \<in> set (sk_work_points s)" "b \<in> set c" for w k' r' sec' c b
    proof -
      have "work_point_ok s (w, k', r', sec', c)" using ok that(1) by (auto simp: tree_ok_def refs_ok_def)
      with that(2) show ?thesis by (auto simp: work_point_ok_def intro: blockable_ids)
    qed
  qed
  then show ?thesis by (simp add: add_work_point(1))
next
  case (revise_blocks i k r sec old bs)
  have "acyclic (blocks_of (set_blocks i bs (sk_work_points s)))"
    using ok revise_blocks(2-4) by (rule revise_blocks_acyclic)
  then show ?thesis by (simp add: revise_blocks(1))
qed (use ok in \<open>simp_all add: tree_ok_def\<close>)

interpretation tree_sys: invariant_system tree_step tree_ok
  by unfold_locales
     (use tree_step_keys tree_step_refs tree_step_acyclic in \<open>auto simp: tree_ok_def\<close>)

end
