(* ===== verification/EntityRefinement.thy ===== *)
theory EntityRefinement
  imports EntityTree
begin

text \<open>
  The operations on the planning entities implement the abstract hierarchy: \<open>skel\<close> reads the skeleton
  off a store, every creation is one step of \<open>tree_step\<close>, every revision and status change is a step or
  leaves the skeleton as it is. Each operation also appends exactly one event to the log.
\<close>

section \<open>The abstraction function\<close>

definition skel :: "planning_store \<Rightarrow> skeleton" where
  "skel st =
     \<lparr>sk_scopes = map sc_scope_key (scopes st),
      sk_goals = map (\<lambda>g. (go_id g, go_scope_key g)) (goals st),
      sk_roadmaps = map (\<lambda>r. (rm_id r, rm_scope_key r, rm_goal_id r)) (roadmaps st),
      sk_sections = map (\<lambda>s. (rs_id s, rs_scope_key s, rs_roadmap_id s, rs_slug s)) (roadmap_sections st),
      sk_work_points = map (\<lambda>w. (wp_id w, wp_scope_key w, wp_roadmap_id w, wp_section_id w,
        wp_blocks_work_point_ids w)) (work_points st),
      sk_plans = map (\<lambda>p. (pl_id p, pl_scope_key p, pl_goal_id p, pl_roadmap_id p)) (plans st),
      sk_todos = map (\<lambda>t. (td_id t, td_scope_key t, td_plan_id t, td_work_point_id t)) (todos st)\<rparr>"

lemma skel_core: "core st' = core st \<Longrightarrow> skel st' = skel st"
  by (simp add: skel_def core_fields [of st' st])

lemma skel_update_simps [simp]:
  "skel (st\<lparr>tick := n\<rparr>) = skel st"
  "skel (st\<lparr>entity_file_scopes := fs\<rparr>) = skel st"
  "skel (upsert_fts_entry st et k i title content) = skel st"
  "skel (upsert_insights_fts_entry st i title content) = skel st"
  "skel (st\<lparr>issues := xs\<rparr>) = skel st"
  "skel (st\<lparr>review_points := rs\<rparr>) = skel st"
  "skel (st\<lparr>insights := ys\<rparr>) = skel st"
  by (simp_all add: skel_def upsert_fts_entry_def upsert_insights_fts_entry_def)

lemma skel_table_simps [simp]:
  "skel (st\<lparr>scopes := ks\<rparr>) = (skel st)\<lparr>sk_scopes := map sc_scope_key ks\<rparr>"
  "skel (st\<lparr>goals := gs\<rparr>) = (skel st)\<lparr>sk_goals := map (\<lambda>g. (go_id g, go_scope_key g)) gs\<rparr>"
  "skel (st\<lparr>roadmaps := rs\<rparr>) = (skel st)\<lparr>sk_roadmaps := map (\<lambda>r. (rm_id r, rm_scope_key r, rm_goal_id r)) rs\<rparr>"
  "skel (st\<lparr>roadmap_sections := ss\<rparr>) =
     (skel st)\<lparr>sk_sections := map (\<lambda>s. (rs_id s, rs_scope_key s, rs_roadmap_id s, rs_slug s)) ss\<rparr>"
  "skel (st\<lparr>work_points := ws\<rparr>) =
     (skel st)\<lparr>sk_work_points := map (\<lambda>w. (wp_id w, wp_scope_key w, wp_roadmap_id w, wp_section_id w,
        wp_blocks_work_point_ids w)) ws\<rparr>"
  "skel (st\<lparr>plans := ps\<rparr>) =
     (skel st)\<lparr>sk_plans := map (\<lambda>p. (pl_id p, pl_scope_key p, pl_goal_id p, pl_roadmap_id p)) ps\<rparr>"
  "skel (st\<lparr>todos := ts\<rparr>) =
     (skel st)\<lparr>sk_todos := map (\<lambda>t. (td_id t, td_scope_key t, td_plan_id t, td_work_point_id t)) ts\<rparr>"
  by (simp_all add: skel_def)

section \<open>Frames\<close>

text \<open>What the bookkeeping of an operation does to the skeleton and to the event log.\<close>

lemma replace_entity_file_scopes_frame:
  assumes "replace_entity_file_scopes env st k et i fs now = Inr st'"
  shows "skel st' = skel st \<and> planning_events st' = planning_events st"
  using assms unfolding replace_entity_file_scopes_def
  by (rule foldE_invariant [where P = "\<lambda>s. skel s = skel st \<and> planning_events s = planning_events st"])
     (auto simp: new_id_def Let_def split: if_split_asm)

lemma log_event_frame:
  assumes "log_event env st et i agg_et agg_id c r ty p = Inr st'"
  shows "skel st' = skel st \<and> (\<exists>k e. planning_events st' = planning_events st @ [(k, e)]
    \<and> ev_entity_type e = et \<and> ev_entity_id e = i \<and> ev_event_type e = ty \<and> ev_stream_id e = agg_id)"
proof (rule conjI)
  show "skel st' = skel st" using assms by (intro skel_core log_event_core)
  show "\<exists>k e. planning_events st' = planning_events st @ [(k, e)]
    \<and> ev_entity_type e = et \<and> ev_entity_id e = i \<and> ev_event_type e = ty \<and> ev_stream_id e = agg_id"
    using assms by (auto simp: log_event_def build_event_def append_event_def Let_def readings split: if_split_asm)
qed

lemma stamp_findings_events:
  "stamp_findings env st et i k steps = Inr (fs, st') \<Longrightarrow> planning_events st' = planning_events st"
proof (induction env st et i k steps arbitrary: fs rule: stamp_findings.induct)
  case (2 env st et i k sev code message steps)
  then obtain f st1 fs' where f: "finding env st et i k sev code message = Inr (f, st1)"
    and rest: "stamp_findings env st1 et i k steps = Inr (fs', st')" by auto
  have "planning_events st1 = planning_events st"
    using f by (auto simp: finding_def Let_def readings)
  with 2 f rest show ?case by metis
qed simp_all

lemma refresh_validation_target_frame:
  assumes "refresh_validation_target env st et i = Inr (r, st')"
  shows "skel st' = skel st \<and> planning_events st' = planning_events st"
proof (rule conjI)
  show "skel st' = skel st" using assms by (intro skel_core refresh_validation_target_core)
  from assms obtain fs st1 where "validate_entity env st et i = Inr (fs, st1)"
    and p: "persist_validation_findings st1 et i fs = Inr st'"
    by (auto simp: refresh_validation_target_def)
  then have st1: "planning_events st1 = planning_events st"
    by (auto simp: validate_entity_def dest: stamp_findings_events)
  from p show "planning_events st' = planning_events st" unfolding persist_validation_findings_def
    by (rule foldE_invariant [where P = "\<lambda>s. planning_events s = planning_events st"])
       (auto simp: st1 split: if_split_asm)
qed

lemma validate_and_store_frame:
  "validate_and_store env st et i = Inr (r, st') \<Longrightarrow> skel st' = skel st \<and> planning_events st' = planning_events st"
  unfolding validate_and_store_def by (rule refresh_validation_target_frame)

lemma refresh_targets_frame:
  assumes "refresh_targets env st targets = Inr st'"
  shows "skel st' = skel st \<and> planning_events st' = planning_events st"
  using assms unfolding refresh_targets_def
  by (rule foldE_invariant [where P = "\<lambda>s. skel s = skel st \<and> planning_events s = planning_events st"])
     (auto dest!: refresh_validation_target_frame)

lemma fold_tag_events:
  "planning_events (fold (\<lambda>tag s. if P tag s then s else s\<lparr>tag_index := tag_index s @ [g tag]\<rparr>) tags st)
     = planning_events st"
  by (induction tags arbitrary: st) auto

lemma rebuild_tag_index_frame:
  assumes "rebuild_tag_index_for_entity st et i tags = Inr st'"
  shows "skel st' = skel st \<and> planning_events st' = planning_events st"
proof (rule conjI)
  show "skel st' = skel st" using assms by (intro skel_core rebuild_tag_index_core)
  show "planning_events st' = planning_events st"
    using assms by (auto simp: rebuild_tag_index_for_entity_def Let_def fold_tag_events)
qed

lemma upsert_fts_events [simp]:
  "planning_events (upsert_fts_entry st et k i title content) = planning_events st"
  "planning_events (upsert_insights_fts_entry st i title content) = planning_events st"
  by (simp_all add: upsert_fts_entry_def upsert_insights_fts_entry_def)

lemmas entity_frames = log_event_frame refresh_validation_target_frame validate_and_store_frame
  refresh_targets_frame rebuild_tag_index_frame replace_entity_file_scopes_frame

section \<open>Lookups in the skeleton\<close>

lemma insert_row_Inr:
  "insert_row table key r rows = Inr rows' \<longleftrightarrow> key r \<notin> key ` set rows \<and> rows' = rows @ [r]"
  by (auto simp: insert_row_def find_row_None_iff [symmetric])

lemma foreign_key_Inr [simp]: "foreign_key table key i rows = Inr u \<longleftrightarrow> find_row key i rows \<noteq> None"
  by (simp add: foreign_key_def)

lemma skel_lookup:
  "scope_key_for_entity st EntityType_Goal i = Inr k \<Longrightarrow> (i, k) \<in> set (sk_goals (skel st))"
  "scope_key_for_entity st EntityType_Roadmap i = Inr k \<Longrightarrow> \<exists>g. (i, k, g) \<in> set (sk_roadmaps (skel st))"
  "scope_key_for_entity st EntityType_RoadmapSection i = Inr k \<Longrightarrow>
     \<exists>r slug. (i, k, r, slug) \<in> set (sk_sections (skel st))"
  "scope_key_for_entity st EntityType_WorkPoint i = Inr k \<Longrightarrow>
     \<exists>r sec bs. (i, k, r, sec, bs) \<in> set (sk_work_points (skel st))"
  "scope_key_for_entity st EntityType_Plan i = Inr k \<Longrightarrow> \<exists>g r. (i, k, g, r) \<in> set (sk_plans (skel st))"
  by (force simp: scope_key_for_entity.simps skel_def dest!: find_row_SomeD)+

lemma referenced_scope:
  "ensure_referenced_entity_in_scope st et i field k = Inr k' \<Longrightarrow> scope_key_for_entity st et i = Inr k' \<and> k' = k"
  by (auto simp: ensure_referenced_entity_in_scope_def split: if_split_asm)

section \<open>Creations\<close>

text \<open>One event about the entity is appended to the log.\<close>

definition logged :: "planning_store \<Rightarrow> planning_store \<Rightarrow> entity_type \<Rightarrow> string \<Rightarrow> string \<Rightarrow> bool" where
  "logged st st' et i ty \<longleftrightarrow>
     (\<exists>k e. planning_events st' = planning_events st @ [(k, e)]
        \<and> ev_entity_type e = et \<and> ev_entity_id e = i \<and> ev_event_type e = ty)"

text \<open>The rows of the skeleton.\<close>

lemma skel_ids [simp]:
  "set (sk_scopes (skel st)) = sc_scope_key ` set (scopes st)"
  "sk_ids (sk_goals (skel st)) = go_id ` set (goals st)"
  "sk_ids (sk_roadmaps (skel st)) = rm_id ` set (roadmaps st)"
  "sk_ids (sk_sections (skel st)) = rs_id ` set (roadmap_sections st)"
  "sk_ids (sk_work_points (skel st)) = wp_id ` set (work_points st)"
  "sk_ids (sk_plans (skel st)) = pl_id ` set (plans st)"
  "sk_ids (sk_todos (skel st)) = td_id ` set (todos st)"
  by (simp_all add: skel_def image_image)

lemma skel_rows:
  "map sc_scope_key (scopes st) = sk_scopes (skel st)"
  "map (\<lambda>g. (go_id g, go_scope_key g)) (goals st) = sk_goals (skel st)"
  "map (\<lambda>r. (rm_id r, rm_scope_key r, rm_goal_id r)) (roadmaps st) = sk_roadmaps (skel st)"
  "map (\<lambda>s. (rs_id s, rs_scope_key s, rs_roadmap_id s, rs_slug s)) (roadmap_sections st) = sk_sections (skel st)"
  "map (\<lambda>w. (wp_id w, wp_scope_key w, wp_roadmap_id w, wp_section_id w, wp_blocks_work_point_ids w)) (work_points st)
     = sk_work_points (skel st)"
  "map (\<lambda>p. (pl_id p, pl_scope_key p, pl_goal_id p, pl_roadmap_id p)) (plans st) = sk_plans (skel st)"
  "map (\<lambda>t. (td_id t, td_scope_key t, td_plan_id t, td_work_point_id t)) (todos st) = sk_todos (skel st)"
  by (simp_all add: skel_def)

lemmas skel_steps = tree_step.add_scope [of _ "skel st" for st, unfolded skel_ids]
  tree_step.add_goal [of _ "skel st" for st, unfolded skel_ids]
  tree_step.add_roadmap [of _ "skel st" for st, unfolded skel_ids]
  tree_step.add_section [of _ "skel st" for st, unfolded skel_ids]
  tree_step.add_work_point [of _ "skel st" for st, unfolded skel_ids]
  tree_step.add_plan [of _ "skel st" for st, unfolded skel_ids]
  tree_step.add_todo [of _ "skel st" for st, unfolded skel_ids]

lemmas entity_simps = Let_def readings insert_row_Inr logged_def skel_rows

lemma create_scope_refines:
  assumes "create_scope env st input = Inr (res, st')"
  shows "tree_step (skel st) (skel st')"
    and "logged st st' EntityType_Scope (sc_scope_key (mr_record res)) ''scope.created''"
  using assms
  by (auto simp: create_scope_def entity_simps split: if_split_asm dest!: entity_frames intro!: skel_steps)

lemma create_goal_refines:
  assumes "create_goal env st input = Inr (res, st')"
  shows "tree_step (skel st) (skel st')"
    and "logged st st' EntityType_Goal (go_id (mr_record res)) ''goal.created''"
  using assms
  by (auto simp: create_goal_def entity_simps split: if_split_asm dest!: entity_frames intro!: skel_steps)

lemma create_roadmap_refines:
  assumes "create_roadmap env st input = Inr (res, st')"
  shows "tree_step (skel st) (skel st')"
    and "logged st st' EntityType_Roadmap (rm_id (mr_record res)) ''roadmap.created''"
  using assms
  by (auto simp: create_roadmap_def entity_simps split: if_split_asm
      dest!: entity_frames referenced_scope skel_lookup(1) intro!: skel_steps)

lemma add_roadmap_section_refines:
  assumes "add_roadmap_section env st input = Inr (res, st')"
  shows "tree_step (skel st) (skel st')"
    and "logged st st' EntityType_RoadmapSection (rs_id (mr_record res)) ''roadmap.section-added''"
proof -
  obtain k g i where r: "(ars_roadmap_id input, k, g) \<in> set (sk_roadmaps (skel st))"
    and i: "i \<notin> rs_id ` set (roadmap_sections st)"
    and slug: "(ars_roadmap_id input, trim (ars_slug input)) \<notin> section_slug ` set (roadmap_sections st)"
    and eq: "skel st' = (skel st)\<lparr>sk_sections := sk_sections (skel st) @ [(i, k, ars_roadmap_id input, trim (ars_slug input))]\<rparr>"
    using assms
    by (auto simp: add_roadmap_section_def section_slug_def entity_simps split: if_split_asm
        dest!: entity_frames referenced_scope skel_lookup(2))
  have "\<forall>(i', k', r', slug')\<in>set (sk_sections (skel st)). (r', slug') \<noteq> (ars_roadmap_id input, trim (ars_slug input))"
    using slug by (auto simp: skel_def section_slug_def image_iff)
  with i r show "tree_step (skel st) (skel st')" unfolding eq by (intro skel_steps)
  show "logged st st' EntityType_RoadmapSection (rs_id (mr_record res)) ''roadmap.section-added''"
    using assms by (auto simp: add_roadmap_section_def entity_simps split: if_split_asm dest!: entity_frames)
qed

lemma load_work_point_skel:
  "load_work_point st i = Inr w \<Longrightarrow>
     wp_id w = i \<and> (i, wp_scope_key w, wp_roadmap_id w, wp_section_id w, wp_blocks_work_point_ids w)
       \<in> set (sk_work_points (skel st))"
  by (auto simp: load_work_point_def skel_def dest!: find_row_SomeD)

lemma require_same_roadmap_blockable:
  "require_same_roadmap st what rel r b = Inr u \<Longrightarrow> blockable (skel st) r b"
  by (auto simp: require_same_roadmap_def blockable_def dest!: load_work_point_skel
      split: sum.split_asm planning_store_error.split_asm if_split_asm)

lemma set_normalize_string_list: "set (normalize_string_list xs) = {x \<in> trim ` set xs. x \<noteq> []}"
  by (auto simp: normalize_string_list_def)

lemma checked_blocks:
  assumes "mapE (check_blocked st r) ids = Inr us" "b \<in> set (normalize_string_list ids)"
  shows "blockable (skel st) r b"
proof -
  from assms(2) obtain x where x: "x \<in> set ids" "b = trim x" "trim x \<noteq> []"
    by (auto simp: set_normalize_string_list)
  obtain u where "check_blocked st r x = Inr u" using mapE_Inr_all [OF assms(1) x(1)] by blast
  with x show ?thesis by (auto simp: check_blocked_def Let_def dest: require_same_roadmap_blockable)
qed

lemma checked_section:
  assumes "ensure_referenced_entity_in_scope st EntityType_RoadmapSection x ''sectionId'' k = Inr k'"
    and "ensure_section_belongs_to_roadmap st x r = Inr u"
  shows "\<exists>slug. (x, k, r, slug) \<in> set (sk_sections (skel st))"
  using assms
  by (force simp: ensure_section_belongs_to_roadmap_def skel_def scope_key_for_entity.simps
      dest!: referenced_scope find_row_SomeD split: if_split_asm)

lemma insert_work_point_Inr:
  "insert_work_point st w = Inr st' \<Longrightarrow>
     wp_id w \<notin> wp_id ` set (work_points st) \<and> st' = st\<lparr>work_points := work_points st @ [w\<lparr>wp_file_scopes := []\<rparr>]\<rparr>"
  by (auto simp: insert_work_point_def insert_row_Inr)

lemma add_work_point_refines:
  assumes "add_work_point env st input = Inr (res, st')"
  shows "tree_step (skel st) (skel st')"
    and "logged st st' EntityType_WorkPoint (wp_id (mr_record res)) ''roadmap.work-point-added''"
proof -
  let ?k = "normalized_scope_key (awp_scope_key input)" and ?r = "awp_roadmap_id input"
  from assms obtain g i where rm: "(?r, ?k, g) \<in> set (sk_roadmaps (skel st))"
    and i: "i \<notin> wp_id ` set (work_points st)"
    and sec: "(case awp_section_id input of None \<Rightarrow> Inr ()
           | Some x \<Rightarrow> tryE (ensure_referenced_entity_in_scope st EntityType_RoadmapSection x ''sectionId'' ?k) (\<lambda>_.
               ensure_section_belongs_to_roadmap st x ?r)) = Inr ()"
    and blocks: "\<exists>us. mapE (check_blocked st ?r) (awp_blocks_work_point_ids input) = Inr us"
    and eq: "skel st' = (skel st)\<lparr>sk_work_points := sk_work_points (skel st)
        @ [(i, ?k, ?r, awp_section_id input, normalize_string_list (awp_blocks_work_point_ids input))]\<rparr>"
    by (auto simp: add_work_point_def work_point_of_input_def entity_simps
        dest!: entity_frames referenced_scope skel_lookup(2) insert_work_point_Inr)
  have "\<exists>slug. (x, ?k, ?r, slug) \<in> set (sk_sections (skel st))" if "awp_section_id input = Some x" for x
    using sec that by (auto intro: checked_section)
  moreover have "blockable (skel st) ?r b" if "b \<in> set (normalize_string_list (awp_blocks_work_point_ids input))" for b
    using blocks that by (auto intro: checked_blocks)
  ultimately show "tree_step (skel st) (skel st')" unfolding eq using rm i by (intro skel_steps)
  show "logged st st' EntityType_WorkPoint (wp_id (mr_record res)) ''roadmap.work-point-added''"
    using assms by (auto simp: add_work_point_def work_point_of_input_def entity_simps
        dest!: entity_frames insert_work_point_Inr)
qed

lemma create_plan_refines:
  assumes "create_plan env st input = Inr (res, st')"
  shows "tree_step (skel st) (skel st')"
    and "logged st st' EntityType_Plan (pl_id (mr_record res)) ''plan.created''"
proof -
  let ?k = "normalized_scope_key (cpl_scope_key input)" and ?r = "cpl_roadmap_id input"
  have insert: "pl_id p \<notin> pl_id ` set (plans st) \<and> st' = st\<lparr>plans := plans st @ [p\<lparr>pl_file_scopes := []\<rparr>]\<rparr>"
    if "insert_plan st p = Inr st'" for st p st'
    using that by (auto simp: insert_plan_def insert_row_Inr)
  from assms obtain rm i where rm: "find_row rm_id ?r (roadmaps st) = Some rm" "rm_goal_id rm = cpl_goal_id input"
    and k: "scope_key_for_entity st EntityType_Roadmap ?r = Inr ?k"
    and i: "i \<notin> pl_id ` set (plans st)"
    and eq: "skel st' = (skel st)\<lparr>sk_plans := sk_plans (skel st) @ [(i, ?k, cpl_goal_id input, ?r)]\<rparr>"
    by (auto simp: create_plan_def plan_of_input_def entity_simps load_roadmap_def split: if_split_asm
        dest!: entity_frames referenced_scope insert)
  have "(?r, ?k, cpl_goal_id input) \<in> set (sk_roadmaps (skel st))"
    using rm k find_row_SomeD [OF rm(1)]
    by (auto simp: scope_key_for_entity.simps skel_def image_iff intro!: bexI [of _ rm])
  with i show "tree_step (skel st) (skel st')" unfolding eq by (intro skel_steps)
  show "logged st st' EntityType_Plan (pl_id (mr_record res)) ''plan.created''"
    using assms by (auto simp: create_plan_def plan_of_input_def entity_simps split: if_split_asm
        dest!: entity_frames insert)
qed

lemma optional_reference_Inr:
  "optional_reference st et i field k = Inr k' \<Longrightarrow>
     (case i of None \<Rightarrow> k' = None | Some x \<Rightarrow> k' = Some k \<and> scope_key_for_entity st et x = Inr k)"
  by (auto simp: optional_reference_def dest!: referenced_scope split: option.splits)

lemma todo_scope_parents:
  assumes "todo_scope st input = Inr k"
  shows "k = normalized_scope_key (ctd_scope_key input)"
    and "ctd_plan_id input = Some p \<Longrightarrow> scope_key_for_entity st EntityType_Plan p = Inr k"
    and "ctd_work_point_id input = Some w \<Longrightarrow> scope_key_for_entity st EntityType_WorkPoint w = Inr k"
    and "ctd_plan_id input = None \<Longrightarrow> ctd_work_point_id input = None \<Longrightarrow> k \<in> sc_scope_key ` set (scopes st)"
  using assms unfolding todo_scope_def Let_def
  by (cases "ctd_plan_id input"; cases "ctd_work_point_id input"; force dest!: optional_reference_Inr)+

lemma create_todo_refines:
  assumes "create_todo env st input = Inr (res, st')"
  shows "tree_step (skel st) (skel st')"
    and "logged st st' EntityType_Todo (td_id (mr_record res)) ''todo.created''"
proof -
  have insert: "td_id t \<notin> td_id ` set (todos st) \<and> st' = st\<lparr>todos := todos st @ [t\<lparr>td_file_scopes := []\<rparr>]\<rparr>"
    if "insert_todo st t = Inr st'" for st t st'
    using that by (auto simp: insert_todo_def insert_row_Inr)
  from assms obtain k i where k: "todo_scope st input = Inr k" and i: "i \<notin> td_id ` set (todos st)"
    and eq: "skel st' = (skel st)\<lparr>sk_todos := sk_todos (skel st) @ [(i, k, ctd_plan_id input, ctd_work_point_id input)]\<rparr>"
    by (auto simp: create_todo_def entity_simps dest!: entity_frames insert)
  show "tree_step (skel st) (skel st')" unfolding eq
    by (intro skel_steps i) (use todo_scope_parents [OF k] in \<open>auto intro: skel_lookup\<close>)
  show "logged st st' EntityType_Todo (td_id (mr_record res)) ''todo.created''"
    using assms by (auto simp: create_todo_def entity_simps dest!: entity_frames insert)
qed

text \<open>Issues, review points and insights are outside the skeleton.\<close>

lemma create_issue_refines:
  assumes "create_issue env st input = Inr (res, st')"
  shows "skel st' = skel st" and "logged st st' EntityType_Issue (is_id (mr_record res)) ''issue.recorded''"
  using assms by (auto simp: create_issue_def entity_simps dest!: entity_frames)

lemma create_review_point_refines:
  assumes "create_review_point env st input = Inr (res, st')"
  shows "skel st' = skel st"
    and "logged st st' EntityType_ReviewPoint (rp_id (mr_record res)) ''review-point.recorded''"
  using assms by (auto simp: create_review_point_def entity_simps dest!: entity_frames)

lemma create_insight_refines:
  assumes "create_insight env st input = Inr (res, st')"
  shows "skel st' = skel st" and "logged st st' EntityType_Insight (in_id (mr_record res)) ''insight.recorded''"
  using assms by (auto simp: create_insight_def entity_simps split: if_split_asm dest!: entity_frames)

section \<open>Revisions\<close>

lemma if_error_Inr: "(if b then Inl e else m) = Inr x \<longleftrightarrow> \<not> b \<and> m = Inr x"
  by simp

lemma in_block_pairs: "(x, y) \<in> set (block_pairs graph) \<longleftrightarrow> (\<exists>bs. (x, bs) \<in> set graph \<and> y \<in> set bs)"
  by (auto simp: block_pairs_def)

lemma in_skel_work_points:
  "(i, k, r, sec, bs) \<in> set (sk_work_points (skel st)) \<longleftrightarrow>
     (\<exists>w\<in>set (work_points st). wp_id w = i \<and> wp_scope_key w = k \<and> wp_roadmap_id w = r \<and> wp_section_id w = sec
        \<and> wp_blocks_work_point_ids w = bs)"
  by (auto simp: skel_def)

lemma set_block_pairs_all_blocks:
  "set (block_pairs (all_blocks st k i bs)) = blocks_with (sk_work_points (skel st)) k i bs"
proof (intro equalityI subrelI)
  fix x y assume "(x, y) \<in> set (block_pairs (all_blocks st k i bs))"
  then show "(x, y) \<in> blocks_with (sk_work_points (skel st)) k i bs"
    unfolding in_block_pairs all_blocks_def blocks_with_def in_skel_work_points by auto
next
  fix x y assume "(x, y) \<in> blocks_with (sk_work_points (skel st)) k i bs"
  then consider w where "w \<in> set (work_points st)" "wp_id w = x" "wp_scope_key w = k" "x \<noteq> i"
      "y \<in> set (wp_blocks_work_point_ids w)" | "x = i" "y \<in> set bs"
    unfolding blocks_with_def in_skel_work_points by auto
  then show "(x, y) \<in> set (block_pairs (all_blocks st k i bs))"
  proof cases
    case (1 w)
    then have "(x, wp_blocks_work_point_ids w) \<in> set (all_blocks st k i bs)" by (force simp: all_blocks_def)
    with 1 show ?thesis by (auto simp: in_block_pairs)
  qed (auto simp: in_block_pairs all_blocks_def)
qed

lemma check_block_cycle_Inr:
  "check_block_cycle st k i bs = Inr u \<longleftrightarrow>
     (\<forall>b\<in>set bs. (b, i) \<notin> (blocks_with (sk_work_points (skel st)) k i bs)\<^sup>*)"
proof -
  have "check_block_cycle st k i bs = Inr u \<longleftrightarrow>
      find (\<lambda>b. would_create_cycle b i (all_blocks st k i bs)) bs = None"
    by (simp add: check_block_cycle_def split: option.splits)
  then show ?thesis by (auto simp: find_None_iff block_guard.check_iff set_block_pairs_all_blocks)
qed

lemma revised_blocks_blockable:
  assumes "revised_blocks st input w = Inr bs" "bs \<noteq> wp_blocks_work_point_ids w" "b \<in> set bs"
  shows "blockable (skel st) (wp_roadmap_id w) b"
  using assms
  by (auto simp: revised_blocks_def Let_def split: if_split_asm option.split_asm
      dest!: mapE_Inr_all intro: require_same_roadmap_blockable)

lemma skel_set_blocks:
  "map (\<lambda>w. (wp_id w, wp_scope_key w, wp_roadmap_id w, wp_section_id w, wp_blocks_work_point_ids w))
     (update_where (\<lambda>w. wp_id w = i)
       (\<lambda>w. w\<lparr>wp_dependency_ids := deps, wp_blocks_work_point_ids := bs, wp_revision := wp_revision w + 1,
              wp_updated_at := now\<rparr>) (work_points st)) = set_blocks i bs (sk_work_points (skel st))"
  by (simp add: skel_def set_blocks_def update_where_def)

lemma set_blocks_same:
  assumes "distinct (map fst ws)" "(i, k, r, sec, bs) \<in> set ws"
  shows "set_blocks i bs ws = ws"
  unfolding set_blocks_def using assms
  by (intro map_idI) (auto dest: distinct_key_eq)

lemma revise_work_point_effect:
  assumes "revise_work_point env st input = Inr (res, st')"
  shows "\<exists>old bs. load_work_point st (rwp_work_point_id input) = Inr old \<and> revised_blocks st input old = Inr bs
    \<and> (bs = wp_blocks_work_point_ids old \<or> check_block_cycle st (wp_scope_key old) (wp_id old) bs = Inr ())
    \<and> skel st' = (skel st)\<lparr>sk_work_points := set_blocks (wp_id old) bs (sk_work_points (skel st))\<rparr>
    \<and> logged st st' EntityType_WorkPoint (wp_id (mr_record res)) ''work-point.revised''"
  using assms unfolding revise_work_point_def Let_def
  apply (simp only: tryE_Inr_iff if_error_Inr readings split_paired_Ex prod.case)
  apply (elim exE conjE)
  apply (drule entity_frames)+
  apply (intro exI conjI, assumption, assumption)
    apply (simp split: if_split_asm)
   apply (simp add: skel_set_blocks)
  apply (auto simp: logged_def)
  done

lemma revise_work_point_refines:
  assumes "revise_work_point env st input = Inr (res, st')"
  shows "keys_ok (skel st) \<Longrightarrow> tree_step (skel st) (skel st') \<or> skel st' = skel st"
    and "logged st st' EntityType_WorkPoint (wp_id (mr_record res)) ''work-point.revised''"
proof -
  obtain old bs where old: "load_work_point st (rwp_work_point_id input) = Inr old"
    and bs: "revised_blocks st input old = Inr bs"
    and check: "bs = wp_blocks_work_point_ids old \<or> check_block_cycle st (wp_scope_key old) (wp_id old) bs = Inr ()"
    and eq: "skel st' = (skel st)\<lparr>sk_work_points := set_blocks (wp_id old) bs (sk_work_points (skel st))\<rparr>"
    using revise_work_point_effect [OF assms] by blast
  show "tree_step (skel st) (skel st') \<or> skel st' = skel st" if keys: "keys_ok (skel st)"
  proof (cases "bs = wp_blocks_work_point_ids old")
    case True
    then have "set_blocks (wp_id old) bs (sk_work_points (skel st)) = sk_work_points (skel st)"
      using keys load_work_point_skel [OF old] by (intro set_blocks_same) (auto simp: keys_ok_def)
    then show ?thesis using eq by simp
  next
    case False
    have "tree_step (skel st) (skel st')" unfolding eq
    proof (rule tree_step.revise_blocks)
      show "(wp_id old, wp_scope_key old, wp_roadmap_id old, wp_section_id old, wp_blocks_work_point_ids old)
          \<in> set (sk_work_points (skel st))" using load_work_point_skel [OF old] by simp
      show "blockable (skel st) (wp_roadmap_id old) b" if "b \<in> set bs" for b
        using bs False that by (rule revised_blocks_blockable)
      show "(b, wp_id old) \<notin> (blocks_with (sk_work_points (skel st)) (wp_scope_key old) (wp_id old) bs)\<^sup>*"
        if "b \<in> set bs" for b using check False that by (simp add: check_block_cycle_Inr)
    qed
    then show ?thesis ..
  qed
  show "logged st st' EntityType_WorkPoint (wp_id (mr_record res)) ''work-point.revised''"
    using revise_work_point_effect [OF assms] by blast
qed

lemma load_plan_skel:
  "load_plan st i = Inr p \<Longrightarrow>
     pl_id p = i \<and> (i, pl_scope_key p, pl_goal_id p, pl_roadmap_id p) \<in> set (sk_plans (skel st))"
  by (auto simp: load_plan_def skel_def dest!: find_row_SomeD)

lemma revise_plan_effect:
  assumes "revise_plan env st input = Inr (res, st')"
  shows "\<exists>old k' targeted. load_plan st (rpl_plan_id input) = Inr old
    \<and> k' = (case rpl_scope_key input of Some k \<Rightarrow> normalize_scope_key_value k | None \<Rightarrow> pl_scope_key old)
    \<and> ensure_plan_transfer_compatible st old k' targeted = Inr ()
    \<and> skel st' = (skel st)\<lparr>sk_plans := map (\<lambda>(p, k, g, r). (p, if p = rpl_plan_id input then k' else k, g, r))
        (sk_plans (skel st))\<rparr>
    \<and> logged st st' EntityType_Plan (pl_id (mr_record res)) ''plan.revised''
    \<and> pl_scope_key (mr_record res) = k'"
  using assms unfolding revise_plan_def Let_def
  apply (simp only: tryE_Inr_iff readings split_paired_Ex prod.case)
  apply (elim exE conjE)
  apply (drule entity_frames)+
  apply (intro exI conjI, assumption, rule refl)
     apply simp
    apply (simp add: skel_def update_where_def)
   apply (auto simp: logged_def)[1]
  apply (auto simp: skel_def update_where_def dest!: load_plan_skel)[1]
  done

text \<open>The scopes of a plan and of its goal agree, so no plan can leave its scope.\<close>

lemma plan_scope_fixed:
  assumes "tree_ok (skel st)" "load_plan st i = Inr old"
    and "ensure_plan_transfer_compatible st old k' targeted = Inr u"
  shows "k' = pl_scope_key old"
proof (rule ccontr)
  assume "k' \<noteq> pl_scope_key old"
  with assms(3) have "scope_key_for_entity st EntityType_Goal (pl_goal_id old) = Inr k'"
    by (auto simp: ensure_plan_transfer_compatible_def Let_def ensure_plan_transfer_entity_in_scope_def
        ensure_plan_transfer_record_in_scope_def split: if_split_asm)
  then have "(pl_goal_id old, k') \<in> set (sk_goals (skel st))" by (rule skel_lookup)
  moreover have "(pl_goal_id old, pl_scope_key old) \<in> set (sk_goals (skel st))"
    using assms(1) load_plan_skel [OF assms(2)] by (fastforce simp: tree_ok_def refs_ok_def)
  moreover have "distinct (map fst (sk_goals (skel st)))" using assms(1) by (simp add: tree_ok_def keys_ok_def)
  ultimately show False using \<open>k' \<noteq> pl_scope_key old\<close> by (blast dest: distinct_key_eq)
qed

section \<open>Status changes\<close>

definition one_event :: "planning_store \<Rightarrow> planning_store \<Rightarrow> bool" where
  "one_event st st' \<longleftrightarrow> (\<exists>k e. planning_events st' = planning_events st @ [(k, e)])"

lemma logged_one_event: "logged st st' et i ty \<Longrightarrow> one_event st st'"
  by (auto simp: logged_def one_event_def)

lemmas status_frame_simps = Let_def update_status_row_Inr one_event_def skel_rows

lemma update_goal_status_frame:
  "update_goal_status env st input now = Inr (r, st') \<Longrightarrow> skel st' = skel st \<and> one_event st st'"
  by (auto simp: update_goal_status_def status_frame_simps dest!: entity_frames)

lemma update_roadmap_status_frame:
  "update_roadmap_status env st input now = Inr (r, st') \<Longrightarrow> skel st' = skel st \<and> one_event st st'"
  by (auto simp: update_roadmap_status_def status_frame_simps dest!: entity_frames)

lemma update_work_point_status_frame:
  "update_work_point_status env st input now = Inr (r, st') \<Longrightarrow> skel st' = skel st \<and> one_event st st'"
  by (auto simp: update_work_point_status_def status_frame_simps dest!: entity_frames)

lemma update_plan_status_frame:
  "update_plan_status env st input now = Inr (r, st') \<Longrightarrow> skel st' = skel st \<and> one_event st st'"
  by (auto simp: update_plan_status_def status_frame_simps dest!: entity_frames)

lemma update_todo_status_frame:
  "update_todo_status env st input now = Inr (r, st') \<Longrightarrow> skel st' = skel st \<and> one_event st st'"
  by (auto simp: update_todo_status_def status_frame_simps dest!: entity_frames)

lemma update_issue_status_frame:
  "update_issue_status env st input now = Inr (r, st') \<Longrightarrow> skel st' = skel st \<and> one_event st st'"
  by (auto simp: update_issue_status_def status_frame_simps dest!: entity_frames)

lemma update_review_point_status_frame:
  "update_review_point_status env st input now = Inr (r, st') \<Longrightarrow> skel st' = skel st \<and> one_event st st'"
  by (auto simp: update_review_point_status_def status_frame_simps dest!: entity_frames)

lemma update_insight_status_frame:
  "update_insight_status env st input now = Inr (r, st') \<Longrightarrow> skel st' = skel st \<and> one_event st st'"
  by (auto simp: update_insight_status_def status_frame_simps dest!: entity_frames)

lemmas update_branches_frame = update_goal_status_frame update_roadmap_status_frame
  update_work_point_status_frame update_plan_status_frame update_todo_status_frame update_issue_status_frame
  update_review_point_status_frame update_insight_status_frame

lemma update_status_frame:
  assumes "update_status env st input = Inr (r, st')"
  shows "skel st' = skel st \<and> one_event st st'"
proof -
  have tick: "one_event (st\<lparr>tick := n\<rparr>) st' = one_event st st'" for n by (simp add: one_event_def)
  show ?thesis
    using assms update_branches_frame [of env "st\<lparr>tick := Suc (tick st)\<rparr>" input _ r st']
    by (cases "us_entity_type input") (auto simp: update_status_def Let_def readings tick)
qed

section \<open>The operations as steps\<close>

inductive entity_step :: "environment \<Rightarrow> planning_store \<Rightarrow> planning_store \<Rightarrow> bool" for env where
  "create_scope env st i = Inr (r, st') \<Longrightarrow> entity_step env st st'"
| "create_goal env st i = Inr (r, st') \<Longrightarrow> entity_step env st st'"
| "create_roadmap env st i = Inr (r, st') \<Longrightarrow> entity_step env st st'"
| "add_roadmap_section env st i = Inr (r, st') \<Longrightarrow> entity_step env st st'"
| "add_work_point env st i = Inr (r, st') \<Longrightarrow> entity_step env st st'"
| "revise_work_point env st i = Inr (r, st') \<Longrightarrow> entity_step env st st'"
| "create_plan env st i = Inr (r, st') \<Longrightarrow> entity_step env st st'"
| "revise_plan env st i = Inr (r, st') \<Longrightarrow> entity_step env st st'"
| "create_todo env st i = Inr (r, st') \<Longrightarrow> entity_step env st st'"
| "create_issue env st i = Inr (r, st') \<Longrightarrow> entity_step env st st'"
| "create_review_point env st i = Inr (r, st') \<Longrightarrow> entity_step env st st'"
| "create_insight env st i = Inr (r, st') \<Longrightarrow> entity_step env st st'"
| "update_status env st j = Inr (r, st') \<Longrightarrow> entity_step env st st'"

lemma revise_plan_skel:
  assumes "revise_plan env st input = Inr (res, st')" "tree_ok (skel st)"
  shows "skel st' = skel st"
proof -
  obtain old k' where old: "load_plan st (rpl_plan_id input) = Inr old" and k: "k' = pl_scope_key old"
    and eq: "skel st' = (skel st)\<lparr>sk_plans := map (\<lambda>(p, k, g, r). (p, if p = rpl_plan_id input then k' else k, g, r))
        (sk_plans (skel st))\<rparr>"
    using revise_plan_effect [OF assms(1)] plan_scope_fixed [OF assms(2)] by blast
  have "distinct (map fst (sk_plans (skel st)))" using assms(2) by (simp add: tree_ok_def keys_ok_def)
  then have "map (\<lambda>(p, k, g, r). (p, if p = rpl_plan_id input then k' else k, g, r)) (sk_plans (skel st)) = sk_plans (skel st)"
    using load_plan_skel [OF old] k by (intro map_idI) (auto dest: distinct_key_eq)
  then show ?thesis using eq by simp
qed

lemma entity_step_simulates:
  assumes "entity_step env st st'" "tree_ok (skel st)"
  shows "tree_step (skel st) (skel st') \<or> skel st' = skel st"
  using assms
proof (cases rule: entity_step.cases)
  case 6
  then show ?thesis using assms(2) by (auto simp: tree_ok_def dest: revise_work_point_refines(1))
qed (use assms(2) in \<open>auto dest: create_scope_refines(1) create_goal_refines(1) create_roadmap_refines(1)
  add_roadmap_section_refines(1) add_work_point_refines(1) create_plan_refines(1) create_todo_refines(1)
  create_issue_refines(1) create_review_point_refines(1) create_insight_refines(1) revise_plan_skel update_status_frame\<close>)

lemma entity_step_logs:
  assumes "entity_step env st st'"
  shows "one_event st st'"
  using assms
proof (cases rule: entity_step.cases)
  case (8 i r)
  then show ?thesis using revise_plan_effect [OF 8] by (blast dest: logged_one_event)
qed (blast dest: logged_one_event create_scope_refines(2) create_goal_refines(2) create_roadmap_refines(2)
  add_roadmap_section_refines(2) add_work_point_refines(2) revise_work_point_refines(2) create_plan_refines(2)
  create_todo_refines(2) create_issue_refines(2) create_review_point_refines(2) create_insight_refines(2)
  update_status_frame)+

text \<open>Hence the hierarchy is consistent in every reachable store.\<close>

interpretation entity_sys: invariant_system "entity_step env" "\<lambda>st. tree_ok (skel st)" for env
  by unfold_locales (metis entity_step_simulates tree_sys.step_inv)

end
