(* ===== verification/EntityProperties.thy ===== *)
theory EntityProperties
  imports EntityRefinement Samples
begin

text \<open>
  The properties of the planning entities: the hierarchy stays consistent and the \<open>blocks\<close> relation
  acyclic along every sequence of operations, the operations refine the abstract hierarchy, the cycle
  check is exact, a plan never leaves its scope, orderings, and what is stored is what is loaded.
\<close>

section \<open>The hierarchy\<close>

text \<open>
  Claim C21. From a consistent store, every sequence of creations, revisions and status updates leads to a
  consistent store: ids are distinct, every goal lies in an existing scope, every roadmap, section, work
  point, plan and todo refers to parents that exist in its own scope, blocked work points are in the
  roadmap of the blocking one, and no work point blocks itself, directly or through others.
\<close>

theorem entity_reachable_tree:
  assumes "reachable_from (entity_step env) st st'" "tree_ok (skel st)"
  shows "tree_ok (skel st')"
  using assms by (rule entity_sys.reachable_inv)

definition block_input :: "string \<Rightarrow> string \<Rightarrow> revise_work_point_input" where
  "block_input i b = \<lparr>rwp_work_point_id = i, rwp_active_scope_key = None, rwp_dependency_ids = None,
     rwp_clear_dependencies = False, rwp_blocks_work_point_ids = Some [b], rwp_clear_blocks = False,
     rwp_run_id = None\<rparr>"

text \<open>Two work points of the sample roadmap; \<open>p1\<close> blocks \<open>p2\<close>.\<close>

definition block_store :: planning_store where
  "block_store = work_store\<lparr>work_points :=
     [(sample_work_point ''p1'' [] WorkPointStatus_Active)\<lparr>wp_blocks_work_point_ids := [''p2'']\<rparr>,
      sample_work_point ''p2'' [] WorkPointStatus_Active, sample_work_point ''p3'' [] WorkPointStatus_Active]\<rparr>"

definition blocked :: "work_point_record mutation_result \<times> planning_store" where
  "blocked = (case revise_work_point sample_env block_store (block_input ''p2'' ''p3'') of
     Inr x \<Rightarrow> x
   | Inl _ \<Rightarrow> (\<lparr>mr_record = sample_work_point ''p2'' [] WorkPointStatus_Active, mr_validation = from_findings []\<rparr>, work_store))"

lemmas entity_validate_eval = refresh_validation_target_def validate_entity_def validator_steps_def
  validate_work_point_def validate_roadmap_def section_steps_def dependency_steps_def push_when_def after_load_def
  persist_validation_findings_def cross_scope_targets_def finding_def dependency_cycle_loop.simps
  list_work_points_for_roadmap_def

lemmas entity_load_eval = update_where_def load_work_point_def load_roadmap_def load_goal_def
  load_file_scopes_for_entity_def roadmap_correlation_id_def refresh_targets_def

lemmas revise_eval = block_input_def block_store_def revise_work_point_def revised_dependencies_def
  revised_blocks_def trimmed_ids_def require_same_roadmap_def check_block_cycle_def all_blocks_def
  would_create_cycle_def block_pairs_def work_point_neighbours_def list_work_point_dependents_def
  list_plans_targeting_work_point_def entity_load_eval entity_validate_eval string_eval lookup_eval log_eval
  sample_eval Let_def

lemma blocked_eq:
  "revise_work_point sample_env block_store (block_input ''p2'' ''p3'') = Inr (fst blocked, snd blocked)"
  by (simp add: blocked_def revise_eval walk_nodes.simps succs_def)

lemma blocks_of_code: "blocks_of ws = set (concat (map (\<lambda>(w, k, r, sec, bs). map (Pair w) bs) ws))"
  by (force simp: blocks_of_def)

lemma block_store_ok: "tree_ok (skel block_store)"
proof -
  have "acyclic (blocks_of (sk_work_points (skel block_store)))"
    unfolding blocks_of_code acyclic_pairs_iff [symmetric]
    by (simp add: acyclic_pairs_def skel_def block_store_def sample_eval succs_def)
  moreover have "keys_ok (skel block_store)"
    by (simp add: keys_ok_def skel_def block_store_def sample_eval)
  moreover have "refs_ok (skel block_store)"
    by (simp add: refs_ok_def work_point_ok_def blockable_def todo_ok_def skel_def block_store_def sample_eval)
  ultimately show ?thesis by (simp add: tree_ok_def)
qed

lemma blocked_reachable: "reachable_from (entity_step sample_env) block_store (snd blocked)"
  using blocked_eq by (intro reachable_from.step [OF reachable_from.start] entity_step.intros(6))

theorem entity_reachable_tree_witness:
  "tree_ok (skel (snd blocked)) \<and> (''p2'', ''p3'') \<in> blocks_of (sk_work_points (skel (snd blocked)))"
proof
  show "tree_ok (skel (snd blocked))" using blocked_reachable block_store_ok by (rule entity_reachable_tree)
  show "(''p2'', ''p3'') \<in> blocks_of (sk_work_points (skel (snd blocked)))"
    using revise_work_point_effect [OF blocked_eq]
    by (auto simp: blocks_of_set_blocks revise_eval)
qed

text \<open>
  Claim C22. The operations refine the abstract hierarchy: every sequence of them is, on the skeletons of the
  stores, a sequence of abstract steps.
\<close>

theorem entity_steps_refine:
  assumes "reachable_from (entity_step env) st st'" "tree_ok (skel st)"
  shows "tree_step\<^sup>*\<^sup>* (skel st) (skel st')"
  using assms
proof (induction rule: reachable_from.induct)
  case (step s t)
  have "tree_ok (skel s)" using step.hyps(1) step.prems by (rule entity_sys.reachable_inv)
  with step.hyps(2) have "tree_step (skel s) (skel t) \<or> skel t = skel s" by (rule entity_step_simulates)
  with step.IH [OF step.prems] show ?case by (auto intro: rtranclp.rtrancl_into_rtrancl)
qed simp

theorem entity_steps_refine_witness: "tree_step\<^sup>*\<^sup>* (skel block_store) (skel (snd blocked))"
  using blocked_reachable block_store_ok by (rule entity_steps_refine)

text \<open>
  Every successful creation, revision or status update appends exactly one event to the log and
  keeps the earlier events.
\<close>

lemma entity_step_one_event:
  assumes "entity_step env st st'"
  shows "\<exists>k e. planning_events st' = planning_events st @ [(k, e)]"
  using entity_step_logs [OF assms] by (simp add: one_event_def)

lemma entity_step_one_event_witness:
  "\<exists>k e. planning_events (snd blocked) = planning_events block_store @ [(k, e)]"
  by (rule entity_step_one_event [OF entity_step.intros(6) [OF blocked_eq]])

section \<open>Blocking\<close>

text \<open>
  The search of \<open>revise_work_point\<close> for a cycle is exact: in a consistent store, for a new list of
  work points of the same roadmap, it reports no cycle exactly when the \<open>blocks\<close> relation with the new list
  is acyclic.
\<close>

lemma block_cycle_check_exact:
  assumes "tree_ok (skel st)" "find_row wp_id i (work_points st) = Some w"
    and "\<And>b. b \<in> set bs \<Longrightarrow> blockable (skel st) (wp_roadmap_id w) b"
  shows "check_block_cycle st (wp_scope_key w) i bs = Inr () \<longleftrightarrow>
    acyclic (blocks_of (set_blocks i bs (sk_work_points (skel st))))"
proof
  have i: "(i, wp_scope_key w, wp_roadmap_id w, wp_section_id w, wp_blocks_work_point_ids w)
      \<in> set (sk_work_points (skel st))"
    using find_row_SomeD [OF assms(2)] by (auto simp: skel_def)
  {
    assume "check_block_cycle st (wp_scope_key w) i bs = Inr ()"
    then show "acyclic (blocks_of (set_blocks i bs (sk_work_points (skel st))))"
      by (intro revise_blocks_acyclic [OF assms(1) i] assms(3)) (simp_all add: check_block_cycle_Inr)
  next
    let ?R = "blocks_of (set_blocks i bs (sk_work_points (skel st)))"
    assume acyclic: "acyclic ?R"
    have "i \<in> sk_ids (sk_work_points (skel st))" using i by (force simp del: skel_ids)
    then have R: "?R = {(w, b). \<exists>k r sec c. (w, k, r, sec, c) \<in> set (sk_work_points (skel st)) \<and> w \<noteq> i \<and> b \<in> set c}
        \<union> {i} \<times> set bs" by (rule blocks_of_set_blocks)
    have "blocks_with (sk_work_points (skel st)) (wp_scope_key w) i bs \<subseteq> ?R"
      unfolding R blocks_with_def by blast
    then have "(b, i) \<in> ?R\<^sup>*" if "(b, i) \<in> (blocks_with (sk_work_points (skel st)) (wp_scope_key w) i bs)\<^sup>*" for b
      using that rtrancl_mono by blast
    moreover have "(i, b) \<in> ?R" if "b \<in> set bs" for b unfolding R using that by blast
    ultimately show "check_block_cycle st (wp_scope_key w) i bs = Inr ()"
      using acyclic unfolding check_block_cycle_Inr acyclic_def by (meson rtrancl_into_trancl2)
  }
qed

lemma block_cycle_check_exact_witness:
  "check_block_cycle block_store ''default'' ''p2'' [''p1''] \<noteq> Inr ()
   \<and> \<not> acyclic (blocks_of (set_blocks ''p2'' [''p1''] (sk_work_points (skel block_store))))"
proof -
  have "find_row wp_id ''p2'' (work_points block_store) = Some (sample_work_point ''p2'' [] WorkPointStatus_Active)"
    by (simp add: block_store_def sample_eval)
  moreover have "blockable (skel block_store) ''rm'' ''p1''"
    by (simp add: blockable_def skel_def block_store_def sample_eval)
  moreover have "check_block_cycle block_store ''default'' ''p2'' [''p1''] \<noteq> Inr ()"
    by (simp add: revise_eval succs_def)
  ultimately show ?thesis
    using block_cycle_check_exact [OF block_store_ok, of "''p2''" "sample_work_point ''p2'' [] WorkPointStatus_Active" "[''p1'']"]
    by (simp add: sample_work_point_def)
qed

section \<open>Plans and scopes\<close>

text \<open>
  In a consistent store a plan cannot be moved to another scope: \<open>revise_plan\<close> with a scope that is
  not the plan's own fails, whatever else is requested, because the goal of the plan is in the old scope.
\<close>

lemma plan_never_moves:
  assumes "tree_ok (skel st)" "find_row pl_id (rpl_plan_id input) (plans st) = Some p"
    and "rpl_scope_key input = Some k" "normalize_scope_key_value k \<noteq> pl_scope_key p"
  shows "\<exists>e. revise_plan env st input = Inl e"
proof (cases "revise_plan env st input")
  case (Inr x)
  obtain res st' where "revise_plan env st input = Inr (res, st')" using Inr by (cases x) simp
  then obtain old k' targeted where old: "load_plan st (rpl_plan_id input) = Inr old"
    and k': "k' = normalize_scope_key_value k" and ok: "ensure_plan_transfer_compatible st old k' targeted = Inr ()"
    using revise_plan_effect assms(3) by fastforce
  from plan_scope_fixed [OF assms(1) old ok] have "k' = pl_scope_key p"
    using old assms(2) by (auto simp: load_plan_def)
  with k' assms(4) show ?thesis by simp
qed simp

definition sample_plan :: plan_record where
  "sample_plan = \<lparr>pl_id = ''pl'', pl_scope_key = ''default'', pl_goal_id = ''g'', pl_roadmap_id = ''rm'',
     pl_correlation_id = ''corr'', pl_title = ''plan'', pl_summary = ''plan'', pl_scope = ''scope'', pl_assumptions = [],
     pl_stop_conditions = [], pl_validation_steps = [], pl_targeted_work_point_ids = [],
     pl_effort_tier = EffortTier_Balanced, pl_routing_hint = None, pl_allow_parallel_overlap = False,
     pl_file_scopes = [], pl_status = PlanStatus_Draft, pl_tags = [], pl_revision = 1,
     pl_created_at = encode_time 0, pl_updated_at = encode_time 0\<rparr>"

definition plan_store :: planning_store where
  "plan_store = work_store\<lparr>scopes := [sample_scope, sample_scope\<lparr>sc_scope_key := ''other''\<rparr>], plans := [sample_plan]\<rparr>"

definition move_input :: revise_plan_input where
  "move_input = \<lparr>rpl_plan_id = ''pl'', rpl_active_scope_key = None, rpl_scope_key = Some ''other'',
     rpl_assumptions = None, rpl_stop_conditions = None, rpl_validation_steps = None,
     rpl_targeted_work_point_ids = None, rpl_effort_tier = None, rpl_routing_hint = None,
     rpl_clear_routing_hint = False, rpl_allow_parallel_overlap = None, rpl_file_scopes = None,
     rpl_clear_file_scopes = False, rpl_tags = None, rpl_run_id = None\<rparr>"

lemma plan_store_ok: "tree_ok (skel plan_store)"
proof -
  have "acyclic (blocks_of (sk_work_points (skel plan_store)))"
    unfolding blocks_of_code acyclic_pairs_iff [symmetric]
    by (simp add: acyclic_pairs_def skel_def plan_store_def sample_eval)
  moreover have "keys_ok (skel plan_store)"
    by (simp add: keys_ok_def skel_def plan_store_def sample_plan_def sample_eval)
  moreover have "refs_ok (skel plan_store)"
    by (simp add: refs_ok_def work_point_ok_def todo_ok_def skel_def plan_store_def sample_plan_def sample_eval)
  ultimately show ?thesis by (simp add: tree_ok_def)
qed

lemma plan_never_moves_witness: "\<exists>e. revise_plan sample_env plan_store move_input = Inl e"
  by (rule plan_never_moves [OF plan_store_ok, of _ sample_plan "''other''"])
     (simp_all add: plan_store_def move_input_def sample_plan_def string_eval sample_eval)

section \<open>Orderings\<close>

lemma next_ordering_Inr:
  "next_ordering xs = Inr n \<longleftrightarrow> n = max_or_zero xs + 1 \<and> n \<le> i64_max"
  by (auto simp: next_ordering_def Let_def)

lemma add_work_point_effect:
  assumes "add_work_point env st input = Inr (res, st')"
  shows "\<exists>n i k now w t st2. w = work_point_of_input input i k (case awp_ordering input of Some j \<Rightarrow> j | None \<Rightarrow> n) now
    \<and> next_ordering (map wp_ordering (filter (\<lambda>w. wp_roadmap_id w = awp_roadmap_id input) (work_points st))) = Inr n
    \<and> i \<notin> wp_id ` set (work_points st)
    \<and> replace_entity_file_scopes env (st\<lparr>tick := t, work_points := work_points st @ [w\<lparr>wp_file_scopes := []\<rparr>]\<rparr>)
        (wp_scope_key w) EntityType_WorkPoint i (wp_file_scopes w) now = Inr st2
    \<and> mr_record res = w \<and> core st' = core st2"
  using assms unfolding add_work_point_def Let_def
  apply (simp only: tryE_Inr_iff readings split_paired_Ex prod.case)
  apply (elim exE conjE)
  apply (drule insert_work_point_Inr)
  apply (drule log_event_core refresh_targets_core refresh_validation_target_core rebuild_tag_index_core)+
  apply (intro exI conjI, rule refl)
      apply (simp; fail)
     apply (simp add: work_point_of_input_def; fail)
    apply simp
   apply auto
  done

text \<open>
  A work point added without an ordering comes after all work points of its roadmap, and its
  ordering fits in 64 bits.
\<close>

lemma add_work_point_ordering:
  assumes "add_work_point env st input = Inr (res, st')" "awp_ordering input = None"
  shows "wp_ordering (mr_record res) \<le> i64_max
    \<and> (\<forall>w\<in>set (work_points st). wp_roadmap_id w = wp_roadmap_id (mr_record res) \<longrightarrow> wp_ordering w < wp_ordering (mr_record res))"
proof -
  obtain n where n: "next_ordering (map wp_ordering (filter (\<lambda>w. wp_roadmap_id w = awp_roadmap_id input) (work_points st))) = Inr n"
    and w: "wp_ordering (mr_record res) = n" "wp_roadmap_id (mr_record res) = awp_roadmap_id input"
    using add_work_point_effect [OF assms(1)] assms(2) by (auto simp: work_point_of_input_def)
  have "wp_ordering v < n" if "v \<in> set (work_points st)" "wp_roadmap_id v = awp_roadmap_id input" for v
  proof -
    have "wp_ordering v \<in> set (map wp_ordering (filter (\<lambda>w. wp_roadmap_id w = awp_roadmap_id input) (work_points st)))"
      using that by auto
    from max_or_zero_ge [OF this] n show ?thesis by (simp add: next_ordering_Inr)
  qed
  with n w show ?thesis by (simp add: next_ordering_Inr)
qed

definition add_input :: "string \<Rightarrow> int option \<Rightarrow> add_work_point_input" where
  "add_input i j = \<lparr>awp_id = Some i, awp_scope_key = None, awp_roadmap_id = ''rm'', awp_section_id = None,
     awp_title = ''t'', awp_summary = ''s'', awp_status = WorkPointStatus_Active, awp_ordering = j,
     awp_dependency_ids = [], awp_validation_expectations = [''v''], awp_effort_tier = EffortTier_Balanced,
     awp_kind = None, awp_priority = None, awp_repairs_work_point_ids = [], awp_supersedes_work_point_ids = [],
     awp_blocks_work_point_ids = [], awp_file_scopes =
       [\<lparr>fs_selector_type = FileScopeSelectorType_Exact, fs_selector = '' b '', fs_intent = FileScopeIntent_Primary\<rparr>,
        \<lparr>fs_selector_type = FileScopeSelectorType_Exact, fs_selector = ''a'', fs_intent = FileScopeIntent_Primary\<rparr>],
     awp_tags = [], awp_run_id = None\<rparr>"

definition added :: "work_point_record mutation_result \<times> planning_store" where
  "added = (case add_work_point sample_env block_store (add_input ''p4'' None) of
     Inr x \<Rightarrow> x
   | Inl _ \<Rightarrow> (\<lparr>mr_record = sample_work_point ''p4'' [] WorkPointStatus_Active, mr_validation = from_findings []\<rparr>, work_store))"

lemmas add_eval = add_input_def add_work_point_def work_point_of_input_def ensure_referenced_entity_in_scope_def
  check_dependency_def check_blocked_def next_ordering_def i64_max_def insert_work_point_def insert_row_def
  foreign_key_def optional_foreign_key_def replace_entity_file_scopes_def normalize_file_scopes_def
  file_scope_key_def rebuild_tag_index_for_entity_def upsert_fts_entry_def id_or_new_def enumerate_eq_zip
  revise_eval

lemma added_eq: "add_work_point sample_env block_store (add_input ''p4'' None) = Inr (fst added, snd added)"
  by (simp add: added_def add_eval)

text \<open>
  Once a work point of a roadmap has the ordering 2^63 - 1, no further work point can be added to the
  roadmap, not even with an explicit ordering: the next ordering is computed first and does not fit.
\<close>

lemma full_ordering_blocks_roadmap:
  assumes "w \<in> set (work_points st)" "wp_roadmap_id w = awp_roadmap_id input" "wp_ordering w = i64_max"
  shows "\<exists>e. add_work_point env st input = Inl e"
proof (cases "add_work_point env st input")
  case (Inr x)
  obtain res st' where "add_work_point env st input = Inr (res, st')" using Inr by (cases x) simp
  then obtain n where n: "next_ordering (map wp_ordering
      (filter (\<lambda>w. wp_roadmap_id w = awp_roadmap_id input) (work_points st))) = Inr n"
    using add_work_point_effect by blast
  have "wp_ordering w \<in> set (map wp_ordering (filter (\<lambda>w. wp_roadmap_id w = awp_roadmap_id input) (work_points st)))"
    using assms(1,2) by auto
  from max_or_zero_ge [OF this] n assms(3) show ?thesis by (simp add: next_ordering_Inr)
qed simp

section \<open>Stored and loaded records\<close>

definition owned_scopes :: "planning_store \<Rightarrow> entity_type \<Rightarrow> string \<Rightarrow> entity_file_scope_row list" where
  "owned_scopes st et i =
     filter (\<lambda>r. ef_owner_entity_type r = et \<and> ef_owner_entity_id r = i) (entity_file_scopes st)"

lemma fold_owned_scopes:
  assumes step: "\<And>st n fs st'. f st (n, fs) = Inr st' \<Longrightarrow> \<exists>row. owned_scopes st' et i = owned_scopes st et i @ [row]
      \<and> ef_file_scope row = fs \<and> ef_ordering_index row = int n \<and> work_points st' = work_points st"
  shows "foldE f st (enumerate n fs) = Inr st' \<Longrightarrow>
    \<exists>rows. owned_scopes st' et i = owned_scopes st et i @ rows \<and> map ef_file_scope rows = fs
      \<and> map ef_ordering_index rows = map int [n..<n + length fs] \<and> work_points st' = work_points st"
proof (induction fs arbitrary: n st)
  case Nil
  then show ?case by simp
next
  case (Cons x fs)
  from Cons.prems obtain st1 where "f st (n, x) = Inr st1" and rest: "foldE f st1 (enumerate (Suc n) fs) = Inr st'"
    by auto
  then obtain row where "owned_scopes st1 et i = owned_scopes st et i @ [row]" "ef_file_scope row = x"
    "ef_ordering_index row = int n" "work_points st1 = work_points st" using step by blast
  with Cons.IH [OF rest] obtain rows where "owned_scopes st' et i = owned_scopes st et i @ row # rows"
    "map ef_file_scope (row # rows) = x # fs" "map ef_ordering_index (row # rows) = map int (n # [Suc n..<Suc n + length fs])"
    "work_points st' = work_points st" by auto
  moreover have "n # [Suc n..<Suc n + length fs] = [n..<n + length (x # fs)]"
    using upt_conv_Cons [of n "n + length (x # fs)"] by (simp del: upt_Suc)
  ultimately show ?case by (intro exI [of _ "row # rows"]) (simp only: simp_thms)
qed

lemma replace_file_scopes_load:
  assumes "replace_entity_file_scopes env st k et i fs now = Inr st'"
  shows "load_file_scopes_for_entity st' et i = fs" "work_points st' = work_points st"
proof -
  let ?st = "st\<lparr>entity_file_scopes := filter (\<lambda>r. \<not> (ef_owner_entity_type r = et \<and> ef_owner_entity_id r = i)) (entity_file_scopes st)\<rparr>"
  have empty: "owned_scopes ?st et i = []" by (simp add: owned_scopes_def)
  have "\<exists>rows. owned_scopes st' et i = owned_scopes ?st et i @ rows \<and> map ef_file_scope rows = fs
      \<and> map ef_ordering_index rows = map int [0..<0 + length fs] \<and> work_points st' = work_points ?st"
    using assms unfolding replace_entity_file_scopes_def
    by (rule fold_owned_scopes [rotated])
       (auto simp: owned_scopes_def new_id_def Let_def split: if_split_asm)
  then obtain rows where rows: "owned_scopes st' et i = rows" "map ef_file_scope rows = fs"
    "map ef_ordering_index rows = map int [0..<length fs]" and "work_points st' = work_points st"
    unfolding empty by auto
  then show "work_points st' = work_points st" by simp
  have "sorted_wrt (<) (map ef_ordering_index rows)" unfolding rows(3) by (simp add: sorted_wrt_map)
  then have "sorted (map (\<lambda>r. (ef_ordering_index r, ef_id r)) rows)"
    unfolding sorted_wrt_map by (rule sorted_wrt_mono_rel [rotated]) auto
  then have "sort_key (\<lambda>r. (ef_ordering_index r, ef_id r)) rows = rows" by (rule sort_key_id_if_sorted)
  with rows show "load_file_scopes_for_entity st' et i = fs"
    by (simp add: load_file_scopes_for_entity_def owned_scopes_def)
qed

text \<open>
  What \<open>add_work_point\<close> returns is what the store then holds: loading the work point by its id gives
  the returned record, with its file scopes in order.
\<close>

lemma added_work_point_loads:
  assumes "add_work_point env st input = Inr (res, st')"
  shows "load_work_point st' (wp_id (mr_record res)) = Inr (mr_record res)"
proof -
  obtain i k n now t w st2 where w: "w = work_point_of_input input i k n now" "mr_record res = w"
    and i: "i \<notin> wp_id ` set (work_points st)"
    and fs: "replace_entity_file_scopes env (st\<lparr>tick := t, work_points := work_points st @ [w\<lparr>wp_file_scopes := []\<rparr>]\<rparr>)
        (wp_scope_key w) EntityType_WorkPoint i (wp_file_scopes w) now = Inr st2"
    and core: "core st' = core st2"
    using add_work_point_effect [OF assms] by blast
  have id: "wp_id w = i" by (simp add: w work_point_of_input_def)
  have "work_points st' = work_points st @ [w\<lparr>wp_file_scopes := []\<rparr>]"
    using replace_file_scopes_load(2) [OF fs] core_fields(5) [OF core] by simp
  then have row: "find_row wp_id i (work_points st') = Some (w\<lparr>wp_file_scopes := []\<rparr>)"
    using i id by (simp add: find_row_append find_row_None_iff [symmetric])
  have "load_file_scopes_for_entity st' EntityType_WorkPoint i = wp_file_scopes w"
    using replace_file_scopes_load(1) [OF fs] core_fields(14) [OF core] by (simp add: load_file_scopes_for_entity_def)
  with row show ?thesis by (simp add: load_work_point_def w(2) id)
qed

lemma added_work_point_loads_witness:
  "load_work_point (snd added) ''p4'' = Inr (mr_record (fst added))"
proof -
  have "wp_id (mr_record (fst added)) = ''p4''" by (simp add: added_def add_eval)
  then show ?thesis using added_work_point_loads [OF added_eq] by simp
qed

section \<open>Normal forms\<close>

text \<open>
  The lists of strings of every entity are stored in a normal form: without blank entries, trimmed,
  strictly increasing; normalizing again changes nothing, and two inputs have the same normal form exactly
  when they contain the same trimmed non-blank strings.
\<close>

lemma normalize_string_list_canonical:
  "sorted_wrt (<) (normalize_string_list xs)
   \<and> set (normalize_string_list xs) = {x \<in> trim ` set xs. x \<noteq> []}
   \<and> normalize_string_list (normalize_string_list xs) = normalize_string_list xs
   \<and> (normalize_string_list xs = normalize_string_list ys \<longleftrightarrow> {x \<in> trim ` set xs. x \<noteq> []} = {y \<in> trim ` set ys. y \<noteq> []})"
proof -
  have strict: "sorted_wrt (<) (normalize_string_list zs)" for zs
    unfolding normalize_string_list_def by (rule sort_dedup_strict)
  have same: "normalize_string_list xs = normalize_string_list ys \<longleftrightarrow> {x \<in> trim ` set xs. x \<noteq> []} = {y \<in> trim ` set ys. y \<noteq> []}" for xs ys
    using strict strict_sorted_unique set_normalize_string_list by metis
  have "normalize_string_list (normalize_string_list xs) = normalize_string_list xs"
    unfolding same by (auto simp: set_normalize_string_list image_iff)
  with strict same show ?thesis by (simp add: set_normalize_string_list)
qed

end
