(* ===== verification/Discovery.thy ===== *)
theory Discovery
  imports Entities
begin

text \<open>
  Discoveries and worktrees (\<open>storage.rs\<close>, \<open>PlanningStore::create_discovery\<close> to
  \<open>list_discovery_checkpoints\<close> and \<open>attach_worktree\<close> to \<open>update_worktree_status\<close>). These operations run
  without a transaction, one SQL statement each, and read the row back. Reading back fails only for a
  worktree whose new UUID is already the id of a worktree of another scope; in every other case an error
  means an unchanged store.
\<close>

section \<open>Discoveries\<close>

record create_discovery_input =
  cdi_id :: "string option"
  cdi_scope_key :: "string option"
  cdi_correlation_id :: string
  cdi_classification :: discovery_classification
  cdi_verification_state :: verification_state
  cdi_severity :: severity
  cdi_claim :: string
  cdi_impact :: "string option"
  cdi_next_action :: "string option"
  cdi_verification_step :: "string option"
  cdi_recurrence_key :: "string option"
  cdi_fingerprint :: "string option"
  cdi_observed_at :: "string list"
  cdi_occurrence_count :: "int option"
  cdi_source_lineage :: "discovery_source_entry list"
  cdi_review_date :: "string option"
  cdi_tags :: "string list"

record create_discovery_relationship_input =
  cdr_id :: "string option"
  cdr_scope_key :: "string option"
  cdr_source_id :: string
  cdr_target_id :: string
  cdr_relationship_kind :: discovery_relationship_kind
  cdr_metadata :: "json option"

record create_discovery_checkpoint_input =
  cdc_id :: "string option"
  cdc_scope_key :: "string option"
  cdc_run_id :: string
  cdc_event :: string
  cdc_snapshot :: "json option"

definition create_discovery ::
    "environment \<Rightarrow> planning_store \<Rightarrow> create_discovery_input \<Rightarrow> (discovery_record \<times> planning_store) result" where
  "create_discovery env st input =
     tryE (require_non_empty ''correlationId'' (cdi_correlation_id input)) (\<lambda>_.
     tryE (require_non_empty ''claim'' (cdi_claim input)) (\<lambda>_.
     tryE (now_string env st) (\<lambda>(now, st).
     let (i, st) = id_or_new env st (cdi_id input) in
     tryE (insert_row ''discovery_nodes'' di_id
             \<lparr>di_id = i, di_scope_key = normalized_scope_key (cdi_scope_key input),
              di_correlation_id = cdi_correlation_id input, di_classification = cdi_classification input,
              di_verification_state = cdi_verification_state input, di_severity = cdi_severity input,
              di_status = DiscoveryStatus_Candidate, di_claim = cdi_claim input, di_impact = cdi_impact input,
              di_next_action = cdi_next_action input, di_verification_step = cdi_verification_step input,
              di_recurrence_key = cdi_recurrence_key input, di_fingerprint = cdi_fingerprint input,
              di_observed_at = cdi_observed_at input,
              di_occurrence_count = (case cdi_occurrence_count input of Some n \<Rightarrow> n | None \<Rightarrow> 1),
              di_source_lineage = cdi_source_lineage input, di_review_date = cdi_review_date input,
              di_resolved_at = None, di_resolution_rationale = None, di_promoted_entity_type = None,
              di_promoted_entity_id = None, di_tags = cdi_tags input, di_revision = 1,
              di_created_at = now, di_updated_at = now\<rparr> (discovery_nodes st)) (\<lambda>rows.
     let st = st\<lparr>discovery_nodes := rows\<rparr> in
     tryE (load_discovery st i) (\<lambda>rec. Inr (rec, st))))))"

definition list_discoveries ::
    "planning_store \<Rightarrow> string \<Rightarrow> discovery_status option \<Rightarrow> discovery_classification option \<Rightarrow> discovery_record list" where
  "list_discoveries st scope_key status_filter classification_filter =
     sort_by (\<lambda>a b. di_created_at b < di_created_at a \<or> di_created_at a = di_created_at b \<and> di_id a \<le> di_id b)
       (filter (\<lambda>d. di_scope_key d = normalize_scope_key_value scope_key
            \<and> (case status_filter of None \<Rightarrow> True | Some s \<Rightarrow> di_status d = s)
            \<and> (case classification_filter of None \<Rightarrow> True | Some c \<Rightarrow> di_classification d = c))
         (discovery_nodes st))"

text \<open>The \<open>UPDATE\<close> of one discovery in a scope that the four status operations share.\<close>

definition change_discovery ::
    "environment \<Rightarrow> planning_store \<Rightarrow> string \<Rightarrow> string \<Rightarrow> (string \<Rightarrow> discovery_record \<Rightarrow> discovery_record)
     \<Rightarrow> (discovery_record \<times> planning_store) result" where
  "change_discovery env st discovery_id scope_key f =
     (let normalized = normalize_scope_key_value scope_key in
      tryE (now_string env st) (\<lambda>(now, st).
      if \<not> list_ex (\<lambda>d. di_id d = discovery_id \<and> di_scope_key d = normalized) (discovery_nodes st) then
        Inl (invalid [''discovery node `'', discovery_id, ''` not found in scope `'', normalized, ''`''])
      else
      let st = st\<lparr>discovery_nodes := update_where (\<lambda>d. di_id d = discovery_id \<and> di_scope_key d = normalized)
            (\<lambda>d. (f now d)\<lparr>di_revision := di_revision d + 1, di_updated_at := now\<rparr>) (discovery_nodes st)\<rparr> in
      tryE (load_discovery st discovery_id) (\<lambda>rec. Inr (rec, st))))"

definition update_discovery_status ::
    "environment \<Rightarrow> planning_store \<Rightarrow> string \<Rightarrow> discovery_status \<Rightarrow> string \<Rightarrow> (discovery_record \<times> planning_store) result" where
  "update_discovery_status env st discovery_id status scope_key =
     change_discovery env st discovery_id scope_key (\<lambda>_ d. d\<lparr>di_status := status\<rparr>)"

definition resolve_discovery ::
    "environment \<Rightarrow> planning_store \<Rightarrow> string \<Rightarrow> string \<Rightarrow> string list \<Rightarrow> string
     \<Rightarrow> (discovery_record \<times> planning_store) result" where
  "resolve_discovery env st discovery_id rationale refs scope_key =
     change_discovery env st discovery_id scope_key
       (\<lambda>now d. d\<lparr>di_status := DiscoveryStatus_Resolved, di_resolution_rationale := Some rationale,
                  di_resolved_at := Some now, di_tags := refs\<rparr>)"

definition reopen_discovery ::
    "environment \<Rightarrow> planning_store \<Rightarrow> string \<Rightarrow> string \<Rightarrow> (discovery_record \<times> planning_store) result" where
  "reopen_discovery env st discovery_id scope_key =
     change_discovery env st discovery_id scope_key
       (\<lambda>_ d. d\<lparr>di_status := DiscoveryStatus_Reopened, di_resolved_at := None, di_resolution_rationale := None\<rparr>)"

definition promote_discovery ::
    "environment \<Rightarrow> planning_store \<Rightarrow> string \<Rightarrow> entity_type \<Rightarrow> string \<Rightarrow> string
     \<Rightarrow> (discovery_record \<times> planning_store) result" where
  "promote_discovery env st discovery_id et entity_id scope_key =
     change_discovery env st discovery_id scope_key
       (\<lambda>_ d. d\<lparr>di_status := DiscoveryStatus_Promoted, di_promoted_entity_type := Some et,
                di_promoted_entity_id := Some entity_id\<rparr>)"

definition add_discovery_relationship ::
    "environment \<Rightarrow> planning_store \<Rightarrow> create_discovery_relationship_input
     \<Rightarrow> (discovery_relationship_record \<times> planning_store) result" where
  "add_discovery_relationship env st input =
     tryE (now_string env st) (\<lambda>(now, st).
     let (i, st) = id_or_new env st (cdr_id input) in
     tryE (insert_row ''discovery_relationships'' dr_id
             \<lparr>dr_id = i, dr_scope_key = normalized_scope_key (cdr_scope_key input), dr_source_id = cdr_source_id input,
              dr_target_id = cdr_target_id input, dr_relationship_kind = cdr_relationship_kind input,
              dr_metadata = cdr_metadata input, dr_created_at = now\<rparr> (discovery_relationships st)) (\<lambda>rows.
     let st = st\<lparr>discovery_relationships := rows\<rparr> in
     tryE (row_or_not_found EntityType_DiscoveryRelationship i (find_row dr_id i (discovery_relationships st)))
       (\<lambda>rec. Inr (rec, st))))"

definition create_discovery_checkpoint ::
    "environment \<Rightarrow> planning_store \<Rightarrow> create_discovery_checkpoint_input
     \<Rightarrow> (discovery_checkpoint_record \<times> planning_store) result" where
  "create_discovery_checkpoint env st input =
     tryE (require_non_empty ''runId'' (cdc_run_id input)) (\<lambda>_.
     tryE (require_non_empty ''event'' (cdc_event input)) (\<lambda>_.
     tryE (now_string env st) (\<lambda>(now, st).
     let (i, st) = id_or_new env st (cdc_id input) in
     tryE (insert_row ''discovery_checkpoints'' dc_id
             \<lparr>dc_id = i, dc_scope_key = normalized_scope_key (cdc_scope_key input), dc_run_id = cdc_run_id input,
              dc_event = cdc_event input, dc_snapshot = cdc_snapshot input, dc_created_at = now\<rparr>
             (discovery_checkpoints st)) (\<lambda>rows.
     let st = st\<lparr>discovery_checkpoints := rows\<rparr> in
     tryE (row_or_not_found EntityType_DiscoveryCheckpoint i (find_row dc_id i (discovery_checkpoints st)))
       (\<lambda>rec. Inr (rec, st))))))"

definition list_discovery_checkpoints :: "planning_store \<Rightarrow> string \<Rightarrow> discovery_checkpoint_record list" where
  "list_discovery_checkpoints st scope_key =
     sort_by (\<lambda>a b. dc_created_at b < dc_created_at a \<or> dc_created_at a = dc_created_at b \<and> dc_id a \<le> dc_id b)
       (filter (\<lambda>c. dc_scope_key c = normalize_scope_key_value scope_key) (discovery_checkpoints st))"

section \<open>Worktrees\<close>

record attach_worktree_input =
  aw_id :: "string option"
  aw_scope_key :: "string option"
  aw_repo_uri :: "string option"
  aw_branch :: "string option"
  aw_worktree_path :: "string option"
  aw_project_run_id :: "string option"
  aw_session_id :: "string option"
  aw_correlation_id :: "string option"

definition get_worktree :: "planning_store \<Rightarrow> string \<Rightarrow> string \<Rightarrow> worktree_record result" where
  "get_worktree st i scope_key =
     (case List.find (\<lambda>w. wt_id w = i \<and> wt_scope_key w = normalize_scope_key_value scope_key) (worktrees st) of
        None \<Rightarrow> Inl (invalid [''worktree not found: '', i, '': Query returned no rows''])
      | Some w \<Rightarrow> Inr w)"

text \<open>\<open>INSERT ... ON CONFLICT(id) DO UPDATE\<close>.\<close>

definition upsert_worktree :: "planning_store \<Rightarrow> worktree_record \<Rightarrow> planning_store" where
  "upsert_worktree st new =
     (if find_row wt_id (wt_id new) (worktrees st) = None then st\<lparr>worktrees := worktrees st @ [new]\<rparr>
      else st\<lparr>worktrees := update_where (\<lambda>w. wt_id w = wt_id new)
        (\<lambda>w. w\<lparr>wt_repo_uri := wt_repo_uri new, wt_branch := wt_branch new, wt_worktree_path := wt_worktree_path new,
               wt_project_run_id := wt_project_run_id new, wt_session_id := wt_session_id new,
               wt_updated_at := wt_updated_at new, wt_revision := wt_revision w + 1\<rparr>) (worktrees st)\<rparr>)"

definition attach_row ::
    "planning_store \<Rightarrow> attach_worktree_input \<Rightarrow> string \<Rightarrow> string \<Rightarrow> string \<Rightarrow> (worktree_record \<times> planning_store) result" where
  "attach_row st input i scope_key now =
     tryE (optional_foreign_key ''worktrees'' pr_id (aw_project_run_id input) (project_runs st)) (\<lambda>_.
     let st = upsert_worktree st
           \<lparr>wt_id = i, wt_scope_key = scope_key, wt_repo_uri = aw_repo_uri input, wt_branch = aw_branch input,
            wt_worktree_path = aw_worktree_path input, wt_project_run_id = aw_project_run_id input,
            wt_session_id = aw_session_id input, wt_status = WorktreeStatus_Active, wt_revision = 1,
            wt_created_at = now, wt_updated_at = now\<rparr> in
     tryE (get_worktree st i scope_key) (\<lambda>rec. Inr (rec, st)))"

definition attach_worktree ::
    "environment \<Rightarrow> planning_store \<Rightarrow> attach_worktree_input \<Rightarrow> (worktree_record \<times> planning_store) result" where
  "attach_worktree env st input =
     (let (i, st) = id_or_new env st (aw_id input);
          scope_key = normalized_scope_key (aw_scope_key input) in
      tryE (now_string env st) (\<lambda>(now, st).
      case (if aw_id input = None then None else find_row wt_id i (worktrees st)) of
        Some existing \<Rightarrow>
          if wt_scope_key existing \<noteq> scope_key then Inl (invalid_json
            [(''code'', JStr ''CROSS_SCOPE_MUTATION''),
             (''message'', JStr (format [''worktree '', sq, i, sq, '' already exists in scope '', sq,
                wt_scope_key existing, sq, '', cannot re-attach from scope '', sq, scope_key, sq])),
             (''worktreeId'', JStr i), (''existingScope'', JStr (wt_scope_key existing)),
             (''requestedScope'', JStr scope_key)])
          else attach_row st input i scope_key now
      | None \<Rightarrow> attach_row st input i scope_key now))"

definition list_worktrees :: "planning_store \<Rightarrow> string \<Rightarrow> string option \<Rightarrow> worktree_record list" where
  "list_worktrees st scope_key status_filter =
     sort_by (\<lambda>a b. wt_created_at b \<le> wt_created_at a)
       (filter (\<lambda>w. wt_scope_key w = normalize_scope_key_value scope_key
            \<and> (case status_filter of None \<Rightarrow> True | Some s \<Rightarrow> worktree_status_to_string (wt_status w) = s))
         (worktrees st))"

definition update_worktree_status ::
    "environment \<Rightarrow> planning_store \<Rightarrow> string \<Rightarrow> string \<Rightarrow> worktree_status \<Rightarrow> (worktree_record \<times> planning_store) result" where
  "update_worktree_status env st i scope_key status =
     (let normalized = normalize_scope_key_value scope_key in
      tryE (now_string env st) (\<lambda>(now, st).
      if \<not> list_ex (\<lambda>w. wt_id w = i \<and> wt_scope_key w = normalized) (worktrees st) then Inl (invalid_json
        [(''code'', JStr ''SCOPE_MISMATCH_OR_NOT_FOUND''),
         (''message'', JStr (format [''worktree '', sq, i, sq, '' not found in scope '', sq, scope_key, sq])),
         (''worktreeId'', JStr i), (''scopeKey'', JStr scope_key)])
      else
      let st = st\<lparr>worktrees := update_where (\<lambda>w. wt_id w = i \<and> wt_scope_key w = normalized)
            (\<lambda>w. w\<lparr>wt_status := status, wt_updated_at := now, wt_revision := wt_revision w + 1\<rparr>) (worktrees st)\<rparr> in
      tryE (get_worktree st i scope_key) (\<lambda>rec. Inr (rec, st))))"

end
