(* ===== verification/DiscoveryProperties.thy ===== *)
theory DiscoveryProperties
  imports Discovery EntityRefinement Samples
begin

text \<open>
  The properties of discoveries and worktrees: a status operation changes one row of its scope and
  nothing else, what it writes, and what re-attaching a worktree keeps.
\<close>

section \<open>Discoveries\<close>

lemma change_discovery_exact:
  assumes run: "change_discovery env st i k f = Inr (d, st')"
    and keeps: "\<And>now d. di_id (f now d) = di_id d" "\<And>now d. di_scope_key (f now d) = di_scope_key d"
    and keys: "distinct (map di_id (discovery_nodes st))"
  shows "\<exists>old now. find_row di_id i (discovery_nodes st) = Some old \<and> di_scope_key old = normalize_scope_key_value k
    \<and> d = (f now old)\<lparr>di_revision := di_revision old + 1, di_updated_at := now\<rparr>
    \<and> find_row di_id i (discovery_nodes st') = Some d
    \<and> (\<forall>j. j \<noteq> i \<longrightarrow> find_row di_id j (discovery_nodes st') = find_row di_id j (discovery_nodes st))
    \<and> core (st'\<lparr>discovery_nodes := []\<rparr>) = core (st\<lparr>discovery_nodes := []\<rparr>)"
proof -
  let ?p = "\<lambda>d. di_id d = i \<and> di_scope_key d = normalize_scope_key_value k"
  from run obtain now where ex: "list_ex ?p (discovery_nodes st)"
    and st': "st' = st\<lparr>tick := Suc (tick st), discovery_nodes := update_where ?p
        (\<lambda>d. (f now d)\<lparr>di_revision := di_revision d + 1, di_updated_at := now\<rparr>) (discovery_nodes st)\<rparr>"
    and d: "find_row di_id i (discovery_nodes st') = Some d"
    by (auto simp: change_discovery_def Let_def readings if_error_Inr load_discovery_def)
  from ex obtain old where old: "old \<in> set (discovery_nodes st)" "di_id old = i"
      "di_scope_key old = normalize_scope_key_value k" by (auto simp: list_ex_iff)
  have found: "find_row di_id i (discovery_nodes st) = Some old"
    using find_row_distinct [OF keys old(1)] old(2) by simp
  have rows: "find_row di_id j (discovery_nodes st') = map_option (\<lambda>r. if ?p r then
      (f now r)\<lparr>di_revision := di_revision r + 1, di_updated_at := now\<rparr> else r) (find_row di_id j (discovery_nodes st))" for j
    unfolding st' by (simp add: find_row_update_where keeps)
  have "find_row di_id j (discovery_nodes st') = find_row di_id j (discovery_nodes st)" if "j \<noteq> i" for j
    using that rows [of j] by (cases "find_row di_id j (discovery_nodes st)") (auto dest: find_row_SomeD)
  moreover have "d = (f now old)\<lparr>di_revision := di_revision old + 1, di_updated_at := now\<rparr>"
    using d rows [of i] found old by simp
  moreover have "core (st'\<lparr>discovery_nodes := []\<rparr>) = core (st\<lparr>discovery_nodes := []\<rparr>)" by (simp add: st' core_def)
  ultimately show ?thesis using found old(3) d by blast
qed

text \<open>
  Resolving a discovery that lies in the scope sets the status, the rationale and the time of one
  discovery and changes no other row; it also replaces the tags of the discovery by the evidence
  references of the call.
\<close>

lemma resolve_discovery_exact:
  assumes "resolve_discovery env st i rationale refs k = Inr (d, st')"
    and "distinct (map di_id (discovery_nodes st))"
  shows "\<exists>old now. find_row di_id i (discovery_nodes st) = Some old \<and> di_scope_key old = normalize_scope_key_value k
    \<and> d = old\<lparr>di_status := DiscoveryStatus_Resolved, di_resolution_rationale := Some rationale,
        di_resolved_at := Some now, di_tags := refs, di_revision := di_revision old + 1, di_updated_at := now\<rparr>
    \<and> find_row di_id i (discovery_nodes st') = Some d
    \<and> (\<forall>j. j \<noteq> i \<longrightarrow> find_row di_id j (discovery_nodes st') = find_row di_id j (discovery_nodes st))"
  using change_discovery_exact [OF assms(1) [unfolded resolve_discovery_def] _ _ assms(2)] by auto

definition sample_discovery :: discovery_record where
  "sample_discovery = \<lparr>di_id = ''d'', di_scope_key = ''default'', di_correlation_id = ''corr'',
     di_classification = DiscoveryClassification_Defect, di_verification_state = VerificationState_Unverified,
     di_severity = Severity_Low, di_status = DiscoveryStatus_Candidate, di_claim = ''claim'', di_impact = None,
     di_next_action = None, di_verification_step = None, di_recurrence_key = None, di_fingerprint = None,
     di_observed_at = [], di_occurrence_count = 1, di_source_lineage = [], di_review_date = None,
     di_resolved_at = None, di_resolution_rationale = None, di_promoted_entity_type = None,
     di_promoted_entity_id = None, di_tags = [''security''], di_revision = 1, di_created_at = encode_time 0,
     di_updated_at = encode_time 0\<rparr>"

definition discovery_store :: planning_store where
  "discovery_store = empty_store\<lparr>discovery_nodes := [sample_discovery]\<rparr>"

definition resolved :: "discovery_record \<times> planning_store" where
  "resolved = (case resolve_discovery sample_env discovery_store ''d'' ''why'' [''ev''] ''default'' of
     Inr x \<Rightarrow> x | Inl _ \<Rightarrow> (sample_discovery, discovery_store))"

lemma resolved_eq:
  "resolve_discovery sample_env discovery_store ''d'' ''why'' [''ev''] ''default'' = Inr (fst resolved, snd resolved)"
  by (simp add: resolved_def resolve_discovery_def change_discovery_def discovery_store_def sample_discovery_def
      load_discovery_def update_where_def string_eval lookup_eval log_eval sample_eval Let_def)

lemma resolve_discovery_exact_witness:
  "di_tags sample_discovery = [''security''] \<and> di_tags (fst resolved) = [''ev'']"
  using resolve_discovery_exact [OF resolved_eq]
  by (auto simp: discovery_store_def sample_discovery_def)

section \<open>Worktrees\<close>

lemma get_worktree_Inr:
  assumes "distinct (map wt_id (worktrees st))"
  shows "get_worktree st i k = Inr w \<longleftrightarrow>
    find_row wt_id i (worktrees st) = Some w \<and> wt_scope_key w = normalize_scope_key_value k"
proof
  assume "get_worktree st i k = Inr w"
  then have "w \<in> set (worktrees st) \<and> wt_id w = i \<and> wt_scope_key w = normalize_scope_key_value k"
    by (auto simp: get_worktree_def find_Some_iff split: option.splits)
  then show "find_row wt_id i (worktrees st) = Some w \<and> wt_scope_key w = normalize_scope_key_value k"
    using find_row_distinct [OF assms, of w] by blast
next
  assume w: "find_row wt_id i (worktrees st) = Some w \<and> wt_scope_key w = normalize_scope_key_value k"
  then have in_rows: "w \<in> set (worktrees st)" "wt_id w = i" by (auto dest: find_row_SomeD)
  let ?find = "List.find (\<lambda>w. wt_id w = i \<and> wt_scope_key w = normalize_scope_key_value k) (worktrees st)"
  have "?find \<noteq> None" using w in_rows by (auto simp: find_None_iff)
  then obtain v where v: "?find = Some v" by blast
  then have "v \<in> set (worktrees st)" "wt_id v = i" by (auto simp: find_Some_iff)
  then have "v = w" using w find_row_distinct [OF assms, of v] by simp
  then show "get_worktree st i k = Inr w" using v by (simp add: get_worktree_def)
qed

text \<open>
  Attaching a worktree under a known id succeeds only in the scope of the worktree; it replaces its
  location and its run and session, counts the revision up and keeps its scope, its creation time and its
  status: an archived worktree that is attached again stays archived.
\<close>

lemma reattach_worktree_exact:
  assumes "attach_worktree env st input = Inr (w, st')" "aw_id input = Some i"
    and "distinct (map wt_id (worktrees st))" "find_row wt_id i (worktrees st) = Some old"
  shows "wt_scope_key old = normalized_scope_key (aw_scope_key input)
    \<and> (\<exists>now. w = old\<lparr>wt_repo_uri := aw_repo_uri input, wt_branch := aw_branch input,
          wt_worktree_path := aw_worktree_path input, wt_project_run_id := aw_project_run_id input,
          wt_session_id := aw_session_id input, wt_updated_at := now, wt_revision := wt_revision old + 1\<rparr>)
    \<and> find_row wt_id i (worktrees st') = Some w
    \<and> (\<forall>j. j \<noteq> i \<longrightarrow> find_row wt_id j (worktrees st') = find_row wt_id j (worktrees st))"
proof -
  let ?f = "\<lambda>now w. w\<lparr>wt_repo_uri := aw_repo_uri input, wt_branch := aw_branch input,
      wt_worktree_path := aw_worktree_path input, wt_project_run_id := aw_project_run_id input,
      wt_session_id := aw_session_id input, wt_updated_at := now, wt_revision := wt_revision w + 1\<rparr>"
  from assms obtain now where scope: "wt_scope_key old = normalized_scope_key (aw_scope_key input)"
    and st': "worktrees st' = update_where (\<lambda>w. wt_id w = i) (?f now) (worktrees st)"
    and w: "get_worktree st' i (normalized_scope_key (aw_scope_key input)) = Inr w"
    by (auto simp: attach_worktree_def attach_row_def upsert_worktree_def Let_def readings if_error_Inr)
  have rows: "find_row wt_id j (worktrees st') = map_option (\<lambda>r. if wt_id r = i then ?f now r else r) (find_row wt_id j (worktrees st))" for j
    unfolding st' by (rule find_row_update_where) simp
  have "distinct (map wt_id (worktrees st'))" using assms(3) unfolding st' by simp
  then have found: "find_row wt_id i (worktrees st') = Some w" using w by (simp add: get_worktree_Inr)
  moreover have "w = ?f now old" using found rows [of i] assms(4) find_row_SomeD [OF assms(4)] by simp
  moreover have "find_row wt_id j (worktrees st') = find_row wt_id j (worktrees st)" if "j \<noteq> i" for j
    using that rows [of j] by (cases "find_row wt_id j (worktrees st)") (auto dest: find_row_SomeD)
  ultimately show ?thesis using scope by blast
qed

text \<open>
  The status printed in JSON for a worktree marked for cleanup is not the status the table stores, so a
  listing filtered by the printed status is empty.
\<close>

lemma printed_status_lists_nothing:
  "list_worktrees st k (Some (worktree_status_serde WorktreeStatus_CleanupIntent)) = []"
proof -
  have "worktree_status_to_string s \<noteq> ''cleanupintent''" for s by (cases s) simp_all
  then show ?thesis by (simp add: list_worktrees_def)
qed

end
