(* ===== verification/Runnable.thy ===== *)
theory Runnable
  imports ProjectRuns GraphInvariant
begin

text \<open>
  Selection of runnable work (\<open>storage.rs\<close>): \<open>find_runnable_work_points_in_connection\<close> over the work points of
  a roadmap and \<open>find_runnable_graph_work\<close> over the work nodes of a scope. Both only read the store; the
  first reads the clock to tell live leases from expired ones.
\<close>

section \<open>Work points\<close>

record runnable_work_point_candidate =
  rc_work_point :: work_point_record
  rc_roadmap_id :: string
  rc_roadmap_title :: string
  rc_dependency_titles :: "string list"
  rc_reasons :: "string list"
  rc_required_reason :: "string option"

record blocked_candidate =
  bc_work_point_id :: string
  bc_work_point_title :: string
  bc_blocker_id :: string
  bc_blocker_title :: string
  bc_reason :: string

record runnable_candidates =
  rl_roadmap_id :: string
  rl_candidates :: "runnable_work_point_candidate list"
  rl_blocked :: "blocked_candidate list"

definition closed_status :: "work_point_status \<Rightarrow> bool" where
  "closed_status s \<longleftrightarrow> s \<in> {WorkPointStatus_Completed, WorkPointStatus_Cancelled, WorkPointStatus_Invalidated}"

text \<open>The keys of \<open>open_blocker_issues\<close> and \<open>open_blocker_review_points\<close>.\<close>

definition open_blocker_issues :: "planning_store \<Rightarrow> string \<Rightarrow> string list" where
  "open_blocker_issues st scope_key =
     List.map_filter is_related_entity_id
       (filter (\<lambda>x. is_scope_key x = scope_key \<and> is_status x = IssueStatus_Open
           \<and> is_severity x \<in> {Severity_High, Severity_Critical}) (issues st))"

definition open_blocker_review_points :: "planning_store \<Rightarrow> string \<Rightarrow> string list" where
  "open_blocker_review_points st scope_key =
     map rp_attached_entity_id
       (filter (\<lambda>r. rp_scope_key r = scope_key \<and> rp_status r = ReviewPointStatus_Open
           \<and> rp_severity r \<in> {Severity_High, Severity_Critical}) (review_points st))"

text \<open>The map \<open>blocked_set\<close>: for a blocked id, the last work point that blocks it, with its title.\<close>

definition blocking :: "work_point_record \<Rightarrow> bool" where
  "blocking w \<longleftrightarrow> wp_kind w \<noteq> WorkPointKind_Feature \<and> wp_blocks_work_point_ids w \<noteq> [] \<and> \<not> closed_status (wp_status w)"

definition blocked_set :: "work_point_record list \<Rightarrow> string \<rightharpoonup> string \<times> string" where
  "blocked_set ws = fold (\<lambda>w m. if blocking w
       then fold (\<lambda>b m. m(b \<mapsto> (wp_id w, wp_title w))) (wp_blocks_work_point_ids w) m else m) ws Map.empty"

definition active_lease_count :: "environment \<Rightarrow> planning_store \<Rightarrow> string \<Rightarrow> string \<Rightarrow> nat" where
  "active_lease_count env st work_point_id now =
     length (filter (\<lambda>r. pr_work_point_id r = work_point_id \<and> open_status (pr_status r) \<and> lease_live env now r)
       (project_runs st))"

text \<open>The loop over the dependencies: the titles, and whether all are completed.\<close>

fun dependency_state :: "planning_store \<Rightarrow> string list \<Rightarrow> string list \<times> bool" where
  "dependency_state st [] = ([], True)"
| "dependency_state st (dependency_id # rest) =
     (case dependency_state st rest of (titles, ready) \<Rightarrow>
        case load_work_point st dependency_id of
          Inr dependency \<Rightarrow> (wp_title dependency # titles, wp_status dependency = WorkPointStatus_Completed \<and> ready)
        | Inl _ \<Rightarrow> (format [''<missing: '', dependency_id, ''>''] # titles, False))"

definition required_reason :: "planning_store \<Rightarrow> string \<Rightarrow> work_point_record \<Rightarrow> string" where
  "required_reason st scope_key w =
     (let blocker = (\<lambda>i. i \<in> set (open_blocker_issues st scope_key) \<or> i \<in> set (open_blocker_review_points st scope_key)) in
      if wp_kind w \<noteq> WorkPointKind_Feature \<and> (wp_priority w = Priority_Urgent \<or> wp_priority w = Priority_High)
      then ''urgent_fix''
      else if list_ex blocker (wp_repairs_work_point_ids w) \<or> list_ex blocker (wp_supersedes_work_point_ids w)
      then ''resolves_blocker''
      else ''ready'')"

definition candidate_of :: "planning_store \<Rightarrow> roadmap_record \<Rightarrow> work_point_record \<Rightarrow> runnable_work_point_candidate" where
  "candidate_of st roadmap w =
     \<lparr>rc_work_point = w, rc_roadmap_id = rm_id roadmap, rc_roadmap_title = rm_title roadmap,
      rc_dependency_titles = fst (dependency_state st (wp_dependency_ids w)),
      rc_reasons =
        (if wp_status w = WorkPointStatus_Draft \<or> wp_status w = WorkPointStatus_Proposed
         then [''status is ready for work''] else [])
        @ [if wp_dependency_ids w = [] then ''no dependencies'' else ''all dependencies completed''],
      rc_required_reason = Some (required_reason st (rm_scope_key roadmap) w)\<rparr>"

text \<open>One pass of the main loop: the work point is blocked, runnable or skipped.\<close>

definition classify ::
    "environment \<Rightarrow> planning_store \<Rightarrow> roadmap_record \<Rightarrow> (string \<rightharpoonup> string \<times> string) \<Rightarrow> string \<Rightarrow> work_point_record
     \<Rightarrow> (blocked_candidate + runnable_work_point_candidate) option" where
  "classify env st roadmap blockers now w =
     (if closed_status (wp_status w) \<or> wp_status w = WorkPointStatus_Blocked then None
      else case blockers (wp_id w) of
        Some (blocker_id, blocker_title) \<Rightarrow>
          Some (Inl \<lparr>bc_work_point_id = wp_id w, bc_work_point_title = wp_title w, bc_blocker_id = blocker_id,
                     bc_blocker_title = blocker_title, bc_reason = format [''blocked_by:'', blocker_id]\<rparr>)
      | None \<Rightarrow>
          if active_lease_count env st (wp_id w) now > 0 then None
          else if \<not> snd (dependency_state st (wp_dependency_ids w)) then None
          else Some (Inr (candidate_of st roadmap w)))"

definition tier_rank :: "string option \<Rightarrow> nat" where
  "tier_rank reason =
     (if reason = Some ''urgent_fix'' then 0 else if reason = Some ''resolves_blocker'' then 1 else 2)"

definition candidate_key :: "runnable_work_point_candidate \<Rightarrow> nat \<times> int \<times> string" where
  "candidate_key c = (tier_rank (rc_required_reason c), wp_ordering (rc_work_point c), wp_id (rc_work_point c))"

definition find_runnable_work_points ::
    "environment \<Rightarrow> planning_store \<Rightarrow> string \<Rightarrow> (runnable_candidates \<times> planning_store) result" where
  "find_runnable_work_points env st roadmap_id =
     tryE (now_string env st) (\<lambda>(now, st).
     tryE (load_roadmap st roadmap_id) (\<lambda>roadmap.
     let all_work_points = list_work_points_for_roadmap st roadmap_id;
         classified = List.map_filter (classify env st roadmap (blocked_set all_work_points) now) all_work_points in
     Inr (\<lparr>rl_roadmap_id = roadmap_id,
           rl_candidates = sort_key candidate_key
             (List.map_filter (\<lambda>c. case c of Inr x \<Rightarrow> Some x | Inl _ \<Rightarrow> None) classified),
           rl_blocked = List.map_filter (\<lambda>c. case c of Inl x \<Rightarrow> Some x | Inr _ \<Rightarrow> None) classified\<rparr>, st)))"

section \<open>Graph work\<close>

record graph_runnable_candidate =
  gc_node_id :: string
  gc_title :: string
  gc_status :: string
  gc_reason :: string
  gc_incomplete_dependencies :: "string list"
  gc_active_blockers :: "string list"

record blocked_graph_candidate =
  bg_node_id :: string
  bg_title :: string
  bg_reason :: string
  bg_blocker_ids :: "string list"

record graph_runnable_result =
  gr_candidates :: "graph_runnable_candidate list"
  gr_blocked :: "blocked_graph_candidate list"

definition work_nodes :: "planning_store \<Rightarrow> string \<Rightarrow> planning_graph_node list" where
  "work_nodes st scope_key =
     sort_key gn_title
       (filter (\<lambda>n. gn_scope_key n = scope_key \<and> gn_kind n = PlanningNodeKind_Work
           \<and> gn_status n \<in> {''proposed'', ''active'', ''draft''}) (planning_nodes st))"

text \<open>
  The loops over the outgoing \<open>depends-on\<close> and the incoming \<open>blocks\<close> edges of a node: the ids of the nodes at
  the other end of active edges whose status is not one of the given ones.
\<close>

definition pending_ends ::
    "planning_store \<Rightarrow> (planning_graph_edge \<Rightarrow> string) \<Rightarrow> string set \<Rightarrow> planning_graph_edge list \<Rightarrow> string list result" where
  "pending_ends st pick settled edges =
     tryE (mapE (\<lambda>e. load_graph_node st (pick e)) (filter (\<lambda>e. ge_status e = ''active'') edges)) (\<lambda>nodes.
     Inr (map gn_id (filter (\<lambda>n. gn_status n \<notin> settled) nodes)))"

definition incomplete_deps :: "planning_store \<Rightarrow> string \<Rightarrow> string \<Rightarrow> string list result" where
  "incomplete_deps st scope_key node_id =
     pending_ends st ge_target_node_id {''completed'', ''validated''}
       (list_outgoing_edges_in_scope st node_id scope_key (Some PlanningEdgeKind_DependsOn))"

definition active_blockers :: "planning_store \<Rightarrow> string \<Rightarrow> string \<Rightarrow> string list result" where
  "active_blockers st scope_key node_id =
     pending_ends st ge_source_node_id {''completed'', ''cancelled'', ''invalidated'', ''archived''}
       (list_incoming_edges_in_scope st node_id scope_key (Some PlanningEdgeKind_Blocks))"

definition classify_node ::
    "planning_store \<Rightarrow> string \<Rightarrow> planning_graph_node \<Rightarrow> (blocked_graph_candidate + graph_runnable_candidate) result" where
  "classify_node st scope_key n =
     tryE (incomplete_deps st scope_key (gn_id n)) (\<lambda>deps.
     tryE (active_blockers st scope_key (gn_id n)) (\<lambda>blockers.
     Inr (if blockers \<noteq> [] then
            Inl \<lparr>bg_node_id = gn_id n, bg_title = gn_title n, bg_reason = format [''blocked_by:'', join '','' blockers],
                 bg_blocker_ids = blockers\<rparr>
          else if deps = [] then
            Inr \<lparr>gc_node_id = gn_id n, gc_title = gn_title n, gc_status = gn_status n, gc_reason = ''ready'',
                 gc_incomplete_dependencies = [], gc_active_blockers = []\<rparr>
          else
            Inl \<lparr>bg_node_id = gn_id n, bg_title = gn_title n, bg_reason = format [''waiting_on:'', join '','' deps],
                 bg_blocker_ids = []\<rparr>)))"

definition status_rank :: "string \<Rightarrow> nat" where
  "status_rank s = (if s = ''active'' then 0 else if s = ''proposed'' then 1 else 2)"

definition find_runnable_graph_work :: "planning_store \<Rightarrow> string \<Rightarrow> graph_runnable_result result" where
  "find_runnable_graph_work st scope_key =
     (let normalized = normalize_scope_key_value scope_key in
      tryE (mapE (classify_node st normalized) (work_nodes st normalized)) (\<lambda>classified.
      Inr \<lparr>gr_candidates = sort_key (\<lambda>c. (status_rank (gc_status c), gc_title c))
             (List.map_filter (\<lambda>c. case c of Inr x \<Rightarrow> Some x | Inl _ \<Rightarrow> None) classified),
           gr_blocked = List.map_filter (\<lambda>c. case c of Inl x \<Rightarrow> Some x | Inr _ \<Rightarrow> None) classified\<rparr>))"

end
