(* ===== verification/RunnableProperties.thy ===== *)
theory RunnableProperties
  imports Runnable RunInvariant Samples
begin

text \<open>
  What the selection of runnable work returns: exactly the work that is open, unblocked, unleased and whose
  dependencies are done. As the \<open>depends-on\<close> edges of a reachable graph have no cycle, open work that only waits
  for open work always offers a candidate.
\<close>

section \<open>Filtering and failing loops\<close>

lemma set_map_filter: "set (List.map_filter f xs) = {y. \<exists>x\<in>set xs. f x = Some y}"
  by (force simp: List.map_filter_def)

lemma set_rights: "set (List.map_filter (\<lambda>c. case c of Inr x \<Rightarrow> Some x | Inl _ \<Rightarrow> None) cs) = {x. Inr x \<in> set cs}"
  by (induction cs) (auto simp: map_filter_simps split: sum.split)

lemma set_lefts: "set (List.map_filter (\<lambda>c. case c of Inl x \<Rightarrow> Some x | Inr _ \<Rightarrow> None) cs) = {x. Inl x \<in> set cs}"
  by (induction cs) (auto simp: map_filter_simps split: sum.split)

lemma mapE_total:
  "(\<And>x. x \<in> set xs \<Longrightarrow> \<exists>y. f x = Inr y) \<Longrightarrow> \<exists>ys. mapE f xs = Inr ys"
  by (induction xs) (simp, fastforce)

lemma mapE_set: "mapE f xs = Inr ys \<Longrightarrow> set ys = {y. \<exists>x\<in>set xs. f x = Inr y}"
  by (induction xs arbitrary: ys) auto

section \<open>Graph work\<close>

definition node_status :: "planning_store \<Rightarrow> string \<Rightarrow> string" where
  "node_status st i = (case find_row gn_id i (planning_nodes st) of Some n \<Rightarrow> gn_status n | None \<Rightarrow> [])"

text \<open>The nodes \<open>i\<close> waits for and the nodes that block it, over the active edges of a scope.\<close>

definition waits_for :: "planning_store \<Rightarrow> string \<Rightarrow> string \<Rightarrow> string set" where
  "waits_for st k i = ge_target_node_id ` set (filter (\<lambda>e. ge_scope_key e = k
     \<and> ge_kind e = PlanningEdgeKind_DependsOn \<and> ge_status e = ''active'' \<and> ge_source_node_id e = i
     \<and> node_status st (ge_target_node_id e) \<notin> {''completed'', ''validated''}) (planning_edges st))"

definition blocked_by :: "planning_store \<Rightarrow> string \<Rightarrow> string \<Rightarrow> string set" where
  "blocked_by st k i = ge_source_node_id ` set (filter (\<lambda>e. ge_scope_key e = k
     \<and> ge_kind e = PlanningEdgeKind_Blocks \<and> ge_status e = ''active'' \<and> ge_target_node_id e = i
     \<and> node_status st (ge_source_node_id e) \<notin> {''completed'', ''cancelled'', ''invalidated'', ''archived''})
       (planning_edges st))"

lemma pending_ends_set:
  assumes "\<And>e. e \<in> set edges \<Longrightarrow> find_row gn_id (pick e) (planning_nodes st) \<noteq> None"
  shows "\<exists>ids. pending_ends st pick settled edges = Inr ids
    \<and> set ids = pick ` {e \<in> set edges. ge_status e = ''active'' \<and> node_status st (pick e) \<notin> settled}"
proof -
  let ?load = "\<lambda>e. load_graph_node st (pick e)"
  let ?active = "filter (\<lambda>e. ge_status e = ''active'') edges"
  have "\<exists>n. ?load e = Inr n" if "e \<in> set ?active" for e
    using that assms [of e] by auto
  then obtain nodes where nodes: "mapE ?load ?active = Inr nodes" using mapE_total by metis
  have found: "gn_id n = i" if "find_row gn_id i (planning_nodes st) = Some n" for n i
    using that by (blast dest: find_row_SomeD)
  have loaded: "set nodes = {n. \<exists>e\<in>set ?active. find_row gn_id (pick e) (planning_nodes st) = Some n}"
    by (simp add: mapE_set [OF nodes])
  have "gn_id ` {n \<in> set nodes. gn_status n \<notin> settled} =
      pick ` {e \<in> set edges. ge_status e = ''active'' \<and> node_status st (pick e) \<notin> settled}" (is "?got = ?want")
  proof
    show "?got \<subseteq> ?want" by (auto simp: loaded node_status_def found)
    show "?want \<subseteq> ?got"
    proof
      fix x assume "x \<in> ?want"
      then obtain e where e: "x = pick e" "e \<in> set ?active" "node_status st (pick e) \<notin> settled" by auto
      with assms [of e] obtain n where "find_row gn_id (pick e) (planning_nodes st) = Some n" by auto
      with e found show "x \<in> ?got" by (force simp: loaded node_status_def)
    qed
  qed
  then show ?thesis by (auto simp: pending_ends_def nodes)
qed

lemma edge_ends_found:
  assumes "graph_inv st" "e \<in> set (planning_edges st)"
  shows "find_row gn_id (ge_source_node_id e) (planning_nodes st) \<noteq> None"
    and "find_row gn_id (ge_target_node_id e) (planning_nodes st) \<noteq> None"
proof -
  from assms have "edge_ok st e" by (simp add: graph_inv_def list_all_iff)
  then show "find_row gn_id (ge_source_node_id e) (planning_nodes st) \<noteq> None"
    and "find_row gn_id (ge_target_node_id e) (planning_nodes st) \<noteq> None"
    by (auto simp: edge_ok_iff)
qed

lemma incomplete_deps_set:
  assumes "graph_inv st"
  shows "\<exists>ids. incomplete_deps st k i = Inr ids \<and> set ids = waits_for st k i"
proof -
  let ?out = "list_outgoing_edges_in_scope st i k (Some PlanningEdgeKind_DependsOn)"
  have "find_row gn_id (ge_target_node_id e) (planning_nodes st) \<noteq> None" if "e \<in> set ?out" for e
    using that edge_ends_found(2) [OF assms] by (simp add: list_outgoing_edges_in_scope_def)
  from pending_ends_set [of ?out ge_target_node_id st "{''completed'', ''validated''}", OF this] show ?thesis
    by (simp add: incomplete_deps_def waits_for_def list_outgoing_edges_in_scope_def conj_ac)
qed

lemma active_blockers_set:
  assumes "graph_inv st"
  shows "\<exists>ids. active_blockers st k i = Inr ids \<and> set ids = blocked_by st k i"
proof -
  let ?inc = "list_incoming_edges_in_scope st i k (Some PlanningEdgeKind_Blocks)"
  have "find_row gn_id (ge_source_node_id e) (planning_nodes st) \<noteq> None" if "e \<in> set ?inc" for e
    using that edge_ends_found(1) [OF assms] by (simp add: list_incoming_edges_in_scope_def)
  from pending_ends_set [of ?inc ge_source_node_id st "{''completed'', ''cancelled'', ''invalidated'', ''archived''}", OF this] show ?thesis
    by (simp add: active_blockers_def blocked_by_def list_incoming_edges_in_scope_def conj_ac)
qed

definition ready_candidate :: "planning_graph_node \<Rightarrow> graph_runnable_candidate" where
  "ready_candidate n = \<lparr>gc_node_id = gn_id n, gc_title = gn_title n, gc_status = gn_status n, gc_reason = ''ready'',
     gc_incomplete_dependencies = [], gc_active_blockers = []\<rparr>"

definition node_ready :: "planning_store \<Rightarrow> string \<Rightarrow> string \<Rightarrow> bool" where
  "node_ready st k i \<longleftrightarrow> waits_for st k i = {} \<and> blocked_by st k i = {}"

lemma classify_node_cases:
  assumes "graph_inv st"
  shows "\<exists>c. classify_node st k n = Inr c
    \<and> (if node_ready st k (gn_id n) then c = Inr (ready_candidate n) else \<exists>b. c = Inl b \<and> bg_node_id b = gn_id n)"
proof -
  from incomplete_deps_set [OF assms] obtain ds where ds: "incomplete_deps st k (gn_id n) = Inr ds"
    "set ds = waits_for st k (gn_id n)" by blast
  from active_blockers_set [OF assms] obtain bs where bs: "active_blockers st k (gn_id n) = Inr bs"
    "set bs = blocked_by st k (gn_id n)" by blast
  show ?thesis
    by (cases ds; cases bs)
      (simp_all add: classify_node_def ds(1) bs(1) node_ready_def ready_candidate_def ds(2) [symmetric] bs(2) [symmetric])
qed

lemma work_nodes_iff:
  "n \<in> set (work_nodes st k) \<longleftrightarrow> n \<in> set (planning_nodes st) \<and> gn_scope_key n = k
     \<and> gn_kind n = PlanningNodeKind_Work \<and> gn_status n \<in> {''proposed'', ''active'', ''draft''}"
  by (auto simp: work_nodes_def)

lemma graph_runnable_sets:
  assumes "graph_inv st"
  shows "\<exists>res. find_runnable_graph_work st k = Inr res
    \<and> set (gr_candidates res) =
        ready_candidate ` {n \<in> set (work_nodes st (normalize_scope_key_value k)). node_ready st (normalize_scope_key_value k) (gn_id n)}
    \<and> bg_node_id ` set (gr_blocked res) =
        gn_id ` {n \<in> set (work_nodes st (normalize_scope_key_value k)). \<not> node_ready st (normalize_scope_key_value k) (gn_id n)}
    \<and> sorted (map (\<lambda>c. (status_rank (gc_status c), gc_title c)) (gr_candidates res))"
proof -
  let ?k = "normalize_scope_key_value k"
  note cases = classify_node_cases [OF assms, of ?k]
  have "\<exists>c. classify_node st ?k n = Inr c" for n using cases by blast
  then obtain cs where cs: "mapE (classify_node st ?k) (work_nodes st ?k) = Inr cs" using mapE_total by metis
  define ready where "ready = {n \<in> set (work_nodes st ?k). node_ready st ?k (gn_id n)}"
  define waiting where "waiting = {n \<in> set (work_nodes st ?k). \<not> node_ready st ?k (gn_id n)}"
  have runs: "{x. Inr x \<in> set cs} = ready_candidate ` ready"
    using cases by (force simp: mapE_set [OF cs] ready_def split: if_splits)
  have waits: "bg_node_id ` {x. Inl x \<in> set cs} = gn_id ` waiting"
    using cases by (force simp: mapE_set [OF cs] waiting_def image_def split: if_splits)
  show ?thesis
    unfolding find_runnable_graph_work_def Let_def cs
    using runs waits by (simp add: set_rights set_lefts ready_def waiting_def)
qed

section \<open>Work points\<close>

definition dependencies_done :: "planning_store \<Rightarrow> work_point_record \<Rightarrow> bool" where
  "dependencies_done st w \<longleftrightarrow> (\<forall>d\<in>set (wp_dependency_ids w).
     \<exists>x. load_work_point st d = Inr x \<and> wp_status x = WorkPointStatus_Completed)"

definition held_back :: "work_point_record list \<Rightarrow> string \<Rightarrow> bool" where
  "held_back ws i \<longleftrightarrow> (\<exists>b\<in>set ws. blocking b \<and> i \<in> set (wp_blocks_work_point_ids b))"

definition leased :: "environment \<Rightarrow> planning_store \<Rightarrow> string \<Rightarrow> string \<Rightarrow> bool" where
  "leased env st now i \<longleftrightarrow>
     (\<exists>r\<in>set (project_runs st). pr_work_point_id r = i \<and> open_status (pr_status r) \<and> lease_live env now r)"

lemma dependency_state_ready:
  "snd (dependency_state st ds) \<longleftrightarrow> (\<forall>d\<in>set ds. \<exists>x. load_work_point st d = Inr x \<and> wp_status x = WorkPointStatus_Completed)"
  by (induction ds) (auto split: prod.splits sum.splits)

lemma fold_upd_dom: "dom (fold (\<lambda>b m. m(b \<mapsto> v)) bs m) = dom m \<union> set bs"
  by (induction bs arbitrary: m) auto

lemma blocked_set_dom_gen:
  "dom (fold (\<lambda>w m. if blocking w then fold (\<lambda>b m. m(b \<mapsto> (wp_id w, wp_title w))) (wp_blocks_work_point_ids w) m else m) ws m)
     = dom m \<union> {i. held_back ws i}"
  by (induction ws arbitrary: m) (auto simp: fold_upd_dom held_back_def)

lemma blocked_set_None: "blocked_set ws i = None \<longleftrightarrow> \<not> held_back ws i"
proof -
  have "dom (blocked_set ws) = {i. held_back ws i}" by (simp add: blocked_set_def blocked_set_dom_gen)
  then show ?thesis by (metis domIff mem_Collect_eq)
qed

lemma active_lease_count_pos: "active_lease_count env st i now > 0 \<longleftrightarrow> leased env st now i"
  by (auto simp: active_lease_count_def leased_def filter_empty_conv)

definition selectable :: "environment \<Rightarrow> planning_store \<Rightarrow> work_point_record list \<Rightarrow> string \<Rightarrow> work_point_record \<Rightarrow> bool" where
  "selectable env st ws now w \<longleftrightarrow> \<not> closed_status (wp_status w) \<and> wp_status w \<noteq> WorkPointStatus_Blocked
     \<and> \<not> held_back ws (wp_id w) \<and> \<not> leased env st now (wp_id w) \<and> dependencies_done st w"

lemma classify_Inr:
  "classify env st roadmap (blocked_set ws) now w = Some (Inr c) \<longleftrightarrow>
     selectable env st ws now w \<and> c = candidate_of st roadmap w"
  using blocked_set_None [of ws "wp_id w"]
  by (auto simp: classify_def selectable_def active_lease_count_pos [symmetric] dependency_state_ready
      dependencies_done_def split: option.split)

text \<open>Reading the clock leaves the rows as they are.\<close>

lemma runnable_tick [simp]:
  "list_work_points_for_roadmap (st\<lparr>tick := n\<rparr>) i = list_work_points_for_roadmap st i"
  "load_work_point (st\<lparr>tick := n\<rparr>) i = load_work_point st i"
  "leased env (st\<lparr>tick := n\<rparr>) = leased env st"
  by (simp_all add: list_work_points_for_roadmap_def load_file_scopes_for_entity_def load_work_point_def
      leased_def [abs_def])

lemma selectable_tick [simp]: "selectable env (st\<lparr>tick := n\<rparr>) ws now w = selectable env st ws now w"
  by (simp add: selectable_def dependencies_done_def)

section \<open>Properties\<close>

text \<open>
  Claim C17. When \<open>find_runnable_work_points\<close> returns, its candidates are exactly the work points of the roadmap that
  are neither closed nor blocked, that no open fix or refactoring blocks, that no run holds a live lease on and
  whose dependencies all exist and are completed; they come in the order of tier, position and id, and only the
  clock was read. The specification (\<open>docs/specs/agent-safe-planning-core/spec.md\<close>, R2 and AC5) would put the work
  point that the session holds a lease on first, with the reason \<open>active_lease\<close>; the code leaves out every
  leased work point, and has no such reason.
\<close>

theorem runnable_work_points_exact:
  assumes run: "find_runnable_work_points env st roadmap_id = Inr (res, st')" and now: "env_now env (tick st) = Some now"
  defines "ws \<equiv> list_work_points_for_roadmap st roadmap_id"
  shows "rc_work_point ` set (rl_candidates res) = {w \<in> set ws. selectable env st ws now w}
    \<and> sorted (map candidate_key (rl_candidates res)) \<and> st' = st\<lparr>tick := Suc (tick st)\<rparr>"
proof -
  let ?st = "st\<lparr>tick := Suc (tick st)\<rparr>"
  from run now obtain roadmap where res: "st' = ?st" "rl_candidates res = sort_key candidate_key
      (List.map_filter (\<lambda>c. case c of Inr x \<Rightarrow> Some x | Inl _ \<Rightarrow> None)
        (List.map_filter (classify env ?st roadmap (blocked_set ws) now) ws))"
    by (auto simp: find_runnable_work_points_def now_string_def ws_def Let_def)
  have "set (rl_candidates res) = candidate_of ?st roadmap ` {w \<in> set ws. selectable env st ws now w}"
    unfolding res(2) set_sort set_rights by (auto simp: set_map_filter classify_Inr)
  moreover have "rc_work_point (candidate_of ?st roadmap w) = w" for w by (simp add: candidate_of_def)
  ultimately show ?thesis by (auto simp: res image_image)
qed

theorem runnable_work_points_exact_witness:
  "\<exists>res st'. find_runnable_work_points sample_env work_store ''rm'' = Inr (res, st')
     \<and> wp_id ` rc_work_point ` set (rl_candidates res) = {''p3''}"
proof -
  let ?ws = "list_work_points_for_roadmap work_store ''rm''"
  have now: "env_now sample_env (tick work_store) = Some (encode_time 0)" by (simp add: sample_eval)
  then obtain res st' where run: "find_runnable_work_points sample_env work_store ''rm'' = Inr (res, st')"
    by (simp add: find_runnable_work_points_def now_string_def load_roadmap_def row_or_not_found_def work_store_def
        sample_roadmap_def Let_def)
  have ws: "set ?ws = set (work_points work_store)"
    by (simp add: list_work_points_for_roadmap_def load_file_scopes_for_entity_def sample_eval)
  have "wp_id ` {w \<in> set ?ws. selectable sample_env work_store ?ws (encode_time 0) w} = {''p3''}"
    unfolding ws selectable_def dependencies_done_def leased_def held_back_def blocking_def set_filter [symmetric]
    by (simp add: sample_eval closed_status_def load_work_point_def row_or_not_found_def)
  with runnable_work_points_exact [OF run now] run show ?thesis by (metis (no_types, lifting))
qed


text \<open>
  On every store of the graph invariant \<open>find_runnable_graph_work\<close> returns; its candidates are exactly the
  open work nodes of the scope that wait for no node and are blocked by none, in the order of status and title,
  and every other open work node is listed as blocked.
\<close>

lemma graph_runnable_exact:
  assumes "graph_inv st"
  shows "\<exists>res. find_runnable_graph_work st k = Inr res
    \<and> set (gr_candidates res) = ready_candidate `
        {n \<in> set (work_nodes st (normalize_scope_key_value k)). node_ready st (normalize_scope_key_value k) (gn_id n)}
    \<and> bg_node_id ` set (gr_blocked res) = gn_id `
        {n \<in> set (work_nodes st (normalize_scope_key_value k)). \<not> node_ready st (normalize_scope_key_value k) (gn_id n)}
    \<and> sorted (map (\<lambda>c. (status_rank (gc_status c), gc_title c)) (gr_candidates res))"
  using assms by (rule graph_runnable_sets)

lemma graph_runnable_exact_witness:
  "graph_inv graph_store \<and> (\<exists>res. find_runnable_graph_work graph_store ''default'' = Inr res
     \<and> ready_candidate (sample_node ''w2'' PlanningNodeKind_Work) \<in> set (gr_candidates res)
     \<and> ''w1'' \<in> bg_node_id ` set (gr_blocked res))"
proof -
  obtain res where res: "find_runnable_graph_work graph_store ''default'' = Inr res"
    "set (gr_candidates res) = ready_candidate ` {n \<in> set (work_nodes graph_store ''default''). node_ready graph_store ''default'' (gn_id n)}"
    "bg_node_id ` set (gr_blocked res) = gn_id ` {n \<in> set (work_nodes graph_store ''default''). \<not> node_ready graph_store ''default'' (gn_id n)}"
    using graph_runnable_exact [OF graph_store_inv, of "''default''"] by (auto simp: default_key)
  have ready: "sample_node ''w2'' PlanningNodeKind_Work \<in> {n \<in> set (work_nodes graph_store ''default''). node_ready graph_store ''default'' (gn_id n)}"
    by (simp add: work_nodes_iff node_ready_def waits_for_def blocked_by_def sample_eval)
  have "sample_node ''w1'' PlanningNodeKind_Work \<in> {n \<in> set (work_nodes graph_store ''default''). \<not> node_ready graph_store ''default'' (gn_id n)}"
    by (simp add: work_nodes_iff node_ready_def waits_for_def blocked_by_def node_status_def sample_eval)
  then have "''w1'' \<in> bg_node_id ` set (gr_blocked res)"
    unfolding res(3) by (rule rev_image_eqI) (simp add: sample_node_def)
  moreover have "ready_candidate (sample_node ''w2'' PlanningNodeKind_Work) \<in> set (gr_candidates res)"
    unfolding res(2) using ready by (rule imageI)
  ultimately show ?thesis using graph_store_inv res(1) by blast
qed

text \<open>The relation of the open nodes: a waiting node and a node it waits for.\<close>

lemma waits_for_edge: "j \<in> waits_for st k i \<Longrightarrow> (i, j) \<in> set (edge_pairs st PlanningEdgeKind_DependsOn)"
  by (auto simp: waits_for_def edge_pairs_def)

lemma acyclic_has_minimal:
  assumes "finite A" "A \<noteq> {}" "acyclic r"
  shows "\<exists>x\<in>A. \<forall>y\<in>A. (x, y) \<notin> r"
proof -
  have "finite (r \<inter> A \<times> A)" using assms(1) by blast
  moreover have "acyclic (r \<inter> A \<times> A)" using assms(3) by (rule acyclic_subset) blast
  ultimately have "wf ((r \<inter> A \<times> A)\<inverse>)" by (rule finite_acyclic_wf_converse)
  with assms(2) obtain x where "x \<in> A" "\<And>y. (y, x) \<in> (r \<inter> A \<times> A)\<inverse> \<Longrightarrow> y \<notin> A" by (metis wfE_min ex_in_conv)
  then show ?thesis by blast
qed

text \<open>
  Claim C16. Work goes on: when a scope has open work nodes, none of them is blocked, and each waits only for other
  open work nodes, then \<open>find_runnable_graph_work\<close> offers at least one candidate. The graph cannot deadlock on its
  dependencies, because the checked operations keep \<open>depends-on\<close> acyclic.
\<close>

theorem graph_work_progress:
  assumes inv: "graph_inv st" and key: "normalize_scope_key_value k = k" and some: "work_nodes st k \<noteq> []"
    and unblocked: "\<forall>n\<in>set (work_nodes st k). blocked_by st k (gn_id n) = {}"
    and closed: "\<forall>n\<in>set (work_nodes st k). waits_for st k (gn_id n) \<subseteq> gn_id ` set (work_nodes st k)"
  shows "\<exists>res. find_runnable_graph_work st k = Inr res \<and> gr_candidates res \<noteq> []"
proof -
  let ?r = "set (edge_pairs st PlanningEdgeKind_DependsOn)"
  have "acyclic ?r" using inv by (simp add: graph_inv_def acyclic_kind_def)
  from acyclic_has_minimal [OF _ _ this, of "gn_id ` set (work_nodes st k)"] some
  obtain n where n: "n \<in> set (work_nodes st k)" "\<forall>m\<in>set (work_nodes st k). (gn_id n, gn_id m) \<notin> ?r" by auto
  have "waits_for st k (gn_id n) = {}" using n closed by (blast dest: waits_for_edge)
  with n(1) unblocked have "n \<in> {n \<in> set (work_nodes st k). node_ready st k (gn_id n)}" by (simp add: node_ready_def)
  moreover from graph_runnable_sets [OF inv, of k, unfolded key] obtain res where
    "find_runnable_graph_work st k = Inr res"
    "set (gr_candidates res) = ready_candidate ` {n \<in> set (work_nodes st k). node_ready st k (gn_id n)}" by blast
  ultimately show ?thesis by force
qed

theorem graph_work_progress_witness:
  "\<exists>res. find_runnable_graph_work graph_store ''default'' = Inr res \<and> gr_candidates res \<noteq> []"
proof (rule graph_work_progress [OF graph_store_inv default_key])
  show "work_nodes graph_store ''default'' \<noteq> []"
    by (simp add: work_nodes_def sample_eval)
  show "\<forall>n\<in>set (work_nodes graph_store ''default''). blocked_by graph_store ''default'' (gn_id n) = {}"
    by (simp add: blocked_by_def sample_eval)
  have "set (work_nodes graph_store ''default'') = set (planning_nodes graph_store)"
    by (auto simp: work_nodes_iff sample_eval)
  then show "\<forall>n\<in>set (work_nodes graph_store ''default''). waits_for graph_store ''default'' (gn_id n) \<subseteq> gn_id ` set (work_nodes graph_store ''default'')"
    by (auto simp: waits_for_def sample_eval)
qed

end
