(* ===== verification/WorkflowView.thy ===== *)
theory WorkflowView
  imports Runnable Entities
begin

text \<open>
  The workflow projection of a scope (\<open>workflow.rs\<close> and \<open>workflow_view_in_scope\<close> of \<open>storage.rs\<close>): which graph
  nodes belong to a source entity, how each work node is delegated, whether the runnable nodes may run in
  parallel, and the execution plan. Every function is pure.
\<close>

section \<open>Data\<close>

record workflow_view_source =
  wvs_entity_type :: entity_type
  wvs_entity_id :: string

record workflow_view_node =
  wvn_id :: string
  wvn_kind :: planning_node_kind
  wvn_title :: string
  wvn_status :: string
  wvn_tags :: "string list"

record workflow_view_edge =
  wve_id :: string
  wve_kind :: planning_edge_kind
  wve_source_node_id :: string
  wve_target_node_id :: string
  wve_status :: string

record workflow_retry_policy =
  wrp_max_attempts :: nat
  wrp_retryable_stop_conditions :: "string list"
  wrp_escalation :: string

record workflow_delegation_hint =
  dh_node_id :: string
  dh_role :: string
  dh_worker_profile :: string
  dh_recommended_subagent :: string
  dh_model_tier :: string
  dh_effort_tier :: effort_tier
  dh_file_scopes :: "file_scope_record list"
  dh_allowed_actions :: "string list"
  dh_max_concurrency :: nat
  dh_max_context_tokens_estimate :: nat
  dh_wall_time_minutes_estimate :: nat
  dh_retry_policy :: workflow_retry_policy
  dh_rationale :: string

record workflow_evidence_policy =
  wep_required_evidence_kinds :: "evidence_kind list"
  wep_validation_gates :: "string list"
  wep_stop_conditions :: "string list"

record workflow_budgets =
  wb_max_workers :: nat
  wb_max_retries_per_node :: nat
  wb_max_context_tokens_estimate :: nat

record workflow_adapter_policy =
  wap_orchestration_owner :: string
  wap_execution_owner :: string
  wap_max_delegate_depth :: nat
  wap_default_orchestrator_model_tier :: string
  wap_worker_model_tiers :: "string list"
  wap_degradation_rules :: "string list"
  wap_required_writebacks :: "string list"

record workflow_execution_phase =
  xph_id :: string
  xph_index :: nat
  xph_mode :: string
  xph_node_ids :: "string list"
  xph_max_concurrency :: nat
  xph_worker_profiles :: "string list"
  xph_rationale :: string

record workflow_execution_plan =
  xp_strategy :: string
  xp_phases :: "workflow_execution_phase list"
  xp_blocked_node_ids :: "string list"
  xp_rationale :: string

record project_run_status_counts =
  prc_suggested :: nat
  prc_claimed :: nat
  prc_active :: nat
  prc_interrupted :: nat
  prc_completed :: nat
  prc_failed :: nat
  prc_cancelled :: nat
  prc_released :: nat

record workflow_metrics =
  wm_total_nodes :: nat
  wm_total_edges :: nat
  wm_runnable_count :: nat
  wm_blocked_count :: nat
  wm_delegation_hint_count :: nat
  wm_parallel_safe_candidate_count :: nat
  wm_estimated_context_tokens :: nat
  wm_project_run_status_counts :: project_run_status_counts

record workflow_view =
  wv_schema_version :: string
  wv_scope_key :: string
  wv_source :: workflow_view_source
  wv_nodes :: "workflow_view_node list"
  wv_edges :: "workflow_view_edge list"
  wv_runnable :: graph_runnable_result
  wv_adapter_policy :: workflow_adapter_policy
  wv_execution_plan :: workflow_execution_plan
  wv_delegation_hints :: "workflow_delegation_hint list"
  wv_evidence_policy :: workflow_evidence_policy
  wv_budgets :: workflow_budgets
  wv_metrics :: workflow_metrics

section \<open>Delegation of a work node\<close>

definition has_tag :: "planning_graph_node \<Rightarrow> string \<Rightarrow> bool" where
  "has_tag node t \<longleftrightarrow> t \<in> set (gn_tags node)"

text \<open>\<open>node.payload.get(k).and_then(Value::as_str)\<close>.\<close>

definition payload_str :: "planning_graph_node \<Rightarrow> string \<Rightarrow> string option" where
  "payload_str node k = Option.bind (json_get k (gn_payload node)) json_as_str"

definition parsed :: "('e + 'a) \<Rightarrow> 'a option" where
  "parsed r = (case r of Inl _ \<Rightarrow> None | Inr x \<Rightarrow> Some x)"

definition workflow_effort_tier_for_node :: "planning_graph_node \<Rightarrow> effort_tier" where
  "workflow_effort_tier_for_node node =
     (case Option.bind (payload_str node ''effortTier'') (\<lambda>v. parsed (effort_tier_from_str v)) of
        Some tier \<Rightarrow> tier
      | None \<Rightarrow> if has_tag node ''deep'' then EffortTier_Deep
                else if has_tag node ''fast'' then EffortTier_Fast else EffortTier_Balanced)"

definition default_model_tier :: "string \<Rightarrow> effort_tier \<Rightarrow> string" where
  "default_model_tier role tier =
     (if role = ''reviewer'' \<or> tier = EffortTier_Deep then ''high''
      else if role = ''test-runner'' \<or> tier = EffortTier_Balanced then ''medium'' else ''low'')"

definition workflow_model_tier_for_node :: "planning_graph_node \<Rightarrow> string \<Rightarrow> effort_tier \<Rightarrow> string" where
  "workflow_model_tier_for_node node role tier =
     (case payload_str node ''modelTier'' of
        None \<Rightarrow> default_model_tier role tier
      | Some v \<Rightarrow>
          if trim v = [] then default_model_tier role tier
          else
          let v = to_ascii_lowercase (trim v) in
          if v = ''xhigh'' \<and> Option.bind (json_get ''allowXhighWorker'' (gn_payload node)) json_as_bool \<noteq> Some True
          then ''high'' else v)"

definition workflow_worker_profile :: "string \<Rightarrow> effort_tier \<Rightarrow> string" where
  "workflow_worker_profile role tier =
     (if role = ''reviewer'' then ''reviewer''
      else if role = ''test-runner'' then ''test-runner''
      else if role = ''implementation'' \<and> tier = EffortTier_Fast then ''implementation-light''
      else if role = ''implementation'' \<and> tier = EffortTier_Deep then ''implementation-heavy''
      else ''implementation'')"

definition workflow_recommended_subagent :: "string \<Rightarrow> string" where
  "workflow_recommended_subagent profile =
     (if profile = ''reviewer'' then ''reviewer''
      else if profile = ''test-runner'' then ''test-runner''
      else if profile = ''implementation-light'' then ''impl-light''
      else if profile = ''implementation-heavy'' then ''impl-heavy''
      else ''impl'')"

definition workflow_allowed_actions :: "string \<Rightarrow> string list" where
  "workflow_allowed_actions role =
     (if role = ''reviewer'' then [''read'', ''review'', ''validate'']
      else if role = ''test-runner'' then [''read'', ''execute-validation'', ''record-evidence'']
      else [''read'', ''edit'', ''execute-validation'', ''record-evidence''])"

fun workflow_context_token_estimate :: "effort_tier \<Rightarrow> nat" where
  "workflow_context_token_estimate EffortTier_Fast = 6000"
| "workflow_context_token_estimate EffortTier_Balanced = 12000"
| "workflow_context_token_estimate EffortTier_Deep = 24000"

fun workflow_wall_time_minutes_estimate :: "effort_tier \<Rightarrow> nat" where
  "workflow_wall_time_minutes_estimate EffortTier_Fast = 15"
| "workflow_wall_time_minutes_estimate EffortTier_Balanced = 45"
| "workflow_wall_time_minutes_estimate EffortTier_Deep = 90"

definition file_scope_of_json :: "json \<Rightarrow> file_scope_record option" where
  "file_scope_of_json scope =
     (case Option.bind (json_get ''selector'' scope) json_as_str of
        None \<Rightarrow> None
      | Some raw \<Rightarrow>
          if trim raw = [] then None
          else Some \<lparr>fs_selector_type =
                (case Option.bind (Option.bind (json_get ''selectorType'' scope) json_as_str)
                   (\<lambda>v. parsed (file_scope_selector_type_from_str v)) of
                   Some t \<Rightarrow> t | None \<Rightarrow> FileScopeSelectorType_Glob),
              fs_selector = trim raw,
              fs_intent =
                (case Option.bind (Option.bind (json_get ''intent'' scope) json_as_str)
                   (\<lambda>v. parsed (file_scope_intent_from_str v)) of
                   Some t \<Rightarrow> t | None \<Rightarrow> FileScopeIntent_Primary)\<rparr>)"

definition workflow_file_scopes_for_node :: "planning_graph_node \<Rightarrow> file_scope_record list" where
  "workflow_file_scopes_for_node node =
     (case Option.bind (json_get ''fileScopes'' (gn_payload node)) json_as_array of
        None \<Rightarrow> []
      | Some entries \<Rightarrow> normalize_file_scopes (List.map_filter file_scope_of_json entries))"

definition workflow_role :: "planning_graph_node \<Rightarrow> string" where
  "workflow_role node =
     (if has_tag node ''review'' \<or> has_tag node ''review-fix'' then ''reviewer''
      else if has_tag node ''validation'' \<or> has_tag node ''test'' then ''test-runner''
      else ''implementation'')"

definition workflow_delegation_hint_for_node :: "planning_graph_node \<Rightarrow> workflow_delegation_hint" where
  "workflow_delegation_hint_for_node node =
     (let role = workflow_role node;
          tier = workflow_effort_tier_for_node node;
          profile = workflow_worker_profile role tier in
      \<lparr>dh_node_id = gn_id node, dh_role = role, dh_worker_profile = profile,
       dh_recommended_subagent = workflow_recommended_subagent profile,
       dh_model_tier = workflow_model_tier_for_node node role tier, dh_effort_tier = tier,
       dh_file_scopes = workflow_file_scopes_for_node node, dh_allowed_actions = workflow_allowed_actions role,
       dh_max_concurrency = 1, dh_max_context_tokens_estimate = workflow_context_token_estimate tier,
       dh_wall_time_minutes_estimate = workflow_wall_time_minutes_estimate tier,
       dh_retry_policy = \<lparr>wrp_max_attempts = 2,
         wrp_retryable_stop_conditions = [''transient validation failure'', ''tool/runtime interruption''],
         wrp_escalation = ''return to orchestrator for review or corrective work''\<rparr>,
       dh_rationale = ''derived from graph work node tags and conservative default policy''\<rparr>)"

section \<open>The source of a workflow\<close>

definition planning_ref :: "planning_graph_node \<Rightarrow> json option" where
  "planning_ref node =
     (case json_get ''planningRef'' (gn_payload node) of
        Some reference \<Rightarrow> if json_as_object reference = None then None else Some reference
      | None \<Rightarrow> None)"

definition ref_str :: "planning_graph_node \<Rightarrow> string \<Rightarrow> string option" where
  "ref_str node k = Option.bind (planning_ref node) (\<lambda>reference. Option.bind (json_get k reference) json_as_str)"

definition non_blank :: "string option \<Rightarrow> string option" where
  "non_blank v = (case v of None \<Rightarrow> None | Some s \<Rightarrow> if trim s = [] then None else Some (trim s))"

definition workflow_work_point_id_for_node :: "planning_graph_node \<Rightarrow> string option" where
  "workflow_work_point_id_for_node node =
     (case non_blank (payload_str node ''workPointId'') of
        Some i \<Rightarrow> Some i
      | None \<Rightarrow> if ref_str node ''entityType'' \<noteq> Some ''work-point'' then None
                else non_blank (ref_str node ''entityId''))"

definition workflow_node_has_planning_ref :: "planning_graph_node \<Rightarrow> bool" where
  "workflow_node_has_planning_ref node \<longleftrightarrow> ref_str node ''entityType'' \<noteq> None"

definition workflow_node_matches_source :: "planning_graph_node \<Rightarrow> entity_type \<Rightarrow> string \<Rightarrow> bool" where
  "workflow_node_matches_source node et i \<longleftrightarrow>
     ref_str node ''entityType'' = Some (entity_type_as_str et) \<and> ref_str node ''entityId'' = Some i"

definition workflow_nodes_for_source :: "planning_graph_node list \<Rightarrow> entity_type \<Rightarrow> string \<Rightarrow> planning_graph_node list" where
  "workflow_nodes_for_source nodes et i =
     (if \<not> list_ex workflow_node_has_planning_ref nodes then nodes
      else filter (\<lambda>node. workflow_node_matches_source node et i) nodes)"

definition workflow_project_run_matches_source :: "project_run_record \<Rightarrow> entity_type \<Rightarrow> string \<Rightarrow> bool" where
  "workflow_project_run_matches_source run et i =
     (case et of
        EntityType_Goal \<Rightarrow> pr_goal_id run = i
      | EntityType_Roadmap \<Rightarrow> pr_roadmap_id run = i
      | EntityType_WorkPoint \<Rightarrow> pr_work_point_id run = i
      | _ \<Rightarrow> True)"

section \<open>Parallel safety\<close>

definition workflow_literal_prefix :: "string \<Rightarrow> string" where
  "workflow_literal_prefix selector = takeWhile (\<lambda>c. c \<notin> {CHR ''*'', CHR ''?'', CHR ''[''}) selector"

definition file_scopes_overlap :: "file_scope_record \<Rightarrow> file_scope_record \<Rightarrow> bool" where
  "file_scopes_overlap left right =
     (let left_selector = replace_char (CHR 0x5C) (CHR ''/'') (fs_selector left);
          right_selector = replace_char (CHR 0x5C) (CHR ''/'') (fs_selector right) in
      if fs_selector_type left = FileScopeSelectorType_Exact \<and> fs_selector_type right = FileScopeSelectorType_Exact
      then left_selector = right_selector
      else
      let left_prefix = workflow_literal_prefix left_selector;
          right_prefix = workflow_literal_prefix right_selector in
      left_prefix = [] \<or> right_prefix = [] \<or> starts_with left_prefix right_prefix \<or> starts_with right_prefix left_prefix)"

definition has_parallel_edge :: "planning_graph_edge list \<Rightarrow> string \<Rightarrow> string \<Rightarrow> bool" where
  "has_parallel_edge edges left right =
     list_ex (\<lambda>e. ge_kind e = PlanningEdgeKind_ParallelSafeWith \<and> ge_status e = ''active''
       \<and> (ge_source_node_id e = left \<and> ge_target_node_id e = right
          \<or> ge_source_node_id e = right \<and> ge_target_node_id e = left)) edges"

definition hints_overlap :: "workflow_delegation_hint \<Rightarrow> workflow_delegation_hint \<Rightarrow> bool" where
  "hints_overlap left right =
     list_ex (\<lambda>l. list_ex (file_scopes_overlap l) (dh_file_scopes right)) (dh_file_scopes left)"

text \<open>The double loop over the candidates: every pair is joined by an edge and has disjoint scopes.\<close>

fun all_parallel :: "planning_graph_edge list \<Rightarrow> (string \<times> workflow_delegation_hint) list \<Rightarrow> bool" where
  "all_parallel edges [] = True"
| "all_parallel edges ((left_id, left) # rest) =
     (list_all (\<lambda>(right_id, right). has_parallel_edge edges left_id right_id \<and> \<not> hints_overlap left right) rest
      \<and> all_parallel edges rest)"

definition scoped_candidates ::
    "graph_runnable_result \<Rightarrow> workflow_delegation_hint list \<Rightarrow> (string \<times> workflow_delegation_hint) list" where
  "scoped_candidates runnable hints =
     List.map_filter (\<lambda>c. case List.find (\<lambda>h. dh_node_id h = gc_node_id c) hints of
         Some h \<Rightarrow> if dh_file_scopes h \<noteq> [] then Some (gc_node_id c, h) else None
       | None \<Rightarrow> None) (gr_candidates runnable)"

definition workflow_parallel_safe_candidate_count ::
    "graph_runnable_result \<Rightarrow> workflow_delegation_hint list \<Rightarrow> planning_graph_edge list \<Rightarrow> nat" where
  "workflow_parallel_safe_candidate_count runnable hints edges =
     (if length (gr_candidates runnable) < 2 then length (gr_candidates runnable)
      else
      let candidates = scoped_candidates runnable hints in
      if length candidates \<noteq> length (gr_candidates runnable) then 0
      else if \<not> all_parallel edges candidates then 0
      else length candidates)"

section \<open>Plan and view\<close>

definition evidence_kinds_of_node :: "planning_graph_node \<Rightarrow> evidence_kind list" where
  "evidence_kinds_of_node node =
     (case Option.bind (json_get ''requiredEvidenceKinds'' (gn_payload node)) json_as_array of
        None \<Rightarrow> []
      | Some required \<Rightarrow>
          List.map_filter (\<lambda>v. Option.bind (json_as_str v) (\<lambda>s. parsed (evidence_kind_from_str s))) required)"

definition workflow_required_evidence_kinds :: "planning_graph_node list \<Rightarrow> evidence_kind list" where
  "workflow_required_evidence_kinds nodes =
     fold (\<lambda>kind kinds. if kind \<in> set kinds then kinds else kinds @ [kind])
       (concat (map evidence_kinds_of_node (filter (\<lambda>n. gn_kind n = PlanningNodeKind_Acceptance) nodes)))
       [EvidenceKind_CommandResult, EvidenceKind_TestResult]"

definition workflow_execution_plan_of ::
    "graph_runnable_result \<Rightarrow> workflow_delegation_hint list \<Rightarrow> planning_graph_edge list \<Rightarrow> workflow_execution_plan" where
  "workflow_execution_plan_of runnable hints edges =
     (let node_ids = map gc_node_id (gr_candidates runnable);
          blocked_node_ids = map bg_node_id (gr_blocked runnable) in
      if node_ids = [] then
        \<lparr>xp_strategy = ''blocked-or-empty'', xp_phases = [], xp_blocked_node_ids = blocked_node_ids,
         xp_rationale = ''no runnable graph work is currently available''\<rparr>
      else
      let max_concurrency = min 3 (max 1 (workflow_parallel_safe_candidate_count runnable hints edges)) in
      \<lparr>xp_strategy = ''next-runnable-batch'',
       xp_phases = [\<lparr>xph_id = ''phase-1'', xph_index = 1,
         xph_mode = (if max_concurrency > 1 then ''bounded-parallel'' else ''sequential''),
         xph_node_ids = node_ids, xph_max_concurrency = max_concurrency,
         xph_worker_profiles = remdups_adj (sort (map dh_worker_profile
           (filter (\<lambda>h. dh_node_id h \<in> set node_ids) hints))),
         xph_rationale = ''phase contains currently runnable graph work; later phases require refreshed planning state''\<rparr>],
       xp_blocked_node_ids = blocked_node_ids,
       xp_rationale = ''derive one executable batch from current runnable graph state and require refresh after writeback''\<rparr>)"

definition count_status :: "project_run_status \<Rightarrow> project_run_record list \<Rightarrow> nat" where
  "count_status s runs = length (filter (\<lambda>r. pr_status r = s) runs)"

definition status_counts :: "project_run_record list \<Rightarrow> project_run_status_counts" where
  "status_counts runs =
     \<lparr>prc_suggested = count_status ProjectRunStatus_Suggested runs,
      prc_claimed = count_status ProjectRunStatus_Claimed runs,
      prc_active = count_status ProjectRunStatus_Active runs,
      prc_interrupted = count_status ProjectRunStatus_Interrupted runs,
      prc_completed = count_status ProjectRunStatus_Completed runs,
      prc_failed = count_status ProjectRunStatus_Failed runs,
      prc_cancelled = count_status ProjectRunStatus_Cancelled runs,
      prc_released = count_status ProjectRunStatus_Released runs\<rparr>"

definition load_all_graph_nodes :: "planning_store \<Rightarrow> string \<Rightarrow> planning_graph_node list" where
  "load_all_graph_nodes st scope_key =
     sort_key gn_id (filter (\<lambda>n. gn_scope_key n = normalize_scope_key_value scope_key) (planning_nodes st))"

definition load_all_graph_edges :: "planning_store \<Rightarrow> string \<Rightarrow> planning_graph_edge list" where
  "load_all_graph_edges st scope_key =
     sort_key ge_id (filter (\<lambda>e. ge_scope_key e = normalize_scope_key_value scope_key) (planning_edges st))"

definition list_project_runs_in_scope :: "planning_store \<Rightarrow> string \<Rightarrow> project_run_record list" where
  "list_project_runs_in_scope st scope_key =
     sort_by (\<lambda>a b. pr_updated_at b < pr_updated_at a \<or> pr_updated_at a = pr_updated_at b \<and> pr_id a \<le> pr_id b)
       (filter (\<lambda>r. pr_scope_key r = normalize_scope_key_value scope_key) (project_runs st))"

definition adapter_policy :: workflow_adapter_policy where
  "adapter_policy = \<lparr>wap_orchestration_owner = ''host-main-thread'', wap_execution_owner = ''host-adapter'',
     wap_max_delegate_depth = 1, wap_default_orchestrator_model_tier = ''xhigh'',
     wap_worker_model_tiers = [''low'', ''medium'', ''high''],
     wap_degradation_rules = [''use fewer workers before dropping evidence requirements'',
       ''prefer read-only exploration when file scopes are unknown'', ''record host capability gaps as evidence''],
     wap_required_writebacks = [''project-run claim/activate/release'', ''project-run evidence for worker outputs'',
       ''graph evidence or discovery records for durable findings'']\<rparr>"

definition evidence_policy :: "evidence_kind list \<Rightarrow> workflow_evidence_policy" where
  "evidence_policy kinds = \<lparr>wep_required_evidence_kinds = kinds,
     wep_validation_gates = [''record worker claims as evidence'',
       ''run narrowest relevant validation before completion'',
       ''record failed, cancelled, and refuted work as evidence''],
     wep_stop_conditions = [''missing source entity'', ''cross-scope dependency'', ''active lease conflict'',
       ''validation gate failed'']\<rparr>"

text \<open>The runnable work of the scope restricted to the nodes of the source.\<close>

definition restrict_runnable :: "string set \<Rightarrow> graph_runnable_result \<Rightarrow> graph_runnable_result" where
  "restrict_runnable ids r = \<lparr>gr_candidates = filter (\<lambda>c. gc_node_id c \<in> ids) (gr_candidates r),
     gr_blocked = filter (\<lambda>c. bg_node_id c \<in> ids) (gr_blocked r)\<rparr>"

definition workflow_view_in_scope ::
    "planning_store \<Rightarrow> string \<Rightarrow> entity_type \<Rightarrow> string \<Rightarrow> workflow_view result" where
  "workflow_view_in_scope st scope_key et i =
     (let normalized = normalize_scope_key_value scope_key in
      tryE (ensure_entity_in_scope st et i normalized) (\<lambda>_.
      let nodes = workflow_nodes_for_source (load_all_graph_nodes st normalized) et i;
          node_ids = set (map gn_id nodes);
          edges = filter (\<lambda>e. ge_source_node_id e \<in> node_ids \<and> ge_target_node_id e \<in> node_ids)
            (load_all_graph_edges st normalized) in
      tryE (find_runnable_graph_work st normalized) (\<lambda>all_runnable.
      let runnable = restrict_runnable node_ids all_runnable;
          runs = filter (\<lambda>r. workflow_project_run_matches_source r et i) (list_project_runs_in_scope st normalized);
          hints = map workflow_delegation_hint_for_node (filter (\<lambda>n. gn_kind n = PlanningNodeKind_Work) nodes) in
      Inr \<lparr>wv_schema_version = ''workflow-view/v1'', wv_scope_key = normalized,
           wv_source = \<lparr>wvs_entity_type = et, wvs_entity_id = i\<rparr>,
           wv_nodes = map (\<lambda>n. \<lparr>wvn_id = gn_id n, wvn_kind = gn_kind n, wvn_title = gn_title n,
             wvn_status = gn_status n, wvn_tags = gn_tags n\<rparr>) nodes,
           wv_edges = map (\<lambda>e. \<lparr>wve_id = ge_id e, wve_kind = ge_kind e, wve_source_node_id = ge_source_node_id e,
             wve_target_node_id = ge_target_node_id e, wve_status = ge_status e\<rparr>) edges,
           wv_runnable = runnable, wv_adapter_policy = adapter_policy,
           wv_execution_plan = workflow_execution_plan_of runnable hints edges,
           wv_delegation_hints = hints,
           wv_evidence_policy = evidence_policy (workflow_required_evidence_kinds nodes),
           wv_budgets = \<lparr>wb_max_workers = 3, wb_max_retries_per_node = 1, wb_max_context_tokens_estimate = 24000\<rparr>,
           wv_metrics = \<lparr>wm_total_nodes = length nodes, wm_total_edges = length edges,
             wm_runnable_count = length (gr_candidates runnable), wm_blocked_count = length (gr_blocked runnable),
             wm_delegation_hint_count = length hints,
             wm_parallel_safe_candidate_count = workflow_parallel_safe_candidate_count runnable hints edges,
             wm_estimated_context_tokens = sum_list (map dh_max_context_tokens_estimate hints),
             wm_project_run_status_counts = status_counts runs\<rparr>\<rparr>)))"

end
