(* ===== verification/Workflow.thy ===== *)
theory Workflow
  imports WorkflowView
begin

text \<open>
  Workflow batches (\<open>storage.rs\<close>, \<open>prepare_workflow\<close> and \<open>record_workflow_result\<close>): a batch turns the first phase
  of the execution plan into project runs with leases and dispatch contracts, in one transaction; a worker's
  result comes back under the fencing token of its run, in one transaction.
\<close>

section \<open>Data\<close>

record prepare_workflow_input =
  pw_scope_key :: string
  pw_entity_type :: entity_type
  pw_entity_id :: string
  pw_correlation_id :: string
  pw_adapter_id :: string
  pw_capabilities :: "string list"
  pw_owner_id :: "string option"
  pw_session_id :: "string option"
  pw_repo_id :: "string option"
  pw_branch :: "string option"
  pw_worktree_id :: "string option"
  pw_run_id :: "string option"
  pw_max_workers :: nat
  pw_lease_seconds :: int

record workflow_handoff =
  wh_title :: string
  wh_summary :: string
  wh_acceptance :: "string list"
  wh_stop_conditions :: "string list"

record workflow_worker_budget =
  wwb_max_context_tokens_estimate :: nat
  wwb_max_output_bytes :: nat
  wwb_wall_time_minutes_estimate :: nat
  wwb_max_attempts :: nat

record workflow_dispatch =
  wd_schema_version :: string
  wd_dispatch_id :: string
  wd_scope_key :: string
  wd_adapter_id :: string
  wd_required_capabilities :: "string list"
  wd_source :: workflow_view_source
  wd_node_id :: string
  wd_source_revision :: int
  wd_project_run :: project_run_record
  wd_fencing_token :: int
  wd_idempotency_key :: string
  wd_phase_id :: string
  wd_role :: string
  wd_worker_profile :: string
  wd_recommended_subagent :: string
  wd_complexity :: string
  wd_reasoning_class :: string
  wd_file_scopes :: "file_scope_record list"
  wd_allowed_actions :: "string list"
  wd_required_evidence_kinds :: "evidence_kind list"
  wd_handoff :: workflow_handoff
  wd_budget :: workflow_worker_budget

record workflow_prepare_skip =
  wps_node_id :: string
  wps_reason :: string

record workflow_prepare_result =
  wpr_schema_version :: string
  wpr_source :: workflow_view_source
  wpr_strategy :: string
  wpr_max_workers :: nat
  wpr_dispatches :: "workflow_dispatch list"
  wpr_skipped :: "workflow_prepare_skip list"
  wpr_blocked_node_ids :: "string list"

record workflow_worker_result =
  wwr_schema_version :: string
  wwr_dispatch_id :: string
  wwr_project_run_id :: string
  wwr_node_id :: string
  wwr_source_revision :: int
  wwr_fencing_token :: int
  wwr_idempotency_key :: string
  wwr_status :: workflow_result_status
  wwr_summary :: string
  wwr_reference :: "string option"
  wwr_content :: "string option"
  wwr_evidence_kind :: evidence_kind
  wwr_captured_at :: "string option"
  wwr_requested_status :: "string option"

record record_workflow_result_input =
  rw_result :: workflow_worker_result
  rw_active_scope_key :: "string option"
  rw_correlation_id :: string
  rw_run_id :: "string option"

record workflow_result_writeback =
  wrw_project_run :: project_run_record
  wrw_evidence :: "planning_graph_node option"
  wrw_attachment :: "planning_graph_edge option"
  wrw_status_update :: "planning_graph_node option"
  wrw_replayed :: bool

section \<open>Dispatch contracts\<close>

definition workflow_idempotency_key :: "entity_type \<Rightarrow> string \<Rightarrow> string \<Rightarrow> int \<Rightarrow> string \<Rightarrow> string" where
  "workflow_idempotency_key et entity_id node_id node_revision correlation_id =
     format [''workflow:'', entity_type_as_str et, '':'', entity_id, '':'', node_id, '':'', show_int node_revision,
             '':'', correlation_id]"

definition workflow_required_capabilities ::
    "planning_graph_node \<Rightarrow> workflow_delegation_hint \<Rightarrow> string list \<Rightarrow> string list" where
  "workflow_required_capabilities node hint requested =
     (let listed = (case Option.bind (json_get ''requiredCapabilities'' (gn_payload node)) json_as_array of
              None \<Rightarrow> [] | Some vs \<Rightarrow> List.map_filter json_as_str vs);
          capabilities = map to_ascii_lowercase (filter (\<lambda>v. v \<noteq> []) (map trim (requested @ listed)))
            @ (if dh_role hint = ''test-runner'' then [''validation''] else [])
            @ filter (has_tag node) [''browser'', ''container'', ''e2e''] in
      remdups_adj (sort capabilities))"

fun complexity_of :: "effort_tier \<Rightarrow> string" where
  "complexity_of EffortTier_Fast = ''light''"
| "complexity_of EffortTier_Balanced = ''standard''"
| "complexity_of EffortTier_Deep = ''heavy''"

fun reasoning_class_of :: "effort_tier \<Rightarrow> string" where
  "reasoning_class_of EffortTier_Fast = ''low''"
| "reasoning_class_of EffortTier_Balanced = ''medium''"
| "reasoning_class_of EffortTier_Deep = ''high''"

definition workflow_dispatch_from_parts ::
    "string \<Rightarrow> workflow_view_source \<Rightarrow> string \<Rightarrow> planning_graph_node \<Rightarrow> workflow_delegation_hint \<Rightarrow> string \<Rightarrow> string list
     \<Rightarrow> project_run_record \<Rightarrow> workflow_evidence_policy \<Rightarrow> workflow_dispatch" where
  "workflow_dispatch_from_parts scope_key src phase_id node hint adapter_id requested run policy =
     \<lparr>wd_schema_version = ''orchestrator-dispatch/v1'', wd_dispatch_id = format [''dispatch-'', pr_id run],
      wd_scope_key = scope_key, wd_adapter_id = adapter_id,
      wd_required_capabilities = workflow_required_capabilities node hint requested,
      wd_source = src, wd_node_id = gn_id node, wd_source_revision = gn_revision node, wd_project_run = run,
      wd_fencing_token = pr_fencing_token run,
      wd_idempotency_key = (case pr_idempotency_key run of None \<Rightarrow> [] | Some k \<Rightarrow> k),
      wd_phase_id = phase_id, wd_role = dh_role hint, wd_worker_profile = dh_worker_profile hint,
      wd_recommended_subagent = dh_recommended_subagent hint, wd_complexity = complexity_of (dh_effort_tier hint),
      wd_reasoning_class = reasoning_class_of (dh_effort_tier hint), wd_file_scopes = dh_file_scopes hint,
      wd_allowed_actions = dh_allowed_actions hint,
      wd_required_evidence_kinds = wep_required_evidence_kinds policy,
      wd_handoff = \<lparr>wh_title = gn_title node, wh_summary = gn_summary node,
        wh_acceptance = map evidence_kind_as_str (wep_required_evidence_kinds policy),
        wh_stop_conditions = [''planning source or file scope becomes stale'', ''required validation cannot run'',
          ''new work exceeds the dispatch scope'']\<rparr>,
      wd_budget = \<lparr>wwb_max_context_tokens_estimate = min (dh_max_context_tokens_estimate hint) 12000,
        wwb_max_output_bytes = 32 * 1024, wwb_wall_time_minutes_estimate = dh_wall_time_minutes_estimate hint,
        wwb_max_attempts = wrp_max_attempts (dh_retry_policy hint)\<rparr>\<rparr>"

section \<open>Preparing a batch\<close>

type_synonym prepared_work = "planning_graph_node \<times> workflow_delegation_hint \<times> project_run_record"

text \<open>The outcome of one candidate: a reason to skip it, or the node with its hint and run.\<close>

type_synonym prepare_outcome = "string + prepared_work"

definition activate_row :: "planning_store \<Rightarrow> string \<Rightarrow> int \<Rightarrow> string \<Rightarrow> planning_store" where
  "activate_row st i token now =
     st\<lparr>project_runs := update_where (\<lambda>r. pr_id r = i \<and> pr_fencing_token r = token)
          (\<lambda>r. r\<lparr>pr_status := ProjectRunStatus_Active, pr_revision := pr_revision r + 1, pr_updated_at := now\<rparr>)
          (project_runs st)\<rparr>"

definition log_run ::
    "environment \<Rightarrow> planning_store \<Rightarrow> prepare_workflow_input \<Rightarrow> project_run_record \<Rightarrow> string \<Rightarrow> planning_store result" where
  "log_run env st input record event_type =
     log_event env st EntityType_ProjectRun (pr_id record) EntityType_Roadmap (pr_roadmap_id record)
       (pw_correlation_id input) (pw_run_id input) event_type (project_run_json record)"

text \<open>A run with the idempotency key of the node exists already.\<close>

definition reuse_run ::
    "environment \<Rightarrow> planning_store \<Rightarrow> prepare_workflow_input \<Rightarrow> string \<Rightarrow> string \<Rightarrow> work_point_record \<Rightarrow> roadmap_record
     \<Rightarrow> project_run_record \<Rightarrow> ((string + project_run_record) \<times> planning_store) result" where
  "reuse_run env st input now key work_point roadmap existing =
     (if pr_work_point_id existing \<noteq> wp_id work_point \<or> pr_roadmap_id existing \<noteq> rm_id roadmap
         \<or> pr_goal_id existing \<noteq> rm_goal_id roadmap then Inl (invalid_json
        [(''code'', JStr ''WORKFLOW-IDEMPOTENCY-CONFLICT''),
         (''message'', JStr ''workflow idempotency key resolves to a different planning target''),
         (''idempotencyKey'', JStr key), (''projectRunId'', JStr (pr_id existing))])
      else if pr_status existing \<in> {ProjectRunStatus_Completed, ProjectRunStatus_Failed, ProjectRunStatus_Cancelled,
          ProjectRunStatus_Released}
      then Inr (Inl (format [''project run `'', pr_id existing, ''` is already terminal'']), st)
      else if \<not> is_ok (require_current_lease env existing (Some (pr_fencing_token existing)) now)
      then Inr (Inl (format [''project run `'', pr_id existing, ''` lease is expired'']), st)
      else if pr_status existing = ProjectRunStatus_Claimed then
        let st = activate_row st (pr_id existing) (pr_fencing_token existing) now in
        tryE (load_project_run st (pr_id existing)) (\<lambda>record.
        tryE (log_run env st input record ''project-run.activated'') (\<lambda>st.
        Inr (Inr record, st)))
      else Inr (Inr existing, st))"

definition prepared_record ::
    "prepare_workflow_input \<Rightarrow> string \<Rightarrow> string \<Rightarrow> string \<Rightarrow> work_point_record \<Rightarrow> roadmap_record \<Rightarrow> string \<Rightarrow> string \<Rightarrow> int
     \<Rightarrow> string \<Rightarrow> string \<Rightarrow> project_run_record" where
  "prepared_record input i scope_key owner_id work_point roadmap profile key token deadline now =
     \<lparr>pr_id = i, pr_scope_key = scope_key, pr_goal_id = rm_goal_id roadmap, pr_roadmap_id = rm_id roadmap,
      pr_work_point_id = wp_id work_point, pr_repo_id = pw_repo_id input, pr_branch = pw_branch input,
      pr_worktree_id = pw_worktree_id input, pr_session_id = pw_session_id input, pr_run_id = pw_run_id input,
      pr_profile_id = Some profile, pr_owner_id = owner_id, pr_idempotency_key = Some key,
      pr_fencing_token = token, pr_lease_expires_at = deadline, pr_heartbeat_at = now,
      pr_status = ProjectRunStatus_Claimed, pr_evidence = project_run_evidence_default, pr_revision = 1,
      pr_claimed_at = Some now, pr_completed_at = None, pr_created_at = now, pr_updated_at = now\<rparr>"

text \<open>A new run: claimed, logged, activated, logged again and validated.\<close>

definition start_run ::
    "environment \<Rightarrow> planning_store \<Rightarrow> prepare_workflow_input \<Rightarrow> string \<Rightarrow> string \<Rightarrow> int \<Rightarrow> string \<Rightarrow> string \<Rightarrow> string
     \<Rightarrow> work_point_record \<Rightarrow> roadmap_record \<Rightarrow> (project_run_record \<times> planning_store) result" where
  "start_run env st input scope_key owner_id lease_seconds now profile key work_point roadmap =
     (let (i, st) = new_id env st;
          token = next_fencing_token st (wp_id work_point) in
      tryE (lease_deadline env now lease_seconds) (\<lambda>deadline.
      let record = prepared_record input i scope_key owner_id work_point roadmap profile key token deadline now in
      tryE (insert_project_run st record) (\<lambda>st.
      tryE (log_run env st input record ''project-run.claimed'') (\<lambda>st.
      let st = activate_row st i token now in
      tryE (load_project_run st i) (\<lambda>active_record.
      tryE (log_run env st input active_record ''project-run.activated'') (\<lambda>st.
      tryE (validate_and_store env st EntityType_ProjectRun (pr_id active_record)) (\<lambda>(_, st).
      tryE (refresh_validation_target env st EntityType_WorkPoint (pr_work_point_id active_record)) (\<lambda>(_, st).
      Inr (active_record, st)))))))))"

text \<open>The part of a pass after the node was bound to an open work point.\<close>

definition prepare_bound ::
    "environment \<Rightarrow> planning_store \<Rightarrow> prepare_workflow_input \<Rightarrow> string \<Rightarrow> string \<Rightarrow> int \<Rightarrow> string
     \<Rightarrow> planning_graph_node \<Rightarrow> workflow_delegation_hint \<Rightarrow> work_point_record
     \<Rightarrow> ((string + project_run_record) \<times> planning_store) result" where
  "prepare_bound env st input scope_key owner_id lease_seconds now node hint work_point =
     tryE (ensure_referenced_entity_in_scope st EntityType_WorkPoint (wp_id work_point) ''workPointId'' scope_key) (\<lambda>_.
     tryE (load_roadmap st (wp_roadmap_id work_point)) (\<lambda>roadmap.
     tryE (ensure_referenced_entity_in_scope st EntityType_Roadmap (rm_id roadmap) ''roadmapId'' scope_key) (\<lambda>_.
     tryE (ensure_referenced_entity_in_scope st EntityType_Goal (rm_goal_id roadmap) ''goalId'' scope_key) (\<lambda>_.
     let key = workflow_idempotency_key (pw_entity_type input) (pw_entity_id input) (gn_id node) (gn_revision node)
           (pw_correlation_id input) in
     case List.find (\<lambda>r. run_key r = Some (scope_key, key)) (project_runs st) of
       Some row \<Rightarrow>
         tryE (load_project_run st (pr_id row)) (\<lambda>existing.
         reuse_run env st input now key work_point roadmap existing)
     | None \<Rightarrow>
         if active_lease_count env st (wp_id work_point) now > 0
         then Inr (Inl (format [''work point `'', wp_id work_point, ''` already has an active lease'']), st)
         else tryE (start_run env st input scope_key owner_id lease_seconds now (dh_worker_profile hint) key
                work_point roadmap) (\<lambda>(record, st). Inr (Inr record, st))))))"

definition prepare_node ::
    "environment \<Rightarrow> prepare_workflow_input \<Rightarrow> workflow_delegation_hint list \<Rightarrow> string \<Rightarrow> string \<Rightarrow> int \<Rightarrow> string
     \<Rightarrow> planning_store \<Rightarrow> string \<Rightarrow> (prepare_outcome \<times> planning_store) result" where
  "prepare_node env input hints scope_key owner_id lease_seconds now st node_id =
     (if is_not_found (load_graph_node st node_id)
      then Inr (Inl ''graph node disappeared while preparing workflow'', st)
      else
      tryE (load_graph_node st node_id) (\<lambda>node.
      if gn_status node \<notin> {''draft'', ''proposed'', ''active''}
      then Inr (Inl ''graph node is no longer runnable'', st)
      else case List.find (\<lambda>h. dh_node_id h = gn_id node) hints of
        None \<Rightarrow> Inr (Inl ''runnable node has no delegation policy'', st)
      | Some hint \<Rightarrow>
          (case workflow_work_point_id_for_node node of
             None \<Rightarrow> Inr (Inl ''graph work node is missing payload.workPointId'', st)
           | Some work_point_id \<Rightarrow>
               if is_not_found (load_work_point st work_point_id)
               then Inr (Inl (format [''work point `'', work_point_id, ''` was not found'']), st)
               else
               tryE (load_work_point st work_point_id) (\<lambda>work_point.
               if closed_status (wp_status work_point) then Inr (Inl ''work point is terminal'', st)
               else
               tryE (prepare_bound env st input scope_key owner_id lease_seconds now node hint work_point)
                 (\<lambda>(outcome, st). Inr (map_sum (\<lambda>s. s) (\<lambda>run. (node, hint, run)) outcome, st))))))"

fun prepare_loop ::
    "(planning_store \<Rightarrow> string \<Rightarrow> (prepare_outcome \<times> planning_store) result) \<Rightarrow> nat \<Rightarrow> string list
     \<Rightarrow> prepared_work list \<Rightarrow> workflow_prepare_skip list \<Rightarrow> planning_store
     \<Rightarrow> ((prepared_work list \<times> workflow_prepare_skip list) \<times> planning_store) result" where
  "prepare_loop step limit [] prepared skipped st = Inr ((prepared, skipped), st)"
| "prepare_loop step limit (node_id # rest) prepared skipped st =
     (if length prepared \<ge> limit then Inr ((prepared, skipped), st)
      else
      tryE (step st node_id) (\<lambda>(outcome, st).
      case outcome of
        Inl reason \<Rightarrow> prepare_loop step limit rest prepared (skipped @ [\<lparr>wps_node_id = node_id, wps_reason = reason\<rparr>]) st
      | Inr work \<Rightarrow> prepare_loop step limit rest (prepared @ [work]) skipped st))"

definition workflow_owner :: "prepare_workflow_input \<Rightarrow> string" where
  "workflow_owner input =
     (case pw_owner_id input of Some owner \<Rightarrow> owner | None \<Rightarrow>
      (case pw_session_id input of Some owner \<Rightarrow> owner | None \<Rightarrow>
       (case pw_run_id input of Some owner \<Rightarrow> owner | None \<Rightarrow> pw_correlation_id input)))"

definition first_phase :: "workflow_view \<Rightarrow> string \<times> string \<times> string list" where
  "first_phase view =
     (case xp_phases (wv_execution_plan view) of
        phase # _ \<Rightarrow> (xph_id phase, xph_mode phase, xph_node_ids phase)
      | [] \<Rightarrow> (''phase-1'', ''sequential'', []))"

text \<open>
  The source computes the view on a connection of its own before it opens the immediate transaction; here
  both read the same store, which leaves out a writer between the two.
\<close>

definition prepare_workflow ::
    "environment \<Rightarrow> planning_store \<Rightarrow> prepare_workflow_input \<Rightarrow> (workflow_prepare_result \<times> planning_store) result" where
  "prepare_workflow env st input =
     tryE (require_non_empty ''entityId'' (pw_entity_id input)) (\<lambda>_.
     tryE (require_non_empty ''correlationId'' (pw_correlation_id input)) (\<lambda>_.
     tryE (require_non_empty ''adapterId'' (pw_adapter_id input)) (\<lambda>_.
     if \<not> (1 \<le> pw_max_workers input \<and> pw_max_workers input \<le> 3)
     then Inl (invalid [''maxWorkers must be between 1 and 3''])
     else
     tryE (normalize_lease_seconds (Some (pw_lease_seconds input))) (\<lambda>lease_seconds.
     let scope_key = normalize_scope_key_value (pw_scope_key input) in
     tryE (workflow_view_in_scope st scope_key (pw_entity_type input) (pw_entity_id input)) (\<lambda>view.
     let (phase_id, phase_mode, candidate_ids) = first_phase view;
         max_workers = (if phase_mode = ''bounded-parallel'' then pw_max_workers input else 1) in
     tryE (now_string env st) (\<lambda>(now, st).
     tryE (prepare_loop (prepare_node env input (wv_delegation_hints view) scope_key (workflow_owner input)
              lease_seconds now) max_workers candidate_ids [] [] st) (\<lambda>((prepared, skipped), st).
     Inr (\<lparr>wpr_schema_version = ''workflow-prepare/v1'', wpr_source = wv_source view,
           wpr_strategy = xp_strategy (wv_execution_plan view), wpr_max_workers = max_workers,
           wpr_dispatches = map (\<lambda>(node, hint, run). workflow_dispatch_from_parts scope_key (wv_source view) phase_id
             node hint (pw_adapter_id input) (pw_capabilities input) run (wv_evidence_policy view)) prepared,
           wpr_skipped = skipped,
           wpr_blocked_node_ids = xp_blocked_node_ids (wv_execution_plan view)\<rparr>, st))))))))"

section \<open>Recording a result\<close>

fun workflow_result_graph_status :: "workflow_result_status \<Rightarrow> string" where
  "workflow_result_graph_status WorkflowResultStatus_Completed = ''completed''"
| "workflow_result_graph_status WorkflowResultStatus_Failed = ''blocked''"
| "workflow_result_graph_status WorkflowResultStatus_TimedOut = ''blocked''"
| "workflow_result_graph_status WorkflowResultStatus_Malformed = ''blocked''"
| "workflow_result_graph_status WorkflowResultStatus_Cancelled = ''cancelled''"

fun workflow_result_project_run_status :: "workflow_result_status \<Rightarrow> project_run_status" where
  "workflow_result_project_run_status WorkflowResultStatus_Completed = ProjectRunStatus_Completed"
| "workflow_result_project_run_status WorkflowResultStatus_Cancelled = ProjectRunStatus_Cancelled"
| "workflow_result_project_run_status WorkflowResultStatus_Failed = ProjectRunStatus_Failed"
| "workflow_result_project_run_status WorkflowResultStatus_TimedOut = ProjectRunStatus_Failed"
| "workflow_result_project_run_status WorkflowResultStatus_Malformed = ProjectRunStatus_Failed"

definition result_evidence_node ::
    "string \<Rightarrow> string \<Rightarrow> planning_graph_node \<Rightarrow> workflow_worker_result \<Rightarrow> string \<Rightarrow> planning_graph_node" where
  "result_evidence_node i scope_key node res now =
     \<lparr>gn_id = i, gn_scope_key = scope_key, gn_kind = PlanningNodeKind_Evidence,
      gn_title = format [''Workflow result for '', gn_id node], gn_summary = wwr_summary res, gn_status = ''active'',
      gn_payload = JObj
        [(''evidenceKind'', JStr (evidence_kind_as_str (wwr_evidence_kind res))), (''summary'', JStr (wwr_summary res)),
         (''reference'', JStr (case wwr_reference res of Some r \<Rightarrow> r | None \<Rightarrow> wwr_dispatch_id res)),
         (''content'', json_opt_str (wwr_content res)),
         (''capturedAt'', JStr (case wwr_captured_at res of Some t \<Rightarrow> t | None \<Rightarrow> now)),
         (''workflow'', JObj
           [(''dispatchId'', JStr (wwr_dispatch_id res)), (''projectRunId'', JStr (wwr_project_run_id res)),
            (''status'', JStr (workflow_result_status_as_str (wwr_status res))),
            (''sourceRevision'', JInt (wwr_source_revision res))])],
      gn_tags = [''workflow-result'', format [''workflow-status:'', workflow_result_status_as_str (wwr_status res)]],
      gn_revision = 1, gn_created_at = now, gn_updated_at = now\<rparr>"

definition insert_workflow_result_evidence ::
    "environment \<Rightarrow> planning_store \<Rightarrow> string \<Rightarrow> planning_graph_node \<Rightarrow> workflow_worker_result \<Rightarrow> string \<Rightarrow> string option
     \<Rightarrow> string \<Rightarrow> (planning_graph_node \<times> planning_store) result" where
  "insert_workflow_result_evidence env st scope_key node res correlation_id run_id now =
     (let (i, st) = new_id env st;
          record = result_evidence_node i scope_key node res now in
      tryE (insert_planning_node st record) (\<lambda>st.
      tryE (log_event env st EntityType_GraphNode i EntityType_GraphNode (gn_id node) correlation_id run_id
              ''graph-node.created'' (graph_node_json record)) (\<lambda>st.
      tryE (rebuild_tag_index_for_entity st EntityType_GraphNode i (gn_tags record)) (\<lambda>st.
      Inr (record, st)))))"

definition result_attachment_edge ::
    "string \<Rightarrow> planning_graph_node \<Rightarrow> planning_graph_node \<Rightarrow> workflow_worker_result \<Rightarrow> string \<Rightarrow> planning_graph_edge" where
  "result_attachment_edge i node evidence res now =
     \<lparr>ge_id = i, ge_scope_key = gn_scope_key node, ge_kind = PlanningEdgeKind_EvidencedBy,
      ge_source_node_id = gn_id node, ge_target_node_id = gn_id evidence, ge_status = ''active'',
      ge_payload = JObj [(''rationale'', JStr ''native workflow worker result''),
                         (''dispatchId'', JStr (wwr_dispatch_id res))],
      ge_revision = 1, ge_created_at = now, ge_updated_at = now\<rparr>"

definition insert_workflow_result_attachment ::
    "environment \<Rightarrow> planning_store \<Rightarrow> planning_graph_node \<Rightarrow> planning_graph_node \<Rightarrow> workflow_worker_result \<Rightarrow> string
     \<Rightarrow> string option \<Rightarrow> string \<Rightarrow> (planning_graph_edge \<times> planning_store) result" where
  "insert_workflow_result_attachment env st node evidence res correlation_id run_id now =
     (let (i, st) = new_id env st;
          record = result_attachment_edge i node evidence res now in
      tryE (insert_planning_edge st record) (\<lambda>st.
      tryE (log_event env st EntityType_GraphEdge i EntityType_GraphNode (gn_id node) correlation_id run_id
              ''graph-edge.created'' (graph_edge_json record)) (\<lambda>st.
      Inr (record, st))))"

definition update_workflow_node_status_in_transaction ::
    "environment \<Rightarrow> planning_store \<Rightarrow> planning_graph_node \<Rightarrow> string \<Rightarrow> string \<Rightarrow> string option \<Rightarrow> string
     \<Rightarrow> (planning_graph_node \<times> planning_store) result" where
  "update_workflow_node_status_in_transaction env st node status correlation_id run_id now =
     (let st = update_planning_node st (gn_id node) (\<lambda>r.
           r\<lparr>gn_status := status, gn_revision := gn_revision r + 1, gn_updated_at := now\<rparr>) in
      tryE (load_graph_node st (gn_id node)) (\<lambda>record.
      tryE (log_event env st EntityType_GraphNode (gn_id record) EntityType_GraphNode (gn_id record) correlation_id
              run_id ''graph-node.status-updated''
              (JObj (status_payload (gn_status record) (gn_status node) (gn_revision record)))) (\<lambda>st.
      tryE (refresh_validation_target env st EntityType_GraphNode (gn_id record)) (\<lambda>(_, st).
      Inr (record, st)))))"

text \<open>The checks before the transaction.\<close>

definition check_worker_result :: "workflow_worker_result \<Rightarrow> unit result" where
  "check_worker_result res =
     tryE (require_non_empty ''dispatchId'' (wwr_dispatch_id res)) (\<lambda>_.
     tryE (require_non_empty ''projectRunId'' (wwr_project_run_id res)) (\<lambda>_.
     tryE (require_non_empty ''nodeId'' (wwr_node_id res)) (\<lambda>_.
     tryE (require_non_empty ''idempotencyKey'' (wwr_idempotency_key res)) (\<lambda>_.
     tryE (require_non_empty ''summary'' (wwr_summary res)) (\<lambda>_.
     if wwr_schema_version res \<noteq> ''orchestrator-worker-result/v1''
     then Inl (invalid [''unsupported workflow worker result schema `'', wwr_schema_version res, ''`''])
     else if length (wwr_summary res) > 16384
     then Inl (invalid [''workflow result summary exceeds 16384 bytes''])
     else if (case wwr_content res of Some content \<Rightarrow> length content > 1048576 | None \<Rightarrow> False)
     then Inl (invalid [''workflow result content exceeds 1048576 bytes''])
     else Inr ())))))"

text \<open>The result names the dispatch, the key and the token of its run.\<close>

definition match_dispatch :: "workflow_worker_result \<Rightarrow> project_run_record \<Rightarrow> unit result" where
  "match_dispatch res existing =
     (let expected_dispatch_id = format [''dispatch-'', pr_id existing] in
      if wwr_dispatch_id res \<noteq> expected_dispatch_id then Inl (invalid_json
        [(''code'', JStr ''WORKFLOW-RESULT-DISPATCH-MISMATCH''),
         (''message'', JStr ''worker result dispatch ID does not match the prepared project run''),
         (''projectRunId'', JStr (pr_id existing)), (''expectedDispatchId'', JStr expected_dispatch_id),
         (''actualDispatchId'', JStr (wwr_dispatch_id res))])
      else if pr_idempotency_key existing \<noteq> Some (wwr_idempotency_key res) then Inl (invalid_json
        [(''code'', JStr ''WORKFLOW-RESULT-IDEMPOTENCY-MISMATCH''),
         (''message'', JStr ''worker result idempotency key does not match the prepared project run''),
         (''projectRunId'', JStr (pr_id existing))])
      else if wwr_fencing_token res \<noteq> pr_fencing_token existing then Inl (invalid_json
        [(''code'', JStr ''PROJECT-RUN-STALE-FENCING-TOKEN''),
         (''message'', JStr ''the project run fencing token is stale''),
         (''projectRunId'', JStr (pr_id existing)),
         (''expectedFencingToken'', JInt (pr_fencing_token existing)),
         (''actualFencingToken'', JInt (wwr_fencing_token res))])
      else Inr ())"

text \<open>The node is a work node, bound to the work point of the run and unchanged since the dispatch.\<close>

definition match_node :: "workflow_worker_result \<Rightarrow> project_run_record \<Rightarrow> planning_graph_node \<Rightarrow> unit result" where
  "match_node res existing node =
     (if gn_kind node \<noteq> PlanningNodeKind_Work
      then Inl (invalid [''workflow result node must be a work graph node''])
      else if workflow_work_point_id_for_node node \<noteq> Some (pr_work_point_id existing)
      then Inl (invalid [''workflow result node is not bound to the project run work point''])
      else if gn_revision node \<noteq> wwr_source_revision res then Inl (invalid_json
        [(''code'', JStr ''WORKFLOW-RESULT-SOURCE-REVISION-STALE''),
         (''message'', JStr ''the graph node changed after the worker was dispatched''),
         (''nodeId'', JStr (gn_id node)), (''expectedRevision'', JInt (wwr_source_revision res)),
         (''actualRevision'', JInt (gn_revision node))])
      else Inr ())"

definition finish_run ::
    "environment \<Rightarrow> planning_store \<Rightarrow> record_workflow_result_input \<Rightarrow> project_run_record \<Rightarrow> string \<Rightarrow> string
     \<Rightarrow> (project_run_record \<times> planning_store) result" where
  "finish_run env st input existing evidence_id now =
     (let res = rw_result input;
          evidence = (pr_evidence existing)
            \<lparr>pe_implementation_run_refs := pe_implementation_run_refs (pr_evidence existing) @ [evidence_id],
             pe_workflow_result_keys := pe_workflow_result_keys (pr_evidence existing) @ [wwr_idempotency_key res]\<rparr>;
          status = workflow_result_project_run_status (wwr_status res);
          completed_at = (if status = ProjectRunStatus_Completed then Some now else None);
          hit = (\<lambda>r. pr_id r = pr_id existing \<and> pr_fencing_token r = wwr_fencing_token res) in
      if length (filter hit (project_runs st)) \<noteq> 1
      then Inl (invalid [''project run changed while recording workflow result''])
      else
      let st = st\<lparr>project_runs := update_where hit (\<lambda>r. r\<lparr>pr_status := status, pr_evidence := evidence,
            pr_completed_at := completed_at, pr_revision := pr_revision r + 1, pr_updated_at := now\<rparr>)
            (project_runs st)\<rparr> in
      tryE (load_project_run st (wwr_project_run_id res)) (\<lambda>run.
      tryE (log_event env st EntityType_ProjectRun (pr_id run) EntityType_Roadmap (pr_roadmap_id run)
              (rw_correlation_id input) (rw_run_id input) ''project-run.released'' (project_run_json run)) (\<lambda>st.
      tryE (validate_and_store env st EntityType_ProjectRun (pr_id run)) (\<lambda>(_, st).
      tryE (refresh_validation_target env st EntityType_WorkPoint (pr_work_point_id run)) (\<lambda>(_, st).
      Inr (run, st))))))"

definition write_result ::
    "environment \<Rightarrow> planning_store \<Rightarrow> record_workflow_result_input \<Rightarrow> string \<Rightarrow> project_run_record \<Rightarrow> planning_graph_node
     \<Rightarrow> string \<Rightarrow> (workflow_result_writeback \<times> planning_store) result" where
  "write_result env st input scope_key existing node now =
     (let res = rw_result input in
      tryE (insert_workflow_result_evidence env st scope_key node res (rw_correlation_id input) (rw_run_id input) now)
        (\<lambda>(evidence, st).
      tryE (insert_workflow_result_attachment env st node evidence res (rw_correlation_id input) (rw_run_id input) now)
        (\<lambda>(attachment, st).
      let status_value = (case wwr_requested_status res of
            Some s \<Rightarrow> s | None \<Rightarrow> workflow_result_graph_status (wwr_status res)) in
      if status_value \<noteq> workflow_result_graph_status (wwr_status res)
      then Inl (invalid [''statusUpdate must match the worker result status''])
      else
      tryE (require_kebab_token ''statusUpdate'' status_value) (\<lambda>_.
      tryE (update_workflow_node_status_in_transaction env st node status_value (rw_correlation_id input)
              (rw_run_id input) now) (\<lambda>(status_update, st).
      tryE (finish_run env st input existing (gn_id evidence) now) (\<lambda>(run, st).
      Inr (\<lparr>wrw_project_run = run, wrw_evidence = Some evidence, wrw_attachment = Some attachment,
            wrw_status_update = Some status_update, wrw_replayed = False\<rparr>, st)))))))"

definition record_workflow_result_tx ::
    "environment \<Rightarrow> planning_store \<Rightarrow> record_workflow_result_input
     \<Rightarrow> (workflow_result_writeback \<times> planning_store) result" where
  "record_workflow_result_tx env st input =
     (let res = rw_result input;
          scope_key = normalized_scope_key (rw_active_scope_key input) in
      tryE (check_worker_result res) (\<lambda>_.
      tryE (ensure_entity_in_scope st EntityType_ProjectRun (wwr_project_run_id res) scope_key) (\<lambda>_.
      tryE (ensure_entity_in_scope st EntityType_GraphNode (wwr_node_id res) scope_key) (\<lambda>_.
      tryE (load_project_run st (wwr_project_run_id res)) (\<lambda>existing.
      tryE (match_dispatch res existing) (\<lambda>_.
      if wwr_idempotency_key res \<in> set (pe_workflow_result_keys (pr_evidence existing)) then
        Inr (\<lparr>wrw_project_run = existing, wrw_evidence = None, wrw_attachment = None, wrw_status_update = None,
              wrw_replayed = True\<rparr>, st)
      else
      tryE (now_string env st) (\<lambda>(now, st).
      tryE (require_current_lease env existing (Some (wwr_fencing_token res)) now) (\<lambda>_.
      if pr_status existing \<in> {ProjectRunStatus_Completed, ProjectRunStatus_Failed, ProjectRunStatus_Cancelled,
          ProjectRunStatus_Released}
      then Inl (ProjectRunStatusMismatch ''claimed or active'' (project_run_status_as_str (pr_status existing)))
      else
      tryE (load_graph_node st (wwr_node_id res)) (\<lambda>node.
      tryE (match_node res existing node) (\<lambda>_.
      write_result env st input scope_key existing node now))))))))))"

text \<open>The session file follows, its errors are ignored; a replayed result leaves it alone.\<close>

definition record_workflow_result ::
    "environment \<Rightarrow> world \<Rightarrow> record_workflow_result_input \<Rightarrow> (workflow_result_writeback \<times> world) result" where
  "record_workflow_result env w input = (case w of (st, d) \<Rightarrow>
     tryE (record_workflow_result_tx env st input) (\<lambda>(res, st).
     if wrw_replayed res then Inr (res, (st, d))
     else Inr (res, (st, best_effort d (clear_active_project_run d (Some (pr_work_point_id (wrw_project_run res))))))))"

definition count_active_runs_for_session ::
    "environment \<Rightarrow> planning_store \<Rightarrow> string \<Rightarrow> (nat \<times> planning_store) result" where
  "count_active_runs_for_session env st session_id =
     tryE (now_string env st) (\<lambda>(now, st).
     Inr (length (filter (\<lambda>r. pr_session_id r = Some session_id \<and> open_status (pr_status r) \<and> lease_live env now r)
       (project_runs st)), st))"

end
