(* ===== verification/WorkflowProperties.thy ===== *)
theory WorkflowProperties
  imports Workflow EntityRefinement RunProperties
begin

text \<open>
  What workflow batches guarantee: nodes that run in parallel declared it and touch disjoint files, a batch
  never gives a work point a second live lease, and the result of a worker is written once, by the holder of
  the current token, without breaking the graph.
\<close>

section \<open>Parallel phases\<close>

text \<open>
  The paths a file scope may touch: an exact selector names one path, every path a glob matches starts with
  the characters before its first wildcard.
\<close>

definition scope_covers :: "file_scope_record \<Rightarrow> string \<Rightarrow> bool" where
  "scope_covers f p =
     (let selector = replace_char (CHR 0x5C) (CHR ''/'') (fs_selector f) in
      if fs_selector_type f = FileScopeSelectorType_Exact then p = selector
      else starts_with p (workflow_literal_prefix selector))"

lemma literal_prefix_starts: "starts_with s (workflow_literal_prefix s)"
  unfolding workflow_literal_prefix_def starts_with_append by (metis takeWhile_dropWhile_id)

lemma starts_with_linear:
  assumes "starts_with p a" "starts_with p b"
  shows "starts_with a b \<or> starts_with b a"
proof -
  from assms obtain x y where "a @ x = b @ y" unfolding starts_with_append by metis
  then show ?thesis unfolding starts_with_append append_eq_append_conv2 by metis
qed

lemma overlap_complete:
  assumes "scope_covers l p" "scope_covers r p"
  shows "file_scopes_overlap l r"
proof -
  let ?sel = "\<lambda>f. replace_char (CHR 0x5C) (CHR ''/'') (fs_selector f)"
  have "starts_with p (workflow_literal_prefix (?sel f))" if "scope_covers f p" for f
    using that literal_prefix_starts by (auto simp: scope_covers_def Let_def split: if_split_asm)
  with assms have "starts_with p (workflow_literal_prefix (?sel l))" "starts_with p (workflow_literal_prefix (?sel r))" by blast+
  from starts_with_linear [OF this] assms show ?thesis
    by (auto simp: file_scopes_overlap_def scope_covers_def Let_def split: if_split_asm)
qed

lemma all_parallel_iff:
  "all_parallel edges cs \<longleftrightarrow>
     sorted_wrt (\<lambda>(a, l) (b, r). has_parallel_edge edges a b \<and> \<not> hints_overlap l r) cs"
  by (induction edges cs rule: all_parallel.induct) (auto simp: list_all_iff)

lemma map_filter_full:
  "length (List.map_filter f xs) = length xs \<Longrightarrow> List.map_filter f xs = map (\<lambda>x. the (f x)) xs \<and> (\<forall>x\<in>set xs. f x \<noteq> None)"
proof (induction xs)
  case (Cons x xs)
  have "length (List.map_filter f xs) \<le> length xs" by (induction xs) (auto simp: map_filter_simps split: option.split)
  with Cons show ?case by (auto simp: map_filter_simps split: option.split_asm)
qed (simp add: map_filter_simps)

lemma scoped_candidates_full:
  assumes "length (scoped_candidates runnable hints) = length (gr_candidates runnable)" "n < length (gr_candidates runnable)"
  obtains h where "scoped_candidates runnable hints ! n = (gc_node_id (gr_candidates runnable ! n), h)"
    "h \<in> set hints" "dh_node_id h = gc_node_id (gr_candidates runnable ! n)"
proof -
  let ?c = "gr_candidates runnable ! n"
  let ?f = "\<lambda>c. case List.find (\<lambda>h. dh_node_id h = gc_node_id c) hints of
         Some h \<Rightarrow> if dh_file_scopes h \<noteq> [] then Some (gc_node_id c, h) else None
       | None \<Rightarrow> None"
  from map_filter_full [of ?f "gr_candidates runnable"] assms
  have nth: "scoped_candidates runnable hints ! n = the (?f ?c)" and some: "?f ?c \<noteq> None"
    by (simp_all add: scoped_candidates_def)
  from some obtain h where h: "List.find (\<lambda>h. dh_node_id h = gc_node_id ?c) hints = Some h" "?f ?c = Some (gc_node_id ?c, h)"
    by (auto split: option.split_asm if_split_asm)
  from h(1) have "h \<in> set hints" "dh_node_id h = gc_node_id ?c" by (auto simp: find_Some_iff)
  with nth h(2) show ?thesis by (intro that [of h]) simp_all
qed

lemma parallel_count_pairs:
  assumes count: "workflow_parallel_safe_candidate_count runnable hints edges > 1"
    and ab: "a < b" "b < length (gr_candidates runnable)"
  obtains ha hb where "ha \<in> set hints" "hb \<in> set hints" "dh_node_id ha = gc_node_id (gr_candidates runnable ! a)"
    "dh_node_id hb = gc_node_id (gr_candidates runnable ! b)" "has_parallel_edge edges (dh_node_id ha) (dh_node_id hb)"
    "\<not> hints_overlap ha hb"
proof -
  let ?cs = "scoped_candidates runnable hints"
  from count have len: "length ?cs = length (gr_candidates runnable)" and par: "all_parallel edges ?cs"
    by (auto simp: workflow_parallel_safe_candidate_count_def Let_def split: if_split_asm)
  obtain ha where ha: "?cs ! a = (gc_node_id (gr_candidates runnable ! a), ha)" "ha \<in> set hints"
    "dh_node_id ha = gc_node_id (gr_candidates runnable ! a)"
    using scoped_candidates_full [OF len, of a] ab by (metis less_trans)
  obtain hb where hb: "?cs ! b = (gc_node_id (gr_candidates runnable ! b), hb)" "hb \<in> set hints"
    "dh_node_id hb = gc_node_id (gr_candidates runnable ! b)"
    using scoped_candidates_full [OF len ab(2)] by metis
  from par ab len have "has_parallel_edge edges (dh_node_id ha) (dh_node_id hb) \<and> \<not> hints_overlap ha hb"
    unfolding all_parallel_iff sorted_wrt_iff_nth_less using ha(1,3) hb(1,3) by fastforce
  with ha hb show ?thesis by (intro that) auto
qed

lemma view_plan:
  assumes "workflow_view_in_scope st k et i = Inr view"
  shows "\<exists>edges. set edges \<subseteq> set (planning_edges st)
    \<and> wv_execution_plan view = workflow_execution_plan_of (wv_runnable view) (wv_delegation_hints view) edges"
  using assms unfolding workflow_view_in_scope_def Let_def tryE_Inr_iff
  apply clarsimp
  apply (intro exI conjI [rotated], rule refl)
  apply (auto simp: load_all_graph_edges_def)
  done

text \<open>
  A phase whose mode is \<open>bounded-parallel\<close> is safe to run in parallel: any two of its nodes are joined by
  an active \<open>parallel-safe-with\<close> edge of the store, and no path is covered by a file scope of both nodes.
\<close>

lemma parallel_phase_safe:
  assumes view: "workflow_view_in_scope st k et i = Inr view"
    and phase: "phase \<in> set (xp_phases (wv_execution_plan view))" "xph_mode phase = ''bounded-parallel''"
    and ab: "a < b" "b < length (xph_node_ids phase)"
  shows "\<exists>ha hb e. ha \<in> set (wv_delegation_hints view) \<and> hb \<in> set (wv_delegation_hints view)
    \<and> dh_node_id ha = xph_node_ids phase ! a \<and> dh_node_id hb = xph_node_ids phase ! b
    \<and> e \<in> set (planning_edges st) \<and> ge_kind e = PlanningEdgeKind_ParallelSafeWith \<and> ge_status e = ''active''
    \<and> {ge_source_node_id e, ge_target_node_id e} = {dh_node_id ha, dh_node_id hb}
    \<and> (\<nexists>l r p. l \<in> set (dh_file_scopes ha) \<and> r \<in> set (dh_file_scopes hb) \<and> scope_covers l p \<and> scope_covers r p)"
proof -
  let ?run = "wv_runnable view" and ?hints = "wv_delegation_hints view"
  from view_plan [OF view] obtain edges where edges: "set edges \<subseteq> set (planning_edges st)"
    and plan: "wv_execution_plan view = workflow_execution_plan_of ?run ?hints edges" by blast
  from phase have count: "workflow_parallel_safe_candidate_count ?run ?hints edges > 1"
    and ids: "xph_node_ids phase = map gc_node_id (gr_candidates ?run)"
    unfolding plan workflow_execution_plan_of_def Let_def by (auto split: if_split_asm)
  from ab ids have "b < length (gr_candidates ?run)" by simp
  from parallel_count_pairs [OF count ab(1) this] obtain ha hb where
    h: "ha \<in> set ?hints" "hb \<in> set ?hints" "dh_node_id ha = xph_node_ids phase ! a" "dh_node_id hb = xph_node_ids phase ! b"
    and par: "has_parallel_edge edges (dh_node_id ha) (dh_node_id hb)" and apart: "\<not> hints_overlap ha hb"
    using ids ab by auto
  from par edges obtain e where "e \<in> set (planning_edges st)" "ge_kind e = PlanningEdgeKind_ParallelSafeWith"
    "ge_status e = ''active''" "{ge_source_node_id e, ge_target_node_id e} = {dh_node_id ha, dh_node_id hb}"
    by (fastforce simp: has_parallel_edge_def list_ex_iff)
  moreover have "\<nexists>l r p. l \<in> set (dh_file_scopes ha) \<and> r \<in> set (dh_file_scopes hb) \<and> scope_covers l p \<and> scope_covers r p"
    using apart overlap_complete by (fastforce simp: hints_overlap_def list_ex_iff)
  ultimately show ?thesis using h by blast
qed

text \<open>Two work nodes that declare disjoint files and a \<open>parallel-safe-with\<close> edge.\<close>

definition scoped_node :: "string \<Rightarrow> string \<Rightarrow> planning_graph_node" where
  "scoped_node i path = (sample_node i PlanningNodeKind_Work)
     \<lparr>gn_payload := JObj [(''fileScopes'', JArr [JObj [(''selector'', JStr path)]])]\<rparr>"

definition left_node :: planning_graph_node where
  "left_node = scoped_node ''l'' ''a/*''"

definition right_node :: planning_graph_node where
  "right_node = scoped_node ''r'' ''b/*''"

definition parallel_edge :: planning_graph_edge where
  "parallel_edge = sample_edge ''e'' PlanningEdgeKind_ParallelSafeWith ''r'' ''l''"

definition parallel_store :: planning_store where
  "parallel_store = work_store\<lparr>planning_nodes := [left_node, right_node], planning_edges := [parallel_edge]\<rparr>"

lemma parallel_node_fields:
  "gn_id left_node = ''l''" "gn_scope_key left_node = ''default''" "gn_kind left_node = PlanningNodeKind_Work"
  "gn_status left_node = ''draft''" "gn_title left_node = ''l''" "workflow_node_has_planning_ref left_node = False"
  "gn_id right_node = ''r''" "gn_scope_key right_node = ''default''" "gn_kind right_node = PlanningNodeKind_Work"
  "gn_status right_node = ''draft''" "gn_title right_node = ''r''" "workflow_node_has_planning_ref right_node = False"
  "ge_id parallel_edge = ''e''" "ge_scope_key parallel_edge = ''default''" "ge_kind parallel_edge = PlanningEdgeKind_ParallelSafeWith"
  "ge_source_node_id parallel_edge = ''r''" "ge_target_node_id parallel_edge = ''l''" "ge_status parallel_edge = ''active''"
  by (simp_all add: left_node_def right_node_def scoped_node_def parallel_edge_def sample_edge_def sample_node_def
      workflow_node_has_planning_ref_def ref_str_def planning_ref_def)

definition scope_at :: "string \<Rightarrow> file_scope_record" where
  "scope_at path = \<lparr>fs_selector_type = FileScopeSelectorType_Glob, fs_selector = path, fs_intent = FileScopeIntent_Primary\<rparr>"

lemma parallel_hints:
  "dh_node_id (workflow_delegation_hint_for_node left_node) = ''l''" "dh_node_id (workflow_delegation_hint_for_node right_node) = ''r''"
  "dh_file_scopes (workflow_delegation_hint_for_node left_node) = [scope_at ''a/*'']"
  "dh_file_scopes (workflow_delegation_hint_for_node right_node) = [scope_at ''b/*'']"
  by (simp_all add: workflow_delegation_hint_for_node_def Let_def parallel_node_fields workflow_file_scopes_for_node_def
      left_node_def right_node_def scoped_node_def file_scope_of_json_def map_filter_simps scope_at_def
      normalize_file_scopes_def string_eval sample_node_def)

lemma parallel_scopes_apart: "\<not> file_scopes_overlap (scope_at ''a/*'') (scope_at ''b/*'')"
  by (simp add: file_scopes_overlap_def scope_at_def replace_char_def workflow_literal_prefix_def Let_def)

lemma parallel_tables:
  "planning_nodes parallel_store = [left_node, right_node]" "planning_edges parallel_store = [parallel_edge]"
  "roadmaps parallel_store = [sample_roadmap]"
  by (simp_all add: parallel_store_def work_store_def empty_store_def)

lemma parallel_runnable:
  "\<exists>l r. find_runnable_graph_work parallel_store ''default'' = Inr \<lparr>gr_candidates = [l, r], gr_blocked = []\<rparr>
     \<and> gc_node_id l = ''l'' \<and> gc_node_id r = ''r''"
  by (simp add: find_runnable_graph_work_def default_key work_nodes_def parallel_tables parallel_node_fields classify_node_def
      incomplete_deps_def active_blockers_def pending_ends_def list_outgoing_edges_in_scope_def
      list_incoming_edges_in_scope_def list_outgoing_edges_for_node_def list_incoming_edges_for_node_def map_filter_simps)

lemma parallel_view:
  "\<exists>view phase. workflow_view_in_scope parallel_store ''default'' EntityType_Roadmap ''rm'' = Inr view
     \<and> phase \<in> set (xp_phases (wv_execution_plan view)) \<and> xph_mode phase = ''bounded-parallel'' \<and> xph_node_ids phase = [''l'', ''r'']"
proof -
  obtain l r where lr: "find_runnable_graph_work parallel_store ''default'' = Inr \<lparr>gr_candidates = [l, r], gr_blocked = []\<rparr>"
    "gc_node_id l = ''l''" "gc_node_id r = ''r''" using parallel_runnable by blast
  then show ?thesis
    by (simp add: workflow_view_in_scope_def default_key ensure_entity_in_scope_def scope_key_for_entity.simps row_or_not_found_def
        parallel_tables sample_roadmap_def load_all_graph_nodes_def load_all_graph_edges_def workflow_nodes_for_source_def
        parallel_node_fields restrict_runnable_def workflow_execution_plan_of_def workflow_parallel_safe_candidate_count_def
        scoped_candidates_def map_filter_simps parallel_hints has_parallel_edge_def hints_overlap_def parallel_scopes_apart Let_def)
qed

lemma parallel_phase_safe_witness:
  "\<exists>(ha :: workflow_delegation_hint) (hb :: workflow_delegation_hint) e. dh_node_id ha = ''l'' \<and> dh_node_id hb = ''r'' \<and> e \<in> set (planning_edges parallel_store)
     \<and> {ge_source_node_id e, ge_target_node_id e} = {dh_node_id ha, dh_node_id hb}"
proof -
  obtain view phase where v: "workflow_view_in_scope parallel_store ''default'' EntityType_Roadmap ''rm'' = Inr view"
    "phase \<in> set (xp_phases (wv_execution_plan view))" "xph_mode phase = ''bounded-parallel''" "xph_node_ids phase = [''l'', ''r'']"
    using parallel_view by blast
  have len: "1 < length (xph_node_ids phase)" using v(4) by simp
  have ends: "xph_node_ids phase ! 0 = ''l''" "xph_node_ids phase ! 1 = ''r''" using v(4) by simp_all
  from parallel_phase_safe [OF v(1-3) zero_less_one len, unfolded ends] show ?thesis
    by (elim exE conjE) (intro exI conjI)
qed

section \<open>Preparing a batch\<close>

text \<open>
  At one instant no work point has two open runs with a live lease. As in \<open>runs_ok\<close>, no run has the status
  \<open>suggested\<close>, which no operation writes.
\<close>

definition leases_exclusive :: "environment \<Rightarrow> string \<Rightarrow> project_run_record list \<Rightarrow> bool" where
  "leases_exclusive env now rs \<longleftrightarrow> distinct (map pr_id rs) \<and> (\<forall>r\<in>set rs. pr_status r \<noteq> ProjectRunStatus_Suggested)
     \<and> (\<forall>r\<in>set rs. \<forall>q\<in>set rs. pr_work_point_id q = pr_work_point_id r \<and> open_status (pr_status r) \<and> open_status (pr_status q)
          \<and> lease_live env now r \<and> lease_live env now q \<longrightarrow> q = r)"

text \<open>Rows are kept with their token and work point, and an open run stays open.\<close>

definition runs_grow :: "project_run_record list \<Rightarrow> project_run_record list \<Rightarrow> bool" where
  "runs_grow rs rs' \<longleftrightarrow> (\<forall>r\<in>set rs. \<exists>r'\<in>set rs'. pr_id r' = pr_id r \<and> pr_fencing_token r' = pr_fencing_token r
     \<and> pr_work_point_id r' = pr_work_point_id r \<and> (open_status (pr_status r) \<longrightarrow> open_status (pr_status r')))"

definition held_in :: "project_run_record list \<Rightarrow> project_run_record \<Rightarrow> bool" where
  "held_in rs run \<longleftrightarrow> (\<exists>r\<in>set rs. pr_id r = pr_id run \<and> pr_fencing_token r = pr_fencing_token run
     \<and> pr_work_point_id r = pr_work_point_id run \<and> open_status (pr_status r))"

lemma runs_grow_refl [simp]: "runs_grow rs rs"
  by (auto simp: runs_grow_def)

lemma runs_grow_trans: "runs_grow a b \<Longrightarrow> runs_grow b c \<Longrightarrow> runs_grow a c"
  unfolding runs_grow_def by metis

lemma held_in_grow: "held_in rs run \<Longrightarrow> runs_grow rs rs' \<Longrightarrow> held_in rs' run"
  unfolding held_in_def runs_grow_def by metis

lemma exclusive_activate:
  assumes ex: "leases_exclusive env now rs" and i: "find_row pr_id i rs = Some existing" "open_status (pr_status existing)"
    and f: "f = (\<lambda>r. r\<lparr>pr_status := ProjectRunStatus_Active, pr_revision := pr_revision r + 1, pr_updated_at := t\<rparr>)"
    and rs': "rs' = update_where (\<lambda>r. pr_id r = i \<and> pr_fencing_token r = pr_fencing_token existing) f rs"
  shows "leases_exclusive env now rs'" "runs_grow rs rs'" "held_in rs' existing" "f existing \<in> set rs'"
proof -
  let ?p = "\<lambda>r. pr_id r = i \<and> pr_fencing_token r = pr_fencing_token existing"
  let ?g = "\<lambda>r. if ?p r then f r else r"
  have only: "r = existing" if "r \<in> set rs" "pr_id r = i" for r
    using find_row_distinct [of pr_id rs r] ex i that by (simp add: leases_exclusive_def)
  have same: "pr_id (f r) = pr_id r" "pr_work_point_id (f r) = pr_work_point_id r" "pr_fencing_token (f r) = pr_fencing_token r"
    "lease_live env now (f r) = lease_live env now r" "open_status (pr_status (f r))" for r
    by (simp_all add: f lease_live_def open_status_def)
  have g: "pr_id (?g r) = pr_id r" "pr_work_point_id (?g r) = pr_work_point_id r" "pr_fencing_token (?g r) = pr_fencing_token r"
    "lease_live env now (?g r) = lease_live env now r" for r by (simp_all add: same)
  have g_open: "open_status (pr_status (?g r)) = open_status (pr_status r)" if "r \<in> set rs" for r
    using only [OF that] i(2) same by auto
  have set': "set rs' = ?g ` set rs" by (simp add: rs' set_update_where)
  have keys: "distinct (map pr_id rs')" using ex by (simp add: rs' leases_exclusive_def same)
  have known: "pr_status (?g r) \<noteq> ProjectRunStatus_Suggested" if "r \<in> set rs" for r
    using ex that by (auto simp: leases_exclusive_def f)
  have "?g q = ?g r" if "r \<in> set rs" "q \<in> set rs" "pr_work_point_id (?g q) = pr_work_point_id (?g r)"
      "open_status (pr_status (?g r))" "open_status (pr_status (?g q))" "lease_live env now (?g r)" "lease_live env now (?g q)" for r q
    using ex that(3-7) unfolding g g_open [OF that(1)] g_open [OF that(2)] leases_exclusive_def using that(1,2) by blast
  with keys known show "leases_exclusive env now rs'" unfolding leases_exclusive_def set' by (simp only: ball_simps) blast
  show grow: "runs_grow rs rs'" unfolding runs_grow_def set' using g g_open by (simp only: bex_simps) blast
  have in_rs: "existing \<in> set rs" "pr_id existing = i" using find_row_SomeD [OF i(1)] by auto
  then show "held_in rs' existing" using i(2) by (intro held_in_grow [OF _ grow]) (auto simp: held_in_def)
  show "f existing \<in> set rs'" unfolding set' using in_rs by force
qed

lemma exclusive_append:
  assumes "leases_exclusive env now rs" "pr_id new \<notin> pr_id ` set rs" "pr_status new \<noteq> ProjectRunStatus_Suggested"
    and "\<And>r. r \<in> set rs \<Longrightarrow> pr_work_point_id r = pr_work_point_id new \<Longrightarrow> open_status (pr_status r) \<Longrightarrow> \<not> lease_live env now r"
  shows "leases_exclusive env now (rs @ [new])" "runs_grow rs (rs @ [new])"
  using assms unfolding leases_exclusive_def by (auto simp: runs_grow_def)

lemma log_run_core: "log_run env st input rec ty = Inr st' \<Longrightarrow> core st' = core st"
  unfolding log_run_def by (rule log_event_core)

lemma start_run_effect:
  assumes "start_run env st input k owner secs now profile key wp roadmap = Inr (run, st')"
  shows "project_runs st' = project_runs st @ [run]" "pr_id run \<notin> pr_id ` set (project_runs st)"
    "pr_status run = ProjectRunStatus_Active" "pr_work_point_id run = wp_id wp"
    "pr_fencing_token run = next_fencing_token st (wp_id wp)" "lease_deadline env now secs = Inr (pr_lease_expires_at run)"
proof -
  from assms obtain i n deadline st2 st3 st5 st6 v v' where deadline: "lease_deadline env now secs = Inr deadline"
    and ins: "insert_project_run (st\<lparr>tick := n\<rparr>)
      (prepared_record input i k owner wp roadmap profile key (next_fencing_token st (wp_id wp)) deadline now) = Inr st2"
    and log: "log_run env st2 input (prepared_record input i k owner wp roadmap profile key (next_fencing_token st (wp_id wp)) deadline now)
      ''project-run.claimed'' = Inr st3"
    and load: "find_row pr_id i (project_runs (activate_row st3 i (next_fencing_token st (wp_id wp)) now)) = Some run"
    and log2: "log_run env (activate_row st3 i (next_fencing_token st (wp_id wp)) now) input run ''project-run.activated'' = Inr st5"
    and val: "refresh_validation_target env st5 EntityType_ProjectRun (pr_id run) = Inr (v, st6)"
    and wpv: "refresh_validation_target env st6 EntityType_WorkPoint (pr_work_point_id run) = Inr (v', st')"
    unfolding start_run_def Let_def new_id_def validate_and_store_def by (auto simp: next_fencing_token_def)
  let ?rec = "prepared_record input i k owner wp roadmap profile key (next_fencing_token st (wp_id wp)) deadline now"
  let ?act = "\<lambda>r. r\<lparr>pr_status := ProjectRunStatus_Active, pr_revision := pr_revision r + 1, pr_updated_at := now\<rparr>"
  have fresh: "i \<notin> pr_id ` set (project_runs st)" and st2: "project_runs st2 = project_runs st @ [?rec]"
    using insert_project_run_effect [OF ins] by (simp_all add: prepared_record_def)
  have "project_runs st3 = project_runs st @ [?rec]" using project_runs_core [OF log_run_core [OF log]] st2 by simp
  then have rows: "project_runs (activate_row st3 i (next_fencing_token st (wp_id wp)) now) = project_runs st @ [?act ?rec]"
    using fresh by (auto simp: activate_row_def update_where_def prepared_record_def intro!: map_idI)
  have "core st' = core (activate_row st3 i (next_fencing_token st (wp_id wp)) now)"
    using refresh_validation_target_core [OF wpv] refresh_validation_target_core [OF val] log_run_core [OF log2] by simp
  from project_runs_core [OF this] rows have all: "project_runs st' = project_runs st @ [?act ?rec]" by simp
  have "find_row pr_id i (project_runs st) = None" using fresh by (simp add: find_row_None_iff)
  moreover define new where "new = ?act ?rec"
  moreover have "pr_id new = i" by (simp add: new_def prepared_record_def)
  ultimately have "run = new" using load unfolding rows new_def [symmetric] by (simp add: find_row_append)
  then have run: "run = ?act ?rec" by (simp only: new_def)
  show "project_runs st' = project_runs st @ [run]" using all run by simp
  show "pr_id run \<notin> pr_id ` set (project_runs st)" using fresh run by (simp add: prepared_record_def)
  show "pr_status run = ProjectRunStatus_Active" "pr_work_point_id run = wp_id wp"
    "pr_fencing_token run = next_fencing_token st (wp_id wp)" "lease_deadline env now secs = Inr (pr_lease_expires_at run)"
    using run deadline by (simp_all add: prepared_record_def)
qed

text \<open>Case distinctions of an operation as disjunctions.\<close>

lemma if_result_Inr: "(if b then Inr x else m) = Inr y \<longleftrightarrow> b \<and> x = y \<or> \<not> b \<and> m = Inr y"
  by simp

lemma case_option_eq: "(case v of None \<Rightarrow> a | Some z \<Rightarrow> f z) = y \<longleftrightarrow> v = None \<and> a = y \<or> (\<exists>z. v = Some z \<and> f z = y)"
  by (cases v) simp_all

lemma reuse_run_effect:
  assumes ex: "leases_exclusive env now (project_runs st)" and i: "find_row pr_id i (project_runs st) = Some existing"
    and run: "reuse_run env st input now key wp roadmap existing = Inr (outcome, st')"
  shows "leases_exclusive env now (project_runs st') \<and> runs_grow (project_runs st) (project_runs st')
    \<and> (\<forall>r. outcome = Inr r \<longrightarrow> held_in (project_runs st') r)"
proof (cases "pr_status existing = ProjectRunStatus_Claimed")
  case True
  have id: "pr_id existing = i" using find_row_SomeD [OF i] by simp
  consider (skip) msg where "outcome = Inl msg" "st' = st"
    | (claimed) rec where "find_row pr_id i (project_runs (activate_row st i (pr_fencing_token existing) now)) = Some rec"
      "log_run env (activate_row st i (pr_fencing_token existing) now) input rec ''project-run.activated'' = Inr st'" "outcome = Inr rec"
    using run True unfolding reuse_run_def Let_def id by (auto split: if_split_asm)
  then show ?thesis
  proof cases
    case skip
    with ex show ?thesis by simp
  next
    case claimed
    have rows: "project_runs st' = project_runs (activate_row st i (pr_fencing_token existing) now)"
      by (rule project_runs_core [OF log_run_core [OF claimed(2)]])
    note act = exclusive_activate [OF ex i _ refl, of "project_runs st'" now]
    have act: "leases_exclusive env now (project_runs st')" "runs_grow (project_runs st) (project_runs st')"
      using act True rows by (simp_all add: activate_row_def open_status_def)
    have "rec \<in> set (project_runs st')" "pr_id rec = i" using find_row_SomeD [OF claimed(1)] rows by auto
    moreover have "open_status (pr_status rec)"
      using claimed(1) i True by (auto simp: activate_row_def find_row_update_where open_status_def split: if_split_asm)
    ultimately show ?thesis using act claimed(3) by (auto simp: held_in_def)
  qed
next
  case False
  with run have "st' = st" and reused: "\<And>r. outcome = Inr r \<Longrightarrow> r = existing \<and> pr_status existing \<notin>
      {ProjectRunStatus_Completed, ProjectRunStatus_Failed, ProjectRunStatus_Cancelled, ProjectRunStatus_Released}"
    unfolding reuse_run_def by (auto split: if_split_asm)
  moreover have "existing \<in> set (project_runs st)" using find_row_SomeD [OF i] by simp
  moreover from this ex have "pr_status existing \<noteq> ProjectRunStatus_Suggested" by (simp add: leases_exclusive_def)
  moreover have "open_status s \<or> s \<in> {ProjectRunStatus_Suggested, ProjectRunStatus_Completed, ProjectRunStatus_Failed,
      ProjectRunStatus_Cancelled, ProjectRunStatus_Released}" for s
    by (cases s) (simp_all add: open_status_def)
  ultimately show ?thesis using ex by (fastforce simp: held_in_def)
qed

lemma prepare_bound_effect:
  assumes ex: "leases_exclusive env now (project_runs st)"
    and run: "prepare_bound env st input k owner secs now node hint wp = Inr (outcome, st')"
  shows "leases_exclusive env now (project_runs st') \<and> runs_grow (project_runs st) (project_runs st')
    \<and> (\<forall>r. outcome = Inr r \<longrightarrow> held_in (project_runs st') r)"
proof -
  from run consider (reuse) key roadmap i existing where "find_row pr_id i (project_runs st) = Some existing"
      "reuse_run env st input now key wp roadmap existing = Inr (outcome, st')"
    | (skip) msg where "outcome = Inl msg" "st' = st"
    | (start) key roadmap r where "active_lease_count env st (wp_id wp) now = 0"
      "start_run env st input k owner secs now (dh_worker_profile hint) key wp roadmap = Inr (r, st')" "outcome = Inr r"
    unfolding prepare_bound_def Let_def by (auto split: option.split_asm if_split_asm)
  then show ?thesis
  proof cases
    case reuse
    then show ?thesis by (rule reuse_run_effect [OF ex])
  next
    case skip
    with ex show ?thesis by simp
  next
    case start
    note new = start_run_effect [OF start(2)]
    have "\<not> lease_live env now q" if "q \<in> set (project_runs st)" "pr_work_point_id q = pr_work_point_id r" "open_status (pr_status q)" for q
      using start(1) that new(4) by (auto simp: active_lease_count_def filter_empty_conv)
    with exclusive_append [OF ex new(2)] new(3) start(3) show ?thesis
      unfolding new(1) by (auto simp: held_in_def open_status_def)
  qed
qed

lemma prepare_node_effect:
  assumes ex: "leases_exclusive env now (project_runs st)"
    and run: "prepare_node env input hints k owner secs now st node_id = Inr (outcome, st')"
  shows "leases_exclusive env now (project_runs st') \<and> runs_grow (project_runs st) (project_runs st')
    \<and> (\<forall>n h r. outcome = Inr (n, h, r) \<longrightarrow> held_in (project_runs st') r)"
proof -
  from run consider (skip) msg where "outcome = Inl msg" "st' = st"
    | (bound) node hint wp out where "prepare_bound env st input k owner secs now node hint wp = Inr (out, st')"
      "outcome = map_sum (\<lambda>s. s) (\<lambda>r. (node, hint, r)) out"
    unfolding prepare_node_def
    by (simp only: if_result_Inr case_option_eq tryE_Inr_iff split_paired_Ex prod.case sum.inject prod.inject) blast
  then show ?thesis
  proof cases
    case skip
    with ex show ?thesis by simp
  next
    case bound
    from prepare_bound_effect [OF ex bound(1)] bound(2) show ?thesis by (cases out) auto
  qed
qed

lemma prepare_loop_effect:
  assumes "prepare_loop (prepare_node env input hints k owner secs now) limit ids prepared skipped st = Inr ((done, left), st')"
    and "leases_exclusive env now (project_runs st)"
    and "\<forall>(n, h, r)\<in>set prepared. held_in (project_runs st) r"
  shows "leases_exclusive env now (project_runs st') \<and> (\<forall>(n, h, r)\<in>set done. held_in (project_runs st') r)
    \<and> length done \<le> max limit (length prepared)"
  using assms
proof (induction ids arbitrary: prepared skipped st)
  case Nil
  then show ?case by simp
next
  case (Cons i ids)
  show ?case
  proof (cases "length prepared \<ge> limit")
    case True
    with Cons.prems show ?thesis by simp
  next
    case False
    with Cons.prems(1) obtain outcome st1 where
      step: "prepare_node env input hints k owner secs now st i = Inr (outcome, st1)" by auto
    note eff = prepare_node_effect [OF Cons.prems(2) step]
    from Cons.prems(3) eff have old: "\<forall>(n, h, r)\<in>set prepared. held_in (project_runs st1) r"
      by (auto intro: held_in_grow)
    show ?thesis
    proof (cases outcome)
      case (Inl reason)
      with Cons.prems(1) False step old eff show ?thesis by (intro Cons.IH) auto
    next
      case (Inr work)
      with Cons.prems(1) False step have "prepare_loop (prepare_node env input hints k owner secs now) limit ids
          (prepared @ [work]) skipped st1 = Inr ((done, left), st')" by simp
      from Cons.IH [OF this] eff old Inr False show ?thesis by (cases work) auto
    qed
  qed
qed

lemma prepare_workflow_steps:
  assumes "prepare_workflow env st input = Inr (res, st')" "env_now env (tick st) = Some now"
  shows "\<exists>scope_key (view :: workflow_view) phase_id limit ids secs prepared skipped.
    1 \<le> pw_max_workers input \<and> pw_max_workers input \<le> 3 \<and> limit \<in> {1, pw_max_workers input}
    \<and> prepare_loop (prepare_node env input (wv_delegation_hints view) scope_key (workflow_owner input) secs now) limit ids
        [] [] (st\<lparr>tick := Suc (tick st)\<rparr>) = Inr ((prepared, skipped), st')
    \<and> wpr_dispatches res = map (\<lambda>(node, hint, run). workflow_dispatch_from_parts scope_key (wv_source view) phase_id
         node hint (pw_adapter_id input) (pw_capabilities input) run (wv_evidence_policy view)) prepared"
  using assms unfolding prepare_workflow_def Let_def case_prod_beta
  apply (simp only: tryE_Inr_iff if_error_Inr readings split_paired_Ex fst_conv snd_conv sum.inject prod.inject option.inject)
  apply (elim exE conjE)
  apply hypsubst
  apply (intro exI conjI)
      prefer 4
      apply assumption
     apply auto
  done

text \<open>
  Claim C12. \<open>prepare_workflow\<close> never gives a work point a second live lease: if at the instant it reads the clock every
  work point has at most one open run with a live lease, this still holds after it. It returns at most as many
  dispatches as workers were asked for, and every dispatch carries the id and the fencing token of an open run of
  the store.
\<close>

theorem prepare_workflow_exclusive:
  assumes run: "prepare_workflow env st input = Inr (res, st')" and now: "env_now env (tick st) = Some now"
    and ex: "leases_exclusive env now (project_runs st)"
  shows "leases_exclusive env now (project_runs st') \<and> length (wpr_dispatches res) \<le> pw_max_workers input
    \<and> pw_max_workers input \<le> 3
    \<and> (\<forall>d\<in>set (wpr_dispatches res). \<exists>r\<in>set (project_runs st'). open_status (pr_status r)
         \<and> wd_dispatch_id d = ''dispatch-'' @ pr_id r \<and> wd_fencing_token d = pr_fencing_token r)"
proof -
  from prepare_workflow_steps [OF run now] obtain scope_key and view :: workflow_view and phase_id limit ids secs prepared skipped where
    workers: "1 \<le> pw_max_workers input" "pw_max_workers input \<le> 3" "limit \<in> {1, pw_max_workers input}" and
    loop: "prepare_loop (prepare_node env input (wv_delegation_hints view) scope_key (workflow_owner input) secs now) limit ids
      [] [] (st\<lparr>tick := Suc (tick st)\<rparr>) = Inr ((prepared, skipped), st')" and
    dispatches: "wpr_dispatches res = map (\<lambda>(node, hint, run). workflow_dispatch_from_parts scope_key (wv_source view) phase_id
             node hint (pw_adapter_id input) (pw_capabilities input) run (wv_evidence_policy view)) prepared" by blast
  from prepare_loop_effect [OF loop] ex have eff: "leases_exclusive env now (project_runs st')"
    "\<forall>(n, h, r)\<in>set prepared. held_in (project_runs st') r" "length prepared \<le> limit" by auto
  have "\<exists>r\<in>set (project_runs st'). open_status (pr_status r) \<and> wd_dispatch_id d = ''dispatch-'' @ pr_id r
      \<and> wd_fencing_token d = pr_fencing_token r" if "d \<in> set (wpr_dispatches res)" for d
    using that eff(2) unfolding dispatches
    by (fastforce simp: held_in_def workflow_dispatch_from_parts_def format_def)
  with eff workers show ?thesis by (auto simp: dispatches)
qed

section \<open>A batch on a concrete store\<close>

text \<open>The store with the lapsed claim on \<open>p3\<close> and a work node bound to \<open>p3\<close>.\<close>

definition bound_node :: planning_graph_node where
  "bound_node = (sample_node ''w1'' PlanningNodeKind_Work)\<lparr>gn_payload := JObj [(''workPointId'', JStr ''p3'')]\<rparr>"

definition workflow_store :: planning_store where
  "workflow_store = lapsed_store\<lparr>planning_nodes := [bound_node]\<rparr>"

definition prepare_input :: prepare_workflow_input where
  "prepare_input = \<lparr>pw_scope_key = ''default'', pw_entity_type = EntityType_Roadmap, pw_entity_id = ''rm'',
     pw_correlation_id = ''c'', pw_adapter_id = ''a'', pw_capabilities = [], pw_owner_id = None,
     pw_session_id = None, pw_repo_id = None, pw_branch = None, pw_worktree_id = None, pw_run_id = None,
     pw_max_workers = 3, pw_lease_seconds = 60\<rparr>"

definition batch :: "workflow_prepare_result \<times> planning_store" where
  "batch = (case prepare_workflow lease_env workflow_store prepare_input of
     Inr x \<Rightarrow> x
   | Inl _ \<Rightarrow> (\<lparr>wpr_schema_version = [], wpr_source = \<lparr>wvs_entity_type = EntityType_Roadmap, wvs_entity_id = []\<rparr>,
       wpr_strategy = [], wpr_max_workers = 0, wpr_dispatches = [], wpr_skipped = [], wpr_blocked_node_ids = []\<rparr>,
       workflow_store))"

lemma bound_node_fields:
  "gn_id bound_node = ''w1''" "gn_scope_key bound_node = ''default''" "gn_kind bound_node = PlanningNodeKind_Work"
  "gn_status bound_node = ''draft''" "gn_revision bound_node = 1" "gn_tags bound_node = []"
  "workflow_node_has_planning_ref bound_node = False" "workflow_work_point_id_for_node bound_node = Some ''p3''"
  by (simp_all add: bound_node_def sample_node_def workflow_node_has_planning_ref_def ref_str_def planning_ref_def
      workflow_work_point_id_for_node_def non_blank_def payload_str_def string_eval)

lemma workflow_store_tables:
  "planning_nodes workflow_store = [bound_node]" "planning_edges workflow_store = []" "project_runs workflow_store = [old_run]"
  "tick workflow_store = 0" "roadmaps workflow_store = [sample_roadmap]" "goals workflow_store = [sample_goal]"
  by (simp_all add: workflow_store_def lapsed_store_def work_store_def empty_store_def)

lemma workflow_runnable:
  "find_runnable_graph_work workflow_store ''default'' = Inr \<lparr>gr_candidates = [\<lparr>gc_node_id = ''w1'', gc_title = gn_title bound_node,
     gc_status = ''draft'', gc_reason = ''ready'', gc_incomplete_dependencies = [], gc_active_blockers = []\<rparr>], gr_blocked = []\<rparr>"
  by (simp add: find_runnable_graph_work_def default_key work_nodes_def workflow_store_tables bound_node_fields classify_node_def
      incomplete_deps_def active_blockers_def pending_ends_def list_outgoing_edges_in_scope_def
      list_incoming_edges_in_scope_def list_outgoing_edges_for_node_def list_incoming_edges_for_node_def map_filter_simps)

lemma workflow_view_eq:
  "\<exists>view. workflow_view_in_scope workflow_store ''default'' EntityType_Roadmap ''rm'' = Inr view
     \<and> first_phase view = (''phase-1'', ''sequential'', [''w1''])
     \<and> wv_delegation_hints view = [workflow_delegation_hint_for_node bound_node]"
  by (simp add: workflow_view_in_scope_def default_key ensure_entity_in_scope_def scope_key_for_entity.simps row_or_not_found_def
      workflow_store_tables sample_roadmap_def load_all_graph_nodes_def workflow_nodes_for_source_def bound_node_fields
      workflow_runnable restrict_runnable_def workflow_execution_plan_of_def workflow_parallel_safe_candidate_count_def
      first_phase_def Let_def)

lemmas prepare_eval = prepare_node_def prepare_bound_def start_run_def prepared_record_def log_run_def activate_row_def
  workflow_owner_def closed_status_def active_lease_count_def open_status_def workflow_delegation_hint_for_node_def

definition key_text :: string where
  "key_text = workflow_idempotency_key EntityType_Roadmap ''rm'' ''w1'' 1 ''c''"

lemma batch_step:
  "\<exists>run st'. prepare_node lease_env prepare_input [workflow_delegation_hint_for_node bound_node] ''default'' ''c'' 60 (unary 0)
      (workflow_store\<lparr>tick := Suc 0\<rparr>) ''w1''
    = Inr (Inr (bound_node, workflow_delegation_hint_for_node bound_node, run), st')
    \<and> project_runs st' = [old_run, run] \<and> pr_id run = ''uuid-x'' \<and> pr_fencing_token run = 2 \<and> pr_scope_key run = ''default''
    \<and> pr_idempotency_key run = Some key_text \<and> pr_status run = ProjectRunStatus_Active \<and> pr_work_point_id run = ''p3''"
  by (simp add: prepare_eval bound_node_fields workflow_store_def lapsed_store_def prepare_input_def key_text_def old_run_def
      run_eval)

lemma prepare_input_fields:
  "pw_scope_key prepare_input = ''default''" "pw_entity_type prepare_input = EntityType_Roadmap" "pw_entity_id prepare_input = ''rm''"
  "pw_correlation_id prepare_input = ''c''" "pw_adapter_id prepare_input = ''a''" "pw_max_workers prepare_input = 3"
  "pw_lease_seconds prepare_input = 60" "workflow_owner prepare_input = ''c''"
  by (simp_all add: prepare_input_def workflow_owner_def)

lemma lease_env_now: "env_now lease_env n = Some (unary n)"
  by (simp add: lease_env_def)

lemma batch_effect:
  "\<exists>run. prepare_workflow lease_env workflow_store prepare_input = Inr (fst batch, snd batch)
     \<and> project_runs (snd batch) = [old_run, run] \<and> pr_id run = ''uuid-x'' \<and> pr_fencing_token run = 2
     \<and> pr_status run = ProjectRunStatus_Active \<and> pr_work_point_id run = ''p3'' \<and> length (wpr_dispatches (fst batch)) = 1"
proof -
  obtain view where view: "workflow_view_in_scope workflow_store ''default'' EntityType_Roadmap ''rm'' = Inr view"
    "first_phase view = (''phase-1'', ''sequential'', [''w1''])"
    "wv_delegation_hints view = [workflow_delegation_hint_for_node bound_node]" using workflow_view_eq by blast
  obtain run st' where step: "prepare_node lease_env prepare_input [workflow_delegation_hint_for_node bound_node] ''default'' ''c'' 60
      (unary 0) (workflow_store\<lparr>tick := Suc 0\<rparr>) ''w1''
      = Inr (Inr (bound_node, workflow_delegation_hint_for_node bound_node, run), st')"
    and run: "project_runs st' = [old_run, run]" "pr_id run = ''uuid-x''" "pr_fencing_token run = 2"
      "pr_status run = ProjectRunStatus_Active" "pr_work_point_id run = ''p3''"
    using batch_step by blast
  have "\<exists>res. prepare_workflow lease_env workflow_store prepare_input = Inr (res, st') \<and> length (wpr_dispatches res) = 1"
    unfolding prepare_workflow_def
    by (simp add: prepare_input_fields default_key view step lease_env_now normalize_lease_seconds_def require_non_empty_def
        trim_def trim_start_def trim_end_def is_whitespace_def now_string_def workflow_store_tables Let_def)
  then show ?thesis using run by (auto simp: batch_def)
qed

lemma workflow_store_exclusive: "leases_exclusive lease_env (unary 0) (project_runs workflow_store)"
  by (simp add: leases_exclusive_def workflow_store_tables) (simp add: old_run_def claimed_record_def)

theorem prepare_workflow_exclusive_witness:
  "leases_exclusive lease_env (unary 0) (project_runs (snd batch)) \<and> length (wpr_dispatches (fst batch)) = 1"
proof -
  obtain run where run: "prepare_workflow lease_env workflow_store prepare_input = Inr (fst batch, snd batch)"
    "length (wpr_dispatches (fst batch)) = 1" using batch_effect by blast
  have "env_now lease_env (tick workflow_store) = Some (unary 0)" by (simp add: lease_env_now workflow_store_tables)
  from prepare_workflow_exclusive [OF run(1) this workflow_store_exclusive] run(2) show ?thesis by blast
qed

text \<open>
  Claim C15. Unlike \<open>claim_project_run\<close>, \<open>prepare_workflow\<close> does not release the run whose lease has lapsed: from a store that
  satisfies the invariant of the run operations it reaches one in which two runs of a work point are open, so
  the invariant that a work point has at most one open run is lost.
\<close>

theorem prepare_leaves_lapsed_run_open:
  "runs_ok lease_env (project_runs workflow_store)
   \<and> (\<exists>res st' r q. prepare_workflow lease_env workflow_store prepare_input = Inr (res, st')
       \<and> r \<in> set (project_runs st') \<and> q \<in> set (project_runs st') \<and> r \<noteq> q \<and> pr_work_point_id r = pr_work_point_id q
       \<and> open_status (pr_status r) \<and> open_status (pr_status q) \<and> \<not> runs_ok lease_env (project_runs st'))"
proof -
  obtain run where run: "prepare_workflow lease_env workflow_store prepare_input = Inr (fst batch, snd batch)"
    "project_runs (snd batch) = [old_run, run]" "pr_id run = ''uuid-x''" "pr_status run = ProjectRunStatus_Active"
    "pr_work_point_id run = ''p3''" using batch_effect by blast
  have old: "pr_id old_run = ''old''" "open_status (pr_status old_run)" "pr_work_point_id old_run = ''p3''"
    by (simp_all add: old_run_def claimed_record_def claim_input_def open_status_def)
  have "runs_ok lease_env (project_runs workflow_store)"
    using lapsed_run_inv by (simp add: run_inv_def workflow_store_def)
  moreover have "open_status (pr_status run)" using run(4) by (simp add: open_status_def)
  moreover from this have "\<not> runs_ok lease_env (project_runs (snd batch))"
    using runs_ok_one_open [of lease_env "project_runs (snd batch)" run old_run] run old by auto
  moreover have "run \<noteq> old_run" using run(3) old(1) by auto
  ultimately show ?thesis using run old by (metis list.set_intros(1,2))
qed

end
