(* ===== verification/Supply.thy ===== *)
theory Supply
  imports Validation
begin

text \<open>
  When the bookkeeping of an operation cannot fail. The UUID source never repeats itself, the clock answers, and
  no id it will still give is in use: then events, tags and findings are always written, and the operations
  fail only for the reasons they check themselves.
\<close>

definition used_ids :: "planning_store \<Rightarrow> string set" where
  "used_ids st = (\<lambda>(_, e). ev_event_id e) ` set (planning_events st) \<union> vf_finding_id ` set (validation_findings st)
     \<union> gn_id ` set (planning_nodes st) \<union> ge_id ` set (planning_edges st) \<union> pr_id ` set (project_runs st)"

definition fresh_supply :: "environment \<Rightarrow> planning_store \<Rightarrow> bool" where
  "fresh_supply env st \<longleftrightarrow> inj (env_new_id env) \<and> (\<forall>n. env_now env n \<noteq> None)
     \<and> (\<forall>n\<ge>tick st. env_new_id env n \<notin> used_ids st) \<and> (\<forall>(_, e)\<in>set (planning_events st). 0 \<le> ev_sequence e)"

lemma fresh_supply_tick: "fresh_supply env st \<Longrightarrow> tick st \<le> n \<Longrightarrow> fresh_supply env (st\<lparr>tick := n\<rparr>)"
  by (auto simp: fresh_supply_def used_ids_def)

lemma fresh_supply_new: "fresh_supply env st \<Longrightarrow> env_new_id env (tick st) \<notin> used_ids st"
  by (simp add: fresh_supply_def)

lemma fresh_supply_now: "fresh_supply env st \<Longrightarrow> \<exists>t. env_now env n = Some t"
  by (auto simp: fresh_supply_def)

text \<open>Whatever was added to the used ids came from the past of the supply.\<close>

lemma fresh_supply_step:
  assumes "fresh_supply env st" "tick st \<le> tick st'" "used_ids st' \<subseteq> used_ids st \<union> env_new_id env ` {..<tick st'}"
    and "\<forall>(_, e)\<in>set (planning_events st'). 0 \<le> ev_sequence e"
  shows "fresh_supply env st'"
proof -
  have "env_new_id env n \<notin> used_ids st'" if "tick st' \<le> n" for n
  proof
    assume "env_new_id env n \<in> used_ids st'"
    moreover have "env_new_id env n \<notin> used_ids st" using assms(1,2) that by (simp add: fresh_supply_def)
    ultimately obtain m where "m < tick st'" "env_new_id env n = env_new_id env m" using assms(3) by auto
    with assms(1) that show False by (auto simp: fresh_supply_def dest: injD)
  qed
  with assms show ?thesis by (simp add: fresh_supply_def)
qed

lemma max_or_zero_nonneg: "(\<And>x. x \<in> set xs \<Longrightarrow> 0 \<le> x) \<Longrightarrow> 0 \<le> max_or_zero xs"
  using max_or_zero_in [of xs] by (cases "xs = []") (auto simp: max_or_zero_def)

lemma scope_key_core:
  assumes "core st' = core st"
  shows "scope_key_for_entity st' et i = scope_key_for_entity st et i"
  by (cases et) (simp_all add: scope_key_for_entity.simps core_fields [OF assms])

lemma log_event_total:
  assumes sup: "fresh_supply env st" and scope: "resolve_event_scope_key st et i aet ai = Inr k"
  shows "\<exists>st'. log_event env st et i aet ai c r ty p = Inr st' \<and> core st' = core st \<and> fresh_supply env st'"
proof -
  obtain t where t: "env_now env (Suc (tick st)) = Some t" using fresh_supply_now [OF sup] by blast
  define seq where "seq = max_or_zero (map (\<lambda>(_, e). ev_sequence e) (filter (\<lambda>(_, e). ev_stream_id e = ai) (planning_events st))) + 1"
  have seq: "0 < seq"
    using sup max_or_zero_nonneg [of "map (\<lambda>(_, e). ev_sequence e) (filter (\<lambda>(_, e). ev_stream_id e = ai) (planning_events st))"]
    by (force simp: seq_def fresh_supply_def)
  define event where "event = \<lparr>ev_event_id = env_new_id env (tick st), ev_entity_type = et, ev_entity_id = i,
            ev_aggregate_type = aet, ev_aggregate_id = ai, ev_correlation_id = c, ev_causation_id = None,
            ev_run_id = (case r of None \<Rightarrow> format [''run-'', env_new_id env (tick st)] | Some r \<Rightarrow> r),
            ev_stream_id = ai, ev_sequence = seq, ev_parent_event_id = None,
            ev_event_type = ty, ev_timestamp = t, ev_payload = p\<rparr>"
  let ?st = "st\<lparr>tick := Suc (Suc (tick st))\<rparr>"
  have new: "env_new_id env (tick st) \<notin> (\<lambda>(_, e). ev_event_id e) ` set (planning_events st)"
    using fresh_supply_new [OF sup] by (simp add: used_ids_def)
  have "scope_key_for_entity ?st = scope_key_for_entity st" by (intro ext scope_key_core) simp
  then have scope': "resolve_event_scope_key ?st et i aet ai = Inr k"
    using scope by (simp only: resolve_event_scope_key_def)
  have log: "log_event env st et i aet ai c r ty p = Inr (?st\<lparr>planning_events := planning_events st @ [(k, event)]\<rparr>)"
    using seq new scope' unfolding event_def seq_def
    by (simp add: log_event_def build_event_def new_id_def now_string_def t append_event_def Let_def)
  have "fresh_supply env (?st\<lparr>planning_events := planning_events st @ [(k, event)]\<rparr>)"
    using sup seq by (intro fresh_supply_step [OF sup]) (auto simp: used_ids_def event_def fresh_supply_def)
  with log log_event_core [OF log] show ?thesis by blast
qed

lemma rebuild_tag_total:
  assumes sup: "fresh_supply env st" and scope: "scope_key_for_entity st et i = Inr k"
  shows "\<exists>st'. rebuild_tag_index_for_entity st et i tags = Inr st' \<and> core st' = core st \<and> fresh_supply env st'"
proof -
  have fold: "\<exists>x. fold (\<lambda>tag s. if P tag s then s else s\<lparr>tag_index := tag_index s @ [g tag]\<rparr>) tags s = s\<lparr>tag_index := x\<rparr>" for P g s
  proof (induction tags arbitrary: s)
    case Nil
    show ?case by (simp, rule exI [of _ "tag_index s"], simp)
  next
    case (Cons t tags)
    from Cons.IH [of "if P t s then s else s\<lparr>tag_index := tag_index s @ [g t]\<rparr>"] show ?case by (auto split: if_split_asm)
  qed
  have "scope_key_for_entity (st\<lparr>tag_index := y\<rparr>) et i = Inr k" for y
    using scope by (simp add: scope_key_core [of "st\<lparr>tag_index := y\<rparr>" st])
  then have "\<exists>x. rebuild_tag_index_for_entity st et i tags = Inr (st\<lparr>tag_index := x\<rparr>)"
    unfolding rebuild_tag_index_for_entity_def Let_def using scope
    using fold [of "\<lambda>tag s. (k, et, i, tag) \<in> set (tag_index s)" "\<lambda>tag. (k, et, i, tag)"
        "st\<lparr>tag_index := filter (\<lambda>(_, t, e, _). \<not> (t = et \<and> e = i)) (tag_index st)\<rparr>"]
    by simp
  then obtain x where st': "rebuild_tag_index_for_entity st et i tags = Inr (st\<lparr>tag_index := x\<rparr>)" by blast
  moreover have "fresh_supply env (st\<lparr>tag_index := x\<rparr>)" using sup by (simp add: fresh_supply_def used_ids_def)
  ultimately show ?thesis by (intro exI [of _ "st\<lparr>tag_index := x\<rparr>"]) simp
qed

lemma stamp_findings_total:
  assumes "fresh_supply env st" "\<And>e. Fail e \<notin> set steps"
  shows "\<exists>fs n. stamp_findings env st et i k steps = Inr (fs, st\<lparr>tick := n\<rparr>) \<and> tick st \<le> n
    \<and> distinct (map vf_finding_id fs) \<and> vf_finding_id ` set fs \<subseteq> env_new_id env ` {tick st..<n}"
  using assms
proof (induction steps arbitrary: st)
  case Nil
  show ?case by (simp, rule exI [of _ "tick st"], simp)
next
  case (Cons s steps)
  from Cons.prems(2) obtain sev code msg where s: "s = Push sev code msg" by (cases s) auto
  obtain t where t: "env_now env (Suc (tick st)) = Some t" using fresh_supply_now [OF Cons.prems(1)] by blast
  let ?st = "st\<lparr>tick := Suc (Suc (tick st))\<rparr>"
  have "fresh_supply env ?st" by (rule fresh_supply_tick [OF Cons.prems(1)]) simp
  have "Fail e \<notin> set steps" for e using Cons.prems(2) [of e] by simp
  from Cons.IH [OF \<open>fresh_supply env ?st\<close> this] obtain fs n where
    raw: "stamp_findings env ?st et i k steps = Inr (fs, ?st\<lparr>tick := n\<rparr>)" "tick ?st \<le> n" "distinct (map vf_finding_id fs)"
      "vf_finding_id ` set fs \<subseteq> env_new_id env ` {tick ?st..<n}" by blast
  then have rest: "stamp_findings env ?st et i k steps = Inr (fs, st\<lparr>tick := n\<rparr>)" "Suc (Suc (tick st)) \<le> n" "distinct (map vf_finding_id fs)"
      "vf_finding_id ` set fs \<subseteq> env_new_id env ` {Suc (Suc (tick st))..<n}" by simp_all
  have inj: "inj (env_new_id env)" using Cons.prems(1) by (simp add: fresh_supply_def)
  then have "env_new_id env (tick st) \<notin> env_new_id env ` {Suc (Suc (tick st))..<n}" by (auto dest: injD)
  with rest(4) have apart: "env_new_id env (tick st) \<notin> vf_finding_id ` set fs" by blast
  have "env_new_id env (tick st) \<in> env_new_id env ` {tick st..<n}" using rest(2) by simp
  moreover have "vf_finding_id ` set fs \<subseteq> env_new_id env ` {tick st..<n}"
    by (rule subset_trans [OF rest(4) image_mono]) auto
  moreover obtain f where f: "finding env st et i k sev code msg = Inr (f, ?st)" "vf_finding_id f = env_new_id env (tick st)"
    by (simp add: finding_def new_id_def now_string_def t)
  ultimately have "vf_finding_id ` set (f # fs) \<subseteq> env_new_id env ` {tick st..<n}" by simp
  moreover have "stamp_findings env st et i k (s # steps) = Inr (f # fs, st\<lparr>tick := n\<rparr>)" by (simp add: s f(1) rest(1))
  moreover have "distinct (map vf_finding_id (f # fs))" using apart rest(3) f(2) by simp
  moreover have "tick st \<le> n" using rest(2) by simp
  ultimately show ?case by blast
qed

lemma persist_total:
  assumes "distinct (map vf_finding_id fs)" "vf_finding_id ` set fs \<inter> vf_finding_id ` set (validation_findings st) = {}"
  shows "\<exists>vs. persist_validation_findings st et i fs = Inr (st\<lparr>validation_findings := vs\<rparr>)
    \<and> vf_finding_id ` set vs \<subseteq> vf_finding_id ` set (validation_findings st) \<union> vf_finding_id ` set fs"
proof -
  let ?step = "\<lambda>st f. if vf_finding_id f \<in> vf_finding_id ` set (validation_findings st)
       then Inl (Sqlite (UniqueViolation ''validation_findings.finding_id''))
       else Inr (st\<lparr>validation_findings := validation_findings st @ [f]\<rparr>)"
  have run: "foldE ?step s fs = Inr (s\<lparr>validation_findings := validation_findings s @ fs\<rparr>)"
    if "distinct (map vf_finding_id fs)" "vf_finding_id ` set fs \<inter> vf_finding_id ` set (validation_findings s) = {}" for s fs
    using that
  proof (induction fs arbitrary: s)
    case (Cons f fs)
    have "vf_finding_id f \<notin> vf_finding_id ` set (validation_findings s)" using Cons.prems(2) by auto
    moreover have "foldE ?step (s\<lparr>validation_findings := validation_findings s @ [f]\<rparr>) fs
      = Inr (s\<lparr>validation_findings := (validation_findings s @ [f]) @ fs\<rparr>)"
      using Cons.IH [of "s\<lparr>validation_findings := validation_findings s @ [f]\<rparr>"] Cons.prems by auto
    ultimately show ?case by simp
  qed simp
  let ?old = "filter (\<lambda>f. \<not> (vf_entity_type f = et \<and> vf_entity_id f = i)) (validation_findings st)"
  have "vf_finding_id ` set fs \<inter> vf_finding_id ` set ?old = {}" using assms(2) by auto
  with run [OF assms(1), of "st\<lparr>validation_findings := ?old\<rparr>"]
  have "persist_validation_findings st et i fs = Inr (st\<lparr>validation_findings := ?old @ fs\<rparr>)"
    by (simp add: persist_validation_findings_def)
  then show ?thesis by (intro exI [of _ "?old @ fs"]) auto
qed

lemma future_disjoint: "(\<And>m. a \<le> m \<Longrightarrow> f m \<notin> S) \<Longrightarrow> f ` {a..<n} \<inter> S = {}" for a :: nat
  by auto

lemma union_step: "U \<subseteq> A \<union> V \<Longrightarrow> V \<subseteq> F \<union> G \<Longrightarrow> F \<subseteq> A \<Longrightarrow> U \<subseteq> A \<union> G"
  by blast

lemma refresh_total:
  assumes sup: "fresh_supply env st" and steps: "validator_steps st et i = Inr (k, steps)" "\<And>e. Fail e \<notin> set steps"
  shows "\<exists>rep st'. refresh_validation_target env st et i = Inr (rep, st') \<and> core st' = core st \<and> fresh_supply env st'"
proof -
  from stamp_findings_total [OF sup steps(2)] obtain fs n where
    stamp: "stamp_findings env st et i k steps = Inr (fs, st\<lparr>tick := n\<rparr>)" "tick st \<le> n" "distinct (map vf_finding_id fs)"
      "vf_finding_id ` set fs \<subseteq> env_new_id env ` {tick st..<n}" by blast
  have "env_new_id env m \<notin> vf_finding_id ` set (validation_findings st)" if "tick st \<le> m" for m
    using sup that by (simp add: fresh_supply_def used_ids_def)
  then have "env_new_id env ` {tick st..<n} \<inter> vf_finding_id ` set (validation_findings st) = {}"
    by (rule future_disjoint)
  with stamp(4) have "vf_finding_id ` set fs \<inter> vf_finding_id ` set (validation_findings st) = {}" by blast
  then have "vf_finding_id ` set fs \<inter> vf_finding_id ` set (validation_findings (st\<lparr>tick := n\<rparr>)) = {}" by simp
  from persist_total [OF stamp(3) this, of et i] obtain vs where
    persist: "persist_validation_findings (st\<lparr>tick := n\<rparr>) et i fs = Inr (st\<lparr>tick := n, validation_findings := vs\<rparr>)"
      "vf_finding_id ` set vs \<subseteq> vf_finding_id ` set (validation_findings st) \<union> vf_finding_id ` set fs" by auto
  have refresh: "refresh_validation_target env st et i = Inr (from_findings fs, st\<lparr>tick := n, validation_findings := vs\<rparr>)"
    by (simp add: refresh_validation_target_def validate_entity_def steps(1) stamp(1) persist(1))
  have "env_new_id env ` {tick st..<n} \<subseteq> env_new_id env ` {..<n}" by (intro image_mono) auto
  from Un_mono [OF subset_refl subset_trans [OF stamp(4) this]]
  have vs: "vf_finding_id ` set vs \<subseteq> vf_finding_id ` set (validation_findings st) \<union> env_new_id env ` {..<n}"
    by (rule subset_trans [OF persist(2)])
  have "used_ids (st\<lparr>tick := n, validation_findings := vs\<rparr>) \<subseteq> used_ids st \<union> vf_finding_id ` set vs"
    by (simp add: used_ids_def) blast
  moreover have "vf_finding_id ` set (validation_findings st) \<subseteq> used_ids st" unfolding used_ids_def by (simp only: Un_upper2 le_supI1)
  ultimately have "used_ids (st\<lparr>tick := n, validation_findings := vs\<rparr>) \<subseteq> used_ids st \<union> env_new_id env ` {..<n}"
    by (intro union_step [OF _ vs])
  then have "fresh_supply env (st\<lparr>tick := n, validation_findings := vs\<rparr>)"
    using stamp(2) sup by (intro fresh_supply_step [OF sup]) (simp_all add: fresh_supply_def)
  with refresh refresh_validation_target_core [OF refresh] show ?thesis by blast
qed

end
