(* ===== verification/WorkflowResults.thy ===== *)
theory WorkflowResults
  imports WorkflowProperties Supply
begin

text \<open>
  The result of a worker is written once, by the holder of the current token, without breaking the graph or the
  runs; sending it again changes nothing, and a result that passes the checks is always written.
\<close>

section \<open>Recording a result\<close>

lemma core_commutes:
  "core (st\<lparr>planning_nodes := a\<rparr>) = (core st)\<lparr>planning_nodes := a\<rparr>"
  "core (st\<lparr>planning_edges := b\<rparr>) = (core st)\<lparr>planning_edges := b\<rparr>"
  "core (st\<lparr>project_runs := c\<rparr>) = (core st)\<lparr>project_runs := c\<rparr>"
  by (simp_all add: core_def)

lemma insert_planning_edge_core:
  assumes "insert_planning_edge st e = Inr (st\<lparr>planning_edges := planning_edges st @ [e]\<rparr>)" "core st = core sx"
  shows "insert_planning_edge sx e = Inr (sx\<lparr>planning_edges := planning_edges sx @ [e]\<rparr>)"
  using assms(1) unfolding insert_planning_edge_Inr edge_row_ok_Inr active_duplicate_def
  by (simp add: core_fields(1,12,13) [OF assms(2)])

lemma core_tables:
  "core (st\<lparr>tick := n, planning_nodes := a\<rparr>) = core (st\<lparr>planning_nodes := a\<rparr>)"
  "core (st\<lparr>tick := n, planning_edges := b\<rparr>) = core (st\<lparr>planning_edges := b\<rparr>)"
  by (simp_all add: core_def)

lemma insert_evidence_effect:
  assumes "insert_workflow_result_evidence env st k node res c run now = Inr (ev, st')"
  shows "ev = result_evidence_node (gn_id ev) k node res now" "find_row gn_id (gn_id ev) (planning_nodes st) = None"
    "core st' = core (st\<lparr>planning_nodes := planning_nodes st @ [ev]\<rparr>)"
  using assms unfolding insert_workflow_result_evidence_def Let_def
  by (auto simp: readings insert_planning_node_Inr core_tables result_evidence_node_def
      dest!: log_event_core rebuild_tag_index_core)

lemma insert_attachment_effect:
  assumes "insert_workflow_result_attachment env st node ev res c run now = Inr (edge, st')"
  shows "edge = result_attachment_edge (ge_id edge) node ev res now"
    "insert_planning_edge st edge = Inr (st\<lparr>planning_edges := planning_edges st @ [edge]\<rparr>)"
    "core st' = core (st\<lparr>planning_edges := planning_edges st @ [edge]\<rparr>)"
  using assms unfolding insert_workflow_result_attachment_def Let_def
  by (auto simp: readings insert_planning_edge_Inr edge_row_ok_Inr active_duplicate_def core_tables
      result_attachment_edge_def dest!: log_event_core)

definition set_node_status :: "string \<Rightarrow> string \<Rightarrow> planning_graph_node \<Rightarrow> planning_graph_node" where
  "set_node_status status now r = r\<lparr>gn_status := status, gn_revision := gn_revision r + 1, gn_updated_at := now\<rparr>"

lemma update_node_status_effect:
  assumes "update_workflow_node_status_in_transaction env st node status c run now = Inr (rec, st')"
  shows "core st' = core (update_planning_node st (gn_id node) (set_node_status status now))"
  using assms unfolding update_workflow_node_status_in_transaction_def Let_def set_node_status_def [abs_def]
  by (auto dest!: log_event_core refresh_validation_target_core)

text \<open>The row of a run after its result.\<close>

definition finished_run :: "workflow_worker_result \<Rightarrow> project_run_record \<Rightarrow> string \<Rightarrow> string \<Rightarrow> project_run_record \<Rightarrow> project_run_record" where
  "finished_run res existing evidence_id now r =
     r\<lparr>pr_status := workflow_result_project_run_status (wwr_status res),
       pr_evidence := (pr_evidence existing)
         \<lparr>pe_implementation_run_refs := pe_implementation_run_refs (pr_evidence existing) @ [evidence_id],
          pe_workflow_result_keys := pe_workflow_result_keys (pr_evidence existing) @ [wwr_idempotency_key res]\<rparr>,
       pr_completed_at := (if workflow_result_project_run_status (wwr_status res) = ProjectRunStatus_Completed then Some now else None),
       pr_revision := pr_revision r + 1, pr_updated_at := now\<rparr>"

lemma finish_run_effect:
  assumes "finish_run env st input existing ev now = Inr (run, st')"
  shows "core st' = core (st\<lparr>project_runs := update_where
      (\<lambda>r. pr_id r = pr_id existing \<and> pr_fencing_token r = wwr_fencing_token (rw_result input))
      (finished_run (rw_result input) existing ev now) (project_runs st)\<rparr>)"
    "find_row pr_id (wwr_project_run_id (rw_result input)) (project_runs st') = Some run"
proof -
  let ?st = "st\<lparr>project_runs := update_where
      (\<lambda>r. pr_id r = pr_id existing \<and> pr_fencing_token r = wwr_fencing_token (rw_result input))
      (finished_run (rw_result input) existing ev now) (project_runs st)\<rparr>"
  from assms have core: "core st' = core ?st"
    and load: "find_row pr_id (wwr_project_run_id (rw_result input)) (project_runs ?st) = Some run"
    unfolding finish_run_def Let_def finished_run_def [abs_def] validate_and_store_def
    by (auto simp: if_error_Inr dest!: log_event_core refresh_validation_target_core)
  show "core st' = core ?st" by (rule core)
  show "find_row pr_id (wwr_project_run_id (rw_result input)) (project_runs st') = Some run"
    using load project_runs_core [OF core] by simp
qed

text \<open>The tables a written result touches, and what was checked before.\<close>

definition result_accepted ::
    "environment \<Rightarrow> planning_store \<Rightarrow> record_workflow_result_input \<Rightarrow> project_run_record \<Rightarrow> planning_graph_node \<Rightarrow> string \<Rightarrow> bool" where
  "result_accepted env st input existing node now \<longleftrightarrow>
     (let res = rw_result input; k = normalized_scope_key (rw_active_scope_key input) in
      check_worker_result res = Inr ()
      \<and> find_row pr_id (wwr_project_run_id res) (project_runs st) = Some existing \<and> pr_scope_key existing = k
      \<and> find_row gn_id (wwr_node_id res) (planning_nodes st) = Some node \<and> gn_scope_key node = k
      \<and> match_dispatch res existing = Inr () \<and> match_node res existing node = Inr ()
      \<and> env_now env (tick st) = Some now
      \<and> require_current_lease env existing (Some (wwr_fencing_token res)) now = Inr ()
      \<and> pr_status existing \<notin> {ProjectRunStatus_Completed, ProjectRunStatus_Failed, ProjectRunStatus_Cancelled,
          ProjectRunStatus_Released})"

definition result_tables ::
    "planning_store \<Rightarrow> record_workflow_result_input \<Rightarrow> project_run_record \<Rightarrow> planning_graph_node \<Rightarrow> string
     \<Rightarrow> planning_graph_node \<Rightarrow> planning_graph_edge \<Rightarrow> planning_store" where
  "result_tables st input existing node now ev edge =
     (let res = rw_result input in
      st\<lparr>planning_nodes := update_where (\<lambda>r. gn_id r = gn_id node)
            (set_node_status (workflow_result_graph_status (wwr_status res)) now) (planning_nodes st @ [ev]),
         planning_edges := planning_edges st @ [edge],
         project_runs := update_where (\<lambda>r. pr_id r = pr_id existing \<and> pr_fencing_token r = wwr_fencing_token res)
            (finished_run res existing (gn_id ev) now) (project_runs st)\<rparr>)"

lemma check_worker_result_unit: "check_worker_result res = Inr u \<Longrightarrow> check_worker_result res = Inr ()"
  by simp

lemma scope_key_run_node:
  "scope_key_for_entity st EntityType_ProjectRun i = Inr k \<longleftrightarrow> (\<exists>r. find_row pr_id i (project_runs st) = Some r \<and> pr_scope_key r = k)"
  "scope_key_for_entity st EntityType_GraphNode i = Inr k \<longleftrightarrow> (\<exists>r. find_row gn_id i (planning_nodes st) = Some r \<and> gn_scope_key r = k)"
  by (auto simp: scope_key_for_entity.simps row_or_not_found_def split: option.split)

lemma record_result_tx_cases:
  assumes "record_workflow_result_tx env st input = Inr (out, st')"
  obtains (replayed) existing where "find_row pr_id (wwr_project_run_id (rw_result input)) (project_runs st) = Some existing"
      "match_dispatch (rw_result input) existing = Inr ()" "wrw_replayed out" "wrw_project_run out = existing" "st' = st"
  | (written) existing node now where "result_accepted env st input existing node now"
      "write_result env (st\<lparr>tick := Suc (tick st)\<rparr>) input (normalized_scope_key (rw_active_scope_key input)) existing node now = Inr (out, st')"
proof -
  from assms show ?thesis
    unfolding record_workflow_result_tx_def Let_def
    apply (simp only: tryE_Inr_iff if_result_Inr if_error_Inr readings ensure_entity_in_scope_Inr scope_key_run_node
        load_project_run_Inr load_graph_node_Inr split_paired_Ex prod.case sum.inject prod.inject)
    apply (elim exE conjE disjE)
    subgoal by (rule replayed) auto
    subgoal by (rule written) (auto simp: result_accepted_def Let_def)
    done
qed

lemma write_result_effect:
  assumes "write_result env st input k existing node now = Inr (out, st')"
    and "find_row pr_id (wwr_project_run_id (rw_result input)) (project_runs st) = Some existing"
    and "wwr_fencing_token (rw_result input) = pr_fencing_token existing"
  shows "\<exists>ev edge. ev = result_evidence_node (gn_id ev) k node (rw_result input) now
    \<and> edge = result_attachment_edge (ge_id edge) node ev (rw_result input) now
    \<and> find_row gn_id (gn_id ev) (planning_nodes st) = None
    \<and> insert_planning_edge (st\<lparr>planning_nodes := planning_nodes st @ [ev]\<rparr>) edge
        = Inr (st\<lparr>planning_nodes := planning_nodes st @ [ev], planning_edges := planning_edges st @ [edge]\<rparr>)
    \<and> core st' = core (result_tables st input existing node now ev edge)
    \<and> wrw_project_run out = finished_run (rw_result input) existing (gn_id ev) now existing \<and> \<not> wrw_replayed out"
proof -
  let ?res = "rw_result input"
  from assms(1) obtain ev st1 edge st2 status st3 run where
    ev: "insert_workflow_result_evidence env st k node ?res (rw_correlation_id input) (rw_run_id input) now = Inr (ev, st1)"
    and edge: "insert_workflow_result_attachment env st1 node ev ?res (rw_correlation_id input) (rw_run_id input) now = Inr (edge, st2)"
    and upd: "update_workflow_node_status_in_transaction env st2 node (workflow_result_graph_status (wwr_status ?res))
      (rw_correlation_id input) (rw_run_id input) now = Inr (status, st3)"
    and fin: "finish_run env st3 input existing (gn_id ev) now = Inr (run, st')"
    and out: "wrw_project_run out = run" "\<not> wrw_replayed out"
    unfolding write_result_def Let_def by (auto simp: if_error_Inr)
  note ev = insert_evidence_effect [OF ev] and edge = insert_attachment_effect [OF edge]
    and upd = update_node_status_effect [OF upd] and fin = finish_run_effect [OF fin]
  let ?sh1 = "st\<lparr>planning_nodes := planning_nodes st @ [ev]\<rparr>"
  note t1 = core_fields [OF ev(3)] and t2 = core_fields [OF edge(3)] and t3 = core_fields [OF upd]
  have st2: "planning_nodes st2 = planning_nodes st @ [ev]" "project_runs st2 = project_runs st"
    using t1 t2 by simp_all
  have "core st2 = (core st)\<lparr>planning_nodes := planning_nodes st @ [ev], planning_edges := planning_edges st @ [edge]\<rparr>"
    using edge(3) ev(3) t1(13) by (simp add: core_commutes)
  then have st3: "core st3 = (core st)\<lparr>planning_nodes := update_where (\<lambda>r. gn_id r = gn_id node)
      (set_node_status (workflow_result_graph_status (wwr_status ?res)) now) (planning_nodes st @ [ev]),
      planning_edges := planning_edges st @ [edge]\<rparr>"
    using upd st2 by (simp add: update_planning_node_def core_commutes)
  have runs3: "project_runs st3 = project_runs st" using t3(11) st2 by (simp add: update_planning_node_def)
  have "core st' = core (result_tables st input existing node now ev edge)"
    using fin(1) st3 runs3 by (simp add: result_tables_def Let_def core_commutes)
  moreover have "run = finished_run ?res existing (gn_id ev) now existing"
  proof -
    have "pr_id (finished_run ?res existing (gn_id ev) now r) = pr_id r" for r by (simp add: finished_run_def)
    from find_row_update_where [of pr_id "finished_run ?res existing (gn_id ev) now", OF this] fin(2) assms(2,3)
    show ?thesis using find_row_SomeD [OF assms(2)] core_fields(11) [OF fin(1)] runs3 by simp
  qed
  moreover have "insert_planning_edge ?sh1 edge = Inr (?sh1\<lparr>planning_edges := planning_edges ?sh1 @ [edge]\<rparr>)"
    by (rule insert_planning_edge_core [OF edge(2) ev(3)])
  ultimately show ?thesis using ev(1,2) edge(1) out by (intro exI [of _ ev] exI [of _ edge]) simp
qed

lemma write_result_not_replayed:
  "write_result env st input k existing node now = Inr (out, st') \<Longrightarrow> \<not> wrw_replayed out"
  unfolding write_result_def Let_def by (auto simp: if_error_Inr)

lemma result_accepted_facts:
  assumes "result_accepted env st input existing node now"
  shows "find_row pr_id (wwr_project_run_id (rw_result input)) (project_runs st) = Some existing"
    "find_row gn_id (wwr_node_id (rw_result input)) (planning_nodes st) = Some node"
    "gn_scope_key node = normalized_scope_key (rw_active_scope_key input)"
    "wwr_fencing_token (rw_result input) = pr_fencing_token existing" "gn_kind node = PlanningNodeKind_Work"
    "pr_id existing = wwr_project_run_id (rw_result input)" "gn_id node = wwr_node_id (rw_result input)"
    "existing \<in> set (project_runs st)"
proof -
  show found: "find_row pr_id (wwr_project_run_id (rw_result input)) (project_runs st) = Some existing"
    "find_row gn_id (wwr_node_id (rw_result input)) (planning_nodes st) = Some node"
    using assms by (simp_all add: result_accepted_def Let_def)
  show "gn_scope_key node = normalized_scope_key (rw_active_scope_key input)"
    "wwr_fencing_token (rw_result input) = pr_fencing_token existing" "gn_kind node = PlanningNodeKind_Work"
    using assms by (auto simp: result_accepted_def Let_def match_dispatch_def match_node_def split: if_split_asm)
  show "pr_id existing = wwr_project_run_id (rw_result input)" "gn_id node = wwr_node_id (rw_result input)"
    "existing \<in> set (project_runs st)"
    using find_row_SomeD [OF found(1)] find_row_SomeD [OF found(2)] by simp_all
qed

lemma record_result_effect:
  assumes run: "record_workflow_result_tx env st input = Inr (out, st')" "\<not> wrw_replayed out"
  obtains existing node now ev edge where "result_accepted env st input existing node now"
    "ev = result_evidence_node (gn_id ev) (gn_scope_key node) node (rw_result input) now"
    "edge = result_attachment_edge (ge_id edge) node ev (rw_result input) now"
    "find_row gn_id (gn_id ev) (planning_nodes st) = None"
    "insert_planning_edge (st\<lparr>planning_nodes := planning_nodes st @ [ev]\<rparr>) edge
        = Inr (st\<lparr>planning_nodes := planning_nodes st @ [ev], planning_edges := planning_edges st @ [edge]\<rparr>)"
    "core st' = core (result_tables st input existing node now ev edge)"
    "wrw_project_run out = finished_run (rw_result input) existing (gn_id ev) now existing"
proof -
  let ?k = "normalized_scope_key (rw_active_scope_key input)" and ?st = "st\<lparr>tick := Suc (tick st)\<rparr>"
  from run obtain existing node now where acc: "result_accepted env st input existing node now"
    and wr: "write_result env ?st input ?k existing node now = Inr (out, st')"
    by (auto elim: record_result_tx_cases)
  note facts = result_accepted_facts [OF acc]
  have "find_row pr_id (wwr_project_run_id (rw_result input)) (project_runs ?st) = Some existing" using facts(1) by simp
  from write_result_effect [OF wr this facts(4)] obtain ev edge where
    eff: "ev = result_evidence_node (gn_id ev) ?k node (rw_result input) now"
      "edge = result_attachment_edge (ge_id edge) node ev (rw_result input) now"
      "find_row gn_id (gn_id ev) (planning_nodes st) = None"
    and ins: "insert_planning_edge (?st\<lparr>planning_nodes := planning_nodes st @ [ev]\<rparr>) edge
        = Inr (?st\<lparr>planning_nodes := planning_nodes st @ [ev], planning_edges := planning_edges st @ [edge]\<rparr>)"
    and core: "core st' = core (result_tables ?st input existing node now ev edge)"
    and out: "wrw_project_run out = finished_run (rw_result input) existing (gn_id ev) now existing" by auto
  have ins': "insert_planning_edge (st\<lparr>planning_nodes := planning_nodes st @ [ev]\<rparr>) edge
        = Inr (st\<lparr>planning_nodes := planning_nodes st @ [ev], planning_edges := planning_edges st @ [edge]\<rparr>)"
    using insert_planning_edge_core [where sx = "st\<lparr>planning_nodes := planning_nodes st @ [ev]\<rparr>", OF _ core_tables(1)] ins by simp
  have "core (result_tables ?st input existing node now ev edge) = core (result_tables st input existing node now ev edge)"
    by (simp add: result_tables_def Let_def core_def)
  with core have core': "core st' = core (result_tables st input existing node now ev edge)" by simp
  show ?thesis
    by (rule that [OF acc eff(1) [folded facts(3)] eff(2,3) ins' core' out])
qed

lemma result_status_closed:
  "\<not> open_status (workflow_result_project_run_status s)" "workflow_result_project_run_status s \<noteq> ProjectRunStatus_Suggested"
  by (cases s; simp add: open_status_def)+

lemma runs_ok_finished:
  "runs_ok env rs \<Longrightarrow> runs_ok env (update_where p (finished_run res existing ev now) rs)"
  by (rule runs_ok_update) (simp_all add: finished_run_def result_status_closed runs_ok_readable)

lemma evidence_edge_ok:
  assumes "find_row gn_id (gn_id node) (planning_nodes st) = Some node" "gn_kind node = PlanningNodeKind_Work"
    and "find_row gn_id (gn_id ev) (planning_nodes st) = None" "ev = result_evidence_node (gn_id ev) (gn_scope_key node) node res now"
    and "edge = result_attachment_edge (ge_id edge) node ev res now"
  shows "edge_ok (st\<lparr>planning_nodes := planning_nodes st @ [ev]\<rparr>) edge"
proof -
  have ev: "gn_scope_key ev = gn_scope_key node" "gn_kind ev = PlanningNodeKind_Evidence"
    by (subst assms(4), simp add: result_evidence_node_def)+
  have edge: "ge_scope_key edge = gn_scope_key node" "ge_source_node_id edge = gn_id node" "ge_target_node_id edge = gn_id ev"
    "ge_kind edge = PlanningEdgeKind_EvidencedBy"
    by (subst assms(5), simp add: result_attachment_edge_def)+
  have "gn_id node \<noteq> gn_id ev" using assms(1,3) by auto
  then show ?thesis
    using assms(1-3) by (auto simp: edge_ok_iff ev edge find_row_append validate_edge_kind_pair_def edge_kind_sources_def
        edge_kind_targets_def)
qed

lemma result_graph_inv:
  assumes inv: "graph_inv st" and node: "find_row gn_id (gn_id node) (planning_nodes st) = Some node" "gn_kind node = PlanningNodeKind_Work"
    and ev: "find_row gn_id (gn_id ev) (planning_nodes st) = None" "ev = result_evidence_node (gn_id ev) (gn_scope_key node) node res now"
    and edge: "edge = result_attachment_edge (ge_id edge) node ev res now"
    and ins: "insert_planning_edge (st\<lparr>planning_nodes := planning_nodes st @ [ev]\<rparr>) edge
        = Inr (st\<lparr>planning_nodes := planning_nodes st @ [ev], planning_edges := planning_edges st @ [edge]\<rparr>)"
    and st': "planning_nodes st' = update_where (\<lambda>r. gn_id r = gn_id node) (set_node_status status now) (planning_nodes st @ [ev])"
      "planning_edges st' = planning_edges st @ [edge]"
  shows "graph_inv st'"
proof -
  let ?sh1 = "st\<lparr>planning_nodes := planning_nodes st @ [ev]\<rparr>"
  let ?sh2 = "st\<lparr>planning_nodes := planning_nodes st @ [ev], planning_edges := planning_edges st @ [edge]\<rparr>"
  have kind: "ge_kind edge = PlanningEdgeKind_EvidencedBy" "ge_scope_key edge = gn_scope_key node"
    by (subst edge, simp add: result_attachment_edge_def)+
  have scope: "gn_scope_key ev = gn_scope_key node" by (subst ev(2)) (simp add: result_evidence_node_def)
  have "insert_planning_node st ev = Inr ?sh1"
    using ins ev(1) by (auto simp: insert_planning_node_Inr insert_planning_edge_Inr edge_row_ok_Inr kind scope)
  from insert_node_inv [OF this inv] have inv1: "graph_inv ?sh1" .
  have "no_new_cycle ?sh1 edge" by (simp add: no_new_cycle_def acyclic_kind_def kind)
  with insert_edge_inv [OF ins inv1 evidence_edge_ok [OF node ev edge]] have inv2: "graph_inv ?sh2" .
  have "keeps_identity (set_node_status status now)" by (simp add: keeps_identity_def set_node_status_def)
  from update_node_inv [OF this inv2, of "gn_id node"] show ?thesis
    by (rule graph_inv_cong [THEN iffD1, rotated 2]) (simp_all add: st' update_planning_node_def)
qed

text \<open>
  Claim C13. A worker result that is written keeps the graph invariant and the run invariant, although it inserts an
  evidence node, an edge and a status without the checks of the graph operations: the run it closes was open and
  held under the presented token, and after it the run is terminal and the work node has the status of the result.
\<close>

theorem workflow_result_keeps_invariants:
  assumes run: "record_workflow_result_tx env st input = Inr (out, st')" "\<not> wrw_replayed out"
    and inv: "graph_inv st" "runs_ok env (project_runs st)"
  shows "graph_inv st' \<and> runs_ok env (project_runs st')
    \<and> (\<exists>existing node now. result_accepted env st input existing node now \<and> open_status (pr_status existing))
    \<and> find_row pr_id (wwr_project_run_id (rw_result input)) (project_runs st') = Some (wrw_project_run out)
    \<and> pr_status (wrw_project_run out) = workflow_result_project_run_status (wwr_status (rw_result input))
    \<and> map_option gn_status (find_row gn_id (wwr_node_id (rw_result input)) (planning_nodes st'))
        = Some (workflow_result_graph_status (wwr_status (rw_result input)))"
proof -
  let ?res = "rw_result input"
  obtain existing node now ev edge where acc: "result_accepted env st input existing node now"
    and ev: "ev = result_evidence_node (gn_id ev) (gn_scope_key node) node ?res now"
    and edge: "edge = result_attachment_edge (ge_id edge) node ev ?res now"
    and fresh: "find_row gn_id (gn_id ev) (planning_nodes st) = None"
    and ins: "insert_planning_edge (st\<lparr>planning_nodes := planning_nodes st @ [ev]\<rparr>) edge
        = Inr (st\<lparr>planning_nodes := planning_nodes st @ [ev], planning_edges := planning_edges st @ [edge]\<rparr>)"
    and core: "core st' = core (result_tables st input existing node now ev edge)"
    and out: "wrw_project_run out = finished_run ?res existing (gn_id ev) now existing"
    by (rule record_result_effect [OF run]) (rule that)
  note facts = result_accepted_facts [OF acc]
  note t = core_fields [OF core, unfolded result_tables_def Let_def, simplified]
  have "find_row gn_id (gn_id node) (planning_nodes st) = Some node" using facts(2,7) by simp
  from result_graph_inv [OF inv(1) this facts(5) fresh ev edge ins] t(12,13) have "graph_inv st'" by simp
  moreover have "runs_ok env (project_runs st')" unfolding t(11) by (rule runs_ok_finished [OF inv(2)])
  moreover have "open_status (pr_status existing)"
    using acc inv(2) facts(8) by (cases "pr_status existing") (auto simp: result_accepted_def Let_def runs_ok_def open_status_def)
  moreover have "find_row pr_id (wwr_project_run_id ?res) (project_runs st') = Some (wrw_project_run out)"
    unfolding t(11) using facts(1,4,6) out
    by (simp add: find_row_update_where [where key = pr_id and f = "finished_run ?res existing (gn_id ev) now"] finished_run_def)
  moreover have "map_option gn_status (find_row gn_id (wwr_node_id ?res) (planning_nodes st'))
      = Some (workflow_result_graph_status (wwr_status ?res))"
    unfolding t(12) using facts(2,7)
    by (simp add: find_row_update_where [where key = gn_id and f = "set_node_status s n" for s n] find_row_append set_node_status_def)
  moreover have "pr_status (wrw_project_run out) = workflow_result_project_run_status (wwr_status ?res)"
    by (simp add: out finished_run_def)
  ultimately show ?thesis using acc by blast
qed

section \<open>Replays\<close>

lemma match_dispatch_finished: "match_dispatch res (finished_run res existing ev now r) = match_dispatch res r"
proof -
  have "pr_id (finished_run res existing ev now r) = pr_id r" "pr_fencing_token (finished_run res existing ev now r) = pr_fencing_token r"
    "pr_idempotency_key (finished_run res existing ev now r) = pr_idempotency_key r"
    by (simp_all add: finished_run_def)
  then show ?thesis by (simp only: match_dispatch_def)
qed

text \<open>
  Recording a result twice has the effect of recording it once: when a result was accepted, sending it
  again returns the run it closed, marked as replayed, and changes neither the store nor the session file.
\<close>

lemma workflow_result_replays:
  assumes run: "record_workflow_result env (st, d) input = Inr (out, (st', d'))"
  shows "\<exists>out'. record_workflow_result env (st', d') input = Inr (out', (st', d'))
    \<and> wrw_replayed out' \<and> wrw_project_run out' = wrw_project_run out"
proof (cases "wrw_replayed out")
  case True
  from run obtain tx where tx: "record_workflow_result_tx env st input = Inr (out, tx)"
    and same: "tx = st'" "d = d'" using True by (auto simp: record_workflow_result_def split: if_split_asm)
  from tx True have "tx = st" by (auto elim!: record_result_tx_cases dest!: write_result_not_replayed)
  with run True same show ?thesis by auto
next
  case False
  let ?res = "rw_result input" and ?k = "normalized_scope_key (rw_active_scope_key input)"
  from run False have tx: "record_workflow_result_tx env st input = Inr (out, st')"
    by (auto simp: record_workflow_result_def split: if_split_asm)
  obtain existing node now ev edge where acc: "result_accepted env st input existing node now"
    and ev: "ev = result_evidence_node (gn_id ev) (gn_scope_key node) node ?res now"
    and edge: "edge = result_attachment_edge (ge_id edge) node ev ?res now"
    and fresh: "find_row gn_id (gn_id ev) (planning_nodes st) = None"
    and ins: "insert_planning_edge (st\<lparr>planning_nodes := planning_nodes st @ [ev]\<rparr>) edge
        = Inr (st\<lparr>planning_nodes := planning_nodes st @ [ev], planning_edges := planning_edges st @ [edge]\<rparr>)"
    and core: "core st' = core (result_tables st input existing node now ev edge)"
    and out: "wrw_project_run out = finished_run ?res existing (gn_id ev) now existing"
    by (rule record_result_effect [OF tx False]) (rule that)
  note facts = result_accepted_facts [OF acc]
  note t = core_fields [OF core, unfolded result_tables_def Let_def, simplified]
  have found: "find_row pr_id (wwr_project_run_id ?res) (project_runs st') = Some (wrw_project_run out)"
    unfolding t(11) using facts(1,4,6) out
    by (simp add: find_row_update_where [where key = pr_id and f = "finished_run ?res existing (gn_id ev) now"] finished_run_def)
  have "\<exists>n. find_row gn_id (wwr_node_id ?res) (planning_nodes st') = Some n \<and> gn_scope_key n = ?k"
    unfolding t(12) using facts(2,3,7)
    by (simp add: find_row_update_where [where key = gn_id and f = "set_node_status s n" for s n] find_row_append set_node_status_def)
  moreover have "pr_scope_key (wrw_project_run out) = ?k" "check_worker_result ?res = Inr ()"
    "wwr_idempotency_key ?res \<in> set (pe_workflow_result_keys (pr_evidence (wrw_project_run out)))"
    using acc unfolding out by (simp_all add: result_accepted_def Let_def finished_run_def)
  moreover have "match_dispatch ?res (wrw_project_run out) = Inr ()"
    using acc unfolding out match_dispatch_finished by (simp add: result_accepted_def Let_def)
  ultimately show ?thesis using found
    by (auto simp: record_workflow_result_def record_workflow_result_tx_def Let_def ensure_entity_in_scope_Inr scope_key_run_node
        tryE_Inr_iff)
qed

text \<open>A run on \<open>p3\<close> with a live lease, and the result of its worker.\<close>

definition held_row :: project_run_record where
  "held_row = (claimed_record (claim_input (Some ''k'') ''p3'') ''r'' ''default'' ''me'' 1 (unary 100) (unary 0))
     \<lparr>pr_status := ProjectRunStatus_Active\<rparr>"

definition result_store :: planning_store where
  "result_store = work_store\<lparr>project_runs := [held_row], planning_nodes := [bound_node]\<rparr>"

definition result_input :: record_workflow_result_input where
  "result_input = \<lparr>rw_result = \<lparr>wwr_schema_version = ''orchestrator-worker-result/v1'', wwr_dispatch_id = ''dispatch-r'',
       wwr_project_run_id = ''r'', wwr_node_id = ''w1'', wwr_source_revision = 1, wwr_fencing_token = 1,
       wwr_idempotency_key = ''k'', wwr_status = WorkflowResultStatus_Failed, wwr_summary = ''s'', wwr_reference = None,
       wwr_content = None, wwr_evidence_kind = EvidenceKind_TestResult, wwr_captured_at = None,
       wwr_requested_status = None\<rparr>,
     rw_active_scope_key = None, rw_correlation_id = ''c'', rw_run_id = None\<rparr>"

definition recorded :: "workflow_result_writeback \<times> planning_store" where
  "recorded = (case record_workflow_result_tx lease_env result_store result_input of
     Inr x \<Rightarrow> x
   | Inl _ \<Rightarrow> (\<lparr>wrw_project_run = held_row, wrw_evidence = None, wrw_attachment = None, wrw_status_update = None,
       wrw_replayed = True\<rparr>, result_store))"

section \<open>Accepted results are written\<close>

text \<open>The rows a run refers to are there, so that its validators find them.\<close>

definition run_refs_ok :: "planning_store \<Rightarrow> project_run_record \<Rightarrow> bool" where
  "run_refs_ok st run \<longleftrightarrow> find_row go_id (pr_goal_id run) (goals st) \<noteq> None
     \<and> (case find_row wp_id (pr_work_point_id run) (work_points st) of
          None \<Rightarrow> False
        | Some w \<Rightarrow> find_row rm_id (wp_roadmap_id w) (roadmaps st) \<noteq> None)"

lemma run_refs_core:
  assumes "core st' = core st"
  shows "run_refs_ok st' run = run_refs_ok st run"
  unfolding run_refs_ok_def core_fields(2,3,5) [OF assms] ..

lemma validator_work_point_total:
  assumes "run_refs_ok st run"
  shows "\<exists>k steps. validator_steps st EntityType_WorkPoint (pr_work_point_id run) = Inr (k, steps) \<and> (\<forall>e. Fail e \<notin> set steps)"
proof -
  have dep: "Fail e \<notin> set (dependency_steps st w d)" for e w d
    by (auto simp: dependency_steps_def load_work_point_def row_or_not_found_def not_found_def split: option.split)
  have sec: "Fail e \<notin> set (section_steps st w)" "Fail e \<notin> set (cross_scope_targets st w what ids)" for e w what ids
    by (auto simp: section_steps_def cross_scope_targets_def split: option.split sum.split_asm)
  obtain w where w: "find_row wp_id (pr_work_point_id run) (work_points st) = Some w" "find_row rm_id (wp_roadmap_id w) (roadmaps st) \<noteq> None"
    using assms by (auto simp: run_refs_ok_def split: option.split_asm)
  then show ?thesis
    by (auto simp: validator_steps_def validate_work_point_def load_work_point_def load_roadmap_def row_or_not_found_def dep sec)
qed

lemma validator_run_total:
  assumes "run_refs_ok st run" "find_row pr_id i (project_runs st) = Some run"
  shows "\<exists>k steps. validator_steps st EntityType_ProjectRun i = Inr (k, steps) \<and> (\<forall>e. Fail e \<notin> set steps)"
  using assms
  by (auto simp: run_refs_ok_def validator_steps_def validate_project_run_def load_project_run_def load_goal_def load_work_point_def
      row_or_not_found_def after_load_def split: option.split_asm sum.split)

lemma validator_node_total:
  "\<exists>k steps. validator_steps st EntityType_GraphNode i = Inr (k, steps) \<and> (\<forall>e. Fail e \<notin> set steps)"
proof (cases "load_graph_node st i")
  case (Inr node)
  then show ?thesis by (simp add: validator_steps_def validate_graph_node_def Let_def del: load_graph_node_Inr)
qed (simp add: validator_steps_def validate_graph_node_def)

lemma refresh_total':
  assumes "fresh_supply env st" "\<exists>k steps. validator_steps st et i = Inr (k, steps) \<and> (\<forall>e. Fail e \<notin> set steps)"
  obtains rep st' where "refresh_validation_target env st et i = Inr (rep, st')" "core st' = core st" "fresh_supply env st'"
  using assms refresh_total by blast

lemma fresh_supply_nodes:
  assumes "fresh_supply env st" "gn_id n = env_new_id env (tick st)"
  shows "fresh_supply env (st\<lparr>tick := Suc (tick st), planning_nodes := planning_nodes st @ [n]\<rparr>)"
  using assms by (intro fresh_supply_step [OF assms(1)]) (auto simp: used_ids_def fresh_supply_def)

lemma fresh_supply_edges:
  assumes "fresh_supply env st" "ge_id e = env_new_id env (tick st)"
  shows "fresh_supply env (st\<lparr>tick := Suc (tick st), planning_edges := planning_edges st @ [e]\<rparr>)"
  using assms by (intro fresh_supply_step [OF assms(1)]) (auto simp: used_ids_def fresh_supply_def)

lemma fresh_supply_same_ids: "fresh_supply env st \<Longrightarrow> used_ids st' = used_ids st \<Longrightarrow> planning_events st' = planning_events st
    \<Longrightarrow> tick st' = tick st \<Longrightarrow> fresh_supply env st'"
  by (simp add: fresh_supply_def)

lemma insert_evidence_total:
  assumes sup: "fresh_supply env st" and scope: "find_row sc_scope_key k (scopes st) \<noteq> None"
  shows "\<exists>ev st'. insert_workflow_result_evidence env st k node res c run now = Inr (ev, st') \<and> fresh_supply env st'"
proof -
  define ev where "ev = result_evidence_node (env_new_id env (tick st)) k node res now"
  have id: "gn_id ev = env_new_id env (tick st)" "gn_scope_key ev = k" by (simp_all add: ev_def result_evidence_node_def)
  let ?st = "st\<lparr>tick := Suc (tick st), planning_nodes := planning_nodes st @ [ev]\<rparr>"
  have new: "find_row gn_id (gn_id ev) (planning_nodes st) = None"
    using fresh_supply_new [OF sup] by (simp add: used_ids_def find_row_None_iff id)
  have ins: "insert_planning_node (st\<lparr>tick := Suc (tick st)\<rparr>) ev = Inr ?st"
    using new scope by (simp add: insert_planning_node_def id)
  have key: "scope_key_for_entity ?st EntityType_GraphNode (gn_id ev) = Inr k"
    unfolding scope_key_run_node using new by (simp add: find_row_append id)
  have sup1: "fresh_supply env ?st" by (rule fresh_supply_nodes [OF sup id(1)])
  from log_event_total [OF sup1, of EntityType_GraphNode "gn_id ev" EntityType_GraphNode "gn_id node" k c run
      "''graph-node.created''" "graph_node_json ev"] key
  obtain st2 where st2: "log_event env ?st EntityType_GraphNode (gn_id ev) EntityType_GraphNode (gn_id node) c run
      ''graph-node.created'' (graph_node_json ev) = Inr st2" "core st2 = core ?st" "fresh_supply env st2"
    by (auto simp: resolve_event_scope_key_def)
  have "scope_key_for_entity st2 EntityType_GraphNode (gn_id ev) = Inr k" using key scope_key_core [OF st2(2)] by simp
  from rebuild_tag_total [OF st2(3) this] obtain st3 where
    "rebuild_tag_index_for_entity st2 EntityType_GraphNode (gn_id ev) (gn_tags ev) = Inr st3" "fresh_supply env st3" by blast
  moreover have "result_evidence_node (gn_id ev) k node res now = ev" by (simp add: ev_def result_evidence_node_def)
  ultimately show ?thesis using ins st2(1)
    by (auto simp: insert_workflow_result_evidence_def new_id_def Let_def id(1) [symmetric])
qed

lemma insert_attachment_total:
  assumes sup: "fresh_supply env st" and scope: "find_row sc_scope_key (gn_scope_key node) (scopes st) \<noteq> None"
    and nodes: "find_row gn_id (gn_id node) (planning_nodes st) \<noteq> None" "find_row gn_id (gn_id ev) (planning_nodes st) \<noteq> None"
    and free: "gn_id ev \<notin> ge_target_node_id ` set (planning_edges st)"
  shows "\<exists>edge st'. insert_workflow_result_attachment env st node ev res c run now = Inr (edge, st') \<and> fresh_supply env st'"
proof -
  define edge where "edge = result_attachment_edge (env_new_id env (tick st)) node ev res now"
  have id: "ge_id edge = env_new_id env (tick st)" "ge_scope_key edge = gn_scope_key node" "ge_source_node_id edge = gn_id node"
    "ge_target_node_id edge = gn_id ev" by (simp_all add: edge_def result_attachment_edge_def)
  let ?st = "st\<lparr>tick := Suc (tick st), planning_edges := planning_edges st @ [edge]\<rparr>"
  have new: "find_row ge_id (ge_id edge) (planning_edges st) = None"
    using fresh_supply_new [OF sup] by (simp add: used_ids_def find_row_None_iff id)
  have "\<not> active_duplicate (st\<lparr>tick := Suc (tick st)\<rparr>) None edge"
    using free by (auto simp: active_duplicate_def edge_key_def list_ex_iff id image_iff)
  then have ins: "insert_planning_edge (st\<lparr>tick := Suc (tick st)\<rparr>) edge = Inr ?st"
    using new scope nodes by (simp add: insert_planning_edge_def edge_row_ok_def id)
  have key: "scope_key_for_entity ?st EntityType_GraphEdge (ge_id edge) = Inr (gn_scope_key node)"
    using new by (simp add: scope_key_for_entity.simps row_or_not_found_def find_row_append id)
  have sup1: "fresh_supply env ?st" by (rule fresh_supply_edges [OF sup id(1)])
  from log_event_total [OF sup1, of EntityType_GraphEdge "ge_id edge" EntityType_GraphNode "gn_id node" "gn_scope_key node" c run
      "''graph-edge.created''" "graph_edge_json edge"] key
  obtain st2 where "log_event env ?st EntityType_GraphEdge (ge_id edge) EntityType_GraphNode (gn_id node) c run
      ''graph-edge.created'' (graph_edge_json edge) = Inr st2" "fresh_supply env st2"
    by (auto simp: resolve_event_scope_key_def)
  moreover have "result_attachment_edge (ge_id edge) node ev res now = edge" by (simp add: edge_def result_attachment_edge_def)
  ultimately show ?thesis using ins
    by (auto simp: insert_workflow_result_attachment_def new_id_def Let_def id(1) [symmetric])
qed

lemma update_node_status_total:
  assumes sup: "fresh_supply env st" and node: "find_row gn_id (gn_id node) (planning_nodes st) = Some n"
  shows "\<exists>rec st'. update_workflow_node_status_in_transaction env st node status c run now = Inr (rec, st') \<and> fresh_supply env st'"
proof -
  let ?st = "update_planning_node st (gn_id node) (set_node_status status now)"
  have keep: "gn_id (set_node_status status now r) = gn_id r" for r by (simp add: set_node_status_def)
  have load: "find_row gn_id (gn_id node) (planning_nodes ?st) = Some (set_node_status status now n)"
    using node find_row_SomeD [OF node] by (simp add: update_planning_node_def find_row_update_where [where key = gn_id] keep)
  have "gn_id ` set (planning_nodes ?st) = gn_id ` set (planning_nodes st)"
    by (simp add: update_planning_node_def image_update_where keep)
  then have sup1: "fresh_supply env ?st"
    by (intro fresh_supply_same_ids [OF sup]) (simp_all add: used_ids_def update_planning_node_def)
  let ?rec = "set_node_status status now n"
  have id: "gn_id ?rec = gn_id node" using find_row_SomeD [OF node] by (simp add: keep)
  have key: "scope_key_for_entity ?st EntityType_GraphNode (gn_id ?rec) = Inr (gn_scope_key ?rec)"
    unfolding scope_key_run_node using load by (simp add: id)
  from log_event_total [OF sup1, of EntityType_GraphNode "gn_id ?rec" EntityType_GraphNode "gn_id ?rec" "gn_scope_key ?rec" c run
      "''graph-node.status-updated''" "JObj (status_payload (gn_status ?rec) (gn_status node) (gn_revision ?rec))"] key
  obtain st2 where st2: "log_event env ?st EntityType_GraphNode (gn_id ?rec) EntityType_GraphNode (gn_id ?rec) c run
      ''graph-node.status-updated'' (JObj (status_payload (gn_status ?rec) (gn_status node) (gn_revision ?rec))) = Inr st2"
    "fresh_supply env st2" by (auto simp: resolve_event_scope_key_def)
  obtain rep st3 where "refresh_validation_target env st2 EntityType_GraphNode (gn_id ?rec) = Inr (rep, st3)" "fresh_supply env st3"
    by (rule refresh_total' [OF st2(2) validator_node_total])
  moreover have "load_graph_node ?st (gn_id node) = Inr ?rec" by (simp only: load_graph_node_Inr load)
  moreover have "(\<lambda>r. r\<lparr>gn_status := status, gn_revision := gn_revision r + 1, gn_updated_at := now\<rparr>) = set_node_status status now"
    by (intro ext) (simp add: set_node_status_def)
  ultimately show ?thesis using st2(1) unfolding update_workflow_node_status_in_transaction_def Let_def
    by (simp del: load_graph_node_Inr)
qed

lemma filter_unique:
  assumes "distinct (map f xs)" "x \<in> set xs" "P x" "\<And>y. P y \<Longrightarrow> f y = f x"
  shows "length (filter P xs) = 1"
  using assms
proof (induction xs)
  case (Cons y ys)
  show ?case
  proof (cases "x = y")
    case True
    then have "f x \<notin> f ` set ys" using Cons.prems(1) by simp
    then have "f z \<noteq> f x" if "z \<in> set ys" for z using that imageI [OF that, of f] by metis
    with Cons.prems(4) have "filter P ys = []" unfolding filter_empty_conv by blast
    with True Cons.prems(3) show ?thesis by simp
  next
    case False
    with Cons.prems(1,2) have x: "x \<in> set ys" "f y \<noteq> f x" by (auto simp: image_iff)
    with Cons.prems(4) have "\<not> P y" by blast
    with Cons.IH [OF _ x(1) Cons.prems(3,4)] Cons.prems(1) show ?thesis by simp
  qed
qed simp

lemma finish_run_total:
  assumes sup: "fresh_supply env st" and run: "find_row pr_id (wwr_project_run_id (rw_result input)) (project_runs st) = Some existing"
    and keys: "distinct (map pr_id (project_runs st))" and token: "wwr_fencing_token (rw_result input) = pr_fencing_token existing"
    and refs: "run_refs_ok st existing"
  shows "\<exists>run st'. finish_run env st input existing ev now = Inr (run, st')"
proof -
  let ?res = "rw_result input"
  let ?hit = "\<lambda>r. pr_id r = pr_id existing \<and> pr_fencing_token r = wwr_fencing_token ?res"
  define st1 where "st1 = st\<lparr>project_runs := update_where ?hit (finished_run ?res existing ev now) (project_runs st)\<rparr>"
  define closed where "closed = finished_run ?res existing ev now existing"
  have in_st: "existing \<in> set (project_runs st)" "pr_id existing = wwr_project_run_id ?res" using find_row_SomeD [OF run] by auto
  have one: "length (filter ?hit (project_runs st)) = 1"
    using filter_unique [OF keys in_st(1), of ?hit] token by simp
  have keep: "pr_id (finished_run ?res existing ev now r) = pr_id r" for r by (simp add: finished_run_def)
  have load: "find_row pr_id (wwr_project_run_id ?res) (project_runs st1) = Some closed"
    using run in_st(2) token by (simp add: st1_def closed_def find_row_update_where [where key = pr_id] keep)
  have fields: "pr_id closed = wwr_project_run_id ?res" "pr_work_point_id closed = pr_work_point_id existing"
    by (simp_all add: closed_def finished_run_def in_st(2))
  have "pr_id ` set (project_runs st1) = pr_id ` set (project_runs st)"
    by (simp add: st1_def image_update_where keep)
  then have sup1: "fresh_supply env st1"
    by (intro fresh_supply_same_ids [OF sup]) (simp_all add: used_ids_def st1_def)
  have "scope_key_for_entity st1 EntityType_ProjectRun (pr_id closed) = Inr (pr_scope_key closed)"
    unfolding scope_key_run_node fields using load by blast
  with log_event_total [OF sup1, of EntityType_ProjectRun "pr_id closed" EntityType_Roadmap "pr_roadmap_id closed" "pr_scope_key closed"
      "rw_correlation_id input" "rw_run_id input" "''project-run.released''" "project_run_json closed"]
  obtain st2 where log: "log_event env st1 EntityType_ProjectRun (pr_id closed) EntityType_Roadmap (pr_roadmap_id closed)
      (rw_correlation_id input) (rw_run_id input) ''project-run.released'' (project_run_json closed) = Inr st2"
    "core st2 = core st1" "fresh_supply env st2" by (auto simp: resolve_event_scope_key_def)
  have refs1: "run_refs_ok st1 closed" using refs
    by (auto simp: run_refs_ok_def st1_def closed_def finished_run_def split: option.split_asm)
  have refs2: "run_refs_ok st2 closed" using run_refs_core [OF log(2)] refs1 by simp
  have "find_row pr_id (pr_id closed) (project_runs st2) = Some closed" using load fields project_runs_core [OF log(2)] by simp
  from validator_run_total [OF refs2 this]
  obtain rep st3 where val: "refresh_validation_target env st2 EntityType_ProjectRun (pr_id closed) = Inr (rep, st3)"
    "core st3 = core st2" "fresh_supply env st3" by (rule refresh_total' [OF log(3)])
  have "run_refs_ok st3 closed" using run_refs_core [OF val(2)] refs2 by simp
  from validator_work_point_total [OF this]
  obtain rep' st4 where "refresh_validation_target env st3 EntityType_WorkPoint (pr_work_point_id closed) = Inr (rep', st4)"
    by (rule refresh_total' [OF val(3)])
  moreover have "load_project_run st1 (wwr_project_run_id ?res) = Inr closed" using load by (simp only: load_project_run_Inr)
  moreover have "finish_run env st input existing ev now =
      tryE (load_project_run st1 (wwr_project_run_id ?res)) (\<lambda>run.
      tryE (log_event env st1 EntityType_ProjectRun (pr_id run) EntityType_Roadmap (pr_roadmap_id run)
              (rw_correlation_id input) (rw_run_id input) ''project-run.released'' (project_run_json run)) (\<lambda>st.
      tryE (refresh_validation_target env st EntityType_ProjectRun (pr_id run)) (\<lambda>(_, st).
      tryE (refresh_validation_target env st EntityType_WorkPoint (pr_work_point_id run)) (\<lambda>(_, st).
      Inr (run, st)))))"
    unfolding finish_run_def Let_def validate_and_store_def st1_def finished_run_def [abs_def] by (simp only: one simp_thms if_False)
  ultimately show ?thesis using log(1) val(1) by (simp del: load_project_run_Inr)
qed

lemma result_status_kebab: "require_kebab_token ''statusUpdate'' (workflow_result_graph_status s) = Inr ()"
  by (cases s) (simp_all only:, code_simp+)

text \<open>What a result needs beside the checks: a consistent store, and a status update that is the one of the result.\<close>

definition result_store_ok ::
    "environment \<Rightarrow> planning_store \<Rightarrow> record_workflow_result_input \<Rightarrow> project_run_record \<Rightarrow> planning_graph_node \<Rightarrow> bool" where
  "result_store_ok env st input existing node \<longleftrightarrow> fresh_supply env st
     \<and> wwr_requested_status (rw_result input) \<in> {None, Some (workflow_result_graph_status (wwr_status (rw_result input)))}
     \<and> find_row sc_scope_key (gn_scope_key node) (scopes st) \<noteq> None \<and> run_refs_ok st existing
     \<and> graph_inv st \<and> distinct (map pr_id (project_runs st))"

lemma write_result_total:
  assumes acc: "result_accepted env st input existing node now" and ok: "result_store_ok env st input existing node"
  shows "\<exists>out st'. write_result env (st\<lparr>tick := Suc (tick st)\<rparr>) input (gn_scope_key node) existing node now = Inr (out, st')
    \<and> \<not> wrw_replayed out"
proof -
  let ?res = "rw_result input" and ?st = "st\<lparr>tick := Suc (tick st)\<rparr>" and ?c = "rw_correlation_id input" and ?r = "rw_run_id input"
  note facts = result_accepted_facts [OF acc]
  from ok have sup: "fresh_supply env st" and scope: "find_row sc_scope_key (gn_scope_key node) (scopes st) \<noteq> None"
    and status: "wwr_requested_status ?res \<in> {None, Some (workflow_result_graph_status (wwr_status ?res))}"
    and refs: "run_refs_ok st existing" and inv: "graph_inv st" "distinct (map pr_id (project_runs st))"
    unfolding result_store_ok_def by blast+
  have node: "find_row gn_id (gn_id node) (planning_nodes st) = Some node" using facts(2,7) by simp
  have sup0: "fresh_supply env ?st" by (rule fresh_supply_tick [OF sup]) simp
  have sc0: "find_row sc_scope_key (gn_scope_key node) (scopes ?st) \<noteq> None" using scope by simp
  obtain ev st1 where ev: "insert_workflow_result_evidence env ?st (gn_scope_key node) node ?res ?c ?r now = Inr (ev, st1)" "fresh_supply env st1"
    using insert_evidence_total [OF sup0 sc0] by blast
  note e = insert_evidence_effect [OF ev(1)]
  note t1 = core_fields [OF e(3), simplified]
  have free: "gn_id ev \<notin> ge_target_node_id ` set (planning_edges st1)"
    using inv(1) e(2) unfolding t1(13) by (auto simp: graph_inv_def list_all_iff edge_ok_iff)
  have "find_row gn_id (gn_id node) (planning_nodes st1) = Some node" "find_row gn_id (gn_id ev) (planning_nodes st1) \<noteq> None"
    "find_row sc_scope_key (gn_scope_key node) (scopes st1) \<noteq> None"
    unfolding t1 using node scope e(2) by (simp_all add: find_row_append)
  with insert_attachment_total [OF ev(2) _ _ _ free] obtain edge st2 where
    edge: "insert_workflow_result_attachment env st1 node ev ?res ?c ?r now = Inr (edge, st2)" "fresh_supply env st2" by (metis option.distinct(1))
  note t2 = core_fields [OF insert_attachment_effect(3) [OF edge(1)], simplified]
  let ?s = "workflow_result_graph_status (wwr_status ?res)"
  have "find_row gn_id (gn_id node) (planning_nodes st2) = Some node" unfolding t2 t1 using node by (simp add: find_row_append)
  from update_node_status_total [OF edge(2) this] obtain rec st3 where
    upd: "update_workflow_node_status_in_transaction env st2 node ?s ?c ?r now = Inr (rec, st3)" "fresh_supply env st3" by blast
  note t3 = core_fields [OF update_node_status_effect [OF upd(1)], unfolded update_planning_node_def, simplified]
  have "run_refs_ok st3 existing" using refs unfolding run_refs_ok_def t1 t2 t3 .
  moreover have "find_row pr_id (wwr_project_run_id ?res) (project_runs st3) = Some existing" "distinct (map pr_id (project_runs st3))"
    unfolding t1 t2 t3 using facts(1) inv(2) by simp_all
  ultimately obtain run st4 where fin: "finish_run env st3 input existing (gn_id ev) now = Inr (run, st4)"
    using finish_run_total [OF upd(2) _ _ facts(4)] by blast
  have "(case wwr_requested_status ?res of Some s \<Rightarrow> s | None \<Rightarrow> ?s) = ?s" using status by auto
  then show ?thesis
    unfolding write_result_def Let_def by (simp add: ev(1) edge(1) upd(1) fin result_status_kebab)
qed

lemma record_accepted:
  assumes acc: "result_accepted env st input existing node now"
    and new: "wwr_idempotency_key (rw_result input) \<notin> set (pe_workflow_result_keys (pr_evidence existing))"
  shows "record_workflow_result_tx env st input
    = write_result env (st\<lparr>tick := Suc (tick st)\<rparr>) input (gn_scope_key node) existing node now"
proof -
  let ?res = "rw_result input"
  note facts = result_accepted_facts [OF acc]
  have "ensure_entity_in_scope st EntityType_ProjectRun (wwr_project_run_id ?res) (gn_scope_key node) = Inr (gn_scope_key node)"
    "ensure_entity_in_scope st EntityType_GraphNode (wwr_node_id ?res) (gn_scope_key node) = Inr (gn_scope_key node)"
    unfolding ensure_entity_in_scope_Inr scope_key_run_node using acc by (auto simp: result_accepted_def Let_def)
  moreover have "load_project_run st (wwr_project_run_id ?res) = Inr existing"
    "load_graph_node (st\<lparr>tick := Suc (tick st)\<rparr>) (wwr_node_id ?res) = Inr node"
    using facts(1,2) by simp_all
  ultimately show ?thesis
    using acc new unfolding record_workflow_result_tx_def Let_def facts(3) [symmetric]
    by (simp add: result_accepted_def Let_def now_string_def del: load_project_run_Inr load_graph_node_Inr)
qed

text \<open>
  Claim C14. A result that passes the checks is written: when the checks accept it, its key is new, its status update (if
  any) is the one of the result, and the store is consistent (ids are unique, the end points of edges exist, the run
  refers to rows that exist, the scope is registered and the id source does not repeat itself), then recording it
  succeeds, and the session file follows. None of the writes behind the checks can fail.
\<close>

theorem workflow_result_written:
  assumes "result_accepted env st input existing node now" "result_store_ok env st input existing node"
    and "wwr_idempotency_key (rw_result input) \<notin> set (pe_workflow_result_keys (pr_evidence existing))"
  shows "\<exists>out st' d'. record_workflow_result env (st, d) input = Inr (out, (st', d')) \<and> \<not> wrw_replayed out
    \<and> d' = best_effort d (clear_active_project_run d (Some (pr_work_point_id (wrw_project_run out))))"
  using write_result_total [OF assms(1,2)] record_accepted [OF assms(1,3)]
  by (auto simp: record_workflow_result_def)

section \<open>A result on a concrete store\<close>

lemma supply_lease_env:
  assumes "\<And>i. i \<in> used_ids st \<Longrightarrow> \<not> starts_with i ''uuid-''" "planning_events st = []"
  shows "fresh_supply lease_env st"
proof -
  have "inj (env_new_id lease_env)" by (auto simp: lease_env_def inj_def dest: arg_cong [where f = length])
  moreover have "env_new_id lease_env n \<notin> used_ids st" for n
    using assms(1) [of "env_new_id lease_env n"] by (auto simp: lease_env_def starts_with_append)
  ultimately show ?thesis using assms(2) by (simp add: fresh_supply_def lease_env_now)
qed

lemma held_row_fields:
  "pr_id held_row = ''r''" "pr_scope_key held_row = ''default''" "pr_status held_row = ProjectRunStatus_Active"
  "pr_work_point_id held_row = ''p3''" "pr_goal_id held_row = ''g''" "pr_fencing_token held_row = 1"
  "pr_idempotency_key held_row = Some ''k''" "pr_evidence held_row = project_run_evidence_default"
  "pr_lease_expires_at held_row = unary 100"
  by (simp_all add: held_row_def claimed_record_def claim_input_def)

lemma result_store_tables:
  "planning_nodes result_store = [bound_node]" "planning_edges result_store = []" "project_runs result_store = [held_row]"
  "tick result_store = 0" "planning_events result_store = []" "validation_findings result_store = []"
  "scopes result_store = [sample_scope]"
  by (simp_all add: result_store_def work_store_def empty_store_def)

lemma result_input_fields:
  "wwr_project_run_id (rw_result result_input) = ''r''" "wwr_node_id (rw_result result_input) = ''w1''"
  "wwr_fencing_token (rw_result result_input) = 1" "wwr_idempotency_key (rw_result result_input) = ''k''"
  "wwr_status (rw_result result_input) = WorkflowResultStatus_Failed" "rw_active_scope_key result_input = None"
  "wwr_requested_status (rw_result result_input) = None"
  by (simp_all add: result_input_def)

lemma result_checks:
  "check_worker_result (rw_result result_input) = Inr ()" "match_dispatch (rw_result result_input) held_row = Inr ()"
  "match_node (rw_result result_input) held_row bound_node = Inr ()"
  "require_current_lease lease_env held_row (Some 1) (unary 0) = Inr ()"
  by (simp_all add: match_dispatch_def match_node_def check_worker_result_def result_input_def held_row_fields
     bound_node_fields format_def string_eval require_current_lease_def parse_time_def lease_env_def)

lemma sample_accepted: "result_accepted lease_env result_store result_input held_row bound_node (unary 0)"
  by (simp add: result_accepted_def Let_def result_input_fields result_checks result_store_tables held_row_fields bound_node_fields
      lease_env_now normalized_scope_key_def DEFAULT_SCOPE_KEY_def default_key)

lemma sample_store_ok: "result_store_ok lease_env result_store result_input held_row bound_node"
proof -
  have "fresh_supply lease_env result_store"
    by (rule supply_lease_env) (auto simp: used_ids_def result_store_tables held_row_fields bound_node_fields starts_with_append)
  moreover have "run_refs_ok result_store held_row"
    by (simp add: run_refs_ok_def result_store_def work_store_def held_row_fields sample_goal_def sample_roadmap_def sample_work_point_def)
  moreover have "graph_inv result_store"
    by (simp add: graph_inv_code graph_keys_def active_keys_def edge_pairs_def acyclic_pairs_def result_store_tables)
  ultimately show ?thesis
    by (simp add: result_store_ok_def result_input_fields result_store_tables bound_node_fields sample_scope_def)
qed

lemma recorded_eq: "record_workflow_result_tx lease_env result_store result_input = Inr (fst recorded, snd recorded)" (is ?eq)
  and recorded_new: "\<not> wrw_replayed (fst recorded)"
proof -
  have "wwr_idempotency_key (rw_result result_input) \<notin> set (pe_workflow_result_keys (pr_evidence held_row))"
    by (simp add: held_row_fields project_run_evidence_default_def)
  from write_result_total [OF sample_accepted sample_store_ok] record_accepted [OF sample_accepted this]
  show ?eq "\<not> wrw_replayed (fst recorded)" by (auto simp: recorded_def)
qed

theorem workflow_result_written_witness:
  "\<exists>out st' d'. record_workflow_result lease_env (result_store, empty_disk) result_input = Inr (out, (st', d')) \<and> \<not> wrw_replayed out"
proof -
  have "wwr_idempotency_key (rw_result result_input) \<notin> set (pe_workflow_result_keys (pr_evidence held_row))"
    by (simp add: held_row_fields project_run_evidence_default_def)
  from workflow_result_written [OF sample_accepted sample_store_ok this] show ?thesis by blast
qed

theorem workflow_result_keeps_invariants_witness:
  "graph_inv (snd recorded) \<and> runs_ok lease_env (project_runs (snd recorded))
   \<and> pr_status (wrw_project_run (fst recorded)) = ProjectRunStatus_Failed"
proof -
  have inv: "graph_inv result_store" using sample_store_ok by (simp add: result_store_ok_def)
  have "runs_ok lease_env (project_runs result_store)"
    by (simp add: runs_ok_def result_store_tables held_row_fields) (simp add: lease_env_def)
  from workflow_result_keeps_invariants [OF recorded_eq recorded_new inv this] show ?thesis by (simp add: result_input_fields)
qed

lemma workflow_result_replays_witness:
  "\<exists>out d'. record_workflow_result lease_env (snd recorded, d') result_input = Inr (out, (snd recorded, d')) \<and> wrw_replayed out
     \<and> wrw_project_run out = wrw_project_run (fst recorded)"
proof -
  obtain d' where "record_workflow_result lease_env (result_store, empty_disk) result_input = Inr (fst recorded, (snd recorded, d'))"
    using recorded_eq recorded_new by (simp add: record_workflow_result_def case_prod_beta)
  from workflow_result_replays [OF this] show ?thesis by blast
qed

end
