(* ===== verification/Resumption.thy ===== *)
theory Resumption
  imports Prelude
begin

text \<open>
  Operations that run against a state shared with other processes. A program is a tree of atomic
  actions: one SQL statement or transaction, one reading of the clock, one draw of random bytes.
  The same program is read in two ways:
  \<^item> \<open>run\<close>: nothing else touches the state between two actions (the call in isolation);
  \<^item> \<open>pool_step\<close>: any number of programs in flight, whose actions interleave in any order.

  The predicates \<open>guarantees\<close> and \<open>pays\<close> carry a fact about each action of a program to every
  interleaving it takes part in; \<open>shared_invariant\<close> and \<open>metered\<close> are the interfaces through which the
  components use them.
\<close>

section \<open>Programs\<close>

datatype ('s, 'a) prog = Ret 'a | Act "'s \<Rightarrow> ('s, 'a) prog \<times> 's"

primrec bindP :: "('s, 'a) prog \<Rightarrow> ('a \<Rightarrow> ('s, 'b) prog) \<Rightarrow> ('s, 'b) prog" where
  "bindP (Ret x) k = k x"
| "bindP (Act f) k = Act (map_prod (\<lambda>p. bindP p k) id \<circ> f)"

definition act :: "('s \<Rightarrow> 'a \<times> 's) \<Rightarrow> ('s, 'a) prog" where
  "act f = Act (\<lambda>s. case f s of (x, s') \<Rightarrow> (Ret x, s'))"

text \<open>The \<open>?\<close> operator of Rust on the result of a call.\<close>

definition tryP :: "('s, 'e + 'a) prog \<Rightarrow> ('a \<Rightarrow> ('s, 'e + 'b) prog) \<Rightarrow> ('s, 'e + 'b) prog" where
  "tryP p k = bindP p (\<lambda>r. case r of Inl e \<Rightarrow> Ret (Inl e) | Inr x \<Rightarrow> k x)"

definition map_ret :: "('a \<Rightarrow> 'b) \<Rightarrow> ('s, 'a) prog \<Rightarrow> ('s, 'b) prog" where
  "map_ret h p = bindP p (\<lambda>x. Ret (h x))"

section \<open>A call in isolation\<close>

primrec run :: "('s, 'a) prog \<Rightarrow> 's \<Rightarrow> 'a \<times> 's" where
  "run (Ret x) = (\<lambda>s. (x, s))"
| "run (Act f) = (\<lambda>s. case (map_prod run id \<circ> f) s of (g, s') \<Rightarrow> g s')"

lemma run_Act: "run (Act f) s = run (fst (f s)) (snd (f s))"
  by (simp add: case_prod_beta)

lemma run_bindP [simp]:
  "run (bindP p k) s = (case run p s of (x, s') \<Rightarrow> run (k x) s')"
proof (induction p arbitrary: s)
  case (Ret x)
  then show ?case by simp
next
  case (Act f)
  have "run (bindP (fst (f s)) k) (snd (f s)) =
      (case run (fst (f s)) (snd (f s)) of (x, s') \<Rightarrow> run (k x) s')"
    by (rule Act.IH) (auto intro: fsts.intros)
  then show ?case by (simp add: case_prod_beta)
qed

lemma run_act [simp]: "run (act f) s = f s"
  by (simp add: act_def case_prod_beta)

lemma run_tryP [simp]:
  "run (tryP p k) s = (case run p s of (r, s') \<Rightarrow> (case r of Inl e \<Rightarrow> (Inl e, s') | Inr x \<Rightarrow> run (k x) s'))"
  by (simp add: tryP_def split: prod.split sum.split)

lemma run_map_ret [simp]: "run (map_ret h p) s = map_prod h id (run p s)"
  by (simp add: map_ret_def split: prod.split)

lemma tryP_Ret [simp]: "tryP (Ret (Inl e)) k = Ret (Inl e)" "tryP (Ret (Inr x)) k = k x"
  by (simp_all add: tryP_def)

declare run.simps(2) [simp del]
declare run_Act [simp]

section \<open>Calls in flight\<close>

type_synonym ('c, 's, 'a) pool = "('c \<times> ('s, 'a) prog) list \<times> 's"

text \<open>
  A step of the pool: a process starts the program of a call, or one program in flight takes its next
  action. A finished program stays in the pool, its result is what the caller got.
\<close>

inductive pool_step :: "('c \<Rightarrow> ('s, 'a) prog) \<Rightarrow> ('c, 's, 'a) pool \<Rightarrow> ('c, 's, 'a) pool \<Rightarrow> bool"
  for body :: "'c \<Rightarrow> ('s, 'a) prog" where
  call: "pool_step body (ps, s) (ps @ [(c, body c)], s)"
| action: "i < length ps \<Longrightarrow> ps ! i = (c, Act f) \<Longrightarrow> f s = (p, s') \<Longrightarrow>
    pool_step body (ps, s) (ps[i := (c, p)], s')"

inductive_cases pool_stepE: "pool_step body x y"

text \<open>Schedules: a program of the pool runs for a while, or to its end, without interruption.\<close>

lemma pool_advance:
  assumes "reachable_from (pool_step body) w\<^sub>0 (ps, s)" and "i < length ps" and "ps ! i = (c, bindP p k)"
    and "run p s = (x, s')"
  shows "reachable_from (pool_step body) w\<^sub>0 (ps[i := (c, k x)], s')"
  using assms
proof (induction p arbitrary: ps s)
  case (Ret y)
  then show ?case by (metis bindP.simps(1) list_update_id prod.inject run.simps(1))
next
  case (Act f)
  have "pool_step body (ps, s) (ps[i := (c, bindP (fst (f s)) k)], snd (f s))"
    using Act.prems by (intro pool_step.action [where f = "map_prod (\<lambda>p. bindP p k) id \<circ> f"])
      (simp_all add: map_prod_def case_prod_beta)
  with Act.prems(1) have "reachable_from (pool_step body) w\<^sub>0 (ps[i := (c, bindP (fst (f s)) k)], snd (f s))"
    by (rule reachable_from.step)
  from Act.IH [OF rangeI fsts.intros this] Act.prems(2,4) show ?case by simp
qed

lemma bindP_assoc: "bindP (bindP p k) k' = bindP p (\<lambda>x. bindP (k x) k')"
proof (induction p)
  case (Act f)
  have "bindP (bindP (fst (f s)) k) k' = bindP (fst (f s)) (\<lambda>x. bindP (k x) k')" for s
    by (rule Act) (auto intro: fsts.intros)
  then show ?case by (simp add: fun_eq_iff prod_eq_iff)
qed simp

lemma bindP_Ret [simp]: "bindP p Ret = p"
proof (induction p)
  case (Act f)
  have "bindP (fst (f s)) Ret = fst (f s)" for s
    by (rule Act) (auto intro: fsts.intros)
  then show ?case by (simp add: fun_eq_iff prod_eq_iff)
qed simp

lemma pool_finish:
  assumes "reachable_from (pool_step body) w\<^sub>0 (ps, s)" and "i < length ps" and "ps ! i = (c, p)"
    and "run p s = (x, s')"
  shows "reachable_from (pool_step body) w\<^sub>0 (ps[i := (c, Ret x)], s')"
  using pool_advance [of body w\<^sub>0 ps s i c p Ret x s'] assms by simp

lemma pool_run:
  assumes "reachable_from (pool_step body) w\<^sub>0 (ps, s)" and "run (body c) s = (x, s')"
  shows "reachable_from (pool_step body) w\<^sub>0 (ps @ [(c, Ret x)], s')"
proof -
  have "reachable_from (pool_step body) w\<^sub>0 (ps @ [(c, body c)], s)"
    using assms(1) pool_step.call by (rule reachable_from.step)
  from pool_finish [OF this, of "length ps" c "body c" x s'] assms(2) show ?thesis by simp
qed

section \<open>What every action of a program does\<close>

text \<open>
  \<open>guarantees I G Q p\<close>: from every state with \<open>I\<close>, each action of \<open>p\<close> keeps \<open>I\<close> and relates the states
  before and after it by \<open>G\<close>; the result satisfies \<open>Q\<close>. Between two actions of \<open>p\<close> the state is any
  state with \<open>I\<close>, since other programs may act.
\<close>

inductive guarantees :: "('s \<Rightarrow> bool) \<Rightarrow> ('s \<Rightarrow> 's \<Rightarrow> bool) \<Rightarrow> ('a \<Rightarrow> bool) \<Rightarrow> ('s, 'a) prog \<Rightarrow> bool"
  for I :: "'s \<Rightarrow> bool" and G :: "'s \<Rightarrow> 's \<Rightarrow> bool" and Q :: "'a \<Rightarrow> bool" where
  guarantees_Ret: "Q x \<Longrightarrow> guarantees I G Q (Ret x)"
| guarantees_Act: "(\<And>s. I s \<Longrightarrow> I (snd (f s)) \<and> G s (snd (f s))) \<Longrightarrow>
    (\<And>s. I s \<Longrightarrow> guarantees I G Q (fst (f s))) \<Longrightarrow> guarantees I G Q (Act f)"

inductive_cases guarantees_ActE: "guarantees I G Q (Act f)"
inductive_cases guarantees_RetE: "guarantees I G Q (Ret x)"

abbreviation any_result :: "'a \<Rightarrow> bool" where
  "any_result \<equiv> \<lambda>_. True"

lemma guarantees_ActD:
  assumes "guarantees I G Q (Act f)" and "f s = (p, s')" and "I s"
  shows "I s' \<and> G s s' \<and> guarantees I G Q p"
  using assms(1)
proof (rule guarantees_ActE)
  assume "\<And>s. I s \<Longrightarrow> I (snd (f s)) \<and> G s (snd (f s))" "\<And>s. I s \<Longrightarrow> guarantees I G Q (fst (f s))"
  from this [of s] assms(2,3) show ?thesis by simp
qed

lemma guarantees_act:
  assumes "\<And>s. I s \<Longrightarrow> I (snd (f s)) \<and> G s (snd (f s)) \<and> Q (fst (f s))"
  shows "guarantees I G Q (act f)"
  unfolding act_def
  by (rule guarantees_Act) (use assms in \<open>auto simp: case_prod_beta intro: guarantees_Ret\<close>)

lemma guarantees_bindP:
  assumes "guarantees I G R p" and "\<And>x. R x \<Longrightarrow> guarantees I G Q (k x)"
  shows "guarantees I G Q (bindP p k)"
  using assms(1)
proof induction
  case (guarantees_Ret x)
  then show ?case by (simp add: assms(2))
next
  case (guarantees_Act f)
  show ?case unfolding bindP.simps
    by (rule guarantees.guarantees_Act) (simp_all add: guarantees_Act)
qed

lemma guarantees_tryP:
  assumes "guarantees I G R p" and "\<And>x. R (Inr x) \<Longrightarrow> guarantees I G Q (k x)"
    and "\<And>e. R (Inl e) \<Longrightarrow> Q (Inl e)"
  shows "guarantees I G Q (tryP p k)"
  unfolding tryP_def
  by (rule guarantees_bindP [OF assms(1)]) (auto intro: guarantees_Ret assms(2,3) split: sum.split)

lemma guarantees_map_ret: "guarantees I G (\<lambda>x. Q (h x)) p \<Longrightarrow> guarantees I G Q (map_ret h p)"
  unfolding map_ret_def by (erule guarantees_bindP) (rule guarantees_Ret)

lemma guarantees_mono:
  assumes "guarantees I G Q p" and "\<And>s s'. I s \<Longrightarrow> I s' \<Longrightarrow> G s s' \<Longrightarrow> H s s'" and "\<And>x. Q x \<Longrightarrow> R x"
  shows "guarantees I H R p"
  using assms(1)
proof induction
  case (guarantees_Ret x)
  then show ?case by (auto intro: guarantees.guarantees_Ret assms(3))
next
  case (guarantees_Act f)
  then show ?case by (auto intro!: guarantees.guarantees_Act intro: assms(2))
qed

lemma guarantees_strengthen:
  assumes "guarantees I G Q p" and "\<And>s s'. I s \<Longrightarrow> J s \<Longrightarrow> G s s' \<Longrightarrow> J s' \<and> H s s'"
  shows "guarantees (\<lambda>s. I s \<and> J s) H Q p"
  using assms(1)
proof induction
  case (guarantees_Ret x)
  then show ?case by (rule guarantees.guarantees_Ret)
next
  case (guarantees_Act f)
  then show ?case by (intro guarantees.guarantees_Act) (use assms(2) in blast)+
qed

text \<open>The actions of a program whose results play no role: the form the components prove.\<close>

lemma calm_bindP:
  "guarantees I G any_result p \<Longrightarrow> (\<And>x. guarantees I G any_result (k x)) \<Longrightarrow>
    guarantees I G any_result (bindP p k)"
  by (rule guarantees_bindP)

lemma calm_tryP:
  "guarantees I G any_result p \<Longrightarrow> (\<And>x. guarantees I G any_result (k x)) \<Longrightarrow>
    guarantees I G any_result (tryP p k)"
  by (rule guarantees_tryP) auto

lemma calm_Ret: "guarantees I G any_result (Ret x)"
  by (simp add: guarantees_Ret)

lemma calm_map_ret: "guarantees I G any_result p \<Longrightarrow> guarantees I G any_result (map_ret h p)"
  by (rule guarantees_map_ret)

lemma calm_act:
  "(\<And>s. I s \<Longrightarrow> I (snd (f s)) \<and> G s (snd (f s))) \<Longrightarrow> guarantees I G any_result (act f)"
  by (rule guarantees_act) simp

lemmas calm_intros = calm_bindP calm_tryP calm_Ret calm_map_ret

lemma run_guarantees:
  assumes "guarantees I G Q p" and "I s" and "\<And>s. R s s" and "\<And>a b c. G a b \<Longrightarrow> R b c \<Longrightarrow> R a c"
  shows "I (snd (run p s)) \<and> R s (snd (run p s)) \<and> Q (fst (run p s))"
  using assms(1,2)
proof (induction arbitrary: s)
  case (guarantees_Ret x)
  then show ?case by (simp add: assms(3))
next
  case (guarantees_Act f)
  show ?case unfolding run_Act
    using guarantees_Act.hyps(1) [OF guarantees_Act.prems]
      guarantees_Act.IH [OF guarantees_Act.prems] assms(4) by blast
qed

text \<open>All programs of a pool keep to \<open>G\<close>, and so they do after every step when every call does.\<close>

definition pool_guarantees :: "('s \<Rightarrow> bool) \<Rightarrow> ('s \<Rightarrow> 's \<Rightarrow> bool) \<Rightarrow> ('c, 's, 'a) pool \<Rightarrow> bool" where
  "pool_guarantees I G w \<longleftrightarrow> I (snd w) \<and> (\<forall>t \<in> set (fst w). guarantees I G any_result (snd t))"

lemma pool_guarantees_Nil [simp]: "pool_guarantees I G ([], s) \<longleftrightarrow> I s"
  by (simp add: pool_guarantees_def)

lemma pool_guarantees_step:
  assumes "\<And>c. guarantees I G any_result (body c)"
    and "pool_guarantees I G w" and "pool_step body w w'"
  shows "pool_guarantees I G w' \<and> (snd w' = snd w \<or> G (snd w) (snd w'))"
  using assms(3)
proof cases
  case (call ps s c)
  with assms show ?thesis by (auto simp: pool_guarantees_def)
next
  case (action i ps c f s p s')
  have "guarantees I G any_result (Act f)" "I s"
    using assms(2) action by (force simp: pool_guarantees_def dest: nth_mem)+
  from guarantees_ActD [OF this(1) action(5) this(2)] assms(2) action(1,2) show ?thesis
    by (auto simp: pool_guarantees_def dest!: subsetD [OF set_update_subset_insert])
qed

lemma pool_guarantees_reachable:
  assumes "\<And>c. guarantees I G any_result (body c)"
    and "reachable_from (pool_step body) w\<^sub>0 w" and "pool_guarantees I G w\<^sub>0"
  shows "pool_guarantees I G w"
  using assms(2,3)
  by induction (use pool_guarantees_step [where body = body, OF assms(1)] in blast)+

text \<open>
  Invariants of the shared state: where every action of every call keeps \<open>I\<close>, so does every
  interleaving of calls, and so does each call in isolation.
\<close>

locale shared_invariant =
  fixes body :: "'c \<Rightarrow> ('s, 'a) prog" and I :: "'s \<Rightarrow> bool"
  assumes keeps: "guarantees I (\<lambda>_ _. True) any_result (body c)"
begin

lemma pool_inv:
  "reachable_from (pool_step body) ([], s\<^sub>0) w \<Longrightarrow> I s\<^sub>0 \<Longrightarrow> I (snd w)"
  using pool_guarantees_reachable [where body = body, OF keeps, of "([], s\<^sub>0)" w]
  by (simp add: pool_guarantees_def)

lemma run_inv: "I s \<Longrightarrow> I (snd (run (body c) s))"
  using run_guarantees [OF keeps, where R = "\<lambda>_ _. True"] by blast

end

section \<open>Results that cost something\<close>

text \<open>
  A program \<open>pays\<close> when, from states with \<open>I\<close>, it never raises the level of the shared state and a
  result with \<open>ok\<close> comes with an action that lowers it.
\<close>

inductive pays :: "('s \<Rightarrow> bool) \<Rightarrow> ('s \<Rightarrow> nat) \<Rightarrow> ('a \<Rightarrow> bool) \<Rightarrow> ('s, 'a) prog \<Rightarrow> bool"
  for I :: "'s \<Rightarrow> bool" and level :: "'s \<Rightarrow> nat" and ok :: "'a \<Rightarrow> bool" where
  pays_Ret: "\<not> ok x \<Longrightarrow> pays I level ok (Ret x)"
| pays_Act: "(\<And>s. I s \<Longrightarrow> pays I level ok (fst (f s)) \<or>
      (\<exists>x. fst (f s) = Ret x) \<and> level (snd (f s)) < level s) \<Longrightarrow> pays I level ok (Act f)"

inductive_cases pays_RetE: "pays I level ok (Ret x)"
inductive_cases pays_ActE: "pays I level ok (Act f)"

lemma pays_ActD:
  assumes "pays I level ok (Act f)" "I s" "f s = (p, s')"
  shows "pays I level ok p \<or> (\<exists>x. p = Ret x) \<and> level s' < level s"
  using assms by (metis fst_conv pays_ActE snd_conv)

lemma pays_act_bind:
  assumes "\<And>s. I s \<Longrightarrow> pays I level ok (k (fst (f s))) \<or>
      (\<exists>x. k (fst (f s)) = Ret x) \<and> level (snd (f s)) < level s"
  shows "pays I level ok (bindP (act f) k)"
  unfolding act_def bindP.simps
  by (rule pays_Act) (use assms in \<open>auto simp: case_prod_beta\<close>)

lemma pays_bindP:
  assumes "\<And>x. pays I level ok (k x)"
  shows "pays I level ok (bindP p k)"
proof (induction p)
  case (Ret x)
  then show ?case by (simp add: assms)
next
  case (Act f)
  show ?case unfolding bindP.simps
    by (rule pays_Act, rule disjI1) (auto intro: Act.IH fsts.intros)
qed

lemma pays_tryP:
  assumes "\<And>e. \<not> ok (Inl e)" "\<And>x. pays I level ok (k x)"
  shows "pays I level ok (tryP p k)"
  unfolding tryP_def by (rule pays_bindP) (auto intro!: pays_Ret simp: assms split: sum.split)

lemma pays_map_ret:
  assumes "pays I level (\<lambda>x. ok (h x)) p"
  shows "pays I level ok (map_ret h p)"
  using assms unfolding map_ret_def
proof induction
  case (pays_Ret x)
  then show ?case by (simp add: pays.pays_Ret)
next
  case (pays_Act f)
  show ?case unfolding bindP.simps
  proof (rule pays.pays_Act)
    fix s assume "I s"
    with pays_Act consider "pays I level ok (bindP (fst (f s)) (\<lambda>x. Ret (h x)))"
      | x where "fst (f s) = Ret x" "level (snd (f s)) < level s" by blast
    then show "pays I level ok (fst ((map_prod (\<lambda>p. bindP p (\<lambda>x. Ret (h x))) id \<circ> f) s)) \<or>
        (\<exists>x. fst ((map_prod (\<lambda>p. bindP p (\<lambda>x. Ret (h x))) id \<circ> f) s) = Ret x) \<and>
        level (snd ((map_prod (\<lambda>p. bindP p (\<lambda>x. Ret (h x))) id \<circ> f) s)) < level s"
      by cases simp_all
  qed
qed

definition count_ok :: "('c \<Rightarrow> bool) \<Rightarrow> ('a \<Rightarrow> bool) \<Rightarrow> ('c \<times> ('s, 'a) prog) list \<Rightarrow> nat" where
  "count_ok P ok ps = length (filter (\<lambda>(c, p). P c \<and> (case p of Ret x \<Rightarrow> ok x | Act _ \<Rightarrow> False)) ps)"

lemma count_ok_simps [simp]:
  "count_ok P ok [] = 0"
  "count_ok P ok (ps @ [(c, p)]) =
     count_ok P ok ps + (if P c \<and> (case p of Ret x \<Rightarrow> ok x | Act _ \<Rightarrow> False) then 1 else 0)"
  by (simp_all add: count_ok_def)

lemma count_ok_update:
  assumes "i < length ps" and "ps ! i = (c, Act f)"
  shows "count_ok P ok (ps[i := (c, p)]) =
    count_ok P ok ps + (if P c \<and> (case p of Ret x \<Rightarrow> ok x | Act _ \<Rightarrow> False) then 1 else 0)"
  using assms
proof (induction ps arbitrary: i)
  case Nil
  then show ?case by simp
next
  case (Cons t ps)
  then show ?case by (cases i) (simp_all add: count_ok_def)
qed

text \<open>
  The interface of an allowance kept in the shared state: no action of any call raises the level, and
  the calls selected by \<open>P\<close> pay for a result with \<open>ok\<close>. Then the calls that start from now on get at
  most as many such results as the level now, whatever is already in flight.
\<close>

locale metered =
  fixes body :: "'c \<Rightarrow> ('s, 'a) prog" and I :: "'s \<Rightarrow> bool" and level :: "'s \<Rightarrow> nat"
    and P :: "'c \<Rightarrow> bool" and ok :: "'a \<Rightarrow> bool"
  assumes keeps_level: "guarantees I (\<lambda>s s'. level s' \<le> level s) any_result (body c)"
    and body_pays: "P c \<Longrightarrow> pays I level ok (body c)"
begin

definition allowed :: "nat \<Rightarrow> ('c, 's, 'a) pool \<Rightarrow> bool" where
  "allowed n w \<longleftrightarrow> pool_guarantees I (\<lambda>s s'. level s' \<le> level s) w
     \<and> n \<le> length (fst w)
     \<and> (\<forall>(c, p) \<in> set (drop n (fst w)). P c \<longrightarrow> pays I level ok p \<or> (\<exists>x. p = Ret x))"

lemma allowed_step:
  assumes "allowed n w" and "pool_step body w w'"
  shows "allowed n w' \<and> count_ok P ok (drop n (fst w')) + level (snd w')
      \<le> count_ok P ok (drop n (fst w)) + level (snd w)"
  using assms(2)
proof cases
  case (call ps s c)
  have "pool_guarantees I (\<lambda>s s'. level s' \<le> level s) w'"
    using pool_guarantees_step [where body = body, OF keeps_level _ assms(2)] assms(1)
    by (simp add: allowed_def)
  moreover have "P c \<Longrightarrow> (case body c of Ret x \<Rightarrow> ok x | Act _ \<Rightarrow> False) = False"
    using body_pays [of c] by (auto elim: pays_RetE split: prog.split)
  ultimately show ?thesis using assms(1) call body_pays [of c]
    by (auto simp: allowed_def)
next
  case (action i ps c f s p s')
  have pg: "pool_guarantees I (\<lambda>s s'. level s' \<le> level s) w'"
    using pool_guarantees_step [where body = body, OF keeps_level _ assms(2)] assms(1)
    by (simp add: allowed_def)
  have Is: "I s" using assms(1) action(1) by (simp add: allowed_def pool_guarantees_def)
  have "guarantees I (\<lambda>s s'. level s' \<le> level s) any_result (Act f)"
    using assms(1) action by (force simp: allowed_def pool_guarantees_def dest: nth_mem)
  from guarantees_ActD [OF this action(5) Is] have st: "level s' \<le> level s" by simp
  show ?thesis
  proof (cases "n \<le> i")
    case False
    then have "drop n (ps[i := (c, p)]) = drop n ps" by (simp add: drop_update_swap)
    with assms(1) st pg action(1,2) show ?thesis by (auto simp: allowed_def)
  next
    case True
    have up: "drop n (ps[i := (c, p)]) = (drop n ps)[i - n := (c, p)]"
      using True by (simp add: drop_update_swap)
    have at: "i - n < length (drop n ps)" "drop n ps ! (i - n) = (c, Act f)"
      using True action(3,4) by auto
    have mem: "(c, Act f) \<in> set (drop n ps)" using at by (metis nth_mem)
    have "P c \<Longrightarrow> pays I level ok (Act f)"
      using assms(1) action(1) mem by (auto simp: allowed_def)
    then have paid: "P c \<Longrightarrow> pays I level ok p \<or> (\<exists>x. p = Ret x) \<and> level s' < level s"
      using pays_ActD [where I = I and s = s and f = f, OF _ Is action(5)] by blast
    have "P c \<Longrightarrow> pays I level ok p \<Longrightarrow> (case p of Ret x \<Rightarrow> ok x | Act _ \<Rightarrow> False) = False"
      by (auto elim: pays_RetE split: prog.split)
    with paid st assms(1) pg action(1,2) True show ?thesis
      by (auto simp: allowed_def up count_ok_update [OF at] dest!: subsetD [OF set_update_subset_insert])
  qed
qed

lemma at_most:
  assumes "reachable_from (pool_step body) w\<^sub>0 w"
    and "pool_guarantees I (\<lambda>s s'. level s' \<le> level s) w\<^sub>0"
  shows "count_ok P ok (drop (length (fst w\<^sub>0)) (fst w)) \<le> level (snd w\<^sub>0)"
proof -
  have "allowed (length (fst w\<^sub>0)) w \<and>
      count_ok P ok (drop (length (fst w\<^sub>0)) (fst w)) + level (snd w) \<le> level (snd w\<^sub>0)"
    using assms(1)
  proof induction
    case start
    then show ?case using assms(2) by (simp add: allowed_def)
  next
    case (step s t)
    then show ?case using allowed_step [of "length (fst w\<^sub>0)" s t] by simp
  qed
  then show ?thesis by simp
qed

end

end
