(* ===== verification/AccountVault.thy ===== *)
theory AccountVault
  imports Resumption Json
begin

text \<open>
  \<open>vault.rs\<close> of the accounts daemon: the tables of the vault file, the environment of the daemon, and
  the operations of \<open>Vault\<close>. The file is shared by several processes (the MCP server and the account
  center each open it), so an operation is a program of \<open>Resumption\<close>: one action per SQL statement or
  transaction and per value drawn from the clock or the random source. The counter \<open>db_tick\<close> numbers
  these draws, so that two draws never read the same entry of the environment.

  The parameters of the environment stand for code outside the repository: the clock, the UUID and
  random-byte sources, \<open>chrono\<close>'s printer and parser, SHA-256, \<open>serde_json\<close>, AES-256-GCM and the
  key protection of the operating system. An error of the SQLite library other than a violated
  constraint or a column that does not convert (a full disk, a lock time-out) is not modelled.
\<close>

section \<open>Tables\<close>

record account_metadata =
  acc_id :: string
  acc_provider :: string
  acc_verified_identity :: string
  acc_auth_method :: string
  acc_created_at :: string
  acc_status :: string

record credential_row =
  cred_account_id :: string
  cred_algorithm :: string
  cred_nonce :: string
  cred_ciphertext :: string
  cred_protected_key :: string
  cred_generation :: int

record request_row =
  rq_id :: string
  rq_kind :: string
  rq_status :: string
  rq_account_id :: "string option"
  rq_provider :: "string option"
  rq_client_id :: "string option"
  rq_purpose :: string
  rq_operations_json :: string
  rq_duration_minutes :: nat
  rq_idempotency_key :: "string option"
  rq_created_at :: string
  rq_updated_at :: string

record grant_row =
  gt_id :: string
  gt_request_id :: string
  gt_account_id :: string
  gt_provider :: string
  gt_client_id :: string
  gt_purpose :: string
  gt_operations_json :: string
  gt_expires_at :: string
  gt_generation :: int
  gt_revoked_at :: "string option"

record lease_row =
  ls_token_hash :: string
  ls_grant_id :: string
  ls_generation :: int
  ls_expires_at :: string
  ls_remaining_uses :: int

record audit_row =
  aud_id :: nat
  aud_time :: string
  aud_event :: string
  aud_account_id :: "string option"
  aud_detail_json :: string

record authorization_session =
  azs_id :: string
  azs_provider :: string
  azs_status :: string
  azs_user_code :: string
  azs_verification_uri :: string
  azs_expires_at :: string
  azs_interval_seconds :: nat
  azs_next_poll_at :: string
  azs_attempts :: nat
  azs_last_error :: "string option"
  azs_created_at :: string
  azs_updated_at :: string

record secret_row =
  azx_session_id :: string
  azx_algorithm :: string
  azx_nonce :: string
  azx_ciphertext :: string
  azx_protected_key :: string

record vault_db =
  db_accounts :: "account_metadata list"
  db_credentials :: "credential_row list"
  db_requests :: "request_row list"
  db_grants :: "grant_row list"
  db_leases :: "lease_row list"
  db_audit :: "audit_row list"
  db_sessions :: "authorization_session list"
  db_secrets :: "secret_row list"
  db_tick :: nat

definition empty_vault :: vault_db where
  "empty_vault = \<lparr>db_accounts = [], db_credentials = [], db_requests = [], db_grants = [],
     db_leases = [], db_audit = [], db_sessions = [], db_secrets = [], db_tick = 0\<rparr>"

section \<open>Errors and environment\<close>

datatype db_error = ConstraintViolation | FromSqlConversionFailure

datatype vault_error =
    VaultError_Database db_error
  | VaultError_Protection string
  | VaultError_NotFound
  | VaultError_Authentication
  | VaultError_Busy
  | VaultError_Conflict

record account_env =
  env_now :: "nat \<Rightarrow> int"
  env_uuid :: "nat \<Rightarrow> string"
  env_random :: "nat \<Rightarrow> nat \<Rightarrow> string"
  env_to_rfc3339 :: "int \<Rightarrow> string"
  env_parse_rfc3339 :: "string \<Rightarrow> int option"
  env_sha256_hex :: "string \<Rightarrow> string"
  env_print_ops :: "string list \<Rightarrow> string"
  env_parse_ops :: "string \<Rightarrow> string list option"
  env_print_json :: "json \<Rightarrow> string"
  env_parse_json :: "string \<Rightarrow> json option"
  env_encrypt :: "string \<Rightarrow> string \<Rightarrow> string \<Rightarrow> string \<Rightarrow> string option"
  env_decrypt :: "string \<Rightarrow> string \<Rightarrow> string \<Rightarrow> string \<Rightarrow> string option"
  env_protect :: "string \<Rightarrow> vault_error + string"
  env_unprotect :: "string \<Rightarrow> vault_error + string"

type_synonym 'a vault_op = "(vault_db, vault_error + 'a) prog"

definition draw :: "(nat \<Rightarrow> 'a) \<Rightarrow> (vault_db, 'a) prog" where
  "draw source = act (\<lambda>s. (source (db_tick s), s\<lparr>db_tick := Suc (db_tick s)\<rparr>))"

definition utc_now :: "account_env \<Rightarrow> (vault_db, int) prog" where
  "utc_now env = draw (env_now env)"

definition new_uuid :: "account_env \<Rightarrow> (vault_db, string) prog" where
  "new_uuid env = draw (env_uuid env)"

definition random_fill :: "account_env \<Rightarrow> nat \<Rightarrow> (vault_db, string) prog" where
  "random_fill env n = draw (\<lambda>tick. env_random env tick n)"

definition query :: "(vault_db \<Rightarrow> 'a) \<Rightarrow> (vault_db, 'a) prog" where
  "query f = act (\<lambda>s. (f s, s))"

text \<open>
  A statement or a transaction that may violate a constraint: then nothing is changed. The count is
  the number of rows a statement changed.
\<close>

definition changed_rows :: "('r \<Rightarrow> bool) \<Rightarrow> 'r list \<Rightarrow> nat" where
  "changed_rows p rows = length (filter p rows)"

section \<open>Vault\<close>

definition associated_data :: "string \<Rightarrow> string \<Rightarrow> string" where
  "associated_data account_id provider = format [''elegy-accounts:v1:'', provider, '':'', account_id]"

definition authorization_associated_data :: "string \<Rightarrow> string \<Rightarrow> string" where
  "authorization_associated_data session_id provider =
     format [''elegy-accounts:authorization:v1:'', provider, '':'', session_id]"

definition credential_algorithm :: string where
  "credential_algorithm = ''AES-256-GCM+DPAPI-v1''"

text \<open>
  What \<open>Vault::open\<close> does to the rows of an existing file: grants of the legacy client are revoked, and
  when there were any this is audited. The tables are created empty in a new file.
\<close>

definition legacy_grant :: "grant_row \<Rightarrow> bool" where
  "legacy_grant g \<longleftrightarrow> gt_client_id g = ''codex-local'' \<and> gt_revoked_at g = None"

definition append_audit :: "string \<Rightarrow> string \<Rightarrow> string option \<Rightarrow> string \<Rightarrow> vault_db \<Rightarrow> vault_db" where
  "append_audit time event account_id detail_json s =
     s\<lparr>db_audit := db_audit s @ [\<lparr>aud_id = Suc (length (db_audit s)), aud_time = time, aud_event = event,
        aud_account_id = account_id, aud_detail_json = detail_json\<rparr>]\<rparr>"

definition vault_open :: "account_env \<Rightarrow> unit vault_op" where
  "vault_open env =
     bindP (utc_now env) (\<lambda>t. let now = env_to_rfc3339 env t in
     bindP (act (\<lambda>s. (changed_rows legacy_grant (db_grants s),
         s\<lparr>db_grants := update_where legacy_grant
             (\<lambda>g. g\<lparr>gt_revoked_at := Some now, gt_generation := gt_generation g + 1\<rparr>) (db_grants s)\<rparr>))) (\<lambda>revoked.
     if revoked > 0 then
       act (\<lambda>s. (Inr (), append_audit now ''grant.legacy_revoked'' None
         (env_print_json env (JObj [(''client_id'', JStr ''codex-local''), (''count'', JInt (int revoked))])) s))
     else Ret (Inr ())))"

text \<open>\<open>Aes256Gcm::new_from_slice\<close> accepts a key of 32 bytes.\<close>

definition seal_secret ::
  "account_env \<Rightarrow> string \<Rightarrow> string \<Rightarrow> (string \<times> string \<times> string) vault_op" where
  "seal_secret env aad secret =
     bindP (random_fill env 32) (\<lambda>key.
     bindP (random_fill env 12) (\<lambda>nonce_bytes.
     if length key \<noteq> 32 then Ret (Inl VaultError_Authentication)
     else case env_encrypt env key nonce_bytes aad secret of
       None \<Rightarrow> Ret (Inl VaultError_Authentication)
     | Some ciphertext \<Rightarrow>
       (case env_protect env key of
          Inl e \<Rightarrow> Ret (Inl e)
        | Inr protected_key \<Rightarrow> Ret (Inr (nonce_bytes, ciphertext, protected_key)))))"

definition open_secret ::
  "account_env \<Rightarrow> string \<Rightarrow> string \<Rightarrow> string \<Rightarrow> string \<Rightarrow> vault_error + string" where
  "open_secret env aad nonce ciphertext protected_key =
     (if length nonce \<noteq> 12 then Inl VaultError_Authentication
      else tryE (env_unprotect env protected_key) (\<lambda>key.
        if length key \<noteq> 32 then Inl VaultError_Authentication
        else case env_decrypt env key nonce aad ciphertext of
          None \<Rightarrow> Inl VaultError_Authentication
        | Some plaintext \<Rightarrow> Inr plaintext))"

definition insert_account ::
  "account_metadata \<Rightarrow> credential_row \<Rightarrow> vault_db \<Rightarrow> (vault_error + account_metadata) \<times> vault_db" where
  "insert_account account credential s =
     (if acc_id account \<in> acc_id ` set (db_accounts s)
       \<or> cred_account_id credential \<in> cred_account_id ` set (db_credentials s)
      then (Inl (VaultError_Database ConstraintViolation), s)
      else (Inr account, s\<lparr>db_accounts := db_accounts s @ [account],
        db_credentials := db_credentials s @ [credential]\<rparr>))"

definition store_account ::
  "account_env \<Rightarrow> string \<Rightarrow> string \<Rightarrow> string \<Rightarrow> string \<Rightarrow> account_metadata vault_op" where
  "store_account env provider verified_identity auth_method secret =
     bindP (new_uuid env) (\<lambda>uuid.
     bindP (utc_now env) (\<lambda>now.
     let account = \<lparr>acc_id = ''acct_'' @ uuid, acc_provider = provider,
           acc_verified_identity = verified_identity, acc_auth_method = auth_method,
           acc_created_at = env_to_rfc3339 env now, acc_status = ''connected''\<rparr> in
     tryP (seal_secret env (associated_data (acc_id account) (acc_provider account)) secret)
       (\<lambda>(nonce_bytes, ciphertext, protected_key).
     act (insert_account account
       \<lparr>cred_account_id = acc_id account, cred_algorithm = credential_algorithm, cred_nonce = nonce_bytes,
        cred_ciphertext = ciphertext, cred_protected_key = protected_key, cred_generation = 0\<rparr>))))"

definition account_le :: "account_metadata \<Rightarrow> account_metadata \<Rightarrow> bool" where
  "account_le a b \<longleftrightarrow> (acc_created_at a, acc_id a) \<le> (acc_created_at b, acc_id b)"

definition list_accounts :: "account_metadata list vault_op" where
  "list_accounts = query (\<lambda>s. Inr (sort_by account_le (db_accounts s)))"

definition credential_record :: "string \<Rightarrow> vault_db \<Rightarrow> (string \<times> credential_row) option" where
  "credential_record account_id s =
     (case (find_row acc_id account_id (db_accounts s), find_row cred_account_id account_id (db_credentials s)) of
        (Some a, Some c) \<Rightarrow> Some (acc_provider a, c)
      | _ \<Rightarrow> None)"

definition load_secret_versioned :: "account_env \<Rightarrow> string \<Rightarrow> (string \<times> int) vault_op" where
  "load_secret_versioned env account_id =
     bindP (query (credential_record account_id)) (\<lambda>found.
     case found of
       None \<Rightarrow> Ret (Inl VaultError_NotFound)
     | Some (provider, c) \<Rightarrow>
         Ret (tryE (open_secret env (associated_data account_id provider)
             (cred_nonce c) (cred_ciphertext c) (cred_protected_key c))
           (\<lambda>plaintext. Inr (plaintext, cred_generation c))))"

definition load_secret :: "account_env \<Rightarrow> string \<Rightarrow> string vault_op" where
  "load_secret env account_id =
     bindP (query (credential_record account_id)) (\<lambda>found.
     case found of
       None \<Rightarrow> Ret (Inl VaultError_NotFound)
     | Some (provider, c) \<Rightarrow>
         Ret (open_secret env (associated_data account_id provider)
             (cred_nonce c) (cred_ciphertext c) (cred_protected_key c)))"

definition update_credential ::
  "string \<Rightarrow> int option \<Rightarrow> string \<Rightarrow> string \<Rightarrow> string \<Rightarrow> vault_db \<Rightarrow> nat \<times> vault_db" where
  "update_credential account_id expected_generation nonce ciphertext protected_key s =
     (let p = (\<lambda>c. cred_account_id c = account_id \<and>
          (case expected_generation of None \<Rightarrow> True | Some g \<Rightarrow> cred_generation c = g))
      in (changed_rows p (db_credentials s),
          s\<lparr>db_credentials := update_where p (\<lambda>c. c\<lparr>cred_nonce := nonce, cred_ciphertext := ciphertext,
            cred_protected_key := protected_key, cred_generation := cred_generation c + 1\<rparr>) (db_credentials s)\<rparr>))"

definition replace_secret_inner :: "account_env \<Rightarrow> string \<Rightarrow> string \<Rightarrow> int option \<Rightarrow> unit vault_op" where
  "replace_secret_inner env account_id secret expected_generation =
     bindP (query (\<lambda>s. find_row acc_id account_id (db_accounts s))) (\<lambda>found.
     case found of
       None \<Rightarrow> Ret (Inl VaultError_NotFound)
     | Some a \<Rightarrow>
       tryP (seal_secret env (associated_data account_id (acc_provider a)) secret)
         (\<lambda>(nonce_bytes, ciphertext, protected_key).
       bindP (act (update_credential account_id expected_generation nonce_bytes ciphertext protected_key)) (\<lambda>changed.
       Ret (if changed = 0 then
              Inl (if expected_generation \<noteq> None then VaultError_Conflict else VaultError_NotFound)
            else Inr ()))))"

definition replace_secret :: "account_env \<Rightarrow> string \<Rightarrow> string \<Rightarrow> unit vault_op" where
  "replace_secret env account_id secret = replace_secret_inner env account_id secret None"

definition replace_secret_if_generation :: "account_env \<Rightarrow> string \<Rightarrow> int \<Rightarrow> string \<Rightarrow> unit vault_op" where
  "replace_secret_if_generation env account_id expected_generation secret =
     replace_secret_inner env account_id secret (Some expected_generation)"

definition set_account_status :: "string \<Rightarrow> string \<Rightarrow> unit vault_op" where
  "set_account_status account_id status =
     bindP (act (\<lambda>s. (changed_rows (\<lambda>a. acc_id a = account_id) (db_accounts s),
       s\<lparr>db_accounts := update_where (\<lambda>a. acc_id a = account_id) (\<lambda>a. a\<lparr>acc_status := status\<rparr>) (db_accounts s)\<rparr>)))
     (\<lambda>changed. Ret (if changed = 0 then Inl VaultError_NotFound else Inr ()))"

text \<open>Deleting an account deletes its credential (\<open>ON DELETE CASCADE\<close>).\<close>

definition delete_account_rows :: "string \<Rightarrow> vault_db \<Rightarrow> vault_db" where
  "delete_account_rows account_id s =
     s\<lparr>db_accounts := filter (\<lambda>a. acc_id a \<noteq> account_id) (db_accounts s),
       db_credentials := filter (\<lambda>c. cred_account_id c \<noteq> account_id) (db_credentials s)\<rparr>"

definition delete_account :: "string \<Rightarrow> bool vault_op" where
  "delete_account account_id =
     act (\<lambda>s. (Inr (changed_rows (\<lambda>a. acc_id a = account_id) (db_accounts s) > 0), delete_account_rows account_id s))"

section \<open>Authorization sessions\<close>

definition insert_authorization ::
  "authorization_session \<Rightarrow> secret_row \<Rightarrow> vault_db \<Rightarrow> (vault_error + unit) \<times> vault_db" where
  "insert_authorization session secret s =
     (if azs_id session \<in> azs_id ` set (db_sessions s)
       \<or> azx_session_id secret \<in> azx_session_id ` set (db_secrets s)
      then (Inl (VaultError_Database ConstraintViolation), s)
      else (Inr (), s\<lparr>db_sessions := db_sessions s @ [session], db_secrets := db_secrets s @ [secret]\<rparr>))"

definition store_authorization_session ::
  "account_env \<Rightarrow> authorization_session \<Rightarrow> string \<Rightarrow> unit vault_op" where
  "store_authorization_session env session secret =
     tryP (seal_secret env (authorization_associated_data (azs_id session) (azs_provider session)) secret)
       (\<lambda>(nonce_bytes, ciphertext, protected_key).
     act (insert_authorization session
       \<lparr>azx_session_id = azs_id session, azx_algorithm = credential_algorithm, azx_nonce = nonce_bytes,
        azx_ciphertext = ciphertext, azx_protected_key = protected_key\<rparr>))"

definition session_le :: "authorization_session \<Rightarrow> authorization_session \<Rightarrow> bool" where
  "session_le a b \<longleftrightarrow> (azs_created_at a, azs_id a) \<le> (azs_created_at b, azs_id b)"

definition list_authorization_sessions :: "authorization_session list vault_op" where
  "list_authorization_sessions = query (\<lambda>s. Inr (sort_by session_le (db_sessions s)))"

definition load_authorization_secret :: "account_env \<Rightarrow> string \<Rightarrow> string vault_op" where
  "load_authorization_secret env session_id =
     bindP (query (\<lambda>s. (find_row azs_id session_id (db_sessions s),
         find_row azx_session_id session_id (db_secrets s)))) (\<lambda>found.
     case found of
       (Some session, Some c) \<Rightarrow>
         Ret (open_secret env (authorization_associated_data session_id (azs_provider session))
           (azx_nonce c) (azx_ciphertext c) (azx_protected_key c))
     | _ \<Rightarrow> Ret (Inl VaultError_NotFound))"

definition update_authorization_session :: "authorization_session \<Rightarrow> unit vault_op" where
  "update_authorization_session session =
     act (\<lambda>s. (Inr (), s\<lparr>db_sessions := update_where (\<lambda>r. azs_id r = azs_id session)
       (\<lambda>r. r\<lparr>azs_status := azs_status session, azs_user_code := azs_user_code session,
          azs_expires_at := azs_expires_at session, azs_interval_seconds := azs_interval_seconds session,
          azs_next_poll_at := azs_next_poll_at session, azs_attempts := azs_attempts session,
          azs_last_error := azs_last_error session, azs_updated_at := azs_updated_at session\<rparr>) (db_sessions s)\<rparr>))"

definition delete_authorization_secret :: "string \<Rightarrow> unit vault_op" where
  "delete_authorization_secret session_id =
     act (\<lambda>s. (Inr (), s\<lparr>db_secrets := filter (\<lambda>c. azx_session_id c \<noteq> session_id) (db_secrets s)\<rparr>))"

section \<open>Properties of the sealing\<close>

text \<open>
  What the vault relies on: the random source fills the buffer, the cipher is an authenticated
  encryption scheme that decrypts what it encrypted under the same associated data, and the
  protector recovers the key it protected.
\<close>

definition sealing_laws :: "account_env \<Rightarrow> bool" where
  "sealing_laws env \<longleftrightarrow>
     (\<forall>tick n. length (env_random env tick n) = n)
   \<and> (\<forall>key nonce aad m c. env_encrypt env key nonce aad m = Some c \<longrightarrow> env_decrypt env key nonce aad c = Some m)
   \<and> (\<forall>key p. env_protect env key = Inr p \<longrightarrow> env_unprotect env p = Inr key)"

lemma run_draw [simp]: "run (draw source) s = (source (db_tick s), s\<lparr>db_tick := Suc (db_tick s)\<rparr>)"
  by (simp add: draw_def)

lemma run_query [simp]: "run (query f) s = (f s, s)"
  by (simp add: query_def)

lemma run_seal_secret:
  assumes "sealing_laws env" and "run (seal_secret env aad secret) s = (Inr (nonce, c, k), s')"
  shows "open_secret env aad nonce c k = Inr secret"
proof -
  from assms(2) obtain key where n: "nonce = env_random env (Suc (db_tick s)) 12" "length key = 32"
    and enc: "env_encrypt env key nonce aad secret = Some c" "env_protect env key = Inr k"
    by (auto simp: seal_secret_def random_fill_def split: if_splits option.splits sum.splits)
  with assms(1) have "env_unprotect env k = Inr key" "env_decrypt env key nonce aad c = Some secret"
      "length nonce = 12"
    unfolding sealing_laws_def by blast+
  with n(2) show ?thesis by (simp add: open_secret_def)
qed

lemma seal_secret_state: "snd (run (seal_secret env aad secret) s) = s\<lparr>db_tick := Suc (Suc (db_tick s))\<rparr>"
  by (simp add: seal_secret_def random_fill_def split: option.split sum.split)

end
