(* ===== verification/AccountPolicy.thy ===== *)
theory AccountPolicy
  imports Json
begin

text \<open>
  \<open>lib.rs\<close> of the accounts daemon: the in-memory \<open>PolicyEngine\<close> of grants and leases, the \<open>Redactor\<close>
  that every provider response passes, and the \<open>ProvisioningSaga\<close>. Times are nanoseconds since the
  epoch. What a call draws from outside (the clock, a fresh UUID, the SHA-256 digest) is an argument.
\<close>

section \<open>PolicyEngine\<close>

record grant_request =
  gr_client_id :: string
  gr_account_id :: string
  gr_purpose :: string
  gr_audience :: string
  gr_operations :: "string set"
  gr_expires_at :: int

record grant =
  g_id :: string
  g_request :: grant_request
  g_generation :: nat
  g_revoked :: bool

record lease =
  l_token :: string
  l_grant_id :: string
  l_grant_generation :: nat
  l_expires_at :: int

record policy_engine =
  pe_grants :: "string \<rightharpoonup> grant"
  pe_leases :: "string \<rightharpoonup> lease"

datatype lease_error =
    LeaseError_NotFound
  | LeaseError_Expired
  | LeaseError_Revoked
  | LeaseError_WrongClient
  | LeaseError_WrongPurpose
  | LeaseError_WrongAudience
  | LeaseError_OperationDenied

definition u64_saturating_add :: "nat \<Rightarrow> nat \<Rightarrow> nat" where
  "u64_saturating_add a b = min (a + b) (2 ^ 64 - 1)"

definition policy_approve :: "string \<Rightarrow> grant_request \<Rightarrow> policy_engine \<Rightarrow> grant \<times> policy_engine" where
  "policy_approve uuid request engine =
     (let grant = \<lparr>g_id = uuid, g_request = request, g_generation = 0, g_revoked = False\<rparr>
      in (grant, engine\<lparr>pe_grants := (pe_grants engine)(uuid \<mapsto> grant)\<rparr>))"

definition policy_issue_lease ::
  "string \<Rightarrow> int \<Rightarrow> string \<Rightarrow> int \<Rightarrow> policy_engine \<Rightarrow> lease_error + (lease \<times> policy_engine)" where
  "policy_issue_lease uuid now grant_id ttl engine =
     (case pe_grants engine grant_id of
        None \<Rightarrow> Inl LeaseError_NotFound
      | Some grant \<Rightarrow>
          if g_revoked grant then Inl LeaseError_Revoked
          else if gr_expires_at (g_request grant) \<le> now then Inl LeaseError_Expired
          else
            let lease = \<lparr>l_token = ''ela_'' @ uuid, l_grant_id = g_id grant,
                  l_grant_generation = g_generation grant,
                  l_expires_at = min (now + ttl) (gr_expires_at (g_request grant))\<rparr>
            in Inr (lease, engine\<lparr>pe_leases := (pe_leases engine)(l_token lease \<mapsto> lease)\<rparr>))"

definition policy_authorize ::
  "int \<Rightarrow> string \<Rightarrow> string \<Rightarrow> string \<Rightarrow> string \<Rightarrow> string \<Rightarrow> policy_engine \<Rightarrow> lease_error + unit" where
  "policy_authorize now token client_id purpose audience operation engine =
     (case pe_leases engine token of
        None \<Rightarrow> Inl LeaseError_NotFound
      | Some lease \<Rightarrow>
        (case pe_grants engine (l_grant_id lease) of
           None \<Rightarrow> Inl LeaseError_NotFound
         | Some grant \<Rightarrow>
             if g_revoked grant \<or> g_generation grant \<noteq> l_grant_generation lease then Inl LeaseError_Revoked
             else if l_expires_at lease \<le> now \<or> gr_expires_at (g_request grant) \<le> now
             then Inl LeaseError_Expired
             else if gr_client_id (g_request grant) \<noteq> client_id then Inl LeaseError_WrongClient
             else if gr_purpose (g_request grant) \<noteq> purpose then Inl LeaseError_WrongPurpose
             else if gr_audience (g_request grant) \<noteq> audience then Inl LeaseError_WrongAudience
             else if operation \<notin> gr_operations (g_request grant) then Inl LeaseError_OperationDenied
             else Inr ()))"

definition policy_revoke :: "string \<Rightarrow> policy_engine \<Rightarrow> lease_error + policy_engine" where
  "policy_revoke grant_id engine =
     (case pe_grants engine grant_id of
        None \<Rightarrow> Inl LeaseError_NotFound
      | Some grant \<Rightarrow> Inr (engine\<lparr>pe_grants := (pe_grants engine)(grant_id \<mapsto>
          grant\<lparr>g_revoked := True, g_generation := u64_saturating_add (g_generation grant) 1\<rparr>)\<rparr>))"

section \<open>Redactor\<close>

definition secret_keys :: "string list" where
  "secret_keys = [''authorization'', ''password'', ''access_token'', ''refresh_token'', ''api_key'',
     ''client_secret'', ''cookie'', ''set-cookie'', ''secret_value'']"

definition eq_ignore_ascii_case :: "string \<Rightarrow> string \<Rightarrow> bool" where
  "eq_ignore_ascii_case a b \<longleftrightarrow> to_ascii_lowercase a = to_ascii_lowercase b"

definition is_secret_key :: "string \<Rightarrow> bool" where
  "is_secret_key candidate \<longleftrightarrow> list_ex (eq_ignore_ascii_case candidate) secret_keys"

definition redacted :: string where
  "redacted = ''[REDACTED]''"

text \<open>\<open>str::replace\<close> for a non-empty pattern: left to right, matches do not overlap.\<close>

function replace_str :: "string \<Rightarrow> string \<Rightarrow> string \<Rightarrow> string" where
  "replace_str [] pat to = []"
| "replace_str (c # cs) pat to =
     (if pat \<noteq> [] \<and> starts_with (c # cs) pat
      then to @ replace_str (drop (length pat) (c # cs)) pat to
      else c # replace_str cs pat to)"
  by pat_completeness auto
termination
  by (relation "measure (\<lambda>(s, _, _). length s)") auto

definition redact_text :: "string list \<Rightarrow> string \<Rightarrow> string" where
  "redact_text canaries t =
     foldl (\<lambda>t canary. if canary \<noteq> [] \<and> contains_str t canary then replace_str t canary redacted else t)
       t canaries"

fun walk :: "string list \<Rightarrow> json \<Rightarrow> string option \<Rightarrow> json" where
  "walk canaries value key =
     (if (case key of None \<Rightarrow> False | Some candidate \<Rightarrow> is_secret_key candidate) then JStr redacted
      else case value of
        JObj members \<Rightarrow> JObj (map (\<lambda>(child_key, child). (child_key, walk canaries child (Some child_key))) members)
      | JArr items \<Rightarrow> JArr (map (\<lambda>item. walk canaries item None) items)
      | JStr t \<Rightarrow> JStr (redact_text canaries t)
      | _ \<Rightarrow> value)"

declare walk.simps [simp del]

definition sanitize :: "string list \<Rightarrow> json \<Rightarrow> json" where
  "sanitize canaries value = walk canaries value None"

section \<open>ProvisioningSaga\<close>

datatype checkpoint_kind =
    Captcha | Mfa | Terms | Payment | IdentityVerification | AmbiguousPlan | UnexpectedPage

record human_checkpoint =
  hc_kind :: checkpoint_kind
  hc_instructions :: string

datatype provisioning_state =
    Saga_Requested | Saga_Preflight | Saga_WaitingHuman | Saga_Verifying | Saga_Connected | Saga_Failed
  | Saga_Cancelled

datatype saga_error = InvalidTransition | HumanRequired

record provisioning_saga =
  sg_id :: string
  sg_provider :: string
  sg_purpose :: string
  sg_state :: provisioning_state
  sg_checkpoint :: "human_checkpoint option"

definition saga_requested :: "(string \<Rightarrow> string) \<Rightarrow> string \<Rightarrow> string \<Rightarrow> string \<Rightarrow> provisioning_saga" where
  "saga_requested sha256_hex request_key provider purpose =
     \<lparr>sg_id = ''saga_'' @ take 24 (sha256_hex (request_key @ [CHR 0x00] @ provider @ [CHR 0x00] @ purpose)),
      sg_provider = provider, sg_purpose = purpose, sg_state = Saga_Requested, sg_checkpoint = None\<rparr>"

definition saga_start :: "provisioning_saga \<Rightarrow> saga_error + provisioning_saga" where
  "saga_start saga =
     (if sg_state saga \<noteq> Saga_Requested then Inl InvalidTransition
      else Inr (saga\<lparr>sg_state := Saga_Preflight\<rparr>))"

definition require_human ::
  "checkpoint_kind \<Rightarrow> string \<Rightarrow> provisioning_saga \<Rightarrow> saga_error + provisioning_saga" where
  "require_human kind instructions saga =
     (if sg_state saga \<noteq> Saga_Preflight \<and> sg_state saga \<noteq> Saga_Verifying then Inl InvalidTransition
      else Inr (saga\<lparr>sg_checkpoint := Some \<lparr>hc_kind = kind, hc_instructions = instructions\<rparr>,
        sg_state := Saga_WaitingHuman\<rparr>))"

definition is_waiting_for_human :: "provisioning_saga \<Rightarrow> bool" where
  "is_waiting_for_human saga \<longleftrightarrow> sg_state saga = Saga_WaitingHuman"

definition automated_resume :: "provisioning_saga \<Rightarrow> saga_error + provisioning_saga" where
  "automated_resume saga =
     (if sg_state saga = Saga_WaitingHuman then Inl HumanRequired else Inl InvalidTransition)"

definition human_resume :: "provisioning_saga \<Rightarrow> saga_error + provisioning_saga" where
  "human_resume saga =
     (if sg_state saga \<noteq> Saga_WaitingHuman then Inl InvalidTransition
      else Inr (saga\<lparr>sg_checkpoint := None, sg_state := Saga_Verifying\<rparr>))"

definition saga_complete :: "provisioning_saga \<Rightarrow> saga_error + provisioning_saga" where
  "saga_complete saga =
     (if sg_state saga \<noteq> Saga_Verifying then Inl InvalidTransition
      else Inr (saga\<lparr>sg_state := Saga_Connected\<rparr>))"

definition saga_cancel :: "provisioning_saga \<Rightarrow> saga_error + provisioning_saga" where
  "saga_cancel saga =
     (if sg_state saga = Saga_Connected \<or> sg_state saga = Saga_Cancelled then Inl InvalidTransition
      else Inr (saga\<lparr>sg_checkpoint := None, sg_state := Saga_Cancelled\<rparr>))"

text \<open>The calls on one saga, in the order they are made; a refused call leaves the saga as it is.\<close>

datatype saga_call =
    Call_start
  | Call_require_human checkpoint_kind string
  | Call_automated_resume
  | Call_human_resume
  | Call_complete
  | Call_cancel

fun saga_apply :: "saga_call \<Rightarrow> provisioning_saga \<Rightarrow> saga_error + provisioning_saga" where
  "saga_apply Call_start saga = saga_start saga"
| "saga_apply (Call_require_human kind instructions) saga = require_human kind instructions saga"
| "saga_apply Call_automated_resume saga = automated_resume saga"
| "saga_apply Call_human_resume saga = human_resume saga"
| "saga_apply Call_complete saga = saga_complete saga"
| "saga_apply Call_cancel saga = saga_cancel saga"

fun saga_trace :: "provisioning_saga \<Rightarrow> saga_call list \<Rightarrow> (saga_call list \<times> provisioning_saga)" where
  "saga_trace saga [] = ([], saga)"
| "saga_trace saga (call # calls) =
     (case saga_apply call saga of
        Inl _ \<Rightarrow> saga_trace saga calls
      | Inr saga' \<Rightarrow> (case saga_trace saga' calls of (accepted, final) \<Rightarrow> (call # accepted, final)))"

section \<open>What redaction removes\<close>

lemma replace_str_skip:
  "\<not> (pat \<noteq> [] \<and> starts_with (c # cs) pat) \<Longrightarrow> replace_str (c # cs) pat to = c # replace_str cs pat to"
  unfolding replace_str.simps(2) by (rule if_not_P)

lemma replace_str_hit:
  "pat \<noteq> [] \<Longrightarrow> starts_with (c # cs) pat \<Longrightarrow>
    replace_str (c # cs) pat to = to @ replace_str (drop (length pat) (c # cs)) pat to"
  unfolding replace_str.simps(2) by simp

declare replace_str.simps(2) [simp del]

text \<open>
  Two texts of which neither starts with the other; \<open>clear a b\<close>: so are \<open>a\<close> and every non-empty suffix of
  \<open>b\<close>, that is, no occurrence of \<open>a\<close> begins inside \<open>b\<close>, whatever follows \<open>b\<close>.
\<close>

definition apart :: "string \<Rightarrow> string \<Rightarrow> bool" where
  "apart a b \<longleftrightarrow> \<not> starts_with a b \<and> \<not> starts_with b a"

fun clear :: "string \<Rightarrow> string \<Rightarrow> bool" where
  "clear a [] = True"
| "clear a (x # xs) = (apart a (x # xs) \<and> clear a xs)"

lemma starts_with_appendD: "starts_with (u @ t) p \<Longrightarrow> starts_with u p \<or> starts_with p u"
  by (induction u p rule: starts_with.induct) auto

lemma clear_skip: "clear p u \<Longrightarrow> contains_str (u @ t) p \<Longrightarrow> contains_str t p"
  by (induction u) (auto simp: apart_def dest: starts_with_appendD [of "_ # _", simplified])

lemma replace_str_starts:
  assumes "clear to p"
  shows "starts_with (replace_str s pat to) p \<Longrightarrow> starts_with s p"
  using assms
proof (induction s pat to arbitrary: p rule: replace_str.induct)
  case (1 pat to)
  then show ?case by simp
next
  case (2 c cs pat to)
  show ?case
  proof (cases p)
    case Nil
    then show ?thesis by simp
  next
    case (Cons d ds)
    show ?thesis
    proof (cases "pat \<noteq> [] \<and> starts_with (c # cs) pat")
      case True
      with 2 Cons show ?thesis by (auto simp: replace_str_hit apart_def dest: starts_with_appendD)
    next
      case False
      then show ?thesis using 2 Cons by (simp add: replace_str_skip)
    qed
  qed
qed

lemma replace_str_removes:
  assumes "pat \<noteq> []" "clear to pat" "clear pat to"
  shows "\<not> contains_str (replace_str s pat to) pat"
  using assms
proof (induction s pat to rule: replace_str.induct)
  case (1 pat to)
  then show ?case by simp
next
  case (2 c cs pat to)
  show ?case
  proof (cases "starts_with (c # cs) pat")
    case True
    with 2 show ?thesis by (auto simp: replace_str_hit dest: clear_skip)
  next
    case False
    moreover have "\<not> starts_with (c # replace_str cs pat to) pat"
      using replace_str_starts [OF 2(4), of "c # cs" pat] False by (auto simp: replace_str_skip)
    ultimately show ?thesis using 2 by (simp add: replace_str_skip)
  qed
qed

lemma replace_str_keeps_free:
  assumes "\<not> contains_str s p" "clear to p" "clear p to"
  shows "\<not> contains_str (replace_str s pat to) p"
  using assms
proof (induction s pat to rule: replace_str.induct)
  case (1 pat to)
  then show ?case by simp
next
  case (2 c cs pat to)
  have drop_free: "\<not> contains_str (drop n t) p" if "\<not> contains_str t p" for n t
    using that
  proof (induction n arbitrary: t)
    case (Suc n)
    then show ?case by (cases t) auto
  qed simp
  show ?case
  proof (cases "pat \<noteq> [] \<and> starts_with (c # cs) pat")
    case True
    with 2 drop_free [OF 2(3), of "length pat"] show ?thesis by (auto simp: replace_str_hit dest: clear_skip)
  next
    case False
    then have "starts_with (c # replace_str cs pat to) p \<Longrightarrow> starts_with (c # cs) p"
      using replace_str_starts [OF 2(4), of "c # cs" pat] by (simp add: replace_str_skip)
    then show ?thesis using 2 False by (auto simp: replace_str_skip)
  qed
qed

text \<open>
  A text that the replacement cannot create: it is not empty and does not overlap with \<open>[REDACTED]\<close>, in
  which neither of the two lies inside the other or shares an end with it. Such are the texts without
  square brackets that are no part of \<open>REDACTED\<close>, and those that begin and end with a brace, as a stored
  JSON credential does, unless they contain the word in brackets.
\<close>

definition maskable :: "string \<Rightarrow> bool" where
  "maskable c \<longleftrightarrow> c \<noteq> [] \<and> clear redacted c \<and> clear c redacted"

lemma starts_with_set: "starts_with s p \<Longrightarrow> set p \<subseteq> set s"
  by (induction s p rule: starts_with.induct) auto

lemma clear_outside: "last b \<notin> set a \<Longrightarrow> \<not> contains_str b a \<Longrightarrow> clear a b"
proof (induction b)
  case (Cons x xs)
  have "\<not> starts_with a (x # xs)"
    using starts_with_set [of a "x # xs"] Cons.prems(1) last_in_set [of "x # xs"] by blast
  with Cons show ?case by (auto simp: apart_def split: if_splits)
qed simp

lemma clear_without_hd: "x \<notin> set b \<Longrightarrow> clear (x # xs) b"
  by (induction b) (auto simp: apart_def)

lemma starts_with_before:
  "x \<notin> set p \<Longrightarrow> starts_with (u @ x # t) p \<Longrightarrow> starts_with u p"
  by (induction u p rule: starts_with.induct) auto

lemma contains_str_before:
  "x \<notin> set p \<Longrightarrow> p \<noteq> [] \<Longrightarrow> contains_str (u @ [x]) p \<Longrightarrow> contains_str u p"
proof (induction u)
  case Nil
  then show ?case by (cases p) auto
next
  case (Cons c u)
  then show ?case using starts_with_before [of x p "c # u" "[]"] by auto
qed

lemma maskable_plain:
  assumes "c \<noteq> []" "CHR ''['' \<notin> set c" "CHR '']'' \<notin> set c" "\<not> contains_str ''REDACTED'' c"
  shows "maskable c"
proof -
  have "clear redacted c" using clear_without_hd [OF assms(2)] by (simp add: redacted_def)
  moreover have word: "redacted = CHR ''['' # (''REDACTED'' @ [CHR '']''])" by (simp add: redacted_def)
  have "\<not> starts_with redacted c" using assms(1,2) unfolding word by (cases c) auto
  then have "\<not> contains_str redacted c"
    using contains_str_before [OF assms(3,1), of "''REDACTED''"] assms(4) unfolding word contains_str.simps(2) by blast
  then have "clear c redacted" using clear_outside [of redacted c] assms(3) by (simp add: redacted_def)
  ultimately show ?thesis using assms(1) by (simp add: maskable_def)
qed

lemma maskable_json: "hd c = CHR ''{'' \<Longrightarrow> last c = CHR ''}'' \<Longrightarrow> c \<noteq> [] \<Longrightarrow> \<not> contains_str c redacted \<Longrightarrow> maskable c"
  unfolding maskable_def using clear_outside [of c redacted]
  by (cases c) (auto simp: redacted_def apart_def)

lemma redact_text_free:
  assumes "maskable c" and "c \<in> set canaries \<or> \<not> contains_str t c"
  shows "\<not> contains_str (redact_text canaries t) c"
  using assms(2)
proof (induction canaries arbitrary: t)
  case Nil
  then show ?case by (simp add: redact_text_def)
next
  case (Cons d canaries)
  let ?t = "if d \<noteq> [] \<and> contains_str t d then replace_str t d redacted else t"
  have "c \<in> set canaries \<or> \<not> contains_str ?t c"
    using Cons.prems assms(1) replace_str_removes [of c redacted t] replace_str_keeps_free [of t c redacted d]
    by (cases "c = d") (auto simp: maskable_def)
  from Cons.IH [OF this] show ?case by (simp add: redact_text_def)
qed

text \<open>The texts a document carries as values, and the members it carries under secret names.\<close>

fun json_texts :: "json \<Rightarrow> string list" where
  "json_texts (JStr t) = [t]"
| "json_texts (JArr items) = concat (map json_texts items)"
| "json_texts (JObj members) = concat (map (\<lambda>(k, v). json_texts v) members)"
| "json_texts _ = []"

fun secrets_masked :: "json \<Rightarrow> bool" where
  "secrets_masked (JArr items) = (\<forall>item \<in> set items. secrets_masked item)"
| "secrets_masked (JObj members) =
     (\<forall>(k, v) \<in> set members. (is_secret_key k \<longrightarrow> v = JStr redacted) \<and> secrets_masked v)"
| "secrets_masked _ = True"

lemma walk_free:
  assumes "maskable c" "c \<in> set canaries"
  shows "t \<in> set (json_texts (walk canaries v key)) \<Longrightarrow> \<not> contains_str t c"
  using assms
proof (induction canaries v key arbitrary: t rule: walk.induct)
  case (1 canaries v key)
  have masked: "\<not> contains_str redacted c"
    using clear_skip [of c redacted "[]"] 1(4) by (auto simp: maskable_def)
  show ?case
  proof (cases "case key of None \<Rightarrow> False | Some candidate \<Rightarrow> is_secret_key candidate")
    case True
    with 1(3) masked show ?thesis by (simp add: walk.simps [of canaries v key])
  next
    case False
    note w = walk.simps [of canaries v key, unfolded if_not_P [OF False]]
    show ?thesis
    proof (cases v)
      case (JStr x)
      with 1(3) have "t = redact_text canaries x" by (simp add: w [unfolded JStr])
      with 1(4,5) show ?thesis by (simp add: redact_text_free)
    next
      case (JArr items)
      with 1(3) obtain item where "item \<in> set items" "t \<in> set (json_texts (walk canaries item None))"
        by (auto simp: w [unfolded JArr])
      with 1(1) [OF False JArr] 1(4,5) show ?thesis by blast
    next
      case (JObj members)
      with 1(3) obtain k x where "(k, x) \<in> set members" "t \<in> set (json_texts (walk canaries x (Some k)))"
        by (auto simp: w [unfolded JObj])
      with 1(2) [OF False JObj] 1(4,5) show ?thesis by blast
    qed (use 1(3) False in \<open>simp_all add: walk.simps\<close>)
  qed
qed

lemma walk_masked: "secrets_masked (walk canaries v key)"
proof (induction canaries v key rule: walk.induct)
  case (1 canaries v key)
  show ?case
  proof (cases "case key of None \<Rightarrow> False | Some candidate \<Rightarrow> is_secret_key candidate")
    case True
    then show ?thesis by (simp add: walk.simps [of canaries v key])
  next
    case False
    note w = walk.simps [of canaries v key, unfolded if_not_P [OF False]]
    show ?thesis
    proof (cases v)
      case (JObj members)
      have "is_secret_key k \<Longrightarrow> walk canaries x (Some k) = JStr redacted" for k x
        by (simp add: walk.simps)
      with 1(2) [OF False JObj] JObj show ?thesis by (fastforce simp: w [unfolded JObj])
    next
      case (JArr items)
      with 1(1) [OF False JArr] JArr show ?thesis by (auto simp: w [unfolded JArr])
    qed (use False in \<open>simp_all add: walk.simps\<close>)
  qed
qed

section \<open>Claims\<close>

text \<open>
  What the redactor returns carries no secret in its values: in no text value of the document, at any
  depth, does a canary occur, provided the canary does not overlap with the word that replaces it; and
  every member whose name is one of the secret names, in any case, is replaced as a whole. The names of
  the members are left as they are.
\<close>

lemma sanitize_removes_secrets:
  assumes "maskable canary" and "canary \<in> set canaries"
  shows "(\<forall>t \<in> set (json_texts (sanitize canaries v)). \<not> contains_str t canary)
    \<and> secrets_masked (sanitize canaries v)"
  unfolding sanitize_def using walk_free [OF assms] walk_masked by blast

lemma sanitize_removes_secrets_witness:
  "maskable ''tok-1'' \<and>
   sanitize [''tok-1''] (JObj [(''items'', JArr [JStr ''key tok-1tok-1!'']), (''Api_Key'', JInt 7)]) =
     JObj [(''items'', JArr [JStr ''key [REDACTED][REDACTED]!'']), (''Api_Key'', JStr ''[REDACTED]'')] \<and>
   secrets_masked (sanitize [''tok-1''] (JObj [(''items'', JArr [JStr ''key tok-1tok-1!'']), (''Api_Key'', JInt 7)]))"
proof -
  have plain: "maskable ''tok-1''"
    by (simp add: maskable_plain)
  have "sanitize [''tok-1''] (JObj [(''items'', JArr [JStr ''key tok-1tok-1!'']), (''Api_Key'', JInt 7)]) =
     JObj [(''items'', JArr [JStr ''key [REDACTED][REDACTED]!'']), (''Api_Key'', JStr ''[REDACTED]'')]"
    by code_simp
  with sanitize_removes_secrets [OF plain, of "[''tok-1'']"] plain show ?thesis by (metis list.set_intros(1))
qed

text \<open>A canary in the name of a member stays.\<close>

lemma sanitize_keeps_names: "sanitize canaries (JObj [(name, JNull)]) \<in> {JObj [(name, JNull)], JObj [(name, JStr redacted)]}"
  by (simp add: sanitize_def walk.simps)

text \<open>A canary that overlaps with the word can be left by its replacement.\<close>

lemma sanitize_bracket_left: "contains_str (redact_text ['']x''] '']xx'') '']x''"
  by code_simp

section \<open>Sagas\<close>

lemma saga_trace_connected:
  assumes "saga_trace saga calls = (accepted, final)" "sg_state final = Saga_Connected"
  shows "sg_state saga \<in> {Saga_Verifying, Saga_Connected} \<or> Call_human_resume \<in> set accepted"
  using assms
proof (induction saga calls arbitrary: accepted rule: saga_trace.induct)
  case (1 saga)
  then show ?case by simp
next
  case (2 saga call calls)
  show ?case
  proof (cases "saga_apply call saga")
    case (Inl e)
    with 2 show ?thesis by simp
  next
    case (Inr saga')
    with 2(3) obtain acc where acc: "saga_trace saga' calls = (acc, final)" "accepted = call # acc"
      by (auto split: prod.splits)
    from 2(2) [OF Inr acc(1) 2(4)] Inr acc(2) show ?thesis
      by (cases call)
        (auto simp: saga_start_def require_human_def automated_resume_def human_resume_def saga_complete_def
          saga_cancel_def split: if_splits)
  qed
qed

lemma saga_trace_no_automation:
  "saga_trace saga calls = (accepted, final) \<Longrightarrow> Call_automated_resume \<notin> set accepted"
proof (induction saga calls arbitrary: accepted rule: saga_trace.induct)
  case (1 saga)
  then show ?case by simp
next
  case (2 saga call calls)
  then show ?case
    by (cases call) (auto simp: automated_resume_def split: sum.splits prod.splits if_splits)
qed

text \<open>
  A provisioning saga reaches the connected state only through a human: whatever calls are
  made on a new saga, in whatever order, when it is connected then an accepted \<open>human_resume\<close> is
  among them, and an automated resume is never accepted.
\<close>

lemma connected_needs_human:
  assumes "saga_trace (saga_requested sha256_hex key provider purpose) calls = (accepted, final)"
    and "sg_state final = Saga_Connected"
  shows "Call_human_resume \<in> set accepted \<and> Call_automated_resume \<notin> set accepted"
  using saga_trace_connected [OF assms] saga_trace_no_automation [OF assms(1)]
  by (simp add: saga_requested_def)

lemma connected_needs_human_witness:
  "\<exists>accepted final.
     saga_trace (saga_requested (\<lambda>x. x) ''k'' ''github'' ''ci'')
       [Call_complete, Call_start, Call_require_human Mfa ''code'', Call_automated_resume, Call_human_resume,
        Call_complete] = (accepted, final)
     \<and> sg_state final = Saga_Connected \<and> Call_human_resume \<in> set accepted"
proof -
  let ?saga = "saga_requested (\<lambda>x. x) ''k'' ''github'' ''ci''"
  let ?calls = "[Call_complete, Call_start, Call_require_human Mfa ''code'', Call_automated_resume,
    Call_human_resume, Call_complete]"
  have "sg_state (snd (saga_trace ?saga ?calls)) = Saga_Connected"
    by (simp add: saga_requested_def saga_start_def require_human_def automated_resume_def
        human_resume_def saga_complete_def)
  moreover obtain accepted final where t: "saga_trace ?saga ?calls = (accepted, final)" by fastforce
  ultimately have "sg_state final = Saga_Connected" by simp
  with connected_needs_human [OF t] t show ?thesis by blast
qed

end
