(* ===== verification/AccountBroker.thy ===== *)
theory AccountBroker
  imports AccountVault AccountPolicy
begin

text \<open>
  \<open>broker.rs\<close> of the accounts daemon: access requests, grants, leases and the audit trail, kept in the
  tables of the vault. Each operation of \<open>BrokerStore\<close> is a program with one action per SQL statement
  or transaction; \<open>broker_body\<close> collects the operations of the broker and of the vault as the calls a
  process can make.
\<close>

section \<open>Data\<close>

record new_access_request =
  nar_account_id :: string
  nar_client_id :: string
  nar_purpose :: string
  nar_operations :: "string list"
  nar_duration_minutes :: nat

record broker_request =
  br_id :: string
  br_kind :: string
  br_status :: string
  br_account_id :: "string option"
  br_provider :: "string option"
  br_client_id :: "string option"
  br_purpose :: string
  br_operations :: "string list"
  br_duration_minutes :: nat
  br_created_at :: string
  br_updated_at :: string

record stored_grant =
  sg_grant_id :: string
  sg_request_id :: string
  sg_account_id :: string
  sg_grant_provider :: string
  sg_client_id :: string
  sg_grant_purpose :: string
  sg_operations :: "string list"
  sg_expires_at :: string
  sg_revoked :: bool

record opaque_lease =
  ol_token :: string
  ol_expires_at :: string

record audit_event =
  ae_time :: string
  ae_event :: string
  ae_account_id :: "string option"
  ae_detail :: json

datatype broker_error =
    BrokerError_Vault vault_error
  | BrokerError_Database db_error
  | BrokerError_NotFound
  | BrokerError_InvalidState
  | BrokerError_Inactive
  | BrokerError_ScopeDenied
  | BrokerError_InvalidData

type_synonym 'a broker_op = "(vault_db, broker_error + 'a) prog"

definition minutes :: "nat \<Rightarrow> int" where
  "minutes n = int n * 60 * 1000000000"

definition ok_or :: "'a option \<Rightarrow> broker_error \<Rightarrow> 'a broker_op" where
  "ok_or x e = Ret (case x of None \<Rightarrow> Inl e | Some v \<Rightarrow> Inr v)"

definition normalize_operations :: "string list \<Rightarrow> string list" where
  "normalize_operations operations = remdups_adj (sort operations)"

definition token_hash :: "account_env \<Rightarrow> string \<Rightarrow> string" where
  "token_hash env token = env_sha256_hex env token"

definition parse_vec :: "account_env \<Rightarrow> string \<Rightarrow> broker_error + string list" where
  "parse_vec env text =
     (case env_parse_ops env text of
        None \<Rightarrow> Inl (BrokerError_Database FromSqlConversionFailure)
      | Some operations \<Rightarrow> Inr operations)"

definition request_from_row :: "account_env \<Rightarrow> request_row \<Rightarrow> broker_error + broker_request" where
  "request_from_row env row =
     tryE (parse_vec env (rq_operations_json row)) (\<lambda>operations. Inr
       \<lparr>br_id = rq_id row, br_kind = rq_kind row, br_status = rq_status row, br_account_id = rq_account_id row,
        br_provider = rq_provider row, br_client_id = rq_client_id row, br_purpose = rq_purpose row,
        br_operations = operations, br_duration_minutes = rq_duration_minutes row,
        br_created_at = rq_created_at row, br_updated_at = rq_updated_at row\<rparr>)"

definition grant_from_row :: "account_env \<Rightarrow> grant_row \<Rightarrow> broker_error + stored_grant" where
  "grant_from_row env row =
     tryE (parse_vec env (gt_operations_json row)) (\<lambda>operations. Inr
       \<lparr>sg_grant_id = gt_id row, sg_request_id = gt_request_id row, sg_account_id = gt_account_id row,
        sg_grant_provider = gt_provider row, sg_client_id = gt_client_id row, sg_grant_purpose = gt_purpose row,
        sg_operations = operations, sg_expires_at = gt_expires_at row,
        sg_revoked = (gt_revoked_at row \<noteq> None)\<rparr>)"

section \<open>Requests\<close>

definition audit :: "account_env \<Rightarrow> string \<Rightarrow> string option \<Rightarrow> json \<Rightarrow> unit broker_op" where
  "audit env event account_id detail =
     (let sanitized = sanitize [] detail in
      bindP (utc_now env) (\<lambda>now.
      act (\<lambda>s. (Inr (), append_audit (env_to_rfc3339 env now) event account_id (env_print_json env sanitized) s))))"

definition get_request :: "account_env \<Rightarrow> string \<Rightarrow> broker_request broker_op" where
  "get_request env record_id =
     query (\<lambda>s. case find_row rq_id record_id (db_requests s) of
       None \<Rightarrow> Inl BrokerError_NotFound
     | Some row \<Rightarrow> request_from_row env row)"

definition insert_request :: "request_row \<Rightarrow> vault_db \<Rightarrow> (broker_error + unit) \<times> vault_db" where
  "insert_request row s =
     (if rq_id row \<in> rq_id ` set (db_requests s) then (Inl (BrokerError_Database ConstraintViolation), s)
      else (Inr (), s\<lparr>db_requests := db_requests s @ [row]\<rparr>))"

definition request_access :: "account_env \<Rightarrow> new_access_request \<Rightarrow> broker_request broker_op" where
  "request_access env request =
     tryP (map_ret (map_err BrokerError_Vault) list_accounts) (\<lambda>accounts.
     tryP (ok_or (List.find (\<lambda>a. acc_id a = nar_account_id request \<and> acc_status a = ''connected'') accounts)
       BrokerError_NotFound) (\<lambda>account.
     bindP (utc_now env) (\<lambda>now.
     bindP (new_uuid env) (\<lambda>uuid.
     let record_id = ''access_'' @ uuid; operations = normalize_operations (nar_operations request) in
     tryP (act (insert_request
       \<lparr>rq_id = record_id, rq_kind = ''access'', rq_status = ''awaiting_user'',
        rq_account_id = Some (nar_account_id request), rq_provider = Some (acc_provider account),
        rq_client_id = Some (nar_client_id request), rq_purpose = nar_purpose request,
        rq_operations_json = env_print_ops env operations,
        rq_duration_minutes = nar_duration_minutes request, rq_idempotency_key = None,
        rq_created_at = env_to_rfc3339 env now, rq_updated_at = env_to_rfc3339 env now\<rparr>)) (\<lambda>_.
     tryP (audit env ''access.requested'' (Some (nar_account_id request))
       (JObj [(''request_id'', JStr record_id), (''client_id'', JStr (nar_client_id request)),
         (''operations'', json_strs operations)])) (\<lambda>_.
     get_request env record_id))))))"

text \<open>\<open>INSERT OR IGNORE\<close>: a row with the same id or idempotency key is kept.\<close>

definition insert_or_ignore_request :: "request_row \<Rightarrow> vault_db \<Rightarrow> (broker_error + unit) \<times> vault_db" where
  "insert_or_ignore_request row s =
     (if rq_id row \<in> rq_id ` set (db_requests s)
       \<or> (rq_idempotency_key row \<noteq> None \<and> rq_idempotency_key row \<in> rq_idempotency_key ` set (db_requests s))
      then (Inr (), s)
      else (Inr (), s\<lparr>db_requests := db_requests s @ [row]\<rparr>))"

definition request_creation ::
  "account_env \<Rightarrow> string \<Rightarrow> string \<Rightarrow> string \<Rightarrow> string list \<Rightarrow> broker_request broker_op" where
  "request_creation env key provider purpose constraints =
     (let idempotency_key = env_sha256_hex env (format [key, [CHR 0x00], provider, [CHR 0x00], purpose]);
          record_id = ''create_'' @ take 24 idempotency_key in
      bindP (utc_now env) (\<lambda>now.
      let operations = normalize_operations constraints in
      tryP (act (insert_or_ignore_request
        \<lparr>rq_id = record_id, rq_kind = ''creation'', rq_status = ''waiting_human'', rq_account_id = None,
         rq_provider = Some provider, rq_client_id = None, rq_purpose = purpose,
         rq_operations_json = env_print_ops env operations, rq_duration_minutes = 0,
         rq_idempotency_key = Some idempotency_key,
         rq_created_at = env_to_rfc3339 env now, rq_updated_at = env_to_rfc3339 env now\<rparr>)) (\<lambda>_.
      tryP (audit env ''creation.requested'' None
        (JObj [(''request_id'', JStr record_id), (''provider'', JStr provider)])) (\<lambda>_.
      get_request env record_id))))"

definition cancel_request :: "account_env \<Rightarrow> string \<Rightarrow> unit broker_op" where
  "cancel_request env record_id =
     tryP (get_request env record_id) (\<lambda>request.
     if br_status request = ''approved'' \<or> br_status request = ''cancelled''
     then Ret (Inl BrokerError_InvalidState)
     else
       bindP (utc_now env) (\<lambda>now.
       bindP (act (\<lambda>s. ((), s\<lparr>db_requests := update_where (\<lambda>r. rq_id r = record_id)
           (\<lambda>r. r\<lparr>rq_status := ''cancelled'', rq_updated_at := env_to_rfc3339 env now\<rparr>) (db_requests s)\<rparr>))) (\<lambda>_.
       audit env ''request.cancelled'' (br_account_id request)
         (JObj [(''request_id'', JStr record_id), (''partial_credential_stored'', JBool False)]))))"

definition request_newest_first :: "request_row \<Rightarrow> request_row \<Rightarrow> bool" where
  "request_newest_first a b \<longleftrightarrow> rq_created_at b \<le> rq_created_at a"

definition list_requests :: "account_env \<Rightarrow> broker_request list broker_op" where
  "list_requests env =
     query (\<lambda>s. mapE (request_from_row env) (sort_by request_newest_first (db_requests s)))"

section \<open>Grants\<close>

definition get_grant :: "account_env \<Rightarrow> string \<Rightarrow> stored_grant broker_op" where
  "get_grant env record_id =
     query (\<lambda>s. case find_row gt_id record_id (db_grants s) of
       None \<Rightarrow> Inl BrokerError_NotFound
     | Some row \<Rightarrow> grant_from_row env row)"

text \<open>
  The transaction of \<open>approve_access\<close>. The update of the request does not check how many rows it
  changed; the insertion fails on a second grant for the request and on a request that is gone.
\<close>

definition approve_transaction ::
  "string \<Rightarrow> string \<Rightarrow> grant_row \<Rightarrow> vault_db \<Rightarrow> (broker_error + unit) \<times> vault_db" where
  "approve_transaction request_id now g s =
     (let requests = update_where (\<lambda>r. rq_id r = request_id \<and> rq_status r = ''awaiting_user'')
            (\<lambda>r. r\<lparr>rq_status := ''approved'', rq_updated_at := now\<rparr>) (db_requests s) in
      if gt_id g \<in> gt_id ` set (db_grants s) \<or> gt_request_id g \<in> gt_request_id ` set (db_grants s)
        \<or> gt_request_id g \<notin> rq_id ` set requests
      then (Inl (BrokerError_Database ConstraintViolation), s)
      else (Inr (), s\<lparr>db_requests := requests, db_grants := db_grants s @ [g]\<rparr>))"

definition approve_checked :: "account_env \<Rightarrow> string \<Rightarrow> broker_request \<Rightarrow> stored_grant broker_op" where
  "approve_checked env request_id request =
     (if br_kind request \<noteq> ''access'' \<or> br_status request \<noteq> ''awaiting_user''
      then Ret (Inl BrokerError_InvalidState)
      else
        tryP (ok_or (br_account_id request) BrokerError_InvalidData) (\<lambda>account_id.
        tryP (ok_or (br_provider request) BrokerError_InvalidData) (\<lambda>provider.
        tryP (ok_or (br_client_id request) BrokerError_InvalidData) (\<lambda>client_id.
        bindP (new_uuid env) (\<lambda>uuid.
        let record_id = ''grant_'' @ uuid in
        bindP (utc_now env) (\<lambda>approved.
        let expires_at = env_to_rfc3339 env (approved + minutes (br_duration_minutes request)) in
        bindP (utc_now env) (\<lambda>now.
        tryP (act (approve_transaction request_id (env_to_rfc3339 env now)
          \<lparr>gt_id = record_id, gt_request_id = request_id, gt_account_id = account_id, gt_provider = provider,
           gt_client_id = client_id, gt_purpose = br_purpose request,
           gt_operations_json = env_print_ops env (br_operations request), gt_expires_at = expires_at,
           gt_generation = 0, gt_revoked_at = None\<rparr>)) (\<lambda>_.
        tryP (audit env ''grant.approved'' (Some account_id)
          (JObj [(''grant_id'', JStr record_id), (''request_id'', JStr request_id)])) (\<lambda>_.
        get_grant env record_id)))))))))"

definition approve_access :: "account_env \<Rightarrow> string \<Rightarrow> stored_grant broker_op" where
  "approve_access env request_id = tryP (get_request env request_id) (approve_checked env request_id)"

definition grant_for_request :: "account_env \<Rightarrow> string \<Rightarrow> stored_grant broker_op" where
  "grant_for_request env request_id =
     tryP (query (\<lambda>s. case find_row gt_request_id request_id (db_grants s) of
       None \<Rightarrow> Inl BrokerError_NotFound
     | Some row \<Rightarrow> Inr (gt_id row))) (get_grant env)"

definition grant_latest_first :: "grant_row \<Rightarrow> grant_row \<Rightarrow> bool" where
  "grant_latest_first a b \<longleftrightarrow> gt_expires_at b \<le> gt_expires_at a"

definition list_grants :: "account_env \<Rightarrow> stored_grant list broker_op" where
  "list_grants env =
     query (\<lambda>s. mapE (grant_from_row env) (sort_by grant_latest_first (db_grants s)))"

section \<open>Leases\<close>

text \<open>
  \<open>INSERT INTO leases ... SELECT ... FROM grants WHERE record_id\<close>: the generation is the one the grant has
  when the statement runs, and nothing is inserted when the grant is gone.
\<close>

definition insert_lease ::
  "string \<Rightarrow> string \<Rightarrow> string \<Rightarrow> int \<Rightarrow> vault_db \<Rightarrow> (broker_error + unit) \<times> vault_db" where
  "insert_lease hash grant_id expires_at remaining_uses s =
     (case find_row gt_id grant_id (db_grants s) of
        None \<Rightarrow> (Inr (), s)
      | Some g \<Rightarrow>
          if hash \<in> ls_token_hash ` set (db_leases s) then (Inl (BrokerError_Database ConstraintViolation), s)
          else (Inr (), s\<lparr>db_leases := db_leases s @
            [\<lparr>ls_token_hash = hash, ls_grant_id = grant_id, ls_generation = gt_generation g,
              ls_expires_at = expires_at, ls_remaining_uses = remaining_uses\<rparr>]\<rparr>))"

definition issue_checked :: "account_env \<Rightarrow> string \<Rightarrow> nat \<Rightarrow> int \<Rightarrow> stored_grant \<Rightarrow> opaque_lease broker_op" where
  "issue_checked env grant_id ttl_minutes remaining_uses grant =
     tryP (ok_or (env_parse_rfc3339 env (sg_expires_at grant)) BrokerError_InvalidData) (\<lambda>grant_expiry.
     let issue =
       bindP (new_uuid env) (\<lambda>uuid.
       let raw = ''ela_'' @ uuid; hash = token_hash env raw in
       bindP (utc_now env) (\<lambda>now.
       let expires_at = env_to_rfc3339 env (min (now + minutes (min ttl_minutes 15)) grant_expiry) in
       tryP (act (insert_lease hash grant_id expires_at remaining_uses)) (\<lambda>_.
       Ret (Inr \<lparr>ol_token = raw, ol_expires_at = expires_at\<rparr>)))) in
     if sg_revoked grant then Ret (Inl BrokerError_Inactive)
     else
       bindP (utc_now env) (\<lambda>now.
       if grant_expiry \<le> now then Ret (Inl BrokerError_Inactive) else issue))"

definition issue_lease_with_uses :: "account_env \<Rightarrow> string \<Rightarrow> nat \<Rightarrow> int \<Rightarrow> opaque_lease broker_op" where
  "issue_lease_with_uses env grant_id ttl_minutes remaining_uses =
     tryP (get_grant env grant_id) (issue_checked env grant_id ttl_minutes remaining_uses)"

definition issue_lease :: "account_env \<Rightarrow> string \<Rightarrow> nat \<Rightarrow> opaque_lease broker_op" where
  "issue_lease env grant_id ttl_minutes = issue_lease_with_uses env grant_id ttl_minutes (- 1)"

definition issue_single_use_lease :: "account_env \<Rightarrow> string \<Rightarrow> nat \<Rightarrow> opaque_lease broker_op" where
  "issue_single_use_lease env grant_id ttl_minutes = issue_lease_with_uses env grant_id ttl_minutes 1"

text \<open>The join of \<open>authorize\<close>: the lease, its grant and the account of the grant.\<close>

definition lease_record :: "string \<Rightarrow> string \<Rightarrow> vault_db \<Rightarrow> (lease_row \<times> grant_row) option" where
  "lease_record hash audience s =
     (case find_row ls_token_hash hash (db_leases s) of
        None \<Rightarrow> None
      | Some l \<Rightarrow>
        (case find_row gt_id (ls_grant_id l) (db_grants s) of
           None \<Rightarrow> None
         | Some g \<Rightarrow>
           (case find_row acc_id (gt_account_id g) (db_accounts s) of
              None \<Rightarrow> None
            | Some a \<Rightarrow>
                if gt_provider g = audience \<and> gt_revoked_at g = None \<and> acc_status a = ''connected''
                then Some (l, g) else None)))"

definition spend_use :: "string \<Rightarrow> vault_db \<Rightarrow> nat \<times> vault_db" where
  "spend_use hash s =
     (let p = (\<lambda>l. ls_token_hash l = hash \<and> ls_remaining_uses l > 0)
      in (changed_rows p (db_leases s),
          s\<lparr>db_leases := update_where p (\<lambda>l. l\<lparr>ls_remaining_uses := ls_remaining_uses l - 1\<rparr>) (db_leases s)\<rparr>))"

text \<open>The two expiry checks, each against its own reading of the clock.\<close>

definition check_expiry :: "account_env \<Rightarrow> string \<Rightarrow> unit broker_op" where
  "check_expiry env expires_at =
     tryP (ok_or (env_parse_rfc3339 env expires_at) BrokerError_InvalidData) (\<lambda>expiry.
     bindP (utc_now env) (\<lambda>now.
     Ret (if expiry \<le> now then Inl BrokerError_Inactive else Inr ())))"

definition scope_allows ::
  "account_env \<Rightarrow> grant_row \<Rightarrow> string \<Rightarrow> string \<Rightarrow> string \<Rightarrow> broker_error + bool" where
  "scope_allows env g client_id purpose operation =
     (if gt_client_id g \<noteq> client_id \<or> gt_purpose g \<noteq> purpose then Inr False
      else tryE (parse_vec env (gt_operations_json g)) (\<lambda>operations.
        Inr (list_ex (\<lambda>allowed. allowed = operation) operations)))"

definition authorize ::
  "account_env \<Rightarrow> string \<Rightarrow> string \<Rightarrow> string \<Rightarrow> string \<Rightarrow> string \<Rightarrow> unit broker_op" where
  "authorize env token client_id purpose audience operation =
     (let hash = token_hash env token in
      bindP (query (lease_record hash audience)) (\<lambda>record.
      case record of
        None \<Rightarrow> Ret (Inl BrokerError_Inactive)
      | Some (l, g) \<Rightarrow>
          if ls_remaining_uses l = 0 \<or> ls_generation l \<noteq> gt_generation g then Ret (Inl BrokerError_Inactive)
          else
            tryP (check_expiry env (ls_expires_at l)) (\<lambda>_.
            tryP (check_expiry env (gt_expires_at g)) (\<lambda>_.
            tryP (Ret (scope_allows env g client_id purpose operation)) (\<lambda>allowed.
            if \<not> allowed then
              tryP (audit env ''operation.denied'' None
                (JObj [(''client_id'', JStr client_id), (''audience'', JStr audience),
                  (''operation'', JStr operation)])) (\<lambda>_.
              Ret (Inl BrokerError_ScopeDenied))
            else if ls_remaining_uses l > 0 then
              bindP (act (spend_use hash)) (\<lambda>changed.
              Ret (if changed = 0 then Inl BrokerError_Inactive else Inr ()))
            else Ret (Inr ()))))))"

definition account_id_for_lease :: "account_env \<Rightarrow> string \<Rightarrow> string broker_op" where
  "account_id_for_lease env token =
     query (\<lambda>s. case find_row ls_token_hash (token_hash env token) (db_leases s) of
       None \<Rightarrow> Inl BrokerError_NotFound
     | Some l \<Rightarrow>
       (case find_row gt_id (ls_grant_id l) (db_grants s) of
          None \<Rightarrow> Inl BrokerError_NotFound
        | Some g \<Rightarrow> Inr (gt_account_id g)))"

section \<open>Revocation and disconnection\<close>

definition revoke_grant :: "account_env \<Rightarrow> string \<Rightarrow> string \<Rightarrow> unit broker_op" where
  "revoke_grant env grant_id reason =
     tryP (get_grant env grant_id) (\<lambda>grant.
     bindP (utc_now env) (\<lambda>now.
     let p = (\<lambda>g. gt_id g = grant_id \<and> gt_revoked_at g = None) in
     bindP (act (\<lambda>s. (changed_rows p (db_grants s), s\<lparr>db_grants := update_where p
         (\<lambda>g. g\<lparr>gt_revoked_at := Some (env_to_rfc3339 env now), gt_generation := gt_generation g + 1\<rparr>)
         (db_grants s)\<rparr>))) (\<lambda>changed.
     if changed = 0 then Ret (Inl BrokerError_Inactive)
     else audit env ''grant.revoked'' (Some (sg_account_id grant))
       (JObj [(''grant_id'', JStr grant_id), (''reason'', JStr reason)]))))"

definition grants_of_account :: "string \<Rightarrow> vault_db \<Rightarrow> string set" where
  "grants_of_account account_id s = gt_id ` set (filter (\<lambda>g. gt_account_id g = account_id) (db_grants s))"

definition delete_leases_of_account :: "string \<Rightarrow> vault_db \<Rightarrow> vault_db" where
  "delete_leases_of_account account_id s =
     s\<lparr>db_leases := filter (\<lambda>l. ls_grant_id l \<notin> grants_of_account account_id s) (db_leases s)\<rparr>"

definition delete_grants_of_account :: "string \<Rightarrow> vault_db \<Rightarrow> vault_db" where
  "delete_grants_of_account account_id s =
     s\<lparr>db_grants := filter (\<lambda>g. gt_account_id g \<noteq> account_id) (db_grants s)\<rparr>"

definition cancel_awaiting_of_account :: "string \<Rightarrow> string \<Rightarrow> vault_db \<Rightarrow> vault_db" where
  "cancel_awaiting_of_account account_id now s =
     s\<lparr>db_requests := update_where (\<lambda>r. rq_account_id r = Some account_id \<and> rq_status r = ''awaiting_user'')
        (\<lambda>r. r\<lparr>rq_status := ''cancelled'', rq_updated_at := now\<rparr>) (db_requests s)\<rparr>"

definition disconnect_transaction :: "string \<Rightarrow> string \<Rightarrow> vault_db \<Rightarrow> nat \<times> vault_db" where
  "disconnect_transaction account_id now s =
     (changed_rows (\<lambda>a. acc_id a = account_id) (db_accounts s),
      delete_account_rows account_id
        (cancel_awaiting_of_account account_id now
          (delete_grants_of_account account_id (delete_leases_of_account account_id s))))"

definition disconnect_account :: "account_env \<Rightarrow> string \<Rightarrow> unit broker_op" where
  "disconnect_account env account_id =
     bindP (utc_now env) (\<lambda>now.
     bindP (act (disconnect_transaction account_id (env_to_rfc3339 env now))) (\<lambda>changed.
     if changed = 0 then Ret (Inl BrokerError_NotFound)
     else audit env ''account.disconnected'' (Some account_id)
       (JObj [(''credential_deleted'', JBool True), (''leases_invalidated'', JBool True)])))"

definition revoke_grants_of_account :: "string \<Rightarrow> string \<Rightarrow> vault_db \<Rightarrow> vault_db" where
  "revoke_grants_of_account account_id now s =
     s\<lparr>db_grants := update_where (\<lambda>g. gt_account_id g = account_id)
        (\<lambda>g. g\<lparr>gt_revoked_at := (case gt_revoked_at g of None \<Rightarrow> Some now | Some t \<Rightarrow> Some t),
               gt_generation := gt_generation g + 1\<rparr>) (db_grants s)\<rparr>"

definition begin_transaction :: "string \<Rightarrow> string \<Rightarrow> string \<Rightarrow> vault_db \<Rightarrow> nat \<times> vault_db" where
  "begin_transaction account_id revoked now s =
     (let s' = cancel_awaiting_of_account account_id now
            (revoke_grants_of_account account_id revoked (delete_leases_of_account account_id s))
      in (changed_rows (\<lambda>a. acc_id a = account_id) (db_accounts s'),
          s'\<lparr>db_accounts := update_where (\<lambda>a. acc_id a = account_id)
              (\<lambda>a. a\<lparr>acc_status := ''revocation_pending''\<rparr>) (db_accounts s')\<rparr>))"

definition begin_provider_disconnect :: "account_env \<Rightarrow> string \<Rightarrow> unit broker_op" where
  "begin_provider_disconnect env account_id =
     bindP (utc_now env) (\<lambda>revoked.
     bindP (utc_now env) (\<lambda>now.
     bindP (act (begin_transaction account_id (env_to_rfc3339 env revoked) (env_to_rfc3339 env now))) (\<lambda>changed.
     if changed = 0 then Ret (Inl BrokerError_NotFound)
     else audit env ''account.revocation_pending'' (Some account_id)
       (JObj [(''local_execution_disabled'', JBool True), (''leases_invalidated'', JBool True)]))))"

text \<open>
  The transaction of \<open>complete_provider_disconnect\<close> deletes the grants of the account but not their
  leases: a lease left makes the deletion fail (\<open>REFERENCES grants(record_id)\<close>) and nothing is changed.
\<close>

definition complete_transaction :: "string \<Rightarrow> vault_db \<Rightarrow> (broker_error + nat) \<times> vault_db" where
  "complete_transaction account_id s =
     (if list_ex (\<lambda>l. ls_grant_id l \<in> grants_of_account account_id s) (db_leases s)
      then (Inl (BrokerError_Database ConstraintViolation), s)
      else (Inr (changed_rows (\<lambda>a. acc_id a = account_id) (db_accounts s)),
        delete_account_rows account_id (delete_grants_of_account account_id s)))"

definition complete_provider_disconnect :: "account_env \<Rightarrow> string \<Rightarrow> unit broker_op" where
  "complete_provider_disconnect env account_id =
     tryP (act (complete_transaction account_id)) (\<lambda>changed.
     if changed = 0 then Ret (Inl BrokerError_NotFound)
     else audit env ''account.disconnected'' (Some account_id)
       (JObj [(''provider_revoked'', JBool True), (''credential_deleted'', JBool True)]))"

section \<open>Audit trail\<close>

definition audit_newest_first :: "audit_row \<Rightarrow> audit_row \<Rightarrow> bool" where
  "audit_newest_first a b \<longleftrightarrow> aud_id b \<le> aud_id a"

definition list_audit :: "account_env \<Rightarrow> nat \<Rightarrow> audit_event list broker_op" where
  "list_audit env limit =
     query (\<lambda>s. Inr (map (\<lambda>row.
         \<lparr>ae_time = aud_time row, ae_event = aud_event row, ae_account_id = aud_account_id row,
          ae_detail = (case env_parse_json env (aud_detail_json row) of
             None \<Rightarrow> JObj [(''redacted'', JBool True)] | Some v \<Rightarrow> v)\<rparr>)
       (take (min limit 500) (sort_by audit_newest_first (db_audit s)))))"

section \<open>The calls of a process\<close>

datatype broker_call =
    Call_open
  | Call_store_account string string string string
  | Call_list_accounts
  | Call_load_secret string
  | Call_load_secret_versioned string
  | Call_replace_secret string string
  | Call_replace_secret_if_generation string int string
  | Call_set_account_status string string
  | Call_delete_account string
  | Call_store_authorization_session authorization_session string
  | Call_list_authorization_sessions
  | Call_load_authorization_secret string
  | Call_update_authorization_session authorization_session
  | Call_delete_authorization_secret string
  | Call_request_access new_access_request
  | Call_request_creation string string string "string list"
  | Call_get_request string
  | Call_cancel_request string
  | Call_list_requests
  | Call_approve_access string
  | Call_get_grant string
  | Call_grant_for_request string
  | Call_list_grants
  | Call_issue_lease string nat
  | Call_issue_single_use_lease string nat
  | Call_authorize string string string string string
  | Call_account_id_for_lease string
  | Call_revoke_grant string string
  | Call_disconnect_account string
  | Call_begin_provider_disconnect string
  | Call_complete_provider_disconnect string
  | Call_list_audit nat

datatype call_value =
    V_unit unit
  | V_flag bool
  | V_text string
  | V_versioned "string \<times> int"
  | V_account account_metadata
  | V_accounts "account_metadata list"
  | V_sessions "authorization_session list"
  | V_request broker_request
  | V_requests "broker_request list"
  | V_grant stored_grant
  | V_grants "stored_grant list"
  | V_lease opaque_lease
  | V_audit "audit_event list"

definition from_vault :: "('a \<Rightarrow> call_value) \<Rightarrow> 'a vault_op \<Rightarrow> call_value broker_op" where
  "from_vault wrap p = map_ret (map_sum BrokerError_Vault wrap) p"

definition from_broker :: "('a \<Rightarrow> call_value) \<Rightarrow> 'a broker_op \<Rightarrow> call_value broker_op" where
  "from_broker wrap p = map_ret (map_sum id wrap) p"

primrec broker_body :: "account_env \<Rightarrow> broker_call \<Rightarrow> call_value broker_op" where
  "broker_body env Call_open = from_vault V_unit (vault_open env)"
| "broker_body env (Call_store_account provider identity method secret) =
     from_vault V_account (store_account env provider identity method secret)"
| "broker_body env Call_list_accounts = from_vault V_accounts list_accounts"
| "broker_body env (Call_load_secret account_id) = from_vault V_text (load_secret env account_id)"
| "broker_body env (Call_load_secret_versioned account_id) =
     from_vault V_versioned (load_secret_versioned env account_id)"
| "broker_body env (Call_replace_secret account_id secret) =
     from_vault V_unit (replace_secret env account_id secret)"
| "broker_body env (Call_replace_secret_if_generation account_id generation secret) =
     from_vault V_unit (replace_secret_if_generation env account_id generation secret)"
| "broker_body env (Call_set_account_status account_id status) =
     from_vault V_unit (set_account_status account_id status)"
| "broker_body env (Call_delete_account account_id) = from_vault V_flag (delete_account account_id)"
| "broker_body env (Call_store_authorization_session session secret) =
     from_vault V_unit (store_authorization_session env session secret)"
| "broker_body env Call_list_authorization_sessions = from_vault V_sessions list_authorization_sessions"
| "broker_body env (Call_load_authorization_secret session_id) =
     from_vault V_text (load_authorization_secret env session_id)"
| "broker_body env (Call_update_authorization_session session) =
     from_vault V_unit (update_authorization_session session)"
| "broker_body env (Call_delete_authorization_secret session_id) =
     from_vault V_unit (delete_authorization_secret session_id)"
| "broker_body env (Call_request_access request) = from_broker V_request (request_access env request)"
| "broker_body env (Call_request_creation key provider purpose constraints) =
     from_broker V_request (request_creation env key provider purpose constraints)"
| "broker_body env (Call_get_request record_id) = from_broker V_request (get_request env record_id)"
| "broker_body env (Call_cancel_request record_id) = from_broker V_unit (cancel_request env record_id)"
| "broker_body env Call_list_requests = from_broker V_requests (list_requests env)"
| "broker_body env (Call_approve_access record_id) = from_broker V_grant (approve_access env record_id)"
| "broker_body env (Call_get_grant record_id) = from_broker V_grant (get_grant env record_id)"
| "broker_body env (Call_grant_for_request record_id) = from_broker V_grant (grant_for_request env record_id)"
| "broker_body env Call_list_grants = from_broker V_grants (list_grants env)"
| "broker_body env (Call_issue_lease record_id ttl) = from_broker V_lease (issue_lease env record_id ttl)"
| "broker_body env (Call_issue_single_use_lease record_id ttl) =
     from_broker V_lease (issue_single_use_lease env record_id ttl)"
| "broker_body env (Call_authorize token client_id purpose audience operation) =
     from_broker V_unit (authorize env token client_id purpose audience operation)"
| "broker_body env (Call_account_id_for_lease token) = from_broker V_text (account_id_for_lease env token)"
| "broker_body env (Call_revoke_grant record_id reason) = from_broker V_unit (revoke_grant env record_id reason)"
| "broker_body env (Call_disconnect_account record_id) = from_broker V_unit (disconnect_account env record_id)"
| "broker_body env (Call_begin_provider_disconnect record_id) =
     from_broker V_unit (begin_provider_disconnect env record_id)"
| "broker_body env (Call_complete_provider_disconnect record_id) =
     from_broker V_unit (complete_provider_disconnect env record_id)"
| "broker_body env (Call_list_audit limit) = from_broker V_audit (list_audit env limit)"

end
