(* ===== verification/AccountInterleaving.thy ===== *)
theory AccountInterleaving
  imports AccountBroker
begin

text \<open>
  The calls of \<open>broker_body\<close> against the shared vault. \<open>vault_change\<close> is the abstract specification of one
  atomic action of any process; every action of every call is one of its cases
  (\<open>calls_are_changes\<close>). A fact about interleavings is then proved case by case on \<open>vault_change\<close>,
  through the interfaces \<open>shared_invariant\<close> and \<open>metered\<close>.
\<close>

section \<open>One atomic action\<close>

inductive vault_change :: "account_env \<Rightarrow> nat \<Rightarrow> vault_db \<Rightarrow> vault_db \<Rightarrow> bool"
  for env :: account_env and t\<^sub>0 :: nat where
  vc_idle: "vault_change env t\<^sub>0 s s"
| vc_tick: "vault_change env t\<^sub>0 s (s\<lparr>db_tick := Suc (db_tick s)\<rparr>)"
| vc_audit: "vault_change env t\<^sub>0 s (append_audit time event account_id detail s)"
| vc_account: "t\<^sub>0 \<le> n \<Longrightarrow> acc_id account = ''acct_'' @ env_uuid env n \<Longrightarrow>
    cred_account_id credential = acc_id account \<Longrightarrow> cred_generation credential = 0 \<Longrightarrow>
    vault_change env t\<^sub>0 s (snd (insert_account account credential s))"
| vc_credential: "vault_change env t\<^sub>0 s (snd (update_credential account_id generation nonce c k s))"
| vc_status: "vault_change env t\<^sub>0 s (s\<lparr>db_accounts :=
    update_where (\<lambda>a. acc_id a = account_id) (\<lambda>a. a\<lparr>acc_status := status\<rparr>) (db_accounts s)\<rparr>)"
| vc_delete_account: "vault_change env t\<^sub>0 s (delete_account_rows account_id s)"
| vc_session: "azx_session_id secret = azs_id session \<Longrightarrow>
    vault_change env t\<^sub>0 s (snd (insert_authorization session secret s))"
| vc_update_session: "(\<And>r. azs_id (f r) = azs_id r) \<Longrightarrow>
    vault_change env t\<^sub>0 s (s\<lparr>db_sessions := update_where p f (db_sessions s)\<rparr>)"
| vc_drop_secret: "vault_change env t\<^sub>0 s (s\<lparr>db_secrets := filter q (db_secrets s)\<rparr>)"
| vc_request: "rq_idempotency_key row = None \<Longrightarrow> vault_change env t\<^sub>0 s (snd (insert_request row s))"
| vc_creation: "vault_change env t\<^sub>0 s (snd (insert_or_ignore_request row s))"
| vc_cancel: "vault_change env t\<^sub>0 s (s\<lparr>db_requests := update_where (\<lambda>r. rq_id r = request_id)
    (\<lambda>r. r\<lparr>rq_status := ''cancelled'', rq_updated_at := now\<rparr>) (db_requests s)\<rparr>)"
| vc_approve: "t\<^sub>0 \<le> n \<Longrightarrow> gt_id g = ''grant_'' @ env_uuid env n \<Longrightarrow> gt_request_id g = request_id \<Longrightarrow>
    gt_generation g = 0 \<Longrightarrow> gt_revoked_at g = None \<Longrightarrow>
    vault_change env t\<^sub>0 s (snd (approve_transaction request_id now g s))"
| vc_lease: "t\<^sub>0 \<le> n \<Longrightarrow> vault_change env t\<^sub>0 s
    (snd (insert_lease (token_hash env (''ela_'' @ env_uuid env n)) grant_id expires_at uses s))"
| vc_spend: "vault_change env t\<^sub>0 s (snd (spend_use hash s))"
| vc_revoke: "vault_change env t\<^sub>0 s (s\<lparr>db_grants := update_where (\<lambda>g. p g \<and> gt_revoked_at g = None)
    (\<lambda>g. g\<lparr>gt_revoked_at := Some now, gt_generation := gt_generation g + 1\<rparr>) (db_grants s)\<rparr>)"
| vc_disconnect: "vault_change env t\<^sub>0 s (snd (disconnect_transaction account_id now s))"
| vc_begin: "vault_change env t\<^sub>0 s (snd (begin_transaction account_id revoked now s))"
| vc_complete: "vault_change env t\<^sub>0 s (snd (complete_transaction account_id s))"

inductive_cases vault_changeE: "vault_change env t\<^sub>0 s s'"

lemmas change_defs = append_audit_def insert_account_def update_credential_def delete_account_rows_def
  insert_authorization_def insert_request_def insert_or_ignore_request_def approve_transaction_def
  insert_lease_def spend_use_def disconnect_transaction_def begin_transaction_def complete_transaction_def
  delete_leases_of_account_def delete_grants_of_account_def cancel_awaiting_of_account_def
  revoke_grants_of_account_def Let_def

lemma vault_change_tick: "vault_change env t\<^sub>0 s s' \<Longrightarrow> db_tick s \<le> db_tick s'"
  by (erule vault_changeE) (auto simp: change_defs split: option.split)

definition later :: "nat \<Rightarrow> vault_db \<Rightarrow> bool" where
  "later t\<^sub>0 s \<longleftrightarrow> t\<^sub>0 \<le> db_tick s"

abbreviation changes :: "account_env \<Rightarrow> nat \<Rightarrow> ('a \<Rightarrow> bool) \<Rightarrow> (vault_db, 'a) prog \<Rightarrow> bool" where
  "changes env t\<^sub>0 \<equiv> guarantees (later t\<^sub>0) (vault_change env t\<^sub>0)"

lemma changes_act:
  "(\<And>s. later t\<^sub>0 s \<Longrightarrow> vault_change env t\<^sub>0 s (snd (f s))) \<Longrightarrow> changes env t\<^sub>0 any_result (act f)"
  by (rule calm_act) (auto simp: later_def dest: vault_change_tick order_trans)

lemma changes_draw: "changes env t\<^sub>0 (\<lambda>x. \<exists>n \<ge> t\<^sub>0. x = source n) (draw source)"
  unfolding draw_def by (rule guarantees_act) (auto simp: later_def intro: vc_tick)

lemma changes_draw_any: "changes env t\<^sub>0 any_result (draw source)"
  by (rule guarantees_mono [OF changes_draw]) auto

lemma changes_query: "changes env t\<^sub>0 any_result (query f)"
  unfolding query_def by (rule changes_act) (simp add: vc_idle)

lemma changes_now: "changes env t\<^sub>0 any_result (utc_now env)"
  unfolding utc_now_def by (rule changes_draw_any)

lemma changes_ok_or: "changes env t\<^sub>0 any_result (ok_or x e)"
  unfolding ok_or_def by (rule calm_Ret)

lemma changes_audit: "changes env t\<^sub>0 any_result (audit env event account_id detail)"
  unfolding audit_def Let_def by (intro calm_bindP changes_now changes_act) (simp add: vc_audit)

lemma changes_seal: "changes env t\<^sub>0 any_result (seal_secret env' aad secret)"
  unfolding seal_secret_def random_fill_def
  by (intro calm_bindP changes_draw_any) (auto intro: calm_Ret split: option.split sum.split)

lemma changes_if:
  "(b \<Longrightarrow> changes env t\<^sub>0 Q p) \<Longrightarrow> (\<not> b \<Longrightarrow> changes env t\<^sub>0 Q q) \<Longrightarrow> changes env t\<^sub>0 Q (if b then p else q)"
  by simp

lemma changes_option:
  "changes env t\<^sub>0 Q p \<Longrightarrow> (\<And>y. changes env t\<^sub>0 Q (q y)) \<Longrightarrow>
    changes env t\<^sub>0 Q (case x of None \<Rightarrow> p | Some y \<Rightarrow> q y)"
  by (cases x) auto

lemma changes_prod: "(\<And>a b. changes env t\<^sub>0 Q (f a b)) \<Longrightarrow> changes env t\<^sub>0 Q (case x of (a, b) \<Rightarrow> f a b)"
  by (cases x) auto

lemma changes_uuid:
  "(\<And>n. t\<^sub>0 \<le> n \<Longrightarrow> changes env t\<^sub>0 any_result (k (env_uuid env n))) \<Longrightarrow>
    changes env t\<^sub>0 any_result (bindP (new_uuid env) k)"
  unfolding new_uuid_def by (rule guarantees_bindP [OF changes_draw]) auto

lemmas changes_intros = changes_query changes_now changes_ok_or changes_audit changes_seal changes_if
  changes_option changes_prod changes_uuid calm_intros changes_act

section \<open>Every action of every call\<close>

lemma changes_vault_open: "changes env t\<^sub>0 any_result (vault_open env)"
  unfolding vault_open_def legacy_grant_def Let_def
  by (intro changes_intros; simp add: vc_audit vc_revoke)

lemma changes_store_account: "changes env t\<^sub>0 any_result (store_account env provider identity method secret)"
  unfolding store_account_def Let_def
  by (intro changes_intros; simp add: vc_account)

lemma changes_replace_secret: "changes env t\<^sub>0 any_result (replace_secret_inner env account_id secret generation)"
  unfolding replace_secret_inner_def
  by (intro changes_intros; simp add: vc_credential)

lemma changes_set_status: "changes env t\<^sub>0 any_result (set_account_status account_id status)"
  unfolding set_account_status_def by (intro changes_intros; simp add: vc_status)

lemma changes_delete_account: "changes env t\<^sub>0 any_result (delete_account account_id)"
  unfolding delete_account_def by (intro changes_intros; simp add: vc_delete_account)

lemma changes_store_session: "changes env t\<^sub>0 any_result (store_authorization_session env session secret)"
  unfolding store_authorization_session_def by (intro changes_intros; simp add: vc_session)

lemma changes_update_session: "changes env t\<^sub>0 any_result (update_authorization_session session)"
  unfolding update_authorization_session_def by (intro changes_intros; simp add: vc_update_session)

lemma changes_delete_secret: "changes env t\<^sub>0 any_result (delete_authorization_secret session_id)"
  unfolding delete_authorization_secret_def by (intro changes_intros; simp add: vc_drop_secret)

lemma changes_load_session: "changes env t\<^sub>0 any_result (load_authorization_secret env session_id)"
  unfolding load_authorization_secret_def by (intro changes_intros)

lemmas changes_vault = changes_vault_open changes_store_account changes_replace_secret changes_set_status
  changes_delete_account changes_store_session changes_update_session changes_delete_secret changes_load_session

lemma changes_request_access: "changes env t\<^sub>0 any_result (request_access env request)"
  unfolding request_access_def Let_def get_request_def list_accounts_def
  by (intro changes_intros; simp add: vc_request)

lemma changes_request_creation: "changes env t\<^sub>0 any_result (request_creation env key provider purpose constraints)"
  unfolding request_creation_def Let_def get_request_def
  by (intro changes_intros; simp add: vc_creation)

lemma changes_cancel_request: "changes env t\<^sub>0 any_result (cancel_request env request_id)"
  unfolding cancel_request_def get_request_def
  by (intro changes_intros; simp add: vc_cancel)

lemma changes_approve_access: "changes env t\<^sub>0 any_result (approve_access env request_id)"
  unfolding approve_access_def approve_checked_def Let_def get_request_def get_grant_def
  by (intro changes_intros; simp add: vc_approve)

lemma changes_issue_lease: "changes env t\<^sub>0 any_result (issue_lease_with_uses env grant_id ttl uses)"
  unfolding issue_lease_with_uses_def issue_checked_def Let_def get_grant_def
  by (intro changes_intros vc_lease; assumption)

lemma changes_authorize: "changes env t\<^sub>0 any_result (authorize env token client purpose audience operation)"
  unfolding authorize_def Let_def check_expiry_def
  by (intro changes_intros; simp add: vc_spend)

lemma changes_revoke_grant: "changes env t\<^sub>0 any_result (revoke_grant env grant_id reason)"
  unfolding revoke_grant_def Let_def get_grant_def
  by (intro changes_intros; simp add: vc_revoke)

lemma changes_disconnect:
  "changes env t\<^sub>0 any_result (disconnect_account env account_id)"
  "changes env t\<^sub>0 any_result (begin_provider_disconnect env account_id)"
  "changes env t\<^sub>0 any_result (complete_provider_disconnect env account_id)"
  unfolding disconnect_account_def begin_provider_disconnect_def complete_provider_disconnect_def
  by (intro changes_intros; simp add: vc_disconnect vc_begin vc_complete)+

lemmas changes_broker = changes_request_access changes_request_creation changes_cancel_request
  changes_approve_access changes_issue_lease changes_authorize changes_revoke_grant changes_disconnect

lemma calls_are_changes: "changes env t\<^sub>0 any_result (broker_body env c)"
proof (cases c)
qed (simp_all add: from_vault_def from_broker_def calm_map_ret changes_vault changes_broker changes_query
    list_accounts_def load_secret_def load_secret_versioned_def replace_secret_def
    replace_secret_if_generation_def list_authorization_sessions_def get_request_def list_requests_def
    get_grant_def grant_for_request_def list_grants_def issue_lease_def issue_single_use_lease_def
    account_id_for_lease_def list_audit_def calm_tryP calm_bindP calm_Ret changes_option changes_prod)

text \<open>The interface through which the claims use it: what every change keeps, every interleaving keeps.\<close>

lemma calls_guarantee:
  assumes "\<And>s s'. later t\<^sub>0 s \<Longrightarrow> I s \<Longrightarrow> vault_change env t\<^sub>0 s s' \<Longrightarrow> I s' \<and> G s s'"
  shows "guarantees (\<lambda>s. later t\<^sub>0 s \<and> I s) G any_result (broker_body env c)"
  by (rule guarantees_strengthen [OF calls_are_changes]) (use assms in blast)

end
