(* ===== verification/AccountInvariant.thy ===== *)
theory AccountInvariant
  imports AccountInterleaving
begin

text \<open>
  The invariant of the vault file: the keys and references the schema declares, and the generations of
  grants and leases. Every interleaving of calls keeps it.
\<close>

definition accounts_inv :: "vault_db \<Rightarrow> bool" where
  "accounts_inv s \<longleftrightarrow>
     distinct (map acc_id (db_accounts s)) \<and> distinct (map cred_account_id (db_credentials s))
   \<and> cred_account_id ` set (db_credentials s) \<subseteq> acc_id ` set (db_accounts s)"

definition sessions_inv :: "vault_db \<Rightarrow> bool" where
  "sessions_inv s \<longleftrightarrow>
     distinct (map azs_id (db_sessions s)) \<and> distinct (map azx_session_id (db_secrets s))
   \<and> azx_session_id ` set (db_secrets s) \<subseteq> azs_id ` set (db_sessions s)"

definition grants_inv :: "vault_db \<Rightarrow> bool" where
  "grants_inv s \<longleftrightarrow>
     distinct (map rq_id (db_requests s)) \<and> distinct (map gt_id (db_grants s))
   \<and> distinct (map gt_request_id (db_grants s))
   \<and> gt_request_id ` set (db_grants s) \<subseteq> rq_id ` set (db_requests s)
   \<and> (\<forall>g \<in> set (db_grants s). 0 \<le> gt_generation g \<and> (gt_revoked_at g \<noteq> None \<longrightarrow> 1 \<le> gt_generation g))"

definition leases_inv :: "vault_db \<Rightarrow> bool" where
  "leases_inv s \<longleftrightarrow>
     distinct (map ls_token_hash (db_leases s))
   \<and> ls_grant_id ` set (db_leases s) \<subseteq> gt_id ` set (db_grants s)
   \<and> (\<forall>l \<in> set (db_leases s). \<forall>g \<in> set (db_grants s). gt_id g = ls_grant_id l \<longrightarrow> ls_generation l \<le> gt_generation g)"

definition vault_inv :: "vault_db \<Rightarrow> bool" where
  "vault_inv s \<longleftrightarrow> accounts_inv s \<and> sessions_inv s \<and> grants_inv s \<and> leases_inv s"

lemma accounts_inv_change:
  assumes "accounts_inv s" "vault_change env t\<^sub>0 s s'"
  shows "accounts_inv s'"
  using assms(2,1)
  by cases (auto simp: accounts_inv_def change_defs image_update_where distinct_map_filter split: option.split)

lemma sessions_inv_change:
  assumes "sessions_inv s" "vault_change env t\<^sub>0 s s'"
  shows "sessions_inv s'"
  using assms(2,1)
  by cases (auto simp: sessions_inv_def change_defs image_update_where distinct_map_filter split: option.split)

lemma grants_inv_change:
  assumes "grants_inv s" "vault_change env t\<^sub>0 s s'"
  shows "grants_inv s'"
  using assms(2,1)
  by cases (auto simp: grants_inv_def change_defs image_update_where distinct_map_filter split: option.split elim!: in_update_whereE)

lemma reference_survives:
  "ls \<subseteq> key ` A \<Longrightarrow> x \<in> ls \<Longrightarrow> x \<notin> key ` {y \<in> A. P y} \<Longrightarrow> x \<in> key ` {y \<in> A. \<not> P y}"
  by blast

lemma leases_inv_change:
  assumes "leases_inv s" "grants_inv s" "vault_change env t\<^sub>0 s s'"
  shows "leases_inv s'"
  using assms(3,1,2)
proof cases
  case (vc_lease n grant_id expires_at uses)
  show ?thesis
  proof (cases "find_row gt_id grant_id (db_grants s)")
    case None
    with vc_lease assms show ?thesis by (simp add: insert_lease_def)
  next
    case (Some g)
    then have g: "g \<in> set (db_grants s)" "gt_id g = grant_id" by (auto dest: find_row_SomeD)
    have "\<forall>h \<in> set (db_grants s). gt_id h = grant_id \<longrightarrow> gt_generation g \<le> gt_generation h"
      using g assms(2) unfolding grants_inv_def distinct_map inj_on_def by force
    with g vc_lease Some assms(1) show ?thesis
      by (force simp: insert_lease_def leases_inv_def)
  qed
next
  case (vc_disconnect account_id now)
  with assms(1) show ?thesis
    by (auto simp: change_defs leases_inv_def distinct_map_filter grants_of_account_def
        intro!: reference_survives [where ls = "ls_grant_id ` set (db_leases s)"])
next
  case (vc_begin account_id revoked now)
  with assms(1) show ?thesis
    by (auto simp: change_defs leases_inv_def distinct_map_filter image_update_where grants_of_account_def
        elim!: in_update_whereE) force
next
  case (vc_complete account_id)
  with assms(1) show ?thesis
    by (auto simp: change_defs leases_inv_def list_ex_iff grants_of_account_def
        intro!: reference_survives [where ls = "ls_grant_id ` set (db_leases s)"])
next
  case (vc_revoke p now)
  with assms(1) show ?thesis
    by (auto simp: leases_inv_def image_update_where elim!: in_update_whereE) force
qed (auto simp: leases_inv_def change_defs image_update_where distinct_map_filter elim!: in_update_whereE)

lemma vault_inv_change: "vault_inv s \<Longrightarrow> vault_change env t\<^sub>0 s s' \<Longrightarrow> vault_inv s'"
  unfolding vault_inv_def
  by (blast intro: accounts_inv_change sessions_inv_change grants_inv_change leases_inv_change)

interpretation vault: shared_invariant "broker_body env" "\<lambda>s. later 0 s \<and> vault_inv s"
  by unfold_locales (rule calls_guarantee, blast intro: vault_inv_change)

lemma vault_inv_empty: "vault_inv empty_vault"
  by (simp add: vault_inv_def accounts_inv_def sessions_inv_def grants_inv_def leases_inv_def empty_vault_def)

end
