(* ===== verification/AccountMeter.thy ===== *)
theory AccountMeter
  imports AccountInvariant
begin

text \<open>
  Allowances kept in the vault, as interpretations of \<open>metered\<close>: the uses of a lease, the leases of a
  revoked grant (none is left), and the right to replace one generation of a credential.
\<close>

section \<open>Sums over the rows of a table\<close>

lemma sum_update_where_le:
  fixes weight :: "'r \<Rightarrow> nat"
  assumes "\<And>r. p r \<Longrightarrow> weight (f r) \<le> weight r"
  shows "sum_list (map weight (update_where p f rows)) \<le> sum_list (map weight rows)"
  using assms by (induction rows) (auto simp: update_where_def intro: add_mono)

lemma sum_update_where_less:
  fixes weight :: "'r \<Rightarrow> nat"
  assumes "\<And>r. p r \<Longrightarrow> weight (f r) < weight r" and "changed_rows p rows \<noteq> 0"
  shows "sum_list (map weight (update_where p f rows)) < sum_list (map weight rows)"
  using assms(2)
proof (induction rows)
  case Nil
  then show ?case by (simp add: changed_rows_def)
next
  case (Cons r rows)
  have le: "sum_list (map weight (update_where p f rows)) \<le> sum_list (map weight rows)"
    by (rule sum_update_where_le) (use assms(1) less_imp_le in blast)
  show ?case
  proof (cases "p r")
    case True
    with le assms(1) [OF True] show ?thesis by (simp add: update_where_def add_less_le_mono)
  next
    case False
    with Cons show ?thesis by (simp add: update_where_def changed_rows_def)
  qed
qed

lemma sum_filter_le:
  fixes weight :: "'r \<Rightarrow> nat"
  shows "sum_list (map weight (filter p rows)) \<le> sum_list (map weight rows)"
  by (induction rows) auto

lemma sum_weight_key:
  fixes weight :: "'r \<Rightarrow> nat"
  assumes "distinct (map key rows)" and "r \<in> set rows" and "\<And>x. x \<in> set rows \<Longrightarrow> key x \<noteq> key r \<Longrightarrow> weight x = 0"
  shows "sum_list (map weight rows) = weight r"
  using assms
proof (induction rows)
  case (Cons x rows)
  show ?case
  proof (cases "x = r")
    case True
    with Cons.prems(1) have "key r \<notin> key ` set rows" by simp
    then have "\<forall>y \<in> set rows. key y \<noteq> key r" by (metis imageI)
    with Cons.prems(3) have "\<forall>y \<in> set rows. weight y = 0" by simp
    then have "sum_list (map weight rows) = 0" by (induction rows) auto
    with True show ?thesis by simp
  next
    case False
    with Cons.prems have "r \<in> set rows" "key x \<noteq> key r" by force+
    with Cons show ?thesis by simp
  qed
qed simp

section \<open>Uses of a lease\<close>

definition lease_limited :: "string \<Rightarrow> vault_db \<Rightarrow> bool" where
  "lease_limited h s \<longleftrightarrow> (\<forall>l \<in> set (db_leases s). ls_token_hash l = h \<longrightarrow> 0 \<le> ls_remaining_uses l)"

definition lease_uses :: "string \<Rightarrow> vault_db \<Rightarrow> nat" where
  "lease_uses h s = sum_list (map (\<lambda>l. if ls_token_hash l = h then nat (ls_remaining_uses l) else 0) (db_leases s))"

text \<open>No token drawn from tick \<open>t\<^sub>0\<close> on has the hash \<open>h\<close>: UUIDs do not repeat and SHA-256 separates them.\<close>

definition fresh_token :: "account_env \<Rightarrow> nat \<Rightarrow> string \<Rightarrow> bool" where
  "fresh_token env t\<^sub>0 h \<longleftrightarrow> (\<forall>n \<ge> t\<^sub>0. token_hash env (''ela_'' @ env_uuid env n) \<noteq> h)"

definition authorizes :: "account_env \<Rightarrow> string \<Rightarrow> broker_call \<Rightarrow> bool" where
  "authorizes env h c \<longleftrightarrow> (\<exists>token client_id purpose audience operation.
     c = Call_authorize token client_id purpose audience operation \<and> token_hash env token = h)"

lemma lease_limited_change:
  assumes "fresh_token env t\<^sub>0 h" and "lease_limited h s" and "vault_change env t\<^sub>0 s s'"
  shows "lease_limited h s' \<and> lease_uses h s' \<le> lease_uses h s"
  using assms(3,2)
proof cases
  case (vc_lease n grant_id expires_at uses)
  with assms(1,2) show ?thesis
    by (auto simp: insert_lease_def lease_limited_def lease_uses_def fresh_token_def split: option.split)
next
  case (vc_spend hash)
  then show ?thesis using assms(2)
    by (auto simp: spend_use_def lease_limited_def lease_uses_def Let_def intro!: sum_update_where_le
        elim!: in_update_whereE)
qed (auto simp: change_defs lease_limited_def lease_uses_def sum_filter_le)

lemma spend_use_pays:
  assumes "fst (spend_use h s) \<noteq> 0"
  shows "lease_uses h (snd (spend_use h s)) < lease_uses h s"
  using assms unfolding spend_use_def Let_def lease_uses_def
  by (auto intro: sum_update_where_less)

lemma authorize_pays:
  assumes "token_hash env token = h"
  shows "pays (\<lambda>s. later t\<^sub>0 s \<and> lease_limited h s) (lease_uses h) is_ok
    (authorize env token client_id purpose audience operation)"
  unfolding authorize_def Let_def query_def assms
proof (rule pays_act_bind, rule disjI1)
  fix s assume I: "later t\<^sub>0 s \<and> lease_limited h s"
  show "pays (\<lambda>s. later t\<^sub>0 s \<and> lease_limited h s) (lease_uses h) is_ok
    (case fst (lease_record h audience s, s) of
        None \<Rightarrow> Ret (Inl BrokerError_Inactive)
      | Some (l, g) \<Rightarrow>
          if ls_remaining_uses l = 0 \<or> ls_generation l \<noteq> gt_generation g then Ret (Inl BrokerError_Inactive)
          else
            tryP (check_expiry env (ls_expires_at l)) (\<lambda>_.
            tryP (check_expiry env (gt_expires_at g)) (\<lambda>_.
            tryP (Ret (scope_allows env g client_id purpose operation)) (\<lambda>allowed.
            if \<not> allowed then
              tryP (audit env ''operation.denied'' None
                (JObj [(''client_id'', JStr client_id), (''audience'', JStr audience),
                  (''operation'', JStr operation)])) (\<lambda>_.
              Ret (Inl BrokerError_ScopeDenied))
            else if ls_remaining_uses l > 0 then
              bindP (act (spend_use h)) (\<lambda>changed.
              Ret (if changed = 0 then Inl BrokerError_Inactive else Inr ()))
            else Ret (Inr ())))))"
  proof (cases "lease_record h audience s")
    case None
    then show ?thesis by (simp add: pays_Ret)
  next
    case (Some lg)
    obtain l g where lg: "lg = (l, g)" by fastforce
    with Some have "l \<in> set (db_leases s)" "ls_token_hash l = h"
      by (auto simp: lease_record_def split: option.splits if_splits dest: find_row_SomeD)
    with I have "0 \<le> ls_remaining_uses l" by (simp add: lease_limited_def)
    moreover have "pays (\<lambda>s. later t\<^sub>0 s \<and> lease_limited h s) (lease_uses h) is_ok
        (bindP (act (spend_use h)) (\<lambda>changed.
          Ret (if changed = 0 then Inl BrokerError_Inactive else Inr ())))"
      by (rule pays_act_bind) (auto intro: pays_Ret spend_use_pays)
    ultimately show ?thesis using Some lg
      by (auto intro!: pays_Ret pays_tryP)
  qed
qed

definition lease_state :: "account_env \<Rightarrow> nat \<Rightarrow> string \<Rightarrow> vault_db \<Rightarrow> bool" where
  "lease_state env t\<^sub>0 h s \<longleftrightarrow> fresh_token env t\<^sub>0 h \<and> lease_limited h s"

lemma authorizes_pays:
  assumes "authorizes env h c"
    and "\<And>token client_id purpose audience operation. token_hash env token = h \<Longrightarrow>
      pays I level is_ok (authorize env token client_id purpose audience operation)"
  shows "pays I level is_ok (broker_body env c)"
proof -
  have "(\<lambda>x. is_ok (map_sum id V_unit x)) = (is_ok :: broker_error + unit \<Rightarrow> bool)"
    by (rule ext) (auto simp: is_ok_def split: sum.split)
  with assms show ?thesis
    by (auto simp: authorizes_def from_broker_def intro!: pays_map_ret)
qed

lemma pays_weaken:
  assumes "pays I level ok p" and "\<And>s. J s \<Longrightarrow> I s"
  shows "pays J level ok p"
  using assms(1)
proof induction
  case (pays_Ret x)
  then show ?case by (rule pays.pays_Ret)
next
  case (pays_Act f)
  show ?case by (rule pays.pays_Act) (use pays_Act assms(2) in blast)
qed

interpretation lease_meter: metered "broker_body env" "\<lambda>s. later t\<^sub>0 s \<and> lease_state env t\<^sub>0 h s" "lease_uses h"
  "authorizes env h" is_ok
proof
  show "guarantees (\<lambda>s. later t\<^sub>0 s \<and> lease_state env t\<^sub>0 h s) (\<lambda>s s'. lease_uses h s' \<le> lease_uses h s)
      any_result (broker_body env c)" for c
    by (rule calls_guarantee) (use lease_limited_change in \<open>auto simp: lease_state_def\<close>)
  show "pays (\<lambda>s. later t\<^sub>0 s \<and> lease_state env t\<^sub>0 h s) (lease_uses h) is_ok (broker_body env c)"
    if "authorizes env h c" for c
    by (rule authorizes_pays [OF that], rule pays_weaken [OF authorize_pays [where t\<^sub>0 = t\<^sub>0]])
      (auto simp: lease_state_def)
qed

section \<open>Leases of a revoked grant\<close>

definition lease_dead :: "string \<Rightarrow> vault_db \<Rightarrow> bool" where
  "lease_dead h s \<longleftrightarrow> (\<forall>l \<in> set (db_leases s). ls_token_hash l = h \<longrightarrow>
     (\<forall>g \<in> set (db_grants s). gt_id g = ls_grant_id l \<longrightarrow> gt_revoked_at g \<noteq> None))"

definition dead_state :: "account_env \<Rightarrow> nat \<Rightarrow> string \<Rightarrow> vault_db \<Rightarrow> bool" where
  "dead_state env t\<^sub>0 h s \<longleftrightarrow> fresh_token env t\<^sub>0 h \<and> vault_inv s \<and> lease_dead h s"

lemma lease_dead_change:
  assumes "fresh_token env t\<^sub>0 h" and "vault_inv s" and "lease_dead h s" and "vault_change env t\<^sub>0 s s'"
  shows "lease_dead h s'"
  using assms(4,3)
proof cases
  case (vc_lease n grant_id expires_at uses)
  with assms show ?thesis
    by (auto simp: insert_lease_def lease_dead_def fresh_token_def split: option.split)
next
  case (vc_approve n g request_id now)
  have "ls_grant_id ` set (db_leases s) \<subseteq> gt_id ` set (db_grants s)"
    using assms(2) by (simp add: vault_inv_def leases_inv_def)
  with vc_approve assms(3) show ?thesis
    by (force simp: approve_transaction_def lease_dead_def Let_def)
next
  case (vc_spend hash)
  then show ?thesis using assms(3)
    by (auto simp: spend_use_def lease_dead_def Let_def elim!: in_update_whereE)
next
  case (vc_begin account_id revoked now)
  then show ?thesis using assms(3)
    by (auto simp: change_defs lease_dead_def elim!: in_update_whereE split: option.splits if_splits)
      fastforce
qed (auto simp: change_defs lease_dead_def elim!: in_update_whereE)

lemma lease_dead_record: "lease_dead h s \<Longrightarrow> lease_record h audience s = None"
  by (auto simp: lease_dead_def lease_record_def split: option.splits dest!: find_row_SomeD) fastforce

lemma authorize_dead_pays:
  assumes "token_hash env token = h"
  shows "pays (\<lambda>s. later t\<^sub>0 s \<and> dead_state env t\<^sub>0 h s) (\<lambda>_. 0) is_ok
    (authorize env token client_id purpose audience operation)"
  unfolding authorize_def Let_def query_def assms
  by (rule pays_act_bind, rule disjI1) (auto simp: dead_state_def lease_dead_record intro: pays_Ret)

interpretation dead_meter: metered "broker_body env" "\<lambda>s. later t\<^sub>0 s \<and> dead_state env t\<^sub>0 h s" "\<lambda>_. 0"
  "authorizes env h" is_ok
proof
  show "guarantees (\<lambda>s. later t\<^sub>0 s \<and> dead_state env t\<^sub>0 h s) (\<lambda>s s'. (0 :: nat) \<le> 0)
      any_result (broker_body env c)" for c
    by (rule calls_guarantee) (use lease_dead_change vault_inv_change in \<open>auto simp: dead_state_def\<close>)
  show "pays (\<lambda>s. later t\<^sub>0 s \<and> dead_state env t\<^sub>0 h s) (\<lambda>_. 0) is_ok (broker_body env c)"
    if "authorizes env h c" for c
    by (rule authorizes_pays [OF that authorize_dead_pays])
qed

text \<open>The calls in flight when the lease dies keep it dead too.\<close>

lemma dead_pool:
  assumes "reachable_from (pool_step (broker_body env)) ([], s\<^sub>0) w"
    and "dead_state env (db_tick s\<^sub>0) h (snd w)"
  shows "pool_guarantees (\<lambda>s. later (db_tick s\<^sub>0) s \<and> dead_state env (db_tick s\<^sub>0) h s)
    (\<lambda>s s'. (0 :: nat) \<le> 0) w"
proof -
  have "pool_guarantees (later (db_tick s\<^sub>0)) (vault_change env (db_tick s\<^sub>0)) w"
    by (rule pool_guarantees_reachable [where body = "broker_body env", OF calls_are_changes assms(1)])
      (simp add: later_def)
  then have l: "later (db_tick s\<^sub>0) (snd w)"
    and c: "\<And>t. t \<in> set (fst w) \<Longrightarrow> changes env (db_tick s\<^sub>0) any_result (snd t)"
    by (auto simp: pool_guarantees_def)
  have "guarantees (\<lambda>s. later (db_tick s\<^sub>0) s \<and> dead_state env (db_tick s\<^sub>0) h s) (\<lambda>s s'. (0 :: nat) \<le> 0)
      any_result (snd t)" if "t \<in> set (fst w)" for t
    by (rule guarantees_strengthen [OF c [OF that]])
      (use lease_dead_change vault_inv_change in \<open>auto simp: dead_state_def\<close>)
  with l assms(2) show ?thesis by (simp add: pool_guarantees_def)
qed

section \<open>Generations of a credential\<close>

definition generation_rows :: "string \<Rightarrow> int \<Rightarrow> vault_db \<Rightarrow> nat" where
  "generation_rows account_id g s = sum_list (map
     (\<lambda>c. if cred_account_id c = account_id \<and> cred_generation c = g then 1 else 0) (db_credentials s))"

definition fresh_account :: "account_env \<Rightarrow> nat \<Rightarrow> string \<Rightarrow> bool" where
  "fresh_account env t\<^sub>0 account_id \<longleftrightarrow> (\<forall>n \<ge> t\<^sub>0. ''acct_'' @ env_uuid env n \<noteq> account_id)"

definition credential_state :: "account_env \<Rightarrow> nat \<Rightarrow> string \<Rightarrow> int \<Rightarrow> vault_db \<Rightarrow> bool" where
  "credential_state env t\<^sub>0 account_id g s \<longleftrightarrow> fresh_account env t\<^sub>0 account_id
     \<and> (\<forall>c \<in> set (db_credentials s). cred_account_id c = account_id \<longrightarrow> g \<le> cred_generation c)"

definition refreshes :: "string \<Rightarrow> int \<Rightarrow> broker_call \<Rightarrow> bool" where
  "refreshes account_id g c \<longleftrightarrow> (\<exists>secret. c = Call_replace_secret_if_generation account_id g secret)"

lemma credential_change:
  assumes "credential_state env t\<^sub>0 account_id g s" and "vault_change env t\<^sub>0 s s'"
  shows "credential_state env t\<^sub>0 account_id g s' \<and> generation_rows account_id g s' \<le> generation_rows account_id g s"
  using assms(2,1)
proof cases
  case (vc_account n account credential)
  with assms(1) show ?thesis
    by (auto simp: insert_account_def credential_state_def generation_rows_def fresh_account_def)
next
  case (vc_credential account_id' generation nonce c k)
  have *: "sum_list (map weight (update_where p f rows)) \<le> sum_list (map weight rows)"
    if "\<And>r. r \<in> set rows \<Longrightarrow> p r \<Longrightarrow> weight (f r) \<le> weight r"
    for weight :: "credential_row \<Rightarrow> nat" and p f rows
    using that by (induction rows) (auto simp: update_where_def intro: add_mono)
  show ?thesis using vc_credential assms(1)
    by (auto simp: update_credential_def credential_state_def generation_rows_def Let_def
        intro!: * elim!: in_update_whereE) force
qed (auto simp: change_defs credential_state_def generation_rows_def sum_filter_le split: option.splits)

lemma update_credential_pays:
  assumes "fst (update_credential account_id (Some g) nonce c k s) \<noteq> 0"
  shows "generation_rows account_id g (snd (update_credential account_id (Some g) nonce c k s))
    < generation_rows account_id g s"
  using assms unfolding update_credential_def Let_def generation_rows_def
  by (auto intro: sum_update_where_less)

lemma refresh_pays:
  "pays I (generation_rows account_id g) is_ok (replace_secret_if_generation env account_id g secret)"
  unfolding replace_secret_if_generation_def replace_secret_inner_def query_def
proof (rule pays_act_bind, rule disjI1)
  fix s
  have "pays I (generation_rows account_id g) is_ok
      (bindP (act (update_credential account_id (Some g) n c k)) (\<lambda>changed.
        Ret (if changed = 0 then Inl VaultError_Conflict else Inr ())))" for n c k
    by (rule pays_act_bind) (auto intro: pays_Ret update_credential_pays)
  then show "pays I (generation_rows account_id g) is_ok
      (case fst (find_row acc_id account_id (db_accounts s), s) of
         None \<Rightarrow> Ret (Inl VaultError_NotFound)
       | Some a \<Rightarrow>
         tryP (seal_secret env (associated_data account_id (acc_provider a)) secret)
           (\<lambda>(nonce_bytes, ciphertext, protected_key).
         bindP (act (update_credential account_id (Some g) nonce_bytes ciphertext protected_key)) (\<lambda>changed.
         Ret (if changed = 0 then Inl (if Some g \<noteq> None then VaultError_Conflict else VaultError_NotFound)
              else Inr ()))))"
    by (auto intro!: pays_Ret pays_tryP split: option.split)
qed

interpretation refresh_meter: metered "broker_body env" "\<lambda>s. later t\<^sub>0 s \<and> credential_state env t\<^sub>0 account_id g s"
  "generation_rows account_id g" "refreshes account_id g" is_ok
proof
  show "guarantees (\<lambda>s. later t\<^sub>0 s \<and> credential_state env t\<^sub>0 account_id g s)
      (\<lambda>s s'. generation_rows account_id g s' \<le> generation_rows account_id g s) any_result (broker_body env c)" for c
    by (rule calls_guarantee) (use credential_change in blast)
  have "(\<lambda>x. is_ok (map_sum BrokerError_Vault V_unit x)) = is_ok"
    by (rule ext) (auto simp: is_ok_def split: sum.split)
  then show "pays (\<lambda>s. later t\<^sub>0 s \<and> credential_state env t\<^sub>0 account_id g s) (generation_rows account_id g) is_ok
      (broker_body env c)" if "refreshes account_id g c" for c
    using that by (auto simp: refreshes_def from_vault_def intro!: pays_map_ret refresh_pays)
qed

end
