(* ===== verification/AccountSamples.thy ===== *)
theory AccountSamples
  imports AccountBroker
begin

text \<open>
  A concrete environment of the accounts daemon, on which the witnesses run its operations. The clock
  advances by one second per draw; a time is written as three characters, most significant first.
\<close>

definition print_seconds :: "int \<Rightarrow> string" where
  "print_seconds t = (let n = nat (t div 1000000000) in
     [char_of (n div 65536 mod 256), char_of (n div 256 mod 256), char_of (n mod 256)])"

definition parse_seconds :: "string \<Rightarrow> int option" where
  "parse_seconds s = (case s of
     [a, b, c] \<Rightarrow> Some (int (of_char a * 65536 + of_char b * 256 + of_char c) * 1000000000) | _ \<Rightarrow> None)"

fun split_lines :: "string \<Rightarrow> string \<Rightarrow> string list" where
  "split_lines acc [] = []"
| "split_lines acc (c # cs) =
     (if c = CHR 0x0A then acc # split_lines [] cs else split_lines (acc @ [c]) cs)"

definition account_sample_env :: account_env where
  "account_sample_env =
     \<lparr>env_now = (\<lambda>n. int n * 1000000000),
      env_uuid = (\<lambda>n. replicate n (CHR ''x'')),
      env_random = (\<lambda>_ n. replicate n (CHR ''k'')),
      env_to_rfc3339 = print_seconds,
      env_parse_rfc3339 = parse_seconds,
      env_sha256_hex = (\<lambda>x. x),
      env_print_ops = (\<lambda>xs. concat (map (\<lambda>x. x @ [CHR 0x0A]) xs)),
      env_parse_ops = (\<lambda>s. Some (split_lines [] s)),
      env_print_json = (\<lambda>_. ''{}''),
      env_parse_json = (\<lambda>_. None),
      env_encrypt = (\<lambda>key nonce aad m. Some (aad @ m)),
      env_decrypt = (\<lambda>key nonce aad c. if take (length aad) c = aad then Some (drop (length aad) c) else None),
      env_protect = Inr,
      env_unprotect = Inr\<rparr>"

lemma account_sample_env_simps [simp]:
  "env_now account_sample_env n = int n * 1000000000"
  "env_uuid account_sample_env n = replicate n (CHR ''x'')"
  "env_random account_sample_env tick n = replicate n (CHR ''k'')"
  "env_to_rfc3339 account_sample_env = print_seconds"
  "env_parse_rfc3339 account_sample_env = parse_seconds"
  "env_sha256_hex account_sample_env x = x"
  "env_print_ops account_sample_env xs = concat (map (\<lambda>x. x @ [CHR 0x0A]) xs)"
  "env_parse_ops account_sample_env s = Some (split_lines [] s)"
  "env_print_json account_sample_env j = ''{}''"
  "env_encrypt account_sample_env key nonce aad m = Some (aad @ m)"
  "env_decrypt account_sample_env key nonce aad c =
     (if take (length aad) c = aad then Some (drop (length aad) c) else None)"
  "env_protect account_sample_env = Inr"
  "env_unprotect account_sample_env = Inr"
  by (simp_all add: account_sample_env_def)

text \<open>One connected account with a pending request, as two calls leave a new vault.\<close>

definition sample_account :: account_metadata where
  "sample_account = \<lparr>acc_id = ''acct_x'', acc_provider = ''github'', acc_verified_identity = ''octocat'',
     acc_auth_method = ''api_token'', acc_created_at = ''t'', acc_status = ''connected''\<rparr>"

definition sample_request :: request_row where
  "sample_request = \<lparr>rq_id = ''access_x'', rq_kind = ''access'', rq_status = ''awaiting_user'',
     rq_account_id = Some ''acct_x'', rq_provider = Some ''github'', rq_client_id = Some ''agent'',
     rq_purpose = ''ci'', rq_operations_json = ''read'' @ [CHR 0x0A], rq_duration_minutes = 60,
     rq_idempotency_key = None, rq_created_at = ''t'', rq_updated_at = ''t''\<rparr>"

definition sample_grant :: grant_row where
  "sample_grant = \<lparr>gt_id = ''grant_x'', gt_request_id = ''access_x'', gt_account_id = ''acct_x'',
     gt_provider = ''github'', gt_client_id = ''agent'', gt_purpose = ''ci'',
     gt_operations_json = ''read'' @ [CHR 0x0A], gt_expires_at = print_seconds 3600000000000,
     gt_generation = 0, gt_revoked_at = None\<rparr>"

definition sample_lease :: lease_row where
  "sample_lease = \<lparr>ls_token_hash = ''ela_x'', ls_grant_id = ''grant_x'', ls_generation = 0,
     ls_expires_at = print_seconds 900000000000, ls_remaining_uses = 1\<rparr>"

definition awaiting_vault :: vault_db where
  "awaiting_vault = empty_vault\<lparr>db_accounts := [sample_account], db_requests := [sample_request], db_tick := 2\<rparr>"

definition leased_vault :: vault_db where
  "leased_vault = awaiting_vault\<lparr>db_requests := [sample_request\<lparr>rq_status := ''approved''\<rparr>],
     db_grants := [sample_grant], db_leases := [sample_lease]\<rparr>"

definition sample_credential :: credential_row where
  "sample_credential = \<lparr>cred_account_id = ''acct_x'', cred_algorithm = credential_algorithm,
     cred_nonce = replicate 12 (CHR ''k''), cred_ciphertext = ''elegy-accounts:v1:github:acct_x'' @ ''old'',
     cred_protected_key = replicate 32 (CHR ''k''), cred_generation = 3\<rparr>"

definition credential_vault :: vault_db where
  "credential_vault = leased_vault\<lparr>db_credentials := [sample_credential]\<rparr>"

lemma leased_vault_simps [simp]:
  "db_accounts leased_vault = [sample_account]"
  "db_grants leased_vault = [sample_grant]"
  "db_leases leased_vault = [sample_lease]"
  "db_requests leased_vault = [sample_request\<lparr>rq_status := ''approved''\<rparr>]"
  "db_tick leased_vault = 2"
  by (simp_all add: leased_vault_def awaiting_vault_def)

lemma awaiting_vault_simps [simp]:
  "db_accounts awaiting_vault = [sample_account]"
  "db_grants awaiting_vault = []"
  "db_leases awaiting_vault = []"
  "db_requests awaiting_vault = [sample_request]"
  "db_tick awaiting_vault = 2"
  by (simp_all add: awaiting_vault_def empty_vault_def)

lemma sealing_laws_sample: "sealing_laws account_sample_env"
  by (simp add: sealing_laws_def)

end
