(* ===== verification/AccountProperties.thy ===== *)
theory AccountProperties
  imports AccountMeter AccountSamples
begin

text \<open>
  The claims about the vault and the broker of the accounts daemon, each with a run on the sample
  environment where its hypotheses hold.
\<close>

section \<open>Interleavings\<close>

lemma pool_first:
  "run (body c) s = (x, s') \<Longrightarrow> reachable_from (pool_step body) ([], s) ([(c, Ret x)], s')"
  by (drule pool_run [where body = body and ps = "[]", OF reachable_from.start]) simp

lemma run_from_vault [simp]: "run (from_vault wrap p) s = map_prod (map_sum BrokerError_Vault wrap) id (run p s)"
  by (simp add: from_vault_def)

lemma run_from_broker [simp]: "run (from_broker wrap p) s = map_prod (map_sum id wrap) id (run p s)"
  by (simp add: from_broker_def)

lemmas run_eval = store_account_def new_uuid_def utc_now_def seal_secret_def random_fill_def Let_def
  authorize_def check_expiry_def ok_or_def audit_def append_audit_def

lemma leased_vault_inv: "vault_inv leased_vault"
  by (simp add: vault_inv_def accounts_inv_def sessions_inv_def grants_inv_def leases_inv_def
      leased_vault_def awaiting_vault_def empty_vault_def sample_request_def sample_grant_def sample_lease_def)

lemma replicate_not_single: "2 \<le> n \<Longrightarrow> replicate n a \<noteq> [b]"
  by (auto dest: arg_cong [where f = length])

lemma fresh_token_sample: "fresh_token account_sample_env 2 ''ela_x''"
  by (auto simp: fresh_token_def token_hash_def replicate_not_single)

lemma sample_times [simp]:
  "parse_seconds (print_seconds 900000000000) = Some 900000000000"
  "parse_seconds (print_seconds 3600000000000) = Some 3600000000000"
  by (simp_all add: parse_seconds_def print_seconds_def Let_def)

lemma sample_lease_record:
  "lease_record ''ela_x'' ''github'' s = Some (sample_lease, sample_grant)"
  if "db_leases s = [sample_lease]" "db_grants s = [sample_grant]" "db_accounts s = [sample_account]"
  using that by (simp add: lease_record_def sample_lease_def sample_grant_def sample_account_def)

text \<open>
  Claim C23. The vault file stays consistent whatever processes do to it: in every state reached from
  a new vault by any interleaving of the statements of any calls, the primary keys are distinct, a
  credential belongs to an account, a request has at most one grant, a grant belongs to a request, a
  lease belongs to a grant, no lease carries a later generation than its grant, and a revoked grant
  has left its first generation.
\<close>

theorem vault_inv_reachable:
  assumes "reachable_from (pool_step (broker_body env)) ([], empty_vault) w"
  shows "vault_inv (snd w)"
  using vault.pool_inv [OF assms] vault_inv_empty by (simp add: later_def)

theorem vault_inv_reachable_witness:
  "\<exists>w. reachable_from (pool_step (broker_body account_sample_env)) ([], empty_vault) w
     \<and> acc_id ` set (db_accounts (snd w)) = {''acct_''} \<and> vault_inv (snd w)"
proof -
  let ?c = "Call_store_account ''github'' ''octocat'' ''api_token'' ''secret''"
  obtain x s where run: "run (broker_body account_sample_env ?c) empty_vault = (x, s)" by fastforce
  have "acc_id ` set (db_accounts s) = {''acct_''}"
    using arg_cong [OF run, of "\<lambda>r. acc_id ` set (db_accounts (snd r))"]
    by (simp add: run_eval insert_account_def empty_vault_def)
  moreover have "reachable_from (pool_step (broker_body account_sample_env)) ([], empty_vault) ([(?c, Ret x)], s)"
    by (rule pool_first [where body = "broker_body account_sample_env", OF run])
  ultimately show ?thesis using vault_inv_reachable by fastforce
qed

text \<open>
  Claim C24. A lease authorizes at most as many operations as it has uses left: from any consistent
  vault, in every interleaving of any calls, the calls of \<open>authorize\<close> with its token that succeed are
  at most the remaining uses of the lease (one for a single-use lease), provided no token drawn later
  has the same hash.
\<close>

theorem lease_uses_bounded:
  assumes "vault_inv s" and "l \<in> set (db_leases s)" and "0 \<le> ls_remaining_uses l"
    and "fresh_token env (db_tick s) (ls_token_hash l)"
    and "reachable_from (pool_step (broker_body env)) ([], s) w"
  shows "int (count_ok (authorizes env (ls_token_hash l)) is_ok (fst w)) \<le> ls_remaining_uses l"
proof -
  let ?h = "ls_token_hash l"
  have d: "distinct (map ls_token_hash (db_leases s))"
    using assms(1) by (simp add: vault_inv_def leases_inv_def)
  then have "lease_limited ?h s"
    using assms(2,3) by (auto simp: lease_limited_def distinct_map inj_on_def)
  then have "pool_guarantees (\<lambda>s'. later (db_tick s) s' \<and> lease_state env (db_tick s) ?h s')
      (\<lambda>s s'. lease_uses ?h s' \<le> lease_uses ?h s) (([], s) :: (broker_call, vault_db, broker_error + call_value) pool)"
    using assms(4) by (simp add: later_def lease_state_def)
  from lease_meter.at_most [OF assms(5) this]
  have "count_ok (authorizes env ?h) is_ok (fst w) \<le> lease_uses ?h s" by simp
  moreover have "lease_uses ?h s = nat (ls_remaining_uses l)"
    unfolding lease_uses_def by (subst sum_weight_key [OF d assms(2)]) auto
  ultimately show ?thesis using assms(3) by simp
qed

theorem lease_uses_bounded_witness:
  "\<exists>w. reachable_from (pool_step (broker_body account_sample_env)) ([], leased_vault) w
     \<and> length (fst w) = 2
     \<and> int (count_ok (authorizes account_sample_env ''ela_x'') is_ok (fst w)) \<le> ls_remaining_uses sample_lease"
proof -
  let ?c = "Call_authorize ''ela_x'' ''agent'' ''ci'' ''github'' ''read''"
  obtain x s where one: "run (broker_body account_sample_env ?c) leased_vault = (x, s)" by fastforce
  obtain y t where two: "run (broker_body account_sample_env ?c) s = (y, t)" by fastforce
  from pool_run [where body = "broker_body account_sample_env",
      OF pool_first [where body = "broker_body account_sample_env", OF one] two]
  have r: "reachable_from (pool_step (broker_body account_sample_env)) ([], leased_vault) ([(?c, Ret x), (?c, Ret y)], t)"
    by simp
  have "fresh_token account_sample_env (db_tick leased_vault) (ls_token_hash sample_lease)"
    using fresh_token_sample by (simp add: sample_lease_def)
  from lease_uses_bounded [OF leased_vault_inv _ _ this r] show ?thesis
    using r by (intro exI [of _ "([(?c, Ret x), (?c, Ret y)], t)"]) (simp add: sample_lease_def)
qed

text \<open>
  Claim C25. Revocation is final: once the grant of a lease is revoked in the vault, no call of
  \<open>authorize\<close> that starts afterwards with the token of the lease succeeds, in any interleaving, with
  any calls in flight at the time of the revocation.
\<close>

theorem revoked_never_authorizes:
  assumes "vault_inv s" and "fresh_token env (db_tick s) h"
    and "reachable_from (pool_step (broker_body env)) ([], s) w\<^sub>0"
    and "l \<in> set (db_leases (snd w\<^sub>0))" and "ls_token_hash l = h"
    and "g \<in> set (db_grants (snd w\<^sub>0))" and "gt_id g = ls_grant_id l" and "gt_revoked_at g \<noteq> None"
    and "reachable_from (pool_step (broker_body env)) w\<^sub>0 w"
  shows "count_ok (authorizes env h) is_ok (drop (length (fst w\<^sub>0)) (fst w)) = 0"
proof -
  have inv: "vault_inv (snd w\<^sub>0)"
    using vault.pool_inv [OF assms(3)] assms(1) by (simp add: later_def)
  then have d: "inj_on ls_token_hash (set (db_leases (snd w\<^sub>0)))" "inj_on gt_id (set (db_grants (snd w\<^sub>0)))"
    by (auto simp: vault_inv_def leases_inv_def grants_inv_def distinct_map)
  have "lease_dead h (snd w\<^sub>0)"
    unfolding lease_dead_def using assms(4-8) d by (metis inj_onD)
  with assms(2) inv have "dead_state env (db_tick s) h (snd w\<^sub>0)" by (simp add: dead_state_def)
  from dead_meter.at_most [OF assms(9) dead_pool [OF assms(3) this]] show ?thesis by simp
qed

theorem revoked_never_authorizes_witness:
  "\<exists>w\<^sub>0 w g. reachable_from (pool_step (broker_body account_sample_env)) ([], leased_vault) w\<^sub>0
     \<and> g \<in> set (db_grants (snd w\<^sub>0)) \<and> gt_id g = ''grant_x'' \<and> gt_revoked_at g \<noteq> None
     \<and> reachable_from (pool_step (broker_body account_sample_env)) w\<^sub>0 w \<and> length (fst w) = 2
     \<and> count_ok (authorizes account_sample_env ''ela_x'') is_ok (drop (length (fst w\<^sub>0)) (fst w)) = 0"
proof -
  let ?r = "Call_revoke_grant ''grant_x'' ''done''" and ?c = "Call_authorize ''ela_x'' ''agent'' ''ci'' ''github'' ''read''"
  let ?step = "pool_step (broker_body account_sample_env)"
  obtain x s where one: "run (broker_body account_sample_env ?r) leased_vault = (x, s)" by fastforce
  obtain y t where two: "run (broker_body account_sample_env ?c) s = (y, t)" by fastforce
  define g where "g = sample_grant\<lparr>gt_revoked_at := Some (print_seconds 2000000000), gt_generation := 1\<rparr>"
  have s: "db_grants s = [g]" "db_leases s = [sample_lease]"
    using arg_cong [OF one, of "\<lambda>r. db_grants (snd r)"] arg_cong [OF one, of "\<lambda>r. db_leases (snd r)"]
    by (simp_all add: run_eval revoke_grant_def get_grant_def grant_from_row_def parse_vec_def
        update_where_def changed_rows_def g_def sample_grant_def)
  have r: "reachable_from ?step ([], leased_vault) ([(?r, Ret x)], s)"
    by (rule pool_first [where body = "broker_body account_sample_env", OF one])
  have w: "reachable_from ?step ([(?r, Ret x)], s) ([(?r, Ret x), (?c, Ret y)], t)"
    using pool_run [where body = "broker_body account_sample_env", OF reachable_from.start two,
        of "[(?r, Ret x)]"] by simp
  have "gt_id g = ls_grant_id sample_lease" "gt_revoked_at g \<noteq> None" "ls_token_hash sample_lease = ''ela_x''"
    "fresh_token account_sample_env (db_tick leased_vault) ''ela_x''"
    using fresh_token_sample by (simp_all add: g_def sample_grant_def sample_lease_def)
  from revoked_never_authorizes [OF leased_vault_inv this(4) r _ this(3) _ this(1,2) w] this s r w show ?thesis
    by (intro exI [of _ "([(?r, Ret x)], s)"] exI [of _ "([(?r, Ret x), (?c, Ret y)], t)"] exI [of _ g])
      (simp add: sample_lease_def)
qed

text \<open>
  Claim C26. A credential refresh is applied at most once per generation: of all calls of
  \<open>replace_secret_if_generation\<close> that expect the same generation of the credential of an account, at most
  one succeeds, in every interleaving of any calls.
\<close>

theorem one_refresh_per_generation:
  assumes "vault_inv s" and "fresh_account env (db_tick s) account_id"
    and "c \<in> set (db_credentials s)" and "cred_account_id c = account_id"
    and "reachable_from (pool_step (broker_body env)) ([], s) w"
  shows "count_ok (refreshes account_id (cred_generation c)) is_ok (fst w) \<le> 1"
proof -
  let ?g = "cred_generation c"
  have d: "distinct (map cred_account_id (db_credentials s))"
    using assms(1) by (simp add: vault_inv_def accounts_inv_def)
  then have "\<forall>x \<in> set (db_credentials s). cred_account_id x = account_id \<longrightarrow> ?g \<le> cred_generation x"
    using assms(3,4) by (auto simp: distinct_map inj_on_def)
  then have "pool_guarantees (\<lambda>s'. later (db_tick s) s' \<and> credential_state env (db_tick s) account_id ?g s')
      (\<lambda>s s'. generation_rows account_id ?g s' \<le> generation_rows account_id ?g s)
      (([], s) :: (broker_call, vault_db, broker_error + call_value) pool)"
    using assms(2) by (simp add: later_def credential_state_def)
  from refresh_meter.at_most [OF assms(5) this]
  have "count_ok (refreshes account_id ?g) is_ok (fst w) \<le> generation_rows account_id ?g s" by simp
  moreover have "generation_rows account_id ?g s = 1"
    unfolding generation_rows_def by (subst sum_weight_key [OF d assms(3)]) (use assms(4) in auto)
  ultimately show ?thesis by simp
qed

lemma credential_vault_inv: "vault_inv credential_vault"
  using leased_vault_inv
  by (simp add: vault_inv_def accounts_inv_def sessions_inv_def grants_inv_def leases_inv_def credential_vault_def
      leased_vault_def awaiting_vault_def empty_vault_def sample_account_def sample_credential_def)

theorem one_refresh_per_generation_witness:
  "\<exists>w. reachable_from (pool_step (broker_body account_sample_env)) ([], credential_vault) w
     \<and> length (fst w) = 2 \<and> count_ok (refreshes ''acct_x'' 3) is_ok (fst w) \<le> 1"
proof -
  let ?c = "\<lambda>secret. Call_replace_secret_if_generation ''acct_x'' 3 secret"
  obtain x s where one: "run (broker_body account_sample_env (?c ''a'')) credential_vault = (x, s)" by fastforce
  obtain y t where two: "run (broker_body account_sample_env (?c ''b'')) s = (y, t)" by fastforce
  from pool_run [where body = "broker_body account_sample_env",
      OF pool_first [where body = "broker_body account_sample_env", OF one] two]
  have r: "reachable_from (pool_step (broker_body account_sample_env)) ([], credential_vault)
      ([(?c ''a'', Ret x), (?c ''b'', Ret y)], t)" by simp
  have "fresh_account account_sample_env (db_tick credential_vault) ''acct_x''"
    by (auto simp: fresh_account_def credential_vault_def replicate_not_single)
  from one_refresh_per_generation [OF credential_vault_inv this _ _ r, of sample_credential]
  have "count_ok (refreshes ''acct_x'' 3) is_ok
      [(?c ''a'', Ret x :: (vault_db, _) prog), (?c ''b'', Ret y)] \<le> 1"
    by (simp add: credential_vault_def sample_credential_def)
  with r show ?thesis by (intro exI [of _ "([(?c ''a'', Ret x), (?c ''b'', Ret y)], t)"]) simp
qed

end
