(* ===== verification/AccountResults.thy ===== *)
theory AccountResults
  imports AccountProperties
begin

text \<open>
  What single calls of the vault and the broker return, and the two schedules of two calls on which
  the broker's checks do not suffice.
\<close>

section \<open>authorize\<close>

lemma run_check_expiry:
  "run (check_expiry env e) s =
     (case env_parse_rfc3339 env e of
        None \<Rightarrow> (Inl BrokerError_InvalidData, s)
      | Some t \<Rightarrow> (if t \<le> env_now env (db_tick s) then Inl BrokerError_Inactive else Inr (),
          s\<lparr>db_tick := Suc (db_tick s)\<rparr>))"
  by (simp add: check_expiry_def ok_or_def utc_now_def split: option.split)

lemma lease_record_Some:
  "lease_record h audience s = Some (l, g) \<longleftrightarrow>
     find_row ls_token_hash h (db_leases s) = Some l \<and> find_row gt_id (ls_grant_id l) (db_grants s) = Some g
     \<and> (\<exists>a. find_row acc_id (gt_account_id g) (db_accounts s) = Some a \<and> acc_status a = ''connected'')
     \<and> gt_provider g = audience \<and> gt_revoked_at g = None"
  by (auto simp: lease_record_def split: option.splits)

definition live_lease :: "account_env \<Rightarrow> vault_db \<Rightarrow> lease_row \<Rightarrow> grant_row \<Rightarrow> bool" where
  "live_lease env s l g \<longleftrightarrow>
     ls_remaining_uses l \<noteq> 0 \<and> ls_generation l = gt_generation g
   \<and> (\<exists>t. env_parse_rfc3339 env (ls_expires_at l) = Some t \<and> env_now env (db_tick s) < t)
   \<and> (\<exists>t. env_parse_rfc3339 env (gt_expires_at g) = Some t \<and> env_now env (Suc (db_tick s)) < t)"

definition in_scope :: "account_env \<Rightarrow> grant_row \<Rightarrow> string \<Rightarrow> string \<Rightarrow> string \<Rightarrow> bool" where
  "in_scope env g client_id purpose operation \<longleftrightarrow>
     gt_client_id g = client_id \<and> gt_purpose g = purpose
   \<and> (\<exists>operations. env_parse_ops env (gt_operations_json g) = Some operations \<and> operation \<in> set operations)"

lemma scope_allows_iff: "scope_allows env g client_id purpose operation = Inr True \<longleftrightarrow> in_scope env g client_id purpose operation"
  by (auto simp: scope_allows_def in_scope_def parse_vec_def list_ex_iff split: option.splits)

lemma spend_found:
  assumes "find_row ls_token_hash h (db_leases s) = Some l" and "0 < ls_remaining_uses l"
  shows "fst (spend_use h s) \<noteq> 0"
proof -
  have "l \<in> set (filter (\<lambda>l. ls_token_hash l = h \<and> 0 < ls_remaining_uses l) (db_leases s))"
    using assms by (auto dest: find_row_SomeD)
  then have "filter (\<lambda>l. ls_token_hash l = h \<and> 0 < ls_remaining_uses l) (db_leases s) \<noteq> []"
    by (metis list.set(1) empty_iff)
  then show ?thesis by (simp add: spend_use_def changed_rows_def Let_def)
qed

lemma run_authorize_ok:
  "fst (run (authorize env token client_id purpose audience operation) s) = Inr () \<longleftrightarrow>
     (\<exists>l g. lease_record (token_hash env token) audience s = Some (l, g) \<and> live_lease env s l g
        \<and> in_scope env g client_id purpose operation)"
proof (cases "lease_record (token_hash env token) audience s")
  case None
  then show ?thesis by (simp add: authorize_def Let_def)
next
  case (Some lg)
  obtain l g where lg: "lg = (l, g)" by fastforce
  show ?thesis
  proof (cases "live_lease env s l g")
    case False
    then show ?thesis using Some lg
      by (auto simp: authorize_def Let_def live_lease_def run_check_expiry split: option.splits)
  next
    case True
    show ?thesis
    proof (cases "scope_allows env g client_id purpose operation = Inr True")
      case False
      then show ?thesis using Some lg True scope_allows_iff [of env g client_id purpose operation]
        by (cases "scope_allows env g client_id purpose operation")
          (auto simp: authorize_def Let_def live_lease_def run_check_expiry audit_def utc_now_def)
    next
      case sc: True
      have "0 < ls_remaining_uses l \<Longrightarrow>
          fst (spend_use (token_hash env token) (s\<lparr>db_tick := Suc (Suc (db_tick s))\<rparr>)) \<noteq> 0"
        using Some lg by (intro spend_found) (simp_all add: lease_record_Some)
      then show ?thesis using Some lg True sc scope_allows_iff [of env g client_id purpose operation]
        by (auto simp: authorize_def Let_def live_lease_def run_check_expiry split: prod.split)
    qed
  qed
qed

text \<open>
  Claim C28. \<open>authorize\<close> succeeds exactly when the token's lease exists with a use left, belongs to the
  current generation of an unrevoked grant of a connected account, neither has expired at the time it
  is checked, and the grant is for this client, purpose, audience and operation.
\<close>

theorem authorize_exact:
  "fst (run (authorize env token client_id purpose audience operation) s) = Inr () \<longleftrightarrow>
     (\<exists>l g a. find_row ls_token_hash (token_hash env token) (db_leases s) = Some l
        \<and> find_row gt_id (ls_grant_id l) (db_grants s) = Some g
        \<and> find_row acc_id (gt_account_id g) (db_accounts s) = Some a
        \<and> acc_status a = ''connected'' \<and> gt_revoked_at g = None \<and> gt_provider g = audience
        \<and> live_lease env s l g \<and> in_scope env g client_id purpose operation)"
  unfolding run_authorize_ok lease_record_Some by blast

section \<open>issue_lease\<close>

text \<open>
  A lease ends soon and no later than its grant: when a lease is issued its expiry is the
  printed form of a time at most fifteen minutes, and at most the requested minutes, after the clock
  reading of the call, and at most the expiry of the grant, which was not revoked and had not expired;
  the row stored for it has the generation of the grant and the uses asked for.
\<close>

lemma lease_expiry_bounds:
  assumes "run (issue_lease_with_uses env grant_id ttl_minutes uses) s = (Inr lease, s')"
  shows "\<exists>g grant_expiry t. find_row gt_id grant_id (db_grants s) = Some g \<and> gt_revoked_at g = None
    \<and> env_parse_rfc3339 env (gt_expires_at g) = Some grant_expiry
    \<and> env_now env (db_tick s) < grant_expiry
    \<and> ol_expires_at lease = env_to_rfc3339 env t
    \<and> t \<le> env_now env (db_tick s + 2) + 15 * 60 * 1000000000
    \<and> t \<le> env_now env (db_tick s + 2) + int ttl_minutes * 60 * 1000000000 \<and> t \<le> grant_expiry
    \<and> find_row ls_token_hash (token_hash env (ol_token lease)) (db_leases s') =
        Some \<lparr>ls_token_hash = token_hash env (ol_token lease), ls_grant_id = grant_id,
          ls_generation = gt_generation g, ls_expires_at = ol_expires_at lease, ls_remaining_uses = uses\<rparr>"
proof -
  from assms obtain g where g: "find_row gt_id grant_id (db_grants s) = Some g"
    by (auto simp: issue_lease_with_uses_def issue_checked_def get_grant_def split: option.splits)
  moreover from assms g obtain ge where ge: "env_parse_rfc3339 env (gt_expires_at g) = Some ge"
    by (auto simp: issue_lease_with_uses_def issue_checked_def get_grant_def grant_from_row_def parse_vec_def ok_or_def
        split: option.splits)
  moreover have "minutes (min ttl_minutes 15) \<le> 15 * 60 * 1000000000"
    "minutes (min ttl_minutes 15) \<le> int ttl_minutes * 60 * 1000000000"
    by (auto simp: minutes_def)
  ultimately show ?thesis using assms
    by (auto simp: issue_lease_with_uses_def issue_checked_def get_grant_def grant_from_row_def parse_vec_def ok_or_def
        utc_now_def new_uuid_def insert_lease_def Let_def find_row_append find_row_None_iff [symmetric]
        split: option.splits if_splits intro!: exI [of _ "min (env_now env (db_tick s + 2) + minutes (min ttl_minutes 15)) ge"])
qed

lemma lease_expiry_bounds_witness:
  "\<exists>lease s' t. run (issue_lease_with_uses account_sample_env ''grant_x'' 60 1) leased_vault = (Inr lease, s')
     \<and> ol_expires_at lease = print_seconds t \<and> t \<le> 4000000000 + 15 * 60 * 1000000000"
proof -
  have "is_ok (fst (run (issue_lease_with_uses account_sample_env ''grant_x'' 60 1) leased_vault))"
    by (simp add: issue_lease_with_uses_def issue_checked_def get_grant_def grant_from_row_def parse_vec_def run_eval
        insert_lease_def sample_grant_def sample_lease_def token_hash_def replicate_not_single)
  then obtain lease s' where "run (issue_lease_with_uses account_sample_env ''grant_x'' 60 1) leased_vault = (Inr lease, s')"
    by (metis is_ok_iff prod.collapse)
  from lease_expiry_bounds [OF this] this show ?thesis by auto
qed

section \<open>Secrets\<close>

lemma run_store_account:
  assumes "run (store_account env provider identity method secret) s = (Inr a, s')"
  obtains nonce c k where
    "run (seal_secret env (associated_data (acc_id a) (acc_provider a)) secret)
       (s\<lparr>db_tick := Suc (Suc (db_tick s))\<rparr>) = (Inr (nonce, c, k), s\<lparr>db_tick := db_tick s + 4\<rparr>)"
    "s' = s\<lparr>db_tick := db_tick s + 4, db_accounts := db_accounts s @ [a],
       db_credentials := db_credentials s @ [\<lparr>cred_account_id = acc_id a, cred_algorithm = credential_algorithm,
         cred_nonce = nonce, cred_ciphertext = c, cred_protected_key = k, cred_generation = 0\<rparr>]\<rparr>"
    "acc_id a \<notin> acc_id ` set (db_accounts s)" "acc_id a \<notin> cred_account_id ` set (db_credentials s)"
    "acc_provider a = provider" "acc_status a = ''connected''"
proof -
  let ?a = "\<lparr>acc_id = ''acct_'' @ env_uuid env (db_tick s), acc_provider = provider,
    acc_verified_identity = identity, acc_auth_method = method,
    acc_created_at = env_to_rfc3339 env (env_now env (Suc (db_tick s))), acc_status = ''connected''\<rparr>"
  let ?s = "s\<lparr>db_tick := Suc (Suc (db_tick s))\<rparr>"
  obtain r t where seal: "run (seal_secret env (associated_data (acc_id ?a) (acc_provider ?a)) secret) ?s = (r, t)"
    by fastforce
  then have t: "t = s\<lparr>db_tick := db_tick s + 4\<rparr>"
    using seal_secret_state [of env "associated_data (acc_id ?a) (acc_provider ?a)" secret ?s] by simp
  from assms seal obtain nonce c k where r: "r = Inr (nonce, c, k)"
    by (cases r) (auto simp: store_account_def new_uuid_def utc_now_def Let_def)
  have "insert_account ?a \<lparr>cred_account_id = acc_id ?a, cred_algorithm = credential_algorithm,
         cred_nonce = nonce, cred_ciphertext = c, cred_protected_key = k, cred_generation = 0\<rparr> t = (Inr a, s')"
    using assms seal r by (simp add: store_account_def new_uuid_def utc_now_def Let_def)
  then show thesis using seal r t that [of nonce c k]
    by (auto simp: insert_account_def split: if_splits)
qed

lemma run_load_secret_versioned:
  "run (load_secret_versioned env account_id) s =
     (case credential_record account_id s of
        None \<Rightarrow> Inl VaultError_NotFound
      | Some (provider, c) \<Rightarrow> tryE (open_secret env (associated_data account_id provider)
            (cred_nonce c) (cred_ciphertext c) (cred_protected_key c))
          (\<lambda>plaintext. Inr (plaintext, cred_generation c)), s)"
  by (simp add: load_secret_versioned_def split: option.split)

lemma load_after_store:
  assumes "sealing_laws env" and "run (store_account env provider identity method secret) s = (Inr a, s')"
  shows "fst (run (load_secret_versioned env (acc_id a)) s') = Inr (secret, 0)"
  using assms(2)
proof (rule run_store_account)
  fix nonce c k
  assume seal: "run (seal_secret env (associated_data (acc_id a) (acc_provider a)) secret)
       (s\<lparr>db_tick := Suc (Suc (db_tick s))\<rparr>) = (Inr (nonce, c, k), s\<lparr>db_tick := db_tick s + 4\<rparr>)"
    and s': "s' = s\<lparr>db_tick := db_tick s + 4, db_accounts := db_accounts s @ [a],
       db_credentials := db_credentials s @ [\<lparr>cred_account_id = acc_id a, cred_algorithm = credential_algorithm,
         cred_nonce = nonce, cred_ciphertext = c, cred_protected_key = k, cred_generation = 0\<rparr>]\<rparr>"
    and new: "acc_id a \<notin> acc_id ` set (db_accounts s)" "acc_id a \<notin> cred_account_id ` set (db_credentials s)"
  from new have "find_row acc_id (acc_id a) (db_accounts s) = None"
    "find_row cred_account_id (acc_id a) (db_credentials s) = None" by (simp_all add: find_row_None_iff)
  with run_seal_secret [OF assms(1) seal] s' show ?thesis
    by (simp add: run_load_secret_versioned credential_record_def find_row_append)
qed

lemma load_after_replace:
  assumes "sealing_laws env" and "run (replace_secret_inner env account_id secret expected) s = (Inr (), s')"
    and "credential_record account_id s = Some (provider, c)"
    and "expected = None \<or> expected = Some (cred_generation c)"
  shows "fst (run (load_secret_versioned env account_id) s') = Inr (secret, cred_generation c + 1)"
proof -
  from assms(3) obtain a where a: "find_row acc_id account_id (db_accounts s) = Some a" "acc_provider a = provider"
    and c: "find_row cred_account_id account_id (db_credentials s) = Some c"
    by (auto simp: credential_record_def split: option.splits)
  obtain r t where seal: "run (seal_secret env (associated_data account_id (acc_provider a)) secret) s = (r, t)"
    by fastforce
  then have t: "db_accounts t = db_accounts s" "db_credentials t = db_credentials s"
    using seal_secret_state [of env "associated_data account_id (acc_provider a)" secret s] by auto
  from assms(2) seal a obtain n ct k where r: "r = Inr (n, ct, k)"
    by (cases r) (auto simp: replace_secret_inner_def)
  have s': "s' = snd (update_credential account_id expected n ct k t)"
    using assms(2) seal a r by (auto simp: replace_secret_inner_def split: prod.splits if_splits)
  from c have "cred_account_id c = account_id" by (blast dest: find_row_SomeD)
  with assms(4) c t a have "credential_record account_id s' = Some (provider, c\<lparr>cred_nonce := n, cred_ciphertext := ct,
      cred_protected_key := k, cred_generation := cred_generation c + 1\<rparr>)"
    by (auto simp: s' update_credential_def credential_record_def Let_def find_row_update_where split: option.splits)
  with run_seal_secret [OF assms(1) seal [unfolded r]] a show ?thesis
    by (simp add: run_load_secret_versioned)
qed

text \<open>\<open>load_secret\<close> reads the same record as \<open>load_secret_versioned\<close> and opens it with its own code.\<close>

lemma run_load_secret:
  "fst (run (load_secret env account_id) s) = map_sum id fst (fst (run (load_secret_versioned env account_id) s))"
proof (cases "credential_record account_id s")
  case (Some pc)
  obtain p c where pc: "pc = (p, c)" by fastforce
  show ?thesis
    by (cases "open_secret env (associated_data account_id p) (cred_nonce c) (cred_ciphertext c) (cred_protected_key c)")
      (simp_all add: load_secret_def run_load_secret_versioned Some pc)
qed (simp add: load_secret_def run_load_secret_versioned)

lemma loaded_record:
  assumes "fst (run (load_secret_versioned env account_id) s) = Inr (secret, n)"
  obtains provider c where "credential_record account_id s = Some (provider, c)" "cred_generation c = n"
  using assms by (auto simp: run_load_secret_versioned split: option.splits sum.splits)

text \<open>
  Claim C29. The vault returns what was put into it. With a cipher and a key protection that invert,
  \<open>load_secret\<close> gives for a stored account the secret stored, after \<open>replace_secret\<close> the replacement, and
  after \<open>replace_secret_if_generation\<close> at the current generation the replacement made there.
  \<open>load_secret_versioned\<close> gives the same secrets with the generations 0, 1 and 2.
\<close>

theorem secret_roundtrip:
  assumes "sealing_laws env"
    and "run (store_account env provider identity method secret) s = (Inr a, s\<^sub>1)"
    and "run (replace_secret env (acc_id a) secret') s\<^sub>1 = (Inr (), s\<^sub>2)"
    and "run (replace_secret_if_generation env (acc_id a) 1 secret'') s\<^sub>2 = (Inr (), s\<^sub>3)"
  shows "map (\<lambda>t. fst (run (load_secret env (acc_id a)) t)) [s\<^sub>1, s\<^sub>2, s\<^sub>3] = [Inr secret, Inr secret', Inr secret'']
    \<and> map (\<lambda>t. fst (run (load_secret_versioned env (acc_id a)) t)) [s\<^sub>1, s\<^sub>2, s\<^sub>3] =
        [Inr (secret, 0), Inr (secret', 1), Inr (secret'', 2)]"
proof -
  note stored = load_after_store [OF assms(1,2)]
  obtain p c where c: "credential_record (acc_id a) s\<^sub>1 = Some (p, c)" "cred_generation c = 0"
    using stored by (rule loaded_record)
  have first: "fst (run (load_secret_versioned env (acc_id a)) s\<^sub>2) = Inr (secret', 1)"
    using load_after_replace [OF assms(1) assms(3) [unfolded replace_secret_def] c(1)] c(2) by simp
  obtain q d where d: "credential_record (acc_id a) s\<^sub>2 = Some (q, d)" "cred_generation d = 1"
    using first by (rule loaded_record)
  have "fst (run (load_secret_versioned env (acc_id a)) s\<^sub>3) = Inr (secret'', 2)"
    using load_after_replace [OF assms(1) assms(4) [unfolded replace_secret_if_generation_def] d(1)] d(2) by simp
  then show ?thesis using stored first by (simp add: run_load_secret)
qed

theorem secret_roundtrip_witness:
  "\<exists>a s\<^sub>1 s\<^sub>2 s\<^sub>3. run (store_account account_sample_env ''github'' ''octocat'' ''api_token'' ''old'') empty_vault = (Inr a, s\<^sub>1)
     \<and> run (replace_secret account_sample_env (acc_id a) ''new'') s\<^sub>1 = (Inr (), s\<^sub>2)
     \<and> run (replace_secret_if_generation account_sample_env (acc_id a) 1 ''newer'') s\<^sub>2 = (Inr (), s\<^sub>3)
     \<and> fst (run (load_secret account_sample_env (acc_id a)) s\<^sub>3) = Inr ''newer''"
proof -
  let ?store = "run (store_account account_sample_env ''github'' ''octocat'' ''api_token'' ''old'') empty_vault"
  note eval = run_eval insert_account_def empty_vault_def replace_secret_inner_def update_credential_def
    changed_rows_def update_where_def
  have "is_ok (fst ?store)"
    by (simp add: run_eval insert_account_def empty_vault_def)
  then obtain a s\<^sub>1 where s1: "?store = (Inr a, s\<^sub>1)" by (metis is_ok_iff prod.collapse)
  obtain x s\<^sub>2 where r2: "run (replace_secret account_sample_env (acc_id a) ''new'') s\<^sub>1 = (x, s\<^sub>2)" by fastforce
  with s1 have "x = Inr ()" by (auto simp: replace_secret_def eval)
  with r2 have s2: "run (replace_secret account_sample_env (acc_id a) ''new'') s\<^sub>1 = (Inr (), s\<^sub>2)" by simp
  obtain y s\<^sub>3 where r3: "run (replace_secret_if_generation account_sample_env (acc_id a) 1 ''newer'') s\<^sub>2 = (y, s\<^sub>3)"
    by fastforce
  with s1 s2 have "y = Inr ()" by (auto simp: replace_secret_def replace_secret_if_generation_def eval)
  with r3 have s3: "run (replace_secret_if_generation account_sample_env (acc_id a) 1 ''newer'') s\<^sub>2 = (Inr (), s\<^sub>3)" by simp
  from secret_roundtrip [OF sealing_laws_sample s1 s2 s3] s1 s2 s3 show ?thesis by auto
qed

section \<open>Two calls at once\<close>

text \<open>A call that has read what it checks and is overtaken by another call before it writes.\<close>

lemma overtaken:
  assumes "body c = bindP p k" and "run p s = (x, s\<^sub>1)"
    and "run (body d) s\<^sub>1 = (y, s\<^sub>2)" and "run (k x) s\<^sub>2 = (z, s\<^sub>3)"
  shows "reachable_from (pool_step body) ([], s) ([(c, Ret z), (d, Ret y)], s\<^sub>3)"
proof -
  have "reachable_from (pool_step body) ([], s) ([(c, body c)], s)"
    using reachable_from.step [where step = "pool_step body", OF reachable_from.start
        pool_step.call [of body "[]" s c]] by simp
  from pool_advance [OF this, of 0 c p k x s\<^sub>1] assms(1,2)
  have "reachable_from (pool_step body) ([], s) ([(c, k x)], s\<^sub>1)" by simp
  from pool_run [where body = body, OF this assms(3)]
  have "reachable_from (pool_step body) ([], s) ([(c, k x), (d, Ret y)], s\<^sub>2)" by simp
  from pool_finish [OF this, of 0 c "k x" z s\<^sub>3] assms(4) show ?thesis by simp
qed

text \<open>The body of a call that starts with a query.\<close>

lemma from_broker_tryP:
  "from_broker wrap (tryP p k) =
    bindP p (\<lambda>r. from_broker wrap (case r of Inl e \<Rightarrow> Ret (Inl e) | Inr x \<Rightarrow> k x))"
  by (simp add: from_broker_def tryP_def map_ret_def bindP_assoc)

lemmas grant_eval = get_request_def get_grant_def request_from_row_def grant_from_row_def parse_vec_def ok_or_def
  utc_now_def new_uuid_def audit_def append_audit_def Let_def update_where_def changed_rows_def

definition approved_anyway :: "(broker_call, vault_db, broker_error + call_value) pool \<Rightarrow> bool" where
  "approved_anyway w \<longleftrightarrow>
     (\<exists>r \<in> set (db_requests (snd w)). \<exists>g \<in> set (db_grants (snd w)).
        rq_status r = ''cancelled'' \<and> gt_request_id g = rq_id r \<and> gt_revoked_at g = None
        \<and> is_ok (fst (run (issue_lease account_sample_env (gt_id g) 5) (snd w))))"

text \<open>
  Claim C35. A cancelled request can still be granted: when \<open>cancel_request\<close> runs between the check and
  the transaction of \<open>approve_access\<close>, both calls succeed, the request ends cancelled, and its grant is
  not revoked and issues leases. The transaction updates the request only where it is still awaiting
  the user, but does not look at whether it did.
\<close>

theorem cancelled_request_granted:
  "\<exists>w. reachable_from (pool_step (broker_body account_sample_env)) ([], awaiting_vault) w
     \<and> list_all (\<lambda>t. \<exists>x. snd t = Ret (Inr x)) (fst w)
     \<and> map fst (fst w) = [Call_approve_access ''access_x'', Call_cancel_request ''access_x'']
     \<and> approved_anyway w"
proof -
  let ?env = account_sample_env
  let ?c = "Call_approve_access ''access_x''" and ?d = "Call_cancel_request ''access_x''"
  let ?k = "\<lambda>r. from_broker V_grant (case r of Inl e \<Rightarrow> Ret (Inl e) | Inr x \<Rightarrow> approve_checked ?env ''access_x'' x)"
  have body: "broker_body ?env ?c = bindP (get_request ?env ''access_x'') ?k"
    by (simp add: approve_access_def from_broker_tryP)
  define req where "req = \<lparr>br_id = ''access_x'', br_kind = ''access'', br_status = ''awaiting_user'',
    br_account_id = Some ''acct_x'', br_provider = Some ''github'', br_client_id = Some ''agent'',
    br_purpose = ''ci'', br_operations = [''read''], br_duration_minutes = 60, br_created_at = ''t'',
    br_updated_at = ''t''\<rparr>"
  have read: "run (get_request ?env ''access_x'') awaiting_vault = (Inr req, awaiting_vault)"
    by (simp add: grant_eval sample_request_def req_def)
  obtain y s\<^sub>2 where cancel: "run (broker_body ?env ?d) awaiting_vault = (y, s\<^sub>2)" by fastforce
  have y: "y = Inr (V_unit ())" and s2: "db_grants s\<^sub>2 = []" "db_leases s\<^sub>2 = []" "db_tick s\<^sub>2 = 4"
    "db_requests s\<^sub>2 = [sample_request\<lparr>rq_status := ''cancelled'', rq_updated_at := print_seconds 2000000000\<rparr>]"
    using cancel by (auto simp: cancel_request_def grant_eval sample_request_def)
  obtain z s\<^sub>3 where rest: "run (?k (Inr req)) s\<^sub>2 = (z, s\<^sub>3)" by fastforce
  define g where "g = \<lparr>gt_id = ''grant_xxxx'', gt_request_id = ''access_x'', gt_account_id = ''acct_x'',
    gt_provider = ''github'', gt_client_id = ''agent'', gt_purpose = ''ci'',
    gt_operations_json = ''read'' @ [CHR 0x0A], gt_expires_at = print_seconds 3605000000000,
    gt_generation = 0, gt_revoked_at = None\<rparr>"
  have z: "is_ok z" and s3: "db_grants s\<^sub>3 = [g]" "db_requests s\<^sub>3 = db_requests s\<^sub>2" "db_leases s\<^sub>3 = []" "db_tick s\<^sub>3 = 8"
    using rest s2
    by (auto simp: approve_checked_def approve_transaction_def grant_eval sample_request_def req_def g_def minutes_def
        eval_nat_numeral)
  have "parse_seconds (print_seconds 3605000000000) = Some 3605000000000"
    by (simp add: parse_seconds_def print_seconds_def Let_def)
  with s3 have lease: "is_ok (fst (run (issue_lease ?env (gt_id g) 5) s\<^sub>3))"
    by (simp add: issue_lease_def issue_lease_with_uses_def issue_checked_def insert_lease_def grant_eval g_def)
  from overtaken [where body = "broker_body ?env" and k = ?k, OF body read cancel rest]
  have "reachable_from (pool_step (broker_body ?env)) ([], awaiting_vault) ([(?c, Ret z), (?d, Ret y)], s\<^sub>3)" .
  moreover have "approved_anyway ([(?c, Ret z), (?d, Ret y)], s\<^sub>3)"
    unfolding approved_anyway_def using s3 s2(4) lease by (simp add: g_def sample_request_def)
  ultimately show ?thesis using z y
    by (intro exI [of _ "([(?c, Ret z), (?d, Ret y)], s\<^sub>3)"]) (auto simp: is_ok_iff)
qed

text \<open>
  Claim C36. A disconnection can be overtaken by a lease: when \<open>begin_provider_disconnect\<close> runs between
  the check and the insertion of \<open>issue_lease\<close>, a lease is stored for the grant just revoked; it
  authorizes nothing, but \<open>complete_provider_disconnect\<close>, called after the provider has revoked the
  credential, then fails on the reference of the lease and leaves the account in the vault.
\<close>

theorem disconnect_blocked_by_lease:
  "\<exists>w. reachable_from (pool_step (broker_body account_sample_env)) ([], leased_vault\<lparr>db_leases := []\<rparr>) w
     \<and> map fst (fst w) = [Call_issue_lease ''grant_x'' 5, Call_begin_provider_disconnect ''acct_x'']
     \<and> list_all (\<lambda>t. \<exists>x. snd t = Ret (Inr x)) (fst w)
     \<and> (\<exists>l \<in> set (db_leases (snd w)). lease_dead (ls_token_hash l) (snd w))
     \<and> run (complete_provider_disconnect account_sample_env ''acct_x'') (snd w) =
         (Inl (BrokerError_Database ConstraintViolation), snd w)"
proof -
  let ?env = account_sample_env and ?s = "leased_vault\<lparr>db_leases := []\<rparr>"
  let ?c = "Call_issue_lease ''grant_x'' 5" and ?d = "Call_begin_provider_disconnect ''acct_x''"
  let ?k = "\<lambda>r. from_broker V_lease (case r of Inl e \<Rightarrow> Ret (Inl e) | Inr x \<Rightarrow> issue_checked ?env ''grant_x'' 5 (- 1) x)"
  have body: "broker_body ?env ?c = bindP (get_grant ?env ''grant_x'') ?k"
    by (simp add: issue_lease_def issue_lease_with_uses_def from_broker_tryP)
  define grant where "grant = \<lparr>sg_grant_id = ''grant_x'', sg_request_id = ''access_x'', sg_account_id = ''acct_x'',
    sg_grant_provider = ''github'', sg_client_id = ''agent'', sg_grant_purpose = ''ci'', sg_operations = [''read''],
    sg_expires_at = print_seconds 3600000000000, sg_revoked = False\<rparr>"
  have read: "run (get_grant ?env ''grant_x'') ?s = (Inr grant, ?s)"
    by (simp add: grant_eval sample_grant_def grant_def)
  obtain y s\<^sub>2 where starts: "run (broker_body ?env ?d) ?s = (y, s\<^sub>2)" by fastforce
  define g where "g = sample_grant\<lparr>gt_revoked_at := Some (print_seconds 2000000000), gt_generation := 1\<rparr>"
  have y: "y = Inr (V_unit ())" and s2: "db_grants s\<^sub>2 = [g]" "db_leases s\<^sub>2 = []" "db_tick s\<^sub>2 = 5"
    using starts by (auto simp: begin_provider_disconnect_def change_defs grant_eval sample_grant_def
        sample_account_def grants_of_account_def g_def)
  obtain z s\<^sub>3 where rest: "run (?k (Inr grant)) s\<^sub>2 = (z, s\<^sub>3)" by fastforce
  define l where "l = \<lparr>ls_token_hash = ''ela_xxxxxx'', ls_grant_id = ''grant_x'', ls_generation = 1,
    ls_expires_at = print_seconds 307000000000, ls_remaining_uses = - 1\<rparr>"
  have z: "is_ok z" and s3: "db_grants s\<^sub>3 = [g]" "db_leases s\<^sub>3 = [l]"
    using rest s2
    by (auto simp: issue_checked_def insert_lease_def grant_eval grant_def g_def l_def sample_grant_def minutes_def
        token_hash_def eval_nat_numeral)
  from overtaken [where body = "broker_body ?env" and k = ?k, OF body read starts rest]
  have r: "reachable_from (pool_step (broker_body ?env)) ([], ?s) ([(?c, Ret z), (?d, Ret y)], s\<^sub>3)" .
  have "lease_dead (ls_token_hash l) s\<^sub>3" using s3 by (simp add: lease_dead_def g_def)
  moreover have "run (complete_provider_disconnect ?env ''acct_x'') s\<^sub>3 =
      (Inl (BrokerError_Database ConstraintViolation), s\<^sub>3)"
    using s3 by (simp add: complete_provider_disconnect_def complete_transaction_def grants_of_account_def g_def l_def
        sample_grant_def)
  ultimately show ?thesis using r z y s3
    by (intro exI [of _ "([(?c, Ret z), (?d, Ret y)], s\<^sub>3)"]) (auto simp: is_ok_iff)
qed

end
