(* ===== verification/AccountRefinement.thy ===== *)
theory AccountRefinement
  imports AccountResults
begin

text \<open>
  The stored broker implements the in-memory \<open>PolicyEngine\<close> of \<open>lib.rs\<close>: read through \<open>policy_matches\<close>,
  every approval, lease, revocation and authorization of the broker is one of the engine. The broker
  may refuse more (a lease can run out of uses, an account can be disconnected), never less.
\<close>

definition rfc3339_limit :: int where
  "rfc3339_limit = 253402300800 * 1000000000"






section \<open>Authorization\<close>





section \<open>Leases\<close>


section \<open>Revocation and approval\<close>





section \<open>Claim\<close>


fun encode_ops :: "string list \<Rightarrow> string" where
  "encode_ops [] = []"
| "encode_ops (x # xs) = concat (map (\<lambda>c. [CHR ''c'', c]) x) @ [CHR ''.''] @ encode_ops xs"

fun decode_ops :: "string \<Rightarrow> string \<Rightarrow> string list option" where
  "decode_ops acc [] = Some []"
| "decode_ops acc [c] = Some [acc]"
| "decode_ops acc (c # d # cs) =
     (if c = CHR ''c'' then decode_ops (acc @ [d]) cs else map_option (\<lambda>xs. acc # xs) (decode_ops [] (d # cs)))"



text \<open>An environment that satisfies the laws: times in unary, a clock of one nanosecond per draw.\<close>

definition unary_time :: "int \<Rightarrow> string" where
  "unary_time t = replicate (nat t) (CHR ''x'')"

lemma length_unary_time [simp]: "length (unary_time t) = nat t"
  by (simp add: unary_time_def)

lemma minutes_above [simp]: "0 \<le> minutes n" "0 < n \<Longrightarrow> 10 < minutes n" "n < 100 \<Longrightarrow> minutes n + 10 < rfc3339_limit"
  by (simp_all add: minutes_def rfc3339_limit_def)

definition exact_env :: account_env where
  "exact_env = account_sample_env\<lparr>env_now := int, env_to_rfc3339 := unary_time,
     env_parse_rfc3339 := (\<lambda>s. Some (int (length s))), env_print_ops := encode_ops,
     env_parse_ops := decode_ops []\<rparr>"

lemma exact_env_simps [simp]:
  "env_now exact_env = int" "env_uuid exact_env n = replicate n (CHR ''x'')"
  "env_to_rfc3339 exact_env = unary_time" "env_parse_rfc3339 exact_env x = Some (int (length x))"
  "env_print_ops exact_env = encode_ops" "env_parse_ops exact_env = decode_ops []"
  "env_print_json exact_env j = ''{}''" "env_sha256_hex exact_env x = x"
  by (simp_all add: exact_env_def)








end
