(* ===== verification/Urls.thy ===== *)
theory Urls
  imports Prelude
begin

text \<open>
  URLs as the sources read them from the crate \<open>url\<close>: the parser is a parameter, the accessors of a parsed
  URL are the fields of a record. Also the string functions used on paths.
\<close>

record url =
  u_text :: string
  u_scheme :: string
  u_username :: string
  u_password :: "string option"
  u_host :: "string option"
  u_port_or_default :: "nat option"
  u_path :: string
  u_query :: "string option"
  u_fragment :: "string option"

definition trim_end_matches :: "char \<Rightarrow> string \<Rightarrow> string" where
  "trim_end_matches c s = rev (dropWhile (\<lambda>d. d = c) (rev s))"

fun split_char :: "char \<Rightarrow> string \<Rightarrow> string list" where
  "split_char sep [] = [[]]"
| "split_char sep (c # cs) =
     (if c = sep then [] # split_char sep cs
      else case split_char sep cs of
        [] \<Rightarrow> [[c]]
      | seg # segs \<Rightarrow> (c # seg) # segs)"

definition strip_prefix :: "string \<Rightarrow> string \<Rightarrow> string option" where
  "strip_prefix p s = (if starts_with s p then Some (drop (length p) s) else None)"

lemma split_char_not_Nil [simp]: "split_char sep s \<noteq> []"
  by (induction s) (auto split: list.splits)

lemma split_char_join:
  "join [sep] (split_char sep s) = s"
proof (induction s)
  case (Cons c cs)
  show ?case
  proof (cases "split_char sep cs")
    case (Cons seg segs)
    with Cons.IH show ?thesis by (cases segs) auto
  qed simp
qed simp

lemma strip_prefix_Some: "strip_prefix p s = Some t \<longleftrightarrow> s = p @ t"
  by (auto simp: strip_prefix_def starts_with_append)

text \<open>A segment of a path is a piece between two separators, the ends counting as such.\<close>

lemma starts_with_segment:
  assumes "sep \<notin> set p"
  shows "starts_with (s @ [sep]) (p @ [sep]) \<longleftrightarrow> hd (split_char sep s) = p"
  using assms
proof (induction s arbitrary: p)
  case Nil
  then show ?case by (cases p) auto
next
  case (Cons c s)
  show ?case
  proof (cases p)
    case Nil
    then show ?thesis by (auto split: list.splits)
  next
    case (Cons d q)
    with Cons.IH [of q] Cons.prems show ?thesis
      by (cases "split_char sep s") (auto dest: split_char_not_Nil [THEN notE])
  qed
qed

lemma starts_with_Nil [simp]: "starts_with [] p \<longleftrightarrow> p = []"
  by (cases p) auto

lemma inner_segment_contains:
  assumes "sep \<notin> set p"
  shows "p \<in> set (tl (split_char sep s)) \<longleftrightarrow> contains_str (s @ [sep]) (sep # p @ [sep])"
proof (induction s)
  case (Cons c s)
  obtain seg segs where sp: "split_char sep s = seg # segs" by (cases "split_char sep s") auto
  show ?case
  proof (cases "c = sep")
    case True
    with Cons sp starts_with_segment [OF assms, of s] show ?thesis by auto
  next
    case False
    with Cons sp show ?thesis by simp
  qed
qed simp

lemma segment_contains:
  assumes "sep \<notin> set p"
  shows "p \<in> set (split_char sep s) \<longleftrightarrow> contains_str (sep # s @ [sep]) (sep # p @ [sep])"
proof -
  obtain seg segs where sp: "split_char sep s = seg # segs" by (cases "split_char sep s") auto
  with inner_segment_contains [OF assms, of s] starts_with_segment [OF assms, of s] show ?thesis by auto
qed

end
