(* ===== verification/AccountProvider.thy ===== *)
theory AccountProvider
  imports AccountPolicy Urls
begin

text \<open>
  \<open>provider.rs\<close> of the accounts daemon and the path functions of \<open>typed.rs\<close>: provider packs, their
  validation, the catalog, and the resolution of a path template with caller-supplied arguments. The
  URL parser, the JSON reader of provider packs, the process environment and the random source are parameters.
\<close>

section \<open>Provider packs\<close>

datatype auth_method =
    OAuthPkce | DeviceAuthorization | ApiToken | HttpBasic | ClientCredentials | ServiceCredential

datatype client_registration_mode = Mode_Environment | Mode_Public | Mode_UserProvided

record client_registration =
  cl_mode :: client_registration_mode
  cl_client_id :: "string option"
  cl_client_id_env :: "string option"

record identity_spec =
  is_url :: string
  is_selectors :: "string list"
  is_required :: "(string \<times> json) list"

record credential_field =
  cf_id :: string
  cf_label :: string
  cf_secret :: bool
  cf_autocomplete :: "string option"

record oauth_lifecycle =
  ol_refresh_url :: string
  ol_revocation_url :: string
  ol_revocation_token_type_hint :: "string option"

record auth_profile =
  ap_id :: string
  ap_method :: auth_method
  ap_audience :: string
  ap_issuer :: "string option"
  ap_authorization_url :: "string option"
  ap_authorization_parameters :: "(string \<times> string) list"
  ap_token_url :: "string option"
  ap_device_authorization_url :: "string option"
  ap_identity :: identity_spec
  ap_client :: client_registration
  ap_scopes :: "string list"
  ap_credential_header :: "string option"
  ap_creation_url :: "string option"
  ap_credential_fields :: "credential_field list"
  ap_oauth_lifecycle :: "oauth_lifecycle option"

datatype operation_risk = Risk_Read | Risk_Write

datatype operation_executor =
    Executor_Http string string string
  | Executor_Adapter string string

record provider_operation =
  po_description :: string
  po_risk :: operation_risk
  po_scopes :: "string list"
  po_input_schema :: json
  po_result_schema :: json
  po_executor :: operation_executor

datatype operation_spec =
    LegacyScopes "string list"
  | Executable provider_operation

record provider_spec =
  ps_schema_version :: string
  ps_id :: string
  ps_display_name :: string
  ps_version :: string
  ps_publisher :: string
  ps_browser_origins :: "string list"
  ps_auth_profiles :: "auth_profile list"
  ps_operations :: "(string \<times> operation_spec) list"

datatype provider_error =
    ProviderError_InvalidJson
  | ProviderError_UnsupportedSchema
  | ProviderError_InvalidId
  | ProviderError_Duplicate string
  | ProviderError_InsecureUrl
  | ProviderError_InvalidUrl
  | ProviderError_IncompleteProfile
  | ProviderError_IncompleteOperation
  | ProviderError_MutatingReadOperation
  | ProviderError_UnsafeOperationPath
  | ProviderError_UnknownOperationProfile

definition configured_client_id :: "(string \<Rightarrow> string option) \<Rightarrow> auth_profile \<Rightarrow> string option" where
  "configured_client_id env_var profile =
     (case cl_client_id (ap_client profile) of
        Some client_id \<Rightarrow> Some client_id
      | None \<Rightarrow>
        (case Option.bind (cl_client_id_env (ap_client profile)) env_var of
           None \<Rightarrow> None
         | Some v \<Rightarrow> if trim v = [] then None else Some v))"

definition operation_scopes :: "provider_spec \<Rightarrow> string \<Rightarrow> string list option" where
  "operation_scopes spec operation =
     map_option (\<lambda>op. case op of LegacyScopes scopes \<Rightarrow> scopes | Executable op \<Rightarrow> po_scopes op)
       (map_of (ps_operations spec) operation)"

definition spec_executable_operation :: "provider_spec \<Rightarrow> string \<Rightarrow> provider_operation option" where
  "spec_executable_operation spec operation =
     (case map_of (ps_operations spec) operation of
        Some (Executable op) \<Rightarrow> Some op
      | _ \<Rightarrow> None)"

section \<open>Validation\<close>

text \<open>
  \<open>host.parse::<IpAddr>()\<close> with \<open>is_loopback\<close>. A host of an IPv6 address is written in brackets, which the
  parser of addresses refuses, so only the dotted form counts: four decimal octets without leading
  zeros, the first one 127.
\<close>

definition is_octet :: "string \<Rightarrow> bool" where
  "is_octet s \<longleftrightarrow> s \<noteq> [] \<and> length s \<le> 3 \<and> list_all is_ascii_digit s \<and> (length s > 1 \<longrightarrow> hd s \<noteq> CHR ''0'')
     \<and> foldl (\<lambda>n c. n * 10 + (of_char c - 48)) (0 :: nat) s \<le> 255"

definition ip_is_loopback :: "string \<Rightarrow> bool" where
  "ip_is_loopback host \<longleftrightarrow>
     (let octets = split_char (CHR ''.'') host
      in length octets = 4 \<and> list_all is_octet octets \<and> hd octets = ''127'')"

definition validate_url :: "(string \<Rightarrow> url option) \<Rightarrow> string \<Rightarrow> provider_error + unit" where
  "validate_url parse v =
     (case parse v of
        None \<Rightarrow> Inl ProviderError_InvalidUrl
      | Some url \<Rightarrow>
          let loopback = (case u_host url of None \<Rightarrow> False
                | Some host \<Rightarrow> eq_ignore_ascii_case host ''localhost'' \<or> ip_is_loopback host)
          in if u_scheme url \<noteq> ''https'' \<and> \<not> (u_scheme url = ''http'' \<and> loopback)
             then Inl ProviderError_InsecureUrl else Inr ())"

definition is_provider_id :: "string \<Rightarrow> bool" where
  "is_provider_id s \<longleftrightarrow> s \<noteq> [] \<and> length s \<le> 64
     \<and> list_all (\<lambda>c. is_ascii_lowercase c \<or> is_ascii_digit c \<or> c = CHR ''-'') s"

definition ends_with :: "string \<Rightarrow> string \<Rightarrow> bool" where
  "ends_with s p = starts_with (rev s) (rev p)"

definition profile_urls :: "auth_profile \<Rightarrow> string list" where
  "profile_urls profile = List.map_filter (\<lambda>x. x)
     [ap_issuer profile, ap_authorization_url profile, ap_token_url profile, ap_device_authorization_url profile,
      ap_creation_url profile, map_option ol_refresh_url (ap_oauth_lifecycle profile),
      map_option ol_revocation_url (ap_oauth_lifecycle profile)]"

definition profile_complete :: "auth_profile \<Rightarrow> bool" where
  "profile_complete profile =
     (case ap_method profile of
        OAuthPkce \<Rightarrow> ap_authorization_url profile \<noteq> None \<and> ap_token_url profile \<noteq> None
      | DeviceAuthorization \<Rightarrow> ap_device_authorization_url profile \<noteq> None \<and> ap_token_url profile \<noteq> None
      | ClientCredentials \<Rightarrow> ap_token_url profile \<noteq> None
      | _ \<Rightarrow> True)"

definition reserved_authorization_parameters :: "string list" where
  "reserved_authorization_parameters = [''client_id'', ''redirect_uri'', ''response_type'', ''scope'', ''state'',
     ''nonce'', ''code_challenge'', ''code_challenge_method'']"

definition validate_profile ::
  "(string \<Rightarrow> url option) \<Rightarrow> provider_spec \<Rightarrow> auth_profile \<Rightarrow> provider_error + unit" where
  "validate_profile parse provider profile =
     tryE (validate_url parse (ap_audience profile)) (\<lambda>_.
     tryE (validate_url parse (is_url (ap_identity profile))) (\<lambda>_.
     tryE (foldE (\<lambda>_ v. validate_url parse v) () (profile_urls profile)) (\<lambda>_.
     if \<not> profile_complete profile \<or> is_selectors (ap_identity profile) = [] then Inl ProviderError_IncompleteProfile
     else if list_ex (\<lambda>(name, v). trim name = [] \<or> v = []
         \<or> list_ex (eq_ignore_ascii_case name) reserved_authorization_parameters) (ap_authorization_parameters profile)
     then Inl ProviderError_IncompleteProfile
     else if ends_with (ps_schema_version provider) ''/v3'' \<and> ap_method profile = OAuthPkce
       \<and> ap_oauth_lifecycle profile = None
     then Inl ProviderError_IncompleteProfile
     else Inr ())))"

definition is_safe_template :: "(string \<Rightarrow> url option) \<Rightarrow> string \<Rightarrow> bool" where
  "is_safe_template parse path \<longleftrightarrow>
     starts_with path ''/'' \<and> \<not> starts_with path ''//''
   \<and> \<not> list_ex (\<lambda>segment. segment = ''..'') (split_char (CHR ''/'') path) \<and> parse path = None"

definition validate_operation ::
  "(string \<Rightarrow> url option) \<Rightarrow> provider_spec \<Rightarrow> operation_spec \<Rightarrow> provider_error + unit" where
  "validate_operation parse provider operation =
     (let typed = ends_with (ps_schema_version provider) ''/v2'' \<or> ends_with (ps_schema_version provider) ''/v3'' in
      case operation of
        LegacyScopes _ \<Rightarrow> if typed then Inl ProviderError_IncompleteOperation else Inr ()
      | Executable spec \<Rightarrow>
          if \<not> typed \<or> trim (po_description spec) = [] then Inl ProviderError_IncompleteOperation
          else case po_executor spec of
            Executor_Adapter _ _ \<Rightarrow> Inr ()
          | Executor_Http profile method path \<Rightarrow>
              if \<not> list_ex (\<lambda>candidate. ap_id candidate = profile) (ps_auth_profiles provider)
              then Inl ProviderError_UnknownOperationProfile
              else if \<not> is_safe_template parse path then Inl ProviderError_UnsafeOperationPath
              else if po_risk spec = Risk_Read \<and> \<not> eq_ignore_ascii_case method ''GET''
              then Inl ProviderError_MutatingReadOperation
              else Inr ())"

definition validate_provider :: "(string \<Rightarrow> url option) \<Rightarrow> provider_spec \<Rightarrow> provider_error + unit" where
  "validate_provider parse provider =
     (if ps_schema_version provider \<notin> set [''elegy-account-provider/v1'', ''elegy-account-provider/v2'',
         ''elegy-account-provider/v3'']
      then Inl ProviderError_UnsupportedSchema
      else if \<not> is_provider_id (ps_id provider) then Inl ProviderError_InvalidId
      else
        tryE (foldE (\<lambda>_ v. validate_url parse v) () (ps_browser_origins provider)) (\<lambda>_.
        tryE (foldE (\<lambda>_ profile. validate_profile parse provider profile) () (ps_auth_profiles provider)) (\<lambda>_.
        foldE (\<lambda>_ operation. validate_operation parse provider operation) () (map snd (ps_operations provider)))))"

section \<open>Catalog\<close>

record provider_catalog =
  pc_providers :: "(string \<times> provider_spec) list"
  pc_executable_providers :: "string list"

definition add_document ::
  "(string \<Rightarrow> url option) \<Rightarrow> (string \<Rightarrow> provider_spec option) \<Rightarrow> bool \<Rightarrow> provider_catalog \<Rightarrow> string
    \<Rightarrow> provider_error + provider_catalog" where
  "add_document parse read_spec trusted catalog document =
     (case read_spec document of
        None \<Rightarrow> Inl ProviderError_InvalidJson
      | Some provider \<Rightarrow>
          tryE (validate_provider parse provider) (\<lambda>_.
          if ps_id provider \<in> fst ` set (pc_providers catalog) then Inl (ProviderError_Duplicate (ps_id provider))
          else Inr (catalog
            \<lparr>pc_providers := pc_providers catalog @ [(ps_id provider, provider)],
             pc_executable_providers :=
               (if trusted then pc_executable_providers catalog @ [ps_id provider] else pc_executable_providers catalog)\<rparr>)))"

definition from_documents_with_trust ::
  "(string \<Rightarrow> url option) \<Rightarrow> (string \<Rightarrow> provider_spec option) \<Rightarrow> string list \<Rightarrow> bool
    \<Rightarrow> provider_error + provider_catalog" where
  "from_documents_with_trust parse read_spec documents trusted =
     foldE (add_document parse read_spec trusted) \<lparr>pc_providers = [], pc_executable_providers = []\<rparr> documents"

definition catalog_get :: "provider_catalog \<Rightarrow> string \<Rightarrow> provider_spec option" where
  "catalog_get catalog provider = map_of (pc_providers catalog) provider"

definition catalog_list :: "provider_catalog \<Rightarrow> provider_spec list" where
  "catalog_list catalog =
     sort_by (\<lambda>a b. ps_display_name a \<le> ps_display_name b) (map snd (pc_providers catalog))"

definition catalog_profile :: "provider_catalog \<Rightarrow> string \<Rightarrow> string \<Rightarrow> auth_profile option" where
  "catalog_profile catalog provider profile =
     Option.bind (catalog_get catalog provider) (\<lambda>spec.
       List.find (\<lambda>candidate. ap_id candidate = profile) (ps_auth_profiles spec))"

definition catalog_executable_operation :: "provider_catalog \<Rightarrow> string \<Rightarrow> string \<Rightarrow> provider_operation option" where
  "catalog_executable_operation catalog provider operation =
     (if provider \<notin> set (pc_executable_providers catalog) then None
      else Option.bind (catalog_get catalog provider) (\<lambda>spec. spec_executable_operation spec operation))"

section \<open>Resolving a path template\<close>

datatype path_error = InvalidArguments

definition is_ascii_alphanumeric :: "char \<Rightarrow> bool" where
  "is_ascii_alphanumeric c \<longleftrightarrow> is_ascii_digit c \<or> is_ascii_lowercase c \<or> (CHR ''A'' \<le> c \<and> c \<le> CHR ''Z'')"

definition is_safe_path_segment :: "string \<Rightarrow> bool" where
  "is_safe_path_segment v \<longleftrightarrow> v \<noteq> [] \<and> length v \<le> 128
     \<and> list_all (\<lambda>c. is_ascii_alphanumeric c \<or> c = CHR ''_'' \<or> c = CHR ''-'') v"

definition substitute :: "string \<Rightarrow> string \<times> json \<Rightarrow> path_error + string" where
  "substitute path member =
     (case member of (name, v) \<Rightarrow>
      (case json_as_str v of
         None \<Rightarrow> Inl InvalidArguments
       | Some segment \<Rightarrow>
           if \<not> is_safe_path_segment segment then Inl InvalidArguments
           else
             let placeholder = ''{'' @ name @ ''}'' in
             if \<not> contains_str path placeholder then Inl InvalidArguments
             else Inr (replace_str path placeholder segment)))"

definition resolve_path :: "json \<Rightarrow> string \<Rightarrow> json \<Rightarrow> path_error + string" where
  "resolve_path schema template arguments =
     (case json_as_object arguments of
        None \<Rightarrow> Inl InvalidArguments
      | Some members \<Rightarrow>
          let properties = (case Option.bind (json_get ''properties'' schema) json_as_object of None \<Rightarrow> [] | Some p \<Rightarrow> p) in
          if Option.bind (json_get ''additionalProperties'' schema) json_as_bool = Some False
            \<and> list_ex (\<lambda>key. key \<notin> fst ` set properties) (map fst members)
          then Inl InvalidArguments
          else if (case Option.bind (json_get ''required'' schema) json_as_array of
              None \<Rightarrow> False
            | Some required \<Rightarrow> list_ex (\<lambda>name. name \<notin> fst ` set members) (List.map_filter json_as_str required))
          then Inl InvalidArguments
          else
            tryE (foldE substitute template members) (\<lambda>path.
            if contains_str path ''{'' \<or> contains_str path ''}'' then Inl InvalidArguments else Inr path))"

definition validate_result :: "json \<Rightarrow> json \<Rightarrow> bool" where
  "validate_result schema result =
     (case Option.bind (json_get ''type'' schema) json_as_str of
        None \<Rightarrow> True
      | Some t \<Rightarrow>
          if t = ''object'' then json_as_object result \<noteq> None
          else if t = ''array'' then json_as_array result \<noteq> None
          else True)"

section \<open>A resolved path stays inside the audience\<close>

definition inside_audience :: "string \<Rightarrow> bool" where
  "inside_audience path \<longleftrightarrow> starts_with path ''/'' \<and> \<not> starts_with path ''//'' \<and> ''..'' \<notin> set (split_char (CHR ''/'') path)"

lemma safe_char_cases:
  assumes "is_safe_path_segment v" and "c \<in> set v"
  shows "c \<noteq> CHR ''/'' \<and> c \<noteq> CHR ''.'' \<and> c \<noteq> CHR ''{'' \<and> c \<noteq> CHR ''}''"
  using assms by (auto simp: is_safe_path_segment_def list_all_iff is_ascii_alphanumeric_def is_ascii_digit_def
      is_ascii_lowercase_def)

lemma starts_with_snoc_last:
  "pat \<noteq> [] \<Longrightarrow> last pat \<noteq> x \<Longrightarrow> starts_with (s @ [x]) pat \<longleftrightarrow> starts_with s pat"
proof (induction s pat rule: starts_with.induct)
  case (2 p ps)
  then show ?case by (cases ps) auto
next
  case (3 c cs p ps)
  then show ?case by (cases ps) auto
qed simp

lemma starts_with_length: "starts_with s p \<Longrightarrow> length p \<le> length s"
  by (induction s p rule: starts_with.induct) auto

lemma replace_str_snoc:
  "pat \<noteq> [] \<Longrightarrow> last pat \<noteq> x \<Longrightarrow> replace_str (s @ [x]) pat to = replace_str s pat to @ [x]"
proof (induction s pat to rule: replace_str.induct)
  case (1 pat to)
  then have "\<not> starts_with [x] pat" by (cases pat) (auto split: if_splits)
  then show ?case by (simp add: replace_str_skip)
next
  case (2 c cs pat to)
  have iff: "starts_with (c # cs @ [x]) pat \<longleftrightarrow> starts_with (c # cs) pat"
    using starts_with_snoc_last [OF 2(3,4), of "c # cs"] by simp
  show ?case
  proof (cases "starts_with (c # cs) pat")
    case True
    then have "length pat \<le> length (c # cs)" by (rule starts_with_length)
    then have "drop (length pat) (c # cs @ [x]) = drop (length pat) (c # cs) @ [x]"
      using drop_append [of "length pat" "c # cs" "[x]"] by simp
    with True 2 iff show ?thesis by (simp add: replace_str_hit)
  next
    case False
    with 2 iff show ?thesis by (simp add: replace_str_skip)
  qed
qed

lemma substitute_inside:
  assumes "substitute path member = Inr path'" and "inside_audience path"
  shows "inside_audience path'"
proof -
  from assms(1) obtain name segment where seg: "is_safe_path_segment segment"
    and path': "path' = replace_str path (''{'' @ name @ ''}'') segment"
    by (auto simp: substitute_def Let_def split: prod.splits option.splits if_splits)
  let ?pat = "''{'' @ name @ ''}''" and ?slash = "CHR ''/''"
  have outside: "set q \<subseteq> {CHR ''/'', CHR ''.''} \<Longrightarrow> q \<noteq> [] \<Longrightarrow> clear segment q \<and> clear q segment" for q
    using seg safe_char_cases [OF seg] clear_without_hd [of "hd segment" q "tl segment"]
      clear_without_hd [of "hd q" segment "tl q"]
    by (cases q; cases segment) (auto simp: is_safe_path_segment_def)
  obtain rest where rest: "path = ?slash # rest" "\<not> starts_with rest ''/''"
    using assms(2) by (cases path) (auto simp: inside_audience_def)
  have "path' = ?slash # replace_str rest ?pat segment"
    using rest path' by (simp add: replace_str_skip)
  moreover have "\<not> starts_with (replace_str rest ?pat segment) ''/''"
    using rest(2) replace_str_starts [of segment "''/''" rest ?pat] outside [of "''/''"] by auto
  moreover have "?slash # path' @ [?slash] = replace_str (?slash # path @ [?slash]) ?pat segment"
    by (simp add: replace_str_skip path' replace_str_snoc)
  moreover have "\<not> contains_str (?slash # path @ [?slash]) ''/../''"
    using assms(2) segment_contains [of ?slash "''..''" path] by (simp add: inside_audience_def)
  ultimately have "starts_with path' ''/''" "\<not> starts_with path' ''//''"
    and "\<not> contains_str (?slash # path' @ [?slash]) ''/../''"
    using replace_str_keeps_free [of "?slash # path @ [?slash]" "''/../''" segment ?pat]
      outside [of "''/../''"] by simp_all
  then show ?thesis
    using segment_contains [of ?slash "''..''" path'] by (simp add: inside_audience_def)
qed

lemma resolve_path_inside:
  assumes "resolve_path schema template arguments = Inr path" and "inside_audience template"
  shows "inside_audience path"
proof -
  from assms(1) obtain members where "foldE substitute template members = Inr path"
    by (auto simp: resolve_path_def Let_def split: option.splits if_splits)
  then show ?thesis
    by (rule foldE_invariant [where P = inside_audience]) (use assms(2) substitute_inside in auto)
qed

lemma validated_operation_inside:
  assumes "validate_operation parse provider (Executable spec) = Inr ()"
    and "po_executor spec = Executor_Http profile method template"
  shows "inside_audience template \<and> (\<exists>p \<in> set (ps_auth_profiles provider). ap_id p = profile)
    \<and> (po_risk spec = Risk_Read \<longrightarrow> eq_ignore_ascii_case method ''GET'')"
  using assms
  by (auto simp: validate_operation_def is_safe_template_def inside_audience_def list_ex_iff Let_def split: if_splits)

section \<open>The catalog holds validated packs only\<close>

definition catalog_valid :: "(string \<Rightarrow> url option) \<Rightarrow> provider_catalog \<Rightarrow> bool" where
  "catalog_valid parse catalog \<longleftrightarrow>
     (\<forall>(provider, spec) \<in> set (pc_providers catalog). ps_id spec = provider \<and> validate_provider parse spec = Inr ())
   \<and> distinct (map fst (pc_providers catalog))
   \<and> set (pc_executable_providers catalog) \<subseteq> fst ` set (pc_providers catalog)"

lemma add_document_valid:
  "add_document parse read_spec trusted catalog document = Inr catalog' \<Longrightarrow> catalog_valid parse catalog
    \<Longrightarrow> catalog_valid parse catalog'"
  by (auto simp: add_document_def catalog_valid_def split: option.splits if_splits)

lemma from_documents_valid:
  assumes "from_documents_with_trust parse read_spec documents trusted = Inr catalog"
  shows "catalog_valid parse catalog"
  using assms unfolding from_documents_with_trust_def
  by (rule foldE_invariant [where P = "catalog_valid parse"]) (simp add: catalog_valid_def, rule add_document_valid)

lemma foldE_unit_all: "foldE (\<lambda>_ x. f x) () xs = Inr u \<Longrightarrow> x \<in> set xs \<Longrightarrow> f x = Inr ()"
  by (induction xs) auto

lemma catalog_operation_valid:
  assumes "catalog_valid parse catalog" and "catalog_executable_operation catalog provider operation = Some spec"
  obtains pack where "catalog_get catalog provider = Some pack" "validate_provider parse pack = Inr ()"
    "validate_operation parse pack (Executable spec) = Inr ()"
proof -
  from assms(2) obtain pack where pack: "catalog_get catalog provider = Some pack"
    and op: "spec_executable_operation pack operation = Some spec"
    by (auto simp: catalog_executable_operation_def split: if_splits Option.bind_splits)
  then have valid: "validate_provider parse pack = Inr ()"
    using assms(1) by (auto simp: catalog_valid_def catalog_get_def dest: map_of_SomeD)
  have "Executable spec \<in> set (map snd (ps_operations pack))"
    using op by (force simp: spec_executable_operation_def dest: map_of_SomeD split: option.splits operation_spec.splits)
  moreover from valid have "foldE (\<lambda>_. validate_operation parse pack) () (map snd (ps_operations pack)) = Inr ()"
    by (auto simp: validate_provider_def split: if_splits)
  ultimately have "validate_operation parse pack (Executable spec) = Inr ()"
    using foldE_unit_all [of "validate_operation parse pack"] by blast
  with that pack valid show thesis by blast
qed

text \<open>
  Claim C34. Arguments cannot steer a typed operation out of its provider: for every operation of a
  catalog read from provider packs, whatever arguments the caller supplies, a resolved path starts
  with one slash, has no \<open>..\<close> segment and no placeholder left; its profile is one of the pack's, and a
  read operation uses GET.
\<close>

theorem resolved_path_inside_audience:
  assumes "from_documents_with_trust parse read_spec documents trusted = Inr catalog"
    and "catalog_executable_operation catalog provider operation = Some spec"
    and "po_executor spec = Executor_Http profile method template"
    and "resolve_path (po_input_schema spec) template arguments = Inr path"
  shows "inside_audience path \<and> \<not> contains_str path ''{'' \<and> \<not> contains_str path ''}''
    \<and> trusted \<and> catalog_profile catalog provider profile \<noteq> None
    \<and> (po_risk spec = Risk_Read \<longrightarrow> eq_ignore_ascii_case method ''GET'')"
proof -
  obtain pack where pack: "catalog_get catalog provider = Some pack"
    and op: "validate_operation parse pack (Executable spec) = Inr ()"
    using catalog_operation_valid [OF from_documents_valid [OF assms(1)] assms(2)] by metis
  have "pc_executable_providers catalog = [] \<or> trusted"
    using assms(1) unfolding from_documents_with_trust_def
    by (rule foldE_invariant) (auto simp: add_document_def split: option.splits if_splits)
  then have "trusted" using assms(2) by (auto simp: catalog_executable_operation_def)
  moreover note validated_operation_inside [OF op assms(3)]
  moreover from this have "catalog_profile catalog provider profile \<noteq> None"
    using pack by (auto simp: catalog_profile_def find_None_iff)
  moreover have "\<not> contains_str path ''{'' \<and> \<not> contains_str path ''}''"
    using assms(4) by (auto simp: resolve_path_def Let_def split: option.splits if_splits)
  ultimately show ?thesis using resolve_path_inside [OF assms(4)] by blast
qed

definition sample_profile :: auth_profile where
  "sample_profile = \<lparr>ap_id = ''token'', ap_method = ApiToken, ap_audience = ''https://api.x'', ap_issuer = None,
     ap_authorization_url = None, ap_authorization_parameters = [], ap_token_url = None,
     ap_device_authorization_url = None,
     ap_identity = \<lparr>is_url = ''https://api.x/me'', is_selectors = [''/login''], is_required = []\<rparr>,
     ap_client = \<lparr>cl_mode = Mode_Public, cl_client_id = None, cl_client_id_env = None\<rparr>, ap_scopes = [],
     ap_credential_header = None, ap_creation_url = None, ap_credential_fields = [], ap_oauth_lifecycle = None\<rparr>"

definition sample_operation :: provider_operation where
  "sample_operation = \<lparr>po_description = ''read an issue'', po_risk = Risk_Read, po_scopes = [], po_input_schema = JNull,
     po_result_schema = JNull, po_executor = Executor_Http ''token'' ''get'' ''/repos/{repo}/issues''\<rparr>"

definition sample_pack :: provider_spec where
  "sample_pack = \<lparr>ps_schema_version = ''elegy-account-provider/v2'', ps_id = ''x'', ps_display_name = ''X'',
     ps_version = ''1'', ps_publisher = ''p'', ps_browser_origins = [], ps_auth_profiles = [sample_profile],
     ps_operations = [(''read'', Executable sample_operation)]\<rparr>"

definition sample_parse :: "string \<Rightarrow> url option" where
  "sample_parse s = (if starts_with s ''https://'' then Some \<lparr>u_text = s, u_scheme = ''https'', u_username = [],
     u_password = None, u_host = Some ''api.x'', u_port_or_default = Some 443, u_path = ''/'', u_query = None,
     u_fragment = None\<rparr> else None)"

theorem resolved_path_inside_audience_witness:
  "\<exists>catalog. from_documents_with_trust sample_parse (\<lambda>_. Some sample_pack) [''doc''] True = Inr catalog
     \<and> resolve_path (po_input_schema sample_operation) ''/repos/{repo}/issues'' (JObj [(''repo'', JStr ''elegy'')]) =
         Inr ''/repos/elegy/issues''
     \<and> inside_audience ''/repos/elegy/issues''"
proof -
  have "validate_provider sample_parse sample_pack = Inr ()"
    by code_simp
  then obtain catalog where cat: "from_documents_with_trust sample_parse (\<lambda>_. Some sample_pack) [''doc''] True = Inr catalog"
    and op: "catalog_executable_operation catalog ''x'' ''read'' = Some sample_operation"
    by (simp add: from_documents_with_trust_def add_document_def catalog_executable_operation_def catalog_get_def
        spec_executable_operation_def sample_pack_def)
  have path: "resolve_path (po_input_schema sample_operation) ''/repos/{repo}/issues'' (JObj [(''repo'', JStr ''elegy'')]) =
         Inr ''/repos/elegy/issues''"
    by code_simp
  from resolved_path_inside_audience [OF cat op _ path] cat path show ?thesis
    by (simp add: sample_operation_def)
qed

end
