(* ===== verification/AccountAdapter.thy ===== *)
theory AccountAdapter
  imports AccountBroker AccountProvider
begin

text \<open>
  \<open>adapter.rs\<close> of the accounts daemon: the OAuth and token adapters that talk to a provider. A program now
  runs against the vault and the network; \<open>nw_sent\<close> is the list of requests handed to the HTTP client,
  whose answer (nothing on a network error) is a parameter.
\<close>

section \<open>The network\<close>

datatype http_auth =
    No_auth
  | Bearer string
  | Basic string string
  | Custom_header string string

record http_request =
  hr_method :: string
  hr_url :: string
  hr_auth :: http_auth
  hr_form :: "(string \<times> string) list"
  hr_json :: "json option"

record http_response =
  hs_status :: nat
  hs_body :: "json option"

record net_world =
  nw_vault :: vault_db
  nw_sent :: "http_request list"

record oauth_credential =
  oc_version :: string
  oc_access_token :: string
  oc_refresh_token :: string
  oc_scopes :: "string list"
  oc_expires_at :: string

record credential_envelope =
  cv_version :: string
  cv_fields :: "(string \<times> string) list"

record net_env =
  ne_accounts :: account_env
  ne_send :: "nat \<Rightarrow> http_request \<Rightarrow> http_response option"
  ne_parse_url :: "string \<Rightarrow> url option"
  ne_env_var :: "string \<Rightarrow> string option"
  ne_pointer :: "string \<Rightarrow> json \<Rightarrow> json option"
  ne_read_oauth :: "string \<Rightarrow> oauth_credential option"
  ne_print_oauth :: "oauth_credential \<Rightarrow> string option"
  ne_read_envelope :: "string \<Rightarrow> credential_envelope option"
  ne_print_envelope :: "auth_method \<Rightarrow> (string \<times> string) list \<Rightarrow> string option"
  ne_header_valid :: "string \<Rightarrow> string \<Rightarrow> bool"

primrec in_vault :: "(vault_db, 'a) prog \<Rightarrow> (net_world, 'a) prog" where
  "in_vault (Ret x) = Ret x"
| "in_vault (Act f) = Act (\<lambda>w. case (map_prod in_vault id \<circ> f) (nw_vault w) of (p, s) \<Rightarrow> (p, w\<lparr>nw_vault := s\<rparr>))"

lemma run_in_vault [simp]:
  "run (in_vault p) w = (case run p (nw_vault w) of (x, s) \<Rightarrow> (x, w\<lparr>nw_vault := s\<rparr>))"
proof (induction p arbitrary: w)
  case (Act f)
  have "run (in_vault (fst (f s))) w =
      (case run (fst (f s)) (nw_vault w) of (x, s) \<Rightarrow> (x, w\<lparr>nw_vault := s\<rparr>))" for s w
    by (rule Act.IH) (auto intro: fsts.intros)
  then show ?case by (simp add: case_prod_beta)
qed simp

definition send :: "net_env \<Rightarrow> http_request \<Rightarrow> (net_world, http_response option) prog" where
  "send env request = act (\<lambda>w. (ne_send env (length (nw_sent w)) request, w\<lparr>nw_sent := nw_sent w @ [request]\<rparr>))"

definition net_now :: "net_env \<Rightarrow> (net_world, int) prog" where
  "net_now env = in_vault (utc_now (ne_accounts env))"

definition is_success :: "nat \<Rightarrow> bool" where
  "is_success status \<longleftrightarrow> 200 \<le> status \<and> status < 300"

section \<open>Errors and credentials\<close>

text \<open>\<open>Panic\<close> is a panic of \<open>chrono\<close> on a time or duration out of range, which no caller catches.\<close>

datatype adapter_error =
    AdapterError_Network
  | AdapterError_TokenRejected
  | AdapterError_InvalidToken
  | AdapterError_IdentityRejected
  | AdapterError_UnverifiedIdentity
  | AdapterError_MissingFields
  | AdapterError_ReducedScopes
  | AdapterError_RevocationPending
  | AdapterError_RefreshConflict
  | Panic

type_synonym 'a adapter_op = "(net_world, adapter_error + 'a) prog"

record oauth_adapter_config =
  oa_provider :: string
  oa_client_id :: string
  oa_token_url :: string
  oa_identity :: identity_spec
  oa_required_scopes :: "string list"

record token_adapter_config =
  ta_provider :: string
  ta_identity :: identity_spec
  ta_header :: string
  ta_prefix :: string

record verified_credential =
  vc_provider :: string
  vc_identity :: string
  vc_secret :: string

definition need :: "'a option \<Rightarrow> adapter_error \<Rightarrow> adapter_error + 'a" where
  "need x e = (case x of None \<Rightarrow> Inl e | Some v \<Rightarrow> Inr v)"

lemma need_Inr [simp]: "need x e = Inr v \<longleftrightarrow> x = Some v"
  by (cases x) (auto simp: need_def)

definition non_empty :: "string option \<Rightarrow> string option" where
  "non_empty x = (case x of None \<Rightarrow> None | Some v \<Rightarrow> if v = [] then None else Some v)"

lemma non_empty_Some [simp]: "non_empty x = Some v \<longleftrightarrow> x = Some v \<and> v \<noteq> []"
  by (cases x) (auto simp: non_empty_def)

definition oauth_from_secret :: "net_env \<Rightarrow> string \<Rightarrow> adapter_error + oauth_credential" where
  "oauth_from_secret env secret =
     tryE (need (ne_read_oauth env secret) AdapterError_InvalidToken) (\<lambda>credential.
     if oc_version credential \<noteq> ''elegy-oauth-credential/v1'' \<or> oc_access_token credential = []
       \<or> oc_refresh_token credential = []
     then Inl AdapterError_InvalidToken else Inr credential)"

definition oauth_to_secret :: "net_env \<Rightarrow> oauth_credential \<Rightarrow> adapter_error + string" where
  "oauth_to_secret env credential = need (ne_print_oauth env credential) AdapterError_InvalidToken"

definition expires_within :: "net_env \<Rightarrow> oauth_credential \<Rightarrow> int \<Rightarrow> bool adapter_op" where
  "expires_within env credential duration =
     (case env_parse_rfc3339 (ne_accounts env) (oc_expires_at credential) of
        None \<Rightarrow> Ret (Inl AdapterError_InvalidToken)
      | Some expires_at \<Rightarrow> bindP (net_now env) (\<lambda>now. Ret (Inr (expires_at \<le> now + duration))))"

section \<open>Reading token responses\<close>

fun split_whitespace :: "string \<Rightarrow> string \<Rightarrow> string list" where
  "split_whitespace acc [] = (if acc = [] then [] else [acc])"
| "split_whitespace acc (c # cs) =
     (if is_whitespace c then (if acc = [] then split_whitespace [] cs else acc # split_whitespace [] cs)
      else split_whitespace (acc @ [c]) cs)"

definition token_scopes :: "json \<Rightarrow> string list option" where
  "token_scopes body =
     (case Option.bind (json_get ''scope'' body) json_as_str of
        Some scope \<Rightarrow> Some (split_whitespace [] scope)
      | None \<Rightarrow> map_option (List.map_filter json_as_str) (Option.bind (json_get ''scopes'' body) json_as_array))"

definition require_scopes :: "string list \<Rightarrow> string list \<Rightarrow> adapter_error + unit" where
  "require_scopes granted required =
     (if list_all (\<lambda>scope. list_ex (\<lambda>g. g = scope) granted) required then Inr () else Inl AdapterError_ReducedScopes)"

fun json_as_i64 :: "json \<Rightarrow> int option" where
  "json_as_i64 (JInt i) = (if - (2 ^ 63) \<le> i \<and> i < 2 ^ 63 then Some i else None)"
| "json_as_i64 _ = None"

text \<open>
  \<open>Duration::seconds\<close> panics beyond \<open>i64::MAX\<close> milliseconds, and the addition to the clock beyond the last
  instant of the year 262142.
\<close>

definition max_duration_seconds :: int where
  "max_duration_seconds = (2 ^ 63 - 1) div 1000"

definition max_utc :: int where
  "max_utc = 8210266876799999999999"

definition expiry_from :: "net_env \<Rightarrow> json \<Rightarrow> string adapter_op" where
  "expiry_from env body =
     (case Option.bind (json_get ''expires_in'' body) json_as_i64 of
        None \<Rightarrow> Ret (Inl AdapterError_InvalidToken)
      | Some expires_in \<Rightarrow>
          if expires_in \<le> 0 then Ret (Inl AdapterError_InvalidToken)
          else bindP (net_now env) (\<lambda>now.
            if expires_in > max_duration_seconds \<or> now + expires_in * 1000000000 > max_utc then Ret (Inl Panic)
            else Ret (Inr (env_to_rfc3339 (ne_accounts env) (now + expires_in * 1000000000)))))"

definition verified_identity :: "net_env \<Rightarrow> json \<Rightarrow> identity_spec \<Rightarrow> adapter_error + string" where
  "verified_identity env body spec =
     (if list_ex (\<lambda>(pointer, expected). ne_pointer env pointer body \<noteq> Some expected) (is_required spec)
      then Inl AdapterError_IdentityRejected
      else case List.map_filter (\<lambda>pointer. ne_pointer env pointer body) (is_selectors spec) of
        [] \<Rightarrow> Inl AdapterError_UnverifiedIdentity
      | v # _ \<Rightarrow>
        (case v of
           JStr t \<Rightarrow> if t = [] then Inl AdapterError_UnverifiedIdentity else Inr t
         | JInt i \<Rightarrow> Inr (show_int i)
         | JFloat t \<Rightarrow> Inr t
         | _ \<Rightarrow> Inl AdapterError_UnverifiedIdentity))"

text \<open>A request, its status and its JSON body, as every adapter asks for them.\<close>

definition fetch_json :: "net_env \<Rightarrow> http_request \<Rightarrow> adapter_error \<Rightarrow> adapter_error \<Rightarrow> json adapter_op" where
  "fetch_json env request rejected invalid =
     bindP (send env request) (\<lambda>response.
     Ret (case response of
        None \<Rightarrow> Inl AdapterError_Network
      | Some r \<Rightarrow> if \<not> is_success (hs_status r) then Inl rejected else need (hs_body r) invalid))"

section \<open>Adapters\<close>

definition get_request_with :: "string \<Rightarrow> http_auth \<Rightarrow> http_request" where
  "get_request_with url auth = \<lparr>hr_method = ''GET'', hr_url = url, hr_auth = auth, hr_form = [], hr_json = None\<rparr>"

definition post_form :: "string \<Rightarrow> (string \<times> string) list \<Rightarrow> http_request" where
  "post_form url form = \<lparr>hr_method = ''POST'', hr_url = url, hr_auth = No_auth, hr_form = form, hr_json = None\<rparr>"

definition client_credentials_form :: "string \<Rightarrow> string \<Rightarrow> auth_profile \<Rightarrow> (string \<times> string) list" where
  "client_credentials_form client_id client_secret profile =
     [(''grant_type'', ''client_credentials''), (''client_id'', client_id), (''client_secret'', client_secret),
      (''scope'', join '' '' (ap_scopes profile))]"

definition verify_credentials ::
  "net_env \<Rightarrow> string \<Rightarrow> auth_profile \<Rightarrow> (string \<times> string) list \<Rightarrow> verified_credential adapter_op" where
  "verify_credentials env provider profile entered =
     (let identity_request =
        (case ap_method profile of
           HttpBasic \<Rightarrow>
             tryP (Ret (need (non_empty (map_of entered ''username'')) AdapterError_MissingFields)) (\<lambda>username.
             tryP (Ret (need (non_empty (map_of entered ''password'')) AdapterError_MissingFields)) (\<lambda>password.
             Ret (Inr (get_request_with (is_url (ap_identity profile)) (Basic username password)))))
         | ClientCredentials \<Rightarrow>
             tryP (Ret (need (non_empty (map_of entered ''client_id'')) AdapterError_MissingFields)) (\<lambda>client_id.
             tryP (Ret (need (non_empty (map_of entered ''client_secret'')) AdapterError_MissingFields)) (\<lambda>client_secret.
             tryP (Ret (need (ap_token_url profile) AdapterError_MissingFields)) (\<lambda>token_url.
             tryP (fetch_json env (post_form token_url (client_credentials_form client_id client_secret profile))
               AdapterError_TokenRejected AdapterError_InvalidToken) (\<lambda>token_json.
             tryP (Ret (need (Option.bind (json_get ''access_token'' token_json) json_as_str) AdapterError_InvalidToken))
               (\<lambda>access_token.
             Ret (Inr (get_request_with (is_url (ap_identity profile)) (Bearer access_token))))))))
         | _ \<Rightarrow> Ret (Inl AdapterError_MissingFields)) in
      tryP identity_request (\<lambda>request.
      tryP (fetch_json env request AdapterError_IdentityRejected AdapterError_UnverifiedIdentity) (\<lambda>identity_json.
      tryP (Ret (verified_identity env identity_json (ap_identity profile))) (\<lambda>identity.
      tryP (Ret (need (ne_print_envelope env (ap_method profile) entered) AdapterError_InvalidToken)) (\<lambda>secret.
      Ret (Inr \<lparr>vc_provider = provider, vc_identity = identity, vc_secret = secret\<rparr>))))))"

definition exchange_and_verify ::
  "net_env \<Rightarrow> oauth_adapter_config \<Rightarrow> string \<Rightarrow> string \<Rightarrow> string \<Rightarrow> verified_credential adapter_op" where
  "exchange_and_verify env config code verifier redirect_uri =
     tryP (fetch_json env (post_form (oa_token_url config)
         [(''grant_type'', ''authorization_code''), (''client_id'', oa_client_id config), (''code'', code),
          (''redirect_uri'', redirect_uri), (''code_verifier'', verifier)])
       AdapterError_TokenRejected AdapterError_InvalidToken) (\<lambda>token_json.
     tryP (Ret (need (Option.bind (json_get ''access_token'' token_json) json_as_str) AdapterError_InvalidToken)) (\<lambda>token.
     tryP (Ret (need (non_empty (Option.bind (json_get ''refresh_token'' token_json) json_as_str)) AdapterError_InvalidToken))
       (\<lambda>refresh_token.
     tryP (Ret (need (token_scopes token_json) AdapterError_InvalidToken)) (\<lambda>scopes.
     tryP (Ret (require_scopes scopes (oa_required_scopes config))) (\<lambda>_.
     tryP (expiry_from env token_json) (\<lambda>expires_at.
     tryP (fetch_json env (get_request_with (is_url (oa_identity config)) (Bearer token))
       AdapterError_IdentityRejected AdapterError_UnverifiedIdentity) (\<lambda>identity_json.
     tryP (Ret (verified_identity env identity_json (oa_identity config))) (\<lambda>identity.
     tryP (Ret (oauth_to_secret env
       \<lparr>oc_version = ''elegy-oauth-credential/v1'', oc_access_token = token, oc_refresh_token = refresh_token,
        oc_scopes = scopes, oc_expires_at = expires_at\<rparr>)) (\<lambda>secret.
     Ret (Inr \<lparr>vc_provider = oa_provider config, vc_identity = identity, vc_secret = secret\<rparr>))))))))))"

definition refresh_oauth_credential ::
  "net_env \<Rightarrow> oauth_adapter_config \<Rightarrow> oauth_lifecycle \<Rightarrow> oauth_credential \<Rightarrow> oauth_credential adapter_op" where
  "refresh_oauth_credential env config lifecycle current =
     tryP (fetch_json env (post_form (ol_refresh_url lifecycle)
         [(''grant_type'', ''refresh_token''), (''client_id'', oa_client_id config),
          (''refresh_token'', oc_refresh_token current)])
       AdapterError_TokenRejected AdapterError_InvalidToken) (\<lambda>body.
     tryP (Ret (need (non_empty (Option.bind (json_get ''access_token'' body) json_as_str)) AdapterError_InvalidToken))
       (\<lambda>access_token.
     let scopes = (case token_scopes body of None \<Rightarrow> oc_scopes current | Some scopes \<Rightarrow> scopes) in
     tryP (Ret (require_scopes scopes (oa_required_scopes config))) (\<lambda>_.
     tryP (expiry_from env body) (\<lambda>expires_at.
     Ret (Inr \<lparr>oc_version = oc_version current, oc_access_token = access_token,
       oc_refresh_token = (case non_empty (Option.bind (json_get ''refresh_token'' body) json_as_str) of
          None \<Rightarrow> oc_refresh_token current | Some t \<Rightarrow> t),
       oc_scopes = scopes, oc_expires_at = expires_at\<rparr>)))))"

text \<open>\<open>std::str::from_utf8\<close>: the well-formed byte sequences.\<close>

definition cont_byte :: "nat \<Rightarrow> bool" where
  "cont_byte b \<longleftrightarrow> 128 \<le> b \<and> b \<le> 191"

fun utf8_bytes :: "nat list \<Rightarrow> bool" where
  "utf8_bytes [] = True"
| "utf8_bytes (a # bs) =
     (if a < 128 then utf8_bytes bs
      else case bs of
        [] \<Rightarrow> False
      | b # cs \<Rightarrow>
          if 194 \<le> a \<and> a \<le> 223 then cont_byte b \<and> utf8_bytes cs
          else (case cs of
            [] \<Rightarrow> False
          | c # ds \<Rightarrow>
              if a = 224 then 160 \<le> b \<and> b \<le> 191 \<and> cont_byte c \<and> utf8_bytes ds
              else if a = 237 then 128 \<le> b \<and> b \<le> 159 \<and> cont_byte c \<and> utf8_bytes ds
              else if 225 \<le> a \<and> a \<le> 239 then cont_byte b \<and> cont_byte c \<and> utf8_bytes ds
              else (case ds of
                [] \<Rightarrow> False
              | d # es \<Rightarrow>
                  (a = 240 \<and> 144 \<le> b \<and> b \<le> 191 \<or> 241 \<le> a \<and> a \<le> 243 \<and> cont_byte b \<or> a = 244 \<and> 128 \<le> b \<and> b \<le> 143)
                  \<and> cont_byte c \<and> cont_byte d \<and> utf8_bytes es)))"

definition from_utf8 :: "string \<Rightarrow> string option" where
  "from_utf8 s = (if utf8_bytes (map of_char s) then Some s else None)"

definition refresh_stored_oauth_credential ::
  "net_env \<Rightarrow> string \<Rightarrow> oauth_adapter_config \<Rightarrow> oauth_lifecycle \<Rightarrow> oauth_credential adapter_op" where
  "refresh_stored_oauth_credential env account_id config lifecycle =
     tryP (map_ret (map_err (\<lambda>_. AdapterError_InvalidToken)) (in_vault (load_secret_versioned (ne_accounts env) account_id)))
       (\<lambda>(secret, generation).
     tryP (Ret (tryE (need (from_utf8 secret) AdapterError_InvalidToken) (oauth_from_secret env))) (\<lambda>current.
     tryP (refresh_oauth_credential env config lifecycle current) (\<lambda>refreshed.
     tryP (Ret (oauth_to_secret env refreshed)) (\<lambda>replacement.
     tryP (map_ret (map_err (\<lambda>e. if e = VaultError_Conflict then AdapterError_RefreshConflict else AdapterError_InvalidToken))
       (in_vault (replace_secret_if_generation (ne_accounts env) account_id generation replacement))) (\<lambda>_.
     Ret (Inr refreshed))))))"

definition revoke_oauth_credential ::
  "net_env \<Rightarrow> oauth_lifecycle \<Rightarrow> oauth_credential \<Rightarrow> unit adapter_op" where
  "revoke_oauth_credential env lifecycle credential =
     bindP (send env (post_form (ol_revocation_url lifecycle)
       ((''token'', oc_refresh_token credential) #
        (case ol_revocation_token_type_hint lifecycle of None \<Rightarrow> [] | Some hint \<Rightarrow> [(''token_type_hint'', hint)])))) (\<lambda>response.
     Ret (case response of
        None \<Rightarrow> Inl AdapterError_Network
      | Some r \<Rightarrow> if is_success (hs_status r) then Inr () else Inl AdapterError_RevocationPending))"

definition verify_token :: "net_env \<Rightarrow> token_adapter_config \<Rightarrow> string \<Rightarrow> verified_credential adapter_op" where
  "verify_token env config token =
     (if trim token = [] \<or> 4096 < length token then Ret (Inl AdapterError_InvalidToken)
      else if \<not> ne_header_valid env (ta_header config) (ta_prefix config @ token) then Ret (Inl AdapterError_InvalidToken)
      else
        tryP (fetch_json env (get_request_with (is_url (ta_identity config))
            (Custom_header (ta_header config) (ta_prefix config @ token)))
          AdapterError_TokenRejected AdapterError_InvalidToken) (\<lambda>body.
        tryP (Ret (verified_identity env body (ta_identity config))) (\<lambda>identity.
        Ret (Inr \<lparr>vc_provider = ta_provider config, vc_identity = identity, vc_secret = token\<rparr>))))"

end
