(* ===== verification/AccountProtocol.thy ===== *)
theory AccountProtocol
  imports Json
begin

text \<open>
  \<open>protocol.rs\<close> of the accounts daemon: the two kinds of signed envelope, their signing and
  verification, and the \<open>ReplayGuard\<close>. HMAC-SHA-256, base64, \<open>serde_json\<close> and \<open>chrono\<close> are parameters.
  The locale \<open>guarded_verifier\<close> is the contract both verifications keep with the replay guard; what
  follows from it is proved once.
\<close>

section \<open>Envelopes\<close>

record typed_execution_request =
  ter_client_id :: string
  ter_purpose_class :: string
  ter_provider :: string
  ter_operation :: string
  ter_account_id :: "string option"
  ter_arguments :: json

datatype connection_control_operation =
    Control_List
  | Control_Start string
  | Control_Session string
  | Control_Verify string
  | Control_DisconnectPreview string
  | Control_DisconnectExecute string string

record execution_envelope =
  ee_schema_version :: string
  ee_issued_at :: string
  ee_nonce :: string
  ee_request :: typed_execution_request
  ee_signature :: string

record connection_control_envelope =
  ce_schema_version :: string
  ce_issued_at :: string
  ce_nonce :: string
  ce_client_id :: string
  ce_request :: connection_control_operation
  ce_signature :: string

record replay_guard =
  rg_seen :: "string \<rightharpoonup> int"

datatype execution_protocol_error =
    UnsupportedVersion | WrongClient | Stale | InvalidSignature | Replay | Serialization

record protocol_env =
  pe_to_rfc3339 :: "int \<Rightarrow> string"
  pe_parse_rfc3339 :: "string \<Rightarrow> int option"
  pe_execution_json :: "string \<Rightarrow> string \<Rightarrow> string \<Rightarrow> typed_execution_request \<Rightarrow> string option"
  pe_control_json :: "string \<Rightarrow> string \<Rightarrow> string \<Rightarrow> string \<Rightarrow> connection_control_operation \<Rightarrow> string option"
  pe_hmac :: "string \<Rightarrow> (string \<Rightarrow> string) option"
  pe_base64_encode :: "string \<Rightarrow> string"
  pe_base64_decode :: "string \<Rightarrow> string option"

definition PROTOCOL_VERSION :: string where
  "PROTOCOL_VERSION = ''elegy-account-execution/v1''"

definition CONNECTION_CONTROL_PROTOCOL_VERSION :: string where
  "CONNECTION_CONTROL_PROTOCOL_VERSION = ''elegy-connection-control/v1''"

definition MAX_CLOCK_SKEW :: int where
  "MAX_CLOCK_SKEW = 2 * 60 * 1000000000"

section \<open>Replay guard\<close>

definition retain_recent :: "int \<Rightarrow> (string \<rightharpoonup> int) \<Rightarrow> (string \<rightharpoonup> int)" where
  "retain_recent now seen =
     (\<lambda>n. case seen n of None \<Rightarrow> None | Some seen_at \<Rightarrow> if now - MAX_CLOCK_SKEW \<le> seen_at then Some seen_at else None)"

definition check_and_record ::
  "string \<Rightarrow> int \<Rightarrow> int \<Rightarrow> replay_guard \<Rightarrow> (execution_protocol_error + unit) \<times> replay_guard" where
  "check_and_record nonce issued_at now guard =
     (let seen = retain_recent now (rg_seen guard) in
      if nonce = [] \<or> seen nonce \<noteq> None then (Inl Replay, guard\<lparr>rg_seen := seen\<rparr>)
      else (Inr (), guard\<lparr>rg_seen := seen(nonce \<mapsto> issued_at)\<rparr>))"

section \<open>Signing\<close>

definition signing_payload :: "protocol_env \<Rightarrow> execution_envelope \<Rightarrow> execution_protocol_error + string" where
  "signing_payload env envelope =
     (case pe_execution_json env (ee_schema_version envelope) (ee_issued_at envelope) (ee_nonce envelope)
        (ee_request envelope) of
        None \<Rightarrow> Inl Serialization | Some payload \<Rightarrow> Inr payload)"

definition signature_for :: "protocol_env \<Rightarrow> execution_envelope \<Rightarrow> string \<Rightarrow> execution_protocol_error + string" where
  "signature_for env envelope key =
     tryE (signing_payload env envelope) (\<lambda>payload.
     case pe_hmac env key of
       None \<Rightarrow> Inl InvalidSignature
     | Some mac \<Rightarrow> Inr (pe_base64_encode env (mac payload)))"

definition execution_sign ::
  "protocol_env \<Rightarrow> typed_execution_request \<Rightarrow> string \<Rightarrow> int \<Rightarrow> string \<Rightarrow> execution_protocol_error + execution_envelope" where
  "execution_sign env request key issued_at nonce =
     (let envelope = \<lparr>ee_schema_version = PROTOCOL_VERSION, ee_issued_at = pe_to_rfc3339 env issued_at,
            ee_nonce = nonce, ee_request = request, ee_signature = []\<rparr> in
      tryE (signature_for env envelope key) (\<lambda>signature. Inr (envelope\<lparr>ee_signature := signature\<rparr>)))"

definition connection_signing_payload ::
  "protocol_env \<Rightarrow> connection_control_envelope \<Rightarrow> execution_protocol_error + string" where
  "connection_signing_payload env envelope =
     (case pe_control_json env (ce_schema_version envelope) (ce_issued_at envelope) (ce_nonce envelope)
        (ce_client_id envelope) (ce_request envelope) of
        None \<Rightarrow> Inl Serialization | Some payload \<Rightarrow> Inr payload)"

definition connection_signature_for ::
  "protocol_env \<Rightarrow> connection_control_envelope \<Rightarrow> string \<Rightarrow> execution_protocol_error + string" where
  "connection_signature_for env envelope key =
     tryE (connection_signing_payload env envelope) (\<lambda>payload.
     case pe_hmac env key of
       None \<Rightarrow> Inl InvalidSignature
     | Some mac \<Rightarrow> Inr (pe_base64_encode env (mac payload)))"

definition control_sign ::
  "protocol_env \<Rightarrow> string \<Rightarrow> connection_control_operation \<Rightarrow> string \<Rightarrow> int \<Rightarrow> string
    \<Rightarrow> execution_protocol_error + connection_control_envelope" where
  "control_sign env client_id request key issued_at nonce =
     (let envelope = \<lparr>ce_schema_version = CONNECTION_CONTROL_PROTOCOL_VERSION,
            ce_issued_at = pe_to_rfc3339 env issued_at, ce_nonce = nonce, ce_client_id = client_id,
            ce_request = request, ce_signature = []\<rparr> in
      tryE (connection_signature_for env envelope key) (\<lambda>signature. Inr (envelope\<lparr>ce_signature := signature\<rparr>)))"

section \<open>Verification\<close>

text \<open>The tail of both \<open>verify\<close> functions: the MAC over the payload, compared as a whole.\<close>

definition verify_mac :: "protocol_env \<Rightarrow> string \<Rightarrow> string \<Rightarrow> execution_protocol_error + string
    \<Rightarrow> execution_protocol_error + unit" where
  "verify_mac env key signature payload =
     (case pe_base64_decode env signature of
        None \<Rightarrow> Inl InvalidSignature
      | Some tag \<Rightarrow>
          tryE payload (\<lambda>payload.
          case pe_hmac env key of
            None \<Rightarrow> Inl InvalidSignature
          | Some mac \<Rightarrow> if mac payload = tag then Inr () else Inl InvalidSignature))"

definition check_issued_at :: "protocol_env \<Rightarrow> string \<Rightarrow> int \<Rightarrow> execution_protocol_error + int" where
  "check_issued_at env issued now =
     (case pe_parse_rfc3339 env issued of
        None \<Rightarrow> Inl Stale
      | Some issued_at \<Rightarrow>
          if issued_at < now - MAX_CLOCK_SKEW \<or> now + MAX_CLOCK_SKEW < issued_at then Inl Stale else Inr issued_at)"

definition execution_verify ::
  "protocol_env \<Rightarrow> execution_envelope \<Rightarrow> string \<Rightarrow> string \<Rightarrow> int \<Rightarrow> replay_guard
    \<Rightarrow> (execution_protocol_error + typed_execution_request) \<times> replay_guard" where
  "execution_verify env envelope key expected_client now replay =
     (if ee_schema_version envelope \<noteq> PROTOCOL_VERSION then (Inl UnsupportedVersion, replay)
      else if ter_client_id (ee_request envelope) \<noteq> expected_client then (Inl WrongClient, replay)
      else case check_issued_at env (ee_issued_at envelope) now of
        Inl e \<Rightarrow> (Inl e, replay)
      | Inr issued_at \<Rightarrow>
        (case verify_mac env key (ee_signature envelope) (signing_payload env envelope) of
           Inl e \<Rightarrow> (Inl e, replay)
         | Inr _ \<Rightarrow>
           (case check_and_record (ee_nonce envelope) issued_at now replay of
              (Inl e, replay') \<Rightarrow> (Inl e, replay')
            | (Inr _, replay') \<Rightarrow> (Inr (ee_request envelope), replay'))))"

definition control_verify ::
  "protocol_env \<Rightarrow> connection_control_envelope \<Rightarrow> string \<Rightarrow> string \<Rightarrow> int \<Rightarrow> replay_guard
    \<Rightarrow> (execution_protocol_error + connection_control_operation) \<times> replay_guard" where
  "control_verify env envelope key expected_client now replay =
     (if ce_schema_version envelope \<noteq> CONNECTION_CONTROL_PROTOCOL_VERSION then (Inl UnsupportedVersion, replay)
      else if ce_client_id envelope \<noteq> expected_client then (Inl WrongClient, replay)
      else case check_issued_at env (ce_issued_at envelope) now of
        Inl e \<Rightarrow> (Inl e, replay)
      | Inr issued_at \<Rightarrow>
        (case verify_mac env key (ce_signature envelope) (connection_signing_payload env envelope) of
           Inl e \<Rightarrow> (Inl e, replay)
         | Inr _ \<Rightarrow>
           (case check_and_record (ce_nonce envelope) issued_at now replay of
              (Inl e, replay') \<Rightarrow> (Inl e, replay')
            | (Inr _, replay') \<Rightarrow> (Inr (ce_request envelope), replay'))))"

section \<open>The contract with the replay guard\<close>

text \<open>The daemon's loop: messages verified one after the other against one guard, with their results.\<close>

fun verify_all :: "('m \<Rightarrow> int \<Rightarrow> replay_guard \<Rightarrow> (execution_protocol_error + 'r) \<times> replay_guard)
    \<Rightarrow> replay_guard \<Rightarrow> (int \<times> 'm) list \<Rightarrow> ('m \<times> (execution_protocol_error + 'r)) list" where
  "verify_all verify g [] = []"
| "verify_all verify g ((now, m) # rest) =
     (case verify m now g of (r, g') \<Rightarrow> (m, r) # verify_all verify g' rest)"

text \<open>
  A verification that succeeds has passed the freshness check and recorded its nonce; one that fails
  leaves the guard as it was or without the entries that are too old.
\<close>

locale guarded_verifier =
  fixes verify :: "'m \<Rightarrow> int \<Rightarrow> replay_guard \<Rightarrow> (execution_protocol_error + 'r) \<times> replay_guard"
    and nonce_of :: "'m \<Rightarrow> string"
    and issued_of :: "'m \<Rightarrow> int option"
  assumes accepted: "verify m now g = (Inr r, g') \<Longrightarrow>
      \<exists>t. issued_of m = Some t \<and> now - MAX_CLOCK_SKEW \<le> t \<and> t \<le> now + MAX_CLOCK_SKEW
        \<and> check_and_record (nonce_of m) t now g = (Inr (), g')"
    and refused: "verify m now g = (Inl e, g') \<Longrightarrow>
      g' = g \<or> g' = g\<lparr>rg_seen := retain_recent now (rg_seen g)\<rparr>"
begin

definition accepts :: "string \<Rightarrow> int \<Rightarrow> ('m \<times> (execution_protocol_error + 'r)) \<Rightarrow> bool" where
  "accepts n t x \<longleftrightarrow> nonce_of (fst x) = n \<and> issued_of (fst x) = Some t \<and> is_ok (snd x)"

text \<open>From time \<open>now\<close> on, no message with this nonce and time of issue is accepted.\<close>

definition spent :: "string \<Rightarrow> int \<Rightarrow> int \<Rightarrow> replay_guard \<Rightarrow> bool" where
  "spent n t now g \<longleftrightarrow> rg_seen g n = Some t \<or> t < now - MAX_CLOCK_SKEW"

lemma spent_keeps:
  assumes "spent n t now g" and "now \<le> now'" and "verify m now' g = (r, g')"
  shows "spent n t now' g' \<and> \<not> (accepts n t (m, r))"
proof -
  have kept: "retain_recent now' (rg_seen g) n = Some t" if "\<not> t < now' - MAX_CLOCK_SKEW"
    using assms(1,2) that by (auto simp: spent_def retain_recent_def)
  show ?thesis
  proof (cases r)
    case (Inl e)
    with refused assms(3) have "g' = g \<or> g' = g\<lparr>rg_seen := retain_recent now' (rg_seen g)\<rparr>" by blast
    with Inl kept assms(1,2) show ?thesis by (auto simp: spent_def accepts_def)
  next
    case (Inr x)
    with accepted assms(3) obtain t' where t': "issued_of m = Some t'" "now' - MAX_CLOCK_SKEW \<le> t'"
      "check_and_record (nonce_of m) t' now' g = (Inr (), g')" by blast
    then have new: "retain_recent now' (rg_seen g) (nonce_of m) = None"
      and g': "g' = g\<lparr>rg_seen := (retain_recent now' (rg_seen g))(nonce_of m \<mapsto> t')\<rparr>"
      by (auto simp: check_and_record_def Let_def split: if_splits)
    show ?thesis
    proof (cases "t < now' - MAX_CLOCK_SKEW")
      case True
      with t' show ?thesis by (auto simp: spent_def accepts_def)
    next
      case False
      with kept new have "nonce_of m \<noteq> n" by auto
      with kept [OF False] g' show ?thesis by (auto simp: spent_def accepts_def)
    qed
  qed
qed

lemma spent_forever:
  "spent n t now g \<Longrightarrow> sorted (now # map fst xs) \<Longrightarrow> filter (accepts n t) (verify_all verify g xs) = []"
proof (induction xs arbitrary: now g)
  case (Cons x xs)
  obtain now' m where x: "x = (now', m)" by fastforce
  obtain r g' where v: "verify m now' g = (r, g')" by fastforce
  from spent_keeps [OF Cons.prems(1) _ v] Cons.prems(2) x
  have "spent n t now' g'" "\<not> accepts n t (m, r)" by auto
  with Cons.IH [of now' g'] Cons.prems(2) x v show ?case by auto
qed simp

lemma at_most_once:
  "sorted (map fst xs) \<Longrightarrow> length (filter (accepts n t) (verify_all verify g xs)) \<le> 1"
proof (induction xs arbitrary: g)
  case (Cons x xs)
  obtain now m where x: "x = (now, m)" by fastforce
  obtain r g' where v: "verify m now g = (r, g')" by fastforce
  show ?case
  proof (cases "accepts n t (m, r)")
    case False
    with Cons x v show ?thesis by auto
  next
    case True
    then obtain y where "r = Inr y" by (auto simp: accepts_def is_ok_iff)
    with accepted v True have "check_and_record n t now g = (Inr (), g')" by (fastforce simp: accepts_def)
    then have "spent n t now g'" by (auto simp: spent_def check_and_record_def Let_def split: if_splits)
    with spent_forever [of n t now g' xs] Cons.prems x v show ?thesis by auto
  qed
qed simp

end

lemma check_issued_at_Inr:
  "check_issued_at env issued now = Inr t \<longleftrightarrow>
    pe_parse_rfc3339 env issued = Some t \<and> now - MAX_CLOCK_SKEW \<le> t \<and> t \<le> now + MAX_CLOCK_SKEW"
  by (auto simp: check_issued_at_def split: option.splits)

lemma check_and_record_Inl:
  "check_and_record n t now g = (Inl e, g') \<Longrightarrow> g' = g\<lparr>rg_seen := retain_recent now (rg_seen g)\<rparr>"
  by (auto simp: check_and_record_def Let_def split: if_splits)

lemma check_and_record_Inr:
  "check_and_record n t now g = (Inr u, g') \<longleftrightarrow>
    n \<noteq> [] \<and> retain_recent now (rg_seen g) n = None
    \<and> g' = g\<lparr>rg_seen := (retain_recent now (rg_seen g))(n \<mapsto> t)\<rparr>"
  by (auto simp: check_and_record_def Let_def split: if_splits)

lemma verify_mac_Inr:
  "verify_mac env key signature payload = Inr u \<longleftrightarrow>
    (\<exists>tag p mac. pe_base64_decode env signature = Some tag \<and> payload = Inr p \<and> pe_hmac env key = Some mac \<and> mac p = tag)"
  by (auto simp: verify_mac_def split: option.splits)

interpretation execution: guarded_verifier "\<lambda>m. execution_verify env m key client" ee_nonce
  "\<lambda>m. pe_parse_rfc3339 env (ee_issued_at m)"
  by unfold_locales
    (auto simp: execution_verify_def check_issued_at_Inr dest: check_and_record_Inl
      split: if_splits sum.splits prod.splits)

interpretation control: guarded_verifier "\<lambda>m. control_verify env m key client" ce_nonce
  "\<lambda>m. pe_parse_rfc3339 env (ce_issued_at m)"
  by unfold_locales
    (auto simp: control_verify_def check_issued_at_Inr dest: check_and_record_Inl
      split: if_splits sum.splits prod.splits)

lemma execution_verify_Inr:
  "execution_verify env m key client now g = (Inr request, g') \<longleftrightarrow>
     ee_schema_version m = PROTOCOL_VERSION \<and> ter_client_id (ee_request m) = client \<and> request = ee_request m
   \<and> (\<exists>t. check_issued_at env (ee_issued_at m) now = Inr t
        \<and> check_and_record (ee_nonce m) t now g = (Inr (), g'))
   \<and> verify_mac env key (ee_signature m) (signing_payload env m) = Inr ()"
  by (auto simp: execution_verify_def split: sum.splits prod.splits)

section \<open>Claims\<close>

text \<open>
  \<open>verify\<close> accepts an execution envelope exactly when its version and client are the expected
  ones, its time of issue is within two minutes of the clock, its signature is the MAC of its payload
  under the key, and its nonce is not empty and not among those seen in the last two minutes; it then
  returns the signed request and records the nonce.
\<close>

lemma execution_verify_exact:
  "execution_verify env m key client now g = (Inr request, g') \<longleftrightarrow>
     ee_schema_version m = PROTOCOL_VERSION \<and> ter_client_id (ee_request m) = client \<and> request = ee_request m
   \<and> (\<exists>t. pe_parse_rfc3339 env (ee_issued_at m) = Some t \<and> now - MAX_CLOCK_SKEW \<le> t \<and> t \<le> now + MAX_CLOCK_SKEW
        \<and> g' = g\<lparr>rg_seen := (retain_recent now (rg_seen g))(ee_nonce m \<mapsto> t)\<rparr>)
   \<and> (\<exists>mac payload. pe_hmac env key = Some mac
        \<and> pe_execution_json env (ee_schema_version m) (ee_issued_at m) (ee_nonce m) (ee_request m) = Some payload
        \<and> pe_base64_decode env (ee_signature m) = Some (mac payload))
   \<and> ee_nonce m \<noteq> [] \<and> retain_recent now (rg_seen g) (ee_nonce m) = None"
  unfolding execution_verify_Inr check_issued_at_Inr check_and_record_Inr verify_mac_Inr
  by (auto simp: signing_payload_def split: option.splits)

text \<open>
  Claim C30. An execution request is carried out at most once: of any sequence of envelopes verified
  against one replay guard while the clock does not run backwards, at most one with a given nonce and
  time of issue is accepted, so a captured envelope cannot be replayed.
\<close>

theorem execution_accepted_once:
  assumes "sorted (map fst attempts)"
  shows "length (filter (\<lambda>(m, r). ee_nonce m = n \<and> pe_parse_rfc3339 env (ee_issued_at m) = Some t \<and> is_ok r)
    (verify_all (\<lambda>m. execution_verify env m key client) g attempts)) \<le> 1"
  using execution.at_most_once [OF assms, where n = n and t = t and g = g and env = env]
  unfolding execution.accepts_def [abs_def] case_prod_unfold by simp

text \<open>An environment that satisfies the laws, for the witnesses: times in unary, no encoding.\<close>

definition plain_protocol_env :: protocol_env where
  "plain_protocol_env =
     \<lparr>pe_to_rfc3339 = (\<lambda>t. replicate (nat t) (CHR ''x'')), pe_parse_rfc3339 = (\<lambda>s. Some (int (length s))),
      pe_execution_json = (\<lambda>v i n r. Some (v @ i @ n @ ter_operation r)),
      pe_control_json = (\<lambda>v i n c r. Some (v @ i @ n @ c)),
      pe_hmac = (\<lambda>key. Some (\<lambda>p. key @ p)), pe_base64_encode = (\<lambda>x. x), pe_base64_decode = Some\<rparr>"

definition sample_execution :: typed_execution_request where
  "sample_execution = \<lparr>ter_client_id = ''agent'', ter_purpose_class = ''ci'', ter_provider = ''github'',
     ter_operation = ''read'', ter_account_id = None, ter_arguments = JNull\<rparr>"

definition sample_envelope :: execution_envelope where
  "sample_envelope = \<lparr>ee_schema_version = PROTOCOL_VERSION, ee_issued_at = ''xxx'', ee_nonce = ''n'',
     ee_request = sample_execution, ee_signature = ''k'' @ PROTOCOL_VERSION @ ''xxxnread''\<rparr>"

lemmas protocol_eval = plain_protocol_env_def sample_envelope_def sample_execution_def execution_verify_def
  check_issued_at_def verify_mac_def signing_payload_def check_and_record_def retain_recent_def MAX_CLOCK_SKEW_def Let_def

theorem execution_accepted_once_witness:
  "map (is_ok \<circ> snd) (verify_all (\<lambda>m. execution_verify plain_protocol_env m ''k'' ''agent'') \<lparr>rg_seen = (\<lambda>_. None)\<rparr>
       [(3, sample_envelope), (4, sample_envelope)]) = [True, False]
   \<and> length (filter (\<lambda>(m, r). ee_nonce m = ''n'' \<and> pe_parse_rfc3339 plain_protocol_env (ee_issued_at m) = Some 3 \<and> is_ok r)
       (verify_all (\<lambda>m. execution_verify plain_protocol_env m ''k'' ''agent'') \<lparr>rg_seen = (\<lambda>_. None)\<rparr>
         [(3, sample_envelope), (4, sample_envelope)])) \<le> 1"
proof
  show "map (is_ok \<circ> snd) (verify_all (\<lambda>m. execution_verify plain_protocol_env m ''k'' ''agent'') \<lparr>rg_seen = (\<lambda>_. None)\<rparr>
       [(3, sample_envelope), (4, sample_envelope)]) = [True, False]"
    by (simp add: protocol_eval)
  show "length (filter (\<lambda>(m, r). ee_nonce m = ''n'' \<and> pe_parse_rfc3339 plain_protocol_env (ee_issued_at m) = Some 3 \<and> is_ok r)
       (verify_all (\<lambda>m. execution_verify plain_protocol_env m ''k'' ''agent'') \<lparr>rg_seen = (\<lambda>_. None)\<rparr>
         [(3, sample_envelope), (4, sample_envelope)])) \<le> 1"
    by (rule execution_accepted_once) simp
qed

text \<open>
  A signed envelope verifies: an envelope signed with the key of the daemon is accepted, and
  yields the request signed, whenever it arrives within two minutes of its time of issue, names the
  expected client and has a nonce that is not empty and not recently seen.
\<close>

lemma sign_then_verify:
  assumes "execution_sign env request key t nonce = Inr m"
    and "pe_parse_rfc3339 env (pe_to_rfc3339 env t) = Some t"
    and "\<forall>x. pe_base64_decode env (pe_base64_encode env x) = Some x"
    and "now - MAX_CLOCK_SKEW \<le> t" "t \<le> now + MAX_CLOCK_SKEW" and "nonce \<noteq> []"
    and "retain_recent now (rg_seen g) nonce = None"
  shows "fst (execution_verify env m key (ter_client_id request) now g) = Inr request"
  using assms
  by (auto simp: execution_sign_def signature_for_def signing_payload_def Let_def execution_verify_def check_issued_at_def
      verify_mac_def check_and_record_def split: option.splits)

lemma sign_then_verify_witness:
  "\<exists>m. execution_sign plain_protocol_env sample_execution ''k'' 3 ''n'' = Inr m
     \<and> fst (execution_verify plain_protocol_env m ''k'' ''agent'' 4 \<lparr>rg_seen = (\<lambda>_. None)\<rparr>) = Inr sample_execution"
proof -
  obtain m where m: "execution_sign plain_protocol_env sample_execution ''k'' 3 ''n'' = Inr m"
    by (simp add: execution_sign_def signature_for_def protocol_eval)
  from sign_then_verify [OF m, of 4 "\<lparr>rg_seen = (\<lambda>_. None)\<rparr>"] m show ?thesis
    by (simp add: plain_protocol_env_def MAX_CLOCK_SKEW_def retain_recent_def sample_execution_def)
qed

end
