(* ===== verification/AccountProxy.thy ===== *)
theory AccountProxy
  imports AccountAdapter AccountProtocol AccountResults
begin

text \<open>
  \<open>proxy.rs\<close> and \<open>typed.rs\<close> of the accounts daemon: the authenticated request on behalf of a client that
  holds a lease, and the typed operation that finds or asks for a grant, takes a single-use lease and
  makes the request.
\<close>

section \<open>proxy.rs\<close>

record authenticated_request =
  ar_lease :: string
  ar_client_id :: string
  ar_purpose :: string
  ar_provider :: string
  ar_operation :: string
  ar_method :: string
  ar_url :: string
  ar_body :: "json option"

record authenticated_response =
  as_status :: nat
  as_body :: json

datatype proxy_error =
    ProxyError_Broker broker_error
  | ProxyError_Vault vault_error
  | ProxyError_UnknownOperation
  | ProxyError_DestinationDenied
  | ProxyError_InvalidMethod
  | ProxyError_UnsupportedCredential
  | ProxyError_Network
  | ProxyError_CredentialRefresh
  | ProxyError_Panic

type_synonym 'a proxy_op = "(net_world, proxy_error + 'a) prog"

definition orP :: "'a option \<Rightarrow> proxy_error \<Rightarrow> 'a proxy_op" where
  "orP x e = Ret (case x of None \<Rightarrow> Inl e | Some v \<Rightarrow> Inr v)"

definition same_origin :: "net_env \<Rightarrow> url \<Rightarrow> string \<Rightarrow> bool" where
  "same_origin env target audience =
     (case ne_parse_url env audience of
        None \<Rightarrow> False
      | Some a \<Rightarrow> u_scheme target = u_scheme a \<and> u_host target = u_host a \<and> u_port_or_default target = u_port_or_default a)"

definition parse_envelope :: "net_env \<Rightarrow> string \<Rightarrow> credential_envelope proxy_op" where
  "parse_envelope env secret =
     tryP (orP (ne_read_envelope env secret) ProxyError_UnsupportedCredential) (\<lambda>envelope.
     Ret (if cv_version envelope \<noteq> ''elegy-credential/v1'' then Inl ProxyError_UnsupportedCredential else Inr envelope))"

definition required_field :: "credential_envelope \<Rightarrow> string \<Rightarrow> string proxy_op" where
  "required_field envelope name = orP (non_empty (map_of (cv_fields envelope) name)) ProxyError_UnsupportedCredential"

definition oauth_of :: "net_env \<Rightarrow> string \<Rightarrow> oauth_credential proxy_op" where
  "oauth_of env secret = Ret (map_err (\<lambda>_. ProxyError_UnsupportedCredential) (oauth_from_secret env secret))"

definition expires_soon :: "net_env \<Rightarrow> oauth_credential \<Rightarrow> bool proxy_op" where
  "expires_soon env credential =
     map_ret (map_err (\<lambda>_. ProxyError_UnsupportedCredential)) (expires_within env credential (60 * 1000000000))"

text \<open>The credential of an OAuth account, refreshed when it expires within a minute.\<close>

definition current_oauth ::
  "net_env \<Rightarrow> provider_spec \<Rightarrow> auth_profile \<Rightarrow> string \<Rightarrow> string \<Rightarrow> oauth_credential proxy_op" where
  "current_oauth env provider profile account_id secret_text =
     tryP (oauth_of env secret_text) (\<lambda>credential.
     tryP (expires_soon env credential) (\<lambda>soon.
     if \<not> soon then Ret (Inr credential)
     else
       tryP (orP (ap_oauth_lifecycle profile) ProxyError_CredentialRefresh) (\<lambda>lifecycle.
       tryP (orP (configured_client_id (ne_env_var env) profile) ProxyError_CredentialRefresh) (\<lambda>client_id.
       tryP (orP (ap_token_url profile) ProxyError_CredentialRefresh) (\<lambda>token_url.
       bindP (refresh_stored_oauth_credential env account_id
         \<lparr>oa_provider = ps_id provider, oa_client_id = client_id, oa_token_url = token_url,
          oa_identity = ap_identity profile, oa_required_scopes = ap_scopes profile\<rparr> lifecycle) (\<lambda>refreshed.
       case refreshed of
         Inr credential \<Rightarrow> Ret (Inr credential)
       | Inl e \<Rightarrow>
           if e = Panic then Ret (Inl ProxyError_Panic)
           else if e \<noteq> AdapterError_RefreshConflict then Ret (Inl ProxyError_CredentialRefresh)
           else
             tryP (map_ret (map_err ProxyError_Vault) (in_vault (load_secret (ne_accounts env) account_id))) (\<lambda>secret.
             tryP (orP (from_utf8 secret) ProxyError_UnsupportedCredential) (\<lambda>secret_text.
             tryP (oauth_of env secret_text) (\<lambda>credential.
             tryP (expires_soon env credential) (\<lambda>soon.
             Ret (if soon then Inl ProxyError_CredentialRefresh else Inr credential)))))))))))"

definition bearer_for :: "auth_profile \<Rightarrow> string \<Rightarrow> http_auth" where
  "bearer_for profile token =
     (case ap_credential_header profile of
        Some header \<Rightarrow> Custom_header header (''Bearer '' @ token)
      | None \<Rightarrow> Bearer token)"

definition client_credentials_token ::
  "net_env \<Rightarrow> auth_profile \<Rightarrow> string \<Rightarrow> string \<Rightarrow> string proxy_op" where
  "client_credentials_token env profile client_id client_secret =
     tryP (orP (ap_token_url profile) ProxyError_UnsupportedCredential) (\<lambda>token_url.
     bindP (send env (post_form token_url (client_credentials_form client_id client_secret profile))) (\<lambda>response.
     case response of
       None \<Rightarrow> Ret (Inl ProxyError_Network)
     | Some r \<Rightarrow>
         if \<not> is_success (hs_status r) then Ret (Inl ProxyError_UnsupportedCredential)
         else
           tryP (orP (hs_body r) ProxyError_UnsupportedCredential) (\<lambda>token_body.
           orP (non_empty (Option.bind (json_get ''access_token'' token_body) json_as_str))
             ProxyError_UnsupportedCredential)))"

text \<open>The credential as it is put on the request, and the texts to redact from the response.\<close>

definition authentication ::
  "net_env \<Rightarrow> provider_spec \<Rightarrow> auth_profile \<Rightarrow> string \<Rightarrow> string \<Rightarrow> (http_auth \<times> string list) proxy_op" where
  "authentication env provider profile account_id secret_text =
     (case ap_method profile of
        OAuthPkce \<Rightarrow>
          tryP (current_oauth env provider profile account_id secret_text) (\<lambda>credential.
          Ret (Inr (bearer_for profile (oc_access_token credential),
            [secret_text, oc_access_token credential, oc_refresh_token credential])))
      | DeviceAuthorization \<Rightarrow> Ret (Inr (bearer_for profile secret_text, [secret_text]))
      | ApiToken \<Rightarrow> Ret (Inr (bearer_for profile secret_text, [secret_text]))
      | HttpBasic \<Rightarrow>
          tryP (parse_envelope env secret_text) (\<lambda>envelope.
          tryP (required_field envelope ''username'') (\<lambda>username.
          tryP (required_field envelope ''password'') (\<lambda>password.
          Ret (Inr (Basic username password, [secret_text, username, password])))))
      | ClientCredentials \<Rightarrow>
          tryP (parse_envelope env secret_text) (\<lambda>envelope.
          tryP (required_field envelope ''client_id'') (\<lambda>client_id.
          tryP (required_field envelope ''client_secret'') (\<lambda>client_secret.
          tryP (client_credentials_token env profile client_id client_secret) (\<lambda>access_token.
          Ret (Inr (Bearer access_token, [secret_text, client_id, client_secret, access_token]))))))
      | ServiceCredential \<Rightarrow> Ret (Inl ProxyError_UnsupportedCredential))"

text \<open>A credential that is no valid header value is an error of the request builder: nothing is sent.\<close>

fun auth_valid :: "net_env \<Rightarrow> http_auth \<Rightarrow> bool" where
  "auth_valid env (Custom_header name v) = ne_header_valid env name v"
| "auth_valid env (Bearer token) = ne_header_valid env ''authorization'' (''Bearer '' @ token)"
| "auth_valid env _ = True"

definition allowed_methods :: "string list" where
  "allowed_methods = [''GET'', ''POST'', ''PUT'', ''PATCH'', ''DELETE'']"

definition proxied_call ::
  "net_env \<Rightarrow> authenticated_request \<Rightarrow> provider_spec \<Rightarrow> url \<Rightarrow> auth_profile \<Rightarrow> authenticated_response proxy_op" where
  "proxied_call env request provider target profile =
     tryP (map_ret (map_err ProxyError_Broker) (in_vault (account_id_for_lease (ne_accounts env) (ar_lease request))))
       (\<lambda>account_id.
     tryP (map_ret (map_err ProxyError_Vault) (in_vault (load_secret (ne_accounts env) account_id))) (\<lambda>secret.
     tryP (orP (from_utf8 secret) ProxyError_UnsupportedCredential) (\<lambda>secret_text.
     tryP (authentication env provider profile account_id secret_text) (\<lambda>(auth, redactions).
     if \<not> auth_valid env auth then Ret (Inl ProxyError_Network)
     else
       bindP (send env \<lparr>hr_method = ar_method request, hr_url = u_text target, hr_auth = auth, hr_form = [],
         hr_json = ar_body request\<rparr>) (\<lambda>response.
       Ret (case response of
          None \<Rightarrow> Inl ProxyError_Network
        | Some r \<Rightarrow> Inr \<lparr>as_status = hs_status r,
            as_body = sanitize redactions (case hs_body r of None \<Rightarrow> JNull | Some body \<Rightarrow> body)\<rparr>))))))"

definition execute_authenticated ::
  "net_env \<Rightarrow> provider_catalog \<Rightarrow> authenticated_request \<Rightarrow> authenticated_response proxy_op" where
  "execute_authenticated env catalog request =
     tryP (map_ret (map_err ProxyError_Broker) (in_vault (authorize (ne_accounts env) (ar_lease request)
       (ar_client_id request) (ar_purpose request) (ar_provider request) (ar_operation request)))) (\<lambda>_.
     tryP (orP (catalog_get catalog (ar_provider request)) ProxyError_UnknownOperation) (\<lambda>provider.
     if map_of (ps_operations provider) (ar_operation request) = None then Ret (Inl ProxyError_UnknownOperation)
     else
       tryP (orP (ne_parse_url env (ar_url request)) ProxyError_DestinationDenied) (\<lambda>target.
       tryP (orP (List.find (\<lambda>profile. same_origin env target (ap_audience profile)) (ps_auth_profiles provider))
         ProxyError_DestinationDenied) (\<lambda>profile.
       if ar_method request \<notin> set allowed_methods then Ret (Inl ProxyError_InvalidMethod)
       else proxied_call env request provider target profile))))"

section \<open>typed.rs\<close>

datatype typed_execution_outcome =
    Completed nat json string
  | InteractionRequired string string nat
  | AccountSelectionRequired "(string \<times> string) list"

datatype typed_execution_error =
    TypedError_InvalidOperation
  | TypedError_InvalidArguments
  | TypedError_AccountUnavailable
  | TypedError_Broker broker_error
  | TypedError_Proxy proxy_error

type_synonym 'a typed_op = "(net_world, typed_execution_error + 'a) prog"

definition orT :: "'a option \<Rightarrow> typed_execution_error \<Rightarrow> 'a typed_op" where
  "orT x e = Ret (case x of None \<Rightarrow> Inl e | Some v \<Rightarrow> Inr v)"

definition broker_call_in :: "'a broker_op \<Rightarrow> 'a typed_op" where
  "broker_call_in p = map_ret (map_err TypedError_Broker) (in_vault p)"

definition DEFAULT_READ_GRANT_MINUTES :: nat where
  "DEFAULT_READ_GRANT_MINUTES = 30 * 24 * 60"

definition choose_account ::
  "typed_execution_request \<Rightarrow> account_metadata list \<Rightarrow> typed_execution_error + (typed_execution_outcome + account_metadata)" where
  "choose_account request matching =
     (case ter_account_id request of
        Some account_id \<Rightarrow>
          (case List.find (\<lambda>a. acc_id a = account_id) matching of
             None \<Rightarrow> Inl TypedError_AccountUnavailable
           | Some a \<Rightarrow> Inr (Inr a))
      | None \<Rightarrow>
          (case matching of
             [] \<Rightarrow> Inl TypedError_AccountUnavailable
           | [a] \<Rightarrow> Inr (Inr a)
           | _ \<Rightarrow> Inr (Inl (AccountSelectionRequired (map (\<lambda>a. (acc_id a, acc_verified_identity a)) matching)))))"

definition grant_serves :: "net_env \<Rightarrow> typed_execution_request \<Rightarrow> string \<Rightarrow> int \<Rightarrow> stored_grant \<Rightarrow> bool" where
  "grant_serves env request account_id now grant \<longleftrightarrow>
     \<not> sg_revoked grant \<and> sg_account_id grant = account_id \<and> sg_grant_provider grant = ter_provider request
   \<and> sg_client_id grant = ter_client_id request \<and> sg_grant_purpose grant = ter_purpose_class request
   \<and> list_ex (\<lambda>item. item = ter_operation request) (sg_operations grant)
   \<and> (case env_parse_rfc3339 (ne_accounts env) (sg_expires_at grant) of None \<Rightarrow> False | Some expiry \<Rightarrow> now < expiry)"

definition request_pending :: "typed_execution_request \<Rightarrow> string \<Rightarrow> broker_request \<Rightarrow> bool" where
  "request_pending request account_id pending \<longleftrightarrow>
     br_status pending = ''awaiting_user'' \<and> br_account_id pending = Some account_id
   \<and> br_client_id pending = Some (ter_client_id request) \<and> br_purpose pending = ter_purpose_class request
   \<and> list_ex (\<lambda>item. item = ter_operation request) (br_operations pending)"

definition ask_for_access :: "net_env \<Rightarrow> typed_execution_request \<Rightarrow> account_metadata \<Rightarrow> typed_execution_outcome typed_op" where
  "ask_for_access env request account =
     tryP (broker_call_in (list_requests (ne_accounts env))) (\<lambda>requests.
     tryP (case List.find (request_pending request (acc_id account)) requests of
         Some pending \<Rightarrow> Ret (Inr pending)
       | None \<Rightarrow> broker_call_in (request_access (ne_accounts env)
           \<lparr>nar_account_id = acc_id account, nar_client_id = ter_client_id request,
            nar_purpose = ter_purpose_class request, nar_operations = [ter_operation request],
            nar_duration_minutes = DEFAULT_READ_GRANT_MINUTES\<rparr>)) (\<lambda>pending.
     Ret (Inr (InteractionRequired (br_id pending) ''approve_read_access'' (br_duration_minutes pending)))))"

definition perform_operation ::
  "net_env \<Rightarrow> provider_catalog \<Rightarrow> typed_execution_request \<Rightarrow> provider_operation \<Rightarrow> string \<Rightarrow> string \<Rightarrow> stored_grant
    \<Rightarrow> typed_execution_outcome typed_op" where
  "perform_operation env catalog request operation method url grant =
     tryP (broker_call_in (issue_single_use_lease (ne_accounts env) (sg_grant_id grant) 15)) (\<lambda>lease.
     tryP (map_ret (map_err TypedError_Proxy) (execute_authenticated env catalog
       \<lparr>ar_lease = ol_token lease, ar_client_id = ter_client_id request, ar_purpose = ter_purpose_class request,
        ar_provider = ter_provider request, ar_operation = ter_operation request, ar_method = method, ar_url = url,
        ar_body = None\<rparr>)) (\<lambda>response.
     if \<not> validate_result (po_result_schema operation) (as_body response) then Ret (Inl TypedError_InvalidOperation)
     else
       bindP (in_vault (new_uuid (ne_accounts env))) (\<lambda>uuid.
       tryP (broker_call_in (audit (ne_accounts env) ''operation.completed'' (Some (sg_account_id grant))
         (JObj [(''audit_id'', JStr (''audit_'' @ uuid)), (''client_id'', JStr (ter_client_id request)),
           (''provider'', JStr (ter_provider request)), (''operation'', JStr (ter_operation request)),
           (''provider_status'', JInt (int (as_status response)))]))) (\<lambda>_.
       Ret (Inr (Completed (as_status response) (as_body response) (''audit_'' @ uuid)))))))"

definition execute_typed_operation ::
  "net_env \<Rightarrow> provider_catalog \<Rightarrow> typed_execution_request \<Rightarrow> typed_execution_outcome typed_op" where
  "execute_typed_operation env catalog request =
     tryP (orT (catalog_get catalog (ter_provider request)) TypedError_InvalidOperation) (\<lambda>provider.
     tryP (orT (catalog_executable_operation catalog (ter_provider request) (ter_operation request))
       TypedError_InvalidOperation) (\<lambda>operation.
     if po_risk operation = Risk_Write then Ret (Inl TypedError_InvalidOperation)
     else case po_executor operation of
       Executor_Adapter _ _ \<Rightarrow> Ret (Inl TypedError_InvalidOperation)
     | Executor_Http profile_id method path \<Rightarrow>
       tryP (Ret (map_err (\<lambda>_. TypedError_InvalidArguments)
         (resolve_path (po_input_schema operation) path (ter_arguments request)))) (\<lambda>resolved_path.
       tryP (orT (List.find (\<lambda>candidate. ap_id candidate = profile_id) (ps_auth_profiles provider))
         TypedError_InvalidOperation) (\<lambda>profile.
       let url = trim_end_matches (CHR ''/'') (ap_audience profile) @ resolved_path in
       tryP (broker_call_in (map_ret (map_err BrokerError_Vault) list_accounts)) (\<lambda>accounts.
       tryP (Ret (choose_account request
         (filter (\<lambda>a. acc_provider a = ter_provider request \<and> acc_status a = ''connected'') accounts))) (\<lambda>choice.
       case choice of
         Inl outcome \<Rightarrow> Ret (Inr outcome)
       | Inr account \<Rightarrow>
         bindP (net_now env) (\<lambda>now.
         tryP (broker_call_in (list_grants (ne_accounts env))) (\<lambda>grants.
         case List.find (grant_serves env request (acc_id account) now) grants of
           None \<Rightarrow> ask_for_access env request account
         | Some grant \<Rightarrow> perform_operation env catalog request operation method url grant)))))))) "

end
