(* ===== verification/AccountProxyProperties.thy ===== *)
theory AccountProxyProperties
  imports AccountProxy
begin

text \<open>
  Where credentials go: \<open>sends A p\<close> says that every request any action of \<open>p\<close> hands to the HTTP client
  satisfies \<open>A\<close>, in isolation and in every interleaving.
\<close>

section \<open>Requests a program sends\<close>

definition sent_more :: "(http_request \<Rightarrow> bool) \<Rightarrow> net_world \<Rightarrow> net_world \<Rightarrow> bool" where
  "sent_more A w w' \<longleftrightarrow> (\<exists>new. nw_sent w' = nw_sent w @ new \<and> list_all A new)"

abbreviation sends :: "(http_request \<Rightarrow> bool) \<Rightarrow> (net_world, 'a) prog \<Rightarrow> bool" where
  "sends A \<equiv> guarantees (\<lambda>_. True) (sent_more A) any_result"

lemma sent_more_refl: "nw_sent w' = nw_sent w \<Longrightarrow> sent_more A w w'"
  by (simp add: sent_more_def)

lemma sent_more_trans: "sent_more A a b \<Longrightarrow> sent_more A b c \<Longrightarrow> sent_more A a c"
  by (auto simp: sent_more_def)

lemma sends_in_vault: "sends A (in_vault p)"
proof (induction p)
  case (Ret x)
  then show ?case by (simp add: guarantees_Ret)
next
  case (Act f)
  have "sends A (in_vault (fst (f s)))" for s
    by (rule Act) (auto intro: fsts.intros)
  then show ?case unfolding in_vault.simps
    by (intro guarantees_Act) (auto simp: case_prod_beta intro: sent_more_refl)
qed

lemma sends_send: "A request \<Longrightarrow> sends A (send env request)"
  unfolding send_def by (rule calm_act) (simp add: sent_more_def)

lemma sends_now: "sends A (net_now env)"
  unfolding net_now_def by (rule sends_in_vault)

lemma sends_if: "(b \<Longrightarrow> sends A p) \<Longrightarrow> (\<not> b \<Longrightarrow> sends A q) \<Longrightarrow> sends A (if b then p else q)"
  by simp

lemma sends_option:
  "(x = None \<Longrightarrow> sends A p) \<Longrightarrow> (\<And>y. x = Some y \<Longrightarrow> sends A (q y)) \<Longrightarrow>
    sends A (case x of None \<Rightarrow> p | Some y \<Rightarrow> q y)"
  by (cases x) auto

lemma sends_sum:
  "(\<And>e. x = Inl e \<Longrightarrow> sends A (p e)) \<Longrightarrow> (\<And>y. x = Inr y \<Longrightarrow> sends A (q y)) \<Longrightarrow>
    sends A (case x of Inl e \<Rightarrow> p e | Inr y \<Rightarrow> q y)"
  by (cases x) auto

lemma sends_prod: "(\<And>a b. sends A (f a b)) \<Longrightarrow> sends A (case x of (a, b) \<Rightarrow> f a b)"
  by (cases x) auto

lemma sends_orP:
  assumes "\<And>v. x = Some v \<Longrightarrow> sends A (k v)"
  shows "sends A (tryP (orP x e) k)"
  using assms by (cases x) (auto simp: orP_def intro: calm_Ret)

lemma sends_orP_only: "sends A (orP x e)"
  unfolding orP_def by (rule calm_Ret)

lemmas sends_intros = sends_in_vault sends_now sends_if sends_option sends_sum sends_prod sends_orP sends_orP_only
  calm_intros

lemma sends_expires_soon: "sends A (expires_soon env credential)"
  unfolding expires_soon_def expires_within_def by (intro sends_intros)

lemma sends_expiry_from: "sends A (expiry_from env body)"
  unfolding expiry_from_def by (intro sends_intros)

lemma sends_fetch: "A request \<Longrightarrow> sends A (fetch_json env request e f)"
  unfolding fetch_json_def by (intro calm_bindP sends_send calm_Ret)

lemma sends_refresh_stored:
  "(\<And>form. A (post_form (ol_refresh_url lifecycle) form)) \<Longrightarrow>
    sends A (refresh_stored_oauth_credential env account_id config lifecycle)"
  unfolding refresh_stored_oauth_credential_def refresh_oauth_credential_def Let_def
  by (intro sends_fetch sends_expiry_from sends_intros)

lemma sends_run:
  assumes "sends A p"
  shows "\<exists>new. nw_sent (snd (run p w)) = nw_sent w @ new \<and> list_all A new"
proof -
  have "True \<and> sent_more A w (snd (run p w)) \<and> True"
    by (rule run_guarantees [where R = "sent_more A", OF assms TrueI])
      (blast intro: sent_more_refl sent_more_trans)+
  then show ?thesis by (simp add: sent_more_def)
qed

section \<open>The proxy\<close>

text \<open>
  The destinations a profile of the pack stands for: its audience's origin, and the token and refresh
  endpoints the pack declares.
\<close>

definition destination_of :: "net_env \<Rightarrow> authenticated_request \<Rightarrow> auth_profile \<Rightarrow> http_request \<Rightarrow> bool" where
  "destination_of env request profile r \<longleftrightarrow>
     (\<exists>target. ne_parse_url env (ar_url request) = Some target \<and> same_origin env target (ap_audience profile)
        \<and> hr_url r = u_text target \<and> hr_method r \<in> set allowed_methods)
   \<or> ap_token_url profile = Some (hr_url r)
   \<or> (\<exists>lifecycle. ap_oauth_lifecycle profile = Some lifecycle \<and> hr_url r = ol_refresh_url lifecycle)"

definition permitted :: "net_env \<Rightarrow> provider_catalog \<Rightarrow> authenticated_request \<Rightarrow> http_request \<Rightarrow> bool" where
  "permitted env catalog request r \<longleftrightarrow>
     (\<exists>pack profile. catalog_get catalog (ar_provider request) = Some pack \<and> profile \<in> set (ps_auth_profiles pack)
        \<and> map_of (ps_operations pack) (ar_operation request) \<noteq> None \<and> destination_of env request profile r)"

lemma sends_current_oauth:
  assumes "\<And>lifecycle form. ap_oauth_lifecycle profile = Some lifecycle \<Longrightarrow> A (post_form (ol_refresh_url lifecycle) form)"
  shows "sends A (current_oauth env provider profile account_id secret_text)"
  unfolding current_oauth_def oauth_of_def
  by (intro sends_expires_soon sends_refresh_stored sends_intros assms)

lemma sends_client_credentials:
  assumes "\<And>u form. ap_token_url profile = Some u \<Longrightarrow> A (post_form u form)"
  shows "sends A (client_credentials_token env profile client_id client_secret)"
  unfolding client_credentials_token_def
  by (intro sends_intros sends_send assms)

lemma sends_authentication:
  assumes "\<And>r. destination_of env request profile r \<Longrightarrow> A r"
  shows "sends A (authentication env provider profile account_id secret_text)"
proof -
  have form: "hr_url (post_form u f) = u" for u f by (simp add: post_form_def)
  have token: "ap_token_url profile = Some u \<Longrightarrow> A (post_form u f)" for u f
    by (rule assms) (simp add: destination_of_def form)
  have refresh: "ap_oauth_lifecycle profile = Some lifecycle \<Longrightarrow> A (post_form (ol_refresh_url lifecycle) f)" for lifecycle f
    by (rule assms) (simp add: destination_of_def form)
  show ?thesis
    unfolding authentication_def parse_envelope_def required_field_def
    by (cases "ap_method profile"; simp only: auth_method.case;
        intro sends_intros sends_current_oauth sends_client_credentials refresh token)
qed

lemma sends_proxied_call:
  assumes "ne_parse_url env (ar_url request) = Some target" and "same_origin env target (ap_audience profile)"
    and "ar_method request \<in> set allowed_methods"
    and "\<And>r. destination_of env request profile r \<Longrightarrow> A r"
  shows "sends A (proxied_call env request provider target profile)"
  unfolding proxied_call_def
proof (intro sends_intros sends_authentication [where request = request] sends_send)
  show "A r" if "destination_of env request profile r" for r by (rule assms(4) [OF that])
next
  fix auth
  show "A \<lparr>hr_method = ar_method request, hr_url = u_text target, hr_auth = auth, hr_form = [], hr_json = ar_body request\<rparr>"
    by (rule assms(4)) (use assms(1-3) in \<open>auto simp: destination_of_def\<close>)
qed

lemma sends_execute_authenticated:
  "sends (permitted env catalog request) (execute_authenticated env catalog request)"
  unfolding execute_authenticated_def
proof (intro sends_intros)
  fix pack target profile
  assume "catalog_get catalog (ar_provider request) = Some pack"
    and "\<not> map_of (ps_operations pack) (ar_operation request) = None"
    and target: "ne_parse_url env (ar_url request) = Some target"
    and find: "List.find (\<lambda>profile. same_origin env target (ap_audience profile)) (ps_auth_profiles pack) = Some profile"
    and m: "\<not> ar_method request \<notin> set allowed_methods"
  moreover from find have "profile \<in> set (ps_auth_profiles pack)" "same_origin env target (ap_audience profile)"
    by (auto simp: find_Some_iff)
  ultimately show "sends (permitted env catalog request) (proxied_call env request pack target profile)"
    by (intro sends_proxied_call) (auto simp: permitted_def)
qed

lemma run_execute_authenticated_denied:
  assumes "fst (run (authorize (ne_accounts env) (ar_lease request) (ar_client_id request) (ar_purpose request)
      (ar_provider request) (ar_operation request)) (nw_vault w)) \<noteq> Inr ()"
  shows "nw_sent (snd (run (execute_authenticated env catalog request) w)) = nw_sent w"
  using assms
  by (cases "run (authorize (ne_accounts env) (ar_lease request) (ar_client_id request) (ar_purpose request)
      (ar_provider request) (ar_operation request)) (nw_vault w)")
    (auto simp: execute_authenticated_def map_err_def split: sum.splits)

section \<open>Claims\<close>

text \<open>
  Claim C31. A credential leaves the daemon only for its provider: every request sent by an
  authenticated call goes to the origin of the audience of a profile of the provider's pack, or to the
  token or refresh endpoint that profile declares, with one of five methods; and nothing at all is sent
  unless the lease was authorized for this client, purpose, provider and operation.
\<close>

theorem proxy_stays_in_audience:
  assumes "run (execute_authenticated env catalog request) w = (result, w')"
  shows "\<exists>new. nw_sent w' = nw_sent w @ new \<and> list_all (permitted env catalog request) new
    \<and> (new \<noteq> [] \<longrightarrow> fst (run (authorize (ne_accounts env) (ar_lease request) (ar_client_id request)
        (ar_purpose request) (ar_provider request) (ar_operation request)) (nw_vault w)) = Inr ())"
proof -
  obtain new where new: "nw_sent w' = nw_sent w @ new" "list_all (permitted env catalog request) new"
    using sends_run [OF sends_execute_authenticated, of env catalog request w] assms by auto
  moreover have "new = []" if "fst (run (authorize (ne_accounts env) (ar_lease request) (ar_client_id request)
        (ar_purpose request) (ar_provider request) (ar_operation request)) (nw_vault w)) \<noteq> Inr ()"
    using run_execute_authenticated_denied [OF that, of catalog] assms new(1) by simp
  ultimately show ?thesis by blast
qed

text \<open>The texts of a credential on a request: the token of a bearer header, the name and the password.\<close>

fun auth_texts :: "http_auth \<Rightarrow> string list" where
  "auth_texts No_auth = []"
| "auth_texts (Bearer token) = [token]"
| "auth_texts (Basic username password) = [username, password]"
| "auth_texts (Custom_header name v) = [drop (length ''Bearer '') v]"

lemma auth_texts_bearer [simp]: "auth_texts (bearer_for profile token) = [token]"
  by (simp add: bearer_for_def split: option.split)

lemma authentication_redacts:
  "run (authentication env provider profile account_id secret_text) w = (Inr (auth, redactions), w') \<Longrightarrow>
    secret_text \<in> set redactions \<and> set (auth_texts auth) \<subseteq> set redactions"
  by (auto simp: authentication_def split: auth_method.splits prod.splits sum.splits)

text \<open>
  Claim C32. The response hides the credential in its values. When an authenticated call returns a
  response, its last request was the one to the provider, and no text value of the response body, at any
  depth and whatever the provider answers, contains the stored secret of the lease's account, nor the
  token, user name or password put on that request (the access token of an OAuth account or of client
  credentials among them), each for a text that does not overlap with the \<open>[REDACTED]\<close> put in its place.
  Names of object members are not covered: \<open>walk\<close> leaves them as they are.
\<close>

theorem response_hides_secret:
  assumes "run (execute_authenticated env catalog request) w = (Inr response, w')"
    and "run (authorize (ne_accounts env) (ar_lease request) (ar_client_id request) (ar_purpose request)
        (ar_provider request) (ar_operation request)) (nw_vault w) = (granted, s)"
    and "fst (run (account_id_for_lease (ne_accounts env) (ar_lease request)) s) = Inr account_id"
    and "fst (run (load_secret (ne_accounts env) account_id) s) = Inr secret"
  shows "\<exists>before sent. nw_sent w' = before @ [sent] \<and> hr_method sent = ar_method request \<and> hr_json sent = ar_body request
    \<and> (\<forall>c \<in> set (secret # auth_texts (hr_auth sent)). maskable c \<longrightarrow>
        (\<forall>t \<in> set (json_texts (as_body response)). \<not> contains_str t c))"
proof -
  have load: "run (load_secret (ne_accounts env) account_id) s = (Inr secret, s)"
    using assms(4) by (auto simp: load_secret_def split: option.splits prod.splits)
  have acc: "run (account_id_for_lease (ne_accounts env) (ar_lease request)) s = (Inr account_id, s)"
    using assms(3) by (simp add: account_id_for_lease_def)
  from assms(1,2) obtain pack target profile where
    call: "run (proxied_call env request pack target profile) (w\<lparr>nw_vault := s\<rparr>) = (Inr response, w')"
    by (cases granted) (auto simp: execute_authenticated_def orP_def map_err_def split: option.splits if_splits)
  obtain r w\<^sub>1 where auth: "run (authentication env pack profile account_id secret) (w\<lparr>nw_vault := s\<rparr>) = (r, w\<^sub>1)"
    by fastforce
  from call auth obtain auth redactions body where r: "r = Inr (auth, redactions)"
    and sent: "nw_sent w' = nw_sent w\<^sub>1 @ [\<lparr>hr_method = ar_method request, hr_url = u_text target, hr_auth = auth,
      hr_form = [], hr_json = ar_body request\<rparr>]" and body: "as_body response = sanitize redactions body"
    by (auto simp: proxied_call_def acc load orP_def from_utf8_def map_err_def send_def
        split: if_splits prod.splits sum.splits option.splits)
  have "\<not> contains_str t c" if "c \<in> set (secret # auth_texts auth)" "maskable c" "t \<in> set (json_texts (as_body response))" for c t
    using walk_free [OF that(2), of redactions t body None] authentication_redacts [OF auth [unfolded r]] that(1,3)
    by (auto simp: body sanitize_def)
  with sent show ?thesis by auto
qed

section \<open>A run\<close>

definition sample_net_env :: net_env where
  "sample_net_env = \<lparr>ne_accounts = account_sample_env, ne_send = (\<lambda>_ _. Some \<lparr>hs_status = 200, hs_body = Some (JStr ''my-old-key'')\<rparr>),
     ne_parse_url = sample_parse, ne_env_var = (\<lambda>_. None), ne_pointer = (\<lambda>_ _. None), ne_read_oauth = (\<lambda>_. None),
     ne_print_oauth = (\<lambda>_. None), ne_read_envelope = (\<lambda>_. None), ne_print_envelope = (\<lambda>_ _. None),
     ne_header_valid = (\<lambda>_ _. True)\<rparr>"

definition sample_catalog :: provider_catalog where
  "sample_catalog = \<lparr>pc_providers = [(''github'', sample_pack)], pc_executable_providers = [''github'']\<rparr>"

definition sample_call :: authenticated_request where
  "sample_call = \<lparr>ar_lease = ''ela_x'', ar_client_id = ''agent'', ar_purpose = ''ci'', ar_provider = ''github'',
     ar_operation = ''read'', ar_method = ''GET'', ar_url = ''https://api.x/user'', ar_body = None\<rparr>"

definition sample_world :: net_world where
  "sample_world = \<lparr>nw_vault = credential_vault, nw_sent = []\<rparr>"

lemma sample_authorized:
  "run (authorize account_sample_env ''ela_x'' ''agent'' ''ci'' ''github'' ''read'') credential_vault =
    (Inr (), credential_vault\<lparr>db_tick := 4, db_leases := [sample_lease\<lparr>ls_remaining_uses := 0\<rparr>]\<rparr>)"
  by (simp add: authorize_def run_check_expiry lease_record_def token_hash_def credential_vault_def scope_allows_def
      parse_vec_def spend_use_def changed_rows_def update_where_def Let_def sample_lease_def sample_grant_def
      sample_account_def)

lemma sample_secret:
  "run (load_secret account_sample_env ''acct_x'') (credential_vault\<lparr>db_tick := t, db_leases := ls\<rparr>) =
    (Inr ''old'', credential_vault\<lparr>db_tick := t, db_leases := ls\<rparr>)"
  by (simp add: load_secret_def credential_record_def credential_vault_def sample_account_def sample_credential_def
      open_secret_def associated_data_def format_def)

lemma sample_run:
  "\<exists>s. run (execute_authenticated sample_net_env sample_catalog sample_call) sample_world =
    (Inr \<lparr>as_status = 200, as_body = sanitize [''old''] (JStr ''my-old-key'')\<rparr>,
     \<lparr>nw_vault = s, nw_sent = [\<lparr>hr_method = ''GET'', hr_url = ''https://api.x/user'', hr_auth = Bearer ''old'',
        hr_form = [], hr_json = None\<rparr>]\<rparr>)"
proof -
  have u: "utf8_bytes (map of_char ''old'')" by code_simp
  have p: "sample_parse ''https://api.x/user'' = Some \<lparr>u_text = ''https://api.x/user'', u_scheme = ''https'', u_username = [],
      u_password = None, u_host = Some ''api.x'', u_port_or_default = Some 443, u_path = ''/'', u_query = None,
      u_fragment = None\<rparr>"
    "sample_parse ''https://api.x'' = Some \<lparr>u_text = ''https://api.x'', u_scheme = ''https'', u_username = [],
      u_password = None, u_host = Some ''api.x'', u_port_or_default = Some 443, u_path = ''/'', u_query = None,
      u_fragment = None\<rparr>"
    by (simp_all add: sample_parse_def)
  have g: "db_grants credential_vault = [sample_grant]" by (simp add: credential_vault_def)
  show ?thesis
    by (simp add: execute_authenticated_def sample_call_def sample_net_env_def sample_world_def sample_authorized
        sample_catalog_def catalog_get_def sample_pack_def sample_profile_def orP_def p same_origin_def allowed_methods_def
        proxied_call_def account_id_for_lease_def token_hash_def sample_secret from_utf8_def u authentication_def
        bearer_for_def send_def sample_lease_def sample_grant_def g)
qed

theorem proxy_stays_in_audience_witness:
  "\<exists>result w'. run (execute_authenticated sample_net_env sample_catalog sample_call) sample_world = (result, w')
     \<and> length (nw_sent w') = 1 \<and> list_all (permitted sample_net_env sample_catalog sample_call) (nw_sent w')"
proof -
  obtain s where run: "run (execute_authenticated sample_net_env sample_catalog sample_call) sample_world =
    (Inr \<lparr>as_status = 200, as_body = sanitize [''old''] (JStr ''my-old-key'')\<rparr>,
     \<lparr>nw_vault = s, nw_sent = [\<lparr>hr_method = ''GET'', hr_url = ''https://api.x/user'', hr_auth = Bearer ''old'',
        hr_form = [], hr_json = None\<rparr>]\<rparr>)"
    using sample_run by blast
  from proxy_stays_in_audience [OF run] run show ?thesis by (auto simp: sample_world_def)
qed

theorem response_hides_secret_witness:
  "\<exists>response w'. run (execute_authenticated sample_net_env sample_catalog sample_call) sample_world = (Inr response, w')
     \<and> fst (run (load_secret account_sample_env ''acct_x'') credential_vault) = Inr ''old'' \<and> maskable ''old''
     \<and> list_all (\<lambda>t. \<not> contains_str t ''old'') (json_texts (as_body response))"
proof -
  obtain w' where run: "run (execute_authenticated sample_net_env sample_catalog sample_call) sample_world =
    (Inr \<lparr>as_status = 200, as_body = sanitize [''old''] (JStr ''my-old-key'')\<rparr>, w')"
    using sample_run by blast
  let ?s = "credential_vault\<lparr>db_tick := 4, db_leases := [sample_lease\<lparr>ls_remaining_uses := 0\<rparr>]\<rparr>"
  have "run (authorize (ne_accounts sample_net_env) (ar_lease sample_call) (ar_client_id sample_call) (ar_purpose sample_call)
      (ar_provider sample_call) (ar_operation sample_call)) (nw_vault sample_world) = (Inr (), ?s)"
    by (simp add: sample_net_env_def sample_call_def sample_world_def sample_authorized)
  moreover have "fst (run (account_id_for_lease (ne_accounts sample_net_env) (ar_lease sample_call)) ?s) = Inr ''acct_x''"
    by (simp add: sample_net_env_def sample_call_def account_id_for_lease_def token_hash_def sample_lease_def
        credential_vault_def sample_grant_def)
  moreover have "fst (run (load_secret (ne_accounts sample_net_env) ''acct_x'') ?s) = Inr ''old''"
    by (simp add: sample_net_env_def sample_secret)
  moreover have old: "maskable ''old''" by (simp add: maskable_plain)
  ultimately have "\<forall>t \<in> set (json_texts (sanitize [''old''] (JStr ''my-old-key''))). \<not> contains_str t ''old''"
    using response_hides_secret [OF run] by auto
  moreover have "fst (run (load_secret account_sample_env ''acct_x'') credential_vault) = Inr ''old''"
    using sample_secret [where t = "db_tick credential_vault" and ls = "db_leases credential_vault"] by simp
  ultimately show ?thesis using run old by (auto simp: list_all_iff)
qed

section \<open>Typed operations\<close>

lemma mapE_grant_member:
  assumes "mapE (grant_from_row env) rows = Inr grants" and "grant \<in> set grants"
  obtains row operations where "row \<in> set rows" "env_parse_ops env (gt_operations_json row) = Some operations"
    "grant = \<lparr>sg_grant_id = gt_id row, sg_request_id = gt_request_id row, sg_account_id = gt_account_id row,
        sg_grant_provider = gt_provider row, sg_client_id = gt_client_id row, sg_grant_purpose = gt_purpose row,
        sg_operations = operations, sg_expires_at = gt_expires_at row, sg_revoked = (gt_revoked_at row \<noteq> None)\<rparr>"
proof -
  from mapE_Inr_set [OF assms] obtain row where "row \<in> set rows" "grant_from_row env row = Inr grant" by blast
  with that show thesis by (auto simp: grant_from_row_def parse_vec_def split: option.splits)
qed

lemma chosen_account:
  "choose_account request matching = Inr (Inr a) \<Longrightarrow> a \<in> set matching"
  by (auto simp: choose_account_def find_Some_iff split: option.splits list.splits)

lemma chosen_outcome:
  "choose_account request matching = Inr (Inl outcome) \<Longrightarrow> \<exists>accounts. outcome = AccountSelectionRequired accounts"
  by (auto simp: choose_account_def split: option.splits list.splits)

lemma asked_outcome:
  "run (ask_for_access env request account) w = (Inr outcome, w') \<Longrightarrow>
    \<exists>request_id kind duration. outcome = InteractionRequired request_id kind duration"
  by (auto simp: ask_for_access_def split: prod.splits sum.splits)

text \<open>
  Claim C33. A typed operation is carried out only under an approved grant and only with a supported
  method: when it completes, the vault held an unrevoked grant for the caller's client, purpose,
  provider and operation on a connected account of that provider, the operation is a trusted read
  operation of the catalog, and its method is spelled as one of the five the proxy accepts.
\<close>

theorem typed_operation_needs_grant:
  assumes "run (execute_typed_operation env catalog request) w = (Inr (Completed status result audit_id), w')"
  shows "\<exists>operation profile_id verb path g a operations.
      catalog_executable_operation catalog (ter_provider request) (ter_operation request) = Some operation
    \<and> po_risk operation = Risk_Read \<and> po_executor operation = Executor_Http profile_id verb path
    \<and> verb \<in> set allowed_methods
    \<and> g \<in> set (db_grants (nw_vault w)) \<and> gt_revoked_at g = None \<and> gt_provider g = ter_provider request
    \<and> gt_client_id g = ter_client_id request \<and> gt_purpose g = ter_purpose_class request
    \<and> env_parse_ops (ne_accounts env) (gt_operations_json g) = Some operations \<and> ter_operation request \<in> set operations
    \<and> a \<in> set (db_accounts (nw_vault w)) \<and> acc_id a = gt_account_id g \<and> acc_status a = ''connected''
    \<and> acc_provider a = ter_provider request"
proof -
  from assms obtain operation profile_id verb path where
    op: "catalog_executable_operation catalog (ter_provider request) (ter_operation request) = Some operation"
    "po_risk operation \<noteq> Risk_Write" "po_executor operation = Executor_Http profile_id verb path"
    by (auto simp: execute_typed_operation_def orT_def split: option.splits if_splits operation_executor.splits)
  then have "po_risk operation = Risk_Read" by (cases "po_risk operation") auto
  let ?matching = "filter (\<lambda>a. acc_provider a = ter_provider request \<and> acc_status a = ''connected'')
    (sort_by account_le (db_accounts (nw_vault w)))"
  from assms op obtain account url now grants grant w\<^sub>1 where
    account: "choose_account request ?matching = Inr (Inr account)" and
    grants: "mapE (grant_from_row (ne_accounts env)) (sort_by grant_latest_first (db_grants (nw_vault w))) = Inr grants" and
    grant: "List.find (grant_serves env request (acc_id account) now) grants = Some grant" and
    perform: "run (perform_operation env catalog request operation verb url grant) w\<^sub>1 =
      (Inr (Completed status result audit_id), w')"
    by (auto simp: execute_typed_operation_def orT_def broker_call_in_def list_accounts_def list_grants_def net_now_def
        utc_now_def Let_def map_err_def split: option.splits if_splits sum.splits dest!: chosen_outcome asked_outcome)
  from grant have "grant \<in> set grants" and serves: "grant_serves env request (acc_id account) now grant"
    by (auto simp: find_Some_iff)
  with grants obtain g operations where g: "g \<in> set (db_grants (nw_vault w))"
    "env_parse_ops (ne_accounts env) (gt_operations_json g) = Some operations"
    "grant = \<lparr>sg_grant_id = gt_id g, sg_request_id = gt_request_id g, sg_account_id = gt_account_id g,
        sg_grant_provider = gt_provider g, sg_client_id = gt_client_id g, sg_grant_purpose = gt_purpose g,
        sg_operations = operations, sg_expires_at = gt_expires_at g, sg_revoked = (gt_revoked_at g \<noteq> None)\<rparr>"
    by (auto elim!: mapE_grant_member)
  from perform have "verb \<in> set allowed_methods"
    by (auto simp: perform_operation_def execute_authenticated_def orP_def map_err_def broker_call_in_def
        split: prod.splits sum.splits option.splits if_splits)
  with op \<open>po_risk operation = Risk_Read\<close> g serves chosen_account [OF account] show ?thesis
    by (intro exI [of _ operation] exI [of _ profile_id] exI [of _ verb] exI [of _ path] exI [of _ g]
        exI [of _ account] exI [of _ operations]) (auto simp: grant_serves_def list_ex_iff)
qed

section \<open>A typed operation that completes\<close>

definition typed_operation :: provider_operation where
  "typed_operation = sample_operation\<lparr>po_executor := Executor_Http ''token'' ''GET'' ''/repos/{repo}/issues''\<rparr>"
definition typed_catalog :: provider_catalog where
  "typed_catalog = \<lparr>pc_providers = [(''github'', sample_pack\<lparr>ps_operations := [(''read'', Executable typed_operation)]\<rparr>)],
     pc_executable_providers = [''github'']\<rparr>"
definition typed_request :: typed_execution_request where
  "typed_request = \<lparr>ter_client_id = ''agent'', ter_purpose_class = ''ci'', ter_provider = ''github'', ter_operation = ''read'',
     ter_account_id = None, ter_arguments = JObj [(''repo'', JStr ''elegy'')]\<rparr>"

definition typed_lease :: lease_row where
  "typed_lease = \<lparr>ls_token_hash = ''ela_xxxx'', ls_grant_id = ''grant_x'', ls_generation = 0,
     ls_expires_at = print_seconds 905000000000, ls_remaining_uses = 1\<rparr>"

lemma parse_typed [simp]: "parse_seconds (print_seconds 905000000000) = Some 905000000000"
  by (simp add: parse_seconds_def print_seconds_def Let_def)

lemma typed_lease_issued:
  "run (issue_single_use_lease account_sample_env ''grant_x'' 15) (credential_vault\<lparr>db_tick := 3\<rparr>) = 
    (Inr \<lparr>ol_token = ''ela_xxxx'', ol_expires_at = print_seconds 905000000000\<rparr>,
      credential_vault\<lparr>db_tick := 6, db_leases := [sample_lease, typed_lease]\<rparr>)"
  by (simp add: issue_single_use_lease_def issue_lease_with_uses_def get_grant_def issue_checked_def credential_vault_def
      grant_from_row_def parse_vec_def ok_or_def Let_def insert_lease_def token_hash_def minutes_def sample_lease_def
      sample_grant_def typed_lease_def utc_now_def new_uuid_def draw_def numeral_eq_Suc)

lemma typed_authorized:
  "run (authorize account_sample_env ''ela_xxxx'' ''agent'' ''ci'' ''github'' ''read'')
     (credential_vault\<lparr>db_tick := 6, db_leases := [sample_lease, typed_lease]\<rparr>) =
    (Inr (), credential_vault\<lparr>db_tick := 8, db_leases := [sample_lease, typed_lease\<lparr>ls_remaining_uses := 0\<rparr>]\<rparr>)"
  by (simp add: authorize_def run_check_expiry lease_record_def token_hash_def credential_vault_def scope_allows_def
      parse_vec_def spend_use_def changed_rows_def update_where_def Let_def sample_lease_def sample_grant_def
      sample_account_def typed_lease_def)

lemma typed_proxied:
  "\<exists>s. run (execute_authenticated sample_net_env typed_catalog
      \<lparr>ar_lease = ''ela_xxxx'', ar_client_id = ''agent'', ar_purpose = ''ci'', ar_provider = ''github'',
       ar_operation = ''read'', ar_method = ''GET'', ar_url = ''https://api.x/repos/elegy/issues'', ar_body = None\<rparr>)
      \<lparr>nw_vault = credential_vault\<lparr>db_tick := 6, db_leases := [sample_lease, typed_lease]\<rparr>, nw_sent = []\<rparr> =
    (Inr \<lparr>as_status = 200, as_body = sanitize [''old''] (JStr ''my-old-key'')\<rparr>, s)"
proof -
  have u: "utf8_bytes (map of_char ''old'')" by code_simp
  have p: "sample_parse ''https://api.x/repos/elegy/issues'' = Some \<lparr>u_text = ''https://api.x/repos/elegy/issues'', u_scheme = ''https'', u_username = [],
      u_password = None, u_host = Some ''api.x'', u_port_or_default = Some 443, u_path = ''/'', u_query = None,
      u_fragment = None\<rparr>"
    "sample_parse ''https://api.x'' = Some \<lparr>u_text = ''https://api.x'', u_scheme = ''https'', u_username = [],
      u_password = None, u_host = Some ''api.x'', u_port_or_default = Some 443, u_path = ''/'', u_query = None,
      u_fragment = None\<rparr>"
    by (simp_all add: sample_parse_def)
  have g: "db_grants credential_vault = [sample_grant]" by (simp add: credential_vault_def)
  have l: "ls_token_hash sample_lease = ''ela_x''" "ls_token_hash typed_lease = ''ela_xxxx''" "ls_grant_id typed_lease = ''grant_x''"
    by (simp_all add: sample_lease_def typed_lease_def)
  show ?thesis
    by (simp add: execute_authenticated_def sample_net_env_def typed_authorized
        typed_catalog_def catalog_get_def sample_pack_def sample_profile_def orP_def p same_origin_def allowed_methods_def
        proxied_call_def account_id_for_lease_def token_hash_def sample_secret from_utf8_def u authentication_def
        bearer_for_def send_def sample_grant_def g l)
qed

lemma typed_performed:
  assumes "sg_grant_id grant = ''grant_x''"
  shows "\<exists>status result audit_id w'. run (perform_operation sample_net_env typed_catalog typed_request typed_operation ''GET''
     ''https://api.x/repos/elegy/issues'' grant) \<lparr>nw_vault = credential_vault\<lparr>db_tick := 3\<rparr>, nw_sent = []\<rparr> =
     (Inr (Completed status result audit_id), w')"
proof -
  have ne: "ne_accounts sample_net_env = account_sample_env" by (simp add: sample_net_env_def)
  from typed_proxied assms show ?thesis
    by (auto simp: perform_operation_def broker_call_in_def typed_lease_issued typed_request_def validate_result_def
        typed_operation_def sample_operation_def ne new_uuid_def utc_now_def draw_def audit_def Let_def)
qed

lemma typed_run:
  "\<exists>status result audit_id w'. run (execute_typed_operation sample_net_env typed_catalog typed_request) sample_world =
     (Inr (Completed status result audit_id), w')"
proof -
  let ?grant = "\<lparr>sg_grant_id = ''grant_x'', sg_request_id = ''access_x'', sg_account_id = ''acct_x'',
     sg_grant_provider = ''github'', sg_client_id = ''agent'', sg_grant_purpose = ''ci'', sg_operations = [''read''],
     sg_expires_at = print_seconds 3600000000000, sg_revoked = False\<rparr>"
  have path: "resolve_path JNull ''/repos/{repo}/issues'' (JObj [(''repo'', JStr ''elegy'')]) = Inr ''/repos/elegy/issues''"
    by code_simp
  have url: "trim_end_matches (CHR ''/'') ''https://api.x'' = ''https://api.x''" by code_simp
  have vault: "db_accounts credential_vault = [sample_account]" "db_grants credential_vault = [sample_grant]"
    "db_tick credential_vault = 2"
    by (simp_all add: credential_vault_def)
  have catalog: "catalog_get typed_catalog ''github'' = Some (sample_pack\<lparr>ps_operations := [(''read'', Executable typed_operation)]\<rparr>)"
    "catalog_executable_operation typed_catalog ''github'' ''read'' = Some typed_operation"
    by (simp_all add: typed_catalog_def catalog_get_def catalog_executable_operation_def spec_executable_operation_def)
  have account: "choose_account typed_request [sample_account] = Inr (Inr sample_account)"
    by (simp add: choose_account_def typed_request_def)
  have grant: "grant_from_row account_sample_env sample_grant = Inr ?grant"
    by (simp add: grant_from_row_def parse_vec_def sample_grant_def)
  have serves: "grant_serves sample_net_env typed_request ''acct_x'' 2000000000 ?grant"
    by (simp add: grant_serves_def typed_request_def sample_net_env_def)
  have fields: "po_risk typed_operation = Risk_Read" "po_input_schema typed_operation = JNull"
    "po_executor typed_operation = Executor_Http ''token'' ''GET'' ''/repos/{repo}/issues''"
    "ps_auth_profiles sample_pack = [sample_profile]" "ap_id sample_profile = ''token''" "ap_audience sample_profile = ''https://api.x''"
    "ter_provider typed_request = ''github''" "ter_operation typed_request = ''read''"
    "ter_arguments typed_request = JObj [(''repo'', JStr ''elegy'')]"
    "acc_provider sample_account = ''github''" "acc_status sample_account = ''connected''" "acc_id sample_account = ''acct_x''"
    "ne_accounts sample_net_env = account_sample_env"
    by (simp_all add: typed_operation_def sample_operation_def sample_pack_def sample_profile_def typed_request_def
        sample_account_def sample_net_env_def)
  from typed_performed [of ?grant] show ?thesis
    by (simp add: execute_typed_operation_def sample_world_def orT_def catalog fields path url broker_call_in_def
        list_accounts_def vault account net_now_def utc_now_def draw_def list_grants_def grant serves)
qed

theorem typed_operation_needs_grant_witness:
  "\<exists>verb g. verb \<in> set allowed_methods \<and> g \<in> set (db_grants (nw_vault sample_world)) \<and> gt_revoked_at g = None
     \<and> gt_client_id g = ter_client_id typed_request
     \<and> (\<exists>status result audit_id. fst (run (execute_typed_operation sample_net_env typed_catalog typed_request) sample_world) =
          Inr (Completed status result audit_id))"
proof -
  from typed_run obtain status result audit_id w' where
    run: "run (execute_typed_operation sample_net_env typed_catalog typed_request) sample_world =
      (Inr (Completed status result audit_id), w')"
    by blast
  from typed_operation_needs_grant [OF run] run show ?thesis by auto
qed

end
