(* ===== verification/EmbeddingBreaker.thy ===== *)
theory EmbeddingBreaker
  imports Resumption "HOL-Library.Word"
begin

text \<open>
  The circuit breaker around the embedding providers of the memory plugin
  (\<open>src/plugins/memory/src/embedding/circuit_breaker.rs\<close>). Each section under the mutex is one action. A
  call of the wrapped provider is two, its start and its return, as the caller awaits it; between two
  actions other tasks may run.

  Parameters: the clock \<open>bc_now\<close> (the n-th reading of \<open>Instant::now\<close>, in nanoseconds) and the wrapped
  provider \<open>bc_inner\<close> (what its n-th call returns). Vectors are values of a type variable. \<open>Instant + Duration\<close>
  panics past the range of an \<open>Instant\<close>, whose seconds are an \<open>i64\<close>; the panic happens under the mutex,
  which stays poisoned.
\<close>

section \<open>State\<close>

datatype breaker_state =
    Closed "32 word"
  | Open int
  | HalfOpen

datatype embedding_error =
    Embedding_Provider string
  | Embedding_DimensionMismatch nat nat

datatype breaker_panic =
    Instant_overflow
  | Lock_poisoned

record 'v breaker_config =
  bc_threshold :: "32 word"
  bc_cooldown :: nat
  bc_now :: "nat \<Rightarrow> int"
  bc_inner :: "nat \<Rightarrow> string \<Rightarrow> embedding_error + 'v"

text \<open>
  The mutex with its content, the number of clock readings, and the numbers of calls of the wrapped
  provider that were started and that have returned.
\<close>

record breaker_world =
  bw_state :: breaker_state
  bw_poisoned :: bool
  bw_readings :: nat
  bw_calls :: nat
  bw_answered :: nat

type_synonym 'a guarded = "(breaker_world, breaker_panic + 'a) prog"

definition breaker_new :: breaker_world where
  "breaker_new = \<lparr>bw_state = Closed 0, bw_poisoned = False, bw_readings = 0, bw_calls = 0,
     bw_answered = 0\<rparr>"

definition seconds :: "nat \<Rightarrow> nat" where
  "seconds n = n * 1000000000"

text \<open>\<open>str::parse\<close> of an unsigned integer of the given width: decimal digits after an optional plus sign.\<close>

definition parse_unsigned :: "nat \<Rightarrow> string \<Rightarrow> nat option" where
  "parse_unsigned width s =
     (let digits = (case s of CHR ''+'' # ds \<Rightarrow> ds | _ \<Rightarrow> s);
          n = foldl (\<lambda>acc c. acc * 10 + (of_char c - 48)) 0 digits in
      if digits \<noteq> [] \<and> list_all is_ascii_digit digits \<and> n < 2 ^ width
      then Some n else None)"

definition from_env_threshold :: "(string \<Rightarrow> string option) \<Rightarrow> 32 word" where
  "from_env_threshold env_var =
     (case Option.bind (env_var ''ELEGY_EMBEDDING_BREAKER_THRESHOLD'') (parse_unsigned 32) of
        None \<Rightarrow> 5 | Some n \<Rightarrow> word_of_nat n)"

definition from_env_cooldown :: "(string \<Rightarrow> string option) \<Rightarrow> nat" where
  "from_env_cooldown env_var =
     seconds (case Option.bind (env_var ''ELEGY_EMBEDDING_BREAKER_COOLDOWN_SECONDS'') (parse_unsigned 64) of
        None \<Rightarrow> 30 | Some n \<Rightarrow> n)"

section \<open>Operations\<close>

text \<open>\<open>self.state.lock().expect(...)\<close> around a section; a panic inside leaves the mutex poisoned.\<close>

definition locked :: "(breaker_world \<Rightarrow> (breaker_panic + 'a) \<times> breaker_world) \<Rightarrow> 'a guarded" where
  "locked section = act (\<lambda>w.
     if bw_poisoned w then (Inl Lock_poisoned, w)
     else case section w of
       (Inl p, w') \<Rightarrow> (Inl p, w'\<lparr>bw_poisoned := True\<rparr>)
     | (Inr x, w') \<Rightarrow> (Inr x, w'))"

definition instant_add :: "int \<Rightarrow> nat \<Rightarrow> int option" where
  "instant_add t d = (if (t + int d) div 1000000000 < 2 ^ 63 then Some (t + int d) else None)"

definition open_message :: "32 word \<Rightarrow> nat \<Rightarrow> string" where
  "open_message threshold remaining =
     format [''embedding provider circuit is open after '', show_nat (unat threshold),
       '' consecutive failures; retrying in '', show_nat remaining, ''s'']"

definition should_short_circuit :: "'v breaker_config \<Rightarrow> embedding_error option guarded" where
  "should_short_circuit cfg = locked (\<lambda>w.
     case bw_state w of
       Open until \<Rightarrow>
         let now = bc_now cfg (bw_readings w); w' = w\<lparr>bw_readings := Suc (bw_readings w)\<rparr> in
         if now < until
         then (Inr (Some (Embedding_Provider
                (open_message (bc_threshold cfg) (nat ((until - now) div 1000000000))))), w')
         else (Inr None, w'\<lparr>bw_state := HalfOpen\<rparr>)
     | Closed n \<Rightarrow> (Inr None, w)
     | HalfOpen \<Rightarrow> (Inr None, w))"

definition record_success :: "unit guarded" where
  "record_success = locked (\<lambda>w. (Inr (), w\<lparr>bw_state := Closed 0\<rparr>))"

definition open_until :: "'v breaker_config \<Rightarrow> breaker_world \<Rightarrow> (breaker_panic + unit) \<times> breaker_world" where
  "open_until cfg w =
     (let w' = w\<lparr>bw_readings := Suc (bw_readings w)\<rparr> in
      case instant_add (bc_now cfg (bw_readings w)) (bc_cooldown cfg) of
        None \<Rightarrow> (Inl Instant_overflow, w')
      | Some until \<Rightarrow> (Inr (), w'\<lparr>bw_state := Open until\<rparr>))"

definition record_failure :: "'v breaker_config \<Rightarrow> unit guarded" where
  "record_failure cfg =
     (if bc_threshold cfg = 0 then Ret (Inr ())
      else locked (\<lambda>w.
        case bw_state w of
          Closed consecutive_failures \<Rightarrow>
            let new_count = consecutive_failures + 1 in
            if bc_threshold cfg \<le> new_count then open_until cfg w
            else (Inr (), w\<lparr>bw_state := Closed new_count\<rparr>)
        | HalfOpen \<Rightarrow> open_until cfg w
        | Open until \<Rightarrow> (Inr (), w)))"

definition call_inner :: "'v breaker_config \<Rightarrow> string \<Rightarrow> (breaker_world, embedding_error + 'v) prog" where
  "call_inner cfg text =
     bindP (act (\<lambda>w. (bw_calls w, w\<lparr>bw_calls := Suc (bw_calls w)\<rparr>))) (\<lambda>n.
     act (\<lambda>w. (bc_inner cfg n text, w\<lparr>bw_answered := Suc (bw_answered w)\<rparr>)))"

definition embed :: "'v breaker_config \<Rightarrow> string \<Rightarrow> (embedding_error + 'v) guarded" where
  "embed cfg text =
     tryP (should_short_circuit cfg) (\<lambda>short.
     case short of
       Some err \<Rightarrow> Ret (Inr (Inl err))
     | None \<Rightarrow>
         bindP (call_inner cfg text) (\<lambda>result.
         tryP (case result of Inr _ \<Rightarrow> record_success | Inl _ \<Rightarrow> record_failure cfg) (\<lambda>_.
         Ret (Inr result))))"

fun embed_batch_from :: "'v breaker_config \<Rightarrow> 'v list \<Rightarrow> string list \<Rightarrow> (embedding_error + 'v list) guarded" where
  "embed_batch_from cfg results [] = Ret (Inr (Inr results))"
| "embed_batch_from cfg results (text # texts) =
     tryP (embed cfg text) (\<lambda>result.
     case result of
       Inl err \<Rightarrow> Ret (Inr (Inl err))
     | Inr v \<Rightarrow> embed_batch_from cfg (results @ [v]) texts)"

definition embed_batch :: "'v breaker_config \<Rightarrow> string list \<Rightarrow> (embedding_error + 'v list) guarded" where
  "embed_batch cfg texts = embed_batch_from cfg [] texts"

section \<open>The failure count\<close>

text \<open>
  The count of a closed breaker is below the threshold, so that the addition of \<open>record_failure\<close> stays
  within 32 bits.
\<close>

definition count_inv :: "'v breaker_config \<Rightarrow> breaker_world \<Rightarrow> bool" where
  "count_inv cfg w \<longleftrightarrow> (case bw_state w of Closed n \<Rightarrow> n = 0 \<or> n < bc_threshold cfg | _ \<Rightarrow> True)"

lemma locked_keeps:
  assumes "\<And>w. I w \<Longrightarrow> I (snd (section w))" and "\<And>w b. I (w\<lparr>bw_poisoned := b\<rparr>) = I w"
  shows "guarantees I (\<lambda>_ _. True) any_result (locked section)"
  unfolding locked_def
proof (rule calm_act)
  fix w assume "I w"
  with assms(1) [of w] show "I (snd (if bw_poisoned w then (Inl Lock_poisoned, w) else case section w of
       (Inl p, w') \<Rightarrow> (Inl p, w'\<lparr>bw_poisoned := True\<rparr>) | (Inr x, w') \<Rightarrow> (Inr x, w'))) \<and> True"
    by (auto simp: assms(2) split: prod.splits sum.splits)
qed

lemma embed_keeps_count: "guarantees (count_inv cfg) (\<lambda>_ _. True) any_result (embed cfg text)"
proof -
  have "guarantees (count_inv cfg) (\<lambda>_ _. True) any_result (should_short_circuit cfg)"
    unfolding should_short_circuit_def
    by (rule locked_keeps) (auto simp: count_inv_def Let_def split: breaker_state.splits)
  moreover have "guarantees (count_inv cfg) (\<lambda>_ _. True) any_result record_success"
    unfolding record_success_def by (rule locked_keeps) (auto simp: count_inv_def)
  moreover have "guarantees (count_inv cfg) (\<lambda>_ _. True) any_result (record_failure cfg)"
    unfolding record_failure_def
    by (auto simp: count_inv_def Let_def open_until_def not_le
        intro!: locked_keeps calm_Ret split: breaker_state.splits option.splits)
  moreover have "guarantees (count_inv cfg) (\<lambda>_ _. True) any_result (call_inner cfg text)"
    unfolding call_inner_def by (auto simp: count_inv_def intro!: calm_intros calm_act)
  ultimately show ?thesis
    unfolding embed_def by (auto intro!: calm_intros split: option.split sum.split)
qed

lemma unat_Suc_below: "n < m \<Longrightarrow> unat (n + 1) = unat n + 1" for n m :: "32 word"
  by (metis Suc_eq_plus1 add.commute unatSuc word_sp_01 add.inverse_inverse add_eq_0_iff not_less word_order.extremum)

interpretation breaker: shared_invariant "embed cfg" "count_inv cfg" for cfg :: "'v breaker_config"
  by unfold_locales (rule embed_keeps_count)

text \<open>
  Claim C37. The failure count never wraps: in every state that any interleaving of \<open>embed\<close> calls reaches
  from a new breaker, a closed breaker's count plus one is the mathematical sum, and the count is zero
  or below the threshold.
\<close>

theorem failure_count_in_range:
  assumes "reachable_from (pool_step (embed cfg)) ([], breaker_new) (ps, w)" and "bw_state w = Closed n"
  shows "(n = 0 \<or> unat n < unat (bc_threshold cfg)) \<and> unat (n + 1) = unat n + 1"
proof -
  from breaker.pool_inv [OF assms(1)] assms(2) have n: "n = 0 \<or> n < bc_threshold cfg"
    by (simp add: count_inv_def breaker_new_def)
  then have "unat (n + 1) = unat n + 1" using unat_Suc_below [of n "bc_threshold cfg"] by auto
  with n show ?thesis by (auto simp: word_less_nat_alt)
qed

definition breaker_sample :: "nat breaker_config" where
  "breaker_sample = \<lparr>bc_threshold = 2, bc_cooldown = seconds 30, bc_now = int,
     bc_inner = (\<lambda>_ _. Inl (Embedding_Provider ''down''))\<rparr>"

theorem failure_count_in_range_witness:
  "\<exists>ps w. reachable_from (pool_step (embed breaker_sample)) ([], breaker_new) (ps, w) \<and> bw_state w = Closed 1
     \<and> unat (1 + 1 :: 32 word) = unat (1 :: 32 word) + 1"
proof -
  obtain x w where run: "run (embed breaker_sample ''a'') breaker_new = (x, w)" and w: "bw_state w = Closed 1"
    by (auto simp: embed_def should_short_circuit_def locked_def breaker_new_def call_inner_def record_failure_def
        breaker_sample_def word_le_nat_alt)
  from pool_run [where body = "embed breaker_sample" and ps = "[]", OF reachable_from.start run] have r: "reachable_from (pool_step (embed breaker_sample))
    ([], breaker_new) ([(''a'', Ret x)], w)" by simp
  from failure_count_in_range [OF this w] r w show ?thesis by blast
qed

section \<open>A provider that is down\<close>

text \<open>Calls made one after another.\<close>

fun embed_all :: "'v breaker_config \<Rightarrow> string list \<Rightarrow> breaker_world \<Rightarrow> breaker_world" where
  "embed_all cfg [] w = w"
| "embed_all cfg (text # texts) w = embed_all cfg texts (snd (run (embed cfg text) w))"

definition down :: "'v breaker_config \<Rightarrow> bool" where
  "down cfg \<longleftrightarrow> (\<forall>n text. \<exists>e. bc_inner cfg n text = Inl e)"

text \<open>All readings of the clock fall into one cool-down, which ends within the range of an \<open>Instant\<close>.\<close>

definition within_cooldown :: "'v breaker_config \<Rightarrow> bool" where
  "within_cooldown cfg \<longleftrightarrow> (\<forall>i j. bc_now cfg i < bc_now cfg j + int (bc_cooldown cfg)
     \<and> (bc_now cfg j + int (bc_cooldown cfg)) div 1000000000 < 2 ^ 63)"

lemma short_circuited:
  assumes "bw_state w = Open until" and "\<not> bw_poisoned w" and "bc_now cfg (bw_readings w) < until"
  shows "run (embed cfg text) w =
    (Inr (Inl (Embedding_Provider (open_message (bc_threshold cfg)
       (nat ((until - bc_now cfg (bw_readings w)) div 1000000000))))), w\<lparr>bw_readings := Suc (bw_readings w)\<rparr>)"
  using assms by (simp add: embed_def should_short_circuit_def locked_def Let_def)

lemma embed_all_open:
  assumes "within_cooldown cfg" and "bw_state w = Open (bc_now cfg j + int (bc_cooldown cfg))" and "\<not> bw_poisoned w"
  shows "bw_calls (embed_all cfg texts w) = bw_calls w"
  using assms
proof (induction texts arbitrary: w)
  case (Cons x xs)
  have "bc_now cfg (bw_readings w) < bc_now cfg j + int (bc_cooldown cfg)"
    using assms(1) by (simp add: within_cooldown_def)
  with Cons show ?case by (simp add: short_circuited)
qed simp

lemma failed_call:
  assumes "down cfg" and "instant_add (bc_now cfg (bw_readings w)) (bc_cooldown cfg) \<noteq> None"
    and "bw_state w = Closed n" and "\<not> bw_poisoned w" and "bc_threshold cfg \<noteq> 0"
  shows "snd (run (embed cfg text) w) =
    (if bc_threshold cfg \<le> n + 1
     then w\<lparr>bw_calls := Suc (bw_calls w), bw_answered := Suc (bw_answered w), bw_readings := Suc (bw_readings w),
       bw_state := Open (bc_now cfg (bw_readings w) + int (bc_cooldown cfg))\<rparr>
     else w\<lparr>bw_calls := Suc (bw_calls w), bw_answered := Suc (bw_answered w), bw_state := Closed (n + 1)\<rparr>)"
proof -
  from assms(1) obtain e where "bc_inner cfg (bw_calls w) text = Inl e" unfolding down_def by blast
  with assms show ?thesis
    by (simp add: embed_def should_short_circuit_def locked_def call_inner_def record_failure_def open_until_def
        instant_add_def Let_def split: if_split_asm)
qed

lemma within_cooldown_add: "within_cooldown cfg \<Longrightarrow> instant_add (bc_now cfg n) (bc_cooldown cfg) \<noteq> None"
  by (simp add: within_cooldown_def instant_add_def)

lemma embed_all_closed:
  assumes "down cfg" and "within_cooldown cfg" and "bw_state w = Closed n" and "\<not> bw_poisoned w"
    and "n < bc_threshold cfg"
  shows "bw_calls (embed_all cfg texts w) = bw_calls w + min (length texts) (unat (bc_threshold cfg) - unat n)"
  using assms(3-)
proof (induction texts arbitrary: w n)
  case (Cons x xs)
  let ?w = "snd (run (embed cfg x) w)"
  have t: "bc_threshold cfg \<noteq> 0" using Cons.prems(3) by auto
  have suc: "unat (n + 1) = unat n + 1" by (rule unat_Suc_below [OF Cons.prems(3)])
  have lt: "unat n < unat (bc_threshold cfg)" using Cons.prems(3) by (simp add: word_less_nat_alt)
  show ?case
  proof (cases "bc_threshold cfg \<le> n + 1")
    case True
    then have "unat (bc_threshold cfg) \<le> unat n + 1" by (simp add: word_le_nat_alt suc)
    with lt have "unat (bc_threshold cfg) - unat n = 1" by simp
    with True Cons.prems failed_call [OF assms(1) within_cooldown_add [OF assms(2)] Cons.prems(1,2) t, of x] show ?thesis
      by (simp add: embed_all_open [OF assms(2)])
  next
    case False
    then have "unat n + 1 < unat (bc_threshold cfg)" by (simp add: word_le_nat_alt suc)
    moreover have "?w = w\<lparr>bw_calls := Suc (bw_calls w), bw_answered := Suc (bw_answered w), bw_state := Closed (n + 1)\<rparr>"
      using False failed_call [OF assms(1) within_cooldown_add [OF assms(2)] Cons.prems(1,2) t, of x] by simp
    ultimately show ?thesis
      using False Cons.prems Cons.IH [of ?w "n + 1"] by (simp add: not_le suc)
  qed
qed simp

text \<open>
  Claim C38. A provider that is down is called exactly as often as the threshold allows: of \<open>n\<close> successive
  \<open>embed\<close> calls on a new breaker within one cool-down, \<open>min n threshold\<close> reach the provider, and with
  threshold 0 all of them do.
\<close>

theorem down_provider_calls:
  assumes "down cfg" and "within_cooldown cfg"
  shows "bw_calls (embed_all cfg texts breaker_new) =
    (if bc_threshold cfg = 0 then length texts else min (length texts) (unat (bc_threshold cfg)))"
proof (cases "bc_threshold cfg = 0")
  case True
  have "bw_calls (embed_all cfg texts w) = bw_calls w + length texts" if "bw_state w = Closed 0" "\<not> bw_poisoned w" for w
    using that
  proof (induction texts arbitrary: w)
    case (Cons x xs)
    from assms(1) obtain e where "bc_inner cfg (bw_calls w) x = Inl e" unfolding down_def by blast
    with Cons True show ?case
      by (simp add: embed_def should_short_circuit_def locked_def call_inner_def record_failure_def)
  qed simp
  from this [of breaker_new] True show ?thesis by (simp add: breaker_new_def)
next
  case False
  then show ?thesis
    using embed_all_closed [OF assms, of breaker_new 0 texts] by (simp add: breaker_new_def word_gt_0)
qed

theorem down_provider_calls_witness:
  "bw_calls (embed_all (breaker_sample\<lparr>bc_now := \<lambda>_. 0\<rparr>) [''a'', ''b'', ''c''] breaker_new) = 2"
proof -
  have "down (breaker_sample\<lparr>bc_now := \<lambda>_. 0\<rparr>)" "within_cooldown (breaker_sample\<lparr>bc_now := \<lambda>_. 0\<rparr>)"
    by (simp_all add: down_def within_cooldown_def breaker_sample_def seconds_def)
  from down_provider_calls [OF this, of "[''a'', ''b'', ''c'']"] show ?thesis by (simp add: breaker_sample_def)
qed

section \<open>Trials in flight\<close>








end
