(* ===== verification/HttpPolicy.thy ===== *)
theory HttpPolicy
  imports Urls "HOL-Library.Sublist" "HOL-Library.Word"
begin

text \<open>
  The access policy of the shared adapters (\<open>src/shared/policy/src/lib.rs\<close>): which HTTP targets, which
  file system roots and which file sizes are allowed. The URL parser is a parameter; paths are read as
  \<open>std::path\<close> reads them on Unix.
\<close>

section \<open>Configuration\<close>

record filesystem_policy =
  fp_roots :: "string list"
  fp_max_file_size_bytes :: "64 word"
  fp_allow_symlinks :: bool

definition filesystem_policy_default :: filesystem_policy where
  "filesystem_policy_default = \<lparr>fp_roots = [], fp_max_file_size_bytes = 1048576, fp_allow_symlinks = False\<rparr>"

record http_policy =
  hp_allowed_targets :: "string list"
  hp_allow_plaintext_http :: bool
  hp_timeout_ms :: "64 word"
  hp_max_response_size_bytes :: "64 word"

definition http_policy_default :: http_policy where
  "http_policy_default = \<lparr>hp_allowed_targets = [], hp_allow_plaintext_http = False, hp_timeout_ms = 30000,
     hp_max_response_size_bytes = 1048576\<rparr>"

datatype policy_violation =
    FilesystemRootsMissing
  | FilesystemRootNotAllowed string
  | PlaintextHttpDenied string
  | HttpTargetHasCredentials string
  | HttpTargetNotAllowed string
  | FileTooLarge "64 word" "64 word"

section \<open>HTTP targets\<close>

definition schemes_match :: "url \<Rightarrow> url \<Rightarrow> bool" where
  "schemes_match target allowed_target \<longleftrightarrow> u_scheme target = u_scheme allowed_target"

definition hosts_match :: "url \<Rightarrow> url \<Rightarrow> bool" where
  "hosts_match target allowed_target \<longleftrightarrow> u_host target = u_host allowed_target"

definition ports_match :: "url \<Rightarrow> url \<Rightarrow> bool" where
  "ports_match target allowed_target \<longleftrightarrow> u_port_or_default target = u_port_or_default allowed_target"

definition path_matches_allowlisted_scope :: "string \<Rightarrow> string \<Rightarrow> bool" where
  "path_matches_allowlisted_scope target_path allowed_path \<longleftrightarrow>
     (if allowed_path = [] \<or> allowed_path = ''/'' then True
      else target_path = allowed_path
        \<or> (case strip_prefix allowed_path target_path of
             None \<Rightarrow> False
           | Some remainder \<Rightarrow> starts_with remainder ''/''))"

definition queries_match :: "url \<Rightarrow> url \<Rightarrow> bool" where
  "queries_match target allowed_target \<longleftrightarrow> u_query allowed_target = None \<or> u_query target = u_query allowed_target"

definition fragments_match :: "url \<Rightarrow> url \<Rightarrow> bool" where
  "fragments_match target allowed_target \<longleftrightarrow>
     u_fragment allowed_target = None \<or> u_fragment target = u_fragment allowed_target"

definition has_embedded_credentials :: "url \<Rightarrow> bool" where
  "has_embedded_credentials target \<longleftrightarrow> u_username target \<noteq> [] \<or> u_password target \<noteq> None"

definition url_matches_allowlisted_scope :: "url \<Rightarrow> url \<Rightarrow> bool" where
  "url_matches_allowlisted_scope target allowed_target \<longleftrightarrow>
     schemes_match target allowed_target \<and> hosts_match target allowed_target \<and> ports_match target allowed_target
   \<and> path_matches_allowlisted_scope (u_path target) (u_path allowed_target)
   \<and> queries_match target allowed_target \<and> fragments_match target allowed_target"

definition allowlist_verdict :: "url \<Rightarrow> url \<Rightarrow> policy_violation + bool" where
  "allowlist_verdict target allowed_target =
     (if has_embedded_credentials allowed_target
      then Inl (HttpTargetHasCredentials (trim_end_matches (CHR ''/'') (u_text allowed_target)))
      else Inr (url_matches_allowlisted_scope target allowed_target))"

definition validate_http_target :: "(string \<Rightarrow> url option) \<Rightarrow> url \<Rightarrow> http_policy \<Rightarrow> policy_violation + unit" where
  "validate_http_target parse target policy =
     (if has_embedded_credentials target
      then Inl (HttpTargetHasCredentials (trim_end_matches (CHR ''/'') (u_text target)))
      else if u_scheme target = ''http'' \<and> \<not> hp_allow_plaintext_http policy
      then Inl (PlaintextHttpDenied (u_text target))
      else
        tryE (mapE (allowlist_verdict target) (List.map_filter parse (hp_allowed_targets policy))) (\<lambda>verdicts.
        if list_ex (\<lambda>matches. matches) verdicts then Inr ()
        else Inl (HttpTargetNotAllowed (trim_end_matches (CHR ''/'') (u_text target)))))"

section \<open>File system roots\<close>

text \<open>
  \<open>Path::components\<close> on Unix: repeated separators and \<open>.\<close> are skipped, except a leading \<open>.\<close>; nothing is
  resolved. Paths are compared, and \<open>starts_with\<close> is decided, component by component.
\<close>

datatype path_component = RootDir | CurDir | ParentDir | Normal string

definition segment_component :: "string \<Rightarrow> path_component" where
  "segment_component s = (if s = ''..'' then ParentDir else Normal s)"

definition path_components :: "string \<Rightarrow> path_component list" where
  "path_components p =
     (let segments = split_char (CHR ''/'') p;
          leading = (if starts_with p ''/'' then [RootDir] else if hd segments = ''.'' then [CurDir] else [])
      in leading @ map segment_component (filter (\<lambda>s. s \<noteq> [] \<and> s \<noteq> ''.'') segments))"

definition path_starts_with :: "string \<Rightarrow> string \<Rightarrow> bool" where
  "path_starts_with child parent \<longleftrightarrow> prefix (path_components parent) (path_components child)"

definition path_within :: "string \<Rightarrow> string \<Rightarrow> bool" where
  "path_within parent child \<longleftrightarrow> path_components child = path_components parent \<or> path_starts_with child parent"

definition validate_filesystem_root :: "string \<Rightarrow> string list \<Rightarrow> policy_violation + unit" where
  "validate_filesystem_root candidate_root allowed_roots =
     (if allowed_roots = [] then Inl FilesystemRootsMissing
      else if list_ex (\<lambda>allowed_root. path_within allowed_root candidate_root) allowed_roots then Inr ()
      else Inl (FilesystemRootNotAllowed candidate_root))"

definition validate_file_size :: "64 word \<Rightarrow> 64 word \<Rightarrow> policy_violation + unit" where
  "validate_file_size size_bytes limit_bytes =
     (if size_bytes \<le> limit_bytes then Inr () else Inl (FileTooLarge size_bytes limit_bytes))"

section \<open>Scopes end at segment boundaries\<close>

lemma split_char_append:
  "split_char sep (s @ sep # t) = split_char sep s @ split_char sep t"
proof (induction s)
  case (Cons c s)
  obtain x xs where "split_char sep s = x # xs" by (cases "split_char sep s") auto
  with Cons show ?case by simp
qed simp

lemma join_append:
  "xs \<noteq> [] \<Longrightarrow> ys \<noteq> [] \<Longrightarrow> join [sep] (xs @ ys) = join [sep] xs @ sep # join [sep] ys"
proof (induction xs)
  case (Cons x xs)
  then show ?case by (cases xs; cases ys) auto
qed simp

lemma prefix_segments:
  "prefix (split_char sep a) (split_char sep t) \<longleftrightarrow> t = a \<or> (\<exists>rest. t = a @ sep # rest)"
proof
  assume "prefix (split_char sep a) (split_char sep t)"
  then obtain more where more: "split_char sep t = split_char sep a @ more" by (auto elim: prefixE)
  show "t = a \<or> (\<exists>rest. t = a @ sep # rest)"
  proof (cases more)
    case Nil
    with more have "join [sep] (split_char sep t) = join [sep] (split_char sep a)" by simp
    then show ?thesis unfolding split_char_join by blast
  next
    case (Cons m ms)
    then have "join [sep] (split_char sep t) = a @ sep # join [sep] more"
      unfolding more by (subst join_append) (simp_all add: split_char_join)
    then show ?thesis unfolding split_char_join by blast
  qed
qed (auto simp: split_char_append)

lemma strip_prefix_same [simp]: "strip_prefix a (a @ b) = Some b"
  by (simp add: strip_prefix_Some)

lemma scope_is_segment_prefix:
  "path_matches_allowlisted_scope t a \<longleftrightarrow>
     a = [] \<or> a = ''/'' \<or> prefix (split_char (CHR ''/'') a) (split_char (CHR ''/'') t)"
  by (auto simp: path_matches_allowlisted_scope_def prefix_segments strip_prefix_Some starts_with_append
      split: option.splits)

lemma mapE_verdicts:
  "mapE (allowlist_verdict target) urls =
    (case List.find has_embedded_credentials urls of
       None \<Rightarrow> Inr (map (url_matches_allowlisted_scope target) urls)
     | Some u \<Rightarrow> Inl (HttpTargetHasCredentials (trim_end_matches (CHR ''/'') (u_text u))))"
  by (induction urls) (auto simp: allowlist_verdict_def split: option.splits)

definition covers :: "url \<Rightarrow> url \<Rightarrow> bool" where
  "covers allowed target \<longleftrightarrow>
     u_scheme target = u_scheme allowed \<and> u_host target = u_host allowed
   \<and> u_port_or_default target = u_port_or_default allowed
   \<and> (u_path allowed \<in> {[], ''/''} \<or>
      prefix (split_char (CHR ''/'') (u_path allowed)) (split_char (CHR ''/'') (u_path target)))
   \<and> u_query allowed \<in> {None, u_query target} \<and> u_fragment allowed \<in> {None, u_fragment target}"

lemma url_matches_covers: "url_matches_allowlisted_scope target allowed \<longleftrightarrow> covers allowed target"
  by (auto simp: url_matches_allowlisted_scope_def covers_def scope_is_segment_prefix schemes_match_def hosts_match_def
      ports_match_def queries_match_def fragments_match_def)

lemma set_map_filter_parse: "set (List.map_filter parse xs) = {u. \<exists>x \<in> set xs. parse x = Some u}"
  by (force simp: List.map_filter_def)

text \<open>
  Claim C40. A target is allowed exactly when it carries no credentials, is not plain HTTP unless that is
  enabled, and some entry of the allowlist covers it: the same scheme, host and port, an entry path
  that is the root or a whole-segment prefix of the target's path, and the query and fragment of the
  entry where it has them. One entry with credentials makes every target fail.
\<close>

theorem http_target_allowed_exact:
  "validate_http_target parse target policy = Inr () \<longleftrightarrow>
     \<not> has_embedded_credentials target
   \<and> \<not> (u_scheme target = ''http'' \<and> \<not> hp_allow_plaintext_http policy)
   \<and> \<not> (\<exists>entry u. entry \<in> set (hp_allowed_targets policy) \<and> parse entry = Some u \<and> has_embedded_credentials u)
   \<and> (\<exists>entry u. entry \<in> set (hp_allowed_targets policy) \<and> parse entry = Some u \<and> covers u target)"
proof -
  let ?urls = "List.map_filter parse (hp_allowed_targets policy)"
  have "validate_http_target parse target policy = Inr () \<longleftrightarrow>
      \<not> has_embedded_credentials target
    \<and> \<not> (u_scheme target = ''http'' \<and> \<not> hp_allow_plaintext_http policy)
    \<and> List.find has_embedded_credentials ?urls = None \<and> (\<exists>u \<in> set ?urls. covers u target)"
    by (cases "List.find has_embedded_credentials ?urls")
      (auto simp: validate_http_target_def mapE_verdicts list_ex_iff url_matches_covers)
  then show ?thesis by (auto simp: find_None_iff set_map_filter_parse)
qed

text \<open>
  A root is accepted exactly when its components extend those of an allowed root, so
  \<open>/data2\<close> is not inside \<open>/data\<close>; with no roots configured every candidate is refused.
\<close>

lemma filesystem_root_exact:
  "validate_filesystem_root candidate roots =
    (if roots = [] then Inl FilesystemRootsMissing
     else if \<exists>root \<in> set roots. \<exists>below. path_components candidate = path_components root @ below then Inr ()
     else Inl (FilesystemRootNotAllowed candidate))"
  by (auto simp: validate_filesystem_root_def list_ex_iff path_within_def path_starts_with_def prefix_def)

end
