(* ===== verification/Spec2Isabelle.thy ===== *)
theory Spec2Isabelle
  imports GraphProperties RunProperties LifecycleProperties EntityProperties DiscoveryProperties RunnableProperties
    WorkflowResults AccountRefinement AccountProxyProperties EmbeddingBreaker HttpPolicy
begin

text \<open>
  Verification of Elegy: the planning plugin (\<open>src/plugins/planning/src\<close>), the accounts daemon
  (\<open>src/plugins/accounts/crates/elegy-accountd/src\<close>), the circuit breaker of the memory plugin
  (\<open>src/plugins/memory/src/embedding/circuit_breaker.rs\<close>) and the access policy of the shared adapters
  (\<open>src/shared/policy/src/lib.rs\<close>).

  \<^bold>\<open>Planning.\<close> The planning plugin keeps a durable plan of a project in one SQLite file: goals,
  roadmaps, work points, plans, todos, issues, reviews, insights, project runs with leases, and a typed
  graph of nodes and edges. Every write is one transaction of \<open>storage.rs\<close> that checks its input, changes
  the tables, appends an event to \<open>planning_events\<close> and refreshes the validation findings
  (\<open>validation.rs\<close>).
  \<^item> \<open>Prelude\<close>: the error monad, Rust's string functions, stable sorting, keyed rows, and the
    interfaces \<open>row_table\<close>, \<open>string_enum\<close>, \<open>invariant_system\<close>. \<open>Json\<close>: JSON values.
  \<^item> \<open>PlanningEnums\<close>, \<open>PlanningModel\<close>: \<open>model.rs\<close> and \<open>error.rs\<close>; an enumeration is a datatype that
    interprets \<open>string_enum\<close>, a struct is a record with the fields of the source.
  \<^item> \<open>PlanningStore\<close>: the store as one record with a list of rows per table, and the helpers of
    \<open>storage.rs\<close> (\<open>load_*\<close>, \<open>ensure_*\<close>, \<open>build_event\<close>, \<open>append_event\<close>,
    \<open>rebuild_tag_index_for_entity\<close>, \<open>persist_validation_findings\<close>).
  \<^item> \<open>GraphCycle\<close>: edge queries, \<open>validate_edge_kind_pair\<close> and the depth-first searches; the
    interface \<open>cycle_guard\<close> and the graph invariant \<open>graph_inv\<close>. \<open>Validation\<close>: every validator of
    \<open>validation.rs\<close>. \<open>GraphStore\<close>: the graph operations of \<open>storage.rs\<close>. \<open>GraphInvariant\<close>,
    \<open>GraphProperties\<close>: what they keep and decide.
  \<^item> \<open>Session\<close>: the session file of \<open>session.rs\<close>. \<open>ProjectRuns\<close>: claims, activations, heartbeats, releases
    and evidence of project runs, on the pair of store and session file. \<open>RunInvariant\<close>,
    \<open>RunProperties\<close>: exclusive leases, fencing, idempotent claims.
  \<^item> \<open>Lifecycle\<close>, \<open>LifecycleProperties\<close>: the transition tables, the interface \<open>lifecycle\<close> and
    \<open>update_status\<close>, which refines the tables.
  \<^item> \<open>Entities\<close>: creation and revision of scopes, goals, roadmaps, work points, plans, todos, issues, review
    points and insights. \<open>EntityTree\<close>: the hierarchy they keep; \<open>EntityRefinement\<close>: they implement an
    abstract hierarchy of ids and references; \<open>EntityProperties\<close>.
  \<^item> \<open>Discovery\<close>, \<open>DiscoveryProperties\<close>: discoveries, decisions and worktrees. \<open>Runnable\<close>,
    \<open>RunnableProperties\<close>: the selection of runnable work points and graph nodes.
  \<^item> \<open>WorkflowView\<close>, \<open>Workflow\<close>, \<open>WorkflowProperties\<close>, \<open>WorkflowResults\<close>: \<open>workflow.rs\<close>, the preparation
    of dispatches and the record of worker results. \<open>Supply\<close>: when the bookkeeping of an operation cannot
    fail.
  \<^item> \<open>EventLog\<close>: the numbering of the event log. \<open>Samples\<close>: the stores of the witnesses.

  An operation takes the environment, the store and its input, and returns an error or the result
  with the new store. An error carries no store, as the transaction is rolled back. The environment
  holds what lies outside the repository: the UUID source, the clock, the parser and printer of times,
  SQLite's \<open>julianday\<close>. Two operations read on a connection of their own before the transaction:
  \<open>prepare_workflow\<close> computes the view (storage.rs:5891) and \<open>satisfy_acceptance\<close> loads the two nodes
  (storage.rs:8066). The model takes both reads from the store the transaction starts with, so it covers the
  runs in which no other process writes in between.

  \<^bold>\<open>Accounts.\<close> The daemon keeps credentials encrypted in a vault, hands clients grants and short leases, and
  calls providers on their behalf so that the secret never reaches the client. Several processes use
  one vault, and a call is several SQL statements: an operation is therefore a program of atomic
  actions (\<open>Resumption\<close>), run alone (\<open>run\<close>) or interleaved with any others (\<open>pool_step\<close>).
  \<^item> \<open>Resumption\<close>: programs, their interleavings, and the interfaces \<open>shared_invariant\<close> and \<open>metered\<close>, which
    carry a fact about each action to every interleaving. \<open>Urls\<close>: parsed URLs and path segments.
  \<^item> \<open>AccountPolicy\<close> (\<open>lib.rs\<close>): the in-memory policy engine, the redactor, the provisioning saga.
    \<open>AccountVault\<close> (\<open>vault.rs\<close>): the tables and the sealing of secrets. \<open>AccountBroker\<close> (\<open>broker.rs\<close>): requests,
    grants, leases, authorization, disconnection. \<open>AccountProtocol\<close> (\<open>protocol.rs\<close>): signed envelopes with a
    replay guard; the two kinds interpret \<open>guarded_verifier\<close>. \<open>AccountProvider\<close> (\<open>provider.rs\<close>): provider packs
    and the resolution of paths. \<open>AccountAdapter\<close> (\<open>adapter.rs\<close>): credential adapters on the network.
    \<open>AccountProxy\<close> (\<open>proxy.rs\<close>, \<open>typed.rs\<close>): authenticated and typed execution.
  \<^item> \<open>AccountInterleaving\<close>: the cases of one atomic action of any process; \<open>AccountInvariant\<close>: they keep the
    vault consistent; \<open>AccountMeter\<close>: what an action may spend; \<open>AccountProperties\<close>: bounded uses of leases,
    revocation, refreshes. \<open>AccountResults\<close>: single calls and the two races. \<open>AccountRefinement\<close>: the broker
    implements the policy engine. \<open>AccountProxyProperties\<close>: where requests go, what responses hide.
    \<open>AccountSamples\<close>: the environment and vaults of the witnesses.

  Parameters are the cipher and the key protector (laws: \<open>sealing_laws\<close>), the hash and the MAC, the printers
  and parsers of times and JSON texts (laws: \<open>text_laws\<close>), the random source, the URL parser and the answers
  of the network.

  \<^bold>\<open>Circuit breaker and policy.\<close> \<open>EmbeddingBreaker\<close>: the breaker as programs on the mutex and on the
  wrapped provider (a call starts and returns in two actions), with the panics of an overflowing \<open>Instant\<close> and of a poisoned mutex. \<open>HttpPolicy\<close>: allowlists of HTTP targets, file system
  roots and file sizes.

  \<^bold>\<open>Bounds.\<close> The searches terminate by a measure, no fuel is needed; the one fuel of the
  development bounds the chain of review points attached to review points by their number
  (\<open>attached_entity_correlation_id\<close>). Machine integers are words or written with their bound where the
  code can reach it; generations of grants and credentials, counted by SQLite, are unbounded.

  \<^bold>\<open>Not modelled.\<close> The command lines and services of the plugins, the rendering of projections, the migrations
  of old database files, the backup and the Windows data protection of the vault; the store, recall and
  evaluation of the memory plugin, which score in floating point over an SQLite vector extension; the
  documentation, desktop and observe plugins, the MCP hosts and the tooling, which read files,
  processes and the Windows API.
\<close>

end
